(* ===== verification/BTree_Map.thy ===== *)
theory BTree_Map
  imports Relay_Prelude
begin

text \<open>
  The ordered map \<open>BTreeMap<K, V>\<close> of the Rust standard library, as a strictly sorted association
  list behind an abstract type: \<open>get\<close>, \<open>insert\<close>, \<open>contains_key\<close>, \<open>values\<close> (in key order), \<open>len\<close>,
  an update in place (\<open>get_mut\<close> followed by assignments) and an update of every value
  (\<open>values_mut\<close>). The locale \<open>ordered_map\<close> states what the components rely on; its lemmas are about
  any map with those laws and are interpreted on this one.
\<close>

fun ins_sorted :: "'k::linorder \<Rightarrow> 'v \<Rightarrow> ('k \<times> 'v) list \<Rightarrow> ('k \<times> 'v) list" where
  "ins_sorted k v [] = [(k, v)]"
| "ins_sorted k v ((k', v') # m) =
     (if k = k' then (k, v) # m else if k < k' then (k, v) # (k', v') # m
      else (k', v') # ins_sorted k v m)"

lemma fst_ins_sorted: "fst ` set (ins_sorted k v m) = insert k (fst ` set m)"
  by (induction k v m rule: ins_sorted.induct) auto

lemma sorted_ins_sorted:
  "sorted_wrt (<) (map fst m) \<Longrightarrow> sorted_wrt (<) (map fst (ins_sorted k v m))"
proof (induction k v m rule: ins_sorted.induct)
  case (1 k v)
  show ?case by simp
next
  case (2 k v k' v' m)
  have fst_in: "fst x = k \<or> fst x \<in> fst ` set m" if "x \<in> set (ins_sorted k v m)" for x
    using fst_ins_sorted [of k v m] that by blast
  show ?case
  proof (cases "k = k' \<or> k < k'")
    case True
    with "2.prems" show ?thesis by auto
  next
    case False
    then have "k' < k" by auto
    with "2.prems" have "\<forall>x\<in>set (ins_sorted k v m). k' < fst x"
      using fst_in by fastforce
    with False "2.prems" "2.IH" show ?thesis by simp
  qed
qed

lemma map_of_ins_sorted: "map_of (ins_sorted k v m) = (map_of m)(k \<mapsto> v)"
  by (induction k v m rule: ins_sorted.induct) (auto simp: fun_eq_iff)

typedef (overloaded) ('k::linorder, 'v) btree =
    "{m :: ('k \<times> 'v) list. sorted_wrt (<) (map fst m)}"
  by (rule exI [of _ "[]"]) simp

setup_lifting type_definition_btree

lift_definition bt_empty :: "('k::linorder, 'v) btree" is "[]"
  by simp

lift_definition bt_insert :: "'k::linorder \<Rightarrow> 'v \<Rightarrow> ('k, 'v) btree \<Rightarrow> ('k, 'v) btree" is ins_sorted
  by (rule sorted_ins_sorted)

lift_definition bt_get :: "('k::linorder, 'v) btree \<Rightarrow> 'k \<Rightarrow> 'v option" is map_of .

lift_definition bt_entries :: "('k::linorder, 'v) btree \<Rightarrow> ('k \<times> 'v) list" is "\<lambda>m. m" .

lift_definition bt_map_values :: "('v \<Rightarrow> 'v) \<Rightarrow> ('k::linorder, 'v) btree \<Rightarrow> ('k, 'v) btree"
  is "\<lambda>f. map (\<lambda>(k, v). (k, f v))"
  by (simp add: split_def comp_def)

definition bt_values :: "('k::linorder, 'v) btree \<Rightarrow> 'v list" where
  "bt_values m = map snd (bt_entries m)"

definition bt_contains :: "('k::linorder, 'v) btree \<Rightarrow> 'k \<Rightarrow> bool" where
  "bt_contains m k \<longleftrightarrow> bt_get m k \<noteq> None"

definition bt_len :: "('k::linorder, 'v) btree \<Rightarrow> nat" where
  "bt_len m = length (bt_entries m)"

instantiation btree :: (linorder, type) equal
begin

definition equal_btree :: "('a, 'b) btree \<Rightarrow> ('a, 'b) btree \<Rightarrow> bool" where
  "equal_btree m n \<longleftrightarrow> bt_entries m = bt_entries n"

instance
  by standard (simp add: equal_btree_def bt_entries.rep_eq Rep_btree_inject)

end

instantiation btree :: (linorder, type) size
begin

definition size_btree :: "('a, 'b) btree \<Rightarrow> nat" where
  "size_btree = bt_len"

instance ..

end

section \<open>The laws\<close>

lemma bt_get_empty [simp]: "bt_get bt_empty k = None"
  by transfer simp

lemma bt_get_insert [simp]:
  "bt_get (bt_insert k v m) k' = (if k' = k then Some v else bt_get m k')"
  by transfer (simp add: map_of_ins_sorted)

lemma bt_get_map_values [simp]: "bt_get (bt_map_values f m) k = map_option f (bt_get m k)"
  by transfer (simp add: map_of_map)

lemma distinct_fst_entries: "distinct (map fst (bt_entries m))"
  by transfer (simp add: strict_sorted_iff)

lemma bt_get_entries: "bt_get m = map_of (bt_entries m)"
  by transfer simp

lemma bt_entries_iff: "(k, v) \<in> set (bt_entries m) \<longleftrightarrow> bt_get m k = Some v"
  by (simp add: bt_get_entries distinct_fst_entries)

lemma in_bt_values [simp]: "v \<in> set (bt_values m) \<longleftrightarrow> (\<exists>k. bt_get m k = Some v)"
  by (force simp: bt_values_def simp flip: bt_entries_iff)

lemma bt_contains_iff: "bt_contains m k \<longleftrightarrow> (\<exists>v. bt_get m k = Some v)"
  by (auto simp: bt_contains_def)

lemma sorted_keys: "sorted_wrt (<) (map fst (bt_entries m))"
  by transfer simp

lemma bt_ext: "(\<And>k. bt_get m k = bt_get n k) \<Longrightarrow> m = n"
proof -
  assume "\<And>k. bt_get m k = bt_get n k"
  then have keys: "(k, v) \<in> set (bt_entries m) \<longleftrightarrow> (k, v) \<in> set (bt_entries n)" for k v
    by (simp add: bt_entries_iff)
  then have entries: "set (bt_entries m) = set (bt_entries n)"
    by auto
  have "inj_on fst (set (bt_entries m) \<union> set (bt_entries n))"
    using entries distinct_fst_entries [of n] by (simp add: distinct_map)
  then have "bt_entries m = bt_entries n"
    using entries sorted_keys [of m] sorted_keys [of n]
    by (intro map_sorted_distinct_set_unique [where f = fst]) (simp_all add: strict_sorted_iff)
  then show "m = n" by (simp add: bt_entries.rep_eq Rep_btree_inject)
qed

lemma bt_insert_same: "bt_get m k = Some v \<Longrightarrow> bt_insert k v m = m"
  by (rule bt_ext) simp

text \<open>An entry above all others comes last.\<close>

lemma bt_entries_insert_last:
  assumes "\<And>j. j \<in> fst ` set (bt_entries m) \<Longrightarrow> j < k"
  shows "bt_entries (bt_insert k v m) = bt_entries m @ [(k, v)]"
  using assms
proof (transfer fixing: k v)
  show "ins_sorted k v m = m @ [(k, v)]" if "\<And>j. j \<in> fst ` set m \<Longrightarrow> j < k" for m
    using that by (induction k v m rule: ins_sorted.induct) force+
qed

section \<open>What the components use of an ordered map\<close>

locale ordered_map =
  fixes empty :: "'m"
    and insert :: "'k \<Rightarrow> 'v \<Rightarrow> 'm \<Rightarrow> 'm"
    and get :: "'m \<Rightarrow> 'k \<Rightarrow> 'v option"
    and vals :: "'m \<Rightarrow> 'v list"
  assumes get_empty: "get empty k = None"
    and get_insert: "get (insert k v m) k' = (if k' = k then Some v else get m k')"
    and vals_get: "v \<in> set (vals m) \<longleftrightarrow> (\<exists>k. get m k = Some v)"
begin

lemma all_empty: "(\<forall>k v. get empty k = Some v \<longrightarrow> P k v)"
  by (simp add: get_empty)

lemma all_insert:
  "(\<And>k v. get m k = Some v \<Longrightarrow> P k v) \<Longrightarrow> P j w \<Longrightarrow> get (insert j w m) k = Some v \<Longrightarrow> P k v"
  by (auto simp: get_insert split: if_splits)

lemma pairwise_insert:
  assumes old: "\<And>a b v w. get m a = Some v \<Longrightarrow> get m b = Some w \<Longrightarrow> a \<noteq> b \<Longrightarrow> R v w"
    and new: "\<And>a v. get m a = Some v \<Longrightarrow> a \<noteq> j \<Longrightarrow> R v x \<and> R x v"
    and a: "get (insert j x m) a = Some v" and b: "get (insert j x m) b = Some w" and "a \<noteq> b"
  shows "R v w"
  using assms by (auto simp: get_insert split: if_splits)

lemma list_ex_vals: "list_ex P (vals m) \<longleftrightarrow> (\<exists>k v. get m k = Some v \<and> P v)"
  by (metis list_ex_iff vals_get)

lemma find_vals_Some: "List.find P (vals m) = Some v \<Longrightarrow> P v \<and> (\<exists>k. get m k = Some v)"
  by (metis find_Some_iff nth_mem vals_get)

lemma find_vals_None: "List.find P (vals m) = None \<longleftrightarrow> (\<forall>k v. get m k = Some v \<longrightarrow> \<not> P v)"
  by (auto simp: find_None_iff vals_get)

end

interpretation bt: ordered_map bt_empty bt_insert bt_get bt_values
  by unfold_locales simp_all

lemmas bt_list_ex [simp] = bt.list_ex_vals
lemmas bt_find_Some = bt.find_vals_Some
lemmas bt_find_None [simp] = bt.find_vals_None

text \<open>Every entry is filed under its own identifier.\<close>

definition keyed :: "('v \<Rightarrow> 'k::linorder) \<Rightarrow> ('k, 'v) btree \<Rightarrow> bool" where
  "keyed f m \<longleftrightarrow> (\<forall>k v. bt_get m k = Some v \<longrightarrow> f v = k)"

lemma keyedD [dest]: "keyed f m \<Longrightarrow> bt_get m k = Some v \<Longrightarrow> f v = k"
  by (simp add: keyed_def)

lemma keyed_empty [simp]: "keyed f bt_empty"
  by (simp add: keyed_def)

lemma keyed_insert [simp]: "keyed f m \<Longrightarrow> keyed f (bt_insert k v m) \<longleftrightarrow> f v = k"
  by (auto simp: keyed_def)

lemma keyed_map_values: "keyed f m \<Longrightarrow> (\<And>v. f (g v) = f v) \<Longrightarrow> keyed f (bt_map_values g m)"
  by (auto simp: keyed_def)

text \<open>A relation between any two entries filed under different keys.\<close>

definition bt_pairwise :: "('v \<Rightarrow> 'v \<Rightarrow> bool) \<Rightarrow> ('k::linorder, 'v) btree \<Rightarrow> bool" where
  "bt_pairwise R m \<longleftrightarrow>
     (\<forall>j k a b. bt_get m j = Some a \<longrightarrow> bt_get m k = Some b \<longrightarrow> j \<noteq> k \<longrightarrow> R a b)"

lemma bt_pairwiseD:
  "bt_pairwise R m \<Longrightarrow> bt_get m j = Some a \<Longrightarrow> bt_get m k = Some b \<Longrightarrow> j \<noteq> k \<Longrightarrow> R a b"
  by (simp add: bt_pairwise_def)

lemma bt_pairwise_empty [simp]: "bt_pairwise R bt_empty"
  by (simp add: bt_pairwise_def)

lemma bt_pairwise_insert:
  assumes "bt_pairwise R m"
    and "\<And>k v. bt_get m k = Some v \<Longrightarrow> k \<noteq> j \<Longrightarrow> R v x \<and> R x v"
  shows "bt_pairwise R (bt_insert j x m)"
  unfolding bt_pairwise_def
proof (intro allI impI)
  fix a b v w
  assume "bt_get (bt_insert j x m) a = Some v" "bt_get (bt_insert j x m) b = Some w" "a \<noteq> b"
  with assms show "R v w"
    by (intro bt.pairwise_insert [of m R j x a v b w]) (auto dest: bt_pairwiseD)
qed

text \<open>Replacing an entry by one that stands in fewer relations keeps them all.\<close>

lemma bt_pairwise_replace:
  assumes "bt_pairwise R m" and "bt_get m j = Some v"
    and "\<And>w. R v w \<Longrightarrow> R x w" and "\<And>w. R w v \<Longrightarrow> R w x"
  shows "bt_pairwise R (bt_insert j x m)"
  using assms by (intro bt_pairwise_insert) (auto dest: bt_pairwiseD)

end
