(* ===== verification/Relay_Error.thy ===== *)
theory Relay_Error
  imports Relay_Prelude
begin

text \<open>
  The error type of the control plane (\<open>src/core/error.rs\<close>) and the text helpers its messages and
  the identifiers use (\<open>src/core/ids.rs\<close>): decimal numbers, ASCII case folding. The errors that wrap
  another library's error (I/O, SQLite, PostgreSQL, TLS, JSON) carry its text.
\<close>

datatype relay_error =
    Io string
  | Database string
  | Postgres string
  | DatabaseTls string
  | Json string
  | OrganizationNotInitialized
  | OrganizationAlreadyInitialized
  | TenantNotInitialized
  | TenantAlreadyInitialized
  | NotFound (entity: string) (missing_id: string)
  | InvalidTransition string
  | ConcurrentModification (expected: int) (actual: int)
  | Validation string
  | PermissionDenied string
  | NoEligibleAssignee string
  | ExecutorUnavailable string
  | ExecutorFailure "int option" string
  | ExecutorTimeout u64
  | InvalidExecutorOutput string
  | InvalidWorkspace string
  | ExternalConnector string

type_synonym 'a result = "relay_error + 'a"

section \<open>Numbers and text in messages\<close>

definition digit_char :: "nat \<Rightarrow> char" where
  "digit_char n = char_of (48 + n mod 10)"

fun show_nat :: "nat \<Rightarrow> string" where
  "show_nat n = (if n < 10 then [digit_char n] else show_nat (n div 10) @ [digit_char n])"

declare show_nat.simps [simp del]

fun digits_value :: "string \<Rightarrow> nat" where
  "digits_value s = foldl (\<lambda>v c. 10 * v + (nat (of_char c) - 48)) 0 s"

lemma digits_value_show_nat: "digits_value (show_nat n) = n"
proof (induction n rule: show_nat.induct)
  case (1 n)
  have "nat (of_char (digit_char k)) - 48 = k mod 10" for k
    using mod_less_divisor [of 10 k] by (simp add: digit_char_def del: mod_less_divisor)
  with 1 show ?case by (subst show_nat.simps) auto
qed

lemma show_nat_inject [simp]: "show_nat m = show_nat n \<longleftrightarrow> m = n"
  by (metis digits_value_show_nat)

definition show_int :: "int \<Rightarrow> string" where
  "show_int i = (if i < 0 then CHR ''-'' # show_nat (nat (- i)) else show_nat (nat i))"

text \<open>\<open>to_ascii_lowercase\<close> and \<open>eq_ignore_ascii_case\<close>: only the bytes \<open>A\<close> to \<open>Z\<close> are folded.\<close>

definition ascii_lower :: "char \<Rightarrow> char" where
  "ascii_lower c = (if 65 \<le> (of_char c :: int) \<and> (of_char c :: int) \<le> 90
     then char_of ((of_char c :: int) + 32) else c)"

definition to_ascii_lowercase :: "string \<Rightarrow> string" where
  "to_ascii_lowercase s = map ascii_lower s"

definition eq_ignore_ascii_case :: "string \<Rightarrow> string \<Rightarrow> bool" where
  "eq_ignore_ascii_case s t \<longleftrightarrow> to_ascii_lowercase s = to_ascii_lowercase t"

lemma eq_ignore_ascii_case_refl [simp]: "eq_ignore_ascii_case s s"
  by (simp add: eq_ignore_ascii_case_def)

lemma eq_ignore_ascii_case_sym: "eq_ignore_ascii_case s t \<longleftrightarrow> eq_ignore_ascii_case t s"
  by (auto simp: eq_ignore_ascii_case_def)

lemma eq_ignore_ascii_case_trans:
  "eq_ignore_ascii_case s t \<Longrightarrow> eq_ignore_ascii_case t u \<Longrightarrow> eq_ignore_ascii_case s u"
  by (simp add: eq_ignore_ascii_case_def)

text \<open>\<open>[String]::join\<close> with a separator, and \<open>starts_with\<close>.\<close>

fun join_with :: "string \<Rightarrow> string list \<Rightarrow> string" where
  "join_with sep [] = []"
| "join_with sep [s] = s"
| "join_with sep (s # t # ts) = s @ sep @ join_with sep (t # ts)"

fun starts_with :: "string \<Rightarrow> string \<Rightarrow> bool" where
  "starts_with s [] = True"
| "starts_with [] (p # ps) = False"
| "starts_with (c # s) (p # ps) \<longleftrightarrow> c = p \<and> starts_with s ps"

lemma starts_with_append: "starts_with (p @ s) p"
  by (induction p) simp_all

lemma starts_with_iff: "starts_with s p \<longleftrightarrow> (\<exists>t. s = p @ t)"
  by (induction s p rule: starts_with.induct) auto

text \<open>\<open>str::split\<close> on one byte keeps the empty pieces.\<close>

fun split_on :: "char \<Rightarrow> string \<Rightarrow> string list" where
  "split_on d [] = [[]]"
| "split_on d (c # cs) =
     (if c = d then [] # split_on d cs
      else case split_on d cs of [] \<Rightarrow> [[c]] | p # ps \<Rightarrow> (c # p) # ps)"

lemma split_on_not_Nil [simp]: "split_on d s \<noteq> []"
  by (induction s) (auto split: list.splits)

lemma join_split_on: "join_with [d] (split_on d s) = s"
proof (induction s)
  case (Cons c cs)
  obtain p ps where ps: "split_on d cs = p # ps" by (cases "split_on d cs") auto
  with Cons show ?case by (cases ps) auto
qed simp

lemma split_on_free: "d \<notin> set s \<Longrightarrow> split_on d s = [s]"
  by (induction s) auto

lemma split_on_append: "d \<notin> set s \<Longrightarrow> split_on d (s @ d # t) = s # split_on d t"
  by (induction s) auto

lemma split_on_join:
  "ss \<noteq> [] \<Longrightarrow> (\<And>s. s \<in> set ss \<Longrightarrow> d \<notin> set s) \<Longrightarrow> split_on d (join_with [d] ss) = ss"
proof (induction "[d]" ss rule: join_with.induct)
  case (2 s)
  then show ?case by (simp add: split_on_free)
next
  case (3 s t ts)
  then show ?case by (simp add: split_on_append)
qed simp

text \<open>A not-found error is what a failed lookup returns, and never anything else.\<close>

definition found :: "string \<Rightarrow> string \<Rightarrow> 'a option \<Rightarrow> 'a result" where
  "found what key x = ok_or x (NotFound what key)"

lemma found_Inr_iff [simp]: "found what key x = Inr y \<longleftrightarrow> x = Some y"
  by (simp add: found_def)

lemma found_Inl_iff [simp]: "found what key x = Inl e \<longleftrightarrow> x = None \<and> e = NotFound what key"
  by (simp add: found_def)

lemma found_simps [simp]:
  "found what key None = Inl (NotFound what key)"
  "found what key (Some x) = Inr x"
  by (simp_all add: found_def)

end
