(* ===== verification/Domain_Org.thy ===== *)
theory Domain_Org
  imports BTree_Map Relay_Error
begin

text \<open>
  The organization half of the domain model (first part of \<open>src/core/domain.rs\<close>): tenant,
  organization, teams, repositories, planning requests, principals, roles, calendars,
  notifications, external identities and interactions, API credentials. Every struct is a record
  whose fields carry the record's name as a prefix, every enum a datatype with the source's
  variants, read qualified (\<open>planning_status.Failed\<close>) where two enums share a variant.
\<close>

section \<open>Tenant, organization, teams\<close>

record tenant =
  tenant_id :: string
  tenant_name :: string
  tenant_created_at :: instant

record organization =
  organization_id :: string
  organization_name :: string
  organization_created_at :: instant

record team =
  team_id :: string
  team_name :: string
  team_capabilities :: "string list"
  team_directory_external_id :: "string option"
  team_active :: bool
  team_created_at :: instant

section \<open>Demands and planning requests\<close>

record demand =
  demand_id :: string
  demand_flow_id :: string
  demand_requester :: string
  demand_summary :: string
  demand_created_at :: instant

datatype planning_status = Queued | Claimed | Planned | Failed

record planning_request =
  planning_id :: string
  planning_flow_id :: string
  planning_demand :: demand
  planning_requester :: string
  planning_repository_id :: "string option"
  planning_planner :: string
  planning_prompt :: string
  planning_status :: planning_status
  planning_claimed_by :: "string option"
  planning_claimed_at :: "instant option"
  planning_lease_expires_at :: "instant option"
  planning_attempt :: u32
  planning_error :: "string option"
  planning_created_at :: instant
  planning_settled_at :: "instant option"

record provider_credential =
  provider_credential_provider :: string
  provider_credential_base_url :: "string option"
  provider_credential_model :: "string option"
  provider_credential_api_key :: string
  provider_credential_updated_at :: instant

section \<open>Repositories\<close>

record repository =
  repository_id :: string
  repository_name :: string
  repository_gitlab_project_path :: string
  repository_default_branch :: string
  repository_active :: bool
  repository_registered_by :: string
  repository_created_at :: instant

record repository_ref =
  repository_ref_id :: string
  repository_ref_name :: string
  repository_ref_gitlab_project_path :: string
  repository_ref_branch :: string

section \<open>Principals and roles\<close>

datatype principal_kind = Human | Agent

datatype organization_role = TenantAdmin | OrganizationAdmin | Manager | Member | Auditor | Agent

fun show_organization_role :: "organization_role \<Rightarrow> string" where
  "show_organization_role TenantAdmin = ''tenant_admin''"
| "show_organization_role OrganizationAdmin = ''organization_admin''"
| "show_organization_role Manager = ''manager''"
| "show_organization_role Member = ''member''"
| "show_organization_role Auditor = ''auditor''"
| "show_organization_role organization_role.Agent = ''agent''"

text \<open>The derived \<open>Ord\<close> of an enum compares the positions of the variants.\<close>

fun role_rank :: "organization_role \<Rightarrow> nat" where
  "role_rank TenantAdmin = 0"
| "role_rank OrganizationAdmin = 1"
| "role_rank Manager = 2"
| "role_rank Member = 3"
| "role_rank Auditor = 4"
| "role_rank organization_role.Agent = 5"

lemma role_rank_inject [simp]: "role_rank a = role_rank b \<longleftrightarrow> a = b"
  by (cases a; cases b) simp_all

instantiation organization_role :: linorder
begin

definition less_eq_organization_role :: "organization_role \<Rightarrow> organization_role \<Rightarrow> bool" where
  "less_eq_organization_role a b \<longleftrightarrow> role_rank a \<le> role_rank b"

definition less_organization_role :: "organization_role \<Rightarrow> organization_role \<Rightarrow> bool" where
  "less_organization_role a b \<longleftrightarrow> role_rank a < role_rank b"

instance
  by standard (auto simp: less_eq_organization_role_def less_organization_role_def)

end

record role_binding =
  role_binding_id :: string
  role_binding_tenant_id :: string
  role_binding_organization_id :: string
  role_binding_principal_id :: string
  role_binding_role :: organization_role
  role_binding_granted_by :: string
  role_binding_granted_at :: instant
  role_binding_revoked_by :: "string option"
  role_binding_revoked_at :: "instant option"

definition role_binding_is_active :: "role_binding \<Rightarrow> bool" where
  "role_binding_is_active b \<longleftrightarrow> role_binding_revoked_at b = None"

datatype executor_kind = ClaudeCode | Codex

fun show_executor_kind :: "executor_kind \<Rightarrow> string" where
  "show_executor_kind ClaudeCode = ''claude-code''"
| "show_executor_kind Codex = ''codex''"

record executor_config =
  executor_config_kind :: executor_kind
  executor_config_workspace :: string
  executor_config_model :: "string option"
  executor_config_command :: "string option"

record principal =
  principal_id :: string
  principal_name :: string
  principal_directory_username :: "string option"
  principal_kind :: principal_kind
  principal_team_id :: "string option"
  principal_owner_id :: "string option"
  principal_capabilities :: "string list"
  principal_capacity_percent :: u8
  principal_executor :: "executor_config option"
  principal_active :: bool
  principal_created_at :: instant

section \<open>Work calendars\<close>

datatype workday = Monday | Tuesday | Wednesday | Thursday | Friday | Saturday | Sunday

fun workday_rank :: "workday \<Rightarrow> nat" where
  "workday_rank Monday = 0"
| "workday_rank Tuesday = 1"
| "workday_rank Wednesday = 2"
| "workday_rank Thursday = 3"
| "workday_rank Friday = 4"
| "workday_rank Saturday = 5"
| "workday_rank Sunday = 6"

lemma workday_rank_inject [simp]: "workday_rank a = workday_rank b \<longleftrightarrow> a = b"
  by (cases a; cases b) simp_all

instantiation workday :: linorder
begin

definition less_eq_workday :: "workday \<Rightarrow> workday \<Rightarrow> bool" where
  "less_eq_workday a b \<longleftrightarrow> workday_rank a \<le> workday_rank b"

definition less_workday :: "workday \<Rightarrow> workday \<Rightarrow> bool" where
  "less_workday a b \<longleftrightarrow> workday_rank a < workday_rank b"

instance
  by standard (auto simp: less_eq_workday_def less_workday_def)

end

record availability_block =
  block_id :: string
  block_principal_id :: string
  block_starts_at :: instant
  block_ends_at :: instant
  block_reason :: string
  block_created_by :: string
  block_created_at :: instant
  block_cancelled_by :: "string option"
  block_cancelled_at :: "instant option"

definition block_is_active :: "availability_block \<Rightarrow> bool" where
  "block_is_active b \<longleftrightarrow> block_cancelled_at b = None"

record work_calendar =
  calendar_principal_id :: string
  calendar_utc_offset_minutes :: int
  calendar_working_days :: "workday list"
  calendar_day_start_minute :: nat
  calendar_day_end_minute :: nat
  calendar_time_off :: "availability_block list"
  calendar_updated_by :: string
  calendar_updated_at :: instant

definition always_available :: "string \<Rightarrow> instant \<Rightarrow> work_calendar" where
  "always_available pid created_at =
     \<lparr>calendar_principal_id = pid,
      calendar_utc_offset_minutes = 0,
      calendar_working_days =
        [Monday, Tuesday, Wednesday, Thursday, Friday, Saturday, Sunday],
      calendar_day_start_minute = 0,
      calendar_day_end_minute = 24 * 60,
      calendar_time_off = [],
      calendar_updated_by = ''system'',
      calendar_updated_at = created_at\<rparr>"

section \<open>Notifications\<close>

datatype notification_connector = Generic | Feishu | Slack | Teams

fun connector_as_str :: "notification_connector \<Rightarrow> string" where
  "connector_as_str Generic = ''generic''"
| "connector_as_str Feishu = ''feishu''"
| "connector_as_str Slack = ''slack''"
| "connector_as_str Teams = ''teams''"

record notification_endpoint =
  endpoint_id :: string
  endpoint_name :: string
  endpoint_connector :: notification_connector
  endpoint_url_env :: "string option"
  endpoint_url :: string
  endpoint_event_kinds :: "string list"
  endpoint_secret_env :: string
  endpoint_active :: bool
  endpoint_created_by :: string
  endpoint_created_at :: instant
  endpoint_disabled_by :: "string option"
  endpoint_disabled_at :: "instant option"

datatype notification_status = Pending | Delivered | Failed | Cancelled

text \<open>
  The payload of a delivery is a JSON document (\<open>serde_json::Value\<close>) that the state only carries;
  it is kept as its text.
\<close>

type_synonym json_text = string

record notification_delivery =
  delivery_id :: string
  delivery_organization_id :: string
  delivery_endpoint_id :: string
  delivery_source_event_kind :: string
  delivery_flow_id :: "string option"
  delivery_actor :: string
  delivery_payload :: json_text
  delivery_status :: notification_status
  delivery_attempts :: u32
  delivery_queued_at :: instant
  delivery_last_attempt_at :: "instant option"
  delivery_delivered_at :: "instant option"
  delivery_response_status :: "u16 option"
  delivery_last_error :: "string option"

section \<open>External identities and interactions\<close>

record external_identity_binding =
  identity_id :: string
  identity_provider :: string
  identity_external_user_id :: string
  identity_principal_id :: string
  identity_bound_by :: string
  identity_bound_at :: instant
  identity_unbound_by :: "string option"
  identity_unbound_at :: "instant option"

definition identity_is_active :: "external_identity_binding \<Rightarrow> bool" where
  "identity_is_active b \<longleftrightarrow> identity_unbound_at b = None"

datatype external_interaction_action = TaskAccept | TaskReject | MessageAck | EscalationAck

fun interaction_action_as_str :: "external_interaction_action \<Rightarrow> string" where
  "interaction_action_as_str TaskAccept = ''task.accept''"
| "interaction_action_as_str TaskReject = ''task.reject''"
| "interaction_action_as_str MessageAck = ''message.ack''"
| "interaction_action_as_str EscalationAck = ''escalation.ack''"

record external_interaction_receipt =
  receipt_id :: string
  receipt_provider :: string
  receipt_delivery_id :: string
  receipt_external_user_id :: string
  receipt_principal_id :: string
  receipt_action :: external_interaction_action
  receipt_target_id :: string
  receipt_reason :: "string option"
  receipt_flow_id :: "string option"
  receipt_processed_at :: instant

record external_interaction_result =
  interaction_duplicate :: bool
  interaction_receipt :: external_interaction_receipt

section \<open>API credentials\<close>

record api_credential =
  credential_id :: string
  credential_principal_id :: string
  credential_label :: string
  credential_created_at :: instant
  credential_expires_at :: "instant option"
  credential_revoked_at :: "instant option"

definition credential_is_active_at :: "api_credential \<Rightarrow> instant \<Rightarrow> bool" where
  "credential_is_active_at c now \<longleftrightarrow>
     credential_revoked_at c = None \<and>
     (case credential_expires_at c of None \<Rightarrow> True | Some expires_at \<Rightarrow> now < expires_at)"

record issued_credential =
  issued_credential :: api_credential
  issued_token :: string

end
