(* ===== verification/Domain_Flow.thy ===== *)
theory Domain_Flow
  imports Domain_Org
begin

text \<open>
  The work half of the domain model (middle part of \<open>src/core/domain.rs\<close>): product drafts, tasks
  with their assignment, estimate and evidence, flows, schedule revisions, change requests, flow
  messages, tracking attentions and escalations, execution records.
\<close>

section \<open>Drafts\<close>

record prd_draft =
  prd_title :: string
  prd_summary :: string
  prd_goals :: "string list"
  prd_non_goals :: "string list"
  prd_acceptance_criteria :: "string list"

record task_draft =
  task_draft_key :: string
  task_draft_title :: string
  task_draft_description :: string
  task_draft_required_capabilities :: "string list"
  task_draft_depends_on :: "string list"
  task_draft_effort_hours :: f64
  task_draft_requires_human :: bool
  task_draft_acceptance_criteria :: "string list"

record plan_draft =
  plan_draft_prd :: prd_draft
  plan_draft_tasks :: "task_draft list"

section \<open>Assignments and estimates\<close>

datatype target_kind = Human | Agent | Team

record assignment_target =
  target_kind :: target_kind
  target_id :: string
  target_name :: string

record assignment =
  assignment_owner :: assignment_target
  assignment_copilots :: "assignment_target list"
  assignment_score :: f64
  assignment_rationale :: "string list"

text \<open>
  The derived \<open>PartialEq\<close> compares the score as a float: an assignment whose score is a NaN differs
  from itself.
\<close>

definition assignment_eq :: "assignment \<Rightarrow> assignment \<Rightarrow> bool" where
  "assignment_eq a b \<longleftrightarrow>
     assignment_owner a = assignment_owner b \<and>
     assignment_copilots a = assignment_copilots b \<and>
     f64_eq (assignment_score a) (assignment_score b) \<and>
     assignment_rationale a = assignment_rationale b"

fun option_eq :: "('a \<Rightarrow> 'b \<Rightarrow> bool) \<Rightarrow> 'a option \<Rightarrow> 'b option \<Rightarrow> bool" where
  "option_eq eq None None = True"
| "option_eq eq (Some a) (Some b) = eq a b"
| "option_eq eq _ _ = False"

record estimate =
  estimate_effort_hours :: f64
  estimate_p50_hours :: f64
  estimate_p80_hours :: f64
  estimate_confidence :: string
  estimate_rationale :: "string list"
  estimate_earliest_start :: instant
  estimate_p50_finish :: instant
  estimate_p80_finish :: instant

section \<open>Tasks\<close>

datatype task_status =
    Proposed | Assigned | Accepted | InProgress | Blocked | Submitted | Completed | Rejected
  | Cancelled

definition task_status_is_terminal :: "task_status \<Rightarrow> bool" where
  "task_status_is_terminal st \<longleftrightarrow>
     (case st of Completed \<Rightarrow> True | Rejected \<Rightarrow> True | Cancelled \<Rightarrow> True | _ \<Rightarrow> False)"

fun debug_task_status :: "task_status \<Rightarrow> string" where
  "debug_task_status Proposed = ''Proposed''"
| "debug_task_status Assigned = ''Assigned''"
| "debug_task_status Accepted = ''Accepted''"
| "debug_task_status InProgress = ''InProgress''"
| "debug_task_status Blocked = ''Blocked''"
| "debug_task_status Submitted = ''Submitted''"
| "debug_task_status Completed = ''Completed''"
| "debug_task_status Rejected = ''Rejected''"
| "debug_task_status Cancelled = ''Cancelled''"

record evidence =
  evidence_id :: string
  evidence_kind :: string
  evidence_uri :: string
  evidence_summary :: string
  evidence_created_by :: string
  evidence_created_at :: instant

record external_artifact =
  artifact_id :: string
  artifact_provider :: string
  artifact_kind :: string
  artifact_project :: string
  artifact_external_id :: string
  artifact_parent_id :: "string option"
  artifact_title :: string
  artifact_url :: string
  artifact_status :: string
  artifact_revision :: "string option"
  artifact_verified :: bool
  artifact_synced_at :: instant

definition same_snapshot :: "external_artifact \<Rightarrow> external_artifact \<Rightarrow> bool" where
  "same_snapshot a b \<longleftrightarrow>
     artifact_id a = artifact_id b \<and>
     artifact_provider a = artifact_provider b \<and>
     artifact_kind a = artifact_kind b \<and>
     artifact_project a = artifact_project b \<and>
     artifact_external_id a = artifact_external_id b \<and>
     artifact_parent_id a = artifact_parent_id b \<and>
     artifact_title a = artifact_title b \<and>
     artifact_url a = artifact_url b \<and>
     artifact_status a = artifact_status b \<and>
     artifact_revision a = artifact_revision b \<and>
     artifact_verified a = artifact_verified b"

record task =
  task_id :: string
  task_key :: string
  task_title :: string
  task_description :: string
  task_required_capabilities :: "string list"
  task_depends_on :: "string list"
  task_requires_human :: bool
  task_acceptance_criteria :: "string list"
  task_assignment :: "assignment option"
  task_estimate :: estimate
  task_status :: task_status
  task_blocker :: "string option"
  task_last_heartbeat :: "instant option"
  task_evidence :: "evidence list"
  task_external_artifacts :: "external_artifact list"

section \<open>Flows\<close>

datatype flow_status = Draft | Approved | Active | Completed | Cancelled

record flow =
  flow_id :: string
  flow_repository_id :: "string option"
  flow_demand :: demand
  flow_prd :: prd_draft
  flow_tasks :: "task list"
  flow_status :: flow_status
  flow_planner :: string
  flow_p50_finish :: instant
  flow_p80_finish :: instant
  flow_critical_path :: "string list"
  flow_created_at :: instant
  flow_approved_at :: "instant option"
  flow_completed_at :: "instant option"

text \<open>\<open>Flow::task\<close> and \<open>Flow::task_mut\<close>: the first task with that identifier or key.\<close>

definition task_matches :: "string \<Rightarrow> task \<Rightarrow> bool" where
  "task_matches tid t \<longleftrightarrow> task_id t = tid \<or> task_key t = tid"

definition flow_task :: "flow \<Rightarrow> string \<Rightarrow> task option" where
  "flow_task f tid = List.find (task_matches tid) (flow_tasks f)"

text \<open>
  A write through the reference that \<open>iter_mut().find(..)\<close> returns replaces the first match in
  place.
\<close>

fun update_first :: "('a \<Rightarrow> bool) \<Rightarrow> ('a \<Rightarrow> 'a) \<Rightarrow> 'a list \<Rightarrow> 'a list" where
  "update_first P g [] = []"
| "update_first P g (x # xs) = (if P x then g x # xs else x # update_first P g xs)"

definition flow_update_task :: "string \<Rightarrow> (task \<Rightarrow> task) \<Rightarrow> flow \<Rightarrow> flow" where
  "flow_update_task tid g f = f\<lparr>flow_tasks := update_first (task_matches tid) g (flow_tasks f)\<rparr>"

lemma length_update_first [simp]: "length (update_first P g xs) = length xs"
  by (induction xs) simp_all

lemma update_first_id: "(\<forall>x\<in>set xs. \<not> P x) \<Longrightarrow> update_first P g xs = xs"
  by (induction xs) simp_all

lemma map_update_first: "(\<And>x. h (g x) = h x) \<Longrightarrow> map h (update_first P g xs) = map h xs"
  by (induction xs) simp_all

lemma in_update_first: "y \<in> set (update_first P g xs) \<Longrightarrow> y \<in> set xs \<or> (\<exists>x\<in>set xs. P x \<and> y = g x)"
  by (induction xs) (auto split: if_splits)

lemma find_update_first:
  assumes "\<And>x. P x \<Longrightarrow> P (g x)"
  shows "List.find P (update_first P g xs) = map_option g (List.find P xs)"
  using assms by (induction xs) simp_all

lemma find_update_first_other:
  assumes "\<And>x. Q (g x) \<longleftrightarrow> Q x" and "\<And>x. P x \<Longrightarrow> \<not> Q x"
  shows "List.find Q (update_first P g xs) = List.find Q xs"
  using assms by (induction xs) auto

lemma find_split:
  "List.find P xs = Some x \<longleftrightarrow> (\<exists>ys zs. xs = ys @ x # zs \<and> P x \<and> (\<forall>y\<in>set ys. \<not> P y))"
proof (induction xs)
  case Nil
  then show ?case by simp
next
  case (Cons a xs)
  show ?case
  proof (cases "P a")
    case True
    then show ?thesis
      by (auto simp: Cons_eq_append_conv)
  next
    case False
    with Cons show ?thesis
      by (auto simp: Cons_eq_append_conv) (metis set_ConsD)+
  qed
qed

record flow_schedule_revision =
  revision_task_estimates :: "(string, estimate) btree"
  revision_p50_finish :: instant
  revision_p80_finish :: instant
  revision_critical_path :: "string list"
  revision_reason :: string
  revision_revised_by :: string
  revision_revised_at :: instant

datatype flow_change_status = Proposed | Applied | Rejected

record flow_change_impact =
  impact_added_task_ids :: "string list"
  impact_added_task_titles :: "string list"
  impact_affected_task_ids :: "string list"
  impact_official_p80_finish :: instant
  impact_baseline_p80_finish :: instant
  impact_proposed_p80_finish :: instant
  impact_baseline_p80_delta_hours :: f64
  impact_scope_p80_delta_hours :: f64
  impact_net_p80_delta_hours :: f64
  impact_risks :: "string list"

record flow_change_request =
  change_id :: string
  change_flow_id :: string
  change_summary :: string
  change_requested_by_id :: string
  change_requested_by_name :: string
  change_planner :: string
  change_proposed_prd :: prd_draft
  change_new_tasks :: "task list"
  change_preview_schedule :: flow_schedule_revision
  change_base_task_statuses :: "(string, task_status) btree"
  change_base_p80_finish :: instant
  change_impact :: flow_change_impact
  change_status :: flow_change_status
  change_created_at :: instant
  change_resolved_at :: "instant option"
  change_resolved_by :: "string option"
  change_rejection_reason :: "string option"

section \<open>Flow messages\<close>

datatype flow_message_kind = Command | Question | Update | Decision

fun show_flow_message_kind :: "flow_message_kind \<Rightarrow> string" where
  "show_flow_message_kind Command = ''command''"
| "show_flow_message_kind Question = ''question''"
| "show_flow_message_kind Update = ''update''"
| "show_flow_message_kind Decision = ''decision''"

record message_acknowledgement =
  ack_recipient_id :: string
  ack_acknowledged_by_id :: string
  ack_acknowledged_by_name :: string
  ack_acknowledged_at :: instant

record flow_message =
  message_id :: string
  message_flow_id :: string
  message_task_id :: "string option"
  message_kind :: flow_message_kind
  message_sender_id :: string
  message_sender_name :: string
  message_recipients :: "assignment_target list"
  message_body :: string
  message_requires_ack :: bool
  message_acknowledgements :: "message_acknowledgement list"
  message_created_at :: instant

definition recipient_is_acknowledged :: "flow_message \<Rightarrow> string \<Rightarrow> bool" where
  "recipient_is_acknowledged m rid \<longleftrightarrow>
     list_ex (\<lambda>a. ack_recipient_id a = rid) (message_acknowledgements m)"

record message_inbox_item =
  inbox_message :: flow_message
  inbox_pending_recipient_ids :: "string list"

definition inbox_needs_acknowledgement :: "message_inbox_item \<Rightarrow> bool" where
  "inbox_needs_acknowledgement i \<longleftrightarrow>
     message_requires_ack (inbox_message i) \<and> inbox_pending_recipient_ids i \<noteq> []"

section \<open>Tracking\<close>

datatype attention_kind = AcceptanceWaiting | StaleHeartbeat | Blocked | ReviewWaiting | Overdue

fun show_attention_kind :: "attention_kind \<Rightarrow> string" where
  "show_attention_kind AcceptanceWaiting = ''acceptance_waiting''"
| "show_attention_kind StaleHeartbeat = ''stale_heartbeat''"
| "show_attention_kind attention_kind.Blocked = ''blocked''"
| "show_attention_kind ReviewWaiting = ''review_waiting''"
| "show_attention_kind Overdue = ''overdue''"

datatype attention_severity = Warning | Critical

fun show_attention_severity :: "attention_severity \<Rightarrow> string" where
  "show_attention_severity Warning = ''warning''"
| "show_attention_severity Critical = ''critical''"

record tracking_attention =
  attention_id :: string
  attention_flow_id :: string
  attention_task_id :: string
  attention_kind :: attention_kind
  attention_severity :: attention_severity
  attention_summary :: string
  attention_raised_at :: instant
  attention_resolved_at :: "instant option"

definition attention_is_active :: "tracking_attention \<Rightarrow> bool" where
  "attention_is_active a \<longleftrightarrow> attention_resolved_at a = None"

record tracking_escalation =
  escalation_id :: string
  escalation_attention_id :: string
  escalation_flow_id :: string
  escalation_task_id :: string
  escalation_recipient_id :: string
  escalation_recipient_name :: string
  escalation_reason :: string
  escalation_raised_at :: instant
  escalation_acknowledged_at :: "instant option"
  escalation_acknowledged_by :: "string option"
  escalation_resolved_at :: "instant option"

definition escalation_is_active :: "tracking_escalation \<Rightarrow> bool" where
  "escalation_is_active e \<longleftrightarrow> escalation_resolved_at e = None"

definition escalation_needs_acknowledgement :: "tracking_escalation \<Rightarrow> bool" where
  "escalation_needs_acknowledgement e \<longleftrightarrow>
     escalation_is_active e \<and> escalation_acknowledged_at e = None"

record tracking_scan =
  scan_scanned_at :: instant
  scan_scanned_tasks :: nat
  scan_raised :: "tracking_attention list"
  scan_resolved :: "tracking_attention list"
  scan_active :: "tracking_attention list"
  scan_escalated :: "tracking_escalation list"
  scan_resolved_escalations :: "tracking_escalation list"

section \<open>Local executions\<close>

datatype executor_mode = Plan | Execute | Decompose

record execution_record =
  execution_id :: string
  execution_flow_id :: string
  execution_task_id :: string
  execution_executor :: executor_kind
  execution_mode :: executor_mode
  execution_principal_id :: string
  execution_workspace :: string
  execution_log_path :: string
  execution_session_id :: "string option"
  execution_cost_usd :: "f64 option"
  execution_summary :: string
  execution_started_at :: instant
  execution_finished_at :: instant

end
