(* ===== verification/Domain_Flight.thy ===== *)
theory Domain_Flight
  imports Domain_Flow
begin

text \<open>
  The execution half of the domain model (last part of \<open>src/core/domain.rs\<close>): flight leases with
  their manifest, fuel, recovery policy and report, resource leases, staged artifacts, and the two
  reviewed side effects, Office releases and GitLab writes.
\<close>

section \<open>Tools and resources\<close>

datatype flight_lease_status = Authorized | Active | Landed | Crashed | Revoked | Expired

definition flight_status_is_terminal :: "flight_lease_status \<Rightarrow> bool" where
  "flight_status_is_terminal st \<longleftrightarrow>
     (case st of Landed \<Rightarrow> True | Crashed \<Rightarrow> True | Revoked \<Rightarrow> True | Expired \<Rightarrow> True | _ \<Rightarrow> False)"

fun debug_flight_lease_status :: "flight_lease_status \<Rightarrow> string" where
  "debug_flight_lease_status Authorized = ''Authorized''"
| "debug_flight_lease_status flight_lease_status.Active = ''Active''"
| "debug_flight_lease_status Landed = ''Landed''"
| "debug_flight_lease_status Crashed = ''Crashed''"
| "debug_flight_lease_status Revoked = ''Revoked''"
| "debug_flight_lease_status Expired = ''Expired''"

datatype tool_access = Read | Write | Execute

record tool_permission =
  permission_tool :: string
  permission_access :: tool_access

datatype resource_kind = Workspace | File | Port | Browser | Gpu

fun debug_resource_kind :: "resource_kind \<Rightarrow> string" where
  "debug_resource_kind Workspace = ''Workspace''"
| "debug_resource_kind File = ''File''"
| "debug_resource_kind Port = ''Port''"
| "debug_resource_kind Browser = ''Browser''"
| "debug_resource_kind Gpu = ''Gpu''"

record resource_claim =
  claim_kind :: resource_kind
  claim_key :: string
  claim_exclusive :: bool

datatype resource_lease_status = Active | Released

record resource_lease =
  resource_id :: string
  resource_flight_lease_id :: string
  resource_flow_id :: string
  resource_task_id :: string
  resource_principal_id :: string
  resource_claim :: resource_claim
  resource_status :: resource_lease_status
  resource_issued_at :: instant
  resource_expires_at :: instant
  resource_released_at :: "instant option"
  resource_release_reason :: "string option"

definition conflicts_with :: "resource_lease \<Rightarrow> resource_claim \<Rightarrow> instant \<Rightarrow> bool" where
  "conflicts_with l claim now \<longleftrightarrow>
     resource_status l = resource_lease_status.Active \<and>
     now < resource_expires_at l \<and>
     claim_kind (resource_claim l) = claim_kind claim \<and>
     claim_key (resource_claim l) = claim_key claim \<and>
     (claim_exclusive (resource_claim l) \<or> claim_exclusive claim)"

section \<open>Fuel, recovery, output contracts\<close>

record fuel_budget =
  budget_max_duration_seconds :: u64
  budget_max_context_bytes :: u64
  budget_max_tokens :: "u64 option"
  budget_max_tool_calls :: "u64 option"
  budget_max_cost_usd :: "f64 option"

text \<open>The default cost limit is the float \<open>20.0\<close>, whose bits are \<open>0x4034000000000000\<close>.\<close>

definition default_fuel_budget :: fuel_budget where
  "default_fuel_budget =
     \<lparr>budget_max_duration_seconds = 3600,
      budget_max_context_bytes = 1048576,
      budget_max_tokens = Some 200000,
      budget_max_tool_calls = Some 100,
      budget_max_cost_usd = Some 0x4034000000000000\<rparr>"

record fuel_usage =
  usage_duration_seconds :: u64
  usage_context_bytes :: u64
  usage_tokens :: "u64 option"
  usage_tool_calls :: "u64 option"
  usage_cost_usd :: "f64 option"

definition fuel_usage_eq :: "fuel_usage \<Rightarrow> fuel_usage \<Rightarrow> bool" where
  "fuel_usage_eq a b \<longleftrightarrow>
     usage_duration_seconds a = usage_duration_seconds b \<and>
     usage_context_bytes a = usage_context_bytes b \<and>
     usage_tokens a = usage_tokens b \<and>
     usage_tool_calls a = usage_tool_calls b \<and>
     option_eq f64_eq (usage_cost_usd a) (usage_cost_usd b)"

datatype recovery_action = Retry | SwitchExecutor | ReduceScope | HumanHandoff | Ground | Fork

fun debug_recovery_action :: "recovery_action \<Rightarrow> string" where
  "debug_recovery_action Retry = ''Retry''"
| "debug_recovery_action SwitchExecutor = ''SwitchExecutor''"
| "debug_recovery_action ReduceScope = ''ReduceScope''"
| "debug_recovery_action HumanHandoff = ''HumanHandoff''"
| "debug_recovery_action Ground = ''Ground''"
| "debug_recovery_action Fork = ''Fork''"

record recovery_policy =
  policy_max_attempts :: u32
  policy_allowed_actions :: "recovery_action list"

definition default_recovery_policy :: recovery_policy where
  "default_recovery_policy =
     \<lparr>policy_max_attempts = 3,
      policy_allowed_actions = [Retry, SwitchExecutor, ReduceScope, HumanHandoff, Ground, Fork]\<rparr>"

datatype failure_class = Timeout | Permission | Tool | Resource | Validation | Budget | Unknown

datatype capability_pack = General | Coding | Office

datatype deliverable_kind =
  Code | Document | Spreadsheet | Presentation | EmailDraft | CalendarProposal | Other

record output_contract =
  contract_allowed_extensions :: "string list"
  contract_min_deliverables :: u32
  contract_requires_human_release :: bool

definition default_output_contract :: output_contract where
  "default_output_contract =
     \<lparr>contract_allowed_extensions = [],
      contract_min_deliverables = 0,
      contract_requires_human_release = True\<rparr>"

fun output_contract_for_pack :: "capability_pack \<Rightarrow> output_contract" where
  "output_contract_for_pack General = default_output_contract"
| "output_contract_for_pack Coding =
     \<lparr>contract_allowed_extensions = [],
      contract_min_deliverables = 0,
      contract_requires_human_release = True\<rparr>"
| "output_contract_for_pack Office =
     \<lparr>contract_allowed_extensions =
        [''md'', ''txt'', ''html'', ''pdf'', ''docx'', ''csv'', ''xlsx'', ''pptx'', ''eml'', ''ics''],
      contract_min_deliverables = 1,
      contract_requires_human_release = True\<rparr>"

record flight_deliverable =
  deliverable_path :: string
  deliverable_kind :: deliverable_kind
  deliverable_requires_human_release :: bool

record staged_artifact =
  staged_id :: string
  staged_flight_lease_id :: string
  staged_flow_id :: string
  staged_task_id :: string
  staged_path :: string
  staged_kind :: deliverable_kind
  staged_media_type :: string
  staged_sha256 :: string
  staged_size_bytes :: u64
  staged_staged_by :: string
  staged_staged_at :: instant

section \<open>Office releases\<close>

datatype office_provider = Microsoft365 | GoogleWorkspace

datatype office_body_type = Text | Html

datatype office_release_payload =
    DriveUpload
      (upload_artifact_id: string) (upload_account_id: string) (upload_parent_id: string)
      (upload_file_name: string) (upload_file_id: "string option")
  | SendEmail
      (email_account_id: string) (email_to: "string list") (email_cc: "string list")
      (email_bcc: "string list") (email_subject: string) (email_body: string)
      (email_body_type: office_body_type)
  | CreateCalendarEvent
      (meeting_account_id: string) (meeting_calendar_id: string) (meeting_subject: string)
      (meeting_body: string) (meeting_body_type: office_body_type) (meeting_start: instant)
      (meeting_end: instant) (meeting_time_zone: string) (meeting_attendees: "string list")
      (meeting_location: "string option") (meeting_send_updates: bool)

definition payload_artifact_id :: "office_release_payload \<Rightarrow> string option" where
  "payload_artifact_id p = (case p of DriveUpload aid _ _ _ _ \<Rightarrow> Some aid | _ \<Rightarrow> None)"

definition retry_safe :: "office_release_payload \<Rightarrow> office_provider \<Rightarrow> bool" where
  "retry_safe p provider \<longleftrightarrow>
     (case p of
        DriveUpload _ _ _ _ file_id \<Rightarrow> provider = Microsoft365 \<or> file_id \<noteq> None
      | CreateCalendarEvent _ _ _ _ _ _ _ _ _ _ _ \<Rightarrow> True
      | SendEmail _ _ _ _ _ _ _ \<Rightarrow> False)"

datatype office_release_status =
  Requested | Approved | Dispatching | Released | Failed | Indeterminate | Rejected

fun debug_office_release_status :: "office_release_status \<Rightarrow> string" where
  "debug_office_release_status Requested = ''Requested''"
| "debug_office_release_status office_release_status.Approved = ''Approved''"
| "debug_office_release_status Dispatching = ''Dispatching''"
| "debug_office_release_status office_release_status.Released = ''Released''"
| "debug_office_release_status office_release_status.Failed = ''Failed''"
| "debug_office_release_status Indeterminate = ''Indeterminate''"
| "debug_office_release_status office_release_status.Rejected = ''Rejected''"

record office_release_result =
  release_result_external_id :: "string option"
  release_result_url :: "string option"
  release_result_response_status :: u16
  release_result_released_at :: instant

record office_release_request =
  release_id :: string
  release_flow_id :: string
  release_task_id :: string
  release_provider :: office_provider
  release_payload :: office_release_payload
  release_payload_sha256 :: string
  release_requested_by :: string
  release_requested_at :: instant
  release_status :: office_release_status
  release_reviewed_by :: "string option"
  release_reviewed_at :: "instant option"
  release_review_reason :: "string option"
  release_dispatch_id :: "string option"
  release_dispatch_started_at :: "instant option"
  release_result :: "office_release_result option"
  release_last_error :: "string option"

section \<open>GitLab writes\<close>

datatype gitlab_write_payload =
    CreateIssue (issue_project: string) (issue_title: string) (issue_description: string)
      (issue_labels: "string list")
  | CommentIssue (comment_project: string) (comment_issue_iid: u64) (comment_body: string)
  | CreateMergeRequest (mr_project: string) (mr_source_branch: string) (mr_target_branch: string)
      (mr_title: string) (mr_description: string) (mr_labels: "string list")
      (mr_remove_source_branch: bool) (mr_draft: bool)
  | CommentMergeRequest (mr_comment_project: string) (mr_comment_iid: u64)
      (mr_comment_body: string)

definition gitlab_payload_project :: "gitlab_write_payload \<Rightarrow> string" where
  "gitlab_payload_project p =
     (case p of
        CreateIssue project _ _ _ \<Rightarrow> project
      | CommentIssue project _ _ \<Rightarrow> project
      | CreateMergeRequest project _ _ _ _ _ _ _ \<Rightarrow> project
      | CommentMergeRequest project _ _ \<Rightarrow> project)"

definition gitlab_action_name :: "gitlab_write_payload \<Rightarrow> string" where
  "gitlab_action_name p =
     (case p of
        CreateIssue _ _ _ _ \<Rightarrow> ''create_issue''
      | CommentIssue _ _ _ \<Rightarrow> ''comment_issue''
      | CreateMergeRequest _ _ _ _ _ _ _ _ \<Rightarrow> ''create_merge_request''
      | CommentMergeRequest _ _ _ \<Rightarrow> ''comment_merge_request'')"

datatype gitlab_write_status =
  Requested | Approved | Dispatching | Written | Failed | Indeterminate | Rejected

fun debug_gitlab_write_status :: "gitlab_write_status \<Rightarrow> string" where
  "debug_gitlab_write_status gitlab_write_status.Requested = ''Requested''"
| "debug_gitlab_write_status gitlab_write_status.Approved = ''Approved''"
| "debug_gitlab_write_status gitlab_write_status.Dispatching = ''Dispatching''"
| "debug_gitlab_write_status Written = ''Written''"
| "debug_gitlab_write_status gitlab_write_status.Failed = ''Failed''"
| "debug_gitlab_write_status gitlab_write_status.Indeterminate = ''Indeterminate''"
| "debug_gitlab_write_status gitlab_write_status.Rejected = ''Rejected''"

record gitlab_write_result =
  write_result_kind :: string
  write_result_external_id :: string
  write_result_title :: string
  write_result_url :: string
  write_result_status :: string
  write_result_response_status :: u16
  write_result_written_at :: instant

record gitlab_write_request =
  write_id :: string
  write_flow_id :: string
  write_task_id :: string
  write_payload :: gitlab_write_payload
  write_payload_sha256 :: string
  write_requested_by :: string
  write_requested_at :: instant
  write_status :: gitlab_write_status
  write_reviewed_by :: "string option"
  write_reviewed_at :: "instant option"
  write_review_reason :: "string option"
  write_dispatch_id :: "string option"
  write_dispatch_started_at :: "instant option"
  write_result :: "gitlab_write_result option"
  write_last_error :: "string option"

section \<open>Deliverables named by their file extension\<close>

text \<open>
  \<open>Path::file_name\<close> is the last component of the path that is not empty or \<open>.\<close> (none when it is
  \<open>..\<close>), and \<open>extension\<close> what follows its last dot, when the dot is not the first byte.
\<close>

definition path_file_name :: "string \<Rightarrow> string option" where
  "path_file_name p =
     (case rev (filter (\<lambda>w. w \<noteq> [] \<and> w \<noteq> ''.'') (split_on (CHR ''/'') p)) of
        [] \<Rightarrow> None
      | w # _ \<Rightarrow> if w = ''..'' then None else Some w)"

definition path_extension :: "string \<Rightarrow> string option" where
  "path_extension p =
     (case path_file_name p of
        None \<Rightarrow> None
      | Some name \<Rightarrow>
          (let after = takeWhile (\<lambda>c. c \<noteq> CHR ''.'') (rev name);
               before = drop (length after) (rev name)
           in if length before \<le> 1 then None else Some (rev after)))"

definition deliverable_kind_of :: "string option \<Rightarrow> deliverable_kind" where
  "deliverable_kind_of ext =
     (case ext of
        None \<Rightarrow> Other
      | Some e \<Rightarrow>
          if e \<in> set [''rs'', ''go'', ''py'', ''js'', ''ts'', ''tsx'', ''jsx'', ''java'', ''kt'', ''c'', ''h'',
                      ''cpp'', ''hpp'', ''cs'', ''rb'', ''php'', ''swift'', ''scala'', ''sh'', ''toml'',
                      ''yaml'', ''yml'']
          then Code
          else if e \<in> set [''md'', ''txt'', ''html'', ''pdf'', ''docx''] then Document
          else if e \<in> set [''csv'', ''xlsx''] then Spreadsheet
          else if e = ''pptx'' then Presentation
          else if e = ''eml'' then EmailDraft
          else if e = ''ics'' then CalendarProposal
          else Other)"

definition deliverable_from_path :: "string \<Rightarrow> bool \<Rightarrow> flight_deliverable" where
  "deliverable_from_path p release =
     \<lparr>deliverable_path = p,
      deliverable_kind = deliverable_kind_of (map_option to_ascii_lowercase (path_extension p)),
      deliverable_requires_human_release = release\<rparr>"

section \<open>Manifests, reports, leases\<close>

record flight_manifest_draft =
  draft_repository :: "repository_ref option"
  draft_capability_pack :: "capability_pack option"
  draft_objective :: "string option"
  draft_landing_conditions :: "string list"
  draft_context_refs :: "string list"
  draft_tool_permissions :: "tool_permission list"
  draft_fuel :: "fuel_budget option"
  draft_recovery :: "recovery_policy option"
  draft_resources :: "resource_claim list"
  draft_output_contract :: "output_contract option"

definition default_flight_manifest_draft :: flight_manifest_draft where
  "default_flight_manifest_draft =
     \<lparr>draft_repository = None, draft_capability_pack = None, draft_objective = None,
      draft_landing_conditions = [], draft_context_refs = [], draft_tool_permissions = [],
      draft_fuel = None, draft_recovery = None, draft_resources = [],
      draft_output_contract = None\<rparr>"

record flight_manifest =
  manifest_id :: string
  manifest_repository :: "repository_ref option"
  manifest_objective :: string
  manifest_landing_conditions :: "string list"
  manifest_context_refs :: "string list"
  manifest_tool_permissions :: "tool_permission list"
  manifest_fuel :: fuel_budget
  manifest_recovery :: recovery_policy
  manifest_resources :: "resource_claim list"
  manifest_capability_pack :: capability_pack
  manifest_output_contract :: output_contract
  manifest_declared_by :: string
  manifest_declared_at :: instant

record flight_recovery_decision =
  recovery_id :: string
  recovery_parent_lease_id :: string
  recovery_child_lease_id :: "string option"
  recovery_action :: recovery_action
  recovery_reason :: string
  recovery_decided_by :: string
  recovery_decided_at :: instant

record execution_sandbox_report =
  sandbox_backend :: string
  sandbox_image :: "string option"
  sandbox_image_id :: "string option"
  sandbox_network :: string
  sandbox_root_read_only :: bool
  sandbox_user :: "string option"
  sandbox_cpus_millis :: "u32 option"
  sandbox_memory_bytes :: "u64 option"
  sandbox_pids_limit :: "u32 option"
  sandbox_forwarded_environment :: "string list"

record remote_flight_report =
  report_run_id :: string
  report_executor :: executor_kind
  report_summary :: string
  report_base_revision :: string
  report_changed_files :: "string list"
  report_patch_sha256 :: "string option"
  report_log_sha256 :: string
  report_started_at :: instant
  report_finished_at :: instant
  report_fuel :: fuel_usage
  report_failure_class :: "failure_class option"
  report_budget_exhaustions :: "string list"
  report_deliverables :: "flight_deliverable list"
  report_contract_violations :: "string list"
  report_sandbox :: "execution_sandbox_report option"

record flight_lease =
  lease_id :: string
  lease_flow_id :: string
  lease_task_id :: string
  lease_principal_id :: string
  lease_principal_name :: string
  lease_authorized_by :: string
  lease_executor :: executor_kind
  lease_status :: flight_lease_status
  lease_issued_at :: instant
  lease_expires_at :: instant
  lease_claimed_at :: "instant option"
  lease_finished_at :: "instant option"
  lease_run_id :: "string option"
  lease_report :: "remote_flight_report option"
  lease_manifest :: "flight_manifest option"
  lease_parent_lease_id :: "string option"
  lease_root_lease_id :: "string option"
  lease_attempt :: u32

definition is_claimable_at :: "flight_lease \<Rightarrow> instant \<Rightarrow> bool" where
  "is_claimable_at l now \<longleftrightarrow> lease_status l = Authorized \<and> now < lease_expires_at l"

end
