(* ===== verification/Event.thy ===== *)
theory Event
  imports Domain_Flight
begin

text \<open>
  The events of the ledger (\<open>src/core/event.rs\<close>). The source's one enum \<open>DomainEvent\<close> is cut into
  groups by the aggregate an event belongs to, one datatype per group with the source's variants
  and their fields in the source's order, and \<open>domain_event\<close> as the sum of the groups. \<open>kind\<close> and
  \<open>event_flow_id\<close> are the functions \<open>kind\<close> and \<open>flow_id\<close>, group by group.
\<close>

section \<open>Variants\<close>

text \<open>
  Fields: registrations carry the registered object; the updates of a directory carry the target,
  the new values, the author and the time.
\<close>

datatype registry_event =
    TenantInitialized tenant
  | OrganizationInitialized organization
  | TeamCreated team
  | RepositoryRegistered repository
  | PlanningRequested planning_request
  | PlanningClaimed string string instant instant
      \<comment> \<open>request, claimed by, claimed at, lease expires at\<close>
  | PlanningSettled string planning_status "string option" instant
      \<comment> \<open>request, status, error, settled at\<close>
  | RepositoryArchived string string instant
      \<comment> \<open>repository, archived by, archived at\<close>
  | TeamDirectoryUpdated string string "string option" bool string instant
      \<comment> \<open>team, name, external id, active, updated by, updated at\<close>
  | PrincipalRegistered principal
  | PrincipalDirectoryUpdated string string string "string option" bool string instant
      \<comment> \<open>principal, name, user name, team, active, updated by, updated at\<close>
  | RoleGranted role_binding
  | RoleRevoked string string instant
      \<comment> \<open>binding, revoked by, revoked at\<close>
  | ExternalIdentityBound external_identity_binding
  | ExternalIdentityUnbound string string instant
      \<comment> \<open>binding, unbound by, unbound at\<close>

datatype calendar_event =
    WorkCalendarConfigured work_calendar
  | TimeOffAdded availability_block
  | TimeOffCancelled string string string instant
      \<comment> \<open>principal, block, cancelled by, cancelled at\<close>

datatype notification_event =
    NotificationEndpointRegistered notification_endpoint
  | NotificationEndpointDisabled string string instant
      \<comment> \<open>endpoint, disabled by, disabled at\<close>
  | NotificationQueued notification_delivery
  | NotificationDelivered string "string option" u16 instant
      \<comment> \<open>delivery, flow, response status, delivered at\<close>
  | NotificationFailed string "string option" "u16 option" string instant
      \<comment> \<open>delivery, flow, response status, error, attempted at\<close>

datatype credential_event =
    ApiCredentialIssued api_credential
  | ApiCredentialRevoked string string instant
      \<comment> \<open>credential, principal, revoked at\<close>

datatype flow_event =
    DemandCreated demand
  | PlanGenerated flow
  | FlowApproved string string instant
      \<comment> \<open>flow, approved by, approved at\<close>
  | FlowRescheduled string flow_schedule_revision
  | FlowChangeProposed flow_change_request
  | FlowChangeApplied string string prd_draft "task list" flow_schedule_revision string instant
      \<comment> \<open>flow, request, prd, new tasks, revision, applied by, applied at\<close>
  | FlowChangeRejected string string string string instant
      \<comment> \<open>flow, request, rejected by, reason, rejected at\<close>
  | FlowCompleted string string instant
      \<comment> \<open>flow, completed by, at\<close>

datatype task_event =
    WorkRequestSent string string string
      \<comment> \<open>flow, task, target\<close>
  | TaskAccepted string string string instant
      \<comment> \<open>flow, task, accepted by, accepted at\<close>
  | TaskRejected string string string string
      \<comment> \<open>flow, task, rejected by, reason\<close>
  | TaskEstimateNegotiated string string string estimate
      \<comment> \<open>flow, task, negotiated by, estimate\<close>
  | TaskReassigned string string "assignment option" assignment string string instant
      \<comment> \<open>flow, task, previous assignment, assignment, reassigned by, reason, at\<close>
  | TaskStarted string string string instant
      \<comment> \<open>flow, task, started by, started at\<close>
  | TaskHeartbeat string string string "string option" instant
      \<comment> \<open>flow, task, actor, note, at\<close>
  | TaskBlocked string string string string instant
      \<comment> \<open>flow, task, actor, reason, at\<close>
  | EvidenceAdded string string evidence
  | ExternalArtifactSynced string string external_artifact
  | TaskSubmitted string string string instant
      \<comment> \<open>flow, task, submitted by, at\<close>
  | TaskCompleted string string string instant
      \<comment> \<open>flow, task, completed by, at\<close>

datatype message_event =
    FlowMessagePosted flow_message
  | FlowMessageAcknowledged string string "message_acknowledgement list"
      \<comment> \<open>flow, message, acknowledgements\<close>

datatype external_event =
    ExternalDeliveryProcessed string string string instant instant
      \<comment> \<open>provider, delivery, binding key, occurred at, processed at\<close>
  | ExternalInteractionProcessed external_interaction_receipt

datatype tracking_event =
    TrackingAttentionRaised tracking_attention
  | TrackingAttentionResolved string string string attention_kind instant string
      \<comment> \<open>flow, task, attention, kind, resolved at, reason\<close>
  | TrackingEscalationRaised tracking_escalation
  | TrackingEscalationAcknowledged string string string string instant
      \<comment> \<open>flow, task, escalation, acknowledged by, acknowledged at\<close>
  | TrackingEscalationResolved string string string instant string
      \<comment> \<open>flow, task, escalation, resolved at, reason\<close>

datatype executor_event =
    ExecutorStarted string string string string string string instant
      \<comment> \<open>flow, task, execution, principal, executor, mode, at\<close>
  | ExecutorFinished execution_record
  | ExecutorFailed string string string string "string option" instant
      \<comment> \<open>flow, task, execution, reason, log path, at\<close>

datatype flight_event =
    RemoteFlightAuthorized flight_lease
  | ResourceLeaseAcquired resource_lease
  | ResourceLeaseReleased string string string instant string
      \<comment> \<open>flow, task, resource lease, released at, reason\<close>
  | RemoteFlightClaimed string string string string instant
      \<comment> \<open>flow, task, lease, run, claimed at\<close>
  | FlightArtifactStaged staged_artifact
  | RemoteFlightRevoked string string string string instant
      \<comment> \<open>flow, task, lease, revoked by, revoked at\<close>
  | RemoteFlightExpired string string string instant
      \<comment> \<open>flow, task, lease, expired at\<close>
  | RemoteFlightFinished string string string bool remote_flight_report instant
      \<comment> \<open>flow, task, lease, landed, report, finished at\<close>
  | FlightRecoveryDecided string string flight_recovery_decision
      \<comment> \<open>flow, task, decision\<close>

datatype office_event =
    OfficeReleaseRequested office_release_request
  | OfficeReleaseApproved string string string string instant
      \<comment> \<open>flow, task, release, approved by, approved at\<close>
  | OfficeReleaseRejected string string string string string instant
      \<comment> \<open>flow, task, release, rejected by, reason, rejected at\<close>
  | OfficeReleaseDispatchClaimed string string string string instant
      \<comment> \<open>flow, task, release, dispatch, claimed at\<close>
  | OfficeReleaseSucceeded string string string string office_release_result
      \<comment> \<open>flow, task, release, dispatch, result\<close>
  | OfficeReleaseFailed string string string string string bool instant
      \<comment> \<open>flow, task, release, dispatch, error, indeterminate, failed at\<close>
  | OfficeReleaseRetryApproved string string string string instant
      \<comment> \<open>flow, task, release, approved by, approved at\<close>
  | OfficeReleaseDispatchExpired string string string string bool instant
      \<comment> \<open>flow, task, release, dispatch, retry safe, expired at\<close>

datatype gitlab_event =
    GitLabWriteRequested gitlab_write_request
  | GitLabWriteApproved string string string string instant
      \<comment> \<open>flow, task, write, approved by, approved at\<close>
  | GitLabWriteRejected string string string string string instant
      \<comment> \<open>flow, task, write, rejected by, reason, rejected at\<close>
  | GitLabWriteDispatchClaimed string string string string instant
      \<comment> \<open>flow, task, write, dispatch, claimed at\<close>
  | GitLabWriteSucceeded string string string string gitlab_write_result
      \<comment> \<open>flow, task, write, dispatch, result\<close>
  | GitLabWriteFailed string string string string string bool instant
      \<comment> \<open>flow, task, write, dispatch, error, indeterminate, failed at\<close>
  | GitLabWriteRetryApproved string string string string instant
      \<comment> \<open>flow, task, write, approved by, approved at\<close>
  | GitLabWriteDispatchExpired string string string string instant
      \<comment> \<open>flow, task, write, dispatch, expired at\<close>

datatype domain_event =
    RegistryEvent registry_event
  | CalendarEvent calendar_event
  | NotificationEvent notification_event
  | CredentialEvent credential_event
  | FlowEvent flow_event
  | TaskEvent task_event
  | MessageEvent message_event
  | ExternalEvent external_event
  | TrackingEvent tracking_event
  | ExecutorEvent executor_event
  | FlightEvent flight_event
  | OfficeEvent office_event
  | GitLabEvent gitlab_event

section \<open>The kind of an event\<close>

fun registry_kind :: "registry_event \<Rightarrow> string" where
  "registry_kind (TenantInitialized _) = ''tenant.initialized''"
| "registry_kind (OrganizationInitialized _) = ''organization.initialized''"
| "registry_kind (TeamCreated _) = ''team.created''"
| "registry_kind (RepositoryRegistered _) = ''repository.registered''"
| "registry_kind (PlanningRequested _) = ''planning.requested''"
| "registry_kind (PlanningClaimed _ _ _ _) = ''planning.claimed''"
| "registry_kind (PlanningSettled _ _ _ _) = ''planning.settled''"
| "registry_kind (RepositoryArchived _ _ _) = ''repository.archived''"
| "registry_kind (TeamDirectoryUpdated _ _ _ _ _ _) = ''team.directory_updated''"
| "registry_kind (PrincipalRegistered _) = ''principal.registered''"
| "registry_kind (PrincipalDirectoryUpdated _ _ _ _ _ _ _) = ''principal.directory_updated''"
| "registry_kind (RoleGranted _) = ''authority.role_granted''"
| "registry_kind (RoleRevoked _ _ _) = ''authority.role_revoked''"
| "registry_kind (ExternalIdentityBound _) = ''external_identity.bound''"
| "registry_kind (ExternalIdentityUnbound _ _ _) = ''external_identity.unbound''"

fun calendar_kind :: "calendar_event \<Rightarrow> string" where
  "calendar_kind (WorkCalendarConfigured _) = ''calendar.configured''"
| "calendar_kind (TimeOffAdded _) = ''calendar.time_off_added''"
| "calendar_kind (TimeOffCancelled _ _ _ _) = ''calendar.time_off_cancelled''"

fun notification_kind :: "notification_event \<Rightarrow> string" where
  "notification_kind (NotificationEndpointRegistered _) = ''notification.endpoint_registered''"
| "notification_kind (NotificationEndpointDisabled _ _ _) = ''notification.endpoint_disabled''"
| "notification_kind (NotificationQueued _) = ''notification.queued''"
| "notification_kind (NotificationDelivered _ _ _ _) = ''notification.delivered''"
| "notification_kind (NotificationFailed _ _ _ _ _) = ''notification.failed''"

fun credential_kind :: "credential_event \<Rightarrow> string" where
  "credential_kind (ApiCredentialIssued _) = ''api_credential.issued''"
| "credential_kind (ApiCredentialRevoked _ _ _) = ''api_credential.revoked''"

fun flow_kind :: "flow_event \<Rightarrow> string" where
  "flow_kind (DemandCreated _) = ''demand.created''"
| "flow_kind (PlanGenerated _) = ''plan.generated''"
| "flow_kind (FlowApproved _ _ _) = ''flow.approved''"
| "flow_kind (FlowRescheduled _ _) = ''flow.rescheduled''"
| "flow_kind (FlowChangeProposed _) = ''flow_change.proposed''"
| "flow_kind (FlowChangeApplied _ _ _ _ _ _ _) = ''flow_change.applied''"
| "flow_kind (FlowChangeRejected _ _ _ _ _) = ''flow_change.rejected''"
| "flow_kind (FlowCompleted _ _ _) = ''flow.completed''"

fun task_kind :: "task_event \<Rightarrow> string" where
  "task_kind (WorkRequestSent _ _ _) = ''work_request.sent''"
| "task_kind (TaskAccepted _ _ _ _) = ''task.accepted''"
| "task_kind (TaskRejected _ _ _ _) = ''task.rejected''"
| "task_kind (TaskEstimateNegotiated _ _ _ _) = ''task.estimate_negotiated''"
| "task_kind (TaskReassigned _ _ _ _ _ _ _) = ''task.reassigned''"
| "task_kind (TaskStarted _ _ _ _) = ''task.started''"
| "task_kind (TaskHeartbeat _ _ _ _ _) = ''task.heartbeat''"
| "task_kind (TaskBlocked _ _ _ _ _) = ''task.blocked''"
| "task_kind (EvidenceAdded _ _ _) = ''task.evidence_added''"
| "task_kind (ExternalArtifactSynced _ _ _) = ''task.external_artifact_synced''"
| "task_kind (TaskSubmitted _ _ _ _) = ''task.submitted''"
| "task_kind (TaskCompleted _ _ _ _) = ''task.completed''"

fun message_event_kind :: "message_event \<Rightarrow> string" where
  "message_event_kind (FlowMessagePosted _) = ''flow_message.posted''"
| "message_event_kind (FlowMessageAcknowledged _ _ _) = ''flow_message.acknowledged''"

fun external_kind :: "external_event \<Rightarrow> string" where
  "external_kind (ExternalDeliveryProcessed _ _ _ _ _) = ''external.delivery_processed''"
| "external_kind (ExternalInteractionProcessed _) = ''external_interaction.processed''"

fun tracking_kind :: "tracking_event \<Rightarrow> string" where
  "tracking_kind (TrackingAttentionRaised _) = ''tracking.attention_raised''"
| "tracking_kind (TrackingAttentionResolved _ _ _ _ _ _) = ''tracking.attention_resolved''"
| "tracking_kind (TrackingEscalationRaised _) = ''tracking.escalation_raised''"
| "tracking_kind (TrackingEscalationAcknowledged _ _ _ _ _) = ''tracking.escalation_acknowledged''"
| "tracking_kind (TrackingEscalationResolved _ _ _ _ _) = ''tracking.escalation_resolved''"

fun executor_event_kind :: "executor_event \<Rightarrow> string" where
  "executor_event_kind (ExecutorStarted _ _ _ _ _ _ _) = ''executor.started''"
| "executor_event_kind (ExecutorFinished _) = ''executor.finished''"
| "executor_event_kind (ExecutorFailed _ _ _ _ _ _) = ''executor.failed''"

fun flight_kind :: "flight_event \<Rightarrow> string" where
  "flight_kind (RemoteFlightAuthorized _) = ''remote_flight.authorized''"
| "flight_kind (ResourceLeaseAcquired _) = ''resource_lease.acquired''"
| "flight_kind (ResourceLeaseReleased _ _ _ _ _) = ''resource_lease.released''"
| "flight_kind (RemoteFlightClaimed _ _ _ _ _) = ''remote_flight.claimed''"
| "flight_kind (FlightArtifactStaged _) = ''remote_flight.artifact_staged''"
| "flight_kind (RemoteFlightRevoked _ _ _ _ _) = ''remote_flight.revoked''"
| "flight_kind (RemoteFlightExpired _ _ _ _) = ''remote_flight.expired''"
| "flight_kind (RemoteFlightFinished _ _ _ landed _ _) =
     (if landed then ''remote_flight.landed'' else ''remote_flight.crashed'')"
| "flight_kind (FlightRecoveryDecided _ _ _) = ''remote_flight.recovery_decided''"

fun office_kind :: "office_event \<Rightarrow> string" where
  "office_kind (OfficeReleaseRequested _) = ''office_release.requested''"
| "office_kind (OfficeReleaseApproved _ _ _ _ _) = ''office_release.approved''"
| "office_kind (OfficeReleaseRejected _ _ _ _ _ _) = ''office_release.rejected''"
| "office_kind (OfficeReleaseDispatchClaimed _ _ _ _ _) = ''office_release.dispatch_claimed''"
| "office_kind (OfficeReleaseSucceeded _ _ _ _ _) = ''office_release.succeeded''"
| "office_kind (OfficeReleaseFailed _ _ _ _ _ indeterminate _) =
     (if indeterminate then ''office_release.indeterminate'' else ''office_release.failed'')"
| "office_kind (OfficeReleaseRetryApproved _ _ _ _ _) = ''office_release.retry_approved''"
| "office_kind (OfficeReleaseDispatchExpired _ _ _ _ safe _) =
     (if safe then ''office_release.dispatch_recovered''
      else ''office_release.dispatch_indeterminate'')"

fun gitlab_kind :: "gitlab_event \<Rightarrow> string" where
  "gitlab_kind (GitLabWriteRequested _) = ''gitlab_write.requested''"
| "gitlab_kind (GitLabWriteApproved _ _ _ _ _) = ''gitlab_write.approved''"
| "gitlab_kind (GitLabWriteRejected _ _ _ _ _ _) = ''gitlab_write.rejected''"
| "gitlab_kind (GitLabWriteDispatchClaimed _ _ _ _ _) = ''gitlab_write.dispatch_claimed''"
| "gitlab_kind (GitLabWriteSucceeded _ _ _ _ _) = ''gitlab_write.succeeded''"
| "gitlab_kind (GitLabWriteFailed _ _ _ _ _ indeterminate _) =
     (if indeterminate then ''gitlab_write.indeterminate'' else ''gitlab_write.failed'')"
| "gitlab_kind (GitLabWriteDispatchExpired _ _ _ _ _) = ''gitlab_write.indeterminate''"
| "gitlab_kind (GitLabWriteRetryApproved _ _ _ _ _) = ''gitlab_write.retry_approved''"

fun kind :: "domain_event \<Rightarrow> string" where
  "kind (RegistryEvent e) = registry_kind e"
| "kind (CalendarEvent e) = calendar_kind e"
| "kind (NotificationEvent e) = notification_kind e"
| "kind (CredentialEvent e) = credential_kind e"
| "kind (FlowEvent e) = flow_kind e"
| "kind (TaskEvent e) = task_kind e"
| "kind (MessageEvent e) = message_event_kind e"
| "kind (ExternalEvent e) = external_kind e"
| "kind (TrackingEvent e) = tracking_kind e"
| "kind (ExecutorEvent e) = executor_event_kind e"
| "kind (FlightEvent e) = flight_kind e"
| "kind (OfficeEvent e) = office_kind e"
| "kind (GitLabEvent e) = gitlab_kind e"

section \<open>The flow an event belongs to\<close>

fun registry_flow_id :: "registry_event \<Rightarrow> string option" where
  "registry_flow_id (PlanningRequested r) = Some (planning_flow_id r)"
| "registry_flow_id _ = None"

fun notification_flow_id :: "notification_event \<Rightarrow> string option" where
  "notification_flow_id (NotificationQueued d) = delivery_flow_id d"
| "notification_flow_id (NotificationDelivered _ fid _ _) = fid"
| "notification_flow_id (NotificationFailed _ fid _ _ _) = fid"
| "notification_flow_id _ = None"

fun flow_event_flow_id :: "flow_event \<Rightarrow> string" where
  "flow_event_flow_id (DemandCreated d) = demand_flow_id d"
| "flow_event_flow_id (PlanGenerated f) = flow_id f"
| "flow_event_flow_id (FlowApproved fid _ _) = fid"
| "flow_event_flow_id (FlowRescheduled fid _) = fid"
| "flow_event_flow_id (FlowChangeProposed r) = change_flow_id r"
| "flow_event_flow_id (FlowChangeApplied fid _ _ _ _ _ _) = fid"
| "flow_event_flow_id (FlowChangeRejected fid _ _ _ _) = fid"
| "flow_event_flow_id (FlowCompleted fid _ _) = fid"

fun task_event_flow_id :: "task_event \<Rightarrow> string" where
  "task_event_flow_id (WorkRequestSent fid _ _) = fid"
| "task_event_flow_id (TaskAccepted fid _ _ _) = fid"
| "task_event_flow_id (TaskRejected fid _ _ _) = fid"
| "task_event_flow_id (TaskEstimateNegotiated fid _ _ _) = fid"
| "task_event_flow_id (TaskReassigned fid _ _ _ _ _ _) = fid"
| "task_event_flow_id (TaskStarted fid _ _ _) = fid"
| "task_event_flow_id (TaskHeartbeat fid _ _ _ _) = fid"
| "task_event_flow_id (TaskBlocked fid _ _ _ _) = fid"
| "task_event_flow_id (EvidenceAdded fid _ _) = fid"
| "task_event_flow_id (ExternalArtifactSynced fid _ _) = fid"
| "task_event_flow_id (TaskSubmitted fid _ _ _) = fid"
| "task_event_flow_id (TaskCompleted fid _ _ _) = fid"

fun message_event_flow_id :: "message_event \<Rightarrow> string" where
  "message_event_flow_id (FlowMessagePosted m) = message_flow_id m"
| "message_event_flow_id (FlowMessageAcknowledged fid _ _) = fid"

fun external_flow_id :: "external_event \<Rightarrow> string option" where
  "external_flow_id (ExternalDeliveryProcessed _ _ _ _ _) = None"
| "external_flow_id (ExternalInteractionProcessed r) = receipt_flow_id r"

fun tracking_flow_id :: "tracking_event \<Rightarrow> string" where
  "tracking_flow_id (TrackingAttentionRaised a) = attention_flow_id a"
| "tracking_flow_id (TrackingAttentionResolved fid _ _ _ _ _) = fid"
| "tracking_flow_id (TrackingEscalationRaised e) = escalation_flow_id e"
| "tracking_flow_id (TrackingEscalationAcknowledged fid _ _ _ _) = fid"
| "tracking_flow_id (TrackingEscalationResolved fid _ _ _ _) = fid"

fun executor_flow_id :: "executor_event \<Rightarrow> string" where
  "executor_flow_id (ExecutorStarted fid _ _ _ _ _ _) = fid"
| "executor_flow_id (ExecutorFinished r) = execution_flow_id r"
| "executor_flow_id (ExecutorFailed fid _ _ _ _ _) = fid"

fun flight_flow_id :: "flight_event \<Rightarrow> string" where
  "flight_flow_id (RemoteFlightAuthorized l) = lease_flow_id l"
| "flight_flow_id (ResourceLeaseAcquired l) = resource_flow_id l"
| "flight_flow_id (ResourceLeaseReleased fid _ _ _ _) = fid"
| "flight_flow_id (RemoteFlightClaimed fid _ _ _ _) = fid"
| "flight_flow_id (FlightArtifactStaged a) = staged_flow_id a"
| "flight_flow_id (RemoteFlightRevoked fid _ _ _ _) = fid"
| "flight_flow_id (RemoteFlightExpired fid _ _ _) = fid"
| "flight_flow_id (RemoteFlightFinished fid _ _ _ _ _) = fid"
| "flight_flow_id (FlightRecoveryDecided fid _ _) = fid"

fun office_flow_id :: "office_event \<Rightarrow> string" where
  "office_flow_id (OfficeReleaseRequested r) = release_flow_id r"
| "office_flow_id (OfficeReleaseApproved fid _ _ _ _) = fid"
| "office_flow_id (OfficeReleaseRejected fid _ _ _ _ _) = fid"
| "office_flow_id (OfficeReleaseDispatchClaimed fid _ _ _ _) = fid"
| "office_flow_id (OfficeReleaseSucceeded fid _ _ _ _) = fid"
| "office_flow_id (OfficeReleaseFailed fid _ _ _ _ _ _) = fid"
| "office_flow_id (OfficeReleaseRetryApproved fid _ _ _ _) = fid"
| "office_flow_id (OfficeReleaseDispatchExpired fid _ _ _ _ _) = fid"

fun gitlab_flow_id :: "gitlab_event \<Rightarrow> string" where
  "gitlab_flow_id (GitLabWriteRequested r) = write_flow_id r"
| "gitlab_flow_id (GitLabWriteApproved fid _ _ _ _) = fid"
| "gitlab_flow_id (GitLabWriteRejected fid _ _ _ _ _) = fid"
| "gitlab_flow_id (GitLabWriteDispatchClaimed fid _ _ _ _) = fid"
| "gitlab_flow_id (GitLabWriteSucceeded fid _ _ _ _) = fid"
| "gitlab_flow_id (GitLabWriteFailed fid _ _ _ _ _ _) = fid"
| "gitlab_flow_id (GitLabWriteRetryApproved fid _ _ _ _) = fid"
| "gitlab_flow_id (GitLabWriteDispatchExpired fid _ _ _ _) = fid"

fun event_flow_id :: "domain_event \<Rightarrow> string option" where
  "event_flow_id (RegistryEvent e) = registry_flow_id e"
| "event_flow_id (CalendarEvent e) = None"
| "event_flow_id (NotificationEvent e) = notification_flow_id e"
| "event_flow_id (CredentialEvent e) = None"
| "event_flow_id (FlowEvent e) = Some (flow_event_flow_id e)"
| "event_flow_id (TaskEvent e) = Some (task_event_flow_id e)"
| "event_flow_id (MessageEvent e) = Some (message_event_flow_id e)"
| "event_flow_id (ExternalEvent e) = external_flow_id e"
| "event_flow_id (TrackingEvent e) = Some (tracking_flow_id e)"
| "event_flow_id (ExecutorEvent e) = Some (executor_flow_id e)"
| "event_flow_id (FlightEvent e) = Some (flight_flow_id e)"
| "event_flow_id (OfficeEvent e) = Some (office_flow_id e)"
| "event_flow_id (GitLabEvent e) = Some (gitlab_flow_id e)"

section \<open>Envelopes\<close>

definition current_event_version :: u16 where
  "current_event_version = 2"

record event_envelope =
  env_event_version :: u16
  env_sequence :: int
  env_id :: string
  env_organization_id :: string
  env_flow_id :: "string option"
  env_actor :: string
  env_kind :: string
  env_event :: domain_event
  env_occurred_at :: instant

text \<open>The kinds of the notification group are the only ones under \<open>notification.\<close>.\<close>

lemma notification_prefix_iff:
  "starts_with (kind e) ''notification.'' \<longleftrightarrow> (\<exists>n. e = NotificationEvent n)"
proof (cases e)
  case (NotificationEvent n)
  then show ?thesis by (cases n) simp_all
next
  case (RegistryEvent x)
  then show ?thesis by (cases x) simp_all
next
  case (CalendarEvent x)
  then show ?thesis by (cases x) simp_all
next
  case (CredentialEvent x)
  then show ?thesis by (cases x) simp_all
next
  case (FlowEvent x)
  then show ?thesis by (cases x) simp_all
next
  case (TaskEvent x)
  then show ?thesis by (cases x) simp_all
next
  case (MessageEvent x)
  then show ?thesis by (cases x) simp_all
next
  case (ExternalEvent x)
  then show ?thesis by (cases x) simp_all
next
  case (TrackingEvent x)
  then show ?thesis by (cases x) simp_all
next
  case (ExecutorEvent x)
  then show ?thesis by (cases x) simp_all
next
  case (FlightEvent x)
  then show ?thesis by (cases x) simp_all
next
  case (OfficeEvent x)
  then show ?thesis by (cases x) simp_all
next
  case (GitLabEvent x)
  then show ?thesis by (cases x) simp_all
qed

end
