(* ===== verification/Org_State.thy ===== *)
theory Org_State
  imports Event
begin

text \<open>
  The projected state of an organization, \<open>OrganizationState\<close> of \<open>src/core/state.rs\<close>, and its
  lookups. Maps are ordered maps from identifiers; a lookup that the source answers with a
  reference answers here with the value, and \<open>.._mut\<close> lookups followed by assignments become a
  replacement at the same key.
\<close>

record org_state =
  org_tenant :: "tenant option"
  org_organization :: "organization option"
  teams :: "(string, team) btree"
  repositories :: "(string, repository) btree"
  planning_requests :: "(string, planning_request) btree"
  principals :: "(string, principal) btree"
  external_identities :: "(string, external_identity_binding) btree"
  external_interactions :: "(string, external_interaction_receipt) btree"
  calendars :: "(string, work_calendar) btree"
  notification_endpoints :: "(string, notification_endpoint) btree"
  notification_deliveries :: "(string, notification_delivery) btree"
  credentials :: "(string, api_credential) btree"
  role_bindings :: "(string, role_binding) btree"
  external_deliveries :: "(string, instant) btree"
  external_binding_clocks :: "(string, instant) btree"
  flows :: "(string, flow) btree"
  messages :: "(string, flow_message) btree"
  flow_changes :: "(string, flow_change_request) btree"
  executions :: "(string, execution_record) btree"
  flight_leases :: "(string, flight_lease) btree"
  staged_artifacts :: "(string, staged_artifact) btree"
  office_releases :: "(string, office_release_request) btree"
  gitlab_writes :: "(string, gitlab_write_request) btree"
  resource_leases :: "(string, resource_lease) btree"
  flight_recoveries :: "(string, flight_recovery_decision) btree"
  attentions :: "(string, tracking_attention) btree"
  escalations :: "(string, tracking_escalation) btree"
  last_sequence :: int

definition default_state :: org_state where
  "default_state =
     \<lparr>org_tenant = None, org_organization = None, teams = bt_empty, repositories = bt_empty,
      planning_requests = bt_empty, principals = bt_empty, external_identities = bt_empty,
      external_interactions = bt_empty, calendars = bt_empty,
      notification_endpoints = bt_empty, notification_deliveries = bt_empty,
      credentials = bt_empty, role_bindings = bt_empty, external_deliveries = bt_empty,
      external_binding_clocks = bt_empty, flows = bt_empty, messages = bt_empty,
      flow_changes = bt_empty, executions = bt_empty, flight_leases = bt_empty,
      staged_artifacts = bt_empty, office_releases = bt_empty, gitlab_writes = bt_empty,
      resource_leases = bt_empty, flight_recoveries = bt_empty, attentions = bt_empty,
      escalations = bt_empty, last_sequence = 0\<rparr>"

section \<open>Lookups\<close>

definition get_organization :: "org_state \<Rightarrow> organization result" where
  "get_organization s = ok_or (org_organization s) OrganizationNotInitialized"

definition get_tenant :: "org_state \<Rightarrow> tenant result" where
  "get_tenant s = ok_or (org_tenant s) TenantNotInitialized"

definition roles_for :: "org_state \<Rightarrow> string \<Rightarrow> organization_role list" where
  "roles_for s pid =
     sort_dedup (map role_binding_role
       (filter (\<lambda>b. role_binding_is_active b \<and> role_binding_principal_id b = pid)
         (bt_values (role_bindings s))))"

definition has_role :: "org_state \<Rightarrow> string \<Rightarrow> organization_role \<Rightarrow> bool" where
  "has_role s pid role \<longleftrightarrow>
     list_ex (\<lambda>b. role_binding_is_active b \<and> role_binding_principal_id b = pid
                \<and> role_binding_role b = role)
       (bt_values (role_bindings s))"

definition get_flow :: "org_state \<Rightarrow> string \<Rightarrow> flow result" where
  "get_flow s fid = found ''flow'' fid (bt_get (flows s) fid)"

definition lookup_principal :: "org_state \<Rightarrow> string \<Rightarrow> principal option" where
  "lookup_principal s key =
     (case bt_get (principals s) key of
        Some p \<Rightarrow> Some p
      | None \<Rightarrow> List.find (\<lambda>p. eq_ignore_ascii_case (principal_name p) key)
                  (bt_values (principals s)))"

definition get_principal :: "org_state \<Rightarrow> string \<Rightarrow> principal result" where
  "get_principal s key = found ''principal'' key (lookup_principal s key)"

definition get_external_identity ::
    "org_state \<Rightarrow> string \<Rightarrow> string \<Rightarrow> external_identity_binding result" where
  "get_external_identity s provider external_user_id =
     found ''active external identity'' (provider @ '':'' @ external_user_id)
       (List.find (\<lambda>b. identity_is_active b \<and> identity_provider b = provider
                     \<and> identity_external_user_id b = external_user_id)
         (bt_values (external_identities s)))"

definition get_work_calendar :: "org_state \<Rightarrow> string \<Rightarrow> work_calendar result" where
  "get_work_calendar s key =
     and_then (get_principal s key) (\<lambda>p.
       found ''work calendar'' (principal_id p) (bt_get (calendars s) (principal_id p)))"

definition get_notification_delivery :: "org_state \<Rightarrow> string \<Rightarrow> notification_delivery result" where
  "get_notification_delivery s did =
     found ''notification delivery'' did (bt_get (notification_deliveries s) did)"

definition get_team :: "org_state \<Rightarrow> string \<Rightarrow> team result" where
  "get_team s key =
     found ''team'' key
       (case bt_get (teams s) key of
          Some t \<Rightarrow> Some t
        | None \<Rightarrow> List.find (\<lambda>t. eq_ignore_ascii_case (team_name t) key) (bt_values (teams s)))"

definition get_repository :: "org_state \<Rightarrow> string \<Rightarrow> repository result" where
  "get_repository s key =
     found ''repository'' key
       (case (case bt_get (repositories s) key of
                Some r \<Rightarrow> Some r
              | None \<Rightarrow> List.find (\<lambda>r. eq_ignore_ascii_case (repository_name r) key)
                          (bt_values (repositories s))) of
          Some r \<Rightarrow> (if repository_active r then Some r else None)
        | None \<Rightarrow> None)"

text \<open>\<open>find_task\<close> takes the first flow, in identifier order, that has a task of that name.\<close>

fun find_map :: "('a \<Rightarrow> 'b option) \<Rightarrow> 'a list \<Rightarrow> 'b option" where
  "find_map f [] = None"
| "find_map f (x # xs) = (case f x of Some y \<Rightarrow> Some y | None \<Rightarrow> find_map f xs)"

definition find_task :: "org_state \<Rightarrow> string \<Rightarrow> (flow \<times> task) result" where
  "find_task s tid =
     found ''task'' tid
       (find_map (\<lambda>f. map_option (Pair f) (flow_task f tid)) (bt_values (flows s)))"

definition active_attentions :: "org_state \<Rightarrow> tracking_attention list" where
  "active_attentions s = filter attention_is_active (bt_values (attentions s))"

definition active_escalations :: "org_state \<Rightarrow> tracking_escalation list" where
  "active_escalations s = filter escalation_is_active (bt_values (escalations s))"

text \<open>Lookups of an object together with its claimed place.\<close>

definition get_flight_lease :: "org_state \<Rightarrow> string \<Rightarrow> string \<Rightarrow> string \<Rightarrow> flight_lease result" where
  "get_flight_lease s lid fid tid =
     and_then (found ''flight lease'' lid (bt_get (flight_leases s) lid)) (\<lambda>l.
       if lease_flow_id l \<noteq> fid \<or> lease_task_id l \<noteq> tid
       then Inl (relay_error.Validation (''flight lease '' @ lid @ '' does not match its task''))
       else Inr l)"

definition get_office_release ::
    "org_state \<Rightarrow> string \<Rightarrow> string \<Rightarrow> string \<Rightarrow> office_release_request result" where
  "get_office_release s rid fid tid =
     and_then (found ''Office release'' rid (bt_get (office_releases s) rid)) (\<lambda>r.
       if release_flow_id r \<noteq> fid \<or> release_task_id r \<noteq> tid
       then Inl (relay_error.Validation (''Office release '' @ rid @ '' does not match its task''))
       else Inr r)"

definition get_gitlab_write ::
    "org_state \<Rightarrow> string \<Rightarrow> string \<Rightarrow> string \<Rightarrow> gitlab_write_request result" where
  "get_gitlab_write s wid fid tid =
     and_then (found ''GitLab write'' wid (bt_get (gitlab_writes s) wid)) (\<lambda>r.
       if write_flow_id r \<noteq> fid \<or> write_task_id r \<noteq> tid
       then Inl (relay_error.Validation
         (''GitLab write '' @ wid @ '' does not match flow/task scope''))
       else Inr r)"

definition get_escalation ::
    "org_state \<Rightarrow> string \<Rightarrow> string \<Rightarrow> string \<Rightarrow> tracking_escalation result" where
  "get_escalation s eid fid tid =
     and_then (found ''tracking escalation'' eid (bt_get (escalations s) eid)) (\<lambda>e.
       if escalation_flow_id e \<noteq> fid \<or> escalation_task_id e \<noteq> tid
       then Inl (relay_error.Validation
         (''tracking escalation '' @ eid @ '' event does not match its source''))
       else Inr e)"

definition get_task :: "org_state \<Rightarrow> string \<Rightarrow> string \<Rightarrow> task result" where
  "get_task s fid tid =
     and_then (get_flow s fid) (\<lambda>f. found ''task'' tid (flow_task f tid))"

definition put_flow :: "flow \<Rightarrow> string \<Rightarrow> org_state \<Rightarrow> org_state" where
  "put_flow f fid s = s\<lparr>flows := bt_insert fid f (flows s)\<rparr>"

text \<open>\<open>self.task_mut(flow_id, task_id)?\<close> followed by assignments to the task.\<close>

definition update_task ::
    "string \<Rightarrow> string \<Rightarrow> (task \<Rightarrow> task) \<Rightarrow> org_state \<Rightarrow> org_state result" where
  "update_task fid tid g s =
     and_then (get_flow s fid) (\<lambda>f.
     and_then (found ''task'' tid (flow_task f tid)) (\<lambda>t.
       Inr (put_flow (flow_update_task tid g f) fid s)))"

section \<open>Facts about lookups\<close>

lemmas lookup_defs =
  get_organization_def get_tenant_def get_flow_def get_principal_def get_external_identity_def
  get_work_calendar_def get_notification_delivery_def get_team_def get_repository_def
  get_flight_lease_def get_office_release_def get_gitlab_write_def get_escalation_def get_task_def

lemma get_flow_Inr [simp]: "get_flow s fid = Inr f \<longleftrightarrow> bt_get (flows s) fid = Some f"
  by (simp add: get_flow_def)

lemma get_tenant_Inr [simp]: "get_tenant s = Inr t \<longleftrightarrow> org_tenant s = Some t"
  by (simp add: get_tenant_def)

lemma get_organization_Inr [simp]: "get_organization s = Inr t \<longleftrightarrow> org_organization s = Some t"
  by (simp add: get_organization_def)

lemma get_notification_delivery_Inr [simp]:
  "get_notification_delivery s did = Inr d \<longleftrightarrow> bt_get (notification_deliveries s) did = Some d"
  by (simp add: get_notification_delivery_def)

lemma get_flight_lease_Inr [simp]:
  "get_flight_lease s lid fid tid = Inr l \<longleftrightarrow>
     bt_get (flight_leases s) lid = Some l \<and> lease_flow_id l = fid \<and> lease_task_id l = tid"
  by (auto simp: get_flight_lease_def)

lemma get_office_release_Inr [simp]:
  "get_office_release s rid fid tid = Inr r \<longleftrightarrow>
     bt_get (office_releases s) rid = Some r \<and> release_flow_id r = fid \<and> release_task_id r = tid"
  by (auto simp: get_office_release_def)

lemma get_gitlab_write_Inr [simp]:
  "get_gitlab_write s wid fid tid = Inr r \<longleftrightarrow>
     bt_get (gitlab_writes s) wid = Some r \<and> write_flow_id r = fid \<and> write_task_id r = tid"
  by (auto simp: get_gitlab_write_def)

lemma get_escalation_Inr [simp]:
  "get_escalation s eid fid tid = Inr e \<longleftrightarrow>
     bt_get (escalations s) eid = Some e \<and> escalation_flow_id e = fid \<and> escalation_task_id e = tid"
  by (auto simp: get_escalation_def)

lemma lookup_principal_stored: "lookup_principal s key = Some p \<Longrightarrow> \<exists>k. bt_get (principals s) k = Some p"
  by (auto simp: lookup_principal_def split: option.splits dest: bt_find_Some)

lemma get_principal_Inr: "get_principal s key = Inr p \<longleftrightarrow> lookup_principal s key = Some p"
  by (simp add: get_principal_def)

lemma lookup_principal_id: "bt_get (principals s) k = Some p \<Longrightarrow> lookup_principal s k = Some p"
  by (simp add: lookup_principal_def)

lemma find_map_Some: "find_map f xs = Some y \<Longrightarrow> \<exists>x\<in>set xs. f x = Some y"
  by (induction xs) (auto split: option.splits)

lemma find_task_Inr:
  "find_task s tid = Inr (f, t) \<Longrightarrow> \<exists>k. bt_get (flows s) k = Some f \<and> flow_task f tid = Some t"
  by (auto simp: find_task_def dest!: find_map_Some)

lemma update_task_Inr:
  "update_task fid tid g s = Inr s' \<longleftrightarrow>
     (\<exists>f t. bt_get (flows s) fid = Some f \<and> flow_task f tid = Some t \<and>
            s' = put_flow (flow_update_task tid g f) fid s)"
  by (auto simp: update_task_def)

lemma has_role_iff:
  "has_role s pid role \<longleftrightarrow>
     (\<exists>k b. bt_get (role_bindings s) k = Some b \<and> role_binding_is_active b \<and>
            role_binding_principal_id b = pid \<and> role_binding_role b = role)"
  by (auto simp: has_role_def)

lemma set_roles_for: "set (roles_for s pid) = {role. has_role s pid role}"
  by (auto simp: roles_for_def has_role_iff)

lemma sorted_roles_for: "sorted_wrt (<) (roles_for s pid)"
  by (simp add: roles_for_def)

lemma flow_task_found: "flow_task f tid = Some t \<Longrightarrow> t \<in> set (flow_tasks f) \<and> task_matches tid t"
  by (auto simp: flow_task_def find_Some_iff)

end
