(* ===== verification/Work_Calendar.thy ===== *)
theory Work_Calendar
  imports Domain_Org
begin

text \<open>
  Work calendars (\<open>src/core/calendar.rs\<close>): what makes a calendar valid.
\<close>

definition validate_calendar :: "work_calendar \<Rightarrow> unit result" where
  "validate_calendar c =
     (if \<not> (-14 * 60 \<le> calendar_utc_offset_minutes c \<and> calendar_utc_offset_minutes c \<le> 14 * 60)
      then Inl (Validation ''calendar UTC offset must be between -14:00 and +14:00'')
      else if calendar_working_days c = []
      then Inl (Validation ''calendar must contain at least one working day'')
      else if calendar_day_end_minute c \<le> calendar_day_start_minute c
              \<or> 24 * 60 < calendar_day_end_minute c
      then Inl (Validation
        ''calendar work window must be within 00:00..24:00 and start before end'')
      else Inr ())"

lemma validate_calendar_Inr:
  "validate_calendar c = Inr u \<longleftrightarrow>
     \<bar>calendar_utc_offset_minutes c\<bar> \<le> 840 \<and> calendar_working_days c \<noteq> [] \<and>
     calendar_day_start_minute c < calendar_day_end_minute c \<and> calendar_day_end_minute c \<le> 1440"
  by (auto simp: validate_calendar_def)

lemma always_available_valid [simp]: "validate_calendar (always_available pid at) = Inr ()"
  by (simp add: validate_calendar_def always_available_def)

end
