(* ===== verification/State_Registry.thy ===== *)
theory State_Registry
  imports Org_State Work_Calendar
begin

text \<open>
  The projection of the registry, calendar, credential and external events (first part of
  \<open>OrganizationState::apply\<close> in \<open>src/core/state.rs\<close>), one definition per event, and what each
  keeps: roles are granted once and in the active scope, an active external identity is unique on
  both sides, every calendar is valid and every principal has one.
\<close>

section \<open>Tenant, organization, teams, repositories, planning\<close>

definition apply_tenant_initialized :: "tenant \<Rightarrow> org_state \<Rightarrow> org_state result" where
  "apply_tenant_initialized t s =
     (if org_tenant s \<noteq> None then Inl TenantAlreadyInitialized
      else Inr (s\<lparr>org_tenant := Some t\<rparr>))"

definition apply_organization_initialized :: "organization \<Rightarrow> org_state \<Rightarrow> org_state result" where
  "apply_organization_initialized org s =
     (if org_organization s \<noteq> None then Inl OrganizationAlreadyInitialized
      else Inr (s\<lparr>org_organization := Some org\<rparr>))"

definition apply_team_created :: "team \<Rightarrow> org_state \<Rightarrow> org_state result" where
  "apply_team_created t s = Inr (s\<lparr>teams := bt_insert (team_id t) t (teams s)\<rparr>)"

definition apply_repository_registered :: "repository \<Rightarrow> org_state \<Rightarrow> org_state result" where
  "apply_repository_registered r s =
     Inr (s\<lparr>repositories := bt_insert (repository_id r) r (repositories s)\<rparr>)"

definition apply_planning_requested :: "planning_request \<Rightarrow> org_state \<Rightarrow> org_state result" where
  "apply_planning_requested r s =
     Inr (s\<lparr>planning_requests := bt_insert (planning_id r) r (planning_requests s)\<rparr>)"

definition apply_planning_claimed ::
    "string \<Rightarrow> string \<Rightarrow> instant \<Rightarrow> instant \<Rightarrow> org_state \<Rightarrow> org_state result" where
  "apply_planning_claimed rid claimed_by claimed_at expires_at s =
     (case bt_get (planning_requests s) rid of
        None \<Rightarrow> Inr s
      | Some r \<Rightarrow>
          Inr (s\<lparr>planning_requests := bt_insert rid
            (r\<lparr>planning_status := Claimed,
               planning_claimed_by := Some claimed_by,
               planning_claimed_at := Some claimed_at,
               planning_lease_expires_at := Some expires_at,
               planning_attempt := planning_attempt r + 1\<rparr>) (planning_requests s)\<rparr>))"

definition apply_planning_settled ::
    "string \<Rightarrow> planning_status \<Rightarrow> string option \<Rightarrow> instant \<Rightarrow> org_state \<Rightarrow> org_state result" where
  "apply_planning_settled rid status err settled_at s =
     (case bt_get (planning_requests s) rid of
        None \<Rightarrow> Inr s
      | Some r \<Rightarrow>
          Inr (s\<lparr>planning_requests := bt_insert rid
            (r\<lparr>planning_status := status,
               planning_error := err,
               planning_settled_at := Some settled_at,
               planning_lease_expires_at := None\<rparr>) (planning_requests s)\<rparr>))"

definition apply_repository_archived :: "string \<Rightarrow> org_state \<Rightarrow> org_state result" where
  "apply_repository_archived rid s =
     (case bt_get (repositories s) rid of
        None \<Rightarrow> Inr s
      | Some r \<Rightarrow>
          Inr (s\<lparr>repositories := bt_insert rid (r\<lparr>repository_active := False\<rparr>) (repositories s)\<rparr>))"

definition apply_team_directory_updated ::
    "string \<Rightarrow> string \<Rightarrow> string option \<Rightarrow> bool \<Rightarrow> org_state \<Rightarrow> org_state result" where
  "apply_team_directory_updated tid name external_id active s =
     (if list_ex (\<lambda>t. team_id t \<noteq> tid \<and> eq_ignore_ascii_case (team_name t) name)
           (bt_values (teams s))
      then Inl (relay_error.Validation (''team already exists: '' @ name))
      else if external_id \<noteq> None \<and>
              list_ex (\<lambda>t. team_id t \<noteq> tid \<and> team_directory_external_id t = external_id)
                (bt_values (teams s))
      then Inl (relay_error.Validation ''directory Group externalId already exists'')
      else
        and_then (found ''team'' tid (bt_get (teams s) tid)) (\<lambda>t.
          Inr (s\<lparr>teams := bt_insert tid
            (t\<lparr>team_name := name,
               team_directory_external_id := external_id,
               team_active := active\<rparr>) (teams s)\<rparr>)))"

section \<open>Principals\<close>

definition apply_principal_registered :: "principal \<Rightarrow> org_state \<Rightarrow> org_state result" where
  "apply_principal_registered p s =
     Inr (s\<lparr>principals := bt_insert (principal_id p) p (principals s),
           calendars :=
             (if bt_contains (calendars s) (principal_id p) then calendars s
              else bt_insert (principal_id p)
                     (always_available (principal_id p) (principal_created_at p)) (calendars s))\<rparr>)"

definition apply_principal_directory_updated ::
    "string \<Rightarrow> string \<Rightarrow> string \<Rightarrow> string option \<Rightarrow> bool \<Rightarrow> org_state \<Rightarrow> org_state result" where
  "apply_principal_directory_updated pid name user_name tid active s =
     and_then (case tid of None \<Rightarrow> Inr () | Some t \<Rightarrow> and_then (get_team s t) (\<lambda>_. Inr ())) (\<lambda>_.
       if list_ex (\<lambda>p. principal_id p \<noteq> pid \<and> eq_ignore_ascii_case (principal_name p) name)
            (bt_values (principals s))
       then Inl (relay_error.Validation (''principal already exists: '' @ name))
       else if list_ex (\<lambda>p. principal_id p \<noteq> pid \<and>
                 (case principal_directory_username p of
                    None \<Rightarrow> False
                  | Some current \<Rightarrow> eq_ignore_ascii_case current user_name))
                 (bt_values (principals s))
       then Inl (relay_error.Validation (''directory userName already exists: '' @ user_name))
       else
         and_then (found ''principal'' pid (bt_get (principals s) pid)) (\<lambda>p.
           Inr (s\<lparr>principals := bt_insert pid
             (p\<lparr>principal_name := name,
                principal_directory_username := Some user_name,
                principal_team_id := tid,
                principal_active := active\<rparr>) (principals s)\<rparr>)))"

section \<open>Roles and external identities\<close>

definition apply_role_granted :: "role_binding \<Rightarrow> org_state \<Rightarrow> org_state result" where
  "apply_role_granted b s =
     and_then (get_tenant s) (\<lambda>tenant.
     and_then (get_organization s) (\<lambda>org.
       if role_binding_tenant_id b \<noteq> tenant_id tenant
          \<or> role_binding_organization_id b \<noteq> organization_id org
       then Inl (relay_error.Validation
         ''role binding scope does not match the active tenant and organization'')
       else
         and_then (get_principal s (role_binding_principal_id b)) (\<lambda>_.
           if list_ex (\<lambda>existing. role_binding_is_active existing
                 \<and> role_binding_principal_id existing = role_binding_principal_id b
                 \<and> role_binding_role existing = role_binding_role b)
                (bt_values (role_bindings s))
           then Inl (relay_error.Validation
             (''principal '' @ role_binding_principal_id b @ '' already has role ''
              @ show_organization_role (role_binding_role b)))
           else Inr (s\<lparr>role_bindings := bt_insert (role_binding_id b) b (role_bindings s)\<rparr>))))"

definition apply_role_revoked :: "string \<Rightarrow> string \<Rightarrow> instant \<Rightarrow> org_state \<Rightarrow> org_state result" where
  "apply_role_revoked bid revoked_by revoked_at s =
     and_then (found ''role binding'' bid (bt_get (role_bindings s) bid)) (\<lambda>b.
       if \<not> role_binding_is_active b
       then Inl (InvalidTransition (''role binding '' @ bid @ '' is already revoked''))
       else Inr (s\<lparr>role_bindings := bt_insert bid
         (b\<lparr>role_binding_revoked_by := Some revoked_by,
            role_binding_revoked_at := Some revoked_at\<rparr>) (role_bindings s)\<rparr>))"

definition apply_external_identity_bound ::
    "external_identity_binding \<Rightarrow> org_state \<Rightarrow> org_state result" where
  "apply_external_identity_bound b s =
     (if bt_contains (external_identities s) (identity_id b)
      then Inl (relay_error.Validation
        (''external identity binding already exists: '' @ identity_id b))
      else
        and_then (get_principal s (identity_principal_id b)) (\<lambda>p.
          if principal_kind p \<noteq> principal_kind.Human \<or> \<not> principal_active p
          then Inl (PermissionDenied
            ''external identities can only bind to an active Human principal'')
          else if list_ex (\<lambda>c. identity_is_active c \<and> identity_provider c = identity_provider b
                     \<and> (identity_external_user_id c = identity_external_user_id b
                        \<or> identity_principal_id c = identity_principal_id b))
                    (bt_values (external_identities s))
          then Inl (relay_error.Validation
            (''active '' @ identity_provider b @ '' identity is already bound''))
          else Inr (s\<lparr>external_identities :=
                        bt_insert (identity_id b) b (external_identities s)\<rparr>)))"

definition apply_external_identity_unbound ::
    "string \<Rightarrow> string \<Rightarrow> instant \<Rightarrow> org_state \<Rightarrow> org_state result" where
  "apply_external_identity_unbound bid unbound_by unbound_at s =
     and_then (found ''external identity binding'' bid (bt_get (external_identities s) bid)) (\<lambda>b.
       if \<not> identity_is_active b
       then Inl (InvalidTransition
         (''external identity binding '' @ bid @ '' is already inactive''))
       else Inr (s\<lparr>external_identities := bt_insert bid
         (b\<lparr>identity_unbound_by := Some unbound_by,
            identity_unbound_at := Some unbound_at\<rparr>) (external_identities s)\<rparr>))"

fun apply_registry :: "registry_event \<Rightarrow> org_state \<Rightarrow> org_state result" where
  "apply_registry (TenantInitialized t) s = apply_tenant_initialized t s"
| "apply_registry (OrganizationInitialized org) s = apply_organization_initialized org s"
| "apply_registry (TeamCreated t) s = apply_team_created t s"
| "apply_registry (RepositoryRegistered r) s = apply_repository_registered r s"
| "apply_registry (PlanningRequested r) s = apply_planning_requested r s"
| "apply_registry (PlanningClaimed rid by at expires) s = apply_planning_claimed rid by at expires s"
| "apply_registry (PlanningSettled rid status err at) s = apply_planning_settled rid status err at s"
| "apply_registry (RepositoryArchived rid _ _) s = apply_repository_archived rid s"
| "apply_registry (TeamDirectoryUpdated tid name ext active _ _) s =
     apply_team_directory_updated tid name ext active s"
| "apply_registry (PrincipalRegistered p) s = apply_principal_registered p s"
| "apply_registry (PrincipalDirectoryUpdated pid name user tid active _ _) s =
     apply_principal_directory_updated pid name user tid active s"
| "apply_registry (RoleGranted b) s = apply_role_granted b s"
| "apply_registry (RoleRevoked bid by at) s = apply_role_revoked bid by at s"
| "apply_registry (ExternalIdentityBound b) s = apply_external_identity_bound b s"
| "apply_registry (ExternalIdentityUnbound bid by at) s = apply_external_identity_unbound bid by at s"

section \<open>Calendars, credentials, external deliveries\<close>

definition apply_work_calendar_configured :: "work_calendar \<Rightarrow> org_state \<Rightarrow> org_state result" where
  "apply_work_calendar_configured c s =
     and_then (get_principal s (calendar_principal_id c)) (\<lambda>_.
     and_then (validate_calendar c) (\<lambda>_.
       Inr (s\<lparr>calendars := bt_insert (calendar_principal_id c) c (calendars s)\<rparr>)))"

definition apply_time_off_added :: "availability_block \<Rightarrow> org_state \<Rightarrow> org_state result" where
  "apply_time_off_added b s =
     and_then (get_principal s (block_principal_id b)) (\<lambda>_.
     and_then (found ''work calendar'' (block_principal_id b)
                (bt_get (calendars s) (block_principal_id b))) (\<lambda>c.
       if list_ex (\<lambda>existing. block_id existing = block_id b) (calendar_time_off c)
       then Inl (relay_error.Validation (''time off block already exists: '' @ block_id b))
       else Inr (s\<lparr>calendars := bt_insert (block_principal_id b)
         (c\<lparr>calendar_time_off := calendar_time_off c @ [b]\<rparr>) (calendars s)\<rparr>)))"

definition apply_time_off_cancelled ::
    "string \<Rightarrow> string \<Rightarrow> string \<Rightarrow> instant \<Rightarrow> org_state \<Rightarrow> org_state result" where
  "apply_time_off_cancelled pid bid cancelled_by cancelled_at s =
     and_then (found ''work calendar'' pid (bt_get (calendars s) pid)) (\<lambda>c.
     and_then (found ''time off block'' bid
                (List.find (\<lambda>b. block_id b = bid) (calendar_time_off c))) (\<lambda>b.
       if \<not> block_is_active b
       then Inl (InvalidTransition (''time off block '' @ bid @ '' is already cancelled''))
       else Inr (s\<lparr>calendars := bt_insert pid
         (c\<lparr>calendar_time_off :=
              update_first (\<lambda>b. block_id b = bid)
                (\<lambda>b. b\<lparr>block_cancelled_by := Some cancelled_by,
                       block_cancelled_at := Some cancelled_at\<rparr>)
                (calendar_time_off c)\<rparr>) (calendars s)\<rparr>)))"

fun apply_calendar :: "calendar_event \<Rightarrow> org_state \<Rightarrow> org_state result" where
  "apply_calendar (WorkCalendarConfigured c) s = apply_work_calendar_configured c s"
| "apply_calendar (TimeOffAdded b) s = apply_time_off_added b s"
| "apply_calendar (TimeOffCancelled pid bid by at) s = apply_time_off_cancelled pid bid by at s"

definition apply_api_credential_issued :: "api_credential \<Rightarrow> org_state \<Rightarrow> org_state result" where
  "apply_api_credential_issued c s =
     and_then (get_principal s (credential_principal_id c)) (\<lambda>_.
       Inr (s\<lparr>credentials := bt_insert (credential_id c) c (credentials s)\<rparr>))"

definition apply_api_credential_revoked ::
    "string \<Rightarrow> string \<Rightarrow> instant \<Rightarrow> org_state \<Rightarrow> org_state result" where
  "apply_api_credential_revoked cid pid revoked_at s =
     and_then (found ''API credential'' cid (bt_get (credentials s) cid)) (\<lambda>c.
       if credential_principal_id c \<noteq> pid
       then Inl (relay_error.Validation
         (''API credential '' @ cid @ '' does not belong to principal '' @ pid))
       else Inr (s\<lparr>credentials :=
         bt_insert cid (c\<lparr>credential_revoked_at := Some revoked_at\<rparr>) (credentials s)\<rparr>))"

fun apply_credential :: "credential_event \<Rightarrow> org_state \<Rightarrow> org_state result" where
  "apply_credential (ApiCredentialIssued c) s = apply_api_credential_issued c s"
| "apply_credential (ApiCredentialRevoked cid pid at) s = apply_api_credential_revoked cid pid at s"

definition apply_external_delivery_processed ::
    "string \<Rightarrow> string \<Rightarrow> string \<Rightarrow> instant \<Rightarrow> org_state \<Rightarrow> org_state result" where
  "apply_external_delivery_processed provider did binding_key occurred_at s =
     Inr (s\<lparr>external_deliveries :=
              bt_insert (provider @ '':'' @ did) occurred_at (external_deliveries s),
            external_binding_clocks :=
              bt_insert binding_key
                (case bt_get (external_binding_clocks s) binding_key of
                   None \<Rightarrow> occurred_at
                 | Some current \<Rightarrow> max current occurred_at)
                (external_binding_clocks s)\<rparr>)"

definition interaction_key :: "string \<Rightarrow> string \<Rightarrow> string" where
  "interaction_key provider did = provider @ '':'' @ did"

definition apply_external_interaction_processed ::
    "external_interaction_receipt \<Rightarrow> org_state \<Rightarrow> org_state result" where
  "apply_external_interaction_processed r s =
     (let key = interaction_key (receipt_provider r) (receipt_delivery_id r)
      in if bt_contains (external_interactions s) key
         then Inl (relay_error.Validation (''external interaction already processed: '' @ key))
         else Inr (s\<lparr>external_interactions :=
                       bt_insert key r (external_interactions s)\<rparr>))"

fun apply_external :: "external_event \<Rightarrow> org_state \<Rightarrow> org_state result" where
  "apply_external (ExternalDeliveryProcessed provider did key at _) s =
     apply_external_delivery_processed provider did key at s"
| "apply_external (ExternalInteractionProcessed r) s = apply_external_interaction_processed r s"

lemmas registry_handler_defs [handler_defs] =
  apply_tenant_initialized_def apply_organization_initialized_def apply_team_created_def
  apply_repository_registered_def apply_planning_requested_def apply_planning_claimed_def
  apply_planning_settled_def apply_repository_archived_def apply_team_directory_updated_def
  apply_principal_registered_def apply_principal_directory_updated_def apply_role_granted_def
  apply_role_revoked_def apply_external_identity_bound_def apply_external_identity_unbound_def
  apply_work_calendar_configured_def apply_time_off_added_def apply_time_off_cancelled_def
  apply_api_credential_issued_def apply_api_credential_revoked_def
  apply_external_delivery_processed_def apply_external_interaction_processed_def Let_def

section \<open>What the events leave alone\<close>

text \<open>
  One equation per group: the successor state differs from the state at most in the group's own
  maps. Every fact about another part of the state follows by rewriting with it.
\<close>

lemma apply_registry_frame:
  assumes "apply_registry e s = Inr s'"
  shows "s' = s\<lparr>org_tenant := org_tenant s', org_organization := org_organization s',
     teams := teams s', repositories := repositories s',
     planning_requests := planning_requests s', principals := principals s',
     calendars := calendars s', role_bindings := role_bindings s',
     external_identities := external_identities s'\<rparr>"
  using assms by (cases e) (auto simp: registry_handler_defs split: if_splits option.splits)

lemma apply_calendar_frame: "apply_calendar e s = Inr s' \<Longrightarrow> s' = s\<lparr>calendars := calendars s'\<rparr>"
  by (cases e) (auto simp: registry_handler_defs split: if_splits)

lemma apply_credential_frame:
  "apply_credential e s = Inr s' \<Longrightarrow> s' = s\<lparr>credentials := credentials s'\<rparr>"
  by (cases e) (auto simp: registry_handler_defs split: if_splits)

lemma apply_external_frame:
  "apply_external e s = Inr s' \<Longrightarrow>
     s' = s\<lparr>external_deliveries := external_deliveries s',
            external_binding_clocks := external_binding_clocks s',
            external_interactions := external_interactions s'\<rparr>"
  by (cases e) (auto simp: registry_handler_defs split: if_splits)

section \<open>What the events keep\<close>

definition same_active_role :: "role_binding \<Rightarrow> role_binding \<Rightarrow> bool" where
  "same_active_role a b \<longleftrightarrow>
     role_binding_is_active a \<and> role_binding_is_active b \<and>
     role_binding_principal_id a = role_binding_principal_id b \<and>
     role_binding_role a = role_binding_role b"

definition roles_unique :: "org_state \<Rightarrow> bool" where
  "roles_unique s \<longleftrightarrow> bt_pairwise (\<lambda>a b. \<not> same_active_role a b) (role_bindings s)"

definition roles_in_scope :: "org_state \<Rightarrow> bool" where
  "roles_in_scope s \<longleftrightarrow>
     (\<forall>k b. bt_get (role_bindings s) k = Some b \<longrightarrow>
        (\<exists>t g. org_tenant s = Some t \<and> org_organization s = Some g \<and>
               role_binding_tenant_id b = tenant_id t \<and>
               role_binding_organization_id b = organization_id g))"

definition identity_clash :: "external_identity_binding \<Rightarrow> external_identity_binding \<Rightarrow> bool" where
  "identity_clash a b \<longleftrightarrow>
     identity_is_active a \<and> identity_is_active b \<and> identity_provider a = identity_provider b \<and>
     (identity_external_user_id a = identity_external_user_id b \<or>
      identity_principal_id a = identity_principal_id b)"

definition identities_unique :: "org_state \<Rightarrow> bool" where
  "identities_unique s \<longleftrightarrow> bt_pairwise (\<lambda>a b. \<not> identity_clash a b) (external_identities s)"

definition calendars_ok :: "org_state \<Rightarrow> bool" where
  "calendars_ok s \<longleftrightarrow>
     (\<forall>k p. bt_get (principals s) k = Some p \<longrightarrow> bt_contains (calendars s) k) \<and>
     (\<forall>k c. bt_get (calendars s) k = Some c \<longrightarrow> validate_calendar c = Inr ())"

lemma registry_roles_unique:
  assumes "apply_registry e s = Inr s'" and "roles_unique s"
  shows "roles_unique s'"
  using assms
proof (cases e)
  case (RoleGranted b)
  with assms show ?thesis
    by (auto simp: registry_handler_defs roles_unique_def same_active_role_def
        split: if_splits intro!: bt_pairwise_insert) blast+
next
  case (RoleRevoked bid author at)
  with assms show ?thesis
    by (auto simp: registry_handler_defs roles_unique_def same_active_role_def
        role_binding_is_active_def split: if_splits) (erule (1) bt_pairwise_replace; auto)+
qed (auto simp: registry_handler_defs roles_unique_def split: if_splits option.splits)

lemma registry_roles_in_scope:
  assumes "apply_registry e s = Inr s'" and "roles_in_scope s"
  shows "roles_in_scope s'"
  using assms
  by (cases e) (force simp: registry_handler_defs roles_in_scope_def
      split: if_splits option.splits)+

lemma registry_identities_unique:
  assumes "apply_registry e s = Inr s'" and "identities_unique s"
  shows "identities_unique s'"
  using assms
proof (cases e)
  case (ExternalIdentityBound b)
  with assms show ?thesis
    by (auto simp: registry_handler_defs identities_unique_def identity_clash_def
        split: if_splits intro!: bt_pairwise_insert) blast+
next
  case (ExternalIdentityUnbound bid author at)
  with assms show ?thesis
    by (auto simp: registry_handler_defs identities_unique_def identity_clash_def
        identity_is_active_def split: if_splits) (erule (1) bt_pairwise_replace; auto)+
qed (auto simp: registry_handler_defs identities_unique_def split: if_splits option.splits)

lemma registry_calendars_ok:
  assumes "apply_registry e s = Inr s'" and "calendars_ok s"
  shows "calendars_ok s'"
  using assms
  by (cases e) (auto simp: registry_handler_defs calendars_ok_def bt_contains_iff
      split: if_splits option.splits)

lemma validate_time_off [simp]:
  "validate_calendar (c\<lparr>calendar_time_off := xs\<rparr>) = validate_calendar c"
  by (simp add: validate_calendar_def)

lemma calendar_calendars_ok:
  assumes "apply_calendar e s = Inr s'" and "calendars_ok s"
  shows "calendars_ok s'"
  using assms
  by (cases e) (auto simp: registry_handler_defs calendars_ok_def bt_contains_iff split: if_splits)

text \<open>The clock of an external binding never goes back.\<close>

lemma external_clock_monotone:
  assumes "apply_external e s = Inr s'" and "bt_get (external_binding_clocks s) k = Some t"
  shows "\<exists>t'. bt_get (external_binding_clocks s') k = Some t' \<and> t \<le> t'"
  using assms by (cases e) (auto simp: registry_handler_defs split: if_splits)

text \<open>An external interaction that has been recorded is never replaced.\<close>

lemma external_interaction_kept:
  assumes "apply_external e s = Inr s'" and "bt_get (external_interactions s) k = Some r"
  shows "bt_get (external_interactions s') k = Some r"
  using assms by (cases e) (auto simp: registry_handler_defs bt_contains_iff split: if_splits)

text \<open>Every entry of the group's maps is filed under its own identifier.\<close>

definition registry_filed :: "org_state \<Rightarrow> bool" where
  "registry_filed s \<longleftrightarrow>
     keyed team_id (teams s) \<and> keyed repository_id (repositories s) \<and>
     keyed planning_id (planning_requests s) \<and> keyed principal_id (principals s) \<and>
     keyed calendar_principal_id (calendars s) \<and> keyed role_binding_id (role_bindings s) \<and>
     keyed identity_id (external_identities s) \<and> keyed credential_id (credentials s) \<and>
     keyed (\<lambda>r. interaction_key (receipt_provider r) (receipt_delivery_id r))
       (external_interactions s)"

lemma registry_registry_filed:
  assumes "apply_registry e s = Inr s'" and "registry_filed s"
  shows "registry_filed s'"
  using assms
  by (cases e) (auto simp: registry_handler_defs registry_filed_def always_available_def
      split: if_splits option.splits)

lemma calendar_registry_filed:
  assumes "apply_calendar e s = Inr s'" and "registry_filed s"
  shows "registry_filed s'"
  using assms by (cases e) (auto simp: registry_handler_defs registry_filed_def split: if_splits)

lemma credential_registry_filed:
  assumes "apply_credential e s = Inr s'" and "registry_filed s"
  shows "registry_filed s'"
  using assms by (cases e) (auto simp: registry_handler_defs registry_filed_def split: if_splits)

lemma external_registry_filed:
  assumes "apply_external e s = Inr s'" and "registry_filed s"
  shows "registry_filed s'"
  using assms by (cases e) (auto simp: registry_handler_defs registry_filed_def split: if_splits)

section \<open>What granting and revoking a role does\<close>

lemma role_grant_effect:
  assumes "apply_role_granted b s = Inr s'" and "bt_get (role_bindings s) (role_binding_id b) = None"
  shows "has_role s' p r \<longleftrightarrow> has_role s p r \<or>
    (role_binding_is_active b \<and> p = role_binding_principal_id b \<and> r = role_binding_role b)"
proof -
  have "s' = s\<lparr>role_bindings := bt_insert (role_binding_id b) b (role_bindings s)\<rparr>"
    using assms(1) by (auto simp: apply_role_granted_def split: if_splits)
  then have get: "bt_get (role_bindings s') k =
      (if k = role_binding_id b then Some b else bt_get (role_bindings s) k)" for k
    by simp
  show ?thesis
  proof
    show "has_role s p r \<or> (role_binding_is_active b \<and> p = role_binding_principal_id b \<and>
        r = role_binding_role b)" if "has_role s' p r"
      using that by (auto simp: has_role_iff get split: if_splits)
  next
    assume "has_role s p r \<or> (role_binding_is_active b \<and> p = role_binding_principal_id b \<and>
        r = role_binding_role b)"
    then show "has_role s' p r"
    proof
      assume "has_role s p r"
      then obtain k c where c: "bt_get (role_bindings s) k = Some c" "role_binding_is_active c"
          "role_binding_principal_id c = p" "role_binding_role c = r"
        by (auto simp: has_role_iff)
      with assms(2) have "bt_get (role_bindings s') k = Some c" by (auto simp: get)
      with c show ?thesis unfolding has_role_iff by blast
    next
      assume "role_binding_is_active b \<and> p = role_binding_principal_id b \<and> r = role_binding_role b"
      then show ?thesis unfolding has_role_iff using get [of "role_binding_id b"] by auto
    qed
  qed
qed

lemma role_revoke_effect:
  assumes "apply_role_revoked bid author at s = Inr s'" and "roles_unique s"
    and "bt_get (role_bindings s) bid = Some b"
  shows "has_role s' p r \<longleftrightarrow>
    has_role s p r \<and> \<not> (p = role_binding_principal_id b \<and> r = role_binding_role b)"
proof -
  have active: "role_binding_is_active b"
    and s': "s' = s\<lparr>role_bindings := bt_insert bid
      (b\<lparr>role_binding_revoked_by := Some author, role_binding_revoked_at := Some at\<rparr>) (role_bindings s)\<rparr>"
    using assms(1,3) by (auto simp: apply_role_revoked_def split: if_splits)
  have other: "k = bid" if "bt_get (role_bindings s) k = Some c" "role_binding_is_active c"
    "role_binding_principal_id c = role_binding_principal_id b" "role_binding_role c = role_binding_role b"
    for k c
    using that assms(2,3) active
    by (auto simp: roles_unique_def same_active_role_def dest: bt_pairwiseD)
  have "has_role s' p r \<longleftrightarrow> (\<exists>k c. k \<noteq> bid \<and> bt_get (role_bindings s) k = Some c \<and>
      role_binding_is_active c \<and> role_binding_principal_id c = p \<and> role_binding_role c = r)"
    by (auto simp: has_role_iff s' role_binding_is_active_def split: if_splits)
  also have "\<dots> \<longleftrightarrow> has_role s p r \<and> \<not> (p = role_binding_principal_id b \<and> r = role_binding_role b)"
    (is "?other \<longleftrightarrow> ?rest")
  proof
    show ?rest if ?other using that other assms(3) by (auto simp: has_role_iff)
  next
    assume rest: ?rest
    then obtain k c where c: "bt_get (role_bindings s) k = Some c" "role_binding_is_active c"
        "role_binding_principal_id c = p" "role_binding_role c = r"
      by (auto simp: has_role_iff)
    with rest assms(3) have "k \<noteq> bid" by auto
    with c show ?other by blast
  qed
  finally show ?thesis .
qed

end
