(* ===== verification/State_Notification.thy ===== *)
theory State_Notification
  imports Org_State
begin

text \<open>
  The notification outbox (the notification events of \<open>OrganizationState::apply\<close> in
  \<open>src/core/state.rs\<close>): endpoints are registered and disabled, deliveries are queued for an active
  endpoint and then delivered, failed or cancelled. Disabling an endpoint cancels what it has not
  delivered; a delivered notification is never touched again.
\<close>

section \<open>The events\<close>

definition apply_notification_endpoint_registered ::
    "notification_endpoint \<Rightarrow> org_state \<Rightarrow> org_state result" where
  "apply_notification_endpoint_registered e s =
     (if bt_contains (notification_endpoints s) (endpoint_id e)
      then Inl (relay_error.Validation
        (''notification endpoint already exists: '' @ endpoint_id e))
      else Inr (s\<lparr>notification_endpoints :=
                    bt_insert (endpoint_id e) e (notification_endpoints s)\<rparr>))"

definition cancel_for_endpoint :: "string \<Rightarrow> notification_delivery \<Rightarrow> notification_delivery" where
  "cancel_for_endpoint eid d =
     (if delivery_endpoint_id d = eid \<and> delivery_status d \<noteq> Delivered
      then d\<lparr>delivery_status := notification_status.Cancelled,
             delivery_last_error := Some ''notification endpoint disabled''\<rparr>
      else d)"

definition apply_notification_endpoint_disabled ::
    "string \<Rightarrow> string \<Rightarrow> instant \<Rightarrow> org_state \<Rightarrow> org_state result" where
  "apply_notification_endpoint_disabled eid disabled_by disabled_at s =
     and_then (found ''notification endpoint'' eid (bt_get (notification_endpoints s) eid)) (\<lambda>e.
       if \<not> endpoint_active e
       then Inl (InvalidTransition (''notification endpoint '' @ eid @ '' is already disabled''))
       else Inr (s\<lparr>notification_endpoints := bt_insert eid
                     (e\<lparr>endpoint_active := False,
                        endpoint_disabled_by := Some disabled_by,
                        endpoint_disabled_at := Some disabled_at\<rparr>) (notification_endpoints s),
                   notification_deliveries :=
                     bt_map_values (cancel_for_endpoint eid) (notification_deliveries s)\<rparr>))"

definition apply_notification_queued :: "notification_delivery \<Rightarrow> org_state \<Rightarrow> org_state result" where
  "apply_notification_queued d s =
     and_then (found ''notification endpoint'' (delivery_endpoint_id d)
                (bt_get (notification_endpoints s) (delivery_endpoint_id d))) (\<lambda>e.
       if \<not> endpoint_active e \<or> bt_contains (notification_deliveries s) (delivery_id d)
       then Inl (relay_error.Validation
         (''notification delivery '' @ delivery_id d @ '' cannot be queued''))
       else Inr (s\<lparr>notification_deliveries :=
                     bt_insert (delivery_id d) d (notification_deliveries s)\<rparr>))"

definition delivery_is_settled :: "notification_delivery \<Rightarrow> bool" where
  "delivery_is_settled d \<longleftrightarrow>
     (case delivery_status d of Delivered \<Rightarrow> True | notification_status.Cancelled \<Rightarrow> True | _ \<Rightarrow> False)"

definition apply_notification_delivered :: "string \<Rightarrow> u16 \<Rightarrow> instant \<Rightarrow> org_state \<Rightarrow> org_state result" where
  "apply_notification_delivered did response_status delivered_at s =
     and_then (get_notification_delivery s did) (\<lambda>d.
       if delivery_is_settled d
       then Inl (InvalidTransition (''notification delivery '' @ did @ '' is already delivered''))
       else Inr (s\<lparr>notification_deliveries := bt_insert did
         (d\<lparr>delivery_status := Delivered,
            delivery_attempts := delivery_attempts d + 1,
            delivery_last_attempt_at := Some delivered_at,
            delivery_delivered_at := Some delivered_at,
            delivery_response_status := Some response_status,
            delivery_last_error := None\<rparr>) (notification_deliveries s)\<rparr>))"

definition apply_notification_failed ::
    "string \<Rightarrow> u16 option \<Rightarrow> string \<Rightarrow> instant \<Rightarrow> org_state \<Rightarrow> org_state result" where
  "apply_notification_failed did response_status err attempted_at s =
     and_then (get_notification_delivery s did) (\<lambda>d.
       if delivery_is_settled d
       then Inl (InvalidTransition (''delivered notification '' @ did @ '' cannot fail''))
       else Inr (s\<lparr>notification_deliveries := bt_insert did
         (d\<lparr>delivery_status := notification_status.Failed,
            delivery_attempts := delivery_attempts d + 1,
            delivery_last_attempt_at := Some attempted_at,
            delivery_response_status := response_status,
            delivery_last_error := Some err\<rparr>) (notification_deliveries s)\<rparr>))"

fun apply_notification :: "notification_event \<Rightarrow> org_state \<Rightarrow> org_state result" where
  "apply_notification (NotificationEndpointRegistered e) s =
     apply_notification_endpoint_registered e s"
| "apply_notification (NotificationEndpointDisabled eid author at) s =
     apply_notification_endpoint_disabled eid author at s"
| "apply_notification (NotificationQueued d) s = apply_notification_queued d s"
| "apply_notification (NotificationDelivered did _ status at) s =
     apply_notification_delivered did status at s"
| "apply_notification (NotificationFailed did _ status err at) s =
     apply_notification_failed did status err at s"

lemmas notification_handler_defs [handler_defs] =
  apply_notification_endpoint_registered_def apply_notification_endpoint_disabled_def
  apply_notification_queued_def apply_notification_delivered_def apply_notification_failed_def

lemma apply_notification_frame:
  "apply_notification e s = Inr s' \<Longrightarrow>
     s' = s\<lparr>notification_endpoints := notification_endpoints s',
            notification_deliveries := notification_deliveries s'\<rparr>"
  by (cases e) (auto simp: notification_handler_defs split: if_splits)

section \<open>What the events keep\<close>

text \<open>
  Every delivery names a registered endpoint, and a delivery of a disabled endpoint is settled.
\<close>

definition outbox_ok :: "org_state \<Rightarrow> bool" where
  "outbox_ok s \<longleftrightarrow>
     (\<forall>k d. bt_get (notification_deliveries s) k = Some d \<longrightarrow>
        (\<exists>e. bt_get (notification_endpoints s) (delivery_endpoint_id d) = Some e \<and>
             (endpoint_active e \<or> delivery_is_settled d)))"

lemma cancel_for_endpoint_simps [simp]:
  "delivery_id (cancel_for_endpoint eid d) = delivery_id d"
  "delivery_endpoint_id (cancel_for_endpoint eid d) = delivery_endpoint_id d"
  by (simp_all add: cancel_for_endpoint_def)

lemma cancel_for_endpoint_settles:
  "delivery_endpoint_id d = eid \<Longrightarrow> delivery_is_settled (cancel_for_endpoint eid d)"
  by (simp add: cancel_for_endpoint_def delivery_is_settled_def)

lemma cancel_for_endpoint_settled:
  "delivery_is_settled d \<Longrightarrow> delivery_is_settled (cancel_for_endpoint eid d)"
  by (simp add: cancel_for_endpoint_def delivery_is_settled_def)

lemma cancel_for_endpoint_other:
  "delivery_endpoint_id d \<noteq> eid \<Longrightarrow> cancel_for_endpoint eid d = d"
  by (simp add: cancel_for_endpoint_def)

lemma cancel_for_endpoint_delivered:
  "delivery_status d = Delivered \<Longrightarrow> cancel_for_endpoint eid d = d"
  by (simp add: cancel_for_endpoint_def)

lemma notification_outbox_ok:
  assumes "apply_notification e s = Inr s'" and "outbox_ok s"
  shows "outbox_ok s'"
  using assms
proof (cases e)
  case (NotificationEndpointDisabled eid author at)
  with assms show ?thesis
    by (fastforce simp: notification_handler_defs outbox_ok_def cancel_for_endpoint_other
        split: if_splits intro: cancel_for_endpoint_settles cancel_for_endpoint_settled)
qed (fastforce simp: notification_handler_defs outbox_ok_def delivery_is_settled_def
      bt_contains_iff split: if_splits)+

lemma notification_delivered_final:
  assumes "apply_notification e s = Inr s'"
    and "bt_get (notification_deliveries s) did = Some d" and "delivery_status d = Delivered"
  shows "bt_get (notification_deliveries s') did = Some d"
  using assms
  by (cases e) (auto simp: notification_handler_defs bt_contains_iff delivery_is_settled_def
      cancel_for_endpoint_delivered split: if_splits)

lemma notification_keyed:
  assumes "apply_notification e s = Inr s'"
    and "keyed endpoint_id (notification_endpoints s)"
    and "keyed delivery_id (notification_deliveries s)"
  shows "keyed endpoint_id (notification_endpoints s') \<and>
         keyed delivery_id (notification_deliveries s')"
  using assms
  by (cases e) (auto simp: notification_handler_defs split: if_splits intro!: keyed_map_values)

end
