(* ===== verification/State_Flow.thy ===== *)
theory State_Flow
  imports Org_State
begin

text \<open>
  The projection of the flow, task, message and executor events (middle part of
  \<open>OrganizationState::apply\<close> in \<open>src/core/state.rs\<close>), with \<open>refresh_flow_finish\<close> and
  \<open>apply_schedule_revision\<close>, and what they keep: a flow keeps its identity and the identities of its
  tasks, a schedule revision gives every task its estimate and nothing else.
\<close>

section \<open>Schedules\<close>

definition max_instant :: "instant list \<Rightarrow> instant option" where
  "max_instant xs = (case xs of [] \<Rightarrow> None | x # ys \<Rightarrow> Some (fold max ys x))"

definition refresh_finish :: "flow \<Rightarrow> flow" where
  "refresh_finish f =
     f\<lparr>flow_p50_finish :=
         (case max_instant (map (\<lambda>t. estimate_p50_finish (task_estimate t)) (flow_tasks f)) of
            Some value \<Rightarrow> value | None \<Rightarrow> flow_p50_finish f),
       flow_p80_finish :=
         (case max_instant (map (\<lambda>t. estimate_p80_finish (task_estimate t)) (flow_tasks f)) of
            Some value \<Rightarrow> value | None \<Rightarrow> flow_p80_finish f)\<rparr>"

definition refresh_flow_finish :: "string \<Rightarrow> org_state \<Rightarrow> org_state result" where
  "refresh_flow_finish fid s =
     and_then (get_flow s fid) (\<lambda>f. Inr (put_flow (refresh_finish f) fid s))"

fun assign_estimates :: "(string, estimate) btree \<Rightarrow> task list \<Rightarrow> task list result" where
  "assign_estimates est [] = Inr []"
| "assign_estimates est (t # ts) =
     and_then (ok_or (bt_get est (task_id t)) (relay_error.Validation
        (''flow schedule revision has no estimate for task '' @ task_id t))) (\<lambda>e.
     and_then (assign_estimates est ts) (\<lambda>ts'.
       Inr (t\<lparr>task_estimate := e\<rparr> # ts')))"

definition apply_schedule_revision ::
    "string \<Rightarrow> flow_schedule_revision \<Rightarrow> org_state \<Rightarrow> org_state result" where
  "apply_schedule_revision fid rvn s =
     and_then (get_flow s fid) (\<lambda>f.
     and_then (assign_estimates (revision_task_estimates rvn) (flow_tasks f)) (\<lambda>ts.
       if bt_len (revision_task_estimates rvn) \<noteq> length ts
       then Inl (relay_error.Validation
         (''flow schedule revision for '' @ fid @ '' has unexpected tasks''))
       else Inr (put_flow
         (f\<lparr>flow_tasks := ts,
            flow_p50_finish := revision_p50_finish rvn,
            flow_p80_finish := revision_p80_finish rvn,
            flow_critical_path := revision_critical_path rvn\<rparr>) fid s)))"

section \<open>Flow events\<close>

definition apply_plan_generated :: "flow \<Rightarrow> org_state \<Rightarrow> org_state result" where
  "apply_plan_generated f s = Inr (put_flow f (flow_id f) s)"

definition apply_flow_approved :: "string \<Rightarrow> instant \<Rightarrow> org_state \<Rightarrow> org_state result" where
  "apply_flow_approved fid approved_at s =
     and_then (get_flow s fid) (\<lambda>f.
       Inr (put_flow (f\<lparr>flow_status := flow_status.Approved,
                        flow_approved_at := Some approved_at\<rparr>) fid s))"

definition apply_flow_change_proposed :: "flow_change_request \<Rightarrow> org_state \<Rightarrow> org_state result" where
  "apply_flow_change_proposed r s =
     and_then (get_flow s (change_flow_id r)) (\<lambda>_.
     and_then (get_principal s (change_requested_by_id r)) (\<lambda>_.
       Inr (s\<lparr>flow_changes := bt_insert (change_id r) r (flow_changes s)\<rparr>)))"

text \<open>
  The new tasks are pushed one after the other, each checked against the tasks already there: no
  task answers to its identifier (as an identifier or a key), none has its key.
\<close>

definition push_new_task :: "flow \<Rightarrow> task \<Rightarrow> flow result" where
  "push_new_task f t =
     (if flow_task f (task_id t) \<noteq> None \<or> list_ex (\<lambda>x. task_key x = task_key t) (flow_tasks f)
      then Inl (relay_error.Validation
        (''flow change request adds duplicate task '' @ task_key t))
      else Inr (f\<lparr>flow_tasks := flow_tasks f @ [t]\<rparr>))"

definition apply_flow_change_applied ::
    "string \<Rightarrow> string \<Rightarrow> prd_draft \<Rightarrow> task list \<Rightarrow> flow_schedule_revision \<Rightarrow> string \<Rightarrow> instant
      \<Rightarrow> org_state \<Rightarrow> org_state result" where
  "apply_flow_change_applied fid rid prd new_tasks rvn applied_by applied_at s =
     and_then (found ''flow change request'' rid (bt_get (flow_changes s) rid)) (\<lambda>r.
       if change_flow_id r \<noteq> fid \<or> change_status r \<noteq> flow_change_status.Proposed
       then Inl (InvalidTransition (''flow change request '' @ rid @ '' cannot be applied''))
       else
         and_then (get_flow s fid) (\<lambda>f.
         and_then (try_fold push_new_task f new_tasks) (\<lambda>f'.
         and_then (apply_schedule_revision fid rvn (put_flow (f'\<lparr>flow_prd := prd\<rparr>) fid s)) (\<lambda>s'.
           Inr (s'\<lparr>flow_changes := bt_insert rid
             (r\<lparr>change_status := flow_change_status.Applied,
                change_resolved_at := Some applied_at,
                change_resolved_by := Some applied_by\<rparr>) (flow_changes s')\<rparr>)))))"

definition apply_flow_change_rejected ::
    "string \<Rightarrow> string \<Rightarrow> string \<Rightarrow> string \<Rightarrow> instant \<Rightarrow> org_state \<Rightarrow> org_state result" where
  "apply_flow_change_rejected fid rid rejected_by reason rejected_at s =
     and_then (found ''flow change request'' rid (bt_get (flow_changes s) rid)) (\<lambda>r.
       if change_flow_id r \<noteq> fid \<or> change_status r \<noteq> flow_change_status.Proposed
       then Inl (InvalidTransition (''flow change request '' @ rid @ '' cannot be rejected''))
       else Inr (s\<lparr>flow_changes := bt_insert rid
         (r\<lparr>change_status := flow_change_status.Rejected,
            change_resolved_at := Some rejected_at,
            change_resolved_by := Some rejected_by,
            change_rejection_reason := Some reason\<rparr>) (flow_changes s)\<rparr>))"

definition apply_flow_completed :: "string \<Rightarrow> instant \<Rightarrow> org_state \<Rightarrow> org_state result" where
  "apply_flow_completed fid at s =
     and_then (get_flow s fid) (\<lambda>f.
       Inr (put_flow (f\<lparr>flow_status := flow_status.Completed,
                        flow_completed_at := Some at\<rparr>) fid s))"

fun apply_flow_event :: "flow_event \<Rightarrow> org_state \<Rightarrow> org_state result" where
  "apply_flow_event (DemandCreated _) s = Inr s"
| "apply_flow_event (PlanGenerated f) s = apply_plan_generated f s"
| "apply_flow_event (FlowApproved fid _ at) s = apply_flow_approved fid at s"
| "apply_flow_event (FlowRescheduled fid rvn) s = apply_schedule_revision fid rvn s"
| "apply_flow_event (FlowChangeProposed r) s = apply_flow_change_proposed r s"
| "apply_flow_event (FlowChangeApplied fid rid prd new_tasks rvn author at) s =
     apply_flow_change_applied fid rid prd new_tasks rvn author at s"
| "apply_flow_event (FlowChangeRejected fid rid author reason at) s =
     apply_flow_change_rejected fid rid author reason at s"
| "apply_flow_event (FlowCompleted fid _ at) s = apply_flow_completed fid at s"

section \<open>Task events\<close>

definition apply_work_request_sent :: "string \<Rightarrow> string \<Rightarrow> org_state \<Rightarrow> org_state result" where
  "apply_work_request_sent fid tid s =
     update_task fid tid (\<lambda>t. t\<lparr>task_status := Assigned\<rparr>) s"

text \<open>
  Accepting a task also makes its flow active. The flow's status is written before the task is
  looked up; when the task is missing the event fails and the state is thrown away by the caller.
\<close>

definition apply_task_accepted :: "string \<Rightarrow> string \<Rightarrow> instant \<Rightarrow> org_state \<Rightarrow> org_state result" where
  "apply_task_accepted fid tid accepted_at s =
     and_then (get_flow s fid) (\<lambda>f.
       let f' = f\<lparr>flow_status := flow_status.Active\<rparr> in
       and_then (found ''task'' tid (flow_task f' tid)) (\<lambda>t.
         Inr (put_flow (flow_update_task tid
           (\<lambda>t. t\<lparr>task_status := Accepted, task_last_heartbeat := Some accepted_at\<rparr>) f') fid s)))"

definition apply_task_rejected :: "string \<Rightarrow> string \<Rightarrow> org_state \<Rightarrow> org_state result" where
  "apply_task_rejected fid tid s =
     update_task fid tid (\<lambda>t. t\<lparr>task_status := task_status.Rejected\<rparr>) s"

definition apply_task_estimate_negotiated ::
    "string \<Rightarrow> string \<Rightarrow> estimate \<Rightarrow> org_state \<Rightarrow> org_state result" where
  "apply_task_estimate_negotiated fid tid est s =
     and_then (update_task fid tid (\<lambda>t. t\<lparr>task_estimate := est\<rparr>) s) (refresh_flow_finish fid)"

definition apply_task_reassigned ::
    "string \<Rightarrow> string \<Rightarrow> assignment option \<Rightarrow> assignment \<Rightarrow> org_state \<Rightarrow> org_state result" where
  "apply_task_reassigned fid tid previous new s =
     and_then (get_task s fid tid) (\<lambda>t.
       if \<not> option_eq assignment_eq (task_assignment t) previous
       then Inl (relay_error.Validation
         (''task '' @ tid @ '' reassignment does not match its previous owner''))
       else update_task fid tid
         (\<lambda>t. t\<lparr>task_assignment := Some new,
                task_status := Assigned,
                task_blocker := None,
                task_last_heartbeat := None\<rparr>) s)"

definition apply_task_started :: "string \<Rightarrow> string \<Rightarrow> instant \<Rightarrow> org_state \<Rightarrow> org_state result" where
  "apply_task_started fid tid started_at s =
     update_task fid tid
       (\<lambda>t. t\<lparr>task_status := InProgress,
              task_blocker := None,
              task_last_heartbeat := Some started_at\<rparr>) s"

definition apply_task_heartbeat :: "string \<Rightarrow> string \<Rightarrow> instant \<Rightarrow> org_state \<Rightarrow> org_state result" where
  "apply_task_heartbeat fid tid at s =
     update_task fid tid (\<lambda>t. t\<lparr>task_last_heartbeat := Some at\<rparr>) s"

definition apply_task_blocked ::
    "string \<Rightarrow> string \<Rightarrow> string \<Rightarrow> instant \<Rightarrow> org_state \<Rightarrow> org_state result" where
  "apply_task_blocked fid tid reason at s =
     update_task fid tid
       (\<lambda>t. t\<lparr>task_status := task_status.Blocked,
              task_blocker := Some reason,
              task_last_heartbeat := Some at\<rparr>) s"

definition apply_evidence_added :: "string \<Rightarrow> string \<Rightarrow> evidence \<Rightarrow> org_state \<Rightarrow> org_state result" where
  "apply_evidence_added fid tid ev s =
     update_task fid tid (\<lambda>t. t\<lparr>task_evidence := task_evidence t @ [ev]\<rparr>) s"

text \<open>
  An artifact with a parent replaces its siblings of the same provider, kind and project that have
  the same parent or none; then the artifact replaces its own earlier snapshot or is appended.
\<close>

definition keeps_artifact :: "external_artifact \<Rightarrow> string \<Rightarrow> external_artifact \<Rightarrow> bool" where
  "keeps_artifact a parent x \<longleftrightarrow>
     artifact_id x = artifact_id a \<or> artifact_provider x \<noteq> artifact_provider a \<or>
     artifact_kind x \<noteq> artifact_kind a \<or> artifact_project x \<noteq> artifact_project a \<or>
     (case artifact_parent_id x of None \<Rightarrow> False | Some p \<Rightarrow> p \<noteq> parent)"

definition sync_artifact :: "external_artifact \<Rightarrow> external_artifact list \<Rightarrow> external_artifact list" where
  "sync_artifact a xs =
     (let kept = (case artifact_parent_id a of
                    None \<Rightarrow> xs
                  | Some parent \<Rightarrow> filter (keeps_artifact a parent) xs)
      in if list_ex (\<lambda>x. artifact_id x = artifact_id a) kept
         then update_first (\<lambda>x. artifact_id x = artifact_id a) (\<lambda>_. a) kept
         else kept @ [a])"

definition apply_external_artifact_synced ::
    "string \<Rightarrow> string \<Rightarrow> external_artifact \<Rightarrow> org_state \<Rightarrow> org_state result" where
  "apply_external_artifact_synced fid tid a s =
     update_task fid tid
       (\<lambda>t. t\<lparr>task_external_artifacts := sync_artifact a (task_external_artifacts t)\<rparr>) s"

definition apply_task_submitted :: "string \<Rightarrow> string \<Rightarrow> instant \<Rightarrow> org_state \<Rightarrow> org_state result" where
  "apply_task_submitted fid tid at s =
     update_task fid tid
       (\<lambda>t. t\<lparr>task_status := Submitted, task_last_heartbeat := Some at\<rparr>) s"

definition apply_task_completed :: "string \<Rightarrow> string \<Rightarrow> instant \<Rightarrow> org_state \<Rightarrow> org_state result" where
  "apply_task_completed fid tid at s =
     update_task fid tid
       (\<lambda>t. t\<lparr>task_status := task_status.Completed,
              task_blocker := None,
              task_last_heartbeat := Some at\<rparr>) s"

fun apply_task_event :: "task_event \<Rightarrow> org_state \<Rightarrow> org_state result" where
  "apply_task_event (WorkRequestSent fid tid _) s = apply_work_request_sent fid tid s"
| "apply_task_event (TaskAccepted fid tid _ at) s = apply_task_accepted fid tid at s"
| "apply_task_event (TaskRejected fid tid _ _) s = apply_task_rejected fid tid s"
| "apply_task_event (TaskEstimateNegotiated fid tid _ est) s =
     apply_task_estimate_negotiated fid tid est s"
| "apply_task_event (TaskReassigned fid tid previous new _ _ _) s =
     apply_task_reassigned fid tid previous new s"
| "apply_task_event (TaskStarted fid tid _ at) s = apply_task_started fid tid at s"
| "apply_task_event (TaskHeartbeat fid tid _ _ at) s = apply_task_heartbeat fid tid at s"
| "apply_task_event (TaskBlocked fid tid _ reason at) s = apply_task_blocked fid tid reason at s"
| "apply_task_event (EvidenceAdded fid tid ev) s = apply_evidence_added fid tid ev s"
| "apply_task_event (ExternalArtifactSynced fid tid a) s =
     apply_external_artifact_synced fid tid a s"
| "apply_task_event (TaskSubmitted fid tid _ at) s = apply_task_submitted fid tid at s"
| "apply_task_event (TaskCompleted fid tid _ at) s = apply_task_completed fid tid at s"

section \<open>Messages and executions\<close>

definition recipient_exists :: "org_state \<Rightarrow> assignment_target \<Rightarrow> unit result" where
  "recipient_exists s r =
     (case target_kind r of
        target_kind.Human \<Rightarrow> and_then (get_principal s (target_id r)) (\<lambda>_. Inr ())
      | target_kind.Agent \<Rightarrow> and_then (get_principal s (target_id r)) (\<lambda>_. Inr ())
      | target_kind.Team \<Rightarrow> and_then (get_team s (target_id r)) (\<lambda>_. Inr ()))"

definition apply_flow_message_posted :: "flow_message \<Rightarrow> org_state \<Rightarrow> org_state result" where
  "apply_flow_message_posted m s =
     and_then (get_flow s (message_flow_id m)) (\<lambda>f.
     and_then (case message_task_id m of
                 None \<Rightarrow> Inr ()
               | Some tid \<Rightarrow> and_then (found ''task'' tid (flow_task f tid)) (\<lambda>_. Inr ())) (\<lambda>_.
     and_then (get_principal s (message_sender_id m)) (\<lambda>_.
     and_then (try_fold (\<lambda>_. recipient_exists s) () (message_recipients m)) (\<lambda>_.
       Inr (s\<lparr>messages := bt_insert (message_id m) m (messages s)\<rparr>)))))"

definition acknowledge :: "string \<Rightarrow> flow_message \<Rightarrow> message_acknowledgement \<Rightarrow> flow_message result" where
  "acknowledge mid m a =
     (if \<not> list_ex (\<lambda>r. target_id r = ack_recipient_id a) (message_recipients m)
      then Inl (relay_error.Validation
        (''flow message '' @ mid @ '' has no recipient '' @ ack_recipient_id a))
      else Inr (m\<lparr>message_acknowledgements :=
        (if list_ex (\<lambda>x. ack_recipient_id x = ack_recipient_id a) (message_acknowledgements m)
         then update_first (\<lambda>x. ack_recipient_id x = ack_recipient_id a) (\<lambda>_. a)
                (message_acknowledgements m)
         else message_acknowledgements m @ [a])\<rparr>))"

definition apply_flow_message_acknowledged ::
    "string \<Rightarrow> string \<Rightarrow> message_acknowledgement list \<Rightarrow> org_state \<Rightarrow> org_state result" where
  "apply_flow_message_acknowledged fid mid acks s =
     and_then (try_fold (\<lambda>_ a. and_then (get_principal s (ack_acknowledged_by_id a)) (\<lambda>_. Inr ()))
                () acks) (\<lambda>_.
     and_then (found ''flow message'' mid (bt_get (messages s) mid)) (\<lambda>m.
       if message_flow_id m \<noteq> fid
       then Inl (relay_error.Validation
         (''flow message '' @ mid @ '' does not belong to flow '' @ fid))
       else
         and_then (try_fold (acknowledge mid) m acks) (\<lambda>m'.
           Inr (s\<lparr>messages := bt_insert mid m' (messages s)\<rparr>))))"

fun apply_message :: "message_event \<Rightarrow> org_state \<Rightarrow> org_state result" where
  "apply_message (FlowMessagePosted m) s = apply_flow_message_posted m s"
| "apply_message (FlowMessageAcknowledged fid mid acks) s =
     apply_flow_message_acknowledged fid mid acks s"

definition apply_executor_finished :: "execution_record \<Rightarrow> org_state \<Rightarrow> org_state result" where
  "apply_executor_finished r s =
     Inr (s\<lparr>executions := bt_insert (execution_id r) r (executions s)\<rparr>)"

fun apply_executor :: "executor_event \<Rightarrow> org_state \<Rightarrow> org_state result" where
  "apply_executor (ExecutorFinished r) s = apply_executor_finished r s"
| "apply_executor (ExecutorStarted _ _ _ _ _ _ _) s = Inr s"
| "apply_executor (ExecutorFailed _ _ _ _ _ _) s = Inr s"

lemmas flow_handler_defs [handler_defs] =
  refresh_flow_finish_def apply_schedule_revision_def apply_plan_generated_def
  apply_flow_approved_def apply_flow_change_proposed_def apply_flow_change_applied_def
  apply_flow_change_rejected_def apply_flow_completed_def

lemmas task_handler_defs [handler_defs] =
  apply_work_request_sent_def apply_task_accepted_def apply_task_rejected_def
  apply_task_estimate_negotiated_def apply_task_reassigned_def apply_task_started_def
  apply_task_heartbeat_def apply_task_blocked_def apply_evidence_added_def
  apply_external_artifact_synced_def apply_task_submitted_def apply_task_completed_def
  refresh_flow_finish_def Let_def

lemmas message_handler_defs [handler_defs] =
  apply_flow_message_posted_def apply_flow_message_acknowledged_def apply_executor_finished_def

section \<open>What the events leave alone\<close>

lemma put_flow_simps [simp]:
  "flows (put_flow f fid s) = bt_insert fid f (flows s)"
  by (simp add: put_flow_def)

lemma update_task_frame: "update_task fid tid g s = Inr s' \<Longrightarrow> s' = s\<lparr>flows := flows s'\<rparr>"
  by (auto simp: update_task_Inr put_flow_def)

lemma schedule_revision_frame:
  "apply_schedule_revision fid rvn s = Inr s' \<Longrightarrow> s' = s\<lparr>flows := flows s'\<rparr>"
  by (auto simp: apply_schedule_revision_def put_flow_def split: if_splits)

lemma apply_task_frame:
  assumes "apply_task_event e s = Inr s'"
  shows "s' = s\<lparr>flows := flows s'\<rparr>"
  using assms
  by (cases e) (auto simp: task_handler_defs update_task_Inr put_flow_def split: if_splits)

lemma apply_flow_frame:
  assumes "apply_flow_event e s = Inr s'"
  shows "s' = s\<lparr>flows := flows s', flow_changes := flow_changes s'\<rparr>"
  using assms
  by (cases e) (auto simp: flow_handler_defs put_flow_def split: if_splits)

lemma apply_message_frame: "apply_message e s = Inr s' \<Longrightarrow> s' = s\<lparr>messages := messages s'\<rparr>"
  by (cases e) (auto simp: message_handler_defs split: if_splits)

lemma apply_executor_frame: "apply_executor e s = Inr s' \<Longrightarrow> s' = s\<lparr>executions := executions s'\<rparr>"
  by (cases e) (auto simp: message_handler_defs)

section \<open>Tasks of a flow\<close>

lemma update_task_simps [simp]:
  "flow_id (flow_update_task tid g f) = flow_id f"
  "flow_status (flow_update_task tid g f) = flow_status f"
  "flow_tasks (flow_update_task tid g f) = update_first (task_matches tid) g (flow_tasks f)"
  by (simp_all add: flow_update_task_def)

lemma refresh_finish_simps [simp]:
  "flow_id (refresh_finish f) = flow_id f"
  "flow_status (refresh_finish f) = flow_status f"
  "flow_tasks (refresh_finish f) = flow_tasks f"
  by (simp_all add: refresh_finish_def)

text \<open>The one task an update writes to is the one the lookup finds.\<close>

lemma flow_task_update:
  assumes "\<And>t. task_id (g t) = task_id t" and "\<And>t. task_key (g t) = task_key t"
  shows "flow_task (flow_update_task tid g f) tid = map_option g (flow_task f tid)"
  unfolding flow_task_def update_task_simps
  by (rule find_update_first) (simp add: task_matches_def assms)

text \<open>A task event keeps the number, the identifiers, the keys and the order of a flow's tasks.\<close>

definition task_names :: "flow \<Rightarrow> (string \<times> string) list" where
  "task_names f = map (\<lambda>t. (task_id t, task_key t)) (flow_tasks f)"

lemma task_names_update:
  "(\<And>t. task_id (g t) = task_id t) \<Longrightarrow> (\<And>t. task_key (g t) = task_key t) \<Longrightarrow>
   task_names (flow_update_task tid g f) = task_names f"
  by (simp add: task_names_def map_update_first)

lemma task_event_task_names:
  assumes "apply_task_event e s = Inr s'" and "bt_get (flows s) k = Some f"
  shows "\<exists>f'. bt_get (flows s') k = Some f' \<and> flow_id f' = flow_id f \<and> task_names f' = task_names f"
proof (cases e)
  case (TaskAccepted fid tid author at)
  have "task_names (f\<lparr>flow_status := st\<rparr>) = task_names f" for f :: flow and st
    by (simp add: task_names_def)
  with TaskAccepted assms show ?thesis
    by (auto simp: task_handler_defs task_names_update split: if_splits)
next
  case (TaskEstimateNegotiated fid tid author est)
  have "task_names (refresh_finish f) = task_names f" for f
    by (simp add: task_names_def)
  with TaskEstimateNegotiated assms show ?thesis
    by (auto simp: task_handler_defs update_task_Inr task_names_update split: if_splits)
qed (use assms in \<open>auto simp: task_handler_defs update_task_Inr task_names_update split: if_splits\<close>)

section \<open>Schedule revisions\<close>

lemma assign_estimates_Inr:
  "assign_estimates est ts = Inr ts' \<longleftrightarrow>
     list_all2 (\<lambda>t t'. \<exists>e. bt_get est (task_id t) = Some e \<and> t' = t\<lparr>task_estimate := e\<rparr>) ts ts'"
proof (induction ts arbitrary: ts')
  case Nil
  then show ?case by auto
next
  case (Cons t ts)
  then show ?case by (auto simp: list_all2_Cons1)
qed

lemma assign_estimates_names:
  assumes "assign_estimates est ts = Inr ts'"
  shows "map task_id ts' = map task_id ts" and "map task_key ts' = map task_key ts"
    and "map task_status ts' = map task_status ts"
  using assms unfolding assign_estimates_Inr by (induction rule: list_all2_induct) auto

lemma assign_estimates_estimate:
  assumes "assign_estimates est ts = Inr ts'" and "t' \<in> set ts'"
  shows "bt_get est (task_id t') = Some (task_estimate t')"
  using assms unfolding assign_estimates_Inr by (induction rule: list_all2_induct) auto

text \<open>
  When the tasks have distinct identifiers, an accepted revision has exactly one estimate for each
  task and none for anything else: the count check of the source closes the gap that the lookups
  leave.
\<close>

lemma revision_covers:
  assumes "assign_estimates est ts = Inr ts'" and "bt_len est = length ts'"
    and "distinct (map task_id ts)"
  shows "fst ` set (bt_entries est) = set (map task_id ts)"
proof -
  have "set (map task_id ts) \<subseteq> fst ` set (bt_entries est)"
    using assms(1) unfolding assign_estimates_Inr
    by (induction rule: list_all2_induct) (auto simp flip: bt_entries_iff intro: rev_image_eqI)
  moreover have "card (fst ` set (bt_entries est)) = length ts"
    using distinct_fst_entries [of est] assms(1,2)
    by (metis assign_estimates_names(1) bt_len_def distinct_card length_map set_map)
  moreover have "card (set (map task_id ts)) = length ts"
    using assms(3) by (metis distinct_card length_map)
  ultimately show ?thesis by (metis List.finite_set card_subset_eq finite_imageI)
qed

section \<open>Flows are filed under their identifier\<close>

definition flows_filed :: "org_state \<Rightarrow> bool" where
  "flows_filed s \<longleftrightarrow>
     keyed flow_id (flows s) \<and> keyed message_id (messages s) \<and>
     keyed change_id (flow_changes s) \<and> keyed execution_id (executions s)"

lemma insert_twice: "bt_insert k v (bt_insert k w m) = bt_insert k v m"
  by (rule bt_ext) simp

lemma update_task_flow_ids:
  "update_task fid tid g s = Inr s' \<Longrightarrow> keyed flow_id (flows s) \<Longrightarrow> keyed flow_id (flows s')"
  by (auto simp: update_task_Inr)

lemma schedule_revision_flow_ids:
  "apply_schedule_revision fid rvn s = Inr s' \<Longrightarrow> keyed flow_id (flows s) \<Longrightarrow> keyed flow_id (flows s')"
  by (auto simp: apply_schedule_revision_def split: if_splits)

lemma push_new_tasks_simps:
  assumes "try_fold push_new_task f ts = Inr f'"
  shows "flow_id f' = flow_id f" and "flow_tasks f' = flow_tasks f @ ts"
proof -
  have "try_fold push_new_task f ts = Inr f' \<Longrightarrow> flow_id f' = flow_id f \<and> flow_tasks f' = flow_tasks f @ ts"
    by (induction ts arbitrary: f) (auto simp: push_new_task_def split: if_splits)
  with assms show "flow_id f' = flow_id f" "flow_tasks f' = flow_tasks f @ ts" by simp_all
qed

lemma flow_event_filed:
  assumes "apply_flow_event e s = Inr s'" and "flows_filed s"
  shows "flows_filed s'"
proof (cases e)
  case (FlowRescheduled fid rvn)
  with assms show ?thesis
    by (auto simp: apply_schedule_revision_def flows_filed_def put_flow_def split: if_splits)
next
  case (FlowChangeApplied fid rid prd new_tasks rvn author at)
  with assms show ?thesis
    by (auto simp: apply_flow_change_applied_def apply_schedule_revision_def flows_filed_def
        put_flow_def push_new_tasks_simps insert_twice split: if_splits)
qed (use assms in \<open>auto simp: apply_plan_generated_def apply_flow_approved_def
      apply_flow_change_proposed_def apply_flow_change_rejected_def apply_flow_completed_def
      put_flow_def flows_filed_def split: if_splits\<close>)

lemma task_event_filed:
  assumes "apply_task_event e s = Inr s'" and "flows_filed s"
  shows "flows_filed s'"
  using assms
  by (cases e) (auto simp: task_handler_defs update_task_Inr put_flow_def flows_filed_def insert_twice
      split: if_splits, blast)

lemma acknowledge_id: "acknowledge mid m a = Inr m' \<Longrightarrow> message_id m' = message_id m"
  by (auto simp: acknowledge_def split: if_splits)

lemma message_event_filed:
  assumes "apply_message e s = Inr s'" and "flows_filed s"
  shows "flows_filed s'"
proof (cases e)
  case (FlowMessagePosted m)
  with assms show ?thesis by (auto simp: message_handler_defs flows_filed_def)
next
  case (FlowMessageAcknowledged fid mid acks)
  have "try_fold (acknowledge mid) m acks = Inr m' \<Longrightarrow> message_id m' = message_id m" for m m'
    by (erule try_fold_invariant [where I = "\<lambda>x. message_id x = message_id m"])
       (auto dest: acknowledge_id)
  with FlowMessageAcknowledged assms show ?thesis
    by (auto simp: message_handler_defs flows_filed_def split: if_splits)
qed

lemma executor_event_filed:
  assumes "apply_executor e s = Inr s'" and "flows_filed s"
  shows "flows_filed s'"
  using assms by (cases e) (auto simp: message_handler_defs flows_filed_def)

section \<open>Change requests\<close>

text \<open>A request that is applied or rejected stays as it is.\<close>

lemma change_resolved_final:
  assumes "apply_flow_event e s = Inr s'" and "bt_get (flow_changes s) k = Some r"
    and "change_status r \<noteq> flow_change_status.Proposed"
    and "\<And>q. e \<noteq> FlowChangeProposed q"
  shows "bt_get (flow_changes s') k = Some r"
proof (cases e)
  case (FlowRescheduled fid rvn)
  with assms show ?thesis
    by (auto simp: apply_schedule_revision_def put_flow_def split: if_splits)
qed (use assms in \<open>auto simp: apply_plan_generated_def apply_flow_approved_def
      apply_flow_change_applied_def apply_schedule_revision_def
      apply_flow_change_proposed_def apply_flow_change_rejected_def apply_flow_completed_def
      put_flow_def split: if_splits\<close>)

text \<open>
  Applying a change request keeps the tasks there are, in their order, behind them come the new
  ones, and every task then has the estimate of the revision.
\<close>

lemma change_applied_tasks:
  assumes "apply_flow_change_applied fid rid prd new_tasks rvn author at s = Inr s'"
    and "bt_get (flows s) fid = Some f"
  shows "\<exists>f'. bt_get (flows s') fid = Some f' \<and> flow_prd f' = prd \<and>
    map task_id (flow_tasks f') = map task_id (flow_tasks f @ new_tasks) \<and>
    (\<forall>t\<in>set (flow_tasks f').
       bt_get (revision_task_estimates rvn) (task_id t) = Some (task_estimate t))"
proof -
  obtain g ts where g: "try_fold push_new_task f new_tasks = Inr g"
    and ts: "assign_estimates (revision_task_estimates rvn) (flow_tasks g) = Inr ts"
    and s': "\<exists>f'. bt_get (flows s') fid = Some f' \<and> flow_prd f' = prd \<and> flow_tasks f' = ts"
    using assms
    by (auto simp: apply_flow_change_applied_def apply_schedule_revision_def split: if_splits)
  from ts have "map task_id ts = map task_id (flow_tasks f @ new_tasks)"
    by (simp add: assign_estimates_names push_new_tasks_simps [OF g])
  with s' assign_estimates_estimate [OF ts] show ?thesis by metis
qed

lemma push_new_tasks_distinct:
  assumes "try_fold push_new_task f ts = Inr f'"
    and "distinct (map task_id (flow_tasks f))" and "distinct (map task_key (flow_tasks f))"
  shows "distinct (map task_id (flow_tasks f'))" and "distinct (map task_key (flow_tasks f'))"
proof -
  have fresh: "distinct (map task_id (flow_tasks g @ [t])) \<and> distinct (map task_key (flow_tasks g @ [t]))"
    if "push_new_task g t = Inr g'" "distinct (map task_id (flow_tasks g))"
      "distinct (map task_key (flow_tasks g))" for g t g'
    using that
    by (auto simp: push_new_task_def flow_task_def find_None_iff task_matches_def list_ex_iff
        split: if_splits)
  have "distinct (map task_id (flow_tasks f')) \<and> distinct (map task_key (flow_tasks f'))"
    by (rule try_fold_invariant [OF assms(1), where I =
          "\<lambda>f. distinct (map task_id (flow_tasks f)) \<and> distinct (map task_key (flow_tasks f))"])
       (use assms(2,3) fresh in \<open>auto simp: push_new_task_def split: if_splits\<close>)
  then show "distinct (map task_id (flow_tasks f'))" "distinct (map task_key (flow_tasks f'))"
    by simp_all
qed

end
