(* ===== verification/State_Tracking.thy ===== *)
theory State_Tracking
  imports Org_State
begin

text \<open>
  The projection of the tracking events (attentions and their escalations) in
  \<open>OrganizationState::apply\<close> of \<open>src/core/state.rs\<close>. An attention names a task of a flow, an
  escalation an attention about the same task; what an attention or an escalation is about never
  changes once it is raised, and a resolution is for good.
\<close>

section \<open>The events\<close>

definition apply_tracking_attention_raised :: "tracking_attention \<Rightarrow> org_state \<Rightarrow> org_state result" where
  "apply_tracking_attention_raised a s =
     and_then (get_flow s (attention_flow_id a)) (\<lambda>f.
     and_then (found ''task'' (attention_task_id a) (flow_task f (attention_task_id a))) (\<lambda>_.
       Inr (s\<lparr>attentions := bt_insert (attention_id a) a (attentions s)\<rparr>)))"

definition apply_tracking_attention_resolved ::
    "string \<Rightarrow> string \<Rightarrow> string \<Rightarrow> attention_kind \<Rightarrow> instant \<Rightarrow> org_state \<Rightarrow> org_state result" where
  "apply_tracking_attention_resolved fid tid aid k resolved_at s =
     and_then (found ''tracking attention'' aid (bt_get (attentions s) aid)) (\<lambda>a.
       if attention_flow_id a \<noteq> fid \<or> attention_task_id a \<noteq> tid \<or> attention_kind a \<noteq> k
       then Inl (relay_error.Validation
         (''tracking attention '' @ aid @ '' resolution does not match its source''))
       else Inr (s\<lparr>attentions :=
         bt_insert aid (a\<lparr>attention_resolved_at := Some resolved_at\<rparr>) (attentions s)\<rparr>))"

definition apply_tracking_escalation_raised :: "tracking_escalation \<Rightarrow> org_state \<Rightarrow> org_state result" where
  "apply_tracking_escalation_raised e s =
     and_then (found ''tracking attention'' (escalation_attention_id e)
                (bt_get (attentions s) (escalation_attention_id e))) (\<lambda>a.
       if attention_flow_id a \<noteq> escalation_flow_id e \<or> attention_task_id a \<noteq> escalation_task_id e
       then Inl (relay_error.Validation
         (''tracking escalation '' @ escalation_id e @ '' does not match its attention''))
       else Inr (s\<lparr>escalations := bt_insert (escalation_id e) e (escalations s)\<rparr>))"

definition apply_tracking_escalation_acknowledged ::
    "string \<Rightarrow> string \<Rightarrow> string \<Rightarrow> string \<Rightarrow> instant \<Rightarrow> org_state \<Rightarrow> org_state result" where
  "apply_tracking_escalation_acknowledged fid tid eid acknowledged_by acknowledged_at s =
     and_then (get_escalation s eid fid tid) (\<lambda>e.
       Inr (s\<lparr>escalations := bt_insert eid
         (e\<lparr>escalation_acknowledged_at := Some acknowledged_at,
            escalation_acknowledged_by := Some acknowledged_by\<rparr>) (escalations s)\<rparr>))"

definition apply_tracking_escalation_resolved ::
    "string \<Rightarrow> string \<Rightarrow> string \<Rightarrow> instant \<Rightarrow> org_state \<Rightarrow> org_state result" where
  "apply_tracking_escalation_resolved fid tid eid resolved_at s =
     and_then (get_escalation s eid fid tid) (\<lambda>e.
       Inr (s\<lparr>escalations := bt_insert eid
         (e\<lparr>escalation_resolved_at := Some resolved_at\<rparr>) (escalations s)\<rparr>))"

fun apply_tracking :: "tracking_event \<Rightarrow> org_state \<Rightarrow> org_state result" where
  "apply_tracking (TrackingAttentionRaised a) s = apply_tracking_attention_raised a s"
| "apply_tracking (TrackingAttentionResolved fid tid aid k at _) s =
     apply_tracking_attention_resolved fid tid aid k at s"
| "apply_tracking (TrackingEscalationRaised e) s = apply_tracking_escalation_raised e s"
| "apply_tracking (TrackingEscalationAcknowledged fid tid eid author at) s =
     apply_tracking_escalation_acknowledged fid tid eid author at s"
| "apply_tracking (TrackingEscalationResolved fid tid eid at _) s =
     apply_tracking_escalation_resolved fid tid eid at s"

lemmas tracking_handler_defs [handler_defs] =
  apply_tracking_attention_raised_def apply_tracking_attention_resolved_def
  apply_tracking_escalation_raised_def apply_tracking_escalation_acknowledged_def
  apply_tracking_escalation_resolved_def

lemma apply_tracking_frame:
  "apply_tracking e s = Inr s' \<Longrightarrow>
     s' = s\<lparr>attentions := attentions s', escalations := escalations s'\<rparr>"
  by (cases e) (auto simp: tracking_handler_defs split: if_splits)

section \<open>What the events keep\<close>

lemma tracking_keyed:
  assumes "apply_tracking e s = Inr s'"
    and "keyed attention_id (attentions s)" and "keyed escalation_id (escalations s)"
  shows "keyed attention_id (attentions s') \<and> keyed escalation_id (escalations s')"
  using assms by (cases e) (auto simp: tracking_handler_defs split: if_splits)

text \<open>
  A tracking event other than a raise with a used identifier keeps what an attention is about; in
  particular resolving it only ever adds the time of the resolution.
\<close>

lemma attention_resolved_only:
  assumes "apply_tracking (TrackingAttentionResolved fid tid aid k at reason) s = Inr s'"
  shows "\<exists>a. bt_get (attentions s) aid = Some a \<and>
             attention_flow_id a = fid \<and> attention_task_id a = tid \<and> attention_kind a = k \<and>
             attentions s' =
               bt_insert aid (a\<lparr>attention_resolved_at := Some at\<rparr>) (attentions s)"
  using assms by (auto simp: tracking_handler_defs split: if_splits)

lemma tracking_resolution_final:
  assumes "apply_tracking e s = Inr s'" and "bt_get (attentions s) aid = Some a"
    and "\<not> attention_is_active a" and "\<And>b. e \<noteq> TrackingAttentionRaised b"
  shows "\<exists>a'. bt_get (attentions s') aid = Some a' \<and> \<not> attention_is_active a'"
  using assms
  by (cases e) (auto simp: tracking_handler_defs attention_is_active_def split: if_splits)

text \<open>An escalation is always about the task of the attention that caused it.\<close>

definition escalations_match :: "org_state \<Rightarrow> bool" where
  "escalations_match s \<longleftrightarrow>
     (\<forall>k e. bt_get (escalations s) k = Some e \<longrightarrow>
        (\<exists>a. bt_get (attentions s) (escalation_attention_id e) = Some a))"

lemma tracking_escalations_match:
  assumes "apply_tracking e s = Inr s'" and "escalations_match s"
  shows "escalations_match s'"
  using assms
  by (cases e) (fastforce simp: tracking_handler_defs escalations_match_def split: if_splits)+

end
