(* ===== verification/State_Flight.thy ===== *)
theory State_Flight
  imports Org_State
begin

text \<open>
  The projection of the flight events (\<open>OrganizationState::apply\<close> in \<open>src/core/state.rs\<close>): leases
  of a remote flight, the resources a flight holds, the artifacts it stages and the recovery
  decisions. The two exclusions the projection enforces itself are proved here: two resource leases
  in conflict never hold at the same instant, and a flight stages a path at most once.
\<close>

section \<open>The events\<close>

definition apply_remote_flight_authorized :: "flight_lease \<Rightarrow> org_state \<Rightarrow> org_state result" where
  "apply_remote_flight_authorized l s =
     and_then (get_flow s (lease_flow_id l)) (\<lambda>f.
     and_then (found ''task'' (lease_task_id l) (flow_task f (lease_task_id l))) (\<lambda>_.
     and_then (get_principal s (lease_principal_id l)) (\<lambda>_.
       Inr (s\<lparr>flight_leases := bt_insert (lease_id l) l (flight_leases s)\<rparr>))))"

definition apply_resource_lease_acquired :: "resource_lease \<Rightarrow> org_state \<Rightarrow> org_state result" where
  "apply_resource_lease_acquired l s =
     and_then (found ''flight lease'' (resource_flight_lease_id l)
                (bt_get (flight_leases s) (resource_flight_lease_id l))) (\<lambda>flight.
       if lease_flow_id flight \<noteq> resource_flow_id l \<or> lease_task_id flight \<noteq> resource_task_id l
          \<or> lease_principal_id flight \<noteq> resource_principal_id l
       then Inl (relay_error.Validation ''resource lease does not match its flight'')
       else if list_ex (\<lambda>active. resource_id active \<noteq> resource_id l \<and>
                          conflicts_with active (resource_claim l) (resource_issued_at l))
                 (bt_values (resource_leases s))
       then Inl (InvalidTransition
         (''resource '' @ debug_resource_kind (claim_kind (resource_claim l)) @ '':'' @
          claim_key (resource_claim l) @ '' is already leased''))
       else Inr (s\<lparr>resource_leases := bt_insert (resource_id l) l (resource_leases s)\<rparr>))"

definition apply_resource_lease_released ::
    "string \<Rightarrow> string \<Rightarrow> string \<Rightarrow> instant \<Rightarrow> string \<Rightarrow> org_state \<Rightarrow> org_state result" where
  "apply_resource_lease_released fid tid lid released_at reason s =
     and_then (found ''resource lease'' lid (bt_get (resource_leases s) lid)) (\<lambda>l.
       if resource_flow_id l \<noteq> fid \<or> resource_task_id l \<noteq> tid
       then Inl (relay_error.Validation ''resource release does not match its flight scope'')
       else if resource_status l \<noteq> resource_lease_status.Active
       then Inl (InvalidTransition (''resource lease '' @ lid @ '' is already released''))
       else Inr (s\<lparr>resource_leases := bt_insert lid
         (l\<lparr>resource_status := resource_lease_status.Released,
            resource_released_at := Some released_at,
            resource_release_reason := Some reason\<rparr>) (resource_leases s)\<rparr>))"

definition apply_remote_flight_claimed ::
    "string \<Rightarrow> string \<Rightarrow> string \<Rightarrow> string \<Rightarrow> instant \<Rightarrow> org_state \<Rightarrow> org_state result" where
  "apply_remote_flight_claimed fid tid lid run_id claimed_at s =
     and_then (get_flight_lease s lid fid tid) (\<lambda>l.
       Inr (s\<lparr>flight_leases := bt_insert lid
         (l\<lparr>lease_status := flight_lease_status.Active,
            lease_run_id := Some run_id,
            lease_claimed_at := Some claimed_at\<rparr>) (flight_leases s)\<rparr>))"

definition apply_flight_artifact_staged :: "staged_artifact \<Rightarrow> org_state \<Rightarrow> org_state result" where
  "apply_flight_artifact_staged a s =
     and_then (found ''flight lease'' (staged_flight_lease_id a)
                (bt_get (flight_leases s) (staged_flight_lease_id a))) (\<lambda>l.
       if lease_flow_id l \<noteq> staged_flow_id a \<or> lease_task_id l \<noteq> staged_task_id a
       then Inl (relay_error.Validation
         (''artifact '' @ staged_id a @ '' does not match flight scope''))
       else if lease_status l \<noteq> flight_lease_status.Active
       then Inl (InvalidTransition
         (''flight '' @ lease_id l @ '' cannot stage artifacts while '' @
          debug_flight_lease_status (lease_status l)))
       else if list_ex (\<lambda>x. staged_flight_lease_id x = staged_flight_lease_id a \<and>
                            staged_path x = staged_path a) (bt_values (staged_artifacts s))
       then Inl (relay_error.Validation
         (''flight artifact path already staged: '' @ staged_path a))
       else Inr (s\<lparr>staged_artifacts := bt_insert (staged_id a) a (staged_artifacts s)\<rparr>))"

definition apply_remote_flight_revoked ::
    "string \<Rightarrow> string \<Rightarrow> string \<Rightarrow> instant \<Rightarrow> org_state \<Rightarrow> org_state result" where
  "apply_remote_flight_revoked fid tid lid revoked_at s =
     and_then (get_flight_lease s lid fid tid) (\<lambda>l.
       Inr (s\<lparr>flight_leases := bt_insert lid
         (l\<lparr>lease_status := Revoked, lease_finished_at := Some revoked_at\<rparr>) (flight_leases s)\<rparr>))"

definition apply_remote_flight_expired ::
    "string \<Rightarrow> string \<Rightarrow> string \<Rightarrow> instant \<Rightarrow> org_state \<Rightarrow> org_state result" where
  "apply_remote_flight_expired fid tid lid expired_at s =
     and_then (get_flight_lease s lid fid tid) (\<lambda>l.
       Inr (s\<lparr>flight_leases := bt_insert lid
         (l\<lparr>lease_status := Expired, lease_finished_at := Some expired_at\<rparr>) (flight_leases s)\<rparr>))"

definition apply_remote_flight_finished ::
    "string \<Rightarrow> string \<Rightarrow> string \<Rightarrow> bool \<Rightarrow> remote_flight_report \<Rightarrow> instant
      \<Rightarrow> org_state \<Rightarrow> org_state result" where
  "apply_remote_flight_finished fid tid lid landed report finished_at s =
     and_then (get_flight_lease s lid fid tid) (\<lambda>l.
       Inr (s\<lparr>flight_leases := bt_insert lid
         (l\<lparr>lease_status := (if landed then Landed else Crashed),
            lease_finished_at := Some finished_at,
            lease_report := Some report\<rparr>) (flight_leases s)\<rparr>))"

definition apply_flight_recovery_decided ::
    "flight_recovery_decision \<Rightarrow> org_state \<Rightarrow> org_state result" where
  "apply_flight_recovery_decided d s =
     (if \<not> bt_contains (flight_leases s) (recovery_parent_lease_id d)
      then Inl (NotFound ''parent flight lease'' (recovery_parent_lease_id d))
      else Inr (s\<lparr>flight_recoveries := bt_insert (recovery_id d) d (flight_recoveries s)\<rparr>))"

fun apply_flight :: "flight_event \<Rightarrow> org_state \<Rightarrow> org_state result" where
  "apply_flight (RemoteFlightAuthorized l) s = apply_remote_flight_authorized l s"
| "apply_flight (ResourceLeaseAcquired l) s = apply_resource_lease_acquired l s"
| "apply_flight (ResourceLeaseReleased fid tid lid at reason) s =
     apply_resource_lease_released fid tid lid at reason s"
| "apply_flight (RemoteFlightClaimed fid tid lid run at) s =
     apply_remote_flight_claimed fid tid lid run at s"
| "apply_flight (FlightArtifactStaged a) s = apply_flight_artifact_staged a s"
| "apply_flight (RemoteFlightRevoked fid tid lid _ at) s =
     apply_remote_flight_revoked fid tid lid at s"
| "apply_flight (RemoteFlightExpired fid tid lid at) s =
     apply_remote_flight_expired fid tid lid at s"
| "apply_flight (RemoteFlightFinished fid tid lid landed report at) s =
     apply_remote_flight_finished fid tid lid landed report at s"
| "apply_flight (FlightRecoveryDecided _ _ d) s = apply_flight_recovery_decided d s"

lemmas flight_handler_defs [handler_defs] =
  apply_remote_flight_authorized_def apply_resource_lease_acquired_def
  apply_resource_lease_released_def apply_remote_flight_claimed_def
  apply_flight_artifact_staged_def apply_remote_flight_revoked_def
  apply_remote_flight_expired_def apply_remote_flight_finished_def
  apply_flight_recovery_decided_def

lemma apply_flight_frame:
  "apply_flight e s = Inr s' \<Longrightarrow>
     s' = s\<lparr>flight_leases := flight_leases s', resource_leases := resource_leases s',
            staged_artifacts := staged_artifacts s', flight_recoveries := flight_recoveries s'\<rparr>"
  by (cases e) (auto simp: flight_handler_defs split: if_splits)

lemma flight_keyed:
  assumes "apply_flight e s = Inr s'"
    and "keyed lease_id (flight_leases s)" and "keyed resource_id (resource_leases s)"
    and "keyed staged_id (staged_artifacts s)" and "keyed recovery_id (flight_recoveries s)"
  shows "keyed lease_id (flight_leases s') \<and> keyed resource_id (resource_leases s') \<and>
         keyed staged_id (staged_artifacts s') \<and> keyed recovery_id (flight_recoveries s')"
  using assms by (cases e) (auto simp: flight_handler_defs split: if_splits)

section \<open>Resources are never held twice\<close>

definition claims_collide :: "resource_claim \<Rightarrow> resource_claim \<Rightarrow> bool" where
  "claims_collide a b \<longleftrightarrow>
     claim_kind a = claim_kind b \<and> claim_key a = claim_key b \<and>
     (claim_exclusive a \<or> claim_exclusive b)"

text \<open>The lease is in force at an instant of its half-open term.\<close>

definition holds_at :: "resource_lease \<Rightarrow> instant \<Rightarrow> bool" where
  "holds_at l now \<longleftrightarrow>
     resource_status l = resource_lease_status.Active \<and>
     resource_issued_at l \<le> now \<and> now < resource_expires_at l"

text \<open>Two active leases on colliding claims have disjoint terms.\<close>

definition terms_disjoint :: "resource_lease \<Rightarrow> resource_lease \<Rightarrow> bool" where
  "terms_disjoint a b \<longleftrightarrow>
     resource_status a = resource_lease_status.Active \<longrightarrow>
     resource_status b = resource_lease_status.Active \<longrightarrow>
     claims_collide (resource_claim a) (resource_claim b) \<longrightarrow>
     resource_expires_at a \<le> resource_issued_at b \<or> resource_expires_at b \<le> resource_issued_at a"

definition resources_exclusive :: "org_state \<Rightarrow> bool" where
  "resources_exclusive s \<longleftrightarrow>
     keyed resource_id (resource_leases s) \<and> bt_pairwise terms_disjoint (resource_leases s)"

lemma terms_disjoint_sym: "terms_disjoint a b \<Longrightarrow> terms_disjoint b a"
  by (auto simp: terms_disjoint_def claims_collide_def)

lemma not_conflicting_disjoint:
  "\<not> conflicts_with old (resource_claim new) (resource_issued_at new) \<Longrightarrow> terms_disjoint old new"
  by (auto simp: conflicts_with_def terms_disjoint_def claims_collide_def)

lemma terms_disjoint_released:
  "resource_status a = resource_lease_status.Released \<Longrightarrow> terms_disjoint a b \<and> terms_disjoint b a"
  by (simp add: terms_disjoint_def)

lemma resource_acquired_exclusive:
  assumes "apply_resource_lease_acquired l s = Inr s'" and "resources_exclusive s"
  shows "resources_exclusive s'"
proof -
  have s': "s' = s\<lparr>resource_leases := bt_insert (resource_id l) l (resource_leases s)\<rparr>"
    and free: "\<And>k v. bt_get (resource_leases s) k = Some v \<Longrightarrow> resource_id v \<noteq> resource_id l
        \<Longrightarrow> \<not> conflicts_with v (resource_claim l) (resource_issued_at l)"
    using assms(1) by (auto simp: apply_resource_lease_acquired_def split: if_splits)
  have "bt_pairwise terms_disjoint (bt_insert (resource_id l) l (resource_leases s))"
    using assms(2) free unfolding resources_exclusive_def
    by (intro bt_pairwise_insert) (blast intro: not_conflicting_disjoint terms_disjoint_sym)+
  with assms(2) show ?thesis by (simp add: s' resources_exclusive_def)
qed

lemma resource_released_exclusive:
  assumes "apply_resource_lease_released fid tid lid at reason s = Inr s'"
    and "resources_exclusive s"
  shows "resources_exclusive s'"
proof -
  obtain l where l: "bt_get (resource_leases s) lid = Some l"
    and s': "s' = s\<lparr>resource_leases := bt_insert lid
         (l\<lparr>resource_status := resource_lease_status.Released, resource_released_at := Some at,
            resource_release_reason := Some reason\<rparr>) (resource_leases s)\<rparr>"
    using assms(1) by (auto simp: apply_resource_lease_released_def split: if_splits)
  then show ?thesis
    using assms(2) unfolding resources_exclusive_def
    by (auto intro!: bt_pairwise_insert simp: terms_disjoint_released)
qed

lemma flight_resources_exclusive:
  assumes "apply_flight e s = Inr s'" and "resources_exclusive s"
  shows "resources_exclusive s'"
proof (cases e)
  case (ResourceLeaseAcquired l)
  with assms show ?thesis by (auto intro: resource_acquired_exclusive)
next
  case (ResourceLeaseReleased fid tid lid at reason)
  with assms show ?thesis by (auto intro: resource_released_exclusive)
qed (use assms in \<open>auto simp: flight_handler_defs resources_exclusive_def split: if_splits\<close>)

lemma exclusive_at_every_instant:
  assumes "resources_exclusive s"
    and "bt_get (resource_leases s) j = Some a" and "bt_get (resource_leases s) k = Some b"
    and "holds_at a now" and "holds_at b now"
    and "claims_collide (resource_claim a) (resource_claim b)"
  shows "j = k"
proof (rule ccontr)
  assume "j \<noteq> k"
  with assms(1-3) have "terms_disjoint a b"
    by (auto simp: resources_exclusive_def dest: bt_pairwiseD)
  with assms(4-6) show False by (auto simp: terms_disjoint_def holds_at_def)
qed

section \<open>A path is staged once\<close>

definition other_path :: "staged_artifact \<Rightarrow> staged_artifact \<Rightarrow> bool" where
  "other_path a b \<longleftrightarrow>
     staged_flight_lease_id a \<noteq> staged_flight_lease_id b \<or> staged_path a \<noteq> staged_path b"

definition staged_unique :: "org_state \<Rightarrow> bool" where
  "staged_unique s \<longleftrightarrow> bt_pairwise other_path (staged_artifacts s)"

lemma flight_staged_unique:
  assumes "apply_flight e s = Inr s'" and "staged_unique s"
  shows "staged_unique s'"
  using assms unfolding staged_unique_def
  by (cases e)
     (auto simp: flight_handler_defs other_path_def split: if_splits intro!: bt_pairwise_insert,
      blast+)

end
