(* ===== verification/Reviewed_Dispatch.thy ===== *)
theory Reviewed_Dispatch
  imports Relay_Error
begin

text \<open>
  The promise that the two reviewed side effects of the program share (Office releases and GitLab
  writes): a request is reviewed before it is dispatched, dispatched at most once per approval, and
  never touched again once it is done or rejected. The abstract machine has one view per request;
  the locale \<open>reviewed_dispatch\<close> states what a component has to show of its own states and events,
  and its lemmas are what follows for single events and for whole runs.
\<close>

section \<open>The abstract machine\<close>

datatype review_status =
  Awaiting | Cleared | Underway | Done | Broken | Unclear | Refused

record review_view =
  view_status :: review_status
  view_reviewer :: "string option"
  view_dispatch :: "string option"
  view_has_result :: bool

datatype review_action =
    Approve string
  | Refuse string
  | Claim string
  | Succeed string
  | Fail string bool  \<comment> \<open>dispatch, outcome unclear\<close>
  | Redo string
  | Expire string bool  \<comment> \<open>dispatch, safe to dispatch again\<close>

definition fresh_view :: review_view where
  "fresh_view =
     \<lparr>view_status = Awaiting, view_reviewer = None, view_dispatch = None, view_has_result = False\<rparr>"

text \<open>The set \<open>F\<close> holds the outcomes after which a reviewer may approve another attempt.\<close>

fun review_act :: "review_status set \<Rightarrow> review_action \<Rightarrow> review_view \<Rightarrow> review_view option" where
  "review_act F (Approve w) v =
     (if view_status v = Awaiting
      then Some (v\<lparr>view_status := Cleared, view_reviewer := Some w\<rparr>) else None)"
| "review_act F (Refuse w) v =
     (if view_status v = Awaiting
      then Some (v\<lparr>view_status := Refused, view_reviewer := Some w\<rparr>) else None)"
| "review_act F (Claim d) v =
     (if view_status v = Cleared
      then Some (v\<lparr>view_status := Underway, view_dispatch := Some d\<rparr>) else None)"
| "review_act F (Succeed d) v =
     (if view_status v = Underway \<and> view_dispatch v = Some d
      then Some (v\<lparr>view_status := Done, view_has_result := True\<rparr>) else None)"
| "review_act F (Fail d unclear) v =
     (if view_status v = Underway \<and> view_dispatch v = Some d
      then Some (v\<lparr>view_status := (if unclear then Unclear else Broken)\<rparr>) else None)"
| "review_act F (Redo w) v =
     (if view_status v \<in> F
      then Some (v\<lparr>view_status := Cleared, view_reviewer := Some w, view_dispatch := None\<rparr>)
      else None)"
| "review_act F (Expire d again) v =
     (if view_status v = Underway \<and> view_dispatch v = Some d
      then Some (if again then v\<lparr>view_status := Cleared, view_dispatch := None\<rparr>
                 else v\<lparr>view_status := Unclear\<rparr>)
      else None)"

definition review_ok :: "review_view \<Rightarrow> bool" where
  "review_ok v \<longleftrightarrow>
     (view_status v = Awaiting \<longleftrightarrow> view_reviewer v = None) \<and>
     (view_status v \<in> {Awaiting, Cleared, Refused} \<longleftrightarrow> view_dispatch v = None) \<and>
     (view_has_result v \<longleftrightarrow> view_status v = Done)"

lemma fresh_view_ok: "review_ok fresh_view"
  by (simp add: review_ok_def fresh_view_def)

lemma review_act_ok:
  assumes "F \<subseteq> {Broken, Unclear}" and "review_act F a v = Some v'" and "review_ok v"
  shows "review_ok v'"
  using assms by (cases a) (auto simp: review_ok_def split: if_splits)

lemma review_act_final:
  assumes "view_status v \<in> {Done, Refused, Unclear} - F" and "F \<subseteq> {Broken, Unclear}"
  shows "review_act F a v = None"
  using assms by (cases a) auto

text \<open>An action that clears a request for one dispatch, and the dispatch that uses it up.\<close>

definition clears :: "review_action \<Rightarrow> bool" where
  "clears a \<longleftrightarrow> (case a of Approve _ \<Rightarrow> True | Redo _ \<Rightarrow> True | Expire _ again \<Rightarrow> again | _ \<Rightarrow> False)"

definition claims :: "review_action \<Rightarrow> bool" where
  "claims a \<longleftrightarrow> (case a of Claim _ \<Rightarrow> True | _ \<Rightarrow> False)"

definition pending :: "review_view \<Rightarrow> nat" where
  "pending v = of_bool (view_status v = Cleared)"

lemma review_act_balance:
  assumes "F \<subseteq> {Broken, Unclear}" and "review_act F a v = Some v'"
  shows "of_bool (claims a) + pending v' = of_bool (clears a) + pending v"
  using assms by (cases a) (auto simp: claims_def clears_def pending_def split: if_splits)

text \<open>Every request of a component is in order; which events took an action of some sort on one.\<close>

definition reviews_ok :: "('r \<Rightarrow> review_view) \<Rightarrow> (string \<Rightarrow> 'r option) \<Rightarrow> bool" where
  "reviews_ok view m \<longleftrightarrow> (\<forall>k r. m k = Some r \<longrightarrow> review_ok (view r))"

definition acts_on ::
    "('e \<Rightarrow> (string \<times> review_action option) option) \<Rightarrow> (review_action \<Rightarrow> bool) \<Rightarrow> string \<Rightarrow> 'e \<Rightarrow> bool" where
  "acts_on label P k e \<longleftrightarrow> (case label e of Some (k', Some a) \<Rightarrow> k' = k \<and> P a | _ \<Rightarrow> False)"

section \<open>The interface\<close>

locale reviewed_dispatch =
  fixes requests :: "'st \<Rightarrow> string \<Rightarrow> 'r option"
    and view :: "'r \<Rightarrow> review_view"
    and subject :: "'r \<Rightarrow> 'p"
    and retriable :: "review_status set"
    and label :: "'e \<Rightarrow> (string \<times> review_action option) option"
    and step :: "'e \<Rightarrow> 'st \<Rightarrow> 'err + 'st"
  assumes retriable: "retriable \<subseteq> {Broken, Unclear}"
    and creation: "step e s = Inr s' \<Longrightarrow> label e = Some (k, None) \<Longrightarrow>
      requests s k = None \<and> (\<exists>r. requests s' k = Some r \<and> view r = fresh_view)"
    and action: "step e s = Inr s' \<Longrightarrow> label e = Some (k, Some a) \<Longrightarrow>
      \<exists>r r'. requests s k = Some r \<and> requests s' k = Some r' \<and>
             review_act retriable a (view r) = Some (view r') \<and> subject r' = subject r"
    and untouched: "step e s = Inr s' \<Longrightarrow> map_option fst (label e) \<noteq> Some k \<Longrightarrow>
      requests s' k = requests s k"
begin

lemma elsewhere:
  assumes "step e s = Inr s'" and "\<And>a. label e \<noteq> Some (k, a)"
  shows "requests s' k = requests s k"
  using assms by (intro untouched) auto

abbreviation all_ok :: "'st \<Rightarrow> bool" where
  "all_ok s \<equiv> reviews_ok view (requests s)"

abbreviation acted :: "(review_action \<Rightarrow> bool) \<Rightarrow> string \<Rightarrow> 'e \<Rightarrow> bool" where
  "acted \<equiv> acts_on label"

text \<open>Every event leaves an existing request where it is or takes one action on it.\<close>

lemma step_cases:
  assumes "step e s = Inr s'" and "requests s k = Some r"
  obtains (idle) "requests s' k = Some r" "\<And>a. label e \<noteq> Some (k, a)"
  | (took) a r' where "label e = Some (k, Some a)" "requests s' k = Some r'"
      "review_act retriable a (view r) = Some (view r')" "subject r' = subject r"
proof (cases "\<exists>a. label e = Some (k, a)")
  case False
  then show ?thesis using elsewhere [OF assms(1)] assms(2) that(1) by metis
next
  case True
  then obtain a where a: "label e = Some (k, a)" by blast
  show ?thesis
  proof (cases a)
    case None
    with creation [OF assms(1)] a assms(2) show ?thesis by auto
  next
    case (Some b)
    with action [OF assms(1)] a assms(2) that(2) show ?thesis by force
  qed
qed

lemma step_all_ok:
  assumes "step e s = Inr s'" and "all_ok s"
  shows "all_ok s'"
  unfolding reviews_ok_def
proof (intro allI impI)
  fix k r'
  assume r': "requests s' k = Some r'"
  show "review_ok (view r')"
  proof (cases "requests s k")
    case None
    then show ?thesis
      using creation [OF assms(1), of k] action [OF assms(1), of k] elsewhere [OF assms(1), of k] r'
      by (metis fresh_view_ok not_None_eq option.inject)
  next
    case (Some r)
    then show ?thesis
      using assms r' review_act_ok [OF retriable] by (auto simp: reviews_ok_def elim: step_cases)
  qed
qed

abbreviation run :: "'st \<Rightarrow> 'e list \<Rightarrow> 'err + 'st" where
  "run \<equiv> try_fold (\<lambda>s e. step e s)"

lemma run_all_ok: "run s es = Inr s' \<Longrightarrow> all_ok s \<Longrightarrow> all_ok s'"
  by (erule try_fold_invariant) (auto intro: step_all_ok)

lemma run_subject:
  assumes "run s es = Inr s'" and "requests s k = Some r"
  shows "\<exists>r'. requests s' k = Some r' \<and> subject r' = subject r"
  by (rule try_fold_invariant [OF assms(1), where I = "\<lambda>t. \<exists>r'. requests t k = Some r' \<and> subject r' = subject r"])
     (use assms(2) in \<open>auto elim: step_cases\<close>)

lemma run_final:
  assumes "run s es = Inr s'" and "requests s k = Some r"
    and "view_status (view r) \<in> {Done, Refused, Unclear} - retriable"
  shows "requests s' k = Some r"
proof (rule try_fold_invariant [OF assms(1), where I = "\<lambda>t. requests t k = Some r"])
  show "requests s k = Some r" by fact
next
  fix t e t'
  assume "requests t k = Some r" "step e t = Inr t'"
  then show "requests t' k = Some r"
    using review_act_final [OF assms(3) retriable] by (auto elim: step_cases)
qed

lemma step_balance:
  assumes "step e s = Inr s'" and "requests s k = Some r"
  shows "\<exists>r'. requests s' k = Some r' \<and>
    of_bool (acted claims k e) + pending (view r') = of_bool (acted clears k e) + pending (view r)"
  using assms
proof (cases rule: step_cases)
  case idle
  then have "\<not> acted P k e" for P
    by (auto simp: acts_on_def split: option.splits)
  with idle show ?thesis by simp
next
  case (took a r')
  then have "acted P k e \<longleftrightarrow> P a" for P
    by (simp add: acts_on_def)
  with took show ?thesis using review_act_balance [OF retriable] by auto
qed

lemma run_balance:
  assumes "run s es = Inr s'" and "requests s k = Some r"
  shows "\<exists>r'. requests s' k = Some r' \<and>
    length (filter (acted claims k) es) + pending (view r') =
    length (filter (acted clears k) es) + pending (view r)"
  using assms
proof (induction es arbitrary: s r)
  case Nil
  then show ?case by simp
next
  case (Cons e es)
  then obtain t where t: "step e s = Inr t" "run t es = Inr s'" by auto
  obtain q where q: "requests t k = Some q"
      "of_bool (acted claims k e) + pending (view q) = of_bool (acted clears k e) + pending (view r)"
    using step_balance [OF t(1) Cons.prems(2)] by auto
  from Cons.IH [OF t(2) q(1)] q(2) show ?case by (auto split: if_splits)
qed

text \<open>From a state without the request: every dispatch was cleared by an action of its own.\<close>

lemma run_balance_fresh:
  assumes "run s es = Inr s'" and "requests s k = None"
  shows "length (filter (acted claims k) es) +
      (case requests s' k of None \<Rightarrow> 0 | Some r \<Rightarrow> pending (view r)) =
    length (filter (acted clears k) es)"
  using assms
proof (induction es arbitrary: s)
  case Nil
  then show ?case by simp
next
  case (Cons e es)
  then obtain t where t: "step e s = Inr t" "run t es = Inr s'" by auto
  have no: "\<not> acted P k e" for P
    using action [OF t(1)] Cons.prems(2) by (force simp: acts_on_def split: option.splits)
  show ?case
  proof (cases "requests t k")
    case None
    with Cons.IH [OF t(2)] no show ?thesis by simp
  next
    case (Some q)
    then have "view q = fresh_view"
      using creation [OF t(1), of k] action [OF t(1), of k] elsewhere [OF t(1), of k] Cons.prems(2)
      by (metis not_None_eq option.inject)
    then have "pending (view q) = 0" by (simp add: fresh_view_def pending_def)
    with run_balance [OF t(2) Some] no show ?thesis by auto
  qed
qed

end

end
