(* ===== verification/State_Office.thy ===== *)
theory State_Office
  imports Org_State Reviewed_Dispatch
begin

text \<open>
  The projection of the Office release events (\<open>OrganizationState::apply\<close> and
  \<open>ensure_office_dispatch\<close> in \<open>src/core/state.rs\<close>), and that it keeps the promise of
  \<open>reviewed_dispatch\<close>: a release is reviewed before it is dispatched, once per approval, and a
  rejected, released or indeterminate one is never touched again.
\<close>

section \<open>The events\<close>

definition ensure_office_dispatch :: "office_release_request \<Rightarrow> string \<Rightarrow> unit result" where
  "ensure_office_dispatch r did =
     (if release_status r \<noteq> office_release_status.Dispatching \<or> release_dispatch_id r \<noteq> Some did
      then Inl (InvalidTransition
        (''Office release '' @ release_id r @ '' is not owned by dispatch '' @ did))
      else Inr ())"

definition put_office :: "string \<Rightarrow> office_release_request \<Rightarrow> org_state \<Rightarrow> org_state" where
  "put_office rid r s = s\<lparr>office_releases := bt_insert rid r (office_releases s)\<rparr>"

definition apply_office_release_requested :: "office_release_request \<Rightarrow> org_state \<Rightarrow> org_state result" where
  "apply_office_release_requested r s =
     and_then (get_task s (release_flow_id r) (release_task_id r)) (\<lambda>_.
       if release_status r \<noteq> office_release_status.Requested
          \<or> length (release_payload_sha256 r) \<noteq> 64
          \<or> release_reviewed_by r \<noteq> None \<or> release_dispatch_id r \<noteq> None
          \<or> release_result r \<noteq> None
       then Inl (relay_error.Validation
         (''Office release '' @ release_id r @ '' has invalid initial state''))
       else if bt_contains (office_releases s) (release_id r)
       then Inl (relay_error.Validation (''Office release already exists: '' @ release_id r))
       else Inr (put_office (release_id r) r s))"

definition apply_office_release_approved ::
    "string \<Rightarrow> string \<Rightarrow> string \<Rightarrow> string \<Rightarrow> instant \<Rightarrow> org_state \<Rightarrow> org_state result" where
  "apply_office_release_approved fid tid rid approved_by approved_at s =
     and_then (get_office_release s rid fid tid) (\<lambda>r.
       if release_status r \<noteq> office_release_status.Requested
       then Inl (InvalidTransition (''Office release '' @ rid @ '' is '' @
              debug_office_release_status (release_status r) @ '', expected requested''))
       else Inr (put_office rid
         (r\<lparr>release_status := office_release_status.Approved,
            release_reviewed_by := Some approved_by,
            release_reviewed_at := Some approved_at,
            release_review_reason := None\<rparr>) s))"

definition apply_office_release_rejected ::
    "string \<Rightarrow> string \<Rightarrow> string \<Rightarrow> string \<Rightarrow> string \<Rightarrow> instant \<Rightarrow> org_state \<Rightarrow> org_state result" where
  "apply_office_release_rejected fid tid rid rejected_by reason rejected_at s =
     and_then (get_office_release s rid fid tid) (\<lambda>r.
       if release_status r \<noteq> office_release_status.Requested
       then Inl (InvalidTransition (''Office release '' @ rid @ '' is '' @
              debug_office_release_status (release_status r) @ '', expected requested''))
       else Inr (put_office rid
         (r\<lparr>release_status := office_release_status.Rejected,
            release_reviewed_by := Some rejected_by,
            release_reviewed_at := Some rejected_at,
            release_review_reason := Some reason\<rparr>) s))"

definition apply_office_release_dispatch_claimed ::
    "string \<Rightarrow> string \<Rightarrow> string \<Rightarrow> string \<Rightarrow> instant \<Rightarrow> org_state \<Rightarrow> org_state result" where
  "apply_office_release_dispatch_claimed fid tid rid did claimed_at s =
     and_then (get_office_release s rid fid tid) (\<lambda>r.
       if release_status r \<noteq> office_release_status.Approved
       then Inl (InvalidTransition (''Office release '' @ rid @ '' is '' @
              debug_office_release_status (release_status r) @ '', expected approved''))
       else Inr (put_office rid
         (r\<lparr>release_status := office_release_status.Dispatching,
            release_dispatch_id := Some did,
            release_dispatch_started_at := Some claimed_at,
            release_last_error := None\<rparr>) s))"

definition apply_office_release_succeeded ::
    "string \<Rightarrow> string \<Rightarrow> string \<Rightarrow> string \<Rightarrow> office_release_result \<Rightarrow> org_state \<Rightarrow> org_state result" where
  "apply_office_release_succeeded fid tid rid did res s =
     and_then (get_office_release s rid fid tid) (\<lambda>r.
     and_then (ensure_office_dispatch r did) (\<lambda>_.
       Inr (put_office rid
         (r\<lparr>release_status := office_release_status.Released,
            release_result := Some res,
            release_last_error := None\<rparr>) s)))"

definition apply_office_release_failed ::
    "string \<Rightarrow> string \<Rightarrow> string \<Rightarrow> string \<Rightarrow> string \<Rightarrow> bool \<Rightarrow> org_state \<Rightarrow> org_state result" where
  "apply_office_release_failed fid tid rid did err indeterminate s =
     and_then (get_office_release s rid fid tid) (\<lambda>r.
     and_then (ensure_office_dispatch r did) (\<lambda>_.
       Inr (put_office rid
         (r\<lparr>release_status := (if indeterminate then office_release_status.Indeterminate
                              else office_release_status.Failed),
            release_last_error := Some err\<rparr>) s)))"

definition apply_office_release_retry_approved ::
    "string \<Rightarrow> string \<Rightarrow> string \<Rightarrow> string \<Rightarrow> instant \<Rightarrow> org_state \<Rightarrow> org_state result" where
  "apply_office_release_retry_approved fid tid rid approved_by approved_at s =
     and_then (get_office_release s rid fid tid) (\<lambda>r.
       if release_status r \<noteq> office_release_status.Failed
       then Inl (InvalidTransition (''Office release '' @ rid @ '' is '' @
              debug_office_release_status (release_status r) @ '', expected failed''))
       else Inr (put_office rid
         (r\<lparr>release_status := office_release_status.Approved,
            release_reviewed_by := Some approved_by,
            release_reviewed_at := Some approved_at,
            release_dispatch_id := None,
            release_dispatch_started_at := None,
            release_last_error := None\<rparr>) s))"

definition apply_office_release_dispatch_expired ::
    "string \<Rightarrow> string \<Rightarrow> string \<Rightarrow> string \<Rightarrow> bool \<Rightarrow> org_state \<Rightarrow> org_state result" where
  "apply_office_release_dispatch_expired fid tid rid did safe s =
     and_then (get_office_release s rid fid tid) (\<lambda>r.
     and_then (ensure_office_dispatch r did) (\<lambda>_.
       if retry_safe (release_payload r) (release_provider r) \<noteq> safe
       then Inl (relay_error.Validation
         (''Office release '' @ rid @ '' recovery safety does not match its payload''))
       else
         let r1 = r\<lparr>release_status := (if safe then office_release_status.Approved
                                       else office_release_status.Indeterminate),
                    release_last_error := Some (if safe
                      then ''Tower restarted during dispatch; retrying an idempotent Office operation''
                      else ''Tower restarted during a non-idempotent Office operation; reconcile with the provider before creating another release'')\<rparr>
         in Inr (put_office rid
              (if safe then r1\<lparr>release_dispatch_id := None, release_dispatch_started_at := None\<rparr>
               else r1) s)))"

fun apply_office :: "office_event \<Rightarrow> org_state \<Rightarrow> org_state result" where
  "apply_office (OfficeReleaseRequested r) s = apply_office_release_requested r s"
| "apply_office (OfficeReleaseApproved fid tid rid author at) s =
     apply_office_release_approved fid tid rid author at s"
| "apply_office (OfficeReleaseRejected fid tid rid author reason at) s =
     apply_office_release_rejected fid tid rid author reason at s"
| "apply_office (OfficeReleaseDispatchClaimed fid tid rid did at) s =
     apply_office_release_dispatch_claimed fid tid rid did at s"
| "apply_office (OfficeReleaseSucceeded fid tid rid did res) s =
     apply_office_release_succeeded fid tid rid did res s"
| "apply_office (OfficeReleaseFailed fid tid rid did err indeterminate _) s =
     apply_office_release_failed fid tid rid did err indeterminate s"
| "apply_office (OfficeReleaseRetryApproved fid tid rid author at) s =
     apply_office_release_retry_approved fid tid rid author at s"
| "apply_office (OfficeReleaseDispatchExpired fid tid rid did safe _) s =
     apply_office_release_dispatch_expired fid tid rid did safe s"

lemmas office_handler_defs [handler_defs] =
  apply_office_release_requested_def apply_office_release_approved_def
  apply_office_release_rejected_def apply_office_release_dispatch_claimed_def
  apply_office_release_succeeded_def apply_office_release_failed_def
  apply_office_release_retry_approved_def apply_office_release_dispatch_expired_def

lemma ensure_office_dispatch_Inr [simp]:
  "ensure_office_dispatch r did = Inr u \<longleftrightarrow>
     release_status r = office_release_status.Dispatching \<and> release_dispatch_id r = Some did"
  by (simp add: ensure_office_dispatch_def)

lemma put_office_simps [simp]:
  "office_releases (put_office rid r s) = bt_insert rid r (office_releases s)"
  by (simp add: put_office_def)

lemma apply_office_frame: "apply_office e s = Inr s' \<Longrightarrow> s' = s\<lparr>office_releases := office_releases s'\<rparr>"
  by (cases e) (auto simp: office_handler_defs put_office_def Let_def split: if_splits)

lemma office_keyed:
  assumes "apply_office e s = Inr s'" and "keyed release_id (office_releases s)"
  shows "keyed release_id (office_releases s')"
  using assms by (cases e) (auto simp: office_handler_defs Let_def split: if_splits)

section \<open>The shared promise\<close>

fun office_review_status :: "office_release_status \<Rightarrow> review_status" where
  "office_review_status office_release_status.Requested = Awaiting"
| "office_review_status office_release_status.Approved = Cleared"
| "office_review_status office_release_status.Dispatching = Underway"
| "office_review_status office_release_status.Released = Done"
| "office_review_status office_release_status.Failed = Broken"
| "office_review_status office_release_status.Indeterminate = Unclear"
| "office_review_status office_release_status.Rejected = Refused"

definition office_view :: "office_release_request \<Rightarrow> review_view" where
  "office_view r =
     \<lparr>view_status = office_review_status (release_status r),
      view_reviewer = release_reviewed_by r,
      view_dispatch = release_dispatch_id r,
      view_has_result = (release_result r \<noteq> None)\<rparr>"

text \<open>What the reviewer approves, and where it came from.\<close>

definition office_subject :: "office_release_request \<Rightarrow>
    string \<times> string \<times> string \<times> office_provider \<times> office_release_payload \<times> string \<times> string \<times> instant" where
  "office_subject r =
     (release_id r, release_flow_id r, release_task_id r, release_provider r, release_payload r,
      release_payload_sha256 r, release_requested_by r, release_requested_at r)"

fun office_label :: "office_event \<Rightarrow> (string \<times> review_action option) option" where
  "office_label (OfficeReleaseRequested r) = Some (release_id r, None)"
| "office_label (OfficeReleaseApproved _ _ rid author _) = Some (rid, Some (Approve author))"
| "office_label (OfficeReleaseRejected _ _ rid author _ _) = Some (rid, Some (Refuse author))"
| "office_label (OfficeReleaseDispatchClaimed _ _ rid did _) = Some (rid, Some (Claim did))"
| "office_label (OfficeReleaseSucceeded _ _ rid did _) = Some (rid, Some (Succeed did))"
| "office_label (OfficeReleaseFailed _ _ rid did _ unclear _) = Some (rid, Some (Fail did unclear))"
| "office_label (OfficeReleaseRetryApproved _ _ rid author _) = Some (rid, Some (Redo author))"
| "office_label (OfficeReleaseDispatchExpired _ _ rid did safe _) = Some (rid, Some (Expire did safe))"

lemma office_review_status_iff [simp]:
  "office_review_status st = Awaiting \<longleftrightarrow> st = office_release_status.Requested"
  "office_review_status st = Cleared \<longleftrightarrow> st = office_release_status.Approved"
  "office_review_status st = Underway \<longleftrightarrow> st = office_release_status.Dispatching"
  "office_review_status st = Done \<longleftrightarrow> st = office_release_status.Released"
  "office_review_status st = Broken \<longleftrightarrow> st = office_release_status.Failed"
  "office_review_status st = Unclear \<longleftrightarrow> st = office_release_status.Indeterminate"
  "office_review_status st = Refused \<longleftrightarrow> st = office_release_status.Rejected"
  by (cases st; simp)+

definition office_request :: "org_state \<Rightarrow> string \<Rightarrow> office_release_request option" where
  "office_request s = bt_get (office_releases s)"

lemma office_creation:
  assumes "apply_office e s = Inr s'" and "office_label e = Some (k, None)"
  shows "office_request s k = None \<and>
    (\<exists>r. office_request s' k = Some r \<and> office_view r = fresh_view)"
  using assms
  by (cases e) (auto simp: office_handler_defs office_request_def office_view_def fresh_view_def
      bt_contains_def split: if_splits)

lemma office_action:
  assumes "apply_office e s = Inr s'" and "office_label e = Some (k, Some a)"
  shows "\<exists>r r'. office_request s k = Some r \<and> office_request s' k = Some r' \<and>
    review_act {Broken} a (office_view r) = Some (office_view r') \<and>
    office_subject r' = office_subject r"
  using assms
  by (cases e) (auto simp: office_handler_defs office_request_def office_view_def office_subject_def
      Let_def split: if_splits)

lemma office_untouched:
  assumes "apply_office e s = Inr s'" and "map_option fst (office_label e) \<noteq> Some k"
  shows "office_request s' k = office_request s k"
  using assms
  by (cases e) (auto simp: office_handler_defs office_request_def Let_def split: if_splits)

interpretation office: reviewed_dispatch office_request office_view office_subject "{Broken}"
  office_label apply_office
  by (rule reviewed_dispatch.intro)
     (simp, erule (1) office_creation, erule (1) office_action, erule (1) office_untouched)

text \<open>An expired dispatch is cleared again only when repeating it cannot do harm.\<close>

lemma office_expired_safe:
  assumes "apply_office (OfficeReleaseDispatchExpired fid tid rid did safe at) s = Inr s'"
    and "bt_get (office_releases s') rid = Some r'"
    and "release_status r' = office_release_status.Approved"
  shows "retry_safe (release_payload r') (release_provider r')"
  using assms by (auto simp: office_handler_defs Let_def split: if_splits)

end
