(* ===== verification/State_GitLab.thy ===== *)
theory State_GitLab
  imports Org_State Reviewed_Dispatch
begin

text \<open>
  The projection of the GitLab write events (\<open>OrganizationState::apply\<close> and
  \<open>ensure_gitlab_dispatch\<close> in \<open>src/core/state.rs\<close>), and that it keeps the promise of
  \<open>reviewed_dispatch\<close>. Unlike an Office release, a write whose outcome is unclear may be approved
  for a retry, and an expired dispatch never clears itself.
\<close>

section \<open>The events\<close>

definition ensure_gitlab_dispatch :: "gitlab_write_request \<Rightarrow> string \<Rightarrow> unit result" where
  "ensure_gitlab_dispatch r did =
     (if write_status r \<noteq> gitlab_write_status.Dispatching \<or> write_dispatch_id r \<noteq> Some did
      then Inl (InvalidTransition
        (''GitLab write '' @ write_id r @ '' is not owned by dispatch '' @ did))
      else Inr ())"

definition put_gitlab :: "string \<Rightarrow> gitlab_write_request \<Rightarrow> org_state \<Rightarrow> org_state" where
  "put_gitlab wid r s = s\<lparr>gitlab_writes := bt_insert wid r (gitlab_writes s)\<rparr>"

definition is_lower_hex :: "char \<Rightarrow> bool" where
  "is_lower_hex c \<longleftrightarrow> (CHR ''0'' \<le> c \<and> c \<le> CHR ''9'') \<or> (CHR ''a'' \<le> c \<and> c \<le> CHR ''f'')"

definition apply_gitlab_write_requested :: "gitlab_write_request \<Rightarrow> org_state \<Rightarrow> org_state result" where
  "apply_gitlab_write_requested r s =
     and_then (get_task s (write_flow_id r) (write_task_id r)) (\<lambda>_.
       if write_status r \<noteq> gitlab_write_status.Requested
          \<or> length (write_payload_sha256 r) \<noteq> 64
          \<or> \<not> list_all is_lower_hex (write_payload_sha256 r)
          \<or> write_reviewed_by r \<noteq> None \<or> write_dispatch_id r \<noteq> None
          \<or> write_result r \<noteq> None
       then Inl (relay_error.Validation
         (''GitLab write '' @ write_id r @ '' has invalid initial state''))
       else if bt_contains (gitlab_writes s) (write_id r)
       then Inl (relay_error.Validation (''GitLab write already exists: '' @ write_id r))
       else Inr (put_gitlab (write_id r) r s))"

definition apply_gitlab_write_approved ::
    "string \<Rightarrow> string \<Rightarrow> string \<Rightarrow> string \<Rightarrow> instant \<Rightarrow> org_state \<Rightarrow> org_state result" where
  "apply_gitlab_write_approved fid tid wid approved_by approved_at s =
     and_then (get_gitlab_write s wid fid tid) (\<lambda>r.
       if write_status r \<noteq> gitlab_write_status.Requested
       then Inl (InvalidTransition (''GitLab write '' @ wid @ '' is '' @
              debug_gitlab_write_status (write_status r) @ '', expected requested''))
       else Inr (put_gitlab wid
         (r\<lparr>write_status := gitlab_write_status.Approved,
            write_reviewed_by := Some approved_by,
            write_reviewed_at := Some approved_at,
            write_review_reason := None\<rparr>) s))"

definition apply_gitlab_write_rejected ::
    "string \<Rightarrow> string \<Rightarrow> string \<Rightarrow> string \<Rightarrow> string \<Rightarrow> instant \<Rightarrow> org_state \<Rightarrow> org_state result" where
  "apply_gitlab_write_rejected fid tid wid rejected_by reason rejected_at s =
     and_then (get_gitlab_write s wid fid tid) (\<lambda>r.
       if write_status r \<noteq> gitlab_write_status.Requested
       then Inl (InvalidTransition (''GitLab write '' @ wid @ '' is '' @
              debug_gitlab_write_status (write_status r) @ '', expected requested''))
       else Inr (put_gitlab wid
         (r\<lparr>write_status := gitlab_write_status.Rejected,
            write_reviewed_by := Some rejected_by,
            write_reviewed_at := Some rejected_at,
            write_review_reason := Some reason\<rparr>) s))"

definition apply_gitlab_write_dispatch_claimed ::
    "string \<Rightarrow> string \<Rightarrow> string \<Rightarrow> string \<Rightarrow> instant \<Rightarrow> org_state \<Rightarrow> org_state result" where
  "apply_gitlab_write_dispatch_claimed fid tid wid did claimed_at s =
     and_then (get_gitlab_write s wid fid tid) (\<lambda>r.
       if write_status r \<noteq> gitlab_write_status.Approved
       then Inl (InvalidTransition (''GitLab write '' @ wid @ '' is '' @
              debug_gitlab_write_status (write_status r) @ '', expected approved''))
       else Inr (put_gitlab wid
         (r\<lparr>write_status := gitlab_write_status.Dispatching,
            write_dispatch_id := Some did,
            write_dispatch_started_at := Some claimed_at,
            write_last_error := None\<rparr>) s))"

definition apply_gitlab_write_succeeded ::
    "string \<Rightarrow> string \<Rightarrow> string \<Rightarrow> string \<Rightarrow> gitlab_write_result \<Rightarrow> org_state \<Rightarrow> org_state result" where
  "apply_gitlab_write_succeeded fid tid wid did res s =
     and_then (get_gitlab_write s wid fid tid) (\<lambda>r.
     and_then (ensure_gitlab_dispatch r did) (\<lambda>_.
       Inr (put_gitlab wid
         (r\<lparr>write_status := Written,
            write_result := Some res,
            write_last_error := None\<rparr>) s)))"

definition apply_gitlab_write_failed ::
    "string \<Rightarrow> string \<Rightarrow> string \<Rightarrow> string \<Rightarrow> string \<Rightarrow> bool \<Rightarrow> org_state \<Rightarrow> org_state result" where
  "apply_gitlab_write_failed fid tid wid did err indeterminate s =
     and_then (get_gitlab_write s wid fid tid) (\<lambda>r.
     and_then (ensure_gitlab_dispatch r did) (\<lambda>_.
       Inr (put_gitlab wid
         (r\<lparr>write_status := (if indeterminate then gitlab_write_status.Indeterminate
                            else gitlab_write_status.Failed),
            write_last_error := Some err\<rparr>) s)))"

definition apply_gitlab_write_retry_approved ::
    "string \<Rightarrow> string \<Rightarrow> string \<Rightarrow> string \<Rightarrow> instant \<Rightarrow> org_state \<Rightarrow> org_state result" where
  "apply_gitlab_write_retry_approved fid tid wid approved_by approved_at s =
     and_then (get_gitlab_write s wid fid tid) (\<lambda>r.
       if \<not> (write_status r = gitlab_write_status.Failed \<or>
             write_status r = gitlab_write_status.Indeterminate)
       then Inl (InvalidTransition (''GitLab write '' @ wid @ '' is '' @
              debug_gitlab_write_status (write_status r) @ '', expected failed or indeterminate''))
       else Inr (put_gitlab wid
         (r\<lparr>write_status := gitlab_write_status.Approved,
            write_reviewed_by := Some approved_by,
            write_reviewed_at := Some approved_at,
            write_dispatch_id := None,
            write_dispatch_started_at := None,
            write_last_error := None\<rparr>) s))"

definition apply_gitlab_write_dispatch_expired ::
    "string \<Rightarrow> string \<Rightarrow> string \<Rightarrow> string \<Rightarrow> org_state \<Rightarrow> org_state result" where
  "apply_gitlab_write_dispatch_expired fid tid wid did s =
     and_then (get_gitlab_write s wid fid tid) (\<lambda>r.
     and_then (ensure_gitlab_dispatch r did) (\<lambda>_.
       Inr (put_gitlab wid
         (r\<lparr>write_status := gitlab_write_status.Indeterminate,
            write_last_error := Some
              ''Tower restarted during a GitLab write; reconcile with GitLab before approving a retry''\<rparr>) s)))"

fun apply_gitlab :: "gitlab_event \<Rightarrow> org_state \<Rightarrow> org_state result" where
  "apply_gitlab (GitLabWriteRequested r) s = apply_gitlab_write_requested r s"
| "apply_gitlab (GitLabWriteApproved fid tid wid author at) s =
     apply_gitlab_write_approved fid tid wid author at s"
| "apply_gitlab (GitLabWriteRejected fid tid wid author reason at) s =
     apply_gitlab_write_rejected fid tid wid author reason at s"
| "apply_gitlab (GitLabWriteDispatchClaimed fid tid wid did at) s =
     apply_gitlab_write_dispatch_claimed fid tid wid did at s"
| "apply_gitlab (GitLabWriteSucceeded fid tid wid did res) s =
     apply_gitlab_write_succeeded fid tid wid did res s"
| "apply_gitlab (GitLabWriteFailed fid tid wid did err indeterminate _) s =
     apply_gitlab_write_failed fid tid wid did err indeterminate s"
| "apply_gitlab (GitLabWriteRetryApproved fid tid wid author at) s =
     apply_gitlab_write_retry_approved fid tid wid author at s"
| "apply_gitlab (GitLabWriteDispatchExpired fid tid wid did _) s =
     apply_gitlab_write_dispatch_expired fid tid wid did s"

lemmas gitlab_handler_defs [handler_defs] =
  apply_gitlab_write_requested_def apply_gitlab_write_approved_def
  apply_gitlab_write_rejected_def apply_gitlab_write_dispatch_claimed_def
  apply_gitlab_write_succeeded_def apply_gitlab_write_failed_def
  apply_gitlab_write_retry_approved_def apply_gitlab_write_dispatch_expired_def

lemma ensure_gitlab_dispatch_Inr [simp]:
  "ensure_gitlab_dispatch r did = Inr u \<longleftrightarrow>
     write_status r = gitlab_write_status.Dispatching \<and> write_dispatch_id r = Some did"
  by (simp add: ensure_gitlab_dispatch_def)

lemma put_gitlab_simps [simp]:
  "gitlab_writes (put_gitlab wid r s) = bt_insert wid r (gitlab_writes s)"
  by (simp add: put_gitlab_def)

lemma apply_gitlab_frame: "apply_gitlab e s = Inr s' \<Longrightarrow> s' = s\<lparr>gitlab_writes := gitlab_writes s'\<rparr>"
  by (cases e) (auto simp: gitlab_handler_defs put_gitlab_def split: if_splits)

lemma gitlab_keyed:
  assumes "apply_gitlab e s = Inr s'" and "keyed write_id (gitlab_writes s)"
  shows "keyed write_id (gitlab_writes s')"
  using assms by (cases e) (auto simp: gitlab_handler_defs split: if_splits)

section \<open>The shared promise\<close>

fun gitlab_review_status :: "gitlab_write_status \<Rightarrow> review_status" where
  "gitlab_review_status gitlab_write_status.Requested = Awaiting"
| "gitlab_review_status gitlab_write_status.Approved = Cleared"
| "gitlab_review_status gitlab_write_status.Dispatching = Underway"
| "gitlab_review_status Written = Done"
| "gitlab_review_status gitlab_write_status.Failed = Broken"
| "gitlab_review_status gitlab_write_status.Indeterminate = Unclear"
| "gitlab_review_status gitlab_write_status.Rejected = Refused"

definition gitlab_view :: "gitlab_write_request \<Rightarrow> review_view" where
  "gitlab_view r =
     \<lparr>view_status = gitlab_review_status (write_status r),
      view_reviewer = write_reviewed_by r,
      view_dispatch = write_dispatch_id r,
      view_has_result = (write_result r \<noteq> None)\<rparr>"

definition gitlab_subject :: "gitlab_write_request \<Rightarrow>
    string \<times> string \<times> string \<times> gitlab_write_payload \<times> string \<times> string \<times> instant" where
  "gitlab_subject r =
     (write_id r, write_flow_id r, write_task_id r, write_payload r, write_payload_sha256 r,
      write_requested_by r, write_requested_at r)"

fun gitlab_label :: "gitlab_event \<Rightarrow> (string \<times> review_action option) option" where
  "gitlab_label (GitLabWriteRequested r) = Some (write_id r, None)"
| "gitlab_label (GitLabWriteApproved _ _ wid author _) = Some (wid, Some (Approve author))"
| "gitlab_label (GitLabWriteRejected _ _ wid author _ _) = Some (wid, Some (Refuse author))"
| "gitlab_label (GitLabWriteDispatchClaimed _ _ wid did _) = Some (wid, Some (Claim did))"
| "gitlab_label (GitLabWriteSucceeded _ _ wid did _) = Some (wid, Some (Succeed did))"
| "gitlab_label (GitLabWriteFailed _ _ wid did _ unclear _) = Some (wid, Some (Fail did unclear))"
| "gitlab_label (GitLabWriteRetryApproved _ _ wid author _) = Some (wid, Some (Redo author))"
| "gitlab_label (GitLabWriteDispatchExpired _ _ wid did _) = Some (wid, Some (Expire did False))"

lemma gitlab_review_status_iff [simp]:
  "gitlab_review_status st = Awaiting \<longleftrightarrow> st = gitlab_write_status.Requested"
  "gitlab_review_status st = Cleared \<longleftrightarrow> st = gitlab_write_status.Approved"
  "gitlab_review_status st = Underway \<longleftrightarrow> st = gitlab_write_status.Dispatching"
  "gitlab_review_status st = Done \<longleftrightarrow> st = Written"
  "gitlab_review_status st = Broken \<longleftrightarrow> st = gitlab_write_status.Failed"
  "gitlab_review_status st = Unclear \<longleftrightarrow> st = gitlab_write_status.Indeterminate"
  "gitlab_review_status st = Refused \<longleftrightarrow> st = gitlab_write_status.Rejected"
  by (cases st; simp)+

definition gitlab_request :: "org_state \<Rightarrow> string \<Rightarrow> gitlab_write_request option" where
  "gitlab_request s = bt_get (gitlab_writes s)"

lemma gitlab_creation:
  assumes "apply_gitlab e s = Inr s'" and "gitlab_label e = Some (k, None)"
  shows "gitlab_request s k = None \<and>
    (\<exists>r. gitlab_request s' k = Some r \<and> gitlab_view r = fresh_view)"
  using assms
  by (cases e) (auto simp: gitlab_handler_defs gitlab_request_def gitlab_view_def fresh_view_def
      bt_contains_def split: if_splits)

lemma gitlab_action:
  assumes "apply_gitlab e s = Inr s'" and "gitlab_label e = Some (k, Some a)"
  shows "\<exists>r r'. gitlab_request s k = Some r \<and> gitlab_request s' k = Some r' \<and>
    review_act {Broken, Unclear} a (gitlab_view r) = Some (gitlab_view r') \<and>
    gitlab_subject r' = gitlab_subject r"
  using assms
  by (cases e) (auto simp: gitlab_handler_defs gitlab_request_def gitlab_view_def gitlab_subject_def
      split: if_splits)

lemma gitlab_untouched:
  assumes "apply_gitlab e s = Inr s'" and "map_option fst (gitlab_label e) \<noteq> Some k"
  shows "gitlab_request s' k = gitlab_request s k"
  using assms by (cases e) (auto simp: gitlab_handler_defs gitlab_request_def split: if_splits)

interpretation gitlab: reviewed_dispatch gitlab_request gitlab_view gitlab_subject
  "{Broken, Unclear}" gitlab_label apply_gitlab
  by (rule reviewed_dispatch.intro)
     (simp, erule (1) gitlab_creation, erule (1) gitlab_action, erule (1) gitlab_untouched)

text \<open>Every stored write carries a SHA-256 digest in lower-case hexadecimal.\<close>

definition gitlab_digests_ok :: "org_state \<Rightarrow> bool" where
  "gitlab_digests_ok s \<longleftrightarrow>
     (\<forall>k r. bt_get (gitlab_writes s) k = Some r \<longrightarrow>
        length (write_payload_sha256 r) = 64 \<and> list_all is_lower_hex (write_payload_sha256 r))"

lemma gitlab_digests:
  assumes "apply_gitlab e s = Inr s'" and "gitlab_digests_ok s"
  shows "gitlab_digests_ok s'"
  using assms by (cases e) (auto simp: gitlab_handler_defs gitlab_digests_ok_def split: if_splits)

end
