(* ===== verification/State_Apply.thy ===== *)
theory State_Apply
  imports State_Registry State_Notification State_Flow State_Tracking State_Flight
    State_Office State_GitLab
begin

text \<open>
  \<open>OrganizationState::apply\<close> and \<open>replay\<close> of \<open>src/core/state.rs\<close> as a whole: the check of the
  sequence number, the dispatch to the handler of the event, and the loop over a log. The locale
  \<open>event_sourced\<close> states what a projection promises its callers (a log is applied in the order of
  its numbers and nothing else) and is interpreted on this one; the invariants of the components are
  lifted to every state that a log can produce.
\<close>

section \<open>Applying one event\<close>

fun apply_event :: "domain_event \<Rightarrow> org_state \<Rightarrow> org_state result" where
  "apply_event (RegistryEvent e) s = apply_registry e s"
| "apply_event (CalendarEvent e) s = apply_calendar e s"
| "apply_event (NotificationEvent e) s = apply_notification e s"
| "apply_event (CredentialEvent e) s = apply_credential e s"
| "apply_event (FlowEvent e) s = apply_flow_event e s"
| "apply_event (TaskEvent e) s = apply_task_event e s"
| "apply_event (MessageEvent e) s = apply_message e s"
| "apply_event (ExternalEvent e) s = apply_external e s"
| "apply_event (TrackingEvent e) s = apply_tracking e s"
| "apply_event (ExecutorEvent e) s = apply_executor e s"
| "apply_event (FlightEvent e) s = apply_flight e s"
| "apply_event (OfficeEvent e) s = apply_office e s"
| "apply_event (GitLabEvent e) s = apply_gitlab e s"

text \<open>Sequence numbers are \<open>i64\<close>; \<open>checked_add\<close> fails above the largest one.\<close>

definition i64_max :: int where
  "i64_max = 2 ^ 63 - 1"

definition next_sequence :: "int \<Rightarrow> int option" where
  "next_sequence n = (if n + 1 \<le> i64_max then Some (n + 1) else None)"

definition apply_envelope :: "event_envelope \<Rightarrow> org_state \<Rightarrow> org_state result" where
  "apply_envelope env s =
     and_then (ok_or (next_sequence (last_sequence s))
       (relay_error.Validation ''event sequence exceeded the supported range'')) (\<lambda>expected.
       if env_sequence env \<noteq> expected
       then Inl (relay_error.Validation (''event sequence '' @ show_int (env_sequence env) @
              '' is not the expected next sequence '' @ show_int expected))
       else and_then (apply_event (env_event env) s) (\<lambda>s'.
              Inr (s'\<lparr>last_sequence := env_sequence env\<rparr>)))"

definition apply_all :: "org_state \<Rightarrow> event_envelope list \<Rightarrow> org_state result" where
  "apply_all = try_fold (\<lambda>s env. apply_envelope env s)"

definition replay :: "event_envelope list \<Rightarrow> org_state result" where
  "replay envs = apply_all default_state envs"

section \<open>The promise of a projection\<close>

locale event_sourced =
  fixes init :: "'st"
    and position :: "'st \<Rightarrow> int"
    and number :: "'env \<Rightarrow> int"
    and project :: "'env \<Rightarrow> 'st \<Rightarrow> 'err + 'st"
  assumes starts: "position init = 0"
    and advances: "project e s = Inr s' \<Longrightarrow> number e = position s + 1 \<and> position s' = position s + 1"
begin

abbreviation fold_log :: "'st \<Rightarrow> 'env list \<Rightarrow> 'err + 'st" where
  "fold_log \<equiv> try_fold (\<lambda>s e. project e s)"

lemma fold_log_numbers:
  "fold_log s es = Inr s' \<Longrightarrow>
     map number es = map (\<lambda>i. position s + 1 + int i) [0..<length es] \<and>
     position s' = position s + int (length es)"
proof (induction es arbitrary: s)
  case Nil
  then show ?case by simp
next
  case (Cons e es)
  then obtain t where t: "project e s = Inr t" "fold_log t es = Inr s'" by auto
  have "map (\<lambda>i. position s + 1 + int i) [0..<length (e # es)] =
      (position s + 1) # map (\<lambda>i. position t + 1 + int i) [0..<length es]"
    using advances [OF t(1)] by (simp add: upt_conv_Cons map_Suc_upt [symmetric] del: upt_Suc)
  with Cons.IH [OF t(2)] advances [OF t(1)] show ?case by simp
qed

lemma log_numbers:
  "fold_log init es = Inr s \<Longrightarrow> map number es = map (\<lambda>i. 1 + int i) [0..<length es]"
  using fold_log_numbers [of init es s] starts by simp

lemma log_position: "fold_log init es = Inr s \<Longrightarrow> position s = int (length es)"
  using fold_log_numbers [of init es s] starts by simp

lemma log_extends:
  "fold_log init es = Inr s \<Longrightarrow> fold_log init (es @ fs) = fold_log s fs"
  by (simp add: try_fold_append)

lemma log_prefix: "is_ok (fold_log s (es @ fs)) \<Longrightarrow> is_ok (fold_log s es)"
  by (auto simp: try_fold_append is_ok_iff)

lemma log_invariant:
  assumes "fold_log init es = Inr s" and "I init"
    and "\<And>e s s'. I s \<Longrightarrow> project e s = Inr s' \<Longrightarrow> I s'"
  shows "I s"
  using assms(2,3) by (rule try_fold_invariant [where I = I, OF assms(1)])

text \<open>What lies after a position is exactly what the log has gained since.\<close>

lemma log_after:
  assumes "fold_log init (es @ fs) = Inr s'" and "fold_log init es = Inr s"
  shows "filter (\<lambda>e. position s < number e) (es @ fs) = fs"
proof -
  have "number e \<le> position s" if "e \<in> set es" for e
  proof -
    have "number e \<in> set (map number es)" using that by simp
    then show ?thesis
      unfolding log_numbers [OF assms(2)] log_position [OF assms(2)] by auto
  qed
  moreover have "position s < number e" if "e \<in> set fs" for e
  proof -
    have fs: "fold_log s fs = Inr s'" using assms by (simp add: try_fold_append)
    have "number e \<in> set (map number fs)" using that by simp
    then show ?thesis using fold_log_numbers [OF fs] by auto
  qed
  ultimately show ?thesis by (force simp: filter_id_conv filter_empty_conv)
qed

end

text \<open>
  \<open>frame_step\<close> turns a goal about the successor state into one about the state with the changed
  maps written out.
\<close>

lemmas frame_step =
  apply_registry_frame [THEN ssubst] apply_calendar_frame [THEN ssubst]
  apply_notification_frame [THEN ssubst] apply_credential_frame [THEN ssubst]
  apply_flow_frame [THEN ssubst] apply_task_frame [THEN ssubst] apply_message_frame [THEN ssubst]
  apply_external_frame [THEN ssubst] apply_tracking_frame [THEN ssubst]
  apply_executor_frame [THEN ssubst] apply_flight_frame [THEN ssubst]
  apply_office_frame [THEN ssubst] apply_gitlab_frame [THEN ssubst]

lemma last_sequence_apply_event:
  "apply_event e s = Inr s' \<Longrightarrow> last_sequence s' = last_sequence s"
  by (cases e; simp; erule frame_step; simp)

lemma apply_envelope_Inr:
  "apply_envelope env s = Inr s' \<longleftrightarrow>
     last_sequence s + 1 \<le> i64_max \<and> env_sequence env = last_sequence s + 1 \<and>
     (\<exists>t. apply_event (env_event env) s = Inr t \<and> s' = t\<lparr>last_sequence := last_sequence s + 1\<rparr>)"
  by (auto simp: apply_envelope_def next_sequence_def split: if_splits)

interpretation projection: event_sourced default_state last_sequence env_sequence apply_envelope
  by unfold_locales (auto simp: default_state_def apply_envelope_Inr)

lemma replay_fold: "replay envs = try_fold (\<lambda>s env. apply_envelope env s) default_state envs"
  by (simp add: replay_def apply_all_def)

section \<open>What every log keeps\<close>

text \<open>
  Each invariant of a component is kept by every event: by its own group's events by the component's
  lemma, by the others because they leave its maps alone.
\<close>

lemma registry_filed_apply_event:
  "apply_event e s = Inr s' \<Longrightarrow> registry_filed s \<Longrightarrow> registry_filed s'"
  by (cases e; simp; (erule (1) registry_registry_filed | erule (1) calendar_registry_filed | erule (1) credential_registry_filed | erule (1) external_registry_filed |
        (erule frame_step, simp add: registry_filed_def)))

lemma flows_filed_apply_event:
  "apply_event e s = Inr s' \<Longrightarrow> flows_filed s \<Longrightarrow> flows_filed s'"
  by (cases e; simp; (erule (1) flow_event_filed | erule (1) task_event_filed | erule (1) message_event_filed | erule (1) executor_event_filed |
        (erule frame_step, simp add: flows_filed_def)))

lemma roles_unique_apply_event:
  "apply_event e s = Inr s' \<Longrightarrow> roles_unique s \<Longrightarrow> roles_unique s'"
  by (cases e; simp; (erule (1) registry_roles_unique |
        (erule frame_step, simp add: roles_unique_def)))

lemma roles_in_scope_apply_event:
  "apply_event e s = Inr s' \<Longrightarrow> roles_in_scope s \<Longrightarrow> roles_in_scope s'"
  by (cases e; simp; (erule (1) registry_roles_in_scope |
        (erule frame_step, simp add: roles_in_scope_def)))

lemma identities_unique_apply_event:
  "apply_event e s = Inr s' \<Longrightarrow> identities_unique s \<Longrightarrow> identities_unique s'"
  by (cases e; simp; (erule (1) registry_identities_unique |
        (erule frame_step, simp add: identities_unique_def)))

lemma calendars_ok_apply_event:
  "apply_event e s = Inr s' \<Longrightarrow> calendars_ok s \<Longrightarrow> calendars_ok s'"
  by (cases e; simp; (erule (1) registry_calendars_ok | erule (1) calendar_calendars_ok |
        (erule frame_step, simp add: calendars_ok_def)))

lemma outbox_ok_apply_event:
  "apply_event e s = Inr s' \<Longrightarrow> outbox_ok s \<Longrightarrow> outbox_ok s'"
  by (cases e; simp; (erule (1) notification_outbox_ok |
        (erule frame_step, simp add: outbox_ok_def)))

lemma escalations_match_apply_event:
  "apply_event e s = Inr s' \<Longrightarrow> escalations_match s \<Longrightarrow> escalations_match s'"
  by (cases e; simp; (erule (1) tracking_escalations_match |
        (erule frame_step, simp add: escalations_match_def)))

lemma resources_exclusive_apply_event:
  "apply_event e s = Inr s' \<Longrightarrow> resources_exclusive s \<Longrightarrow> resources_exclusive s'"
  by (cases e; simp; (erule (1) flight_resources_exclusive |
        (erule frame_step, simp add: resources_exclusive_def)))

lemma staged_unique_apply_event:
  "apply_event e s = Inr s' \<Longrightarrow> staged_unique s \<Longrightarrow> staged_unique s'"
  by (cases e; simp; (erule (1) flight_staged_unique |
        (erule frame_step, simp add: staged_unique_def)))

lemma gitlab_digests_ok_apply_event:
  "apply_event e s = Inr s' \<Longrightarrow> gitlab_digests_ok s \<Longrightarrow> gitlab_digests_ok s'"
  by (cases e; simp; (erule (1) gitlab_digests |
        (erule frame_step, simp add: gitlab_digests_ok_def)))

lemma office_reviews_apply_event:
  "apply_event e s = Inr s' \<Longrightarrow> reviews_ok office_view (office_request s) \<Longrightarrow>
   reviews_ok office_view (office_request s')"
  by (cases e; simp; (erule (1) office.step_all_ok |
        (erule frame_step, simp add: office_request_def)))

lemma gitlab_reviews_apply_event:
  "apply_event e s = Inr s' \<Longrightarrow> reviews_ok gitlab_view (gitlab_request s) \<Longrightarrow>
   reviews_ok gitlab_view (gitlab_request s')"
  by (cases e; simp; (erule (1) gitlab.step_all_ok |
        (erule frame_step, simp add: gitlab_request_def)))

text \<open>The well-formedness of a projected state.\<close>

definition state_ok :: "org_state \<Rightarrow> bool" where
  "state_ok s \<longleftrightarrow>
     registry_filed s \<and> flows_filed s \<and> roles_unique s \<and> roles_in_scope s \<and> identities_unique s \<and>
     calendars_ok s \<and> outbox_ok s \<and> escalations_match s \<and> resources_exclusive s \<and>
     staged_unique s \<and> gitlab_digests_ok s \<and>
     reviews_ok office_view (office_request s) \<and> reviews_ok gitlab_view (gitlab_request s)"

lemmas state_invariant_defs =
  registry_filed_def flows_filed_def roles_unique_def roles_in_scope_def identities_unique_def
  calendars_ok_def outbox_ok_def escalations_match_def resources_exclusive_def staged_unique_def
  gitlab_digests_ok_def reviews_ok_def office_request_def gitlab_request_def

lemma state_ok_default: "state_ok default_state"
  by (simp add: state_ok_def default_state_def state_invariant_defs)

lemma state_ok_sequence [simp]: "state_ok (s\<lparr>last_sequence := n\<rparr>) = state_ok s"
  by (simp add: state_ok_def state_invariant_defs)

lemma state_ok_apply_event:
  assumes "apply_event e s = Inr s'" and "state_ok s"
  shows "state_ok s'"
  using assms(2) unfolding state_ok_def
  by (intro conjI)
     (elim conjE, erule registry_filed_apply_event [OF assms(1)],
      elim conjE, erule flows_filed_apply_event [OF assms(1)],
      elim conjE, erule roles_unique_apply_event [OF assms(1)],
      elim conjE, erule roles_in_scope_apply_event [OF assms(1)],
      elim conjE, erule identities_unique_apply_event [OF assms(1)],
      elim conjE, erule calendars_ok_apply_event [OF assms(1)],
      elim conjE, erule outbox_ok_apply_event [OF assms(1)],
      elim conjE, erule escalations_match_apply_event [OF assms(1)],
      elim conjE, erule resources_exclusive_apply_event [OF assms(1)],
      elim conjE, erule staged_unique_apply_event [OF assms(1)],
      elim conjE, erule gitlab_digests_ok_apply_event [OF assms(1)],
      elim conjE, erule office_reviews_apply_event [OF assms(1)],
      elim conjE, erule gitlab_reviews_apply_event [OF assms(1)])

lemma state_ok_apply_envelope:
  "state_ok s \<Longrightarrow> apply_envelope env s = Inr s' \<Longrightarrow> state_ok s'"
  by (auto simp: apply_envelope_Inr dest: state_ok_apply_event)

lemma state_ok_apply_all: "apply_all s envs = Inr s' \<Longrightarrow> state_ok s \<Longrightarrow> state_ok s'"
  unfolding apply_all_def
  by (erule try_fold_invariant) (auto intro: state_ok_apply_envelope)

lemma state_ok_replay: "replay envs = Inr s \<Longrightarrow> state_ok s"
  using state_ok_apply_all state_ok_default by (auto simp: replay_def)

section \<open>Reviewed dispatches along a log\<close>

text \<open>
  Events of other groups leave releases and writes alone, so the promise of \<open>reviewed_dispatch\<close> holds
  of whole logs.
\<close>

definition office_log_label :: "event_envelope \<Rightarrow> (string \<times> review_action option) option" where
  "office_log_label env = (case env_event env of OfficeEvent e \<Rightarrow> office_label e | _ \<Rightarrow> None)"

definition gitlab_log_label :: "event_envelope \<Rightarrow> (string \<times> review_action option) option" where
  "gitlab_log_label env = (case env_event env of GitLabEvent e \<Rightarrow> gitlab_label e | _ \<Rightarrow> None)"

lemma request_sequence [simp]:
  "office_request (s\<lparr>last_sequence := n\<rparr>) = office_request s"
  "gitlab_request (s\<lparr>last_sequence := n\<rparr>) = gitlab_request s"
  by (simp_all add: office_request_def gitlab_request_def fun_eq_iff)

lemma office_other_events:
  "apply_event e s = Inr s' \<Longrightarrow> \<forall>x. e \<noteq> OfficeEvent x \<Longrightarrow> office_request s' = office_request s"
  by (cases e; simp; erule frame_step; simp add: office_request_def fun_eq_iff)

lemma gitlab_other_events:
  "apply_event e s = Inr s' \<Longrightarrow> \<forall>x. e \<noteq> GitLabEvent x \<Longrightarrow> gitlab_request s' = gitlab_request s"
  by (cases e; simp; erule frame_step; simp add: gitlab_request_def fun_eq_iff)

lemma office_label_event:
  "office_log_label env = Some l \<longleftrightarrow> (\<exists>e. env_event env = OfficeEvent e \<and> office_label e = Some l)"
  by (cases "env_event env") (simp_all add: office_log_label_def)

lemma gitlab_label_event:
  "gitlab_log_label env = Some l \<longleftrightarrow> (\<exists>e. env_event env = GitLabEvent e \<and> gitlab_label e = Some l)"
  by (cases "env_event env") (simp_all add: gitlab_log_label_def)

interpretation office_log: reviewed_dispatch office_request office_view office_subject "{Broken}"
  office_log_label apply_envelope
proof (rule reviewed_dispatch.intro)
  show "office_request s k = None \<and> (\<exists>r. office_request s' k = Some r \<and> office_view r = fresh_view)"
    if "apply_envelope env s = Inr s'" "office_log_label env = Some (k, None)" for env s s' k
    using that by (auto simp: apply_envelope_Inr office_label_event dest: office_creation)
  show "\<exists>r r'. office_request s k = Some r \<and> office_request s' k = Some r' \<and>
      review_act {Broken} a (office_view r) = Some (office_view r') \<and>
      office_subject r' = office_subject r"
    if "apply_envelope env s = Inr s'" "office_log_label env = Some (k, Some a)" for env s s' k a
    using that by (auto simp: apply_envelope_Inr office_label_event) (drule (1) office_action; auto)
  show "office_request s' k = office_request s k"
    if step: "apply_envelope env s = Inr s'" and k: "map_option fst (office_log_label env) \<noteq> Some k"
    for env s s' k
  proof (cases "\<exists>e. env_event env = OfficeEvent e")
    case True
    with that show ?thesis
      by (auto simp: apply_envelope_Inr office_log_label_def) (erule office.elsewhere, simp)
  next
    case False
    with step show ?thesis by (auto simp: apply_envelope_Inr dest: office_other_events)
  qed
qed simp

interpretation gitlab_log: reviewed_dispatch gitlab_request gitlab_view gitlab_subject
  "{Broken, Unclear}" gitlab_log_label apply_envelope
proof (rule reviewed_dispatch.intro)
  show "gitlab_request s k = None \<and> (\<exists>r. gitlab_request s' k = Some r \<and> gitlab_view r = fresh_view)"
    if "apply_envelope env s = Inr s'" "gitlab_log_label env = Some (k, None)" for env s s' k
    using that by (auto simp: apply_envelope_Inr gitlab_label_event dest: gitlab_creation)
  show "\<exists>r r'. gitlab_request s k = Some r \<and> gitlab_request s' k = Some r' \<and>
      review_act {Broken, Unclear} a (gitlab_view r) = Some (gitlab_view r') \<and>
      gitlab_subject r' = gitlab_subject r"
    if "apply_envelope env s = Inr s'" "gitlab_log_label env = Some (k, Some a)" for env s s' k a
    using that by (auto simp: apply_envelope_Inr gitlab_label_event) (drule (1) gitlab_action; auto)
  show "gitlab_request s' k = gitlab_request s k"
    if step: "apply_envelope env s = Inr s'" and k: "map_option fst (gitlab_log_label env) \<noteq> Some k"
    for env s s' k
  proof (cases "\<exists>e. env_event env = GitLabEvent e")
    case True
    with that show ?thesis
      by (auto simp: apply_envelope_Inr gitlab_log_label_def) (erule gitlab.elsewhere, simp)
  next
    case False
    with step show ?thesis by (auto simp: apply_envelope_Inr dest: gitlab_other_events)
  qed
qed simp

lemma no_requests_at_start [simp]:
  "office_request default_state k = None" "gitlab_request default_state k = None"
  by (simp_all add: office_request_def gitlab_request_def default_state_def)

section \<open>What is settled along a log\<close>

lemma delivered_final_event:
  "apply_event e s = Inr s' \<Longrightarrow> bt_get (notification_deliveries s) did = Some d \<Longrightarrow>
   delivery_status d = Delivered \<Longrightarrow> bt_get (notification_deliveries s') did = Some d"
  by (cases e; simp; (erule (2) notification_delivered_final | (erule frame_step, simp)))

lemma delivered_final_log:
  assumes "apply_all s envs = Inr s'" and "bt_get (notification_deliveries s) did = Some d"
    and "delivery_status d = Delivered"
  shows "bt_get (notification_deliveries s') did = Some d"
proof (rule try_fold_invariant [where I = "\<lambda>s. bt_get (notification_deliveries s) did = Some d"])
  show "try_fold (\<lambda>s env. apply_envelope env s) s envs = Inr s'"
    using assms(1) by (simp add: apply_all_def)
next
  fix t env t'
  assume "bt_get (notification_deliveries t) did = Some d" "apply_envelope env t = Inr t'"
  then show "bt_get (notification_deliveries t') did = Some d"
    using delivered_final_event assms(3) by (auto simp: apply_envelope_Inr)
qed (fact assms(2))

lemma interaction_kept_event:
  "apply_event e s = Inr s' \<Longrightarrow> bt_get (external_interactions s) k = Some r \<Longrightarrow>
   bt_get (external_interactions s') k = Some r"
  by (cases e; simp; (erule (1) external_interaction_kept | (erule frame_step, simp)))

text \<open>An interaction of an external system is processed at most once in a log.\<close>

definition processes :: "string \<Rightarrow> event_envelope \<Rightarrow> bool" where
  "processes k env \<longleftrightarrow>
     (case env_event env of
        ExternalEvent (ExternalInteractionProcessed r) \<Rightarrow>
          interaction_key (receipt_provider r) (receipt_delivery_id r) = k
      | _ \<Rightarrow> False)"

lemma processes_iff:
  "processes k env \<longleftrightarrow>
     (\<exists>r. env_event env = ExternalEvent (ExternalInteractionProcessed r) \<and>
          interaction_key (receipt_provider r) (receipt_delivery_id r) = k)"
  by (simp add: processes_def split: domain_event.splits external_event.splits)

lemma processes_step:
  assumes "apply_envelope env s = Inr s'" and "processes k env"
  shows "bt_get (external_interactions s) k = None"
    and "\<exists>r. bt_get (external_interactions s') k = Some r"
  using assms
  by (auto simp: processes_iff apply_envelope_Inr apply_external_interaction_processed_def
      Let_def bt_contains_def split: if_splits)

lemma processed_once_more:
  "apply_all s envs = Inr s' \<Longrightarrow> bt_get (external_interactions s) k = Some r \<Longrightarrow>
   filter (processes k) envs = []"
proof (induction envs arbitrary: s)
  case Nil
  then show ?case by simp
next
  case (Cons env envs)
  then obtain t where t: "apply_envelope env s = Inr t" "apply_all t envs = Inr s'"
    by (auto simp: apply_all_def)
  then have "bt_get (external_interactions t) k = Some r"
    using Cons.prems(2) interaction_kept_event by (auto simp: apply_envelope_Inr)
  with Cons.IH [OF t(2)] processes_step(1) [OF t(1)] Cons.prems(2) show ?case by auto
qed

lemma processed_at_most_once: "apply_all s envs = Inr s' \<Longrightarrow> length (filter (processes k) envs) \<le> 1"
proof (induction envs arbitrary: s)
  case Nil
  then show ?case by simp
next
  case (Cons env envs)
  then obtain t where t: "apply_envelope env s = Inr t" "apply_all t envs = Inr s'"
    by (auto simp: apply_all_def)
  show ?case
  proof (cases "processes k env")
    case True
    with processes_step(2) [OF t(1)] processed_once_more [OF t(2)] show ?thesis by auto
  next
    case False
    with Cons.IH [OF t(2)] show ?thesis by simp
  qed
qed

end
