(* ===== verification/Event_Log.thy ===== *)
theory Event_Log
  imports State_Apply
begin

text \<open>
  What the event stores share (\<open>src/adapters/store.rs\<close>): the batch of envelopes a commit prepares,
  the rows they are stored as and read back from, and the promise \<open>event_log\<close> of a store to the
  application. JSON, the text of timestamps and the database engine are libraries: they are the
  parameters \<open>library\<close> and \<open>io_faults\<close>.
\<close>

section \<open>Libraries\<close>

text \<open>\<open>serde_json::Value\<close>; numbers are kept as their text.\<close>

datatype json =
    JNull
  | JBool bool
  | JNumber string
  | JString string
  | JArray "json list"
  | JObject "(string \<times> json) list"

record library =
  lib_event_text :: "u16 \<Rightarrow> domain_event \<Rightarrow> string result"
  lib_parse_json :: "string \<Rightarrow> json result"
  lib_json_u16 :: "json \<Rightarrow> u16 result"
  lib_json_event :: "json \<Rightarrow> domain_event result"
  lib_event_document :: "domain_event \<Rightarrow> json_text result"
  lib_time_text :: "instant \<Rightarrow> string"
  lib_parse_time :: "string \<Rightarrow> string + instant"

text \<open>
  The database calls of one transaction that may fail for a reason of their own (disk, connection):
  the start with the query of the position, the insertion of the \<open>n\<close>th row, the commit. A
  transaction that is not committed leaves the database as it was.
\<close>

record io_faults =
  fault_begin :: "relay_error option"
  fault_insert :: "nat \<Rightarrow> relay_error option"
  fault_commit :: "relay_error option"

definition no_faults :: io_faults where
  "no_faults = \<lparr>fault_begin = None, fault_insert = (\<lambda>_. None), fault_commit = None\<rparr>"

definition guard_fault :: "relay_error option \<Rightarrow> unit result" where
  "guard_fault f = (case f of None \<Rightarrow> Inr () | Some e \<Rightarrow> Inl e)"

lemma guard_fault_Inr [simp]: "guard_fault f = Inr u \<longleftrightarrow> f = None"
  by (simp add: guard_fault_def split: option.splits)

text \<open>
  What a command reads of the world: the random identifiers and the clock readings, numbered in the
  order in which the batch asks for them.
\<close>

record environment =
  event_uuid :: "nat \<Rightarrow> string"
  event_clock :: "nat \<Rightarrow> instant"
  delivery_uuid :: "nat \<Rightarrow> string"
  delivery_clock :: "nat \<Rightarrow> instant"

definition new_id :: "string \<Rightarrow> string \<Rightarrow> string" where
  "new_id prefix uuid = prefix @ ''-'' @ take 8 uuid"

section \<open>Preparing a batch\<close>

definition checked_offset :: "int \<Rightarrow> nat \<Rightarrow> int result" where
  "checked_offset start i =
     (if i64_max < int i then Inl (relay_error.Validation ''event batch is too large'')
      else if i64_max < start + int i + 1
      then Inl (relay_error.Validation ''event sequence exceeded the supported range'')
      else Inr (start + int i + 1))"

definition prepare_envelope ::
    "environment \<Rightarrow> int \<Rightarrow> string \<Rightarrow> string \<Rightarrow> nat \<times> domain_event \<Rightarrow> event_envelope result" where
  "prepare_envelope w start org actor = (\<lambda>(i, e).
     and_then (checked_offset start i) (\<lambda>sequence.
       Inr \<lparr>env_event_version = current_event_version,
            env_sequence = sequence,
            env_id = new_id ''EVT'' (event_uuid w i),
            env_organization_id = org,
            env_flow_id = event_flow_id e,
            env_actor = actor,
            env_kind = kind e,
            env_event = e,
            env_occurred_at = event_clock w i\<rparr>))"

definition prepare_batch ::
    "environment \<Rightarrow> int \<Rightarrow> string \<Rightarrow> string \<Rightarrow> domain_event list \<Rightarrow> event_envelope list result" where
  "prepare_batch w start org actor es =
     try_map (prepare_envelope w start org actor) (List.enumerate 0 es)"

lemma checked_offset_Inr:
  "checked_offset start i = Inr n \<longleftrightarrow>
     int i \<le> i64_max \<and> start + int i + 1 \<le> i64_max \<and> n = start + int i + 1"
  by (auto simp: checked_offset_def)

lemma prepare_batch_Inr:
  assumes "prepare_batch w start org actor es = Inr envs"
  shows "map env_event envs = es"
    and "map env_sequence envs = map (\<lambda>i. start + int i + 1) [0..<length es]"
    and "\<And>env. env \<in> set envs \<Longrightarrow> env_event_version env = current_event_version \<and>
           env_kind env = kind (env_event env) \<and> env_organization_id env = org \<and>
           env_actor env = actor \<and> env_flow_id env = event_flow_id (env_event env)"
proof -
  have all: "list_all2 (\<lambda>x y. prepare_envelope w start org actor x = Inr y) (List.enumerate 0 es) envs"
    using assms by (simp add: prepare_batch_def try_map_Inr)
  have fields: "prepare_envelope w start org actor x = Inr y \<Longrightarrow>
      env_event y = snd x \<and> env_sequence y = start + int (fst x) + 1 \<and>
      env_event_version y = current_event_version \<and> env_kind y = kind (env_event y) \<and>
      env_organization_id y = org \<and> env_actor y = actor \<and>
      env_flow_id y = event_flow_id (env_event y)" for x y
    by (cases x) (auto simp: prepare_envelope_def checked_offset_Inr)
  have "list_all2 (\<lambda>x y. y = snd x) (List.enumerate 0 es) (map env_event envs)"
    using all by (auto simp: list.rel_map elim!: list.rel_mono_strong dest: fields)
  then show "map env_event envs = es"
    by (auto simp: list_all2_conv_all_nth nth_enumerate_eq intro!: nth_equalityI)
  have "list_all2 (\<lambda>x y. y = start + int (fst x) + 1) (List.enumerate 0 es) (map env_sequence envs)"
    using all by (auto simp: list.rel_map elim!: list.rel_mono_strong dest: fields)
  then show "map env_sequence envs = map (\<lambda>i. start + int i + 1) [0..<length es]"
    by (auto simp: list_all2_conv_all_nth nth_enumerate_eq intro!: nth_equalityI)
  show "env_event_version env = current_event_version \<and> env_kind env = kind (env_event env) \<and>
      env_organization_id env = org \<and> env_actor env = actor \<and>
      env_flow_id env = event_flow_id (env_event env)" if "env \<in> set envs" for env
  proof -
    note member = that
    obtain i where "i < length envs" "envs ! i = env"
      using member by (auto simp: in_set_conv_nth)
    with all have "prepare_envelope w start org actor (List.enumerate 0 es ! i) = Inr env"
      by (auto dest: list_all2_nthD2)
    from fields [OF this] show ?thesis by simp
  qed
qed

section \<open>Rows\<close>

record stored_row =
  row_id :: string
  row_organization_id :: string
  row_flow_id :: "string option"
  row_actor :: string
  row_kind :: string
  row_payload :: string
  row_occurred_at :: string

text \<open>Tables keyed by the sequence number, the primary key.\<close>

type_synonym event_table = "(int, stored_row) btree"

definition decode_event_payload :: "library \<Rightarrow> string \<Rightarrow> (u16 \<times> domain_event) result" where
  "decode_event_payload lib payload =
     and_then (lib_parse_json lib payload) (\<lambda>value.
       case value of
         JObject members \<Rightarrow>
           (case (map_of members ''version'', map_of members ''event'') of
              (Some version_value, Some event_value) \<Rightarrow>
                and_then (lib_json_u16 lib version_value) (\<lambda>version.
                  if \<not> (version = 1 \<or> version = current_event_version)
                  then Inl (relay_error.Validation
                    (''unsupported event payload version '' @ show_nat (unat version)))
                  else and_then (lib_json_event lib event_value) (\<lambda>e. Inr (version, e)))
            | _ \<Rightarrow> and_then (lib_json_event lib value) (\<lambda>e. Inr (0, e)))
       | _ \<Rightarrow> Inl (relay_error.Validation ''stored event payload must be a JSON object''))"

definition encode_row :: "library \<Rightarrow> event_envelope \<Rightarrow> stored_row result" where
  "encode_row lib env =
     and_then (lib_event_text lib (env_event_version env) (env_event env)) (\<lambda>payload.
       Inr \<lparr>row_id = env_id env,
            row_organization_id = env_organization_id env,
            row_flow_id = env_flow_id env,
            row_actor = env_actor env,
            row_kind = env_kind env,
            row_payload = payload,
            row_occurred_at = lib_time_text lib (env_occurred_at env)\<rparr>)"

definition decode_row :: "library \<Rightarrow> int \<times> stored_row \<Rightarrow> event_envelope result" where
  "decode_row lib = (\<lambda>(sequence, row).
     and_then (decode_event_payload lib (row_payload row)) (\<lambda>(version, e).
       if row_kind row \<noteq> kind e
       then Inl (relay_error.Validation (''stored event kind `'' @ row_kind row @
              ''` does not match payload kind `'' @ kind e @ ''` at sequence '' @ show_int sequence))
       else and_then (case lib_parse_time lib (row_occurred_at row) of
                        Inl text \<Rightarrow> Inl (relay_error.Validation text)
                      | Inr t \<Rightarrow> Inr t) (\<lambda>occurred_at.
         Inr \<lparr>env_event_version = version,
              env_sequence = sequence,
              env_id = row_id row,
              env_organization_id = row_organization_id row,
              env_flow_id = row_flow_id row,
              env_actor = row_actor row,
              env_kind = row_kind row,
              env_event = e,
              env_occurred_at = occurred_at\<rparr>)))"

text \<open>
  The libraries read back what they wrote: the JSON text of an event with its version, and the
  RFC 3339 text of an instant. Floats that are not numbers are the documented exception of
  \<open>serde_json\<close>, so this is a hypothesis on the envelope and not on every event.
\<close>

definition reads_back :: "library \<Rightarrow> event_envelope \<Rightarrow> bool" where
  "reads_back lib env \<longleftrightarrow>
     (case lib_event_text lib (env_event_version env) (env_event env) of
        Inl _ \<Rightarrow> True
      | Inr text \<Rightarrow>
          decode_event_payload lib text = Inr (env_event_version env, env_event env)) \<and>
     lib_parse_time lib (lib_time_text lib (env_occurred_at env)) = Inr (env_occurred_at env)"

lemma decode_encode_row:
  assumes "encode_row lib env = Inr row" and "reads_back lib env"
    and "env_kind env = kind (env_event env)"
  shows "decode_row lib (env_sequence env, row) = Inr env"
proof -
  obtain body where body: "lib_event_text lib (env_event_version env) (env_event env) = Inr body"
    and row: "row = \<lparr>row_id = env_id env, row_organization_id = env_organization_id env,
      row_flow_id = env_flow_id env, row_actor = env_actor env, row_kind = env_kind env,
      row_payload = body, row_occurred_at = lib_time_text lib (env_occurred_at env)\<rparr>"
    using assms(1) by (auto simp: encode_row_def)
  have "decode_event_payload lib body = Inr (env_event_version env, env_event env)"
    and "lib_parse_time lib (lib_time_text lib (env_occurred_at env)) = Inr (env_occurred_at env)"
    using assms(2) body by (simp_all add: reads_back_def)
  then show ?thesis
    using assms(3) by (simp add: row decode_row_def del: and_then_Inr_iff)
qed

lemma decode_row_sequence: "decode_row lib (n, row) = Inr env \<Longrightarrow> env_sequence env = n"
  by (auto simp: decode_row_def split: prod.splits if_splits sum.splits)

text \<open>The position of a table (\<open>COALESCE(MAX(sequence), 0)\<close>), and reading rows in their order.\<close>

definition max_sequence :: "event_table \<Rightarrow> int" where
  "max_sequence t = (case rev (bt_entries t) of [] \<Rightarrow> 0 | (n, _) # _ \<Rightarrow> n)"

definition load_rows :: "library \<Rightarrow> (int \<times> stored_row \<Rightarrow> bool) \<Rightarrow> event_table \<Rightarrow> event_envelope list result" where
  "load_rows lib P t = try_map (decode_row lib) (filter P (bt_entries t))"

lemma max_sequence_above: "n \<in> fst ` set (bt_entries t) \<Longrightarrow> n \<le> max_sequence t"
  using sorted_keys [of t]
  by (cases "bt_entries t" rule: rev_cases)
     (auto simp: max_sequence_def sorted_wrt_append split: prod.splits)

lemma max_sequence_load:
  assumes "load_rows lib (\<lambda>_. True) t = Inr log"
  shows "max_sequence t = (if log = [] then 0 else env_sequence (last log))"
proof (cases "bt_entries t" rule: rev_cases)
  case Nil
  with assms show ?thesis by (simp add: load_rows_def max_sequence_def)
next
  case (snoc rows x)
  then obtain n row where x: "x = (n, row)" by (cases x)
  with assms snoc obtain envs env where "log = envs @ [env]" "decode_row lib (n, row) = Inr env"
    by (auto simp: load_rows_def try_map_append)
  with snoc x decode_row_sequence show ?thesis by (simp add: max_sequence_def)
qed

lemma load_rows_after:
  assumes "load_rows lib (\<lambda>_. True) t = Inr log"
  shows "load_rows lib (\<lambda>(m, _). n < m) t = Inr (filter (\<lambda>env. n < env_sequence env) log)"
proof -
  have "try_map (decode_row lib) rows = Inr log \<Longrightarrow>
      try_map (decode_row lib) (filter (\<lambda>(m, _). n < m) rows) =
        Inr (filter (\<lambda>env. n < env_sequence env) log)" for rows
    by (induction rows arbitrary: log) (auto dest: decode_row_sequence)
  with assms show ?thesis by (simp add: load_rows_def)
qed

text \<open>
  What inserting one envelope of a batch does to a table in either store, and the batch as a whole:
  the new rows come after the old ones and read back as the batch.
\<close>

definition stores_envelope ::
    "library \<Rightarrow> int \<Rightarrow> nat \<Rightarrow> event_envelope \<Rightarrow> event_table \<Rightarrow> event_table \<Rightarrow> bool" where
  "stores_envelope lib start i env t t' \<longleftrightarrow>
     env_sequence env = start + int i + 1 \<and> env_kind env = kind (env_event env) \<and>
     (case encode_row lib env of
        Inl _ \<Rightarrow> False | Inr row \<Rightarrow> t' = bt_insert (env_sequence env) row t)"

lemma store_batch:
  assumes step: "\<And>i env t t'. f t (i, env) = Inr t' \<Longrightarrow> stores_envelope lib start i env t t'"
    and "try_fold f t (List.enumerate k envs) = Inr t'"
    and "\<And>n. n \<in> fst ` set (bt_entries t) \<Longrightarrow> n \<le> start + int k"
    and "\<And>env. env \<in> set envs \<Longrightarrow> reads_back lib env"
  shows "\<exists>new. bt_entries t' = bt_entries t @ new \<and> try_map (decode_row lib) new = Inr envs \<and>
    max_sequence t' = (if envs = [] then max_sequence t else env_sequence (last envs))"
  using assms(2-4)
proof (induction envs arbitrary: t k)
  case Nil
  then show ?case by simp
next
  case (Cons env envs)
  then obtain u where u: "f t (k, env) = Inr u" "try_fold f u (List.enumerate (Suc k) envs) = Inr t'"
    by auto
  from step [OF u(1)] obtain row where row: "encode_row lib env = Inr row"
      "env_sequence env = start + int k + 1" "env_kind env = kind (env_event env)"
      "u = bt_insert (env_sequence env) row t"
    by (auto simp: stores_envelope_def split: sum.splits)
  have entries: "bt_entries u = bt_entries t @ [(env_sequence env, row)]"
    unfolding row(4) by (rule bt_entries_insert_last) (use Cons.prems(2) row(2) in force)
  have "n \<le> start + int (Suc k)" if "n \<in> fst ` set (bt_entries u)" for n
    using that Cons.prems(2) row(2) unfolding entries by force
  with Cons.IH [OF u(2)] Cons.prems(3) obtain new where new: "bt_entries t' = bt_entries u @ new"
      "try_map (decode_row lib) new = Inr envs"
      "max_sequence t' = (if envs = [] then max_sequence u else env_sequence (last envs))"
    by (metis list.set_intros(2))
  have "decode_row lib (env_sequence env, row) = Inr env"
    using decode_encode_row [OF row(1) _ row(3)] Cons.prems(3) by simp
  with new entries show ?case
    by (intro exI [of _ "(env_sequence env, row) # new"]) (simp add: max_sequence_def)
qed

section \<open>What a store promises the application\<close>

text \<open>The stored log can be replayed, and the state is what a prefix of it produces.\<close>

definition follows_log ::
    "('d \<Rightarrow> event_envelope list result) \<Rightarrow> ('d \<Rightarrow> bool) \<Rightarrow> 'd \<Rightarrow> org_state \<Rightarrow> bool" where
  "follows_log load sound d s \<longleftrightarrow>
     sound d \<and>
     (case load d of
        Inl _ \<Rightarrow> False
      | Inr log \<Rightarrow> is_ok (replay log) \<and>
          (\<exists>n\<in>set [0..<Suc (length log)]. replay (take n log) = Inr s))"

lemma follows_log_iff:
  "follows_log load sound d s \<longleftrightarrow>
     sound d \<and> (\<exists>dn rest. load d = Inr (dn @ rest) \<and> replay dn = Inr s \<and>
                  is_ok (replay (dn @ rest)))"
proof
  assume "follows_log load sound d s"
  then obtain log n where "sound d" "load d = Inr log" "is_ok (replay log)"
      "replay (take n log) = Inr s"
    by (auto simp: follows_log_def simp del: upt_Suc split: sum.splits)
  then show "sound d \<and> (\<exists>dn rest. load d = Inr (dn @ rest) \<and> replay dn = Inr s \<and>
      is_ok (replay (dn @ rest)))"
    by (metis append_take_drop_id)
next
  assume "sound d \<and> (\<exists>dn rest. load d = Inr (dn @ rest) \<and> replay dn = Inr s \<and>
      is_ok (replay (dn @ rest)))"
  then obtain dn rest where "sound d" "load d = Inr (dn @ rest)" "replay dn = Inr s"
      "is_ok (replay (dn @ rest))"
    by blast
  then show "follows_log load sound d s"
    by (auto simp: follows_log_def simp del: upt_Suc intro!: bexI [of _ "length dn"])
qed

locale event_log =
  fixes tail :: "'d \<Rightarrow> int"
    and load :: "'d \<Rightarrow> event_envelope list result"
    and load_after :: "'d \<Rightarrow> int \<Rightarrow> event_envelope list result"
    and append :: "int \<Rightarrow> event_envelope list \<Rightarrow> 'd \<Rightarrow> 'd result"
    and faithful :: "event_envelope \<Rightarrow> bool"
    and sound :: "'d \<Rightarrow> bool"
  assumes tail_load: "sound d \<Longrightarrow> load d = Inr log \<Longrightarrow>
      tail d = (if log = [] then 0 else env_sequence (last log))"
    and append_none: "append n [] d = Inr d"
    and append_guard: "append n envs d = Inr d' \<Longrightarrow> envs \<noteq> [] \<Longrightarrow> n = tail d"
    and append_sound: "append n envs d = Inr d' \<Longrightarrow> sound d \<Longrightarrow> sound d'"
    and append_load: "append n envs d = Inr d' \<Longrightarrow> sound d \<Longrightarrow> load d = Inr log \<Longrightarrow>
      (\<And>env. env \<in> set envs \<Longrightarrow> faithful env) \<Longrightarrow> load d' = Inr (log @ envs)"
    and after_load: "sound d \<Longrightarrow> load d = Inr log \<Longrightarrow>
      load_after d n = Inr (filter (\<lambda>env. n < env_sequence env) log)"
begin

abbreviation in_step :: "'d \<Rightarrow> org_state \<Rightarrow> bool" where
  "in_step \<equiv> follows_log load sound"

lemmas in_step_def = follows_log_iff [where load = load and sound = sound]

lemma replay_tail:
  assumes "sound d" and "load d = Inr log" and "replay log = Inr s"
  shows "tail d = last_sequence s"
proof (cases "log = []")
  case True
  with assms(3) have "s = default_state" by (simp add: replay_fold)
  with True tail_load [OF assms(1,2)] show ?thesis by (simp add: default_state_def)
next
  case False
  have "map env_sequence log = map (\<lambda>i. 1 + int i) [0..<length log]"
    and "last_sequence s = int (length log)"
    using projection.log_numbers projection.log_position assms(3) by (auto simp: replay_fold)
  moreover have "env_sequence (last log) = last (map env_sequence log)"
    using False by (simp add: last_map)
  ultimately show ?thesis using tail_load [OF assms(1,2)] False
    by (cases log) (simp_all add: last_map)
qed

text \<open>
  An accepted append proves that the state was the whole log's, whatever other writers did since it
  was loaded; the extended log produces the projected state.
\<close>

lemma append_projects:
  assumes "in_step d s" and "envs \<noteq> []" and "append (last_sequence s) envs d = Inr d'"
    and "apply_all s envs = Inr s'" and "\<And>env. env \<in> set envs \<Longrightarrow> faithful env"
  shows "\<exists>log. load d = Inr log \<and> replay log = Inr s \<and> load d' = Inr (log @ envs) \<and>
    replay (log @ envs) = Inr s'"
proof -
  obtain dn rest t where d: "sound d" "load d = Inr (dn @ rest)" "replay dn = Inr s"
      "replay (dn @ rest) = Inr t"
    using assms(1) by (auto simp: in_step_def is_ok_iff)
  have "last_sequence t = last_sequence s"
    using append_guard [OF assms(3,2)] replay_tail [OF d(1,2,4)] by simp
  moreover have "last_sequence t = int (length (dn @ rest))" "last_sequence s = int (length dn)"
    using d(3,4) projection.log_position by (simp_all add: replay_fold)
  ultimately have "rest = []" by simp
  with d have log: "load d = Inr dn" by simp
  have "replay (dn @ envs) = Inr s'"
    using d(3) assms(4) by (simp add: replay_def apply_all_def try_fold_append)
  with log d(1,3) append_load [OF assms(3) d(1) log assms(5)] show ?thesis by blast
qed

lemma append_in_step:
  assumes "in_step d s" and "append (last_sequence s) envs d = Inr d'"
    and "apply_all s envs = Inr s'" and "\<And>env. env \<in> set envs \<Longrightarrow> faithful env"
  shows "in_step d' s'"
proof (cases "envs = []")
  case True
  with assms append_none show ?thesis by (simp add: apply_all_def)
next
  case False
  from append_projects [OF assms(1) False assms(2,3,4)] obtain log where
    "load d' = Inr ((log @ envs) @ [])" "replay (log @ envs) = Inr s'" by auto
  moreover from this have "is_ok (replay ((log @ envs) @ []))" by simp
  moreover have "sound d'" using append_sound [OF assms(2)] assms(1) by (simp add: in_step_def)
  ultimately show ?thesis unfolding in_step_def by blast
qed

text \<open>Another writer's append leaves a state a prefix of the log.\<close>

lemma append_other_in_step:
  assumes "in_step d s" and "in_step d t" and "append (last_sequence t) envs d = Inr d'"
    and "apply_all t envs = Inr t'" and "\<And>env. env \<in> set envs \<Longrightarrow> faithful env"
  shows "in_step d' s"
proof (cases "envs = []")
  case True
  with assms append_none show ?thesis by simp
next
  case False
  from append_projects [OF assms(2) False assms(3,4,5)] obtain log where
    log: "load d = Inr log" "load d' = Inr (log @ envs)" "replay (log @ envs) = Inr t'" by blast
  from assms(1) log(1) obtain dn rest where "log = dn @ rest" "replay dn = Inr s" "sound d"
    by (auto simp: in_step_def)
  moreover from this log have "load d' = Inr (dn @ (rest @ envs))"
    and "is_ok (replay (dn @ (rest @ envs)))"
    by simp_all
  ultimately show ?thesis
    using append_sound [OF assms(3)] unfolding in_step_def by blast
qed

lemma reload_in_step:
  assumes "in_step d t" and "load d = Inr log" and "replay log = Inr s"
  shows "in_step d s"
  using assms by (force simp: in_step_def)

text \<open>Applying what came after a state brings it to the end of the log.\<close>

lemma refresh_projects:
  assumes "in_step d s" and "load_after d (last_sequence s) = Inr news" and "load d = Inr log"
  shows "\<exists>s'. apply_all s news = Inr s' \<and> replay log = Inr s'"
proof -
  obtain dn rest t where d: "sound d" "load d = Inr (dn @ rest)" "replay dn = Inr s"
      "replay (dn @ rest) = Inr t"
    using assms(1) by (auto simp: in_step_def is_ok_iff)
  then have "news = rest"
    using after_load [OF d(1,2)] assms(2) projection.log_after [of dn rest t s]
    by (simp add: replay_fold)
  with d assms(3) show ?thesis
    by (auto simp: replay_def apply_all_def try_fold_append)
qed

end

end
