(* ===== verification/Store_Sqlite.thy ===== *)
theory Store_Sqlite
  imports Event_Log
begin

text \<open>
  The SQLite event store (\<open>EventStore\<close> in \<open>src/adapters/store.rs\<close>): \<open>append_prepared\<close> in one
  immediate transaction, \<open>load_all\<close>, \<open>load_flow\<close> and \<open>load_after\<close>. The table \<open>events\<close> has the
  sequence number as its primary key and unique identifiers.
\<close>

definition sqlite_check :: "int \<Rightarrow> nat \<Rightarrow> event_envelope \<Rightarrow> unit result" where
  "sqlite_check start i env =
     and_then (checked_offset start i) (\<lambda>n.
       if env_sequence env \<noteq> n
       then Inl (relay_error.Validation (''prepared event sequence '' @ show_int (env_sequence env) @
              '' is not the expected sequence '' @ show_int n))
       else if env_event_version env \<noteq> current_event_version
       then Inl (relay_error.Validation (''cannot append event payload version '' @
              show_nat (unat (env_event_version env))))
       else if env_kind env \<noteq> kind (env_event env)
       then Inl (relay_error.Validation (''event kind `'' @ env_kind env @
              ''` does not match payload kind `'' @ kind (env_event env) @ ''`''))
       else Inr ())"

definition sqlite_insert ::
    "library \<Rightarrow> io_faults \<Rightarrow> nat \<Rightarrow> event_envelope \<Rightarrow> event_table \<Rightarrow> event_table result" where
  "sqlite_insert lib io i env t =
     and_then (encode_row lib env) (\<lambda>row.
     and_then (guard_fault (fault_insert io i)) (\<lambda>_.
       if bt_contains t (env_sequence env)
       then Inl (Database ''UNIQUE constraint failed: events.sequence'')
       else if list_ex (\<lambda>r. row_id r = row_id row) (bt_values t)
       then Inl (Database ''UNIQUE constraint failed: events.id'')
       else Inr (bt_insert (env_sequence env) row t)))"

definition sqlite_append_one ::
    "library \<Rightarrow> io_faults \<Rightarrow> int \<Rightarrow> event_table \<Rightarrow> nat \<times> event_envelope \<Rightarrow> event_table result" where
  "sqlite_append_one lib io start t = (\<lambda>(i, env).
     and_then (sqlite_check start i env) (\<lambda>_. sqlite_insert lib io i env t))"

definition sqlite_append ::
    "library \<Rightarrow> io_faults \<Rightarrow> int \<Rightarrow> event_envelope list \<Rightarrow> event_table \<Rightarrow> event_table result" where
  "sqlite_append lib io start envs t =
     (if envs = [] then Inr t
      else
        and_then (guard_fault (fault_begin io)) (\<lambda>_.
          if max_sequence t \<noteq> start
          then Inl (ConcurrentModification start (max_sequence t))
          else
            and_then (try_fold (sqlite_append_one lib io start) t (List.enumerate 0 envs)) (\<lambda>t'.
            and_then (guard_fault (fault_commit io)) (\<lambda>_. Inr t'))))"

definition sqlite_load_all :: "library \<Rightarrow> event_table \<Rightarrow> event_envelope list result" where
  "sqlite_load_all lib t = load_rows lib (\<lambda>_. True) t"

definition sqlite_load_flow :: "library \<Rightarrow> string \<Rightarrow> event_table \<Rightarrow> event_envelope list result" where
  "sqlite_load_flow lib fid t = load_rows lib (\<lambda>(_, row). row_flow_id row = Some fid) t"

definition sqlite_load_after :: "library \<Rightarrow> event_table \<Rightarrow> int \<Rightarrow> event_envelope list result" where
  "sqlite_load_after lib t n = load_rows lib (\<lambda>(m, _). n < m) t"

section \<open>The promise\<close>

lemma sqlite_append_one_stores:
  "sqlite_append_one lib io start t (i, env) = Inr t' \<Longrightarrow> stores_envelope lib start i env t t'"
  by (auto simp: sqlite_append_one_def sqlite_check_def sqlite_insert_def stores_envelope_def
      checked_offset_Inr split: if_splits)

lemma sqlite_append_load:
  assumes "sqlite_append lib io start envs t = Inr t'" and "sqlite_load_all lib t = Inr log"
    and "\<And>env. env \<in> set envs \<Longrightarrow> reads_back lib env"
  shows "sqlite_load_all lib t' = Inr (log @ envs)"
proof (cases "envs = []")
  case True
  with assms show ?thesis by (simp add: sqlite_append_def)
next
  case False
  then have start: "max_sequence t = start"
    and fold: "try_fold (sqlite_append_one lib io start) t (List.enumerate 0 envs) = Inr t'"
    using assms(1) by (auto simp: sqlite_append_def split: if_splits)
  have below: "n \<le> start + int 0" if "n \<in> fst ` set (bt_entries t)" for n
    using max_sequence_above [OF that] start by simp
  have "\<exists>new. bt_entries t' = bt_entries t @ new \<and> try_map (decode_row lib) new = Inr envs \<and>
    max_sequence t' = (if envs = [] then max_sequence t else env_sequence (last envs))"
    by (rule store_batch [where f = "sqlite_append_one lib io start", OF _ fold below assms(3)])
       (auto intro: sqlite_append_one_stores)
  then obtain new where
    "bt_entries t' = bt_entries t @ new" "try_map (decode_row lib) new = Inr envs" by blast
  with assms(2) show ?thesis by (simp add: sqlite_load_all_def load_rows_def try_map_append)
qed

interpretation sqlite: event_log max_sequence "sqlite_load_all lib" "sqlite_load_after lib"
    "sqlite_append lib io" "reads_back lib" "\<lambda>_. True" for lib io
proof (rule event_log.intro)
  show "max_sequence d = (if log = [] then 0 else env_sequence (last log))"
    if "sqlite_load_all lib d = Inr log" for d log
    using that max_sequence_load by (simp add: sqlite_load_all_def)
  show "sqlite_append lib io n [] d = Inr d" for n d
    by (simp add: sqlite_append_def)
  show "n = max_sequence d" if "sqlite_append lib io n envs d = Inr d'" "envs \<noteq> []" for n envs d d'
    using that by (simp add: sqlite_append_def split: if_splits)
  show "sqlite_load_all lib d' = Inr (log @ envs)"
    if "sqlite_append lib io n envs d = Inr d'" "sqlite_load_all lib d = Inr log"
      "\<And>env. env \<in> set envs \<Longrightarrow> reads_back lib env" for n envs d d' log
    using sqlite_append_load that by blast
  show "sqlite_load_after lib d n = Inr (filter (\<lambda>env. n < env_sequence env) log)"
    if "sqlite_load_all lib d = Inr log" for d n log
    using that load_rows_after by (simp add: sqlite_load_all_def sqlite_load_after_def)
qed simp

text \<open>A stale writer is told where the log stands, and the table is as it was.\<close>

lemma sqlite_append_stale:
  assumes "envs \<noteq> []" and "max_sequence t \<noteq> start" and "fault_begin io = None"
  shows "sqlite_append lib io start envs t = Inl (ConcurrentModification start (max_sequence t))"
  using assms by (simp add: sqlite_append_def guard_fault_def)

end
