(* ===== verification/Store_Postgres.thy ===== *)
theory Store_Postgres
  imports Event_Log
begin

text \<open>
  The PostgreSQL event store (\<open>src/adapters/postgres_store.rs\<close>): one database holds the streams of
  many tenants. \<open>append_prepared\<close> locks the tenant's row of \<open>relay_streams\<close>, compares its position,
  inserts the rows of that tenant and moves the position; the loads select by tenant. The events
  table is modelled by tenant, each part with the sequence number as key, as its primary key
  \<open>(tenant_id, sequence)\<close> and the \<open>UNIQUE (tenant_id, id)\<close> constraint have it.
\<close>

record pg_database =
  pg_streams :: "(string, int) btree"
  pg_events :: "(string, event_table) btree"

definition tenant_events :: "pg_database \<Rightarrow> string \<Rightarrow> event_table" where
  "tenant_events db tenant =
     (case bt_get (pg_events db) tenant of None \<Rightarrow> bt_empty | Some t \<Rightarrow> t)"

text \<open>\<open>connect\<close> creates the stream of a tenant at position 0 when there is none.\<close>

definition pg_connect :: "string \<Rightarrow> pg_database \<Rightarrow> pg_database" where
  "pg_connect tenant db =
     (if bt_contains (pg_streams db) tenant then db
      else db\<lparr>pg_streams := bt_insert tenant 0 (pg_streams db)\<rparr>)"

definition pg_check :: "int \<Rightarrow> nat \<Rightarrow> event_envelope \<Rightarrow> unit result" where
  "pg_check start i env =
     and_then (checked_offset start i) (\<lambda>n.
       if env_sequence env \<noteq> n \<or> env_event_version env \<noteq> current_event_version \<or>
          env_kind env \<noteq> kind (env_event env)
       then Inl (relay_error.Validation ''prepared event does not match its sequence, version or kind'')
       else Inr ())"

definition pg_insert ::
    "library \<Rightarrow> io_faults \<Rightarrow> nat \<Rightarrow> event_envelope \<Rightarrow> event_table \<Rightarrow> event_table result" where
  "pg_insert lib io i env t =
     and_then (encode_row lib env) (\<lambda>row.
     and_then (guard_fault (fault_insert io i)) (\<lambda>_.
       if bt_contains t (env_sequence env) \<or> list_ex (\<lambda>r. row_id r = row_id row) (bt_values t)
       then Inl (Postgres ''db error'')
       else Inr (bt_insert (env_sequence env) row t)))"

definition pg_append_one ::
    "library \<Rightarrow> io_faults \<Rightarrow> int \<Rightarrow> event_table \<Rightarrow> nat \<times> event_envelope \<Rightarrow> event_table result" where
  "pg_append_one lib io start t = (\<lambda>(i, env).
     and_then (pg_check start i env) (\<lambda>_. pg_insert lib io i env t))"

definition pg_append ::
    "library \<Rightarrow> io_faults \<Rightarrow> string \<Rightarrow> int \<Rightarrow> event_envelope list \<Rightarrow> pg_database \<Rightarrow> pg_database result" where
  "pg_append lib io tenant start envs db =
     (if envs = [] then Inr db
      else
        and_then (guard_fault (fault_begin io)) (\<lambda>_.
        and_then (ok_or (bt_get (pg_streams db) tenant)
          (Postgres ''query returned an unexpected number of rows'')) (\<lambda>position.
          if position \<noteq> start then Inl (ConcurrentModification start position)
          else
            and_then (try_fold (pg_append_one lib io start) (tenant_events db tenant)
                       (List.enumerate 0 envs)) (\<lambda>t.
            and_then (guard_fault (fault_commit io)) (\<lambda>_.
              Inr (db\<lparr>pg_events := bt_insert tenant t (pg_events db),
                      pg_streams := bt_insert tenant (env_sequence (last envs)) (pg_streams db)\<rparr>))))))"

definition pg_load_all :: "library \<Rightarrow> string \<Rightarrow> pg_database \<Rightarrow> event_envelope list result" where
  "pg_load_all lib tenant db = load_rows lib (\<lambda>_. True) (tenant_events db tenant)"

definition pg_load_flow :: "library \<Rightarrow> string \<Rightarrow> string \<Rightarrow> pg_database \<Rightarrow> event_envelope list result" where
  "pg_load_flow lib tenant fid db =
     load_rows lib (\<lambda>(_, row). row_flow_id row = Some fid) (tenant_events db tenant)"

definition pg_load_after :: "library \<Rightarrow> string \<Rightarrow> pg_database \<Rightarrow> int \<Rightarrow> event_envelope list result" where
  "pg_load_after lib tenant db n = load_rows lib (\<lambda>(m, _). n < m) (tenant_events db tenant)"

section \<open>The promise\<close>

text \<open>The position of a stream is the last sequence number of its rows.\<close>

definition pg_position :: "string \<Rightarrow> pg_database \<Rightarrow> int" where
  "pg_position tenant db = (case bt_get (pg_streams db) tenant of None \<Rightarrow> 0 | Some n \<Rightarrow> n)"

definition pg_sound :: "string \<Rightarrow> pg_database \<Rightarrow> bool" where
  "pg_sound tenant db \<longleftrightarrow> pg_position tenant db = max_sequence (tenant_events db tenant)"

lemma pg_append_one_stores:
  "pg_append_one lib io start t (i, env) = Inr t' \<Longrightarrow> stores_envelope lib start i env t t'"
  by (auto simp: pg_append_one_def pg_check_def pg_insert_def stores_envelope_def
      checked_offset_Inr split: if_splits)

lemma pg_append_Inr:
  assumes "pg_append lib io tenant start envs db = Inr db'" and "envs \<noteq> []"
  obtains t where "pg_position tenant db = start"
    and "try_fold (pg_append_one lib io start) (tenant_events db tenant) (List.enumerate 0 envs) = Inr t"
    and "db' = db\<lparr>pg_events := bt_insert tenant t (pg_events db),
                  pg_streams := bt_insert tenant (env_sequence (last envs)) (pg_streams db)\<rparr>"
  using assms by (auto simp: pg_append_def pg_position_def split: if_splits)

lemma pg_append_last:
  assumes "try_fold (pg_append_one lib io start) t (List.enumerate k envs) = Inr t'" and "envs \<noteq> []"
    and "\<And>n. n \<in> fst ` set (bt_entries t) \<Longrightarrow> n \<le> start + int k"
  shows "max_sequence t' = env_sequence (last envs)"
  using assms
proof (induction envs arbitrary: t k)
  case Nil
  then show ?case by simp
next
  case (Cons env envs)
  then obtain u where u: "pg_append_one lib io start t (k, env) = Inr u"
      "try_fold (pg_append_one lib io start) u (List.enumerate (Suc k) envs) = Inr t'" by auto
  from pg_append_one_stores [OF u(1)] obtain row where row: "env_sequence env = start + int k + 1"
      "u = bt_insert (env_sequence env) row t"
    by (auto simp: stores_envelope_def split: sum.splits)
  have entries: "bt_entries u = bt_entries t @ [(env_sequence env, row)]"
    unfolding row(2) by (rule bt_entries_insert_last) (use Cons.prems(3) row(1) in force)
  have "n \<le> start + int (Suc k)" if "n \<in> fst ` set (bt_entries u)" for n
    using that Cons.prems(3) row(1) unfolding entries by force
  with Cons.IH [OF u(2)] u(2) entries show ?case by (cases "envs = []") (auto simp: max_sequence_def)
qed

lemma pg_append_sound:
  assumes "pg_append lib io tenant start envs db = Inr db'" and "pg_sound tenant db"
  shows "pg_sound tenant db'"
proof (cases "envs = []")
  case True
  with assms show ?thesis by (simp add: pg_append_def)
next
  case False
  from pg_append_Inr [OF assms(1) False] obtain t where t: "pg_position tenant db = start"
    "try_fold (pg_append_one lib io start) (tenant_events db tenant) (List.enumerate 0 envs) = Inr t"
    "db' = db\<lparr>pg_events := bt_insert tenant t (pg_events db),
              pg_streams := bt_insert tenant (env_sequence (last envs)) (pg_streams db)\<rparr>" by blast
  have "max_sequence t = env_sequence (last envs)"
    by (rule pg_append_last [OF t(2) False])
       (use max_sequence_above assms(2) t(1) in \<open>force simp: pg_sound_def\<close>)
  then show ?thesis by (simp add: t(3) pg_sound_def pg_position_def tenant_events_def)
qed

lemma pg_append_load:
  assumes "pg_append lib io tenant start envs db = Inr db'" and "pg_sound tenant db"
    and "pg_load_all lib tenant db = Inr log"
    and "\<And>env. env \<in> set envs \<Longrightarrow> reads_back lib env"
  shows "pg_load_all lib tenant db' = Inr (log @ envs)"
proof (cases "envs = []")
  case True
  with assms show ?thesis by (simp add: pg_append_def)
next
  case False
  from pg_append_Inr [OF assms(1) False] obtain t where t: "pg_position tenant db = start"
    "try_fold (pg_append_one lib io start) (tenant_events db tenant) (List.enumerate 0 envs) = Inr t"
    "db' = db\<lparr>pg_events := bt_insert tenant t (pg_events db),
              pg_streams := bt_insert tenant (env_sequence (last envs)) (pg_streams db)\<rparr>" by blast
  have below: "n \<le> start + int 0" if "n \<in> fst ` set (bt_entries (tenant_events db tenant))" for n
    using max_sequence_above [OF that] t(1) assms(2) by (simp add: pg_sound_def)
  have "\<exists>new. bt_entries t = bt_entries (tenant_events db tenant) @ new \<and>
    try_map (decode_row lib) new = Inr envs \<and>
    max_sequence t = (if envs = [] then max_sequence (tenant_events db tenant)
                      else env_sequence (last envs))"
    by (rule store_batch [where f = "pg_append_one lib io start", OF _ t(2) below assms(4)])
       (auto intro: pg_append_one_stores)
  moreover have "tenant_events db' tenant = t" by (simp add: t(3) tenant_events_def)
  ultimately show ?thesis
    using assms(3) by (auto simp: pg_load_all_def load_rows_def try_map_append)
qed

interpretation postgres: event_log "pg_position tenant" "pg_load_all lib tenant"
    "pg_load_after lib tenant" "pg_append lib io tenant" "reads_back lib" "pg_sound tenant"
  for lib io tenant
proof (rule event_log.intro)
  show "pg_position tenant d = (if log = [] then 0 else env_sequence (last log))"
    if "pg_sound tenant d" "pg_load_all lib tenant d = Inr log" for d log
    using that max_sequence_load by (simp add: pg_load_all_def pg_sound_def)
  show "pg_append lib io tenant n [] d = Inr d" for n d
    by (simp add: pg_append_def)
  show "n = pg_position tenant d"
    if "pg_append lib io tenant n envs d = Inr d'" "envs \<noteq> []" for n envs d d'
    using pg_append_Inr [OF that] by metis
  show "pg_sound tenant d'" if "pg_append lib io tenant n envs d = Inr d'" "pg_sound tenant d"
    for n envs d d'
    using that by (rule pg_append_sound)
  show "pg_load_all lib tenant d' = Inr (log @ envs)"
    if "pg_append lib io tenant n envs d = Inr d'" "pg_sound tenant d"
      "pg_load_all lib tenant d = Inr log" "\<And>env. env \<in> set envs \<Longrightarrow> reads_back lib env"
    for n envs d d' log
    using pg_append_load that by blast
  show "pg_load_after lib tenant d n = Inr (filter (\<lambda>env. n < env_sequence env) log)"
    if "pg_load_all lib tenant d = Inr log" for d n log
    using that load_rows_after by (simp add: pg_load_all_def pg_load_after_def)
qed

text \<open>A tenant's writes are invisible to every other tenant.\<close>

lemma pg_append_other_tenant:
  assumes "pg_append lib io tenant start envs db = Inr db'" and "other \<noteq> tenant"
  shows "tenant_events db' other = tenant_events db other"
    and "pg_position other db' = pg_position other db"
proof -
  show "tenant_events db' other = tenant_events db other"
    using assms by (auto simp: pg_append_def tenant_events_def split: if_splits)
  show "pg_position other db' = pg_position other db"
    using assms by (auto simp: pg_append_def pg_position_def split: if_splits)
qed

end
