(* ===== verification/App_Commit.thy ===== *)
theory App_Commit
  imports Store_Sqlite Store_Postgres
begin

text \<open>
  The heart of the application (\<open>src/application/app/commit.rs\<close>, with \<open>queue_events\<close> of
  \<open>src/adapters/notification.rs\<close>, and \<open>open_with_store\<close>, \<open>reload\<close> and \<open>refresh_shared_state\<close> of
  \<open>src/application/app/mod.rs\<close>): a commit projects a batch on a copy of the state, appends it to
  the store and only then takes the projected state over. Several instances may share one store;
  the relation \<open>deployment_step\<close> lets them act in any order.
\<close>

section \<open>The store behind the application\<close>

datatype flow_store =
    SqliteStore event_table
  | PostgresStore string pg_database

definition store_append ::
    "library \<Rightarrow> io_faults \<Rightarrow> int \<Rightarrow> event_envelope list \<Rightarrow> flow_store \<Rightarrow> flow_store result" where
  "store_append lib io start envs db =
     (case db of
        SqliteStore t \<Rightarrow> and_then (sqlite_append lib io start envs t) (\<lambda>t'. Inr (SqliteStore t'))
      | PostgresStore tenant p \<Rightarrow>
          and_then (pg_append lib io tenant start envs p) (\<lambda>p'. Inr (PostgresStore tenant p')))"

definition store_load_all :: "library \<Rightarrow> flow_store \<Rightarrow> event_envelope list result" where
  "store_load_all lib db =
     (case db of SqliteStore t \<Rightarrow> sqlite_load_all lib t
      | PostgresStore tenant p \<Rightarrow> pg_load_all lib tenant p)"

definition store_load_after :: "library \<Rightarrow> flow_store \<Rightarrow> int \<Rightarrow> event_envelope list result" where
  "store_load_after lib db n =
     (case db of SqliteStore t \<Rightarrow> sqlite_load_after lib t n
      | PostgresStore tenant p \<Rightarrow> pg_load_after lib tenant p n)"

definition store_tenant_id :: "flow_store \<Rightarrow> string option" where
  "store_tenant_id db = (case db of SqliteStore _ \<Rightarrow> None | PostgresStore tenant _ \<Rightarrow> Some tenant)"

definition store_is_shared :: "flow_store \<Rightarrow> bool" where
  "store_is_shared db \<longleftrightarrow> (case db of SqliteStore _ \<Rightarrow> False | PostgresStore _ _ \<Rightarrow> True)"

definition store_position :: "flow_store \<Rightarrow> int" where
  "store_position db =
     (case db of SqliteStore t \<Rightarrow> max_sequence t | PostgresStore tenant p \<Rightarrow> pg_position tenant p)"

definition store_sound :: "flow_store \<Rightarrow> bool" where
  "store_sound db \<longleftrightarrow>
     (case db of SqliteStore _ \<Rightarrow> True | PostgresStore tenant p \<Rightarrow> pg_sound tenant p)"

lemmas store_defs =
  store_append_def store_load_all_def store_load_after_def store_position_def store_sound_def

interpretation store: event_log store_position "store_load_all lib" "store_load_after lib"
    "store_append lib io" "reads_back lib" store_sound for lib io
proof (rule event_log.intro)
  show "store_position d = (if log = [] then 0 else env_sequence (last log))"
    if "store_sound d" "store_load_all lib d = Inr log" for d log
    using that sqlite.tail_load postgres.tail_load
    by (simp add: store_defs split: flow_store.splits)
  show "store_append lib io n [] d = Inr d" for n d
    by (simp add: store_defs sqlite.append_none postgres.append_none split: flow_store.splits)
  show "n = store_position d" if "store_append lib io n envs d = Inr d'" "envs \<noteq> []" for n envs d d'
    using that sqlite.append_guard postgres.append_guard
    by (auto simp: store_defs split: flow_store.splits)
  show "store_sound d'" if "store_append lib io n envs d = Inr d'" "store_sound d" for n envs d d'
    using that postgres.append_sound by (auto simp: store_defs split: flow_store.splits)
  show "store_load_all lib d' = Inr (log @ envs)"
    if "store_append lib io n envs d = Inr d'" "store_sound d" "store_load_all lib d = Inr log"
      "\<And>env. env \<in> set envs \<Longrightarrow> reads_back lib env" for n envs d d' log
    using that sqlite.append_load postgres.append_load
    by (auto simp: store_defs split: flow_store.splits)
  show "store_load_after lib d n = Inr (filter (\<lambda>env. n < env_sequence env) log)"
    if "store_sound d" "store_load_all lib d = Inr log" for d n log
    using that sqlite.after_load postgres.after_load
    by (simp add: store_defs split: flow_store.splits)
qed

section \<open>Notifications of a batch\<close>

definition wants_kind :: "string \<Rightarrow> notification_endpoint \<Rightarrow> bool" where
  "wants_kind k t \<longleftrightarrow>
     endpoint_active t \<and> list_ex (\<lambda>f. f = ''*'' \<or> f = k) (endpoint_event_kinds t)"

definition delivery_for ::
    "environment \<Rightarrow> string \<Rightarrow> string \<Rightarrow> domain_event \<Rightarrow> json_text \<Rightarrow> nat \<times> notification_endpoint
      \<Rightarrow> notification_delivery" where
  "delivery_for w org actor e payload = (\<lambda>(i, t).
     \<lparr>delivery_id = new_id ''NTF'' (delivery_uuid w i),
      delivery_organization_id = org,
      delivery_endpoint_id = endpoint_id t,
      delivery_source_event_kind = kind e,
      delivery_flow_id = event_flow_id e,
      delivery_actor = actor,
      delivery_payload = payload,
      delivery_status = Pending,
      delivery_attempts = 0,
      delivery_queued_at = delivery_clock w i,
      delivery_last_attempt_at = None,
      delivery_delivered_at = None,
      delivery_response_status = None,
      delivery_last_error = None\<rparr>)"

fun queue_from ::
    "library \<Rightarrow> environment \<Rightarrow> org_state \<Rightarrow> string \<Rightarrow> string \<Rightarrow> nat \<Rightarrow> domain_event list
      \<Rightarrow> notification_delivery list result" where
  "queue_from lib w s org actor n [] = Inr []"
| "queue_from lib w s org actor n (e # es) =
     (if starts_with (kind e) ''notification.'' then queue_from lib w s org actor n es
      else
        and_then (lib_event_document lib e) (\<lambda>payload.
          let targets = filter (wants_kind (kind e)) (bt_values (notification_endpoints s))
          in and_then (queue_from lib w s org actor (n + length targets) es) (\<lambda>rest.
               Inr (map (delivery_for w org actor e payload) (List.enumerate n targets) @ rest))))"

definition queue_events ::
    "library \<Rightarrow> environment \<Rightarrow> org_state \<Rightarrow> string \<Rightarrow> string \<Rightarrow> domain_event list
      \<Rightarrow> domain_event list result" where
  "queue_events lib w s org actor es =
     and_then (queue_from lib w s org actor 0 es) (\<lambda>ds.
       Inr (map (\<lambda>d. NotificationEvent (NotificationQueued d)) ds))"

section \<open>Commit, reload, refresh\<close>

text \<open>An instance is its store and its state; every operation returns both, also when it fails.\<close>

definition reload :: "library \<Rightarrow> flow_store \<Rightarrow> org_state \<Rightarrow> unit result \<times> org_state" where
  "reload lib db s =
     (case and_then (store_load_all lib db) replay of
        Inl err \<Rightarrow> (Inl err, s)
      | Inr s' \<Rightarrow> (Inr (), s'))"

definition commit_as ::
    "library \<Rightarrow> environment \<Rightarrow> io_faults \<Rightarrow> string \<Rightarrow> string \<Rightarrow> domain_event list
      \<Rightarrow> flow_store \<times> org_state \<Rightarrow> event_envelope list result \<times> flow_store \<times> org_state" where
  "commit_as lib w io org actor es = (\<lambda>(db, s).
     (case and_then (queue_events lib w s org actor es) (\<lambda>queued.
           and_then (prepare_batch w (last_sequence s) org actor (es @ queued)) (\<lambda>envs.
           and_then (apply_all s envs) (\<lambda>projected. Inr (envs, projected)))) of
        Inl err \<Rightarrow> (Inl err, db, s)
      | Inr (envs, projected) \<Rightarrow>
          (case store_append lib io (last_sequence s) envs db of
             Inl err \<Rightarrow>
               (case err of
                  ConcurrentModification _ _ \<Rightarrow>
                    (case reload lib db s of
                       (Inl err', s') \<Rightarrow> (Inl err', db, s')
                     | (Inr _, s') \<Rightarrow> (Inl err, db, s'))
                | _ \<Rightarrow> (Inl err, db, s))
           | Inr db' \<Rightarrow> (Inr envs, db', projected))))"

definition commit ::
    "library \<Rightarrow> environment \<Rightarrow> io_faults \<Rightarrow> string \<Rightarrow> domain_event list
      \<Rightarrow> flow_store \<times> org_state \<Rightarrow> event_envelope list result \<times> flow_store \<times> org_state" where
  "commit lib w io actor es = (\<lambda>(db, s).
     (case get_organization s of
        Inl err \<Rightarrow> (Inl err, db, s)
      | Inr org \<Rightarrow> commit_as lib w io (organization_id org) actor es (db, s)))"

definition refresh_shared_state :: "library \<Rightarrow> flow_store \<Rightarrow> org_state \<Rightarrow> unit result \<times> org_state" where
  "refresh_shared_state lib db s =
     (if store_is_shared db then
        (case and_then (store_load_after lib db (last_sequence s)) (apply_all s) of
           Inl err \<Rightarrow> (Inl err, s)
         | Inr s' \<Rightarrow> (Inr (), s'))
      else (Inr (), s))"

text \<open>\<open>open_with_store\<close> without the migration of legacy authority that follows it.\<close>

definition open_with_store :: "library \<Rightarrow> flow_store \<Rightarrow> org_state result" where
  "open_with_store lib db =
     and_then (store_load_all lib db) (\<lambda>log.
     and_then (replay log) (\<lambda>s.
       case (store_tenant_id db, org_tenant s) of
         (Some wanted, Some t) \<Rightarrow>
           if wanted \<noteq> tenant_id t
           then Inl (relay_error.Validation (''PostgreSQL stream '' @ wanted @
                  '' contains events for tenant '' @ tenant_id t))
           else Inr s
       | _ \<Rightarrow> Inr s))"

section \<open>What a commit does\<close>

text \<open>The state of an instance is what a prefix of the stored log produces.\<close>

definition instance_ok :: "library \<Rightarrow> flow_store \<Rightarrow> org_state \<Rightarrow> bool" where
  "instance_ok lib db s \<longleftrightarrow> follows_log (store_load_all lib) store_sound db s"

lemma commit_as_ok:
  assumes "commit_as lib w io org actor es (db, s) = (Inr envs, db', s')"
  shows "\<exists>queued. queue_events lib w s org actor es = Inr queued \<and>
    prepare_batch w (last_sequence s) org actor (es @ queued) = Inr envs \<and>
    apply_all s envs = Inr s' \<and> store_append lib io (last_sequence s) envs db = Inr db'"
  using assms
  by (auto simp: commit_as_def split: sum.splits prod.splits relay_error.splits)

lemma commit_as_error:
  assumes "commit_as lib w io org actor es (db, s) = (Inl err, db', s')"
  shows "db' = db \<and>
    (s' = s \<or> (\<exists>log. store_load_all lib db = Inr log \<and> replay log = Inr s'))"
  using assms
  by (auto simp: commit_as_def reload_def split: sum.splits prod.splits relay_error.splits)


text \<open>A successful commit extends the log by its batch and leaves the instance at its end.\<close>

lemma commit_as_extends:
  assumes "commit_as lib w io org actor es (db, s) = (Inr envs, db', s')" and "envs \<noteq> []"
    and "instance_ok lib db s" and "\<And>env. env \<in> set envs \<Longrightarrow> reads_back lib env"
  shows "\<exists>log. store_load_all lib db = Inr log \<and> replay log = Inr s \<and>
    store_load_all lib db' = Inr (log @ envs) \<and> replay (log @ envs) = Inr s'"
  using commit_as_ok [OF assms(1)] store.append_projects [of lib db s envs io db' s'] assms(2-4)
  by (auto simp: instance_ok_def)

lemma commit_as_keeps_instance:
  assumes "commit_as lib w io org actor es (db, s) = (r, db', s')"
    and "instance_ok lib db s"
    and "\<And>envs env. r = Inr envs \<Longrightarrow> env \<in> set envs \<Longrightarrow> reads_back lib env"
  shows "instance_ok lib db' s'"
proof (cases r)
  case (Inl err)
  with commit_as_error assms(1) have "db' = db"
    and "s' = s \<or> (\<exists>log. store_load_all lib db = Inr log \<and> replay log = Inr s')" by blast+
  with assms(2) store.reload_in_step [of lib db s] show ?thesis
    by (auto simp: instance_ok_def)
next
  case (Inr envs)
  with commit_as_ok assms(1) have "apply_all s envs = Inr s'"
    and "store_append lib io (last_sequence s) envs db = Inr db'" by blast+
  with assms(2,3) Inr store.append_in_step [of lib db s io envs db' s'] show ?thesis
    by (auto simp: instance_ok_def)
qed

lemma commit_as_keeps_others:
  assumes "commit_as lib w io org actor es (db, s) = (r, db', s')"
    and "instance_ok lib db s" and "instance_ok lib db t"
    and "\<And>envs env. r = Inr envs \<Longrightarrow> env \<in> set envs \<Longrightarrow> reads_back lib env"
  shows "instance_ok lib db' t"
proof (cases r)
  case (Inl err)
  with commit_as_error assms(1) have "db' = db" by blast
  with assms(3) show ?thesis by simp
next
  case (Inr envs)
  with commit_as_ok assms(1) have "apply_all s envs = Inr s'"
    and "store_append lib io (last_sequence s) envs db = Inr db'" by blast+
  with assms(2,3,4) Inr store.append_other_in_step [of lib db t s io envs db' s'] show ?thesis
    by (auto simp: instance_ok_def)
qed

lemma instance_state_ok: "instance_ok lib db s \<Longrightarrow> state_ok s"
  by (auto simp: instance_ok_def follows_log_iff dest: state_ok_replay)

section \<open>Several instances on one store\<close>

record deployment =
  shared_store :: flow_store
  instances :: "nat \<Rightarrow> org_state option"

text \<open>
  One operation of one instance at a time: the store's transactions serialize them. What the
  instance reads (random identifiers, clock, failures of the database) is arbitrary.
\<close>

inductive deployment_step :: "library \<Rightarrow> deployment \<Rightarrow> deployment \<Rightarrow> bool" for lib where
  opened:
    "open_with_store lib (shared_store d) = Inr s \<Longrightarrow>
     deployment_step lib d (d\<lparr>instances := (instances d)(i \<mapsto> s)\<rparr>)"
| closed:
    "deployment_step lib d (d\<lparr>instances := (instances d)(i := None)\<rparr>)"
| reloaded:
    "instances d i = Some s \<Longrightarrow> reload lib (shared_store d) s = (r, s') \<Longrightarrow>
     deployment_step lib d (d\<lparr>instances := (instances d)(i \<mapsto> s')\<rparr>)"
| refreshed:
    "instances d i = Some s \<Longrightarrow> refresh_shared_state lib (shared_store d) s = (r, s') \<Longrightarrow>
     deployment_step lib d (d\<lparr>instances := (instances d)(i \<mapsto> s')\<rparr>)"
| committed:
    "instances d i = Some s \<Longrightarrow>
     commit_as lib w io org actor es (shared_store d, s) = (r, db', s') \<Longrightarrow>
     (\<And>envs env. r = Inr envs \<Longrightarrow> env \<in> set envs \<Longrightarrow> reads_back lib env) \<Longrightarrow>
     deployment_step lib d \<lparr>shared_store = db', instances = (instances d)(i \<mapsto> s')\<rparr>"

inductive_cases deployment_stepE: "deployment_step lib d d'"

definition deployment_ok :: "library \<Rightarrow> deployment \<Rightarrow> bool" where
  "deployment_ok lib d \<longleftrightarrow>
     store_sound (shared_store d) \<and>
     is_ok (and_then (store_load_all lib (shared_store d)) replay) \<and>
     (\<forall>i s. instances d i = Some s \<longrightarrow> instance_ok lib (shared_store d) s)"

lemma deployment_okD:
  assumes "deployment_ok lib d"
  obtains log s where "store_sound (shared_store d)" "store_load_all lib (shared_store d) = Inr log"
    "replay log = Inr s" "instance_ok lib (shared_store d) s"
  using assms
  by (fastforce simp: deployment_ok_def is_ok_iff instance_ok_def follows_log_iff)

lemma instance_ok_deployment:
  "instance_ok lib db s \<Longrightarrow> store_sound db \<and> is_ok (and_then (store_load_all lib db) replay)"
  by (auto simp: instance_ok_def follows_log_iff is_ok_iff)

lemma refresh_keeps_instance:
  assumes "refresh_shared_state lib db s = (r, s')" and "instance_ok lib db s"
  shows "instance_ok lib db s'"
proof -
  obtain log where log: "store_load_all lib db = Inr log" "is_ok (replay log)" "store_sound db"
    using assms(2) by (auto simp: instance_ok_def follows_log_iff)
  show ?thesis
  proof (cases "store_load_after lib db (last_sequence s)")
    case (Inl err)
    with assms show ?thesis by (auto simp: refresh_shared_state_def split: if_splits)
  next
    case (Inr news)
    with store.refresh_projects [of lib db s news log] assms log
      store.reload_in_step [of lib db s log]
    show ?thesis
      by (auto simp: refresh_shared_state_def instance_ok_def split: if_splits)
  qed
qed

lemma deployment_step_ok:
  assumes "deployment_step lib d d'" and "deployment_ok lib d"
  shows "deployment_ok lib d'"
  using assms(1)
proof cases
  case (opened s i)
  obtain log t where log: "store_load_all lib (shared_store d) = Inr log"
    and t: "instance_ok lib (shared_store d) t"
    using assms(2) by (rule deployment_okD)
  with opened(2) have "replay log = Inr s"
    by (auto simp: open_with_store_def split: option.splits if_splits)
  then have "instance_ok lib (shared_store d) s"
    using store.reload_in_step [of lib "shared_store d" t log s] log t by (simp add: instance_ok_def)
  with assms(2) opened(1) show ?thesis by (simp add: deployment_ok_def)
next
  case (closed i)
  with assms(2) show ?thesis by (simp add: deployment_ok_def)
next
  case (reloaded i s r s')
  then have "s' = s \<or> (\<exists>log. store_load_all lib (shared_store d) = Inr log \<and> replay log = Inr s')"
    by (auto simp: reload_def split: sum.splits)
  with assms(2) reloaded store.reload_in_step [of lib "shared_store d" s] show ?thesis
    by (auto simp: deployment_ok_def instance_ok_def)
next
  case (refreshed i s r s')
  with assms(2) refresh_keeps_instance show ?thesis by (auto simp: deployment_ok_def)
next
  case (committed i s w io org actor es r db' s')
  have ok: "instance_ok lib (shared_store d) s"
    and others: "\<And>j t. instances d j = Some t \<Longrightarrow> instance_ok lib (shared_store d) t"
    using assms(2) committed by (auto simp: deployment_ok_def)
  have "instance_ok lib db' s'"
    using commit_as_keeps_instance [OF committed(3) ok] committed(4) by blast
  moreover have "instance_ok lib db' t" if "instances d j = Some t" for j t
    using commit_as_keeps_others [OF committed(3) ok others [OF that]] committed(4) by blast
  ultimately show ?thesis
    using instance_ok_deployment committed(1) by (auto simp: deployment_ok_def)
qed

text \<open>The configurations a deployment can reach from an empty store.\<close>

inductive reachable :: "library \<Rightarrow> flow_store \<Rightarrow> deployment \<Rightarrow> bool" for lib db where
  start: "reachable lib db \<lparr>shared_store = db, instances = (\<lambda>_. None)\<rparr>"
| step: "reachable lib db d \<Longrightarrow> deployment_step lib d d' \<Longrightarrow> reachable lib db d'"

lemma reachable_ok:
  assumes "reachable lib db d" and "store_sound db" and "store_load_all lib db = Inr []"
  shows "deployment_ok lib d"
  using assms(1)
proof induction
  case start
  with assms(2,3) show ?case by (simp add: deployment_ok_def replay_def apply_all_def)
next
  case (step d d')
  then show ?case by (auto intro: deployment_step_ok)
qed

section \<open>Which notifications a batch queues\<close>

lemma keyed_values_distinct: "keyed f m \<Longrightarrow> map f (bt_values m) = map fst (bt_entries m)"
  by (auto simp: bt_values_def keyed_def bt_entries_iff)

lemma distinct_count:
  "distinct (map f xs) \<Longrightarrow> length (filter (\<lambda>x. f x = k) xs) = of_bool (k \<in> f ` set xs)"
  by (induction xs) (auto simp: filter_empty_conv)

lemma one_target:
  assumes "keyed endpoint_id m"
  shows "length (filter (\<lambda>t. endpoint_id t = eid) (filter P (bt_values m))) =
    of_bool (\<exists>t. bt_get m eid = Some t \<and> P t)"
proof -
  have "distinct (map endpoint_id (bt_values m))"
    using keyed_values_distinct [OF assms] distinct_fst_entries by simp
  then have "distinct (map endpoint_id (filter P (bt_values m)))"
    by (rule distinct_map_filter)
  then have "length (filter (\<lambda>t. endpoint_id t = eid) (filter P (bt_values m))) =
      of_bool (eid \<in> endpoint_id ` set (filter P (bt_values m)))"
    by (rule distinct_count)
  also have "eid \<in> endpoint_id ` set (filter P (bt_values m)) \<longleftrightarrow> (\<exists>t. bt_get m eid = Some t \<and> P t)"
    using assms by (auto simp: image_iff)
  finally show ?thesis .
qed

lemma deliveries_for_endpoint:
  "length (filter (\<lambda>d. delivery_endpoint_id d = eid)
     (map (delivery_for w org actor e payload) (List.enumerate n ts))) =
   length (filter (\<lambda>t. endpoint_id t = eid) ts)"
  by (induction ts arbitrary: n) (auto simp: delivery_for_def)

definition notifies :: "org_state \<Rightarrow> string \<Rightarrow> domain_event \<Rightarrow> bool" where
  "notifies s eid e \<longleftrightarrow>
     \<not> starts_with (kind e) ''notification.'' \<and>
     (case bt_get (notification_endpoints s) eid of None \<Rightarrow> False | Some t \<Rightarrow> wants_kind (kind e) t)"

lemma queue_from_counts:
  assumes "queue_from lib w s org actor n es = Inr ds" and "keyed endpoint_id (notification_endpoints s)"
  shows "length (filter (\<lambda>d. delivery_endpoint_id d = eid) ds) = length (filter (notifies s eid) es)"
  using assms(1)
proof (induction es arbitrary: n ds)
  case Nil
  then show ?case by simp
next
  case (Cons e es)
  show ?case
  proof (cases "starts_with (kind e) ''notification.''")
    case True
    with Cons show ?thesis by (simp add: notifies_def)
  next
    case False
    with Cons.prems obtain payload rest where rest:
      "queue_from lib w s org actor
         (n + length (filter (wants_kind (kind e)) (bt_values (notification_endpoints s)))) es = Inr rest"
      "ds = map (delivery_for w org actor e payload)
         (List.enumerate n (filter (wants_kind (kind e)) (bt_values (notification_endpoints s)))) @ rest"
      by (auto simp: Let_def)
    have "notifies s eid e \<longleftrightarrow>
        (\<exists>t. bt_get (notification_endpoints s) eid = Some t \<and> wants_kind (kind e) t)"
      using False by (auto simp: notifies_def split: option.splits)
    with Cons.IH [OF rest(1)] show ?thesis
      unfolding rest(2) filter_append length_append deliveries_for_endpoint one_target [OF assms(2)]
      by simp
  qed
qed

end
