(* ===== verification/Sample_Tower.thy ===== *)
theory Sample_Tower
  imports App_Commit
begin

text \<open>
  A small organization with one flow of one task, and the libraries and readings of the world around
  it. The witnesses of the properties are evaluated on it. Nothing here models code.
\<close>

section \<open>An organization\<close>

definition sample_tenant :: tenant where
  "sample_tenant = \<lparr>tenant_id = ''TEN-1'', tenant_name = ''Relay'', tenant_created_at = 0\<rparr>"

definition sample_organization :: organization where
  "sample_organization =
     \<lparr>organization_id = ''ORG-1'', organization_name = ''Relay'', organization_created_at = 0\<rparr>"

definition sample_principal :: "string \<Rightarrow> string \<Rightarrow> principal" where
  "sample_principal pid name =
     \<lparr>principal_id = pid, principal_name = name, principal_directory_username = None,
      principal_kind = principal_kind.Human, principal_team_id = None, principal_owner_id = None,
      principal_capabilities = [], principal_capacity_percent = 100, principal_executor = None,
      principal_active = True, principal_created_at = 0\<rparr>"

definition sample_role :: "string \<Rightarrow> string \<Rightarrow> organization_role \<Rightarrow> role_binding" where
  "sample_role bid pid role =
     \<lparr>role_binding_id = bid, role_binding_tenant_id = ''TEN-1'',
      role_binding_organization_id = ''ORG-1'', role_binding_principal_id = pid,
      role_binding_role = role, role_binding_granted_by = ''root'', role_binding_granted_at = 0,
      role_binding_revoked_by = None, role_binding_revoked_at = None\<rparr>"

definition sample_estimate :: "instant \<Rightarrow> estimate" where
  "sample_estimate t =
     \<lparr>estimate_effort_hours = 0, estimate_p50_hours = 0, estimate_p80_hours = 0,
      estimate_confidence = ''low'', estimate_rationale = [], estimate_earliest_start = 0,
      estimate_p50_finish = t, estimate_p80_finish = t\<rparr>"

definition sample_task :: "string \<Rightarrow> string \<Rightarrow> task" where
  "sample_task tid key =
     \<lparr>task_id = tid, task_key = key, task_title = ''Build'', task_description = ''Build it'',
      task_required_capabilities = [], task_depends_on = [], task_requires_human = False,
      task_acceptance_criteria = [], task_assignment = None, task_estimate = sample_estimate 10,
      task_status = task_status.Proposed, task_blocker = None, task_last_heartbeat = None,
      task_evidence = [], task_external_artifacts = []\<rparr>"

definition sample_prd :: prd_draft where
  "sample_prd =
     \<lparr>prd_title = ''Tower'', prd_summary = ''A tower'', prd_goals = [], prd_non_goals = [],
      prd_acceptance_criteria = []\<rparr>"

definition sample_demand :: demand where
  "sample_demand =
     \<lparr>demand_id = ''DEM-1'', demand_flow_id = ''FLOW-1'', demand_requester = ''ada'',
      demand_summary = ''Build a tower'', demand_created_at = 0\<rparr>"

definition sample_flow :: flow where
  "sample_flow =
     \<lparr>flow_id = ''FLOW-1'', flow_repository_id = None, flow_demand = sample_demand,
      flow_prd = sample_prd, flow_tasks = [sample_task ''TASK-1'' ''build''],
      flow_status = Draft, flow_planner = ''ada'', flow_p50_finish = 10, flow_p80_finish = 10,
      flow_critical_path = [''TASK-1''], flow_created_at = 0, flow_approved_at = None,
      flow_completed_at = None\<rparr>"

definition sample_endpoint :: notification_endpoint where
  "sample_endpoint =
     \<lparr>endpoint_id = ''NEP-1'', endpoint_name = ''hook'', endpoint_connector = Generic,
      endpoint_url_env = None, endpoint_url = ''https://hook'', endpoint_event_kinds = [''*''],
      endpoint_secret_env = ''HOOK_SECRET'', endpoint_active = True, endpoint_created_by = ''ada'',
      endpoint_created_at = 0, endpoint_disabled_by = None, endpoint_disabled_at = None\<rparr>"

text \<open>The events that build the organization.\<close>

definition sample_events :: "domain_event list" where
  "sample_events =
     [RegistryEvent (TenantInitialized sample_tenant),
      RegistryEvent (OrganizationInitialized sample_organization),
      RegistryEvent (PrincipalRegistered (sample_principal ''PRN-1'' ''ada'')),
      RegistryEvent (RoleGranted (sample_role ''ROL-1'' ''PRN-1'' TenantAdmin)),
      FlowEvent (PlanGenerated sample_flow)]"

definition envelope_of :: "int \<Rightarrow> domain_event \<Rightarrow> event_envelope" where
  "envelope_of n e =
     \<lparr>env_event_version = current_event_version, env_sequence = n,
      env_id = ''EVT-'' @ show_int n, env_organization_id = ''ORG-1'',
      env_flow_id = event_flow_id e, env_actor = ''ada'', env_kind = kind e, env_event = e,
      env_occurred_at = 0\<rparr>"

definition envelopes_of :: "domain_event list \<Rightarrow> event_envelope list" where
  "envelopes_of es = map (\<lambda>(i, e). envelope_of (int i) e) (List.enumerate 1 es)"

definition sample_state :: org_state where
  "sample_state =
     (case replay (envelopes_of sample_events) of Inr s \<Rightarrow> s | Inl _ \<Rightarrow> default_state)"

section \<open>The libraries and the world\<close>

text \<open>JSON that knows the events of a table, by their kind; every clock reads 0.\<close>

definition sample_library :: "domain_event list \<Rightarrow> library" where
  "sample_library table =
     \<lparr>lib_event_text = (\<lambda>_ e. Inr (kind e)),
      lib_parse_json = (\<lambda>text.
        Inr (JObject [(''version'', JNumber ''2''), (''event'', JString text)])),
      lib_json_u16 = (\<lambda>_. Inr 2),
      lib_json_event = (\<lambda>j. case j of
          JString k \<Rightarrow> ok_or (List.find (\<lambda>e. kind e = k) table) (Json ''unknown event'')
        | _ \<Rightarrow> Inl (Json ''expected a string'')),
      lib_event_document = (\<lambda>e. Inr (kind e)),
      lib_time_text = (\<lambda>_. ''1970-01-01T00:00:00+00:00''),
      lib_parse_time = (\<lambda>_. Inr 0)\<rparr>"

definition sample_world :: environment where
  "sample_world =
     \<lparr>event_uuid = show_nat, event_clock = (\<lambda>_. 0), delivery_uuid = show_nat,
      delivery_clock = (\<lambda>_. 0)\<rparr>"

end
