(* ===== verification/State_Sequence.thy ===== *)
theory State_Sequence
  imports State_Apply
begin

text \<open>
  No handler of \<open>OrganizationState::apply\<close> reads or writes the number of the last event: applying the
  events of a batch and numbering them are independent. So what a command commits is what its events
  do one after the other, whatever numbers they get.
\<close>

lemma update_sequence [simp]:
  "s\<lparr>last_sequence := n, org_tenant := x0\<rparr> = s\<lparr>org_tenant := x0, last_sequence := n\<rparr>"
  "s\<lparr>last_sequence := n, org_organization := x1\<rparr> = s\<lparr>org_organization := x1, last_sequence := n\<rparr>"
  "s\<lparr>last_sequence := n, teams := x2\<rparr> = s\<lparr>teams := x2, last_sequence := n\<rparr>"
  "s\<lparr>last_sequence := n, repositories := x3\<rparr> = s\<lparr>repositories := x3, last_sequence := n\<rparr>"
  "s\<lparr>last_sequence := n, planning_requests := x4\<rparr> = s\<lparr>planning_requests := x4, last_sequence := n\<rparr>"
  "s\<lparr>last_sequence := n, principals := x5\<rparr> = s\<lparr>principals := x5, last_sequence := n\<rparr>"
  "s\<lparr>last_sequence := n, external_identities := x6\<rparr> = s\<lparr>external_identities := x6, last_sequence := n\<rparr>"
  "s\<lparr>last_sequence := n, external_interactions := x7\<rparr> = s\<lparr>external_interactions := x7, last_sequence := n\<rparr>"
  "s\<lparr>last_sequence := n, calendars := x8\<rparr> = s\<lparr>calendars := x8, last_sequence := n\<rparr>"
  "s\<lparr>last_sequence := n, notification_endpoints := x9\<rparr> = s\<lparr>notification_endpoints := x9, last_sequence := n\<rparr>"
  "s\<lparr>last_sequence := n, notification_deliveries := x10\<rparr> = s\<lparr>notification_deliveries := x10, last_sequence := n\<rparr>"
  "s\<lparr>last_sequence := n, credentials := x11\<rparr> = s\<lparr>credentials := x11, last_sequence := n\<rparr>"
  "s\<lparr>last_sequence := n, role_bindings := x12\<rparr> = s\<lparr>role_bindings := x12, last_sequence := n\<rparr>"
  "s\<lparr>last_sequence := n, external_deliveries := x13\<rparr> = s\<lparr>external_deliveries := x13, last_sequence := n\<rparr>"
  "s\<lparr>last_sequence := n, external_binding_clocks := x14\<rparr> = s\<lparr>external_binding_clocks := x14, last_sequence := n\<rparr>"
  "s\<lparr>last_sequence := n, flows := x15\<rparr> = s\<lparr>flows := x15, last_sequence := n\<rparr>"
  "s\<lparr>last_sequence := n, messages := x16\<rparr> = s\<lparr>messages := x16, last_sequence := n\<rparr>"
  "s\<lparr>last_sequence := n, flow_changes := x17\<rparr> = s\<lparr>flow_changes := x17, last_sequence := n\<rparr>"
  "s\<lparr>last_sequence := n, executions := x18\<rparr> = s\<lparr>executions := x18, last_sequence := n\<rparr>"
  "s\<lparr>last_sequence := n, flight_leases := x19\<rparr> = s\<lparr>flight_leases := x19, last_sequence := n\<rparr>"
  "s\<lparr>last_sequence := n, staged_artifacts := x20\<rparr> = s\<lparr>staged_artifacts := x20, last_sequence := n\<rparr>"
  "s\<lparr>last_sequence := n, office_releases := x21\<rparr> = s\<lparr>office_releases := x21, last_sequence := n\<rparr>"
  "s\<lparr>last_sequence := n, gitlab_writes := x22\<rparr> = s\<lparr>gitlab_writes := x22, last_sequence := n\<rparr>"
  "s\<lparr>last_sequence := n, resource_leases := x23\<rparr> = s\<lparr>resource_leases := x23, last_sequence := n\<rparr>"
  "s\<lparr>last_sequence := n, flight_recoveries := x24\<rparr> = s\<lparr>flight_recoveries := x24, last_sequence := n\<rparr>"
  "s\<lparr>last_sequence := n, attentions := x25\<rparr> = s\<lparr>attentions := x25, last_sequence := n\<rparr>"
  "s\<lparr>last_sequence := n, escalations := x26\<rparr> = s\<lparr>escalations := x26, last_sequence := n\<rparr>"
  by simp_all

abbreviation numbered :: "int \<Rightarrow> org_state result \<Rightarrow> org_state result" where
  "numbered n \<equiv> map_sum id (\<lambda>t. t\<lparr>last_sequence := n\<rparr>)"

lemma map_sum_and_then: "map_sum id f (and_then x g) = and_then x (\<lambda>y. map_sum id f (g y))"
  by (cases x) simp_all

lemma and_then_map_sum: "and_then (map_sum id f x) g = and_then x (\<lambda>y. g (f y))"
  by (cases x) simp_all

lemma lookup_sequence [simp]:
  "get_organization (s\<lparr>last_sequence := n\<rparr>) = get_organization s"
  "get_tenant (s\<lparr>last_sequence := n\<rparr>) = get_tenant s"
  "get_flow (s\<lparr>last_sequence := n\<rparr>) = get_flow s"
  "lookup_principal (s\<lparr>last_sequence := n\<rparr>) = lookup_principal s"
  "get_principal (s\<lparr>last_sequence := n\<rparr>) = get_principal s"
  "get_notification_delivery (s\<lparr>last_sequence := n\<rparr>) = get_notification_delivery s"
  "get_team (s\<lparr>last_sequence := n\<rparr>) = get_team s"
  "get_repository (s\<lparr>last_sequence := n\<rparr>) = get_repository s"
  "get_flight_lease (s\<lparr>last_sequence := n\<rparr>) = get_flight_lease s"
  "get_office_release (s\<lparr>last_sequence := n\<rparr>) = get_office_release s"
  "get_gitlab_write (s\<lparr>last_sequence := n\<rparr>) = get_gitlab_write s"
  "get_escalation (s\<lparr>last_sequence := n\<rparr>) = get_escalation s"
  "get_task (s\<lparr>last_sequence := n\<rparr>) = get_task s"
  by (simp_all add: fun_eq_iff get_organization_def get_tenant_def get_flow_def lookup_principal_def
      get_principal_def get_notification_delivery_def get_team_def get_repository_def
      get_flight_lease_def get_office_release_def get_gitlab_write_def get_escalation_def get_task_def
      cong: option.case_cong)

lemma recipient_exists_sequence [simp]:
  "recipient_exists (s\<lparr>last_sequence := n\<rparr>) = recipient_exists s"
  by (simp add: fun_eq_iff recipient_exists_def split: target_kind.splits)

lemma put_sequence [simp]:
  "put_flow f k (s\<lparr>last_sequence := n\<rparr>) = (put_flow f k s)\<lparr>last_sequence := n\<rparr>"
  "put_office k r (s\<lparr>last_sequence := n\<rparr>) = (put_office k r s)\<lparr>last_sequence := n\<rparr>"
  "put_gitlab k w (s\<lparr>last_sequence := n\<rparr>) = (put_gitlab k w s)\<lparr>last_sequence := n\<rparr>"
  by (simp_all add: put_flow_def put_office_def put_gitlab_def)

lemmas sequence_simps = handler_defs map_sum_and_then and_then_map_sum if_distrib [where f = "numbered n" for n]

lemma schedule_revision_sequence:
  "apply_schedule_revision fid rvn (s\<lparr>last_sequence := n\<rparr>) = numbered n (apply_schedule_revision fid rvn s)"
  by (simp add: apply_schedule_revision_def map_sum_and_then if_distrib [where f = "numbered n"] cong: if_cong)

lemma task_update_sequence [simp]:
  "update_task fid tid f (s\<lparr>last_sequence := n\<rparr>) = numbered n (update_task fid tid f s)"
  "refresh_flow_finish fid (s\<lparr>last_sequence := n\<rparr>) = numbered n (refresh_flow_finish fid s)"
  by (simp_all add: update_task_def refresh_flow_finish_def map_sum_and_then)

lemma registry_sequence: "apply_registry e (s\<lparr>last_sequence := n\<rparr>) = numbered n (apply_registry e s)"
  by (cases e) (simp_all add: sequence_simps Let_def cong: if_cong split: option.splits)

lemma calendar_sequence: "apply_calendar e (s\<lparr>last_sequence := n\<rparr>) = numbered n (apply_calendar e s)"
  by (cases e) (simp_all add: sequence_simps Let_def cong: if_cong)

lemma notification_sequence: "apply_notification e (s\<lparr>last_sequence := n\<rparr>) = numbered n (apply_notification e s)"
  by (cases e) (simp_all add: sequence_simps Let_def cong: if_cong)

lemma credential_sequence: "apply_credential e (s\<lparr>last_sequence := n\<rparr>) = numbered n (apply_credential e s)"
  by (cases e) (simp_all add: sequence_simps Let_def cong: if_cong)

lemma flow_event_sequence: "apply_flow_event e (s\<lparr>last_sequence := n\<rparr>) = numbered n (apply_flow_event e s)"
  by (cases e) (simp_all add: sequence_simps Let_def schedule_revision_sequence del: apply_schedule_revision_def cong: if_cong)

lemma task_event_sequence: "apply_task_event e (s\<lparr>last_sequence := n\<rparr>) = numbered n (apply_task_event e s)"
  by (cases e) (simp_all add: sequence_simps Let_def cong: if_cong)

lemma message_sequence: "apply_message e (s\<lparr>last_sequence := n\<rparr>) = numbered n (apply_message e s)"
  by (cases e) (simp_all add: sequence_simps Let_def cong: if_cong)

lemma external_sequence: "apply_external e (s\<lparr>last_sequence := n\<rparr>) = numbered n (apply_external e s)"
  by (cases e) (simp_all add: sequence_simps Let_def cong: if_cong)

lemma tracking_sequence: "apply_tracking e (s\<lparr>last_sequence := n\<rparr>) = numbered n (apply_tracking e s)"
  by (cases e) (simp_all add: sequence_simps Let_def cong: if_cong)

lemma executor_sequence: "apply_executor e (s\<lparr>last_sequence := n\<rparr>) = numbered n (apply_executor e s)"
  by (cases e) (simp_all add: sequence_simps Let_def cong: if_cong)

lemma flight_sequence: "apply_flight e (s\<lparr>last_sequence := n\<rparr>) = numbered n (apply_flight e s)"
  by (cases e) (simp_all add: sequence_simps Let_def cong: if_cong)

lemma office_sequence: "apply_office e (s\<lparr>last_sequence := n\<rparr>) = numbered n (apply_office e s)"
  by (cases e) (simp_all add: sequence_simps Let_def cong: if_cong)

lemma gitlab_sequence: "apply_gitlab e (s\<lparr>last_sequence := n\<rparr>) = numbered n (apply_gitlab e s)"
  by (cases e) (simp_all add: sequence_simps Let_def cong: if_cong)

text \<open>The events of a batch, one after the other.\<close>

definition apply_events :: "org_state \<Rightarrow> domain_event list \<Rightarrow> org_state result" where
  "apply_events = try_fold (\<lambda>s e. apply_event e s)"

lemma apply_event_sequence: "apply_event e (s\<lparr>last_sequence := n\<rparr>) = numbered n (apply_event e s)"
  by (cases e)
     (simp_all add: registry_sequence calendar_sequence notification_sequence credential_sequence
        flow_event_sequence task_event_sequence message_sequence external_sequence tracking_sequence
        executor_sequence flight_sequence office_sequence gitlab_sequence)

lemma apply_events_sequence: "apply_events (s\<lparr>last_sequence := n\<rparr>) es = numbered n (apply_events s es)"
proof (induction es arbitrary: s)
  case (Cons e es)
  show ?case
    by (cases "apply_event e s") (simp_all add: apply_events_def apply_event_sequence Cons [unfolded apply_events_def])
qed (simp add: apply_events_def)

lemma apply_all_events:
  assumes "apply_all s envs = Inr s'"
  shows "apply_events s (map env_event envs) = Inr (s'\<lparr>last_sequence := last_sequence s\<rparr>)"
  using assms
proof (induction envs arbitrary: s)
  case Nil
  then show ?case by (simp add: apply_all_def apply_events_def)
next
  case (Cons env envs)
  then obtain t where t: "apply_event (env_event env) s = Inr t"
    and rest: "apply_all (t\<lparr>last_sequence := env_sequence env\<rparr>) envs = Inr s'"
    by (auto simp: apply_all_def apply_envelope_Inr)
  let ?n = "env_sequence env"
  have "apply_events (t\<lparr>last_sequence := ?n\<rparr>) (map env_event envs) = Inr (s'\<lparr>last_sequence := ?n\<rparr>)"
    using Cons.IH [OF rest] by simp
  then obtain u where u: "apply_events t (map env_event envs) = Inr u"
    and eq: "u\<lparr>last_sequence := ?n\<rparr> = s'\<lparr>last_sequence := ?n\<rparr>"
    by (cases "apply_events t (map env_event envs)") (auto simp: apply_events_sequence)
  have "last_sequence t = last_sequence s" using t by (rule last_sequence_apply_event)
  moreover have "last_sequence u = last_sequence t"
    using u unfolding apply_events_def
    by (rule try_fold_invariant [where I = "\<lambda>v. last_sequence v = last_sequence t"])
       (auto dest: last_sequence_apply_event)
  moreover have "u = s'\<lparr>last_sequence := last_sequence u\<rparr>"
    using arg_cong [OF eq, of "\<lambda>v. v\<lparr>last_sequence := last_sequence u\<rparr>"] by simp
  ultimately show ?case using t u by (simp add: apply_events_def)
qed

end
