(* ===== verification/Rust_Library.thy ===== *)
theory Rust_Library
  imports Relay_Error
begin

text \<open>
  What the application uses of Rust's standard library: 64-bit floating-point arithmetic and its
  printing, the smallest and the largest element by a key, white space, splitting and padding of
  text. Floats are decoded to an exact fraction, computed on exactly, and rounded to the nearest
  float, ties to even, as IEEE 754 prescribes.
\<close>

section \<open>Floats\<close>

datatype f64_value = NaN | Inf bool | Finite bool int int

definition f64_decode :: "f64 \<Rightarrow> f64_value" where
  "f64_decode x =
     (let m = f64_magnitude x; e = m div 2 ^ 52; f = m mod 2 ^ 52; neg = f64_negative x in
      if f64_is_nan x then NaN
      else if e = 2047 then Inf neg
      else if m = 0 then Finite neg 0 1
      else if e = 0 then Finite neg f (2 ^ 1074)
      else if 1075 \<le> e then Finite neg ((2 ^ 52 + f) * 2 ^ nat (e - 1075)) 1
      else Finite neg (2 ^ 52 + f) (2 ^ nat (1075 - e)))"

function bit_length :: "int \<Rightarrow> int" where
  "bit_length n = (if n \<le> 0 then 0 else 1 + bit_length (n div 2))"
  by auto
termination by (relation "measure nat") auto

declare bit_length.simps [simp del]

definition round_half_even :: "int \<Rightarrow> int \<Rightarrow> int" where
  "round_half_even a b =
     (let q = a div b; r = a mod b in
      if b < 2 * r \<or> (2 * r = b \<and> odd q) then q + 1 else q)"

definition f64_infinite :: int where
  "f64_infinite = 2047 * 2 ^ 52"

text \<open>
  The bits of the float nearest to \<open>a / b\<close>: the exponent is chosen so that the mantissa has 53 bits,
  or is the one of the subnormal numbers.
\<close>

definition f64_scale :: "int \<Rightarrow> int \<Rightarrow> int" where
  "f64_scale a b =
     (let e = bit_length a - bit_length b in
      max (- 1074) (if b * 2 ^ nat e \<le> a * 2 ^ nat (- e) then e - 52 else e - 53))"

definition f64_nearest :: "int \<Rightarrow> int \<Rightarrow> int" where
  "f64_nearest a b =
     (if a = 0 then 0
      else let s = f64_scale a b in
        min f64_infinite
          ((s + 1074) * 2 ^ 52 + round_half_even (a * 2 ^ nat (- s)) (b * 2 ^ nat s)))"

definition f64_bits :: "bool \<Rightarrow> int \<Rightarrow> f64" where
  "f64_bits neg m = word_of_int ((if neg then 2 ^ 63 else 0) + m)"

definition f64_pack :: "bool \<Rightarrow> int \<Rightarrow> int \<Rightarrow> f64" where
  "f64_pack neg a b = f64_bits neg (f64_nearest a b)"

definition f64_quiet_nan :: f64 where
  "f64_quiet_nan = 0x7FF8000000000000"

definition f64_inf :: "bool \<Rightarrow> f64" where
  "f64_inf neg = f64_bits neg f64_infinite"

text \<open>A literal such as \<open>0.08\<close> is \<open>f64_lit 8 100\<close>.\<close>

abbreviation f64_lit :: "int \<Rightarrow> int \<Rightarrow> f64" where
  "f64_lit \<equiv> f64_pack False"

definition f64_of_int :: "int \<Rightarrow> f64" where
  "f64_of_int i = f64_pack (i < 0) \<bar>i\<bar> 1"

definition f64_add :: "f64 \<Rightarrow> f64 \<Rightarrow> f64" where
  "f64_add x y =
     (case (f64_decode x, f64_decode y) of
        (Finite s a b, Finite t c d) \<Rightarrow>
          let v = (if s then - (a * d) else a * d)
                + (if t then - (c * b) else c * b)
          in f64_pack (v < 0 \<or> (v = 0 \<and> s \<and> t)) \<bar>v\<bar> (b * d)
      | (Finite _ _ _, Inf t) \<Rightarrow> f64_inf t
      | (Inf s, Finite _ _ _) \<Rightarrow> f64_inf s
      | (Inf s, Inf t) \<Rightarrow> if s = t then f64_inf s else f64_quiet_nan
      | _ \<Rightarrow> f64_quiet_nan)"

definition f64_neg :: "f64 \<Rightarrow> f64" where
  "f64_neg x = f64_bits (\<not> f64_negative x) (f64_magnitude x)"

definition f64_sub :: "f64 \<Rightarrow> f64 \<Rightarrow> f64" where
  "f64_sub x y = f64_add x (f64_neg y)"

definition f64_mul :: "f64 \<Rightarrow> f64 \<Rightarrow> f64" where
  "f64_mul x y =
     (case (f64_decode x, f64_decode y) of
        (Finite s a b, Finite t c d) \<Rightarrow> f64_pack (s \<noteq> t) (a * c) (b * d)
      | (Finite s a b, Inf t) \<Rightarrow> if a = 0 then f64_quiet_nan else f64_inf (s \<noteq> t)
      | (Inf s, Finite t c d) \<Rightarrow> if c = 0 then f64_quiet_nan else f64_inf (s \<noteq> t)
      | (Inf s, Inf t) \<Rightarrow> f64_inf (s \<noteq> t)
      | _ \<Rightarrow> f64_quiet_nan)"

definition f64_div :: "f64 \<Rightarrow> f64 \<Rightarrow> f64" where
  "f64_div x y =
     (case (f64_decode x, f64_decode y) of
        (Finite s a b, Finite t c d) \<Rightarrow>
          if c = 0 then (if a = 0 then f64_quiet_nan else f64_inf (s \<noteq> t))
          else f64_pack (s \<noteq> t) (a * d) (b * c)
      | (Finite s a b, Inf t) \<Rightarrow> f64_pack (s \<noteq> t) 0 1
      | (Inf s, Finite t c d) \<Rightarrow> f64_inf (s \<noteq> t)
      | _ \<Rightarrow> f64_quiet_nan)"

definition f64_is_finite :: "f64 \<Rightarrow> bool" where
  "f64_is_finite x \<longleftrightarrow> f64_magnitude x < 0x7FF0000000000000"

definition f64_le :: "f64 \<Rightarrow> f64 \<Rightarrow> bool" where
  "f64_le x y \<longleftrightarrow> f64_lt x y \<or> f64_eq x y"

definition f64_max :: "f64 \<Rightarrow> f64 \<Rightarrow> f64" where
  "f64_max x y = (if f64_is_nan x then y else if f64_is_nan y then x else if f64_lt x y then y else x)"

definition f64_min :: "f64 \<Rightarrow> f64 \<Rightarrow> f64" where
  "f64_min x y = (if f64_is_nan x then y else if f64_is_nan y then x else if f64_lt y x then y else x)"

text \<open>\<open>total_cmp\<close>: the order of the bits, below zero reversed.\<close>

definition f64_total_key :: "f64 \<Rightarrow> int" where
  "f64_total_key x =
     (if f64_negative x then - f64_magnitude x - 1 else f64_magnitude x)"

text \<open>\<open>round\<close> goes to the nearest integer, ties away from zero; \<open>as i64\<close> truncates and saturates.\<close>

definition f64_round :: "f64 \<Rightarrow> f64" where
  "f64_round x =
     (case f64_decode x of
        Finite s a b \<Rightarrow> f64_pack s ((2 * a + b) div (2 * b)) 1
      | _ \<Rightarrow> x)"

definition f64_as_i64 :: "f64 \<Rightarrow> int" where
  "f64_as_i64 x =
     (case f64_decode x of
        NaN \<Rightarrow> 0
      | Inf s \<Rightarrow> if s then - (2 ^ 63) else 2 ^ 63 - 1
      | Finite s a b \<Rightarrow>
          if s then max (- (2 ^ 63)) (- (a div b)) else min (2 ^ 63 - 1) (a div b))"

lemma f64_magnitude_bits [simp]:
  "0 \<le> m \<Longrightarrow> m < 2 ^ 63 \<Longrightarrow> f64_magnitude (f64_bits neg m) = m"
  by (cases neg) (simp_all add: f64_magnitude_def f64_bits_def uint_word_of_int del: of_int_add)

lemma bit_length_nonneg [simp]: "0 \<le> bit_length n"
  by (induction n rule: bit_length.induct) (subst bit_length.simps, simp)

lemma round_half_even_nonneg: "0 \<le> a \<Longrightarrow> 0 \<le> b \<Longrightarrow> 0 \<le> round_half_even a b"
  using div_int_pos_iff [of a b] by (auto simp: round_half_even_def Let_def)

lemma f64_nearest_bounds:
  assumes "0 \<le> a" and "0 \<le> b"
  shows "0 \<le> f64_nearest a b" and "f64_nearest a b \<le> f64_infinite"
proof -
  have "0 \<le> f64_scale a b + 1074" by (simp add: f64_scale_def Let_def)
  with assms show "0 \<le> f64_nearest a b"
    by (simp add: f64_nearest_def Let_def f64_infinite_def round_half_even_nonneg)
  show "f64_nearest a b \<le> f64_infinite"
    by (simp add: f64_nearest_def Let_def f64_infinite_def)
qed

lemma f64_pack_not_nan [simp]:
  assumes "0 \<le> a" and "0 \<le> b"
  shows "\<not> f64_is_nan (f64_pack neg a b)"
proof -
  have "f64_magnitude (f64_pack neg a b) = f64_nearest a b"
    using f64_nearest_bounds [OF assms] by (simp add: f64_pack_def f64_infinite_def)
  with f64_nearest_bounds [OF assms] show ?thesis
    by (simp add: f64_is_nan_def f64_infinite_def)
qed

lemma f64_negative_bits [simp]:
  "0 \<le> m \<Longrightarrow> m < 2 ^ 63 \<Longrightarrow> f64_negative (f64_bits neg m) = neg"
  by (cases neg) (simp_all add: f64_negative_def f64_bits_def uint_word_of_int del: of_int_add)

lemma f64_pack_fields:
  assumes "0 \<le> a" and "0 \<le> b"
  shows "f64_negative (f64_pack neg a b) = neg"
    and "f64_magnitude (f64_pack neg a b) = f64_nearest a b"
  using f64_nearest_bounds [OF assms] by (simp_all add: f64_pack_def f64_infinite_def)

lemma f64_decode_nonneg:
  assumes "f64_decode x = Finite s a b"
  shows "0 \<le> a \<and> 0 < b"
proof -
  have "0 \<le> f64_magnitude x" by (simp add: f64_magnitude_def)
  with assms show ?thesis
    by (auto simp: f64_decode_def Let_def zero_le_mult_iff split: if_splits)
qed

text \<open>A float that is not below zero rounds and converts to a count that is not negative.\<close>

definition f64_nonneg :: "f64 \<Rightarrow> bool" where
  "f64_nonneg x \<longleftrightarrow> \<not> f64_negative x \<or> f64_magnitude x = 0 \<or> f64_is_nan x"

lemma f64_decode_Finite:
  assumes "f64_decode x = Finite s a b"
  shows "s = f64_negative x \<and> \<not> f64_is_nan x \<and> (a = 0 \<longleftrightarrow> f64_magnitude x = 0)"
proof -
  define m where "m = f64_magnitude x"
  have m: "0 \<le> m" by (simp add: m_def f64_magnitude_def)
  have pos: "(2 ^ 52 + m mod 2 ^ 52) * 2 ^ n \<noteq> 0" for n
    using pos_mod_sign [of "2 ^ 52" m] by simp
  have small: "m mod 2 ^ 52 = m" if "m div 2 ^ 52 = 0"
    using div_mult_mod_eq [of m "2 ^ 52"] that by simp
  note decoded = assms [unfolded f64_decode_def Let_def, folded m_def]
  from decoded have ok: "\<not> f64_is_nan x" "m div 2 ^ 52 \<noteq> 2047" by (auto split: if_splits)
  show ?thesis
  proof (cases "m = 0 \<or> m div 2 ^ 52 = 0")
    case True
    with ok decoded small show ?thesis by (auto simp: m_def [symmetric] split: if_splits)
  next
    case False
    with ok decoded show ?thesis
      using pos [of 0] pos [of "nat (m div 2 ^ 52 - 1075)"]
      by (auto simp: m_def [symmetric] split: if_splits)
  qed
qed

lemma f64_decode_Inf:
  "f64_decode x = Inf s \<Longrightarrow> s = f64_negative x \<and> \<not> f64_is_nan x \<and> f64_magnitude x \<noteq> 0"
  by (auto simp: f64_decode_def Let_def split: if_splits)

lemma f64_decode_NaN: "f64_decode x = NaN \<Longrightarrow> f64_is_nan x"
  by (auto simp: f64_decode_def Let_def split: if_splits)

lemma f64_nonneg_decode:
  "f64_nonneg x \<longleftrightarrow> (case f64_decode x of NaN \<Rightarrow> True | Inf s \<Rightarrow> \<not> s | Finite s a b \<Rightarrow> s \<longrightarrow> a = 0)"
  using f64_decode_Finite [of x] f64_decode_Inf [of x] f64_decode_NaN [of x]
  by (cases "f64_decode x") (auto simp: f64_nonneg_def)

lemma f64_pack_nonneg: "0 \<le> a \<Longrightarrow> 0 \<le> b \<Longrightarrow> s \<longrightarrow> a = 0 \<Longrightarrow> f64_nonneg (f64_pack s a b)"
  by (auto simp: f64_nonneg_def f64_pack_fields f64_nearest_def)

lemma f64_nonneg_round:
  assumes "f64_nonneg x" shows "f64_nonneg (f64_round x)"
proof (cases "f64_decode x")
  case (Finite s a b)
  with assms f64_decode_nonneg [OF Finite] have "s \<longrightarrow> (2 * a + b) div (2 * b) = 0"
    by (auto simp: f64_nonneg_decode)
  with Finite f64_decode_nonneg [OF Finite] show ?thesis
    by (simp add: f64_round_def f64_pack_nonneg pos_imp_zdiv_nonneg_iff)
qed (use assms in \<open>simp_all add: f64_round_def\<close>)

lemma f64_nonneg_mul:
  assumes "f64_nonneg x" and "f64_decode y = Finite False c d"
  shows "f64_nonneg (f64_mul x y)"
proof (cases "f64_decode x")
  case (Finite s a b)
  with assms f64_decode_nonneg [OF Finite] f64_decode_nonneg [OF assms(2)] show ?thesis
    by (auto simp: f64_mul_def f64_nonneg_decode [of x] intro!: f64_pack_nonneg)
next
  case NaN
  then show ?thesis
    by (simp add: f64_mul_def) (simp add: f64_nonneg_def f64_quiet_nan_def f64_is_nan_def f64_magnitude_def)
next
  case (Inf s)
  with assms have "\<not> s" by (simp add: f64_nonneg_decode)
  with Inf assms(2) show ?thesis
    by (auto simp: f64_mul_def f64_inf_def f64_nonneg_def f64_quiet_nan_def f64_is_nan_def
        f64_magnitude_def f64_infinite_def)
qed

lemma f64_nonneg_as_i64: "f64_nonneg x \<Longrightarrow> 0 \<le> f64_as_i64 x"
  using f64_decode_nonneg [of x]
  by (auto simp: f64_nonneg_decode f64_as_i64_def pos_imp_zdiv_nonneg_iff split: f64_value.splits)

lemma f64_nonneg_if_not_less: "\<not> f64_lt x (f64_lit 0 1) \<Longrightarrow> f64_nonneg x"
proof -
  assume not_less: "\<not> f64_lt x (f64_lit 0 1)"
  have "f64_order_key (f64_lit 0 1) = 0"
    by (simp add: f64_order_key_def f64_pack_fields f64_nearest_def)
  with not_less have "f64_is_nan x \<or> 0 \<le> f64_order_key x" by (auto simp: f64_lt_def)
  moreover have "0 \<le> f64_magnitude x" by (simp add: f64_magnitude_def)
  ultimately show "f64_nonneg x" by (auto simp: f64_nonneg_def f64_order_key_def split: if_splits)
qed

lemma f64_max_nonneg: "f64_nonneg (f64_max x (f64_lit 0 1))"
  by (cases "f64_lt x (f64_lit 0 1)")
    (auto simp: f64_max_def f64_pack_nonneg intro: f64_nonneg_if_not_less)

lemma f64_max_not_nan: "\<not> f64_is_nan y \<Longrightarrow> \<not> f64_is_nan (f64_max x y)"
  by (simp add: f64_max_def)

section \<open>Ratios of counts\<close>

lemma bit_length_bounds:
  assumes "0 < n"
  shows "1 \<le> bit_length n" and "2 ^ nat (bit_length n - 1) \<le> n" and "n < 2 ^ nat (bit_length n)"
proof -
  have "1 \<le> bit_length n \<and> 2 ^ nat (bit_length n - 1) \<le> n \<and> n < 2 ^ nat (bit_length n)"
    using assms
  proof (induction n rule: bit_length.induct)
    case (1 n)
    show ?case
    proof (cases "n = 1")
      case True
      have "bit_length 1 = 1" by code_simp
      with True show ?thesis by simp
    next
      case False
      with 1 have half: "1 \<le> bit_length (n div 2)" "2 ^ nat (bit_length (n div 2) - 1) \<le> n div 2"
          "n div 2 < 2 ^ nat (bit_length (n div 2))"
        by auto
      have step: "bit_length n = 1 + bit_length (n div 2)"
        using 1(2) by (subst bit_length.simps) simp
      define k where "k = nat (bit_length (n div 2))"
      have k: "nat (bit_length (n div 2) - 1) = k - 1" "0 < k" "nat (bit_length n) = Suc k"
          "nat (bit_length n - 1) = k"
        using half(1) by (simp_all add: k_def step)
      have "(2 :: int) ^ k = 2 * 2 ^ (k - 1)"
        using k(2) by (cases k) simp_all
      moreover have "2 * (n div 2) \<le> n" "n < 2 * (n div 2) + 2" by presburger+
      ultimately have "2 ^ k \<le> n" "n < 2 * 2 ^ k"
        using half(2,3) k(1) by (simp_all add: k_def [symmetric])
      with k step half(1) show ?thesis by simp
    qed
  qed
  then show "1 \<le> bit_length n" and "2 ^ nat (bit_length n - 1) \<le> n" and "n < 2 ^ nat (bit_length n)"
    by simp_all
qed

lemma bit_length_mono:
  assumes "0 < a" and "a \<le> b"
  shows "bit_length a \<le> bit_length b"
proof (rule ccontr)
  assume "\<not> bit_length a \<le> bit_length b"
  then have "nat (bit_length b) \<le> nat (bit_length a - 1)" by simp
  then have "(2 :: int) ^ nat (bit_length b) \<le> 2 ^ nat (bit_length a - 1)"
    by (rule power_increasing) simp
  with bit_length_bounds [of a] bit_length_bounds [of b] assms show False by linarith
qed

lemma round_half_even_le:
  assumes "0 < b" and "0 \<le> a" and "a \<le> c * b"
  shows "round_half_even a b \<le> c"
proof -
  have split: "a = a div b * b + a mod b" "0 \<le> a mod b" "a mod b < b"
    using assms(1) by simp_all
  have "a div b \<le> c"
    using zdiv_mono1 [OF assms(3,1)] assms(1) by simp
  moreover have "a mod b = 0" if "a div b = c"
    using split assms(3) that by simp
  ultimately show ?thesis
    using assms(1) by (cases "a div b = c") (auto simp: round_half_even_def Let_def)
qed

lemma f64_nearest_lt_one:
  assumes "0 \<le> a" and "0 < b" and "b \<le> (b - a) * 2 ^ 53"
  shows "f64_nearest a b < 1023 * 2 ^ 52"
proof (cases "a = 0")
  case True
  then show ?thesis by (simp add: f64_nearest_def)
next
  case False
  with assms(1) have a: "0 < a" by simp
  have ab: "a < b" using assms(2,3) by (auto simp: not_less [symmetric] intro: ccontr)
  define e where "e = bit_length a - bit_length b"
  have e: "e \<le> 0" using bit_length_mono [of a b] a ab by (simp add: e_def)
  define near where "near \<longleftrightarrow> b \<le> a * 2 ^ nat (- e)"
  define s0 where "s0 = (if near then e - 52 else e - 53)"
  define s where "s = max (- 1074) s0"
  have scale: "f64_scale a b = s"
    using e by (simp add: f64_scale_def e_def [symmetric] s_def s0_def near_def Let_def)
  have s0: "s0 \<le> - 53"
    using e ab by (cases "e = 0") (auto simp: s0_def near_def)
  have "a * 2 ^ nat (- s0) < b * 2 ^ 53"
  proof (cases near)
    case True
    have "a * 2 ^ nat (- s0) < 2 ^ nat (bit_length a) * 2 ^ nat (- s0)"
      using bit_length_bounds(3) [OF a] by simp
    also have "\<dots> = (2 :: int) ^ (nat (bit_length a) + nat (- s0))" by (simp add: power_add)
    also have "nat (bit_length a) + nat (- s0) = nat (bit_length b - 1) + 53"
      using True e bit_length_bounds(1) [of b] bit_length_bounds(1) [of a] a assms(2)
      by (simp add: s0_def e_def)
    also have "(2 :: int) ^ (nat (bit_length b - 1) + 53) \<le> b * 2 ^ 53"
      using bit_length_bounds(2) [OF assms(2)] by (simp add: power_add)
    finally show ?thesis .
  next
    case False
    then have "a * 2 ^ nat (- e) * 2 ^ 53 < b * 2 ^ 53" by (simp add: near_def)
    moreover have "nat (- s0) = nat (- e) + 53" using False e by (simp add: s0_def)
    ultimately show ?thesis by (simp add: power_add mult.assoc)
  qed
  moreover have "a * 2 ^ nat (- s) \<le> a * 2 ^ nat (- s0)"
    using a by (intro mult_left_mono power_increasing) (simp_all add: s_def)
  ultimately have below: "a * 2 ^ nat (- s) \<le> 2 ^ 53 * b" by simp
  have s: "- 1074 \<le> s" "s \<le> - 53" using s0 by (simp_all add: s_def)
  have bits: "f64_nearest a b \<le> (s + 1074) * 2 ^ 52 + round_half_even (a * 2 ^ nat (- s)) b"
    using False s by (simp add: f64_nearest_def scale Let_def)
  show ?thesis
  proof (cases "s = - 53")
    case True
    have "a * 2 ^ 53 \<le> (2 ^ 53 - 1) * b" using assms(3) by (simp add: algebra_simps)
    with True have "round_half_even (a * 2 ^ nat (- s)) b \<le> 2 ^ 53 - 1"
      using assms(1,2) by (intro round_half_even_le) simp_all
    with True bits show ?thesis by simp
  next
    case False
    with s have "s \<le> - 54" by simp
    moreover have "round_half_even (a * 2 ^ nat (- s)) b \<le> 2 ^ 53"
      using assms(1,2) below by (intro round_half_even_le) simp_all
    ultimately show ?thesis using bits by simp
  qed
qed

lemma f64_nearest_pos:
  assumes "0 < a" and "0 < b" and "b \<le> a * 2 ^ 1000"
  shows "0 < f64_nearest a b"
proof -
  note la = bit_length_bounds [OF assms(1)] and lb = bit_length_bounds [OF assms(2)]
  have "bit_length b \<le> bit_length a + 1000"
  proof (rule ccontr)
    assume "\<not> bit_length b \<le> bit_length a + 1000"
    then have "nat (bit_length a) + 1000 \<le> nat (bit_length b - 1)" using la(1) by simp
    then have "(2 :: int) ^ (nat (bit_length a) + 1000) \<le> 2 ^ nat (bit_length b - 1)"
      by (intro power_increasing) simp_all
    moreover have "a * 2 ^ 1000 < 2 ^ nat (bit_length a) * 2 ^ 1000"
      using la(3) by (intro mult_strict_right_mono) simp_all
    ultimately show False using lb(2) assms(3) unfolding power_add by linarith
  qed
  then have "- 1053 \<le> f64_scale a b" by (simp add: f64_scale_def Let_def)
  moreover have "0 \<le> round_half_even (a * 2 ^ nat (- f64_scale a b)) (b * 2 ^ nat (f64_scale a b))"
    using assms by (intro round_half_even_nonneg) simp_all
  ultimately show ?thesis
    using assms(1) by (simp add: f64_nearest_def Let_def f64_infinite_def)
qed

lemma f64_nearest_one: "0 < b \<Longrightarrow> f64_nearest b b = 1023 * 2 ^ 52"
  by (simp add: f64_nearest_def f64_scale_def round_half_even_def f64_infinite_def)

text \<open>A count below \<open>2 ^ 53\<close> is a float exactly.\<close>

lemma f64_decode_count:
  assumes "0 < n" and "n < 2 ^ 53"
  shows "\<exists>k. f64_decode (f64_pack False n 1) = Finite False (n * 2 ^ k) (2 ^ k)"
proof -
  note len = bit_length_bounds [OF assms(1)]
  have "nat (bit_length n - 1) < 53"
  proof (rule ccontr)
    assume "\<not> nat (bit_length n - 1) < 53"
    then have "(2 :: int) ^ 53 \<le> 2 ^ nat (bit_length n - 1)" by (intro power_increasing) simp_all
    with len(2) assms(2) show False by simp
  qed
  then have small: "bit_length n \<le> 53" by simp
  define k where "k = nat (53 - bit_length n)"
  define q where "q = n * 2 ^ k"
  define m where "m = f64_nearest n 1"
  have one: "bit_length 1 = 1" by code_simp
  have scale: "f64_scale n 1 = bit_length n - 53"
    using len(1,2) small by (simp add: f64_scale_def one)
  have "round_half_even (n * 2 ^ k) 1 = q" by (simp add: round_half_even_def q_def)
  have low: "2 ^ 52 \<le> q"
  proof -
    have "(2 :: int) ^ 52 = 2 ^ nat (bit_length n - 1) * 2 ^ k"
      using len(1) small by (simp add: k_def flip: power_add nat_add_distrib)
    also have "\<dots> \<le> q" using len(2) by (simp add: q_def)
    finally show ?thesis .
  qed
  have high: "q < 2 ^ 53"
  proof -
    have "q < 2 ^ nat (bit_length n) * 2 ^ k" using len(3) by (simp add: q_def)
    also have "\<dots> = 2 ^ 53"
      using len(1) small by (simp add: k_def flip: power_add nat_add_distrib)
    finally show ?thesis .
  qed
  have m: "m = (bit_length n + 1021) * 2 ^ 52 + q"
  proof -
    have "nat (- (bit_length n - 53)) = k" "nat (bit_length n - 53) = 0"
      using small by (simp_all add: k_def)
    moreover have "(bit_length n + 1021) * 2 ^ 52 + q \<le> f64_infinite"
      using high small by (simp add: f64_infinite_def)
    ultimately show ?thesis
      using assms(1) by (simp add: m_def f64_nearest_def scale Let_def round_half_even_def q_def)
  qed
  have digits: "m div 2 ^ 52 = bit_length n + 1022" "m mod 2 ^ 52 = q - 2 ^ 52"
  proof -
    have "m = (bit_length n + 1022) * 2 ^ 52 + (q - 2 ^ 52)" using m by simp
    moreover have "0 \<le> q - 2 ^ 52" "q - 2 ^ 52 < 2 ^ 52" using low high by simp_all
    ultimately show "m div 2 ^ 52 = bit_length n + 1022" "m mod 2 ^ 52 = q - 2 ^ 52"
      using int_div_pos_eq [of m "2 ^ 52" "bit_length n + 1022" "q - 2 ^ 52"]
        int_mod_pos_eq [of m "2 ^ 52" "bit_length n + 1022" "q - 2 ^ 52"]
      by (simp_all add: mult.commute)
  qed
  have fields: "f64_magnitude (f64_pack False n 1) = m" "\<not> f64_negative (f64_pack False n 1)"
    using assms(1) by (simp_all add: f64_pack_fields m_def)
  have "m \<noteq> 0" using m low len(1) by simp
  show ?thesis
  proof (cases "bit_length n = 53")
    case True
    then have "k = 0" by (simp add: k_def)
    with True digits fields \<open>m \<noteq> 0\<close> assms(1) show ?thesis
      by (intro exI [of _ 0]) (simp add: f64_decode_def Let_def q_def)
  next
    case False
    with small have "nat (1075 - (bit_length n + 1022)) = k" "\<not> 1075 \<le> bit_length n + 1022"
      by (simp_all add: k_def)
    with digits fields \<open>m \<noteq> 0\<close> assms(1) len(1) show ?thesis
      by (intro exI [of _ k]) (simp add: f64_decode_def Let_def q_def)
  qed
qed

text \<open>So a ratio of two counts compares with one as the counts do.\<close>

lemma f64_decode_of_int:
  assumes "0 \<le> a" and "a < 2 ^ 53"
  shows "\<exists>c. 0 < c \<and> f64_decode (f64_of_int a) = Finite False (a * c) c"
proof (cases "a = 0")
  case True
  have "f64_decode (f64_of_int 0) = Finite False 0 1" by code_simp
  with True show ?thesis by auto
next
  case False
  with f64_decode_count [of a] assms obtain k
    where "f64_decode (f64_pack False a 1) = Finite False (a * 2 ^ k) (2 ^ k)" by auto
  with False assms show ?thesis
    by (intro exI [of _ "2 ^ k"]) (simp add: f64_of_int_def)
qed

lemma f64_ratio:
  assumes "0 \<le> a" and "a \<le> b" and "0 < b" and "b < 2 ^ 53"
  shows "f64_lt (f64_div (f64_of_int a) (f64_of_int b)) (f64_lit 1 1) \<longleftrightarrow> a < b"
    and "f64_le (f64_lit 1 1) (f64_div (f64_of_int a) (f64_of_int b)) \<longleftrightarrow> a = b"
proof -
  from f64_decode_of_int [of a] f64_decode_of_int [of b] assms obtain c d where
      c: "0 < c" "f64_decode (f64_of_int a) = Finite False (a * c) c"
    and d: "0 < d" "f64_decode (f64_of_int b) = Finite False (b * d) d"
    by auto
  define x where "x = a * c * d"
  define y where "y = c * (b * d)"
  have div: "f64_div (f64_of_int a) (f64_of_int b) = f64_pack False x y"
    using c d assms(3) by (simp add: f64_div_def x_def y_def)
  have y: "0 < y" and x: "0 \<le> x" using assms(1,3) c(1) d(1) by (simp_all add: x_def y_def)
  have one: "f64_order_key (f64_lit 1 1) = 1023 * 2 ^ 52" "\<not> f64_is_nan (f64_lit 1 1)"
    using f64_nearest_one [of 1] by (simp_all add: f64_order_key_def f64_pack_fields)
  have key: "f64_order_key (f64_pack False x y) = f64_nearest x y" "\<not> f64_is_nan (f64_pack False x y)"
    using x y by (simp_all add: f64_order_key_def f64_pack_fields)
  have below: "f64_nearest x y < 1023 * 2 ^ 52" if "a < b"
  proof (rule f64_nearest_lt_one [OF x y])
    have "b \<le> (b - a) * 2 ^ 53"
      using that assms(4) mult_right_mono [of 1 "b - a" "2 ^ 53"] by simp
    then have "b * (c * d) \<le> (b - a) * 2 ^ 53 * (c * d)"
      using c(1) d(1) by (intro mult_right_mono) simp_all
    then show "y \<le> (y - x) * 2 ^ 53" by (simp add: x_def y_def algebra_simps)
  qed
  have equal: "f64_nearest x y = 1023 * 2 ^ 52" if "a = b"
    using that y f64_nearest_one [of y] by (simp add: x_def y_def algebra_simps)
  have iff: "f64_nearest x y < 1023 * 2 ^ 52 \<longleftrightarrow> a < b"
    using below equal assms(2) by (cases "a = b") (simp, force)
  show "f64_lt (f64_div (f64_of_int a) (f64_of_int b)) (f64_lit 1 1) \<longleftrightarrow> a < b"
    unfolding div f64_lt_def one key using one key iff by simp
  have "1023 * 2 ^ 52 < f64_nearest x y \<or> 1023 * 2 ^ 52 = f64_nearest x y \<longleftrightarrow> a = b"
    using iff assms(2) by linarith
  then show "f64_le (f64_lit 1 1) (f64_div (f64_of_int a) (f64_of_int b)) \<longleftrightarrow> a = b"
    unfolding div f64_le_def f64_lt_def f64_eq_def one key using one key by simp
qed

section \<open>Extremes by a key\<close>

text \<open>\<open>min_by_key\<close> returns the first smallest element, \<open>max_by_key\<close> the last largest one.\<close>

fun min_by_key :: "('a \<Rightarrow> 'k::linorder) \<Rightarrow> 'a list \<Rightarrow> 'a option" where
  "min_by_key f [] = None"
| "min_by_key f (x # xs) =
     (case min_by_key f xs of
        None \<Rightarrow> Some x
      | Some y \<Rightarrow> if f x \<le> f y then Some x else Some y)"

fun max_by_key :: "('a \<Rightarrow> 'k::linorder) \<Rightarrow> 'a list \<Rightarrow> 'a option" where
  "max_by_key f [] = None"
| "max_by_key f (x # xs) =
     (case max_by_key f xs of
        None \<Rightarrow> Some x
      | Some y \<Rightarrow> if f x \<le> f y then Some y else Some x)"

lemma min_by_key_None [simp]: "min_by_key f xs = None \<longleftrightarrow> xs = []"
  by (cases xs) (auto split: option.splits)

lemma max_by_key_None [simp]: "max_by_key f xs = None \<longleftrightarrow> xs = []"
  by (cases xs) (auto split: option.splits)

lemma min_by_key_Some: "min_by_key f xs = Some x \<Longrightarrow> x \<in> set xs \<and> (\<forall>y\<in>set xs. f x \<le> f y)"
proof (induction xs arbitrary: x)
  case (Cons a xs)
  show ?case
  proof (cases "min_by_key f xs")
    case (Some y)
    with Cons.IH [OF Some] Cons.prems show ?thesis
      by (cases "f a \<le> f y") auto
  qed (use Cons.prems in simp)
qed simp

lemma max_by_key_Some: "max_by_key f xs = Some x \<Longrightarrow> x \<in> set xs \<and> (\<forall>y\<in>set xs. f y \<le> f x)"
proof (induction xs arbitrary: x)
  case (Cons a xs)
  show ?case
  proof (cases "max_by_key f xs")
    case (Some y)
    with Cons.IH [OF Some] Cons.prems show ?thesis
      by (cases "f a \<le> f y") auto
  qed (use Cons.prems in simp)
qed simp

text \<open>\<open>Iterator::max\<close> of values: the largest one, if there is any.\<close>

abbreviation list_max :: "'a::linorder list \<Rightarrow> 'a option" where
  "list_max \<equiv> max_by_key (\<lambda>x. x)"

section \<open>Text\<close>

definition bytes :: "int list \<Rightarrow> string" where
  "bytes ns = map char_of ns"

text \<open>The UTF-8 encodings of the characters \<open>char::is_whitespace\<close> accepts.\<close>

definition whitespace :: "string list" where
  "whitespace = map bytes
     ([[9], [10], [11], [12], [13], [32], [0xC2, 0x85], [0xC2, 0xA0], [0xE1, 0x9A, 0x80],
       [0xE2, 0x80, 0xA8], [0xE2, 0x80, 0xA9], [0xE2, 0x80, 0xAF], [0xE2, 0x81, 0x9F],
       [0xE3, 0x80, 0x80]]
      @ map (\<lambda>n. [0xE2, 0x80, n]) [0x80, 0x81, 0x82, 0x83, 0x84, 0x85, 0x86, 0x87, 0x88, 0x89, 0x8A])"

fun trim_with :: "string list \<Rightarrow> nat \<Rightarrow> string \<Rightarrow> string" where
  "trim_with ws 0 s = s"
| "trim_with ws (Suc n) s =
     (case List.find (starts_with s) ws of
        None \<Rightarrow> s
      | Some w \<Rightarrow> trim_with ws n (drop (length w) s))"

definition trim_start :: "string \<Rightarrow> string" where
  "trim_start s = trim_with whitespace (length s) s"

definition trim_end :: "string \<Rightarrow> string" where
  "trim_end s = rev (trim_with (map rev whitespace) (length s) (rev s))"

definition str_trim :: "string \<Rightarrow> string" where
  "str_trim s = trim_end (trim_start s)"

text \<open>Padding with zeros on the left, as in \<open>{:02}\<close>, and \<open>{:.p}\<close> for floats.\<close>

definition pad_zero :: "nat \<Rightarrow> string \<Rightarrow> string" where
  "pad_zero n s = replicate (n - length s) (CHR ''0'') @ s"

definition show_f64 :: "nat \<Rightarrow> f64 \<Rightarrow> string" where
  "show_f64 p x =
     (case f64_decode x of
        NaN \<Rightarrow> ''NaN''
      | Inf s \<Rightarrow> (if s then ''-inf'' else ''inf'')
      | Finite s a b \<Rightarrow>
          let n = nat (round_half_even (a * 10 ^ p) b) in
          (if s then ''-'' else '''') @ show_nat (n div 10 ^ p) @
          (if p = 0 then '''' else CHR ''.'' # pad_zero p (show_nat (n mod 10 ^ p))))"

text \<open>
  Strings are UTF-8: a byte from 128 to 191 continues a character. \<open>chars().count()\<close>,
  \<open>chars().take(n)\<close>, \<open>is_ascii\<close>, \<open>contains\<close>, and \<open>char::is_control\<close> of some character: the bytes below
  32, the byte 127, and the two-byte encodings C2 80 to C2 9F.
\<close>

definition continues_char :: "char \<Rightarrow> bool" where
  "continues_char c \<longleftrightarrow> 128 \<le> (of_char c :: int) \<and> (of_char c :: int) < 192"

definition chars_count :: "string \<Rightarrow> nat" where
  "chars_count s = length (filter (\<lambda>c. \<not> continues_char c) s)"

fun take_chars :: "nat \<Rightarrow> string \<Rightarrow> string" where
  "take_chars n [] = []"
| "take_chars n (c # cs) =
     (if continues_char c then c # take_chars n cs
      else case n of 0 \<Rightarrow> [] | Suc m \<Rightarrow> c # take_chars m cs)"

definition is_ascii :: "string \<Rightarrow> bool" where
  "is_ascii s \<longleftrightarrow> list_all (\<lambda>c. (of_char c :: int) < 128) s"

fun contains :: "string \<Rightarrow> string \<Rightarrow> bool" where
  "contains [] p \<longleftrightarrow> p = []"
| "contains (c # cs) p \<longleftrightarrow> starts_with (c # cs) p \<or> contains cs p"

fun has_control :: "string \<Rightarrow> bool" where
  "has_control [] = False"
| "has_control (c # cs) \<longleftrightarrow>
     (of_char c :: int) < 32 \<or> (of_char c :: int) = 127
     \<or> ((of_char c :: int) = 0xC2
         \<and> (case cs of [] \<Rightarrow> False | d # _ \<Rightarrow> 128 \<le> (of_char d :: int) \<and> (of_char d :: int) < 160))
     \<or> has_control cs"

text \<open>
  Two functions stay parameters: \<open>str::to_lowercase\<close>, which rests on the Unicode tables, and the
  date library's \<open>to_rfc3339\<close>.
\<close>

record text_functions =
  to_lowercase :: "string \<Rightarrow> string"
  to_rfc3339 :: "instant \<Rightarrow> string"

definition ascii_texts :: text_functions where
  "ascii_texts = \<lparr>to_lowercase = to_ascii_lowercase, to_rfc3339 = (\<lambda>t. show_int t)\<rparr>"

text \<open>\<open>normalize_capability\<close> and \<open>parse_capabilities\<close> of \<open>src/core/ids.rs\<close>.\<close>

definition normalize_capability :: "text_functions \<Rightarrow> string \<Rightarrow> string" where
  "normalize_capability tx value =
     map (\<lambda>c. if c = CHR '' '' \<or> c = CHR ''_'' then CHR ''-'' else c) (to_lowercase tx (str_trim value))"

definition parse_capabilities :: "text_functions \<Rightarrow> string list \<Rightarrow> string list" where
  "parse_capabilities tx values =
     sort_dedup (concat (map
       (\<lambda>value. filter (\<lambda>v. v \<noteq> []) (map (normalize_capability tx) (split_on (CHR '','') value)))
       values))"

end
