(* ===== verification/Working_Time.thy ===== *)
theory Working_Time
  imports Work_Calendar Rust_Library
begin

text \<open>
  Working-time arithmetic (\<open>src/core/calendar.rs\<close>): the next instant a principal is available, the
  instant at which a number of working hours have passed, the text forms of calendars. The theorems
  state both functions against the set of available instants. An instant counts nanoseconds; a date
  is its number of days since the Unix epoch.
\<close>

section \<open>Dates\<close>

definition minute_ns :: int where
  "minute_ns = 60 * 10 ^ 9"

definition day_ns :: int where
  "day_ns = 24 * 60 * minute_ns"

definition ms_ns :: int where
  "ms_ns = 10 ^ 6"

text \<open>The last date of the date library, 262142-12-31, has no successor.\<close>

definition max_date :: int where
  "max_date = 95026236"

text \<open>The first of January 1970 was a Thursday.\<close>

definition weekday :: "int \<Rightarrow> workday" where
  "weekday date =
     (let n = (date + 3) mod 7 in
      if n = 0 then Monday else if n = 1 then Tuesday else if n = 2 then Wednesday
      else if n = 3 then Thursday else if n = 4 then Friday else if n = 5 then Saturday
      else Sunday)"

definition calendar_offset :: "work_calendar \<Rightarrow> int" where
  "calendar_offset c = calendar_utc_offset_minutes c * minute_ns"

definition local_date :: "work_calendar \<Rightarrow> instant \<Rightarrow> int" where
  "local_date c t = (t + calendar_offset c) div day_ns"

text \<open>
  Minute 1440 of a date is minute 0 of the next one. The source's two \<open>expect\<close>s hold for every date
  below the last one and every minute of a valid calendar.
\<close>

definition local_minute_to_utc :: "work_calendar \<Rightarrow> int \<Rightarrow> nat \<Rightarrow> instant" where
  "local_minute_to_utc c date minute =
     (let (date, minute) = (if minute = 24 * 60 then (date + 1, 0) else (date, minute)) in
      date * day_ns + int minute * minute_ns - calendar_offset c)"

section \<open>The next available instant\<close>

definition max_search_days :: nat where
  "max_search_days = 3660"

definition covers :: "instant \<Rightarrow> availability_block \<Rightarrow> bool" where
  "covers t b \<longleftrightarrow> block_is_active b \<and> block_starts_at b \<le> t \<and> t < block_ends_at b"

definition works_on :: "work_calendar \<Rightarrow> int \<Rightarrow> bool" where
  "works_on c date \<longleftrightarrow> weekday date \<in> set (calendar_working_days c)"

fun search_available :: "nat \<Rightarrow> work_calendar \<Rightarrow> instant \<Rightarrow> instant result" where
  "search_available 0 c cursor =
     Inl (relay_error.Validation ''calendar has no availability within ten years'')"
| "search_available (Suc n) c cursor =
     (let date = local_date c cursor;
          candidate = max cursor (local_minute_to_utc c date (calendar_day_start_minute c));
          work_end = local_minute_to_utc c date (calendar_day_end_minute c) in
      if works_on c date \<and> candidate < work_end then
        (case min_by_key block_ends_at (filter (covers candidate) (calendar_time_off c)) of
           Some b \<Rightarrow> search_available n c (block_ends_at b)
         | None \<Rightarrow> Inr candidate)
      else if date = max_date then Inl (relay_error.Validation ''calendar date overflow'')
      else search_available n c (local_minute_to_utc c (date + 1) 0))"

definition next_available :: "work_calendar \<Rightarrow> instant \<Rightarrow> instant result" where
  "next_available c start =
     and_then (validate_calendar c) (\<lambda>_. search_available max_search_days c start)"

section \<open>Adding working hours\<close>

definition ends_after_starting_before ::
    "instant \<Rightarrow> instant \<Rightarrow> availability_block \<Rightarrow> bool" where
  "ends_after_starting_before cursor work_end b \<longleftrightarrow>
     block_is_active b \<and> block_starts_at b < work_end \<and> cursor < block_ends_at b"

definition next_block :: "work_calendar \<Rightarrow> instant \<Rightarrow> instant \<Rightarrow> availability_block option" where
  "next_block c cursor work_end =
     min_by_key block_starts_at
       (filter (ends_after_starting_before cursor work_end) (calendar_time_off c))"

text \<open>\<open>num_milliseconds\<close> drops what is below a millisecond, towards zero.\<close>

definition available_ms :: "instant \<Rightarrow> instant \<Rightarrow> int" where
  "available_ms cursor available_until =
     (if cursor \<le> available_until then (available_until - cursor) div ms_ns else 0)"

fun add_ms :: "nat \<Rightarrow> work_calendar \<Rightarrow> int \<Rightarrow> instant \<Rightarrow> instant result" where
  "add_ms 0 c ms cursor =
     Inl (relay_error.Validation ''working duration exceeds calendar search limit'')"
| "add_ms (Suc n) c ms cursor =
     (let work_end = local_minute_to_utc c (local_date c cursor) (calendar_day_end_minute c);
          nb = next_block c cursor work_end in
      case nb of
        Some b \<Rightarrow>
          if block_starts_at b \<le> cursor then
            and_then (next_available c (block_ends_at b)) (add_ms n c ms)
          else
            let now_ms = available_ms cursor (min (block_starts_at b) work_end) in
            if ms \<le> now_ms then Inr (cursor + ms * ms_ns)
            else and_then (next_available c (block_ends_at b)) (add_ms n c (ms - now_ms))
      | None \<Rightarrow>
          let now_ms = available_ms cursor work_end in
          if ms \<le> now_ms then Inr (cursor + ms * ms_ns)
          else and_then (next_available c work_end) (add_ms n c (ms - now_ms)))"

definition hours_to_ms :: "f64 \<Rightarrow> int" where
  "hours_to_ms hours = f64_as_i64 (f64_round (f64_mul hours (f64_lit 3600000 1)))"

definition add_working_hours :: "work_calendar \<Rightarrow> instant \<Rightarrow> f64 \<Rightarrow> instant result" where
  "add_working_hours c start hours =
     (if \<not> f64_is_finite hours \<or> f64_lt hours (f64_lit 0 1)
      then Inl (relay_error.Validation ''working hours must be a finite non-negative number'')
      else
        and_then (next_available c start) (\<lambda>cursor.
          if hours_to_ms hours = 0 then Inr cursor
          else add_ms (max_search_days * 4) c (hours_to_ms hours) cursor))"

section \<open>Text\<close>

fun short_name :: "workday \<Rightarrow> string" where
  "short_name Monday = ''Mon''"
| "short_name Tuesday = ''Tue''"
| "short_name Wednesday = ''Wed''"
| "short_name Thursday = ''Thu''"
| "short_name Friday = ''Fri''"
| "short_name Saturday = ''Sat''"
| "short_name Sunday = ''Sun''"

text \<open>The Chinese names are the character for week followed by the number of the day.\<close>

definition cn_week :: "int list" where
  "cn_week = [0xE5, 0x91, 0xA8]"

definition workday_names :: "(workday \<times> string list) list" where
  "workday_names =
     [(Monday, [''mon'', ''monday'', bytes (cn_week @ [0xE4, 0xB8, 0x80])]),
      (Tuesday, [''tue'', ''tuesday'', bytes (cn_week @ [0xE4, 0xBA, 0x8C])]),
      (Wednesday, [''wed'', ''wednesday'', bytes (cn_week @ [0xE4, 0xB8, 0x89])]),
      (Thursday, [''thu'', ''thursday'', bytes (cn_week @ [0xE5, 0x9B, 0x9B])]),
      (Friday, [''fri'', ''friday'', bytes (cn_week @ [0xE4, 0xBA, 0x94])]),
      (Saturday, [''sat'', ''saturday'', bytes (cn_week @ [0xE5, 0x85, 0xAD])]),
      (Sunday, [''sun'', ''sunday'', bytes (cn_week @ [0xE6, 0x97, 0xA5]),
         bytes (cn_week @ [0xE5, 0xA4, 0xA9])])]"

definition workday_from_str :: "string \<Rightarrow> workday result" where
  "workday_from_str value =
     (case List.find (\<lambda>(day, names). to_ascii_lowercase (str_trim value) \<in> set names) workday_names of
        Some (day, _) \<Rightarrow> Inr day
      | None \<Rightarrow> Inl (relay_error.Validation (''unknown workday `'' @ value @ ''`'')))"

definition parse_workdays :: "string \<Rightarrow> workday list result" where
  "parse_workdays value =
     and_then (try_map workday_from_str
         (filter (\<lambda>v. v \<noteq> []) (map str_trim (split_on (CHR '','') value)))) (\<lambda>days.
       if sort_dedup days = [] then Inl (relay_error.Validation ''working days cannot be empty'')
       else Inr (sort_dedup days))"

definition format_offset :: "int \<Rightarrow> string" where
  "format_offset minutes =
     (let absolute = nat \<bar>minutes\<bar> in
      (if minutes < 0 then ''-'' else ''+'') @ pad_zero 2 (show_nat (absolute div 60)) @ '':'' @
      pad_zero 2 (show_nat (absolute mod 60)))"

definition format_minute :: "nat \<Rightarrow> string" where
  "format_minute minute =
     pad_zero 2 (show_nat (minute div 60)) @ '':'' @ pad_zero 2 (show_nat (minute mod 60))"

definition middle_dot :: string where
  "middle_dot = '' '' @ bytes [0xC2, 0xB7] @ '' ''"

definition calendar_summary :: "work_calendar \<Rightarrow> string" where
  "calendar_summary c =
     ''UTC'' @ format_offset (calendar_utc_offset_minutes c) @ middle_dot @
     join_with '','' (map short_name (calendar_working_days c)) @ middle_dot @
     format_minute (calendar_day_start_minute c) @ ''-'' @ format_minute (calendar_day_end_minute c)"

section \<open>What the next available instant is\<close>

definition available :: "work_calendar \<Rightarrow> instant \<Rightarrow> bool" where
  "available c t \<longleftrightarrow>
     works_on c (local_date c t) \<and>
     local_minute_to_utc c (local_date c t) (calendar_day_start_minute c) \<le> t \<and>
     t < local_minute_to_utc c (local_date c t) (calendar_day_end_minute c) \<and>
     \<not> list_ex (covers t) (calendar_time_off c)"

lemma local_minute_to_utc_eq:
  "local_minute_to_utc c date minute =
     date * day_ns + int minute * minute_ns - calendar_offset c"
  by (simp add: local_minute_to_utc_def day_ns_def minute_ns_def algebra_simps)

lemma div_eq_iff_bounds:
  assumes "0 < (d :: int)"
  shows "x div d = q \<longleftrightarrow> q * d \<le> x \<and> x < (q + 1) * d"
proof
  assume "x div d = q"
  with mult_div_mod_eq [of d x] have "x = q * d + x mod d" by (simp add: mult.commute)
  with pos_mod_sign [OF assms, of x] pos_mod_bound [OF assms, of x]
  show "q * d \<le> x \<and> x < (q + 1) * d" by (simp add: distrib_right)
next
  assume "q * d \<le> x \<and> x < (q + 1) * d"
  then show "x div d = q"
    by (intro int_div_pos_eq [of _ _ _ "x - q * d"]) (simp_all add: algebra_simps)
qed

lemma local_date_iff:
  "local_date c t = date \<longleftrightarrow>
     date * day_ns - calendar_offset c \<le> t \<and> t < (date + 1) * day_ns - calendar_offset c"
proof -
  have pos: "0 < day_ns" by (simp add: day_ns_def minute_ns_def)
  have "local_date c t = date \<longleftrightarrow>
      date * day_ns \<le> t + calendar_offset c \<and> t + calendar_offset c < (date + 1) * day_ns"
    unfolding local_date_def by (rule div_eq_iff_bounds [OF pos])
  then show ?thesis by linarith
qed

text \<open>The window of a valid calendar lies within its date.\<close>

lemma work_window:
  assumes "validate_calendar c = Inr u"
  shows "date * day_ns - calendar_offset c
      \<le> local_minute_to_utc c date (calendar_day_start_minute c)"
    and "local_minute_to_utc c date (calendar_day_start_minute c)
      < local_minute_to_utc c date (calendar_day_end_minute c)"
    and "local_minute_to_utc c date (calendar_day_end_minute c)
      \<le> (date + 1) * day_ns - calendar_offset c"
  using assms
  by (simp_all add: validate_calendar_Inr local_minute_to_utc_eq day_ns_def minute_ns_def algebra_simps)

lemma local_date_later:
  "local_date c cursor = date \<Longrightarrow> cursor \<le> u \<Longrightarrow> u < (date + 1) * day_ns - calendar_offset c \<Longrightarrow>
     local_date c u = date"
  by (auto simp: local_date_iff)

lemma available_at:
  "local_date c t = date \<Longrightarrow> available c t \<longleftrightarrow>
     works_on c date \<and>
     local_minute_to_utc c date (calendar_day_start_minute c) \<le> t \<and>
     t < local_minute_to_utc c date (calendar_day_end_minute c) \<and>
     \<not> list_ex (covers t) (calendar_time_off c)"
  by (auto simp: available_def)

lemma search_available_spec:
  assumes "validate_calendar c = Inr ()" and "search_available n c cursor = Inr t"
  shows "cursor \<le> t \<and> available c t \<and> (\<forall>u. cursor \<le> u \<and> u < t \<longrightarrow> \<not> available c u)"
  using assms(2)
proof (induction n arbitrary: cursor)
  case (Suc n)
  define date where "date = local_date c cursor"
  define lo where "lo = local_minute_to_utc c date (calendar_day_start_minute c)"
  define hi where "hi = local_minute_to_utc c date (calendar_day_end_minute c)"
  define blocks where "blocks = filter (covers (max cursor lo)) (calendar_time_off c)"
  note window = work_window [OF assms(1), of date, folded lo_def hi_def]
  have at: "available c u \<longleftrightarrow> works_on c date \<and> lo \<le> u \<and> u < hi \<and> \<not> list_ex (covers u) (calendar_time_off c)"
    if "cursor \<le> u" "u < (date + 1) * day_ns - calendar_offset c" for u
    unfolding lo_def hi_def
    by (rule available_at [OF local_date_later [OF date_def [symmetric] that]])
  note run = Suc.prems [unfolded search_available.simps Let_def, folded date_def,
      folded lo_def hi_def, folded blocks_def]
  show ?case
  proof (cases "works_on c date \<and> max cursor lo < hi")
    case True
    have early: "\<not> available c u" if "cursor \<le> u" "u < max cursor lo" for u
      using that True window at [of u] by linarith
    show ?thesis
    proof (cases "min_by_key block_ends_at blocks")
      case None
      with run True have t: "t = max cursor lo" by simp
      from None have "\<not> list_ex (covers t) (calendar_time_off c)"
        by (auto simp: blocks_def t filter_empty_conv list_ex_iff)
      with True window at [of t] t have "available c t" by simp
      with t early show ?thesis by simp
    next
      case (Some b)
      with run True have rest: "search_available n c (block_ends_at b) = Inr t"
        by simp
      from Some have b: "b \<in> set (calendar_time_off c)" "covers (max cursor lo) b"
        by (auto simp: blocks_def dest: min_by_key_Some)
      have "\<not> available c u" if "max cursor lo \<le> u" "u < block_ends_at b" for u
      proof -
        from that b have "covers u b" by (auto simp: covers_def max_def split: if_splits)
        with b(1) show ?thesis by (auto simp: available_def list_ex_iff)
      qed
      with early have gap: "\<not> available c u" if "cursor \<le> u" "u < block_ends_at b" for u
        using that by (cases "u < max cursor lo") auto
      from Suc.IH [OF rest] b(2) gap show ?thesis
        by (force simp: covers_def)
    qed
  next
    case False
    with run have rest: "search_available n c (local_minute_to_utc c (date + 1) 0) = Inr t"
      by (auto split: if_splits)
    have gap: "\<not> available c u"
      if "cursor \<le> u" "u < (date + 1) * day_ns - calendar_offset c" for u
      using that False window at [of u] by linarith
    have "cursor < (date + 1) * day_ns - calendar_offset c"
      using local_date_iff [of c cursor date] by (simp add: date_def)
    with Suc.IH [OF rest] gap show ?thesis
      by (force simp: local_minute_to_utc_eq)
  qed
qed simp

lemma next_available_spec:
  assumes "next_available c start = Inr t"
  shows "start \<le> t" and "available c t" and "\<And>u. start \<le> u \<Longrightarrow> u < t \<Longrightarrow> \<not> available c u"
  using assms search_available_spec [of c max_search_days start t]
  by (auto simp: next_available_def)

lemma next_available_here:
  assumes "validate_calendar c = Inr ()" and "available c t"
  shows "next_available c t = Inr t"
proof -
  have "filter (covers t) (calendar_time_off c) = []"
    using assms(2) by (auto simp: available_def list_ex_iff filter_empty_conv)
  moreover have "max t (local_minute_to_utc c (local_date c t) (calendar_day_start_minute c)) = t"
    using assms(2) by (simp add: available_def)
  ultimately have "search_available (Suc n) c t = Inr t" for n
    using assms(2) by (simp add: available_def Let_def)
  then show ?thesis
    using assms(1) by (metis next_available_def and_then_simps(2) max_search_days_def numeral_eq_Suc)
qed

text \<open>
  The search succeeds whenever an instant is available within reach: every round either moves to a
  later date or passes the end of a block of time off.
\<close>

definition open_blocks :: "work_calendar \<Rightarrow> instant \<Rightarrow> nat" where
  "open_blocks c cursor =
     length (filter (\<lambda>b. block_is_active b \<and> cursor < block_ends_at b) (calendar_time_off c))"

lemma length_filter_mono: "(\<And>x. P x \<Longrightarrow> Q x) \<Longrightarrow> length (filter P xs) \<le> length (filter Q xs)"
  by (induction xs) (auto intro: le_SucI)

lemma open_blocks_antimono: "cursor \<le> u \<Longrightarrow> open_blocks c u \<le> open_blocks c cursor"
  unfolding open_blocks_def by (rule length_filter_mono) auto

lemma open_blocks_passed:
  assumes "b \<in> set (calendar_time_off c)" and "block_is_active b" and "cursor < block_ends_at b"
  shows "open_blocks c (block_ends_at b) < open_blocks c cursor"
proof -
  have strict: "length (filter P xs) < length (filter Q xs)"
    if "\<And>x. P x \<Longrightarrow> Q x" "b \<in> set xs" "Q b" "\<not> P b" for P Q and xs :: "availability_block list"
    using that(2)
  proof (induction xs)
    case (Cons x xs)
    with that length_filter_mono [of P Q xs] show ?case by (auto simp: le_imp_less_Suc)
  qed simp
  show ?thesis
    unfolding open_blocks_def by (rule strict) (use assms in auto)
qed

lemma local_date_mono: "t \<le> u \<Longrightarrow> local_date c t \<le> local_date c u"
  by (simp add: local_date_def zdiv_mono1 day_ns_def minute_ns_def)

lemma local_date_next: "local_date c (local_minute_to_utc c date 0) = date"
  by (simp add: local_date_iff local_minute_to_utc_eq day_ns_def minute_ns_def)

lemma search_available_complete:
  assumes "validate_calendar c = Inr ()" and "available c t" and "local_date c t \<le> max_date"
    and "cursor \<le> t"
    and "nat (local_date c t - local_date c cursor) + open_blocks c cursor < n"
  shows "is_ok (search_available n c cursor)"
  using assms(4,5)
proof (induction n arbitrary: cursor)
  case (Suc n)
  define date where "date = local_date c cursor"
  define lo where "lo = local_minute_to_utc c date (calendar_day_start_minute c)"
  define hi where "hi = local_minute_to_utc c date (calendar_day_end_minute c)"
  define blocks where "blocks = filter (covers (max cursor lo)) (calendar_time_off c)"
  have later: "date \<le> local_date c t"
    using Suc.prems(1) by (simp add: date_def local_date_mono)
  have at: "available c t \<longleftrightarrow> works_on c date \<and> lo \<le> t \<and> t < hi \<and>
      \<not> list_ex (covers t) (calendar_time_off c)" if "local_date c t = date"
    unfolding lo_def hi_def using that by (rule available_at)
  show ?case
  proof (cases "works_on c date \<and> max cursor lo < hi")
    case True
    show ?thesis
    proof (cases "min_by_key block_ends_at blocks")
      case None
      with True show ?thesis
        by (simp add: Let_def date_def [symmetric] lo_def [symmetric] hi_def [symmetric]
            blocks_def [symmetric])
    next
      case (Some b)
      then have b: "b \<in> set (calendar_time_off c)" "block_is_active b"
          "block_starts_at b \<le> max cursor lo" "max cursor lo < block_ends_at b"
        by (auto simp: blocks_def covers_def dest: min_by_key_Some)
      have "block_ends_at b \<le> t"
      proof (rule ccontr)
        assume "\<not> block_ends_at b \<le> t"
        moreover have "\<not> covers t b" using assms(2) b(1) by (auto simp: available_def list_ex_iff)
        ultimately have "t < max cursor lo" using b by (auto simp: covers_def)
        with Suc.prems(1) have "t < lo" by simp
        moreover have "local_date c t = date"
          using \<open>t < lo\<close> Suc.prems(1) work_window [OF assms(1), of date, folded lo_def hi_def]
            local_date_later [of c cursor date t] by (simp add: date_def)
        ultimately show False using at assms(2) by simp
      qed
      moreover have "open_blocks c (block_ends_at b) < open_blocks c cursor"
        using b by (intro open_blocks_passed) simp_all
      moreover have "local_date c cursor \<le> local_date c (block_ends_at b)"
        using b by (intro local_date_mono) simp
      ultimately have "is_ok (search_available n c (block_ends_at b))"
        using Suc.prems(2) by (intro Suc.IH) linarith+
      with True Some show ?thesis
        by (simp add: Let_def date_def [symmetric] lo_def [symmetric] hi_def [symmetric]
            blocks_def [symmetric])
    qed
  next
    case False
    have "local_date c t \<noteq> date"
      using at assms(2) False Suc.prems(1) by auto
    with later have less: "date < local_date c t" by simp
    define midnight where "midnight = local_minute_to_utc c (date + 1) 0"
    have step: "local_date c midnight = date + 1" by (simp add: midnight_def local_date_next)
    have "cursor \<le> midnight"
      using local_date_iff [of c cursor date] by (simp add: date_def midnight_def local_minute_to_utc_eq)
    then have "open_blocks c midnight \<le> open_blocks c cursor" by (rule open_blocks_antimono)
    moreover have "midnight \<le> t"
    proof (rule ccontr)
      assume "\<not> midnight \<le> t"
      then have "local_date c t = date"
        using local_date_later [of c cursor date t] Suc.prems(1)
        by (simp add: date_def midnight_def local_minute_to_utc_eq)
      with less show False by simp
    qed
    ultimately have "is_ok (search_available n c midnight)"
      using Suc.prems(2) step less by (intro Suc.IH) (simp_all add: date_def)
    moreover have "date \<noteq> max_date" using less assms(3) by simp
    ultimately show ?thesis
      using False
      by (auto simp: Let_def date_def [symmetric] lo_def [symmetric] hi_def [symmetric]
          midnight_def [symmetric])
  qed
qed simp

lemma next_available_complete:
  assumes "validate_calendar c = Inr ()" and "available c t" and "local_date c t \<le> max_date"
    and "start \<le> t"
    and "nat (local_date c t - local_date c start) + open_blocks c start < max_search_days"
  shows "\<exists>t'. next_available c start = Inr t' \<and> t' \<le> t"
proof -
  obtain t' where t': "next_available c start = Inr t'"
    using search_available_complete [OF assms] assms(1) by (auto simp: next_available_def is_ok_iff)
  with next_available_spec(3) [OF t', of t] assms(2,4) show ?thesis
    by (meson linorder_not_less)
qed

section \<open>What adding working hours does\<close>

text \<open>
  The working time between two instants is the number of available nanoseconds. The source counts
  whole milliseconds, so the account is exact when the start and the blocks lie on milliseconds.
\<close>

definition available_in :: "work_calendar \<Rightarrow> instant \<Rightarrow> instant \<Rightarrow> instant set" where
  "available_in c a b = {u. a \<le> u \<and> u < b \<and> available c u}"

definition worked :: "work_calendar \<Rightarrow> instant \<Rightarrow> instant \<Rightarrow> int" where
  "worked c a b = int (card (available_in c a b))"

definition on_ms :: "instant \<Rightarrow> bool" where
  "on_ms t \<longleftrightarrow> ms_ns dvd t"

definition calendar_on_ms :: "work_calendar \<Rightarrow> bool" where
  "calendar_on_ms c \<longleftrightarrow>
     list_all (\<lambda>b. on_ms (block_starts_at b) \<and> on_ms (block_ends_at b)) (calendar_time_off c)"

lemma finite_available_in [simp]: "finite (available_in c a b)"
  by (rule finite_subset [of _ "{a..<b}"]) (auto simp: available_in_def)

lemma worked_split:
  assumes "a \<le> m" and "m \<le> b"
  shows "worked c a b = worked c a m + worked c m b"
proof -
  have "available_in c a b = available_in c a m \<union> available_in c m b"
    and "available_in c a m \<inter> available_in c m b = {}"
    using assms by (auto simp: available_in_def)
  then show ?thesis by (simp add: worked_def card_Un_disjoint)
qed

lemma worked_none:
  assumes "\<And>u. a \<le> u \<Longrightarrow> u < b \<Longrightarrow> \<not> available c u"
  shows "worked c a b = 0"
proof -
  have "available_in c a b = {}" using assms by (auto simp: available_in_def)
  then show ?thesis by (simp add: worked_def)
qed

lemma worked_all:
  assumes "a \<le> b" and "\<And>u. a \<le> u \<Longrightarrow> u < b \<Longrightarrow> available c u"
  shows "worked c a b = b - a"
proof -
  have "available_in c a b = {a..<b}" using assms(2) by (auto simp: available_in_def)
  with assms(1) show ?thesis by (simp add: worked_def)
qed

lemma worked_mono: "b \<le> b' \<Longrightarrow> worked c a b \<le> worked c a b'"
  by (auto simp: worked_def available_in_def intro!: card_mono finite_subset [of _ "{a..<b'}"])

lemma on_ms_minute: "on_ms (local_minute_to_utc c date minute)"
proof -
  have "ms_ns dvd minute_ns" by (simp add: ms_ns_def minute_ns_def)
  then show ?thesis
    by (simp add: on_ms_def local_minute_to_utc_eq calendar_offset_def day_ns_def dvd_diff dvd_add)
qed

lemma search_available_on_ms:
  assumes "calendar_on_ms c" and "search_available n c cursor = Inr t" and "on_ms cursor"
  shows "on_ms t"
  using assms(2,3)
proof (induction n arbitrary: cursor)
  case (Suc n)
  define date where "date = local_date c cursor"
  define lo where "lo = local_minute_to_utc c date (calendar_day_start_minute c)"
  note run = Suc.prems(1) [unfolded search_available.simps Let_def, folded date_def, folded lo_def]
  have "on_ms (max cursor lo)"
    using Suc.prems(2) by (simp add: max_def lo_def on_ms_minute)
  moreover have "on_ms (block_ends_at b)"
    if "min_by_key block_ends_at (filter P (calendar_time_off c)) = Some b" for b P
    using min_by_key_Some [OF that] assms(1) by (auto simp: calendar_on_ms_def list_all_iff)
  ultimately show ?case
    using run Suc.IH by (auto split: if_splits option.splits simp: on_ms_minute)
qed simp

lemma next_available_on_ms:
  "calendar_on_ms c \<Longrightarrow> next_available c start = Inr t \<Longrightarrow> on_ms start \<Longrightarrow> on_ms t"
  by (auto simp: next_available_def intro: search_available_on_ms)

definition blocks_ordered :: "work_calendar \<Rightarrow> bool" where
  "blocks_ordered c \<longleftrightarrow> list_all (\<lambda>b. block_starts_at b \<le> block_ends_at b) (calendar_time_off c)"

text \<open>One round of the loop: the time up to \<open>stop\<close> is all available, from there to \<open>resume\<close> none is.\<close>

definition segment :: "work_calendar \<Rightarrow> instant \<Rightarrow> instant \<times> instant" where
  "segment c cursor =
     (let work_end = local_minute_to_utc c (local_date c cursor) (calendar_day_end_minute c) in
      case next_block c cursor work_end of
        None \<Rightarrow> (work_end, work_end)
      | Some b \<Rightarrow> (block_starts_at b, block_ends_at b))"

lemma segment_spec:
  assumes valid: "validate_calendar c = Inr ()" and ordered: "blocks_ordered c"
    and here: "available c cursor" and seg: "segment c cursor = (stop, resume)"
  shows "cursor < stop" and "stop \<le> resume"
    and "\<And>u. cursor \<le> u \<Longrightarrow> u < stop \<Longrightarrow> available c u"
    and "\<And>u. stop \<le> u \<Longrightarrow> u < resume \<Longrightarrow> \<not> available c u"
    and "calendar_on_ms c \<Longrightarrow> on_ms stop \<and> on_ms resume"
    and "add_ms (Suc n) c ms cursor =
      (if ms \<le> available_ms cursor stop then Inr (cursor + ms * ms_ns)
       else and_then (next_available c resume) (add_ms n c (ms - available_ms cursor stop)))"
proof -
  define hi where "hi = local_minute_to_utc c (local_date c cursor) (calendar_day_end_minute c)"
  note window = work_window [OF valid, of "local_date c cursor", folded hi_def]
  have here': "cursor < hi" "works_on c (local_date c cursor)"
      "local_minute_to_utc c (local_date c cursor) (calendar_day_start_minute c) \<le> cursor"
      "\<And>b. b \<in> set (calendar_time_off c) \<Longrightarrow> \<not> covers cursor b"
    using here by (auto simp: available_def hi_def list_ex_iff)
  have free: "available c u" if "cursor \<le> u" "u < hi" "\<not> list_ex (covers u) (calendar_time_off c)" for u
  proof -
    from that window(3) have "u < (local_date c cursor + 1) * day_ns - calendar_offset c" by simp
    with that(1) have "local_date c u = local_date c cursor"
      by (rule local_date_later [OF refl])
    with that here' show ?thesis by (simp add: available_at hi_def)
  qed
  have goal: "cursor < stop \<and> stop \<le> resume \<and>
    (\<forall>u. cursor \<le> u \<and> u < stop \<longrightarrow> available c u) \<and>
    (\<forall>u. stop \<le> u \<and> u < resume \<longrightarrow> \<not> available c u) \<and>
    (calendar_on_ms c \<longrightarrow> on_ms stop \<and> on_ms resume) \<and>
    add_ms (Suc n) c ms cursor =
      (if ms \<le> available_ms cursor stop then Inr (cursor + ms * ms_ns)
       else and_then (next_available c resume) (add_ms n c (ms - available_ms cursor stop)))"
  proof (cases "next_block c cursor hi")
    case None
    with seg have seg': "stop = hi" "resume = hi"
      by (auto simp: segment_def hi_def Let_def)
    have "\<not> list_ex (covers u) (calendar_time_off c)" if "cursor \<le> u" "u < hi" for u
      using None that
      by (auto simp: next_block_def filter_empty_conv list_ex_iff covers_def
          ends_after_starting_before_def)
    with free have all_open: "\<forall>u. cursor \<le> u \<and> u < hi \<longrightarrow> available c u" by simp
    have shut: "\<forall>u. hi \<le> u \<and> u < hi \<longrightarrow> \<not> available c u" by auto
    have ms: "calendar_on_ms c \<longrightarrow> on_ms hi \<and> on_ms hi" by (simp add: hi_def on_ms_minute)
    have run: "add_ms (Suc n) c ms cursor =
      (if ms \<le> available_ms cursor hi then Inr (cursor + ms * ms_ns)
       else and_then (next_available c hi) (add_ms n c (ms - available_ms cursor hi)))"
      by (simp only: add_ms.simps Let_def hi_def [symmetric] None option.case)
    show ?thesis
      unfolding seg' by (intro conjI here'(1) order.refl all_open shut ms run)
  next
    case (Some b)
    with seg have seg': "stop = block_starts_at b" "resume = block_ends_at b"
      by (auto simp: segment_def hi_def Let_def)
    from Some have b: "b \<in> set (calendar_time_off c)"
        "ends_after_starting_before cursor hi b"
        "\<And>b'. b' \<in> set (calendar_time_off c) \<Longrightarrow> ends_after_starting_before cursor hi b' \<Longrightarrow>
           block_starts_at b \<le> block_starts_at b'"
      by (auto simp: next_block_def dest!: min_by_key_Some)
    from here'(4) [OF b(1)] b(2) have later: "cursor < block_starts_at b"
      by (auto simp: covers_def ends_after_starting_before_def)
    have "\<not> list_ex (covers u) (calendar_time_off c)" if "cursor \<le> u" "u < block_starts_at b" for u
    proof -
      have "\<not> covers u b'" if "b' \<in> set (calendar_time_off c)" for b'
        using b(2) b(3) [OF that] \<open>cursor \<le> u\<close> \<open>u < block_starts_at b\<close>
        by (auto simp: covers_def ends_after_starting_before_def)
      then show ?thesis by (simp add: list_ex_iff)
    qed
    with free b(2) have all_open: "\<forall>u. cursor \<le> u \<and> u < block_starts_at b \<longrightarrow> available c u"
      by (simp add: ends_after_starting_before_def)
    have shut: "\<forall>u. block_starts_at b \<le> u \<and> u < block_ends_at b \<longrightarrow> \<not> available c u"
      using b(1,2) by (auto simp: available_def list_ex_iff covers_def ends_after_starting_before_def)
    have ordered': "block_starts_at b \<le> block_ends_at b"
      using ordered b(1) by (simp add: blocks_ordered_def list_all_iff)
    have ms: "calendar_on_ms c \<longrightarrow> on_ms (block_starts_at b) \<and> on_ms (block_ends_at b)"
      using b(1) by (simp add: calendar_on_ms_def list_all_iff)
    have "min (block_starts_at b) hi = block_starts_at b"
      using b(2) by (simp add: ends_after_starting_before_def)
    then have run: "add_ms (Suc n) c ms cursor =
      (if ms \<le> available_ms cursor (block_starts_at b) then Inr (cursor + ms * ms_ns)
       else and_then (next_available c (block_ends_at b))
         (add_ms n c (ms - available_ms cursor (block_starts_at b))))"
      using later [folded not_le]
      by (simp only: add_ms.simps Let_def hi_def [symmetric] Some option.case if_False)
    show ?thesis
      unfolding seg' by (intro conjI later ordered' all_open shut ms run)
  qed
  show "cursor < stop" "stop \<le> resume" using goal by simp_all
  show "available c u" if "cursor \<le> u" "u < stop" for u using goal that by simp
  show "\<not> available c u" if "stop \<le> u" "u < resume" for u using goal that by simp
  show "on_ms stop \<and> on_ms resume" if "calendar_on_ms c" using goal that by simp
  show "add_ms (Suc n) c ms cursor =
      (if ms \<le> available_ms cursor stop then Inr (cursor + ms * ms_ns)
       else and_then (next_available c resume) (add_ms n c (ms - available_ms cursor stop)))"
    using goal by simp
qed

lemma add_ms_spec:
  assumes valid: "validate_calendar c = Inr ()" "calendar_on_ms c" "blocks_ordered c"
    and "add_ms n c ms cursor = Inr t" and "available c cursor" and "on_ms cursor" and "0 < ms"
  shows "cursor < t \<and> worked c cursor t = ms * ms_ns \<and> available c (t - 1)"
  using assms(4-)
proof (induction n arbitrary: cursor ms)
  case (Suc n)
  obtain stop resume where seg: "segment c cursor = (stop, resume)" by (cases "segment c cursor")
  note spec = segment_spec [OF valid(1,3) Suc.prems(2) seg]
  have ms: "0 < ms_ns" by (simp add: ms_ns_def)
  have exact: "available_ms cursor stop * ms_ns = stop - cursor"
    using spec(1) spec(5) [OF valid(2)] Suc.prems(3)
    by (simp add: available_ms_def on_ms_def dvd_diff left_diff_distrib)
  show ?case
  proof (cases "ms \<le> available_ms cursor stop")
    case True
    with Suc.prems(1) spec(6) have t: "t = cursor + ms * ms_ns" by simp
    from True ms exact have "t \<le> stop"
      by (simp add: t) (metis add_le_cancel_left diff_add_cancel add.commute mult_right_mono order_less_imp_le)
    moreover from Suc.prems(4) ms have "cursor < t" by (simp add: t)
    ultimately show ?thesis
      using spec(3) worked_all [of cursor t c] by (simp add: t)
  next
    case False
    with Suc.prems(1) spec(6) obtain m where m: "next_available c resume = Inr m"
      and rest: "add_ms n c (ms - available_ms cursor stop) m = Inr t"
      by auto
    note m_spec = next_available_spec [OF m]
    have "on_ms m"
      using next_available_on_ms [OF valid(2) m] spec(5) [OF valid(2)] by simp
    with Suc.IH [OF rest m_spec(2)] False
    have t: "m < t" "worked c m t = (ms - available_ms cursor stop) * ms_ns" "available c (t - 1)"
      by simp_all
    have "worked c cursor t = worked c cursor stop + worked c stop m + worked c m t"
      using spec(1,2) m_spec(1) t(1)
      by (simp add: worked_split [of cursor stop t] worked_split [of stop m t])
    moreover have "worked c cursor stop = stop - cursor"
      using spec(1,3) by (simp add: worked_all)
    moreover have "worked c stop m = 0"
      using spec(4) m_spec(3) by (intro worked_none) (meson linorder_not_less)
    ultimately show ?thesis
      using t exact spec(1,2) m_spec(1) by (simp add: algebra_simps)
  qed
qed simp

text \<open>Whatever the blocks are like, work never ends before it starts.\<close>

lemma add_ms_later:
  assumes "add_ms n c ms cursor = Inr t" and "0 \<le> ms" and "available c cursor"
  shows "cursor \<le> t"
  using assms
proof (induction n arbitrary: cursor ms)
  case (Suc n)
  define work_end where "work_end = local_minute_to_utc c (local_date c cursor) (calendar_day_end_minute c)"
  have ms: "0 < ms_ns" by (simp add: ms_ns_def)
  have step: "cursor \<le> t"
    if "and_then (next_available c u) (add_ms n c m) = Inr t" "cursor \<le> u" "0 \<le> m" for u m
    using that Suc.IH [of m] next_available_spec(1,2) [of c u] by fastforce
  note run = Suc.prems(1) [unfolded add_ms.simps Let_def, folded work_end_def]
  show ?case
  proof (cases "next_block c cursor work_end")
    case (Some b)
    then have "cursor \<le> block_ends_at b"
      by (auto simp: next_block_def ends_after_starting_before_def dest!: min_by_key_Some)
    with run Some step [of "block_ends_at b"] Suc.prems(2) ms show ?thesis
      by (auto split: if_splits)
  next
    case None
    have "cursor < work_end" using Suc.prems(3) by (simp add: available_def work_end_def)
    with run None step [of work_end] Suc.prems(2) ms show ?thesis
      by (auto split: if_splits)
  qed
qed simp

lemma hours_to_ms_nonneg: "f64_nonneg h \<Longrightarrow> 0 \<le> hours_to_ms h"
proof -
  assume h: "f64_nonneg h"
  have "case f64_decode (f64_lit 3600000 1) of Finite False c d \<Rightarrow> True | _ \<Rightarrow> False" by code_simp
  then obtain c d where "f64_decode (f64_lit 3600000 1) = Finite False c d"
    by (auto split: f64_value.splits bool.splits)
  with h show "0 \<le> hours_to_ms h"
    unfolding hours_to_ms_def
    by (auto intro!: f64_nonneg_as_i64 f64_nonneg_round f64_nonneg_mul)
qed

lemma add_working_hours_later:
  assumes "add_working_hours c start hours = Inr t"
  shows "start \<le> t"
proof -
  from assms obtain cursor where cursor: "next_available c start = Inr cursor"
    and "f64_nonneg hours"
    and "cursor = t \<or> add_ms (max_search_days * 4) c (hours_to_ms hours) cursor = Inr t"
    by (auto simp: add_working_hours_def intro: f64_nonneg_if_not_less split: if_splits)
  with next_available_spec(1,2) [OF cursor] add_ms_later hours_to_ms_nonneg show ?thesis
    by fastforce
qed

lemma add_working_hours_spec:
  assumes "add_working_hours c start hours = Inr t" and "on_ms start"
    and "calendar_on_ms c" and "blocks_ordered c" and "0 < hours_to_ms hours"
  shows "worked c start t = hours_to_ms hours * ms_ns \<and> available c (t - 1)"
proof -
  from assms(1,5) obtain cursor where cursor: "next_available c start = Inr cursor"
    and rest: "add_ms (max_search_days * 4) c (hours_to_ms hours) cursor = Inr t"
    by (auto simp: add_working_hours_def split: if_splits)
  have valid: "validate_calendar c = Inr ()" using cursor by (auto simp: next_available_def)
  note spec = next_available_spec [OF cursor]
  have run: "cursor < t \<and> worked c cursor t = hours_to_ms hours * ms_ns \<and> available c (t - 1)"
    using valid assms(3,4) rest spec(2) next_available_on_ms [OF assms(3) cursor assms(2)] assms(5)
    by (rule add_ms_spec)
  moreover have "worked c start t = worked c start cursor + worked c cursor t"
    using run spec(1) by (intro worked_split) simp_all
  moreover have "worked c start cursor = 0" using spec(3) by (rule worked_none)
  ultimately show ?thesis by simp
qed

section \<open>Parsing and printing\<close>

lemma short_names_checked:
  "list_all (\<lambda>d. str_trim (short_name d) = short_name d \<and> workday_from_str (short_name d) = Inr d)
     [Monday, Tuesday, Wednesday, Thursday, Friday, Saturday, Sunday]"
  by code_simp

lemma short_name_parses [simp]:
  "str_trim (short_name d) = short_name d" "workday_from_str (short_name d) = Inr d"
  using short_names_checked by (cases d; simp)+

lemma short_name_plain [simp]: "short_name d \<noteq> []" "CHR '','' \<notin> set (short_name d)"
  by (cases d; simp)+

lemma parse_workdays_short_names:
  assumes "days \<noteq> []" and "sorted_wrt (<) days"
  shows "parse_workdays (join_with '','' (map short_name days)) = Inr days"
proof -
  have "split_on (CHR '','') (join_with '','' (map short_name days)) = map short_name days"
    using assms(1) by (intro split_on_join) auto
  moreover have "filter (\<lambda>v. v \<noteq> []) (map str_trim (map short_name days)) = map short_name days"
    by (induction days) simp_all
  moreover have "try_map workday_from_str (map short_name days) = Inr days"
    by (induction days) simp_all
  moreover have "sort_dedup days = days"
    using assms(2) by (simp add: sort_dedup_def strict_sorted_iff sorted_sort_id remdups_adj_distinct)
  ultimately show ?thesis
    using assms(1) by (simp only: parse_workdays_def and_then_simps if_False)
qed

lemma parse_workdays_sorted:
  assumes "parse_workdays value = Inr days"
  shows "days \<noteq> [] \<and> sorted_wrt (<) days"
  using assms by (auto simp: parse_workdays_def split: if_splits)

end
