(* ===== verification/Dependency_Graph.thy ===== *)
theory Dependency_Graph
  imports Rust_Library BTree_Map
begin

text \<open>
  The dependency graph the two functions of \<open>src/application/scheduler.rs\<close> build, and Kahn's
  algorithm on it: an order exists exactly when the graph has no cycle, and every node comes after
  the nodes it needs. The source writes the graph and the loop twice, on drafts by key and on tasks
  by identifier; here the naming functions are arguments.
\<close>

section \<open>The dependency graph\<close>

record graph =
  indegree :: "nat list"
  dependents :: "nat list list"

definition index_of :: "('a \<Rightarrow> string) \<Rightarrow> 'a list \<Rightarrow> (string, nat) btree" where
  "index_of f xs = fold (\<lambda>(i, x). bt_insert (f x) i) (List.enumerate 0 xs) bt_empty"

definition link_dependency ::
    "(string, nat) btree \<Rightarrow> string \<Rightarrow> nat \<Rightarrow> graph \<Rightarrow> string \<Rightarrow> graph result" where
  "link_dependency by_name label index g dependency =
     (case bt_get by_name dependency of
        None \<Rightarrow> Inl (relay_error.Validation
          (''task `'' @ label @ ''` depends on unknown task `'' @ dependency @ ''`''))
      | Some d \<Rightarrow>
          if d = index then
            Inl (relay_error.Validation (''task `'' @ label @ ''` cannot depend on itself''))
          else Inr \<lparr>indegree = (indegree g)[index := indegree g ! index + 1],
                   dependents = (dependents g)[d := dependents g ! d @ [index]]\<rparr>)"

definition build_graph ::
    "('a \<Rightarrow> string) \<Rightarrow> ('a \<Rightarrow> string) \<Rightarrow> ('a \<Rightarrow> string list) \<Rightarrow> 'a list \<Rightarrow> graph result" where
  "build_graph name label needs xs =
     try_fold (\<lambda>g (index, x). try_fold (link_dependency (index_of name xs) (label x) index) g (needs x))
       \<lparr>indegree = replicate (length xs) 0, dependents = replicate (length xs) []\<rparr>
       (List.enumerate 0 xs)"

section \<open>Kahn's algorithm\<close>

text \<open>
  Popping an index lowers the degree of each of its dependents; one whose degree reaches zero joins
  the queue. The subtraction would overflow at a degree of zero: that branch is \<open>None\<close>, and the loop
  ends by the sum of the degrees.
\<close>

fun release :: "nat list \<Rightarrow> nat list \<times> nat list \<Rightarrow> (nat list \<times> nat list) option" where
  "release [] (degrees, queue) = Some (degrees, queue)"
| "release (d # ds) (degrees, queue) =
     (if d < length degrees \<and> 0 < degrees ! d then
        let left = degrees ! d - 1
        in release ds (degrees[d := left], if left = 0 then queue @ [d] else queue)
      else None)"

lemma release_measure:
  assumes "release ds (degrees, queue) = Some (degrees', queue')"
  shows "sum_list degrees' + length queue' \<le> sum_list degrees + length queue"
  using assms
proof (induction ds arbitrary: degrees queue)
  case (Cons d ds)
  then have d: "d < length degrees" "0 < degrees ! d"
    and rest: "release ds (degrees[d := degrees ! d - 1],
        if degrees ! d - 1 = 0 then queue @ [d] else queue) = Some (degrees', queue')"
    by (auto simp: Let_def split: if_splits)
  have "sum_list (degrees[d := degrees ! d - 1]) + 1 = sum_list degrees"
    using d elem_le_sum_list [OF d(1)] by (simp add: sum_list_update)
  with Cons.IH [OF rest] show ?case by (auto split: if_splits)
qed simp

function kahn ::
    "nat list list \<Rightarrow> nat list \<Rightarrow> nat list \<Rightarrow> nat list \<Rightarrow> nat list option" where
  "kahn deps degrees [] order = Some order"
| "kahn deps degrees (i # queue) order =
     (case release (deps ! i) (degrees, queue) of
        None \<Rightarrow> None
      | Some (degrees', queue') \<Rightarrow> kahn deps degrees' queue' (order @ [i]))"
  by pat_completeness auto
termination
  by (relation "measure (\<lambda>(deps, degrees, queue, order). sum_list degrees + length queue)")
    (auto dest: release_measure)

definition ready :: "nat list \<Rightarrow> nat list" where
  "ready degrees = filter (\<lambda>i. degrees ! i = 0) [0..<length degrees]"

definition dependency_order :: "graph \<Rightarrow> nat list option" where
  "dependency_order g = kahn (dependents g) (indegree g) (ready (indegree g)) []"

text \<open>
  A graph is consistent when every degree counts the occurrences of its node among the dependents.
\<close>

definition points_to :: "nat list list \<Rightarrow> (nat \<times> nat) set" where
  "points_to deps = {(d, i). d < length deps \<and> i \<in> set (deps ! d)}"

definition waiting :: "nat list list \<Rightarrow> nat set \<Rightarrow> nat \<Rightarrow> nat" where
  "waiting deps done i = (\<Sum>d \<in> {..<length deps} - done. count_list (deps ! d) i)"

definition graph_ok :: "graph \<Rightarrow> bool" where
  "graph_ok g \<longleftrightarrow>
     length (indegree g) = length (dependents g) \<and>
     (\<forall>i < length (indegree g). indegree g ! i = waiting (dependents g) {} i) \<and>
     (\<forall>ds \<in> set (dependents g). \<forall>i \<in> set ds. i < length (indegree g))"

lemma release_spec:
  assumes "\<And>i. i \<in> set ds \<Longrightarrow> i < length degrees \<and> count_list ds i \<le> degrees ! i"
    and "distinct queue" and "\<And>i. i \<in> set queue \<Longrightarrow> i \<notin> set ds"
  shows "\<exists>degrees' queue'. release ds (degrees, queue) = Some (degrees', queue @ queue') \<and>
    length degrees' = length degrees \<and>
    (\<forall>i < length degrees. degrees' ! i = degrees ! i - count_list ds i) \<and>
    distinct (queue @ queue') \<and>
    set queue' = {i \<in> set ds. degrees ! i = count_list ds i}"
  using assms
proof (induction ds arbitrary: degrees queue)
  case Nil
  then show ?case by simp
next
  case (Cons d ds)
  have d: "d < length degrees" "0 < degrees ! d" "d \<notin> set queue"
    using Cons.prems(1) [of d] Cons.prems(3) by auto
  define left where "left = degrees ! d - 1"
  define degrees1 where "degrees1 = degrees[d := left]"
  define fresh where "fresh = (if left = 0 then [d] else [])"
  have at: "degrees1 ! i = (if i = d then left else degrees ! i)" for i
    using d(1) by (auto simp: degrees1_def)
  have len1 [simp]: "length degrees1 = length degrees" by (simp add: degrees1_def)
  have not_again: "d \<notin> set ds" if "left = 0"
    using that Cons.prems(1) [of d] count_list_0_iff [of ds d] by (simp add: left_def)
  have "\<exists>degrees' queue'. release ds (degrees1, queue @ fresh) = Some (degrees', (queue @ fresh) @ queue') \<and>
    length degrees' = length degrees1 \<and>
    (\<forall>i < length degrees1. degrees' ! i = degrees1 ! i - count_list ds i) \<and>
    distinct ((queue @ fresh) @ queue') \<and>
    set queue' = {i \<in> set ds. degrees1 ! i = count_list ds i}"
  proof (rule Cons.IH)
    show "i < length degrees1 \<and> count_list ds i \<le> degrees1 ! i" if "i \<in> set ds" for i
      using that Cons.prems(1) [of i] by (auto simp: at left_def split: if_splits)
    show "distinct (queue @ fresh)" using Cons.prems(2) d(3) by (simp add: fresh_def)
    show "i \<notin> set ds" if "i \<in> set (queue @ fresh)" for i
      using that Cons.prems(3) not_again by (auto simp: fresh_def split: if_splits)
  qed
  then obtain degrees' queue' where rest:
      "release ds (degrees1, queue @ fresh) = Some (degrees', (queue @ fresh) @ queue')"
      "length degrees' = length degrees1"
      "\<forall>i < length degrees1. degrees' ! i = degrees1 ! i - count_list ds i"
      "distinct ((queue @ fresh) @ queue')"
      "set queue' = {i \<in> set ds. degrees1 ! i = count_list ds i}"
    by blast
  have "release (d # ds) (degrees, queue) = Some (degrees', queue @ (fresh @ queue'))"
    using rest(1) d(1,2) by (auto simp: Let_def left_def degrees1_def fresh_def)
  moreover have "\<forall>i < length degrees. degrees' ! i = degrees ! i - count_list (d # ds) i"
    using rest(3) by (auto simp: at left_def)
  moreover have "set (fresh @ queue') = {i \<in> set (d # ds). degrees ! i = count_list (d # ds) i}"
  proof -
    have "left = 0 \<Longrightarrow> count_list ds d = 0" using not_again by simp
    moreover have "degrees ! d = count_list (d # ds) d \<longleftrightarrow> left = count_list ds d"
      using d(2) by (auto simp: left_def)
    ultimately show ?thesis
      using d(2) by (cases "d \<in> set ds")
        (auto simp: rest(5) at fresh_def count_list_0_iff split: if_splits)
  qed
  ultimately show ?case
    using rest(2,4) by (intro exI [of _ degrees'] exI [of _ "fresh @ queue'"]) simp
qed

definition kahn_ok :: "nat list list \<Rightarrow> nat list \<Rightarrow> nat list \<Rightarrow> nat list \<Rightarrow> bool" where
  "kahn_ok deps degrees queue order \<longleftrightarrow>
     length degrees = length deps \<and>
     (\<forall>ds \<in> set deps. set ds \<subseteq> {..<length deps}) \<and>
     distinct (order @ queue) \<and> set (order @ queue) \<subseteq> {..<length deps} \<and>
     (\<forall>i < length deps. degrees ! i = waiting deps (set order) i) \<and>
     (\<forall>i < length deps. i \<in> set (order @ queue) \<longleftrightarrow> degrees ! i = 0) \<and>
     (\<forall>d k. k < length order \<longrightarrow> (d, order ! k) \<in> points_to deps \<longrightarrow> d \<in> set (take k order))"

lemma waiting_insert:
  assumes "i < length deps" and "i \<notin> done"
  shows "waiting deps done j = count_list (deps ! i) j + waiting deps (insert i done) j"
proof -
  have "{..<length deps} - done = insert i ({..<length deps} - insert i done)"
    using assms by blast
  then have "waiting deps done j =
      (\<Sum>d \<in> insert i ({..<length deps} - insert i done). count_list (deps ! d) j)"
    by (simp only: waiting_def)
  also have "\<dots> = count_list (deps ! i) j + waiting deps (insert i done) j"
    unfolding waiting_def by (rule sum.insert) simp_all
  finally show ?thesis .
qed

lemma waiting_zero:
  "waiting deps done j = 0 \<longleftrightarrow> (\<forall>d < length deps. d \<notin> done \<longrightarrow> j \<notin> set (deps ! d))"
  by (auto simp: waiting_def count_list_0_iff)

lemma kahn_step:
  assumes ok: "kahn_ok deps degrees (i # queue) order"
  shows "\<exists>degrees' queue'. release (deps ! i) (degrees, queue) = Some (degrees', queue') \<and>
    kahn_ok deps degrees' queue' (order @ [i])"
proof -
  let ?n = "length deps"
  have i: "i < ?n" "i \<notin> set order" "i \<notin> set queue" "degrees ! i = 0"
    and len: "length degrees = ?n"
    and inside: "\<And>d j. d < ?n \<Longrightarrow> j \<in> set (deps ! d) \<Longrightarrow> j < ?n"
    and dist: "distinct (order @ i # queue)" "set (order @ i # queue) \<subseteq> {..<?n}"
    and deg: "\<And>j. j < ?n \<Longrightarrow> degrees ! j = waiting deps (set order) j"
    and zero: "\<And>j. j < ?n \<Longrightarrow> j \<in> set (order @ i # queue) \<longleftrightarrow> degrees ! j = 0"
    and topo: "\<And>d k. k < length order \<Longrightarrow> (d, order ! k) \<in> points_to deps \<Longrightarrow> d \<in> set (take k order)"
    using ok by (auto simp: kahn_ok_def)
  have split: "degrees ! j = count_list (deps ! i) j + waiting deps (insert i (set order)) j"
    if "j < ?n" for j
    using deg [OF that] waiting_insert [OF i(1,2)] by simp
  have "\<exists>degrees' queue'. release (deps ! i) (degrees, queue) = Some (degrees', queue @ queue') \<and>
      length degrees' = length degrees \<and>
      (\<forall>j < length degrees. degrees' ! j = degrees ! j - count_list (deps ! i) j) \<and>
      distinct (queue @ queue') \<and>
      set queue' = {j \<in> set (deps ! i). degrees ! j = count_list (deps ! i) j}"
  proof (rule release_spec)
    show "j < length degrees \<and> count_list (deps ! i) j \<le> degrees ! j" if "j \<in> set (deps ! i)" for j
      using inside [OF i(1) that] split [of j] len by simp
    show "distinct queue" using dist(1) by simp
    show "j \<notin> set (deps ! i)" if "j \<in> set queue" for j
    proof -
      have "j < ?n" using that dist(2) by auto
      with zero [of j] that split [of j] have "count_list (deps ! i) j = 0" by simp
      then show ?thesis by (simp add: count_list_0_iff)
    qed
  qed
  then obtain degrees' queue' where run:
      "release (deps ! i) (degrees, queue) = Some (degrees', queue @ queue')"
      "length degrees' = length degrees"
      "\<And>j. j < ?n \<Longrightarrow> degrees' ! j = degrees ! j - count_list (deps ! i) j"
      "distinct (queue @ queue')"
      "set queue' = {j \<in> set (deps ! i). degrees ! j = count_list (deps ! i) j}"
    using len by auto
  have deg': "degrees' ! j = waiting deps (set (order @ [i])) j" if "j < ?n" for j
    using run(3) [OF that] split [OF that] by simp
  have new_pos: "degrees ! j \<noteq> 0 \<and> j < ?n" if "j \<in> set queue'" for j
    using that run(5) inside [OF i(1)] by (auto simp: count_list_0_iff)
  have fresh: "j \<notin> set order \<and> j \<noteq> i" if "j \<in> set queue'" for j
    using new_pos [OF that] zero [of j] by auto
  have "kahn_ok deps degrees' (queue @ queue') (order @ [i])"
    unfolding kahn_ok_def
  proof (intro conjI)
    show "length degrees' = ?n" using run(2) len by simp
    show "\<forall>ds\<in>set deps. set ds \<subseteq> {..<?n}" using ok by (simp add: kahn_ok_def)
    show "distinct ((order @ [i]) @ queue @ queue')"
      using dist(1) run(4) fresh by auto
    show "set ((order @ [i]) @ queue @ queue') \<subseteq> {..<?n}"
      using dist(2) new_pos by auto
    show "\<forall>j < ?n. degrees' ! j = waiting deps (set (order @ [i])) j" using deg' by blast
    show "\<forall>j < ?n. j \<in> set ((order @ [i]) @ queue @ queue') \<longleftrightarrow> degrees' ! j = 0"
    proof (intro allI impI)
      fix j assume j: "j < ?n"
      have "degrees' ! j = 0 \<longleftrightarrow> degrees ! j = 0 \<or> j \<in> set queue'"
        using run(3) [OF j] split [OF j] by (auto simp: run(5) count_list_0_iff)
      with zero [OF j] show "j \<in> set ((order @ [i]) @ queue @ queue') \<longleftrightarrow> degrees' ! j = 0" by auto
    qed
    show "\<forall>d k. k < length (order @ [i]) \<longrightarrow> (d, (order @ [i]) ! k) \<in> points_to deps \<longrightarrow>
        d \<in> set (take k (order @ [i]))"
    proof (intro allI impI)
      fix d k
      assume k: "k < length (order @ [i])" and edge: "(d, (order @ [i]) ! k) \<in> points_to deps"
      show "d \<in> set (take k (order @ [i]))"
      proof (cases "k < length order")
        case True
        with topo [of k d] edge show ?thesis by (simp add: nth_append)
      next
        case False
        with k have k': "k = length order" by simp
        with edge have "d < ?n" "i \<in> set (deps ! d)" by (auto simp: points_to_def)
        with i(4) deg [OF i(1)] waiting_zero [of deps "set order" i] have "d \<in> set order" by auto
        with k' show ?thesis by simp
      qed
    qed
  qed
  with run(1) show ?thesis by blast
qed

lemma kahn_spec:
  "kahn_ok deps degrees queue order \<Longrightarrow>
     \<exists>order' degrees'. kahn deps degrees queue order = Some order' \<and> kahn_ok deps degrees' [] order'"
proof (induction deps degrees queue order rule: kahn.induct)
  case (1 deps degrees order)
  then show ?case by auto
next
  case (2 deps degrees i queue order)
  from kahn_step [OF 2(2)] obtain degrees' queue' where step:
      "release (deps ! i) (degrees, queue) = Some (degrees', queue')"
      "kahn_ok deps degrees' queue' (order @ [i])"
    by blast
  with 2(1) [OF step(1) refl step(2)] show ?case by simp
qed

text \<open>The nodes that are not reached each wait for another one: some of them form a cycle.\<close>

lemma cycle_among_waiting:
  assumes "finite U" and "U \<noteq> {}" and "\<And>i. i \<in> U \<Longrightarrow> \<exists>d \<in> U. (d, i) \<in> r"
  shows "\<not> acyclic r"
proof
  assume "acyclic r"
  then have "acyclic (r \<inter> U \<times> U)" by (rule acyclic_subset) simp
  with assms(1) have "wf (r \<inter> U \<times> U)" by (intro finite_acyclic_wf) auto
  with assms(2) obtain i where "i \<in> U" "\<And>d. (d, i) \<in> r \<inter> U \<times> U \<Longrightarrow> d \<notin> U"
    by (metis wf_eq_minimal ex_in_conv)
  with assms(3) show False by blast
qed

lemma dependency_order_spec:
  assumes "graph_ok g"
  shows "\<exists>order. dependency_order g = Some order \<and> distinct order \<and>
    set order \<subseteq> {..<length (indegree g)} \<and>
    (\<forall>d k. k < length order \<longrightarrow> (d, order ! k) \<in> points_to (dependents g) \<longrightarrow> d \<in> set (take k order)) \<and>
    (length order = length (indegree g) \<longleftrightarrow> acyclic (points_to (dependents g)))"
 proof -
  let ?deps = "dependents g" and ?n = "length (indegree g)"
  have len: "length ?deps = ?n"
    and deg: "\<And>i. i < ?n \<Longrightarrow> indegree g ! i = waiting ?deps {} i"
    and inside: "\<And>ds i. ds \<in> set ?deps \<Longrightarrow> i \<in> set ds \<Longrightarrow> i < ?n"
    using assms by (auto simp: graph_ok_def)
  have "kahn_ok ?deps (indegree g) (ready (indegree g)) []"
    using len deg inside by (auto simp: kahn_ok_def ready_def)
  from kahn_spec [OF this] obtain order degrees where
      run: "dependency_order g = Some order" and ok: "kahn_ok ?deps degrees [] order"
    by (auto simp: dependency_order_def)
  have order: "distinct order" "set order \<subseteq> {..<?n}"
      "\<And>i. i < ?n \<Longrightarrow> i \<in> set order \<longleftrightarrow> waiting ?deps (set order) i = 0"
    and topo: "\<And>d k. k < length order \<Longrightarrow> (d, order ! k) \<in> points_to ?deps \<Longrightarrow> d \<in> set (take k order)"
    using ok len by (auto simp: kahn_ok_def)
  have "length order = ?n" if "acyclic (points_to ?deps)"
  proof -
    have "{..<?n} - set order = {}"
    proof (rule ccontr)
      assume "{..<?n} - set order \<noteq> {}"
      moreover have "\<exists>d \<in> {..<?n} - set order. (d, i) \<in> points_to ?deps"
        if "i \<in> {..<?n} - set order" for i
        using that order(3) [of i] len by (auto simp: waiting_zero points_to_def)
      ultimately show False
        using cycle_among_waiting [of "{..<?n} - set order" "points_to ?deps"] that by blast
    qed
    with order(2) have "set order = {..<?n}" by blast
    with distinct_card [OF order(1)] show ?thesis by simp
  qed
  moreover have "acyclic (points_to ?deps)" if full: "length order = ?n"
  proof -
    define pos where "pos i = length (takeWhile (\<lambda>j. j \<noteq> i) order)" for i
    have pos: "pos (order ! k) = k" if "k < length order" for k
    proof -
      have "takeWhile (\<lambda>j. j \<noteq> order ! k) order = take k order"
        using that order(1) by (intro takeWhile_eq_take_P_nth) (auto simp: nth_eq_iff_index_eq)
      with that show ?thesis by (simp add: pos_def)
    qed
    have all: "set order = {..<?n}"
      using order(1,2) full by (simp add: card_subset_eq distinct_card)
    have "points_to ?deps \<subseteq> measure pos"
    proof clarify
      fix d i assume edge: "(d, i) \<in> points_to ?deps"
      then have "i < ?n"
        using inside [of "?deps ! d" i] len by (simp add: points_to_def)
      with all obtain k where k: "k < length order" "order ! k = i"
        by (metis in_set_conv_nth lessThan_iff)
      with topo edge have "d \<in> set (take k order)" by blast
      then obtain m where "m < k" "order ! m = d" by (auto simp: in_set_conv_nth)
      with pos [of m] pos [of k] k show "(d, i) \<in> measure pos" by simp
    qed
    then show ?thesis by (metis wf_measure wf_subset wf_acyclic)
  qed
  ultimately show ?thesis using run order(1,2) topo by blast
qed

section \<open>Building the graph\<close>

lemma index_of_snoc: "index_of f (xs @ [x]) = bt_insert (f x) (length xs) (index_of f xs)"
  by (simp add: index_of_def enumerate_append_eq)

lemma index_of_Some: "bt_get (index_of f xs) k = Some i \<Longrightarrow> i < length xs \<and> f (xs ! i) = k"
proof (induction xs rule: rev_induct)
  case Nil
  then show ?case by (simp add: index_of_def)
next
  case (snoc x xs)
  then show ?case by (auto simp: index_of_snoc nth_append split: if_splits)
qed

lemma index_of_None: "bt_get (index_of f xs) k = None \<longleftrightarrow> k \<notin> f ` set xs"
  by (induction xs rule: rev_induct) (auto simp: index_of_snoc, simp add: index_of_def)

lemma index_of_distinct:
  assumes "distinct (map f xs)" and "i < length xs"
  shows "bt_get (index_of f xs) (f (xs ! i)) = Some i"
proof -
  have "bt_get (index_of f xs) (f (xs ! i)) \<noteq> None"
    using assms(2) by (simp add: index_of_None)
  then obtain j where j: "bt_get (index_of f xs) (f (xs ! i)) = Some j" by blast
  from index_of_Some [OF this] assms have "j = i"
    by (metis distinct_map inj_on_eq_iff nth_eq_iff_index_eq nth_mem)
  with j show ?thesis by simp
qed

lemma bt_len_card: "bt_len m = card {k. bt_get m k \<noteq> None}"
proof -
  have "{k. bt_get m k \<noteq> None} = set (map fst (bt_entries m))"
    by (force simp: bt_entries_iff [symmetric])
  then show ?thesis
    by (simp add: bt_len_def distinct_card [OF distinct_fst_entries, simplified])
qed

lemma bt_len_index_of: "bt_len (index_of f xs) = length xs \<longleftrightarrow> distinct (map f xs)"
proof -
  have "{k. bt_get (index_of f xs) k \<noteq> None} = set (map f xs)"
    by (auto simp: index_of_None)
  then have "bt_len (index_of f xs) = card (set (map f xs))" by (simp add: bt_len_card)
  then show ?thesis by (metis card_distinct distinct_card length_map)
qed

text \<open>What one dependency adds to the graph, and what a whole run does.\<close>

definition graph_inv :: "nat \<Rightarrow> graph \<Rightarrow> bool" where
  "graph_inv n g \<longleftrightarrow> graph_ok g \<and> length (indegree g) = n"

lemma link_dependency_ok:
  assumes "link_dependency by_name label index g dep = Inr g'" and "graph_inv n g" and "index < n"
    and "\<And>d. bt_get by_name dep = Some d \<Longrightarrow> d < n"
  shows "graph_inv n g' \<and> (\<exists>d. bt_get by_name dep = Some d \<and> d \<noteq> index \<and>
    points_to (dependents g') = insert (d, index) (points_to (dependents g)))"
proof -
  from assms(1) obtain d where d: "bt_get by_name dep = Some d" "d \<noteq> index"
    and g': "g' = \<lparr>indegree = (indegree g)[index := indegree g ! index + 1],
                dependents = (dependents g)[d := dependents g ! d @ [index]]\<rparr>"
    by (auto simp: link_dependency_def split: option.splits if_splits)
  have dn: "d < n" using assms(4) d(1) .
  have ok: "length (dependents g) = n" "length (indegree g) = n"
      "\<And>i. i < n \<Longrightarrow> indegree g ! i = waiting (dependents g) {} i"
      "\<And>ds i. ds \<in> set (dependents g) \<Longrightarrow> i \<in> set ds \<Longrightarrow> i < n"
    using assms(2) by (auto simp: graph_inv_def graph_ok_def)
  have wait: "waiting (dependents g') {} i = waiting (dependents g) {} i + of_bool (i = index)" for i
  proof -
    have "waiting (dependents g') {} i =
        (\<Sum>e < n. count_list (dependents g ! e) i + (if e = d then of_bool (i = index) else 0))"
      unfolding waiting_def g' using ok(1) dn by (auto intro!: sum.cong simp: nth_list_update)
    also have "\<dots> = waiting (dependents g) {} i + of_bool (i = index)"
      using dn ok(1) by (simp add: sum.distrib waiting_def)
    finally show ?thesis .
  qed
  have "graph_ok g'"
    unfolding graph_ok_def
  proof (intro conjI allI impI ballI)
    show "length (indegree g') = length (dependents g')" using ok by (simp add: g')
    show "indegree g' ! i = waiting (dependents g') {} i" if "i < length (indegree g')" for i
      using that ok wait [of i] by (simp add: g' nth_list_update)
    show "i < length (indegree g')" if "ds \<in> set (dependents g')" "i \<in> set ds" for ds i
      using that ok(2) ok(4) [of "dependents g ! d" i] ok(4) [of ds i] ok(1) dn assms(3)
      by (auto simp: g' dest!: set_update_subset_insert [THEN subsetD])
  qed
  moreover have "points_to (dependents g') = insert (d, index) (points_to (dependents g))"
    using dn ok(1) by (auto simp: points_to_def g' nth_list_update split: if_splits)
  ultimately show ?thesis using d ok(2) by (simp add: graph_inv_def g')
qed

lemma link_all_ok:
  assumes "try_fold (link_dependency by_name label index) g deps = Inr g'" and "graph_inv n g"
    and "index < n" and "\<And>dep d. bt_get by_name dep = Some d \<Longrightarrow> d < n"
  shows "graph_inv n g' \<and>
    points_to (dependents g') =
      points_to (dependents g) \<union> {(d, index) |d. \<exists>dep \<in> set deps. bt_get by_name dep = Some d} \<and>
    (\<forall>dep \<in> set deps. \<exists>d. bt_get by_name dep = Some d \<and> d \<noteq> index)"
  using assms(1,2)
proof (induction deps arbitrary: g)
  case (Cons dep deps)
  then obtain g1 where g1: "link_dependency by_name label index g dep = Inr g1"
    and rest: "try_fold (link_dependency by_name label index) g1 deps = Inr g'"
    by auto
  have "d < n" if "bt_get by_name dep = Some d" for d using assms(4) that .
  from link_dependency_ok [OF g1 Cons.prems(2) assms(3) this] obtain d where
      "graph_inv n g1" "bt_get by_name dep = Some d" "d \<noteq> index"
      "points_to (dependents g1) = insert (d, index) (points_to (dependents g))"
    by blast
  with Cons.IH [OF rest] show ?case by auto
qed simp

definition needs_edge :: "('a \<Rightarrow> string) \<Rightarrow> ('a \<Rightarrow> string list) \<Rightarrow> 'a list \<Rightarrow> (nat \<times> nat) set" where
  "needs_edge name needs xs =
     {(d, i). i < length xs \<and> (\<exists>dep \<in> set (needs (xs ! i)). bt_get (index_of name xs) dep = Some d)}"

lemma build_graph_spec:
  assumes "build_graph name label needs xs = Inr g"
  shows "graph_ok g \<and> length (indegree g) = length xs \<and>
    points_to (dependents g) = needs_edge name needs xs \<and>
    (\<forall>i < length xs. \<forall>dep \<in> set (needs (xs ! i)).
       \<exists>d. bt_get (index_of name xs) dep = Some d \<and> d < length xs \<and> d \<noteq> i)"
proof -
  define n where "n = length xs"
  define m where "m = index_of name xs"
  define start where "start = \<lparr>indegree = replicate n 0, dependents = replicate n ([] :: nat list)\<rparr>"
  have small: "bt_get m dep = Some d \<Longrightarrow> d < n" for dep d
    using index_of_Some [of name xs dep d] by (simp add: m_def n_def)
  have "graph_inv n g \<and>
      points_to (dependents g) = points_to (dependents start) \<union>
        {(d, k + i) |d i. i < length ys \<and> (\<exists>dep \<in> set (needs (ys ! i)). bt_get m dep = Some d)} \<and>
      (\<forall>i < length ys. \<forall>dep \<in> set (needs (ys ! i)). \<exists>d. bt_get m dep = Some d \<and> d \<noteq> k + i)"
    if "try_fold (\<lambda>g (index, x). try_fold (link_dependency m (label x) index) g (needs x)) start
          (List.enumerate k ys) = Inr g" "graph_inv n start" "k + length ys \<le> n"
    for ys k start g
    using that
  proof (induction ys arbitrary: k start)
    case Nil
    then show ?case by simp
  next
    case (Cons y ys)
    then obtain g1 where g1: "try_fold (link_dependency m (label y) k) start (needs y) = Inr g1"
      and rest: "try_fold (\<lambda>g (index, x). try_fold (link_dependency m (label x) index) g (needs x)) g1
          (List.enumerate (Suc k) ys) = Inr g"
      by auto
    have first: "graph_inv n g1 \<and>
        points_to (dependents g1) =
          points_to (dependents start) \<union> {(d, k) |d. \<exists>dep \<in> set (needs y). bt_get m dep = Some d} \<and>
        (\<forall>dep \<in> set (needs y). \<exists>d. bt_get m dep = Some d \<and> d \<noteq> k)"
      using g1 Cons.prems(2,3) by (intro link_all_ok) (auto simp: small)
    with Cons.IH [OF rest] Cons.prems(3) have later: "graph_inv n g \<and>
        points_to (dependents g) = points_to (dependents g1) \<union>
          {(d, Suc k + i) |d i. i < length ys \<and> (\<exists>dep \<in> set (needs (ys ! i)). bt_get m dep = Some d)} \<and>
        (\<forall>i < length ys. \<forall>dep \<in> set (needs (ys ! i)). \<exists>d. bt_get m dep = Some d \<and> d \<noteq> Suc k + i)"
      by simp
    have "{(d, k + i) |d i. i < length (y # ys) \<and>
          (\<exists>dep \<in> set (needs ((y # ys) ! i)). bt_get m dep = Some d)} =
        {(d, k) |d. \<exists>dep \<in> set (needs y). bt_get m dep = Some d} \<union>
        {(d, Suc k + i) |d i. i < length ys \<and> (\<exists>dep \<in> set (needs (ys ! i)). bt_get m dep = Some d)}"
      by (auto simp: less_Suc_eq_0_disj)
    with first later show ?case by (auto simp: less_Suc_eq_0_disj)
  qed
  note folded = this [of start 0 xs g]
  have "graph_inv n start" and "points_to (dependents start) = {}"
    by (auto simp: start_def graph_inv_def graph_ok_def waiting_def points_to_def)
  with folded assms show ?thesis
    using small
    by (simp add: build_graph_def m_def [symmetric] n_def [symmetric] start_def [symmetric]
        graph_inv_def needs_edge_def) blast
qed

lemma index_of_unknown:
  "bt_get (index_of name xs) dep = None \<Longrightarrow> i < length xs \<Longrightarrow> name (xs ! i) \<noteq> dep"
  by (auto simp: index_of_None)

text \<open>The graph exists when every dependency is known and none is the node itself.\<close>

lemma build_graph_succeeds:
  assumes "\<And>i dep. i < length xs \<Longrightarrow> dep \<in> set (needs (xs ! i)) \<Longrightarrow>
    \<exists>d. bt_get (index_of name xs) dep = Some d \<and> d \<noteq> i"
  shows "\<exists>g. build_graph name label needs xs = Inr g"
  unfolding build_graph_def
proof (rule try_fold_total, clarify)
  fix i x g assume "(i, x) \<in> set (List.enumerate 0 xs)"
  then have "i < length xs" "x = xs ! i" by (auto simp: in_set_enumerate_eq)
  with assms [of i] show "\<exists>g'. try_fold (link_dependency (index_of name xs) (label x) i) g (needs x) = Inr g'"
    by (intro try_fold_total) (force simp: link_dependency_def)
qed

text \<open>A list in which every node stands after the nodes it needs has a graph without cycles.\<close>

lemma listed_after_needs:
  assumes "distinct (map name xs)"
    and "\<And>i. i < length xs \<Longrightarrow> set (needs (xs ! i)) \<subseteq> name ` set (take i xs)"
  shows "\<exists>g. build_graph name label needs xs = Inr g" and "acyclic (needs_edge name needs xs)"
proof -
  have before: "\<exists>d < i. bt_get (index_of name xs) dep = Some d"
    if "i < length xs" "dep \<in> set (needs (xs ! i))" for i dep
  proof -
    from assms(2) [OF that(1)] that(2) obtain x where "x \<in> set (take i xs)" "dep = name x" by blast
    then obtain d where "d < i" "dep = name (xs ! d)" by (auto simp: in_set_conv_nth)
    with that(1) index_of_distinct [OF assms(1), of d] show ?thesis by auto
  qed
  then show "\<exists>g. build_graph name label needs xs = Inr g"
    by (intro build_graph_succeeds) fastforce
  have "needs_edge name needs xs \<subseteq> less_than"
    using before by (fastforce simp: needs_edge_def)
  then show "acyclic (needs_edge name needs xs)"
    by (metis wf_acyclic wf_less_than wf_subset)
qed

text \<open>Adding a node that nothing needs adds no cycle.\<close>

lemma acyclic_sink:
  assumes "acyclic r" and "\<And>a b. (a, b) \<in> e \<Longrightarrow> a \<noteq> n \<and> (b \<noteq> n \<longrightarrow> (a, b) \<in> r)"
  shows "acyclic e"
proof -
  have path: "b \<noteq> n \<Longrightarrow> (a, b) \<in> r\<^sup>+" if "(a, b) \<in> e\<^sup>+" for a b
    using that by (induction rule: trancl_induct) (use assms(2) in \<open>fastforce intro: trancl_into_trancl\<close>)+
  have "(a, a) \<notin> e\<^sup>+" for a
  proof
    assume cycle: "(a, a) \<in> e\<^sup>+"
    then obtain b where "(a, b) \<in> e" by (blast dest: tranclD)
    with assms(2) have "a \<noteq> n" by blast
    with path [OF cycle] assms(1) show False by (simp add: acyclic_def)
  qed
  then show ?thesis by (simp add: acyclic_def)
qed

lemma acyclic_appended:
  assumes "acyclic (needs_edge name needs xs)" and "name y \<notin> name ` set xs"
    and "\<And>x. x \<in> insert y (set xs) \<Longrightarrow> name y \<notin> set (needs x)"
  shows "acyclic (needs_edge name needs (xs @ [y]))"
proof (rule acyclic_sink [OF assms(1)])
  fix a b assume "(a, b) \<in> needs_edge name needs (xs @ [y])"
  then obtain dep where b: "b < Suc (length xs)" and dep: "dep \<in> set (needs ((xs @ [y]) ! b))"
    and a: "bt_get (bt_insert (name y) (length xs) (index_of name xs)) dep = Some a"
    by (auto simp: needs_edge_def index_of_snoc)
  have "(xs @ [y]) ! b \<in> set (xs @ [y])" using b by (intro nth_mem) simp
  with assms(3) dep have "dep \<noteq> name y" by auto
  with a have a': "bt_get (index_of name xs) dep = Some a" by (simp split: if_splits)
  with index_of_Some [OF a'] b dep
  show "a \<noteq> length xs \<and> (b \<noteq> length xs \<longrightarrow> (a, b) \<in> needs_edge name needs xs)"
    by (auto simp: needs_edge_def nth_append split: if_splits)
qed

end
