(* ===== verification/Scheduler.thy ===== *)
theory Scheduler
  imports Working_Time Org_State Dependency_Graph
begin

text \<open>
  The scheduler (\<open>src/application/scheduler.rs\<close>): along a dependency order it computes each task's
  estimate from its owner's calendar and the finish of its dependencies, and the longest path to
  it. \<open>schedule\<close> works on a plan's drafts, \<open>reschedule\<close> on a running flow.
\<close>

section \<open>Estimates\<close>

definition assignment_capacity :: "assignment \<Rightarrow> org_state \<Rightarrow> f64" where
  "assignment_capacity a s =
     (if target_kind (assignment_owner a) = Team then f64_lit 1 1
      else case bt_get (principals s) (target_id (assignment_owner a)) of
             Some p \<Rightarrow> f64_div (f64_of_int (uint (principal_capacity_percent p))) (f64_lit 100 1)
           | None \<Rightarrow> f64_lit 1 1)"

definition assignment_calendar :: "assignment \<Rightarrow> org_state \<Rightarrow> work_calendar option" where
  "assignment_calendar a s =
     (if target_kind (assignment_owner a) \<noteq> Team
      then bt_get (calendars s) (target_id (assignment_owner a)) else None)"

definition assignment_start :: "assignment \<Rightarrow> org_state \<Rightarrow> instant \<Rightarrow> instant result" where
  "assignment_start a s start =
     (case assignment_calendar a s of Some c \<Rightarrow> next_available c start | None \<Rightarrow> Inr start)"

text \<open>\<open>hours\<close>: a duration, in nanoseconds; without a calendar the work runs on continuously.\<close>

definition hours_ns :: "f64 \<Rightarrow> int" where
  "hours_ns value = hours_to_ms (f64_max value (f64_lit 0 1)) * ms_ns"

definition assignment_finish :: "assignment \<Rightarrow> org_state \<Rightarrow> instant \<Rightarrow> f64 \<Rightarrow> instant result" where
  "assignment_finish a s start working_hours =
     (case assignment_calendar a s of
        Some c \<Rightarrow> add_working_hours c start working_hours
      | None \<Rightarrow> Inr (start + hours_ns working_hours))"

definition assignment_calendar_rationale :: "assignment \<Rightarrow> org_state \<Rightarrow> string" where
  "assignment_calendar_rationale a s =
     (case assignment_calendar a s of
        None \<Rightarrow> ''work calendar: continuous team availability''
      | Some c \<Rightarrow> ''work calendar: '' @ calendar_summary c)"

definition round_hours :: "f64 \<Rightarrow> f64" where
  "round_hours value = f64_div (f64_round (f64_mul value (f64_lit 100 1))) (f64_lit 100 1)"

definition coordination_factor :: "string list \<Rightarrow> bool \<Rightarrow> f64" where
  "coordination_factor depends_on requires_human =
     f64_add (f64_add (f64_lit 1 1) (if 1 < length depends_on then f64_lit 1 10 else f64_lit 0 1))
       (if requires_human then f64_lit 8 100 else f64_lit 0 1)"

definition p50_of :: "f64 \<Rightarrow> f64 \<Rightarrow> f64 \<Rightarrow> f64" where
  "p50_of effort capacity factor = round_hours (f64_mul (f64_div effort capacity) factor)"

definition p80_of :: "f64 \<Rightarrow> f64" where
  "p80_of p50 = round_hours (f64_mul p50 (f64_lit 14 10))"

text \<open>The latest finish of the dependencies already estimated, and the longest path to them.\<close>

definition dependency_start :: "(string, estimate) btree \<Rightarrow> string list \<Rightarrow> instant \<Rightarrow> instant" where
  "dependency_start estimates depends_on now =
     (case list_max (map estimate_p80_finish (List.map_filter (bt_get estimates) depends_on)) of
        Some t \<Rightarrow> t | None \<Rightarrow> now)"

definition dependency_path ::
    "(string, estimate) btree \<Rightarrow> (string, string list) btree \<Rightarrow> string list \<Rightarrow> string list" where
  "dependency_path estimates paths depends_on =
     (case max_by_key fst (List.map_filter (\<lambda>d.
             case (bt_get estimates d, bt_get paths d) of
               (Some e, Some p) \<Rightarrow> Some (estimate_p80_finish e, p) | _ \<Rightarrow> None) depends_on) of
        Some (_, path) \<Rightarrow> path | None \<Rightarrow> [])"

text \<open>The loop over the order, for any way of estimating a node.\<close>

type_synonym estimates_and_paths = "(string, estimate) btree \<times> (string, string list) btree"

definition estimate_node ::
    "('a \<Rightarrow> string) \<Rightarrow> ('a \<Rightarrow> string) \<Rightarrow> ('a \<Rightarrow> string list)
      \<Rightarrow> ((string, estimate) btree \<Rightarrow> 'a \<Rightarrow> estimate result)
      \<Rightarrow> 'a list \<Rightarrow> estimates_and_paths \<Rightarrow> nat \<Rightarrow> estimates_and_paths result" where
  "estimate_node name label needs est xs = (\<lambda>(estimates, paths) index.
     and_then (est estimates (xs ! index)) (\<lambda>e.
       Inr (bt_insert (name (xs ! index)) e estimates,
            bt_insert (name (xs ! index))
              (dependency_path estimates paths (needs (xs ! index)) @ [label (xs ! index)]) paths)))"

definition cycle_error :: relay_error where
  "cycle_error = relay_error.Validation ''task dependency graph contains a cycle''"

text \<open>\<open>dependency_order\<close> is never \<open>None\<close> on a graph that \<open>build_graph\<close> returns.\<close>

definition ordered_estimates ::
    "('a \<Rightarrow> string) \<Rightarrow> ('a \<Rightarrow> string) \<Rightarrow> ('a \<Rightarrow> string list)
      \<Rightarrow> ((string, estimate) btree \<Rightarrow> 'a \<Rightarrow> estimate result)
      \<Rightarrow> 'a list \<Rightarrow> estimates_and_paths result" where
  "ordered_estimates name label needs est xs =
     and_then (build_graph name label needs xs) (\<lambda>g.
       case dependency_order g of
         None \<Rightarrow> Inl cycle_error
       | Some order \<Rightarrow>
           if length order \<noteq> length xs then Inl cycle_error
           else try_fold (estimate_node name label needs est xs) (bt_empty, bt_empty) order)"

section \<open>schedule\<close>

record schedule_outcome =
  schedule_tasks :: "task list"
  schedule_p50_finish :: instant
  schedule_p80_finish :: instant
  schedule_critical_path :: "string list"

definition draft_estimate ::
    "org_state \<Rightarrow> (string, assignment) btree \<Rightarrow> instant \<Rightarrow> (string, estimate) btree \<Rightarrow> task_draft
      \<Rightarrow> estimate result" where
  "draft_estimate s assignments now estimates d =
     and_then (ok_or (bt_get assignments (task_draft_key d))
                (NoEligibleAssignee (task_draft_title d))) (\<lambda>a.
     let capacity = f64_max (assignment_capacity a s) (f64_lit 1 10);
         factor = coordination_factor (task_draft_depends_on d) (task_draft_requires_human d);
         p50 = p50_of (task_draft_effort_hours d) capacity factor;
         p80 = p80_of p50 in
     and_then (assignment_start a s (dependency_start estimates (task_draft_depends_on d) now)) (\<lambda>start.
     and_then (assignment_finish a s start p50) (\<lambda>p50_finish.
     and_then (assignment_finish a s start p80) (\<lambda>p80_finish.
       Inr \<lparr>estimate_effort_hours = task_draft_effort_hours d,
            estimate_p50_hours = p50,
            estimate_p80_hours = p80,
            estimate_confidence = ''medium'',
            estimate_rationale =
              [''base effort: '' @ show_f64 1 (task_draft_effort_hours d) @ ''h'',
               ''owner capacity factor: '' @ show_f64 2 capacity,
               ''coordination factor: '' @ show_f64 2 factor,
               assignment_calendar_rationale a s],
            estimate_earliest_start = start,
            estimate_p50_finish = p50_finish,
            estimate_p80_finish = p80_finish\<rparr>))))"

definition task_ids :: "(nat \<Rightarrow> string) \<Rightarrow> task_draft list \<Rightarrow> (string, string) btree" where
  "task_ids fresh drafts =
     fold (\<lambda>(i, d). bt_insert (task_draft_key d) (fresh i)) (List.enumerate 0 drafts) bt_empty"

definition task_of_draft ::
    "(string, string) btree \<Rightarrow> (string, assignment) btree \<Rightarrow> (string, estimate) btree \<Rightarrow> task_draft
      \<Rightarrow> task" where
  "task_of_draft ids assignments estimates d =
     \<lparr>task_id = the (bt_get ids (task_draft_key d)),
      task_key = task_draft_key d,
      task_title = task_draft_title d,
      task_description = task_draft_description d,
      task_required_capabilities = task_draft_required_capabilities d,
      task_depends_on = map (\<lambda>k. the (bt_get ids k)) (task_draft_depends_on d),
      task_requires_human = task_draft_requires_human d,
      task_acceptance_criteria = task_draft_acceptance_criteria d,
      task_assignment = bt_get assignments (task_draft_key d),
      task_estimate = the (bt_get estimates (task_draft_key d)),
      task_status = task_status.Proposed,
      task_blocker = None,
      task_last_heartbeat = None,
      task_evidence = [],
      task_external_artifacts = []\<rparr>"

definition schedule ::
    "(nat \<Rightarrow> string) \<Rightarrow> instant \<Rightarrow> task_draft list \<Rightarrow> (string, assignment) btree \<Rightarrow> org_state
      \<Rightarrow> schedule_outcome result" where
  "schedule fresh now drafts assignments s =
     (if drafts = [] then Inl (relay_error.Validation ''a plan must contain at least one task'')
      else if bt_len (index_of task_draft_key drafts) \<noteq> length drafts
      then Inl (relay_error.Validation ''task keys must be unique'')
      else
        and_then (ordered_estimates task_draft_key task_draft_key task_draft_depends_on
                    (draft_estimate s assignments now) drafts) (\<lambda>(estimates, paths).
        let ts = map (task_of_draft (task_ids fresh drafts) assignments estimates) drafts in
        Inr \<lparr>schedule_tasks = ts,
             schedule_p50_finish =
               (case list_max (map (estimate_p50_finish \<circ> task_estimate) ts) of
                  Some t \<Rightarrow> t | None \<Rightarrow> now),
             schedule_p80_finish =
               (case list_max (map (estimate_p80_finish \<circ> task_estimate) ts) of
                  Some t \<Rightarrow> t | None \<Rightarrow> now),
             schedule_critical_path =
               (case max_by_key (estimate_p80_finish \<circ> task_estimate) ts of
                  Some t \<Rightarrow> (case bt_get paths (task_key t) of Some p \<Rightarrow> p | None \<Rightarrow> [])
                | None \<Rightarrow> [])\<rparr>))"

section \<open>reschedule\<close>

record reschedule_outcome =
  reschedule_task_estimates :: "(string, estimate) btree"
  reschedule_p50_finish :: instant
  reschedule_p80_finish :: instant
  reschedule_critical_path :: "string list"

definition preserved_note :: string where
  "preserved_note = ''terminal task preserved as an actual waypoint''"

definition task_reestimate ::
    "text_functions \<Rightarrow> org_state \<Rightarrow> instant \<Rightarrow> (string, estimate) btree \<Rightarrow> task \<Rightarrow> estimate result" where
  "task_reestimate tx s now estimates t =
     (let e = task_estimate t in
      if task_status_is_terminal (task_status t) then
        let finished_at = min (case task_last_heartbeat t of Some h \<Rightarrow> h | None \<Rightarrow> now) now in
        Inr (e\<lparr>estimate_earliest_start := finished_at,
               estimate_p50_finish := finished_at,
               estimate_p80_finish := finished_at,
               estimate_confidence := ''actual'',
               estimate_rationale :=
                 (if list_ex (\<lambda>r. r = preserved_note) (estimate_rationale e) then estimate_rationale e
                  else estimate_rationale e @ [preserved_note])\<rparr>)
      else
        and_then (ok_or (task_assignment t) (NoEligibleAssignee (task_title t))) (\<lambda>a.
        let capacity = f64_max (assignment_capacity a s) (f64_lit 1 10);
            factor = coordination_factor (task_depends_on t) (task_requires_human t);
            p50 = p50_of (estimate_effort_hours e) capacity factor;
            p80 = p80_of p50 in
        and_then (assignment_start a s
                   (max (dependency_start estimates (task_depends_on t) now) now)) (\<lambda>start.
        and_then (assignment_finish a s start p50) (\<lambda>p50_finish.
        and_then (assignment_finish a s start p80) (\<lambda>p80_finish.
          Inr (e\<lparr>estimate_p50_hours := p50,
                 estimate_p80_hours := p80,
                 estimate_earliest_start := start,
                 estimate_p50_finish := p50_finish,
                 estimate_p80_finish := p80_finish,
                 estimate_confidence := ''rescheduled'',
                 estimate_rationale :=
                   [''base effort: '' @ show_f64 1 (estimate_effort_hours e) @ ''h'',
                    ''owner capacity factor: '' @ show_f64 2 capacity,
                    ''coordination factor: '' @ show_f64 2 factor,
                    assignment_calendar_rationale a s,
                    ''dynamic schedule anchor: '' @ to_rfc3339 tx now]\<rparr>))))))"

definition reschedule ::
    "text_functions \<Rightarrow> flow \<Rightarrow> org_state \<Rightarrow> instant \<Rightarrow> reschedule_outcome result" where
  "reschedule tx f s now =
     (if flow_tasks f = []
      then Inl (relay_error.Validation ''a flow must contain at least one task'')
      else
        and_then (ordered_estimates task_id task_key task_depends_on (task_reestimate tx s now)
                    (flow_tasks f)) (\<lambda>(estimates, paths).
        let running = filter (\<lambda>t. \<not> task_status_is_terminal (task_status t)) (flow_tasks f);
            es = List.map_filter (\<lambda>t. bt_get estimates (task_id t)) running in
        Inr \<lparr>reschedule_task_estimates = estimates,
             reschedule_p50_finish =
               (case list_max (map estimate_p50_finish es) of Some t \<Rightarrow> t | None \<Rightarrow> now),
             reschedule_p80_finish =
               (case list_max (map estimate_p80_finish es) of Some t \<Rightarrow> t | None \<Rightarrow> now),
             reschedule_critical_path =
               dependency_path estimates paths (map task_id running)\<rparr>))"

section \<open>What the loop computes\<close>

text \<open>
  The nodes of an estimated list: every node has an estimate made from the estimates of its
  dependencies, which were final by then, and a path that is a chain of dependencies.
\<close>

fun dependency_chain :: "('a \<Rightarrow> string) \<Rightarrow> ('a \<Rightarrow> string) \<Rightarrow> ('a \<Rightarrow> string list) \<Rightarrow> 'a list \<Rightarrow> bool" where
  "dependency_chain name label needs [] = True"
| "dependency_chain name label needs [x] = True"
| "dependency_chain name label needs (x # y # ys) \<longleftrightarrow>
     name x \<in> set (needs y) \<and> dependency_chain name label needs (y # ys)"

lemma dependency_chain_snoc:
  "dependency_chain name label needs (xs @ [y]) \<longleftrightarrow>
     dependency_chain name label needs xs \<and> (xs = [] \<or> name (last xs) \<in> set (needs y))"
  by (induction name label needs xs rule: dependency_chain.induct) auto

lemma dependency_start_bound:
  assumes "d \<in> set deps" and "bt_get es d = Some e"
  shows "estimate_p80_finish e \<le> dependency_start es deps now"
proof -
  have "estimate_p80_finish e \<in> set (map estimate_p80_finish (List.map_filter (bt_get es) deps))"
    using assms by (force simp: List.map_filter_def)
  then show ?thesis
    by (auto simp: dependency_start_def split: option.splits dest!: max_by_key_Some)
qed

lemma dependency_path_cases:
  "dependency_path es ps deps = [] \<or>
     (\<exists>d \<in> set deps. bt_get ps d = Some (dependency_path es ps deps))"
proof -
  define f where "f = (\<lambda>d. case (bt_get es d, bt_get ps d) of
      (Some e, Some p) \<Rightarrow> Some (estimate_p80_finish e, p) | _ \<Rightarrow> None)"
  have def: "dependency_path es ps deps =
      (case max_by_key fst (List.map_filter f deps) of Some (_, path) \<Rightarrow> path | None \<Rightarrow> [])"
    by (simp add: dependency_path_def f_def)
  show ?thesis
  proof (cases "max_by_key fst (List.map_filter f deps)")
    case None
    then show ?thesis by (simp add: def)
  next
    case (Some tp)
    obtain t p where tp: "tp = (t, p)" by (cases tp)
    from max_by_key_Some [OF Some] obtain d where d: "d \<in> set deps" "f d = Some (t, p)"
      by (auto simp: List.map_filter_def tp)
    from d(2) have "bt_get ps d = Some p" by (auto simp: f_def split: option.splits)
    with d(1) Some tp show ?thesis by (auto simp: def)
  qed
qed

definition estimates_ok ::
    "('a \<Rightarrow> string) \<Rightarrow> ('a \<Rightarrow> string) \<Rightarrow> ('a \<Rightarrow> string list)
      \<Rightarrow> ((string, estimate) btree \<Rightarrow> 'a \<Rightarrow> estimate result)
      \<Rightarrow> 'a list \<Rightarrow> nat list \<Rightarrow> estimates_and_paths \<Rightarrow> bool" where
  "estimates_ok name label needs est xs order ep \<longleftrightarrow>
     (\<forall>k. bt_get (fst ep) k \<noteq> None \<longleftrightarrow> k \<in> (\<lambda>i. name (xs ! i)) ` set order) \<and>
     (\<forall>i \<in> set order. \<exists>es e. bt_get (fst ep) (name (xs ! i)) = Some e \<and> est es (xs ! i) = Inr e \<and>
        (\<forall>d \<in> set (needs (xs ! i)). \<exists>v. bt_get es d = Some v \<and> bt_get (fst ep) d = Some v)) \<and>
     (\<forall>k. bt_get (snd ep) k \<noteq> None \<longleftrightarrow> bt_get (fst ep) k \<noteq> None) \<and>
     (\<forall>i \<in> set order. \<exists>ns. bt_get (snd ep) (name (xs ! i)) = Some (map label (ns @ [xs ! i])) \<and>
        set ns \<subseteq> set xs \<and> dependency_chain name label needs (ns @ [xs ! i]))"

text \<open>
  One round, at a node that is not yet estimated and whose dependencies are. Names are distinct, so
  the round leaves every other estimate alone.
\<close>

lemma estimate_node_ok:
  assumes distinct: "distinct (map name xs)"
    and ok: "estimates_ok name label needs est xs order ep"
    and run: "estimate_node name label needs est xs ep i = Inr ep'"
    and i: "i < length xs" "i \<notin> set order" "set order \<subseteq> {..<length xs}"
    and deps: "set (needs (xs ! i)) \<subseteq> (\<lambda>j. name (xs ! j)) ` set order"
  shows "estimates_ok name label needs est xs (order @ [i]) ep'"
proof -
  obtain es ps where ep: "ep = (es, ps)" by (cases ep)
  from run obtain e where e: "est es (xs ! i) = Inr e"
    and ep': "ep' = (bt_insert (name (xs ! i)) e es,
        bt_insert (name (xs ! i)) (dependency_path es ps (needs (xs ! i)) @ [label (xs ! i)]) ps)"
    by (auto simp: estimate_node_def ep)
  have other: "name (xs ! j) \<noteq> name (xs ! i)" if "j \<in> set order" for j
  proof -
    from that i have "j < length xs" "j \<noteq> i" by auto
    with nth_eq_iff_index_eq [OF distinct, of j i] i(1) show ?thesis by simp
  qed
  have known: "bt_get es d \<noteq> None \<and> d \<noteq> name (xs ! i)" if "d \<in> set (needs (xs ! i))" for d
  proof -
    from that deps obtain j where "j \<in> set order" "d = name (xs ! j)" by blast
    with ok other show ?thesis by (auto simp: estimates_ok_def ep)
  qed
  have path: "\<exists>ns. dependency_path es ps (needs (xs ! i)) = map label ns \<and> set ns \<subseteq> set xs \<and>
      dependency_chain name label needs (ns @ [xs ! i])"
  proof (cases "dependency_path es ps (needs (xs ! i)) = []")
    case True
    then show ?thesis by (intro exI [of _ "[]"]) simp
  next
    case False
    with dependency_path_cases [of es ps "needs (xs ! i)"]
    obtain d p where d: "d \<in> set (needs (xs ! i))" "bt_get ps d = Some p"
      and p: "dependency_path es ps (needs (xs ! i)) = p"
      by blast
    from d(1) deps obtain j where j: "j \<in> set order" "d = name (xs ! j)" by blast
    with ok d(2) obtain ns where ns: "p = map label (ns @ [xs ! j])" "set ns \<subseteq> set xs"
        "dependency_chain name label needs (ns @ [xs ! j])"
      by (fastforce simp: estimates_ok_def ep)
    from j(1) i(3) have "xs ! j \<in> set xs" by auto
    moreover have "dependency_chain name label needs ((ns @ [xs ! j]) @ [xs ! i])"
      using ns(3) d(1) j(2) by (simp only: dependency_chain_snoc) simp
    ultimately show ?thesis
      using ns(1,2) p by (intro exI [of _ "ns @ [xs ! j]"]) simp
  qed
  have A: "\<forall>k. bt_get (fst ep') k \<noteq> None \<longleftrightarrow> k \<in> (\<lambda>i. name (xs ! i)) ` set (order @ [i])"
    using ok by (auto simp: estimates_ok_def ep ep')
  have B: "\<forall>j \<in> set (order @ [i]). \<exists>es e. bt_get (fst ep') (name (xs ! j)) = Some e \<and>
      est es (xs ! j) = Inr e \<and>
      (\<forall>d \<in> set (needs (xs ! j)). \<exists>v. bt_get es d = Some v \<and> bt_get (fst ep') d = Some v)"
  proof
    fix j assume j: "j \<in> set (order @ [i])"
    show "\<exists>es e. bt_get (fst ep') (name (xs ! j)) = Some e \<and> est es (xs ! j) = Inr e \<and>
      (\<forall>d \<in> set (needs (xs ! j)). \<exists>v. bt_get es d = Some v \<and> bt_get (fst ep') d = Some v)"
    proof (cases "j = i")
      case True
      with e known show ?thesis by (intro exI [of _ es] exI [of _ e]) (auto simp: ep')
    next
      case False
      with j have jo: "j \<in> set order" by simp
      with ok obtain es' e' where *: "bt_get es (name (xs ! j)) = Some e'" "est es' (xs ! j) = Inr e'"
          "\<forall>d \<in> set (needs (xs ! j)). \<exists>v. bt_get es' d = Some v \<and> bt_get es d = Some v"
        unfolding estimates_ok_def ep by force
      have "d \<noteq> name (xs ! i)" if "d \<in> set (needs (xs ! j))" for d
      proof
        assume "d = name (xs ! i)"
        with *(3) that have "bt_get es (name (xs ! i)) \<noteq> None" by blast
        with ok obtain j' where "j' \<in> set order" "name (xs ! i) = name (xs ! j')"
          unfolding estimates_ok_def ep by auto
        with other show False by metis
      qed
      with * other [OF jo] show ?thesis
        by (intro exI [of _ es'] exI [of _ e']) (auto simp: ep')
    qed
  qed
  have C: "\<forall>k. bt_get (snd ep') k \<noteq> None \<longleftrightarrow> bt_get (fst ep') k \<noteq> None"
    using ok by (auto simp: estimates_ok_def ep ep')
  have D: "\<forall>j \<in> set (order @ [i]). \<exists>ns. bt_get (snd ep') (name (xs ! j)) = Some (map label (ns @ [xs ! j])) \<and>
      set ns \<subseteq> set xs \<and> dependency_chain name label needs (ns @ [xs ! j])"
    using ok path other by (auto simp: estimates_ok_def ep ep')
  show ?thesis unfolding estimates_ok_def by (intro conjI A B C D)
qed

text \<open>A successful run estimates every node, along an order that exists because there is no cycle.\<close>

lemma estimate_prefix_ok:
  assumes distinct: "distinct (map name xs)" and "distinct order" and "set order \<subseteq> {..<length xs}"
    and topo: "\<And>k dep. k < length order \<Longrightarrow> dep \<in> set (needs (xs ! (order ! k))) \<Longrightarrow>
        dep \<in> (\<lambda>j. name (xs ! j)) ` set (take k order)"
    and "try_fold (estimate_node name label needs est xs) (bt_empty, bt_empty) order = Inr ep"
  shows "estimates_ok name label needs est xs order ep"
  using assms(2-5)
proof (induction order arbitrary: ep rule: rev_induct)
  case Nil
  then show ?case by (auto simp: estimates_ok_def)
next
  case (snoc i order)
  from snoc.prems(4) obtain ep1 where
      before: "try_fold (estimate_node name label needs est xs) (bt_empty, bt_empty) order = Inr ep1"
    and step: "estimate_node name label needs est xs ep1 i = Inr ep"
    by (auto simp: try_fold_append)
  have "dep \<in> (\<lambda>j. name (xs ! j)) ` set (take k order)"
    if "k < length order" "dep \<in> set (needs (xs ! (order ! k)))" for k dep
    using snoc.prems(3) [of k dep] that by (simp add: nth_append)
  then have "estimates_ok name label needs est xs order ep1"
    using snoc.prems(1,2) before by (intro snoc.IH) simp_all
  moreover have "set (needs (xs ! i)) \<subseteq> (\<lambda>j. name (xs ! j)) ` set order"
    using snoc.prems(3) [of "length order"] by auto
  ultimately show ?case
    using distinct step snoc.prems(1,2) by (intro estimate_node_ok [where ep = ep1]) simp_all
qed

lemma ordered_estimates_spec:
  assumes distinct: "distinct (map name xs)"
    and run: "ordered_estimates name label needs est xs = Inr ep"
  shows "acyclic (needs_edge name needs xs)"
    and "\<And>x. x \<in> set xs \<Longrightarrow> \<exists>es e. bt_get (fst ep) (name x) = Some e \<and> est es x = Inr e \<and>
        (\<forall>d \<in> set (needs x). \<exists>v. bt_get es d = Some v \<and> bt_get (fst ep) d = Some v)"
    and "\<And>x. x \<in> set xs \<Longrightarrow> \<exists>ns. bt_get (snd ep) (name x) = Some (map label (ns @ [x])) \<and>
        set ns \<subseteq> set xs \<and> dependency_chain name label needs (ns @ [x])"
    and "\<And>k. bt_get (fst ep) k \<noteq> None \<longleftrightarrow> k \<in> name ` set xs"
proof -
  from run obtain g order where g: "build_graph name label needs xs = Inr g"
    and order: "dependency_order g = Some order" "length order = length xs"
    and loop: "try_fold (estimate_node name label needs est xs) (bt_empty, bt_empty) order = Inr ep"
    by (auto simp: ordered_estimates_def split: option.splits if_splits)
  from build_graph_spec [OF g] have graph: "graph_ok g" "length (indegree g) = length xs"
      "points_to (dependents g) = needs_edge name needs xs"
      "\<And>i dep. i < length xs \<Longrightarrow> dep \<in> set (needs (xs ! i)) \<Longrightarrow>
         \<exists>d. bt_get (index_of name xs) dep = Some d \<and> d < length xs \<and> d \<noteq> i"
    by blast+
  from dependency_order_spec [OF graph(1)] order graph(2,3)
  have spec: "distinct order" "set order \<subseteq> {..<length xs}" "acyclic (needs_edge name needs xs)"
      "\<And>d k. k < length order \<Longrightarrow> (d, order ! k) \<in> needs_edge name needs xs \<Longrightarrow> d \<in> set (take k order)"
    by auto
  show "acyclic (needs_edge name needs xs)" by fact
  have "dep \<in> (\<lambda>j. name (xs ! j)) ` set (take k order)"
    if k: "k < length order" and dep: "dep \<in> set (needs (xs ! (order ! k)))" for k dep
  proof -
    have "order ! k < length xs" using spec(2) nth_mem [OF k] by auto
    with graph(4) dep obtain d where d: "bt_get (index_of name xs) dep = Some d" by blast
    with spec(4) [OF k, of d] dep \<open>order ! k < length xs\<close> have "d \<in> set (take k order)"
      by (auto simp: needs_edge_def)
    with index_of_Some [OF d] show ?thesis by auto
  qed
  then have ok: "estimates_ok name label needs est xs order ep"
    using distinct spec(1,2) loop by (intro estimate_prefix_ok) simp_all
  have all: "set order = {..<length xs}"
    using spec(1,2) order(2) by (simp add: card_subset_eq distinct_card)
  show "\<exists>es e. bt_get (fst ep) (name x) = Some e \<and> est es x = Inr e \<and>
      (\<forall>d \<in> set (needs x). \<exists>v. bt_get es d = Some v \<and> bt_get (fst ep) d = Some v)"
    if "x \<in> set xs" for x
  proof -
    from that obtain i where i: "i < length xs" "x = xs ! i" by (auto simp: in_set_conv_nth)
    with all have "i \<in> set order" by simp
    with ok i(2) show ?thesis unfolding estimates_ok_def by blast
  qed
  show "\<exists>ns. bt_get (snd ep) (name x) = Some (map label (ns @ [x])) \<and>
      set ns \<subseteq> set xs \<and> dependency_chain name label needs (ns @ [x])" if "x \<in> set xs" for x
  proof -
    from that obtain i where i: "i < length xs" "x = xs ! i" by (auto simp: in_set_conv_nth)
    with all have "i \<in> set order" by simp
    with ok i(2) show ?thesis unfolding estimates_ok_def by blast
  qed
  have "(\<lambda>i. name (xs ! i)) ` set order = name ` set xs"
    unfolding all by (force simp: set_conv_nth)
  with ok show "bt_get (fst ep) k \<noteq> None \<longleftrightarrow> k \<in> name ` set xs" for k
    by (simp add: estimates_ok_def)
qed

text \<open>A cycle is always reported.\<close>

lemma ordered_estimates_cycle:
  assumes "build_graph name label needs xs = Inr g"
  shows "\<not> acyclic (needs_edge name needs xs) \<Longrightarrow>
    ordered_estimates name label needs est xs = Inl cycle_error"
  using build_graph_spec [OF assms] dependency_order_spec [of g] assms
  by (auto simp: ordered_estimates_def)

section \<open>What a schedule promises\<close>

lemma assignment_start_later: "assignment_start a s start = Inr t \<Longrightarrow> start \<le> t"
  by (auto simp: assignment_start_def dest: next_available_spec(1) split: option.splits)

lemma assignment_finish_later: "assignment_finish a s start h = Inr t \<Longrightarrow> start \<le> t"
  using hours_to_ms_nonneg [OF f64_max_nonneg, of h]
  by (auto simp: assignment_finish_def hours_ns_def ms_ns_def dest: add_working_hours_later
      split: option.splits)

lemma draft_estimate_after:
  assumes "draft_estimate s assignments now es d = Inr e"
  shows "dependency_start es (task_draft_depends_on d) now \<le> estimate_earliest_start e"
    and "estimate_earliest_start e \<le> estimate_p50_finish e"
    and "estimate_earliest_start e \<le> estimate_p80_finish e"
  using assms
  by (auto simp: draft_estimate_def Let_def dest: assignment_start_later assignment_finish_later)

lemma task_reestimate_after:
  assumes "task_reestimate tx s now es t = Inr e"
  shows "\<not> task_status_is_terminal (task_status t) \<Longrightarrow>
      dependency_start es (task_depends_on t) now \<le> estimate_earliest_start e"
    and "\<not> task_status_is_terminal (task_status t) \<Longrightarrow> now \<le> estimate_earliest_start e"
    and "estimate_earliest_start e \<le> estimate_p50_finish e"
    and "estimate_earliest_start e \<le> estimate_p80_finish e"
  using assms
  by (auto simp: task_reestimate_def Let_def dest!: assignment_start_later
      dest: assignment_finish_later split: if_splits)

lemma list_max_bound: "x \<in> set xs \<Longrightarrow> \<exists>m. list_max xs = Some m \<and> x \<le> m"
  using max_by_key_Some [of "\<lambda>x. x" xs] max_by_key_None [of "\<lambda>x. x" xs]
  by (cases "list_max xs") auto

lemma schedule_ok:
  assumes "schedule fresh now drafts assignments s = Inr r"
  shows "distinct (map task_draft_key drafts)" and "drafts \<noteq> []"
    and "\<exists>ep. ordered_estimates task_draft_key task_draft_key task_draft_depends_on
        (draft_estimate s assignments now) drafts = Inr ep \<and>
      schedule_tasks r = map (task_of_draft (task_ids fresh drafts) assignments (fst ep)) drafts \<and>
      schedule_critical_path r =
        (case max_by_key (estimate_p80_finish \<circ> task_estimate) (schedule_tasks r) of
           Some t \<Rightarrow> (case bt_get (snd ep) (task_key t) of Some p \<Rightarrow> p | None \<Rightarrow> []) | None \<Rightarrow> [])"
    and "schedule_p80_finish r =
      (case list_max (map (estimate_p80_finish \<circ> task_estimate) (schedule_tasks r)) of
         Some t \<Rightarrow> t | None \<Rightarrow> now)"
  using assms
  by (auto simp: schedule_def bt_len_index_of Let_def split: if_splits cong: option.case_cong)

lemma schedule_precedence:
  assumes "schedule fresh now drafts assignments s = Inr r" and t: "t \<in> set (schedule_tasks r)"
  shows "estimate_earliest_start (task_estimate t) \<le> estimate_p50_finish (task_estimate t) \<and>
    estimate_earliest_start (task_estimate t) \<le> estimate_p80_finish (task_estimate t) \<and>
    estimate_p80_finish (task_estimate t) \<le> schedule_p80_finish r \<and>
    (\<forall>dep \<in> set (task_depends_on t). \<exists>u \<in> set (schedule_tasks r).
       task_id u = dep \<and> estimate_p80_finish (task_estimate u) \<le> estimate_earliest_start (task_estimate t))"
proof -
  note ok = schedule_ok [OF assms(1)]
  from ok(3) obtain ep where
      ep: "ordered_estimates task_draft_key task_draft_key task_draft_depends_on
        (draft_estimate s assignments now) drafts = Inr ep"
    and tasks: "schedule_tasks r = map (task_of_draft (task_ids fresh drafts) assignments (fst ep)) drafts"
    by blast
  note spec = ordered_estimates_spec [OF ok(1) ep]
  from t tasks obtain d where d: "d \<in> set drafts"
    and td: "t = task_of_draft (task_ids fresh drafts) assignments (fst ep) d" by auto
  from spec(2) [OF d] obtain es e where e: "bt_get (fst ep) (task_draft_key d) = Some e"
      "draft_estimate s assignments now es d = Inr e"
      "\<And>k. k \<in> set (task_draft_depends_on d) \<Longrightarrow> \<exists>v. bt_get es k = Some v \<and> bt_get (fst ep) k = Some v"
    by blast
  note after = draft_estimate_after [OF e(2)]
  have est: "task_estimate t = e" using e(1) by (simp add: td task_of_draft_def)
  have "\<exists>u \<in> set (schedule_tasks r). task_id u = dep \<and>
      estimate_p80_finish (task_estimate u) \<le> estimate_earliest_start e"
    if "dep \<in> set (task_depends_on t)" for dep
  proof -
    from that obtain k where k: "k \<in> set (task_draft_depends_on d)"
        "dep = the (bt_get (task_ids fresh drafts) k)" by (auto simp: td task_of_draft_def)
    from e(3) [OF k(1)] obtain v where v: "bt_get es k = Some v" "bt_get (fst ep) k = Some v" by blast
    with spec(4) [of k] obtain d' where d': "d' \<in> set drafts" "k = task_draft_key d'" by auto
    from dependency_start_bound [OF k(1) v(1), of now] after(1)
    have "estimate_p80_finish v \<le> estimate_earliest_start e" by simp
    moreover have "task_of_draft (task_ids fresh drafts) assignments (fst ep) d' \<in> set (schedule_tasks r)"
      using d'(1) by (simp add: tasks)
    ultimately show ?thesis
      using d'(2) v(2) k(2) by (intro bexI [of _ "task_of_draft (task_ids fresh drafts) assignments (fst ep) d'"])
        (auto simp: task_of_draft_def)
  qed
  moreover have "estimate_p80_finish (task_estimate t) \<le> schedule_p80_finish r"
    using t list_max_bound [of "estimate_p80_finish (task_estimate t)"
        "map (estimate_p80_finish \<circ> task_estimate) (schedule_tasks r)"]
    by (auto simp: ok(4))
  ultimately show ?thesis using after(2,3) est by simp
qed

text \<open>The critical path is a chain of dependencies that ends at a task finishing last.\<close>

lemma schedule_critical_chain:
  assumes "schedule fresh now drafts assignments s = Inr r"
  shows "\<exists>ds t. schedule_critical_path r = map task_draft_key ds \<and> ds \<noteq> [] \<and>
    set ds \<subseteq> set drafts \<and>
    dependency_chain task_draft_key task_draft_key task_draft_depends_on ds \<and>
    t \<in> set (schedule_tasks r) \<and> task_key t = task_draft_key (last ds) \<and>
    estimate_p80_finish (task_estimate t) = schedule_p80_finish r"
proof -
  note ok = schedule_ok [OF assms]
  from ok(3) obtain ep where
      ep: "ordered_estimates task_draft_key task_draft_key task_draft_depends_on
        (draft_estimate s assignments now) drafts = Inr ep"
    and tasks: "schedule_tasks r = map (task_of_draft (task_ids fresh drafts) assignments (fst ep)) drafts"
    and path: "schedule_critical_path r =
        (case max_by_key (estimate_p80_finish \<circ> task_estimate) (schedule_tasks r) of
           Some t \<Rightarrow> (case bt_get (snd ep) (task_key t) of Some p \<Rightarrow> p | None \<Rightarrow> []) | None \<Rightarrow> [])"
    by blast
  note spec = ordered_estimates_spec [OF ok(1) ep]
  obtain t where t: "max_by_key (estimate_p80_finish \<circ> task_estimate) (schedule_tasks r) = Some t"
    using ok(2) tasks
    by (cases "max_by_key (estimate_p80_finish \<circ> task_estimate) (schedule_tasks r)") auto
  note last_t = max_by_key_Some [OF t]
  from last_t tasks obtain d where d: "d \<in> set drafts"
    and td: "t = task_of_draft (task_ids fresh drafts) assignments (fst ep) d" by auto
  from spec(3) [OF d] obtain ns where
      "bt_get (snd ep) (task_draft_key d) = Some (map task_draft_key (ns @ [d]))" "set ns \<subseteq> set drafts"
      "dependency_chain task_draft_key task_draft_key task_draft_depends_on (ns @ [d])"
    by blast
  moreover have "task_key t = task_draft_key d" by (simp add: td task_of_draft_def)
  moreover have "estimate_p80_finish (task_estimate t) = schedule_p80_finish r"
  proof -
    let ?fs = "map (estimate_p80_finish \<circ> task_estimate) (schedule_tasks r)"
    obtain m where m: "list_max ?fs = Some m" "estimate_p80_finish (task_estimate t) \<le> m"
      using last_t list_max_bound [of "estimate_p80_finish (task_estimate t)" ?fs] by auto
    with max_by_key_Some [OF m(1)] last_t have "m \<le> estimate_p80_finish (task_estimate t)" by auto
    with m show ?thesis by (simp add: ok(4))
  qed
  ultimately show ?thesis
    using d path t last_t by (intro exI [of _ "ns @ [d]"] exI [of _ t]) simp
qed

lemma schedule_rejects_cycles:
  assumes "build_graph task_draft_key task_draft_key task_draft_depends_on drafts = Inr g"
    and "distinct (map task_draft_key drafts)" and "drafts \<noteq> []"
    and "\<not> acyclic (needs_edge task_draft_key task_draft_depends_on drafts)"
  shows "schedule fresh now drafts assignments s = Inl cycle_error"
  using assms by (simp add: schedule_def bt_len_index_of ordered_estimates_cycle)

lemma schedule_acyclic:
  assumes "schedule fresh now drafts assignments s = Inr r"
  shows "acyclic (needs_edge task_draft_key task_draft_depends_on drafts)"
  using schedule_ok [OF assms] ordered_estimates_spec(1) by blast

text \<open>The same for a running flow, whose identifiers are distinct.\<close>

lemma reschedule_precedence:
  assumes run: "reschedule tx f s now = Inr r" and distinct: "distinct (map task_id (flow_tasks f))"
    and t: "t \<in> set (flow_tasks f)" "\<not> task_status_is_terminal (task_status t)"
  shows "\<exists>e. bt_get (reschedule_task_estimates r) (task_id t) = Some e \<and>
    now \<le> estimate_earliest_start e \<and>
    estimate_earliest_start e \<le> estimate_p50_finish e \<and>
    estimate_earliest_start e \<le> estimate_p80_finish e \<and>
    (\<forall>dep \<in> set (task_depends_on t). \<exists>v. bt_get (reschedule_task_estimates r) dep = Some v \<and>
       estimate_p80_finish v \<le> estimate_earliest_start e)"
proof -
  from run obtain ep where
      ep: "ordered_estimates task_id task_key task_depends_on (task_reestimate tx s now) (flow_tasks f) = Inr ep"
    and r: "reschedule_task_estimates r = fst ep"
    by (auto simp: reschedule_def Let_def split: if_splits)
  from ordered_estimates_spec(2) [OF distinct ep t(1)] obtain es e where
      e: "bt_get (fst ep) (task_id t) = Some e" "task_reestimate tx s now es t = Inr e"
      "\<And>k. k \<in> set (task_depends_on t) \<Longrightarrow> \<exists>v. bt_get es k = Some v \<and> bt_get (fst ep) k = Some v"
    by blast
  note after = task_reestimate_after [OF e(2)]
  have "\<exists>v. bt_get (fst ep) k = Some v \<and> estimate_p80_finish v \<le> estimate_earliest_start e"
    if "k \<in> set (task_depends_on t)" for k
  proof -
    from e(3) [OF that] obtain v where v: "bt_get es k = Some v" "bt_get (fst ep) k = Some v" by blast
    with dependency_start_bound [OF that v(1), of now] after(1) [OF t(2)] show ?thesis by auto
  qed
  with e(1) after(2) [OF t(2)] after(3,4) show ?thesis unfolding r by blast
qed

section \<open>When scheduling succeeds\<close>

lemma ordered_estimates_succeeds:
  assumes "build_graph name label needs xs = Inr g" and "acyclic (needs_edge name needs xs)"
    and "\<And>x estimates. x \<in> set xs \<Longrightarrow> \<exists>e. est estimates x = Inr e"
  shows "\<exists>r. ordered_estimates name label needs est xs = Inr r"
proof -
  note g = build_graph_spec [OF assms(1)]
  obtain order where order: "dependency_order g = Some order" "length order = length xs"
    and inside: "set order \<subseteq> {..<length xs}"
    using dependency_order_spec [of g] g assms(2) by metis
  have "\<exists>t'. estimate_node name label needs est xs t i = Inr t'" if "i \<in> set order" for i t
  proof -
    from that inside have "xs ! i \<in> set xs" by auto
    from assms(3) [OF this, of "fst t"] obtain e where "est (fst t) (xs ! i) = Inr e" ..
    then show ?thesis by (cases t) (simp add: estimate_node_def)
  qed
  then have "\<exists>r. try_fold (estimate_node name label needs est xs) (bt_empty, bt_empty) order = Inr r"
    by (rule try_fold_total)
  with order assms(1) show ?thesis by (simp add: ordered_estimates_def)
qed

text \<open>An assignment to a team has no calendar, so nothing can fail for want of availability.\<close>

lemma team_never_unavailable:
  "target_kind (assignment_owner a) = Team \<Longrightarrow>
     assignment_start a s t = Inr t \<and> assignment_finish a s t h = Inr (t + hours_ns h)"
  by (simp add: assignment_start_def assignment_finish_def assignment_calendar_def)

lemma schedule_succeeds:
  assumes "build_graph task_draft_key task_draft_key task_draft_depends_on drafts = Inr g"
    and "distinct (map task_draft_key drafts)" and "drafts \<noteq> []"
    and "acyclic (needs_edge task_draft_key task_draft_depends_on drafts)"
    and "\<And>d. d \<in> set drafts \<Longrightarrow> \<exists>a. bt_get assignments (task_draft_key d) = Some a \<and>
      target_kind (assignment_owner a) = Team"
  shows "\<exists>r. schedule fresh now drafts assignments s = Inr r"
proof -
  have est: "\<exists>e. draft_estimate s assignments now estimates d = Inr e" if "d \<in> set drafts" for d estimates
    using assms(5) [OF that] by (auto simp: draft_estimate_def Let_def team_never_unavailable)
  obtain ep where "ordered_estimates task_draft_key task_draft_key task_draft_depends_on
      (draft_estimate s assignments now) drafts = Inr ep"
    using ordered_estimates_succeeds [OF assms(1,4), of "draft_estimate s assignments now"] est by blast
  then show ?thesis
    using assms(2,3) by (cases ep) (simp add: schedule_def bt_len_index_of Let_def)
qed

lemma reschedule_succeeds:
  assumes "build_graph task_id task_key task_depends_on (flow_tasks f) = Inr g"
    and "flow_tasks f \<noteq> []" and "acyclic (needs_edge task_id task_depends_on (flow_tasks f))"
    and "\<And>t. t \<in> set (flow_tasks f) \<Longrightarrow> task_status_is_terminal (task_status t) \<or>
      (\<exists>a. task_assignment t = Some a \<and> target_kind (assignment_owner a) = Team)"
  shows "\<exists>r. reschedule tx f s now = Inr r"
proof -
  have est: "\<exists>e. task_reestimate tx s now estimates t = Inr e" if "t \<in> set (flow_tasks f)" for t estimates
    using assms(4) [OF that] by (auto simp: task_reestimate_def Let_def team_never_unavailable)
  obtain ep where "ordered_estimates task_id task_key task_depends_on (task_reestimate tx s now)
      (flow_tasks f) = Inr ep"
    using ordered_estimates_succeeds [OF assms(1,3), of "task_reestimate tx s now"] est by blast
  then show ?thesis
    using assms(2) by (cases ep) (simp add: reschedule_def Let_def)
qed

end
