(* ===== verification/Planner.thy ===== *)
theory Planner
  imports Scheduler
begin

text \<open>
  Turning a demand into a plan (\<open>src/application/planner.rs\<close>): the local planner and its revisions, the
  prompts for a language model, and the validation every plan passes. What the model answers comes from
  outside: \<open>run_plan_executor\<close> is a parameter.
\<close>

section \<open>Texts\<close>

text \<open>
  The first of \<open>lines()\<close>, none of an empty text. The carriage return before a line feed would be
  dropped as well; its only use trims the line.
\<close>

definition first_line :: "string \<Rightarrow> string option" where
  "first_line s = (if s = [] then None else Some (takeWhile (\<lambda>c. (of_char c :: int) \<noteq> 10) s))"

definition newline :: string where
  "newline = bytes [10]"

section \<open>Kinds of planners\<close>

datatype planner_kind = Local | ClaudeCode | Codex

fun show_planner_kind :: "planner_kind \<Rightarrow> string" where
  "show_planner_kind Local = ''local''"
| "show_planner_kind planner_kind.ClaudeCode = ''claude-code''"
| "show_planner_kind planner_kind.Codex = ''codex''"

fun debug_principal_kind :: "principal_kind \<Rightarrow> string" where
  "debug_principal_kind principal_kind.Human = ''Human''"
| "debug_principal_kind principal_kind.Agent = ''Agent''"

definition planner_prompt :: "string \<Rightarrow> org_state \<Rightarrow> string" where
  "planner_prompt demand s =
     (let teams = join_with newline
            (map (\<lambda>t. ''- '' @ team_name t @ '': '' @ join_with '', '' (team_capabilities t))
              (bt_values (teams s)));
          people = join_with newline
            (map (\<lambda>p. ''- '' @ principal_name p @ '' ('' @ debug_principal_kind (principal_kind p) @
                   '', capacity '' @ show_nat (unat (principal_capacity_percent p)) @ ''%): '' @
                   join_with '', '' (principal_capabilities p))
              (bt_values (principals s)))
      in
       ''You are the planning terminal for an enterprise Human-Agent Flow system.'' @ newline @
       ''Turn the manager demand into a concise PRD and a dependency-aware task graph.'' @ newline @
       ''Return only data matching the supplied JSON schema. Task keys must be unique kebab-case.'' @ newline @
       ''Capabilities must be short reusable labels. Estimate hands-on effort in hours, not elapsed duration.'' @ newline @
       ''Mark tasks requiring business judgment, approval, stakeholder contact, or final accountability with requires_human=true.'' @ newline @
       ''Do not assign people: the control plane will match owners from organization data.'' @ newline @ newline @
       ''Manager demand:'' @ newline @ demand @ newline @ newline @
       ''Teams:'' @ newline @ teams @ newline @ newline @
       ''People and agents:'' @ newline @ people)"

section \<open>The local planner\<close>

definition plan_task ::
    "string \<Rightarrow> string \<Rightarrow> string \<Rightarrow> string list \<Rightarrow> string list \<Rightarrow> f64 \<Rightarrow> bool \<Rightarrow> string list \<Rightarrow> task_draft" where
  "plan_task key title description capabilities depends_on effort_hours requires_human criteria =
     \<lparr>task_draft_key = key, task_draft_title = title, task_draft_description = description,
      task_draft_required_capabilities = capabilities, task_draft_depends_on = depends_on,
      task_draft_effort_hours = effort_hours, task_draft_requires_human = requires_human,
      task_draft_acceptance_criteria = criteria\<rparr>"

definition gateway_plan :: "string \<Rightarrow> plan_draft" where
  "gateway_plan demand =
     \<lparr>plan_draft_prd =
        \<lparr>prd_title = ''LLM Gateway v0'', prd_summary = demand,
         prd_goals =
           [''provide one authenticated API across configured model providers'',
            ''make routing, usage, latency and failures observable'',
            ''ship a tested rollout path with an accountable owner''],
         prd_non_goals = [''provider-specific feature parity in v0'', ''a full billing platform''],
         prd_acceptance_criteria =
           [''a client can call at least two configured providers through one API'',
            ''requests are authenticated, metered and traceable'',
            ''failover behavior and operational ownership are documented'']\<rparr>,
      plan_draft_tasks =
        [plan_task ''scope-contract'' ''Confirm product scope and API contract''
           ''Resolve stakeholders, supported providers, API semantics and rollout constraints.''
           [''product'', ''llm-platform''] [] (f64_lit 6 1) True
           [''API contract and v0 scope are approved''],
         plan_task ''gateway-core'' ''Implement gateway core''
           ''Implement the normalized request path, provider adapters and error model.''
           [''backend'', ''llm-platform''] [''scope-contract''] (f64_lit 20 1) False
           [''two provider adapters pass contract tests''],
         plan_task ''auth-policy'' ''Add authentication and policy controls''
           ''Add caller authentication, provider credential boundaries and request policy checks.''
           [''backend'', ''security''] [''scope-contract''] (f64_lit 12 1) False
           [''unauthorized calls fail closed and secrets are not logged''],
         plan_task ''observability'' ''Add usage and reliability telemetry''
           ''Record request identity, model, latency, token usage, outcome and retry/failover path.''
           [''observability'', ''backend''] [''gateway-core''] (f64_lit 10 1) False
           [''operators can trace a request and aggregate usage''],
         plan_task ''verification'' ''Verify reliability and security''
           ''Run contract, load, failure-path and security checks against the integrated gateway.''
           [''quality'', ''security''] [''gateway-core'', ''auth-policy'', ''observability'']
           (f64_lit 10 1) True [''release checks pass with evidence attached''],
         plan_task ''rollout'' ''Approve and execute rollout''
           ''Review evidence, assign operational ownership and approve the staged release.''
           [''product'', ''operations''] [''verification''] (f64_lit 4 1) True
           [''release owner and rollback plan are confirmed'']]\<rparr>"

definition general_plan :: "string \<Rightarrow> plan_draft" where
  "general_plan demand =
     \<lparr>plan_draft_prd =
        \<lparr>prd_title = str_trim (case first_line demand of Some l \<Rightarrow> l | None \<Rightarrow> ''New initiative''),
         prd_summary = demand,
         prd_goals = [''deliver the requested outcome with visible ownership''],
         prd_non_goals = [''unrequested follow-up work''],
         prd_acceptance_criteria = [''the requester reviews and accepts the delivered outcome'']\<rparr>,
      plan_draft_tasks =
        [plan_task ''clarify'' ''Clarify scope and success criteria''
           ''Confirm boundaries, stakeholders, risks and measurable completion conditions.''
           [''product''] [] (f64_lit 4 1) True [''scope and acceptance criteria are approved''],
         plan_task ''deliver'' ''Produce the requested deliverable'' demand
           [] [''clarify''] (f64_lit 16 1) False [''the planned deliverable is complete''],
         plan_task ''review'' ''Review evidence and close the flow''
           ''Review the result and evidence against the approved success criteria.''
           [''product''] [''deliver''] (f64_lit 3 1) True [''an accountable human accepts the result'']]\<rparr>"

definition local_plan :: "text_functions \<Rightarrow> string \<Rightarrow> plan_draft" where
  "local_plan tx demand =
     (let lowered = to_lowercase tx demand in
      if contains lowered ''llm gateway'' \<or> contains lowered ''llm-gateway''
      then gateway_plan demand else general_plan demand)"

section \<open>Revising a flow\<close>

definition draft_of_task :: "flow \<Rightarrow> task \<Rightarrow> task_draft" where
  "draft_of_task f t =
     \<lparr>task_draft_key = task_key t, task_draft_title = task_title t,
      task_draft_description = task_description t,
      task_draft_required_capabilities = task_required_capabilities t,
      task_draft_depends_on = map task_key (List.map_filter (flow_task f) (task_depends_on t)),
      task_draft_effort_hours = estimate_effort_hours (task_estimate t),
      task_draft_requires_human = task_requires_human t,
      task_draft_acceptance_criteria = task_acceptance_criteria t\<rparr>"

definition flow_to_plan :: "flow \<Rightarrow> plan_draft" where
  "flow_to_plan f =
     \<lparr>plan_draft_prd = flow_prd f, plan_draft_tasks = map (draft_of_task f) (flow_tasks f)\<rparr>"

text \<open>
  The loop tries \<open>change-1\<close>, \<open>change-2\<close>, ... until one is free. One of the first \<open>n + 1\<close> is, when there
  are \<open>n\<close> tasks.
\<close>

definition change_keys :: "nat \<Rightarrow> string list" where
  "change_keys n = map (\<lambda>i. ''change-'' @ show_nat i) [1..<n + 2]"

definition fresh_change_key :: "string list \<Rightarrow> string" where
  "fresh_change_key keys =
     (case List.find (\<lambda>c. c \<notin> set keys) (change_keys (length keys)) of Some c \<Rightarrow> c | None \<Rightarrow> [])"

definition change_capabilities :: "text_functions \<Rightarrow> string \<Rightarrow> string list" where
  "change_capabilities tx change =
     (let lowered = to_lowercase tx change in
      if contains lowered ''security'' \<or> contains lowered (bytes [0xE5, 0xAE, 0x89, 0xE5, 0x85, 0xA8])
      then [''security'']
      else if contains lowered ''observ'' \<or> contains lowered (bytes [0xE7, 0x9B, 0x91, 0xE6, 0x8E, 0xA7])
      then [''observability'']
      else if contains lowered ''document'' \<or> contains lowered ''office''
              \<or> contains lowered (bytes [0xE6, 0x96, 0x87, 0xE6, 0xA1, 0xA3])
      then [''product''] else [])"

definition change_title :: "string \<Rightarrow> string" where
  "change_title change =
     (let compact = take_chars 64 (str_trim change) in
      if is_ascii compact then ''Implement change: '' @ compact
      else bytes [0xE8, 0x90, 0xBD, 0xE5, 0xAE, 0x9E, 0xE5, 0x8F, 0x98, 0xE6, 0x9B, 0xB4, 0xEF, 0xBC, 0x9A] @ compact)"

definition change_task :: "text_functions \<Rightarrow> task_draft list \<Rightarrow> string \<Rightarrow> task_draft" where
  "change_task tx drafts change =
     (let depended_on = concat (map task_draft_depends_on drafts) in
      \<lparr>task_draft_key = fresh_change_key (map task_draft_key drafts),
       task_draft_title = change_title change,
       task_draft_description = str_trim change,
       task_draft_required_capabilities = change_capabilities tx change,
       task_draft_depends_on =
         map task_draft_key (filter (\<lambda>d. task_draft_key d \<notin> set depended_on) drafts),
       task_draft_effort_hours = f64_lit 8 1,
       task_draft_requires_human = False,
       task_draft_acceptance_criteria = [''the requested change has evidence and passes review'']\<rparr>)"

definition local_revision :: "text_functions \<Rightarrow> flow \<Rightarrow> string \<Rightarrow> plan_draft" where
  "local_revision tx f change =
     (let plan = flow_to_plan f; prd = plan_draft_prd plan in
      \<lparr>plan_draft_prd =
         prd\<lparr>prd_summary := prd_summary prd @ newline @ newline @ ''Change request: '' @ str_trim change,
             prd_goals := prd_goals prd @ [''deliver approved change: '' @ str_trim change],
             prd_acceptance_criteria := prd_acceptance_criteria prd @
               [''change request is verified and accepted: '' @ str_trim change]\<rparr>,
       plan_draft_tasks = plan_draft_tasks plan @ [change_task tx (plan_draft_tasks plan) change]\<rparr>)"

section \<open>Validation\<close>

definition validate_task :: "text_functions \<Rightarrow> task_draft \<Rightarrow> task_draft result" where
  "validate_task tx d =
     (let key = map (\<lambda>c. if c = CHR '' '' then CHR ''-'' else c)
                  (to_lowercase tx (str_trim (task_draft_key d))) in
      if key = [] \<or> str_trim (task_draft_title d) = [] \<or> str_trim (task_draft_description d) = []
         \<or> \<not> f64_is_finite (task_draft_effort_hours d)
         \<or> f64_le (task_draft_effort_hours d) (f64_lit 0 1)
         \<or> task_draft_acceptance_criteria d = []
      then Inl (relay_error.Validation (''task `'' @ task_draft_title d @
        ''` is missing a key, description, positive effort, or acceptance criteria''))
      else Inr (d\<lparr>task_draft_key := key,
                  task_draft_required_capabilities :=
                    filter (\<lambda>v. v \<noteq> [])
                      (map (normalize_capability tx) (task_draft_required_capabilities d))\<rparr>))"

definition validate_plan :: "text_functions \<Rightarrow> plan_draft \<Rightarrow> plan_draft result" where
  "validate_plan tx plan =
     (if str_trim (prd_title (plan_draft_prd plan)) = []
         \<or> prd_acceptance_criteria (plan_draft_prd plan) = []
      then Inl (relay_error.Validation ''PRD title and acceptance criteria are required'')
      else if plan_draft_tasks plan = []
      then Inl (relay_error.Validation ''plan must contain at least one task'')
      else
        and_then (try_map (validate_task tx) (plan_draft_tasks plan)) (\<lambda>ts.
          Inr (plan\<lparr>plan_draft_tasks := ts\<rparr>)))"

section \<open>Asking a planner\<close>

record planner_tools =
  run_plan_executor :: "executor_kind \<Rightarrow> string option \<Rightarrow> string option \<Rightarrow> string \<Rightarrow> plan_draft result"
    \<comment> \<open>kind, command, model, prompt\<close>
  plan_to_json :: "plan_draft \<Rightarrow> string result"

definition plan_executor_of :: "executor_kind \<Rightarrow> org_state \<Rightarrow> executor_config option" where
  "plan_executor_of k s =
     map_option snd (min_by_key (principal_name \<circ> fst)
       (filter (\<lambda>(_, config). executor_config_kind config = k)
         (List.map_filter (\<lambda>p. map_option (Pair p) (principal_executor p))
           (filter principal_active (bt_values (principals s))))))"

definition model_plan :: "planner_tools \<Rightarrow> executor_kind \<Rightarrow> string \<Rightarrow> org_state \<Rightarrow> plan_draft result" where
  "model_plan tools k prompt s =
     (let config = plan_executor_of k s in
      run_plan_executor tools k (Option.bind config executor_config_command)
        (Option.bind config executor_config_model) prompt)"

definition generate_plan ::
    "text_functions \<Rightarrow> planner_tools \<Rightarrow> planner_kind \<Rightarrow> string \<Rightarrow> org_state \<Rightarrow> plan_draft result" where
  "generate_plan tx tools planner demand s =
     and_then
       (case planner of
          Local \<Rightarrow> Inr (local_plan tx demand)
        | planner_kind.ClaudeCode \<Rightarrow> model_plan tools executor_kind.ClaudeCode (planner_prompt demand s) s
        | planner_kind.Codex \<Rightarrow> model_plan tools executor_kind.Codex (planner_prompt demand s) s)
       (validate_plan tx)"

definition revision_prompt :: "string \<Rightarrow> string \<Rightarrow> string" where
  "revision_prompt current change =
     ''You are revising an approved enterprise Flow. Return a complete revised PlanDraft.'' @ newline @
     ''Preserve every existing task key and its definition exactly. Do not remove, rename, or modify existing tasks.'' @ newline @
     ''Express the requested change by updating the PRD and appending at most 20 dependency-aware tasks.'' @ newline @
     ''New task keys must be unique kebab-case. Dependencies may reference existing or new task keys.'' @ newline @
     ''Return only data matching the supplied JSON schema. Do not assign people.'' @ newline @ newline @
     ''Current plan:'' @ newline @ current @ newline @ newline @ ''Requested change:'' @ newline @ change"

definition generate_revision_plan ::
    "text_functions \<Rightarrow> planner_tools \<Rightarrow> planner_kind \<Rightarrow> flow \<Rightarrow> string \<Rightarrow> org_state \<Rightarrow> plan_draft result" where
  "generate_revision_plan tx tools planner f change s =
     and_then
       (case planner of
          Local \<Rightarrow> Inr (local_revision tx f change)
        | planner_kind.ClaudeCode \<Rightarrow>
            and_then (plan_to_json tools (flow_to_plan f)) (\<lambda>current.
              model_plan tools executor_kind.ClaudeCode (revision_prompt current change) s)
        | planner_kind.Codex \<Rightarrow>
            and_then (plan_to_json tools (flow_to_plan f)) (\<lambda>current.
              model_plan tools executor_kind.Codex (revision_prompt current change) s))
       (validate_plan tx)"

section \<open>What the planners promise\<close>

text \<open>The key of the appended task is new: of \<open>n + 1\<close> candidates, \<open>n\<close> keys cannot take all.\<close>

lemma fresh_change_key_fresh: "fresh_change_key keys \<notin> set keys"
proof -
  have "distinct (change_keys (length keys))"
    by (auto simp: change_keys_def distinct_map inj_on_def)
  moreover have "length (change_keys (length keys)) = Suc (length keys)"
    by (simp add: change_keys_def del: upt_Suc)
  ultimately have "card (set (change_keys (length keys))) = Suc (length keys)"
    by (simp add: distinct_card)
  with card_length [of keys] card_mono [of "set keys" "set (change_keys (length keys))"]
  have "\<not> set (change_keys (length keys)) \<subseteq> set keys" by fastforce
  then obtain c where "List.find (\<lambda>c. c \<notin> set keys) (change_keys (length keys)) = Some c"
    by (cases "List.find (\<lambda>c. c \<notin> set keys) (change_keys (length keys))")
      (auto simp: find_None_iff)
  moreover from this have "c \<notin> set keys" by (auto simp: find_Some_iff)
  ultimately show ?thesis by (simp add: fresh_change_key_def)
qed

text \<open>A validated plan has at least one task, and every task a key, a finite positive effort and criteria.\<close>

definition task_draft_valid :: "task_draft \<Rightarrow> bool" where
  "task_draft_valid d \<longleftrightarrow> task_draft_key d \<noteq> [] \<and> f64_is_finite (task_draft_effort_hours d) \<and>
     \<not> f64_le (task_draft_effort_hours d) (f64_lit 0 1) \<and> task_draft_acceptance_criteria d \<noteq> [] \<and>
     CHR '' '' \<notin> set (task_draft_key d) \<and> [] \<notin> set (task_draft_required_capabilities d)"

lemma validate_task_Inr:
  assumes "validate_task tx d = Inr d'"
  shows "task_draft_valid d'" and "task_draft_depends_on d' = task_draft_depends_on d"
    and "task_draft_effort_hours d' = task_draft_effort_hours d"
    and "task_draft_key d' = map (\<lambda>c. if c = CHR '' '' then CHR ''-'' else c)
           (to_lowercase tx (str_trim (task_draft_key d)))"
  using assms by (auto simp: validate_task_def Let_def task_draft_valid_def split: if_splits)

lemma validate_plan_Inr:
  assumes "validate_plan tx plan = Inr plan'"
  shows "plan_draft_tasks plan' \<noteq> []" and "list_all task_draft_valid (plan_draft_tasks plan')"
    and "list_all2 (\<lambda>d d'. validate_task tx d = Inr d') (plan_draft_tasks plan) (plan_draft_tasks plan')"
proof -
  from assms obtain ts where ts: "try_map (validate_task tx) (plan_draft_tasks plan) = Inr ts"
    and plan': "plan' = plan\<lparr>plan_draft_tasks := ts\<rparr>" and "plan_draft_tasks plan \<noteq> []"
    by (auto simp: validate_plan_def split: if_splits)
  from ts show all: "list_all2 (\<lambda>d d'. validate_task tx d = Inr d') (plan_draft_tasks plan) (plan_draft_tasks plan')"
    by (simp add: plan' try_map_Inr)
  then show "list_all task_draft_valid (plan_draft_tasks plan')"
    by (induction rule: list_all2_induct) (auto simp: validate_task_Inr)
  from all \<open>plan_draft_tasks plan \<noteq> []\<close> show "plan_draft_tasks plan' \<noteq> []" by auto
qed

lemma generate_plan_valid:
  assumes "generate_plan tx tools planner demand s = Inr plan"
  shows "plan_draft_tasks plan \<noteq> []" and "list_all task_draft_valid (plan_draft_tasks plan)"
  using assms by (auto simp: generate_plan_def dest: validate_plan_Inr)

text \<open>A plan that can be scheduled: its keys are distinct, its dependencies known and without cycle.\<close>

definition schedulable :: "task_draft list \<Rightarrow> bool" where
  "schedulable ds \<longleftrightarrow> ds \<noteq> [] \<and> distinct (map task_draft_key ds) \<and>
     is_ok (build_graph task_draft_key task_draft_key task_draft_depends_on ds) \<and>
     acyclic (needs_edge task_draft_key task_draft_depends_on ds)"

lemma schedulable_graph:
  "schedulable ds \<Longrightarrow> \<exists>g. build_graph task_draft_key task_draft_key task_draft_depends_on ds = Inr g"
  by (auto simp: schedulable_def is_ok_iff)

lemma schedulable_listed:
  assumes "ds \<noteq> []" and "distinct (map task_draft_key ds)"
    and "\<And>i. i < length ds \<Longrightarrow>
      set (task_draft_depends_on (ds ! i)) \<subseteq> task_draft_key ` set (take i ds)"
  shows "schedulable ds"
  using listed_after_needs [OF assms(2), of task_draft_depends_on] assms(1,2) assms(3)
  by (simp add: schedulable_def is_ok_iff)

lemma local_plan_listed:
  assumes "ds = plan_draft_tasks (local_plan tx demand)"
  shows "ds \<noteq> []" and "distinct (map task_draft_key ds)"
    and "i < length ds \<Longrightarrow> set (task_draft_depends_on (ds ! i)) \<subseteq> task_draft_key ` set (take i ds)"
  unfolding assms
  by (auto simp: local_plan_def Let_def gateway_plan_def general_plan_def plan_task_def less_Suc_eq)

text \<open>
  The keys of the local planner are already in the form validation gives them, if \<open>to_lowercase\<close> does on
  ASCII text what \<open>to_ascii_lowercase\<close> does; so its plans pass, and can be scheduled.
\<close>

definition lowers_ascii :: "text_functions \<Rightarrow> bool" where
  "lowers_ascii tx \<longleftrightarrow> (\<forall>v. is_ascii v \<longrightarrow> to_lowercase tx v = to_ascii_lowercase v)"

definition plain_draft :: "task_draft \<Rightarrow> bool" where
  "plain_draft d \<longleftrightarrow>
     (let key = task_draft_key d in
      key \<noteq> [] \<and> is_ascii key \<and> str_trim key = key \<and> to_ascii_lowercase key = key \<and> CHR '' '' \<notin> set key) \<and>
     str_trim (task_draft_title d) \<noteq> [] \<and> f64_is_finite (task_draft_effort_hours d) \<and>
     \<not> f64_le (task_draft_effort_hours d) (f64_lit 0 1) \<and> task_draft_acceptance_criteria d \<noteq> []"

lemma validate_plain_draft:
  assumes "lowers_ascii tx" and "plain_draft d" and "str_trim (task_draft_description d) \<noteq> []"
  shows "validate_task tx d = Inr (d\<lparr>task_draft_required_capabilities :=
    filter (\<lambda>v. v \<noteq> []) (map (normalize_capability tx) (task_draft_required_capabilities d))\<rparr>)"
proof -
  have "map (\<lambda>c. if c = CHR '' '' then CHR ''-'' else c) (task_draft_key d) = task_draft_key d"
    using assms(2) by (intro map_idI) (auto simp: plain_draft_def Let_def)
  with assms show ?thesis
    by (simp add: validate_task_def plain_draft_def Let_def lowers_ascii_def)
qed

lemma gateway_drafts_plain: "list_all plain_draft (plan_draft_tasks (gateway_plan demand))"
  and gateway_described:
    "list_all (\<lambda>d. str_trim (task_draft_description d) \<noteq> []) (plan_draft_tasks (gateway_plan demand))"
  by code_simp+

lemma general_drafts_plain: "list_all plain_draft (plan_draft_tasks (general_plan demand))"
  unfolding general_plan_def plan_draft.select_convs by code_simp

lemma local_plan_validates:
  assumes "lowers_ascii tx" and "str_trim demand \<noteq> []"
    and "str_trim (prd_title (plan_draft_prd (local_plan tx demand))) \<noteq> []"
  shows "\<exists>plan. validate_plan tx (local_plan tx demand) = Inr plan \<and>
    schedulable (plan_draft_tasks plan)"
proof -
  let ?plan = "local_plan tx demand"
  let ?clean = "\<lambda>d. d\<lparr>task_draft_required_capabilities :=
    filter (\<lambda>v. v \<noteq> []) (map (normalize_capability tx) (task_draft_required_capabilities d))\<rparr>"
  have "str_trim (task_draft_description d) \<noteq> []" if "d \<in> set (plan_draft_tasks (general_plan demand))" for d
  proof -
    have "list_all (\<lambda>v. str_trim v \<noteq> [])
      [''Confirm boundaries, stakeholders, risks and measurable completion conditions.'',
       ''Review the result and evidence against the approved success criteria.'']" by code_simp
    with that assms(2) show ?thesis by (auto simp: general_plan_def plan_task_def)
  qed
  then have "d \<in> set (plan_draft_tasks ?plan) \<Longrightarrow>
      plain_draft d \<and> str_trim (task_draft_description d) \<noteq> []" for d
    using gateway_drafts_plain [of demand] gateway_described [of demand] general_drafts_plain [of demand]
    by (auto simp: local_plan_def Let_def list_all_iff split: if_splits)
  then have "try_map (validate_task tx) (plan_draft_tasks ?plan) = Inr (map ?clean (plan_draft_tasks ?plan))"
    using assms(1) by (intro try_map_total validate_plain_draft) auto
  moreover have "prd_acceptance_criteria (plan_draft_prd ?plan) \<noteq> []" "plan_draft_tasks ?plan \<noteq> []"
    by (auto simp: local_plan_def Let_def gateway_plan_def general_plan_def)
  ultimately have "validate_plan tx ?plan = Inr (?plan\<lparr>plan_draft_tasks := map ?clean (plan_draft_tasks ?plan)\<rparr>)"
    using assms(3) by (simp add: validate_plan_def)
  moreover have "schedulable (map ?clean (plan_draft_tasks ?plan))"
    using local_plan_listed [OF refl, where tx = tx and demand = demand]
    by (intro schedulable_listed) (simp_all add: o_def take_map image_image)
  ultimately show ?thesis by auto
qed

text \<open>
  A revision of a flow keeps the tasks of the flow as they are and in their order, and appends one that
  waits for all the tasks nothing waits for; if the flow could be scheduled, so can the revision.
\<close>

lemma local_revision_tasks:
  "plan_draft_tasks (local_revision tx f change) =
     map (draft_of_task f) (flow_tasks f) @ [change_task tx (map (draft_of_task f) (flow_tasks f)) change]"
  by (simp add: local_revision_def Let_def flow_to_plan_def)

lemma change_task_appended:
  assumes "schedulable ds"
  shows "schedulable (ds @ [change_task tx ds change])"
proof -
  let ?new = "change_task tx ds change"
  have fresh: "task_draft_key ?new \<notin> task_draft_key ` set ds"
    using fresh_change_key_fresh [of "map task_draft_key ds"] by (simp add: change_task_def Let_def)
  obtain g where g: "build_graph task_draft_key task_draft_key task_draft_depends_on ds = Inr g"
    using schedulable_graph [OF assms] by blast
  have known: "\<exists>d. bt_get (index_of task_draft_key ds) dep = Some d \<and> d < length ds \<and> d \<noteq> i"
    if "i < length ds" "dep \<in> set (task_draft_depends_on (ds ! i))" for i dep
    using build_graph_spec [OF g] that by blast
  then have needs: "dep \<in> task_draft_key ` set ds"
    if "d \<in> set ds" "dep \<in> set (task_draft_depends_on d)" for d dep
    using that by (metis index_of_None in_set_conv_nth option.distinct(1))
  have leaves: "set (task_draft_depends_on ?new) \<subseteq> task_draft_key ` set ds"
    by (auto simp: change_task_def Let_def)
  have "\<exists>g. build_graph task_draft_key task_draft_key task_draft_depends_on (ds @ [?new]) = Inr g"
  proof (rule build_graph_succeeds)
    fix i dep
    assume i: "i < length (ds @ [?new])" and dep: "dep \<in> set (task_draft_depends_on ((ds @ [?new]) ! i))"
    show "\<exists>d. bt_get (index_of task_draft_key (ds @ [?new])) dep = Some d \<and> d \<noteq> i"
    proof (cases "i < length ds")
      case True
      with dep have in_old: "dep \<in> set (task_draft_depends_on (ds ! i))" by (simp add: nth_append)
      with needs True have "dep \<noteq> task_draft_key ?new" using fresh by (metis nth_mem)
      with known [OF True in_old] show ?thesis by (auto simp: index_of_snoc)
    next
      case False
      with i dep leaves have "dep \<in> task_draft_key ` set ds" by (auto simp: nth_append)
      then obtain d where "bt_get (index_of task_draft_key ds) dep = Some d"
        using index_of_None [of task_draft_key ds dep] by (cases "bt_get (index_of task_draft_key ds) dep") auto
      moreover have "dep \<noteq> task_draft_key ?new" using \<open>dep \<in> task_draft_key ` set ds\<close> fresh by metis
      ultimately show ?thesis using index_of_Some [of task_draft_key ds dep d] False
        by (auto simp: index_of_snoc)
    qed
  qed
  moreover have "task_draft_key ?new \<notin> set (task_draft_depends_on d)" if "d \<in> insert ?new (set ds)" for d
    using that fresh needs leaves by blast
  then have "acyclic (needs_edge task_draft_key task_draft_depends_on (ds @ [?new]))"
    using assms fresh by (intro acyclic_appended) (auto simp: schedulable_def)
  ultimately show ?thesis
    using assms fresh by (simp add: schedulable_def is_ok_iff)
qed

text \<open>
  Validation puts the keys of the tasks in their normal form, and leaves the dependencies as they are: a
  plan whose keys were not in that form passes and cannot be scheduled.
\<close>

definition spaced_plan :: plan_draft where
  "spaced_plan =
     (general_plan ''x'')\<lparr>plan_draft_tasks :=
        [plan_task ''Scope Contract'' ''Scope'' ''Settle the scope'' [] [] (f64_lit 4 1) True [''settled''],
         plan_task ''Build'' ''Build'' ''Build it'' [] [''Scope Contract''] (f64_lit 8 1) False [''built'']]\<rparr>"

lemma spaced_plan_breaks:
  "schedulable (plan_draft_tasks spaced_plan)"
  "\<exists>plan. validate_plan ascii_texts spaced_plan = Inr plan \<and>
     (\<forall>fresh now assignments s.
        schedule fresh now (plan_draft_tasks plan) assignments s =
          Inl (relay_error.Validation ''task `build` depends on unknown task `Scope Contract`''))"
proof -
  show "schedulable (plan_draft_tasks spaced_plan)"
    by (rule schedulable_listed) (auto simp: spaced_plan_def plan_task_def less_Suc_eq)
  let ?tasks = "[plan_task ''scope-contract'' ''Scope'' ''Settle the scope'' [] [] (f64_lit 4 1) True [''settled''],
      plan_task ''build'' ''Build'' ''Build it'' [] [''Scope Contract''] (f64_lit 8 1) False [''built'']]"
  have valid: "validate_plan ascii_texts spaced_plan = Inr (spaced_plan\<lparr>plan_draft_tasks := ?tasks\<rparr>)"
    by code_simp
  have "build_graph task_draft_key task_draft_key task_draft_depends_on ?tasks =
      Inl (relay_error.Validation ''task `build` depends on unknown task `Scope Contract`'')"
    by code_simp
  moreover have "bt_len (index_of task_draft_key ?tasks) = length ?tasks"
    by (subst bt_len_index_of) (simp add: plan_task_def)
  ultimately have "schedule fresh now ?tasks assignments s =
      Inl (relay_error.Validation ''task `build` depends on unknown task `Scope Contract`'')"
    for fresh now assignments s
    unfolding schedule_def ordered_estimates_def by simp
  with valid show "\<exists>plan. validate_plan ascii_texts spaced_plan = Inr plan \<and>
     (\<forall>fresh now assignments s.
        schedule fresh now (plan_draft_tasks plan) assignments s =
          Inl (relay_error.Validation ''task `build` depends on unknown task `Scope Contract`''))"
    by auto
qed

end
