(* ===== verification/App_Command.thy ===== *)
theory App_Command
  imports App_Commit State_Sequence Planner
begin

text \<open>
  The shape of an application command (\<open>impl RelayApp\<close> under \<open>src/application/app/\<close>): it reads the
  projected state, decides on an actor and a list of events or fails, commits them, and answers from
  the new state. A command is a function on an instance, its store and its state, which it returns
  also when it fails. Clock readings and random identifiers are inputs, numbered in the order in
  which a command draws them; the readings of the matcher are numbered by the task and named by the
  principal it scores. So are the file system and the model behind the planner.
\<close>

type_synonym app = "flow_store \<times> org_state"
type_synonym 'a command = "app \<Rightarrow> 'a result \<times> app"

record call_context =
  ctx_library :: library
  ctx_environment :: environment
  ctx_faults :: io_faults
  ctx_clock :: "nat \<Rightarrow> instant"
  ctx_uuid :: "nat \<Rightarrow> string"
  ctx_texts :: text_functions
  ctx_show_time :: "instant \<Rightarrow> string"
    \<comment> \<open>\<open>Display\<close> of the date library\<close>
  ctx_is_dir :: "string \<Rightarrow> bool"
  ctx_tools :: planner_tools
  ctx_match_clock :: "nat \<Rightarrow> string \<Rightarrow> instant"

definition commit_events :: "call_context \<Rightarrow> string \<Rightarrow> domain_event list \<Rightarrow> event_envelope list command" where
  "commit_events ctx = commit (ctx_library ctx) (ctx_environment ctx) (ctx_faults ctx)"

text \<open>The \<open>?\<close> operator between two commands.\<close>

definition cmd_then :: "'a command \<Rightarrow> ('a \<Rightarrow> 'b command) \<Rightarrow> 'b command" where
  "cmd_then c f = (\<lambda>app. case c app of (Inl err, app') \<Rightarrow> (Inl err, app') | (Inr x, app') \<Rightarrow> f x app')"

definition cmd_read :: "(org_state \<Rightarrow> 'a result) \<Rightarrow> 'a command" where
  "cmd_read f = (\<lambda>(db, s). (f s, db, s))"

lemma cmd_then_assoc: "cmd_then (cmd_then c f) g = cmd_then c (\<lambda>x. cmd_then (f x) g)"
  by (auto simp: cmd_then_def fun_eq_iff split: prod.splits sum.splits)

section \<open>Deciding, committing, answering\<close>

type_synonym 'a decision = "string \<times> domain_event list \<times> 'a"

definition perform ::
    "call_context \<Rightarrow> (org_state \<Rightarrow> 'a decision result) \<Rightarrow> ('a \<Rightarrow> org_state \<Rightarrow> 'b result) \<Rightarrow> 'b command" where
  "perform ctx decide answer =
     cmd_then (cmd_read decide) (\<lambda>(actor, events, x).
     cmd_then (commit_events ctx actor events) (\<lambda>_. cmd_read (answer x)))"

abbreviation answer_with :: "'a \<Rightarrow> org_state \<Rightarrow> 'a result" where
  "answer_with x s \<equiv> Inr x"

lemma perform_refuses:
  "decide s = Inl err \<Longrightarrow> perform ctx decide answer (db, s) = (Inl err, db, s)"
  by (simp add: perform_def cmd_then_def cmd_read_def)

lemma perform_cases:
  assumes "perform ctx decide answer (db, s) = (r, db', s')"
  shows "(\<exists>err. decide s = Inl err \<and> r = Inl err \<and> db' = db \<and> s' = s) \<or>
    (\<exists>actor events x err. decide s = Inr (actor, events, x) \<and> r = Inl err \<and>
       commit_events ctx actor events (db, s) = (Inl err, db', s')) \<or>
    (\<exists>actor events x envs. decide s = Inr (actor, events, x) \<and> r = answer x s' \<and>
       commit_events ctx actor events (db, s) = (Inr envs, db', s'))"
  using assms
  by (auto simp: perform_def cmd_then_def cmd_read_def split: sum.splits prod.splits)

lemma perform_succeeds:
  assumes "perform ctx decide answer (db, s) = (Inr y, db', s')"
  obtains actor events x envs where "decide s = Inr (actor, events, x)" "answer x s' = Inr y"
    "commit_events ctx actor events (db, s) = (Inr envs, db', s')"
  using perform_cases [OF assms] by auto

text \<open>
  A commit of an initialized organization is \<open>commit_as\<close>: the envelopes carry the decided events
  first, then the notifications they queue.
\<close>

lemma commit_events_ok:
  assumes "commit_events ctx actor es (db, s) = (Inr envs, db', s')"
  shows "\<exists>org queued. org_organization s = Some org \<and>
    queue_events (ctx_library ctx) (ctx_environment ctx) s (organization_id org) actor es = Inr queued \<and>
    prepare_batch (ctx_environment ctx) (last_sequence s) (organization_id org) actor (es @ queued) = Inr envs \<and>
    apply_all s envs = Inr s' \<and>
    commit_as (ctx_library ctx) (ctx_environment ctx) (ctx_faults ctx) (organization_id org) actor es (db, s)
      = (Inr envs, db', s')"
proof -
  from assms obtain org where org: "org_organization s = Some org"
    and run: "commit_as (ctx_library ctx) (ctx_environment ctx) (ctx_faults ctx) (organization_id org)
        actor es (db, s) = (Inr envs, db', s')"
    by (auto simp: commit_events_def commit_def split: sum.splits)
  from commit_as_ok [OF run] org run show ?thesis by blast
qed

text \<open>
  What holds before a command and is kept by every event holds after it, also when it fails and
  reloads: commands add nothing to the projection.
\<close>

lemma apply_all_invariant:
  assumes "apply_all s envs = Inr s'" and "I s"
    and "\<And>e t t'. I t \<Longrightarrow> apply_event e t = Inr t' \<Longrightarrow> I t'"
    and "\<And>t n. I (t\<lparr>last_sequence := n\<rparr>) \<longleftrightarrow> I t"
  shows "I s'"
  using assms(1) unfolding apply_all_def
  by (rule try_fold_invariant) (use assms in \<open>auto simp: apply_envelope_Inr\<close>)

text \<open>A decided batch is accepted when the projection takes all its events in turn.\<close>

definition accepts :: "org_state \<Rightarrow> domain_event list \<Rightarrow> bool" where
  "accepts s es \<longleftrightarrow> is_ok (apply_events s es)"

lemma apply_events_Nil [simp]: "apply_events s [] = Inr s"
  by (simp add: apply_events_def)

lemma apply_events_Cons [simp]: "apply_events s (e # es) = and_then (apply_event e s) (\<lambda>t. apply_events t es)"
  by (simp add: apply_events_def)

lemma apply_events_append:
  "apply_events s (es @ fs) = and_then (apply_events s es) (\<lambda>t. apply_events t fs)"
  by (simp add: apply_events_def try_fold_append)

lemma accepts_Nil [simp]: "accepts s []"
  by (simp add: accepts_def)

lemma accepts_Cons:
  "accepts s (e # es) \<longleftrightarrow> (\<exists>s'. apply_event e s = Inr s' \<and> accepts s' es)"
  by (auto simp: accepts_def is_ok_iff)

text \<open>
  What a command commits is what its events do, and notifications are all that comes on top: the new
  state is the one the events lead to, up to the queue of deliveries and the number of the log.
\<close>

lemma queue_frame:
  assumes "apply_events t (map (\<lambda>d. NotificationEvent (NotificationQueued d)) ds) = Inr u"
  shows "u = t\<lparr>notification_deliveries := notification_deliveries u\<rparr>"
  using assms
proof (induction ds arbitrary: t)
  case (Cons d ds)
  then obtain v where v: "apply_notification_queued d t = Inr v"
    and rest: "apply_events v (map (\<lambda>d. NotificationEvent (NotificationQueued d)) ds) = Inr u" by auto
  from v obtain m where m: "v = t\<lparr>notification_deliveries := m\<rparr>"
    by (auto simp: apply_notification_queued_def split: if_splits)
  from Cons.IH [OF rest] have "u = v\<lparr>notification_deliveries := notification_deliveries u\<rparr>" .
  also have "\<dots> = t\<lparr>notification_deliveries := notification_deliveries u\<rparr>" unfolding m by simp
  finally show ?case .
qed simp

lemma committed:
  assumes "commit_events ctx actor es (db, s) = (Inr envs, db', s')"
  shows "\<exists>t. apply_events s es = Inr t \<and>
    s' = t\<lparr>notification_deliveries := notification_deliveries s', last_sequence := last_sequence s'\<rparr>"
proof -
  from commit_events_ok [OF assms] obtain org queued where "org_organization s = Some org"
    and queued: "queue_events (ctx_library ctx) (ctx_environment ctx) s (organization_id org) actor es = Inr queued"
    and batch: "prepare_batch (ctx_environment ctx) (last_sequence s) (organization_id org) actor (es @ queued) = Inr envs"
    and run: "apply_all s envs = Inr s'" by blast
  from apply_all_events [OF run] prepare_batch_Inr(1) [OF batch]
  have "apply_events s (es @ queued) = Inr (s'\<lparr>last_sequence := last_sequence s\<rparr>)" by simp
  then obtain t where t: "apply_events s es = Inr t"
    and rest: "apply_events t queued = Inr (s'\<lparr>last_sequence := last_sequence s\<rparr>)"
    by (auto simp: apply_events_append)
  from queued obtain ds where "queued = map (\<lambda>d. NotificationEvent (NotificationQueued d)) ds"
    by (auto simp: queue_events_def)
  with queue_frame rest have "s'\<lparr>last_sequence := last_sequence s\<rparr> =
      t\<lparr>notification_deliveries := notification_deliveries s'\<rparr>" by fastforce
  from arg_cong [OF this, of "\<lambda>v. v\<lparr>last_sequence := last_sequence s'\<rparr>"] t show ?thesis by simp
qed

text \<open>What a successful command did, whatever it decided.\<close>

lemma performed:
  assumes "perform ctx decide answer (db, s) = (Inr y, db', s')"
  obtains actor events x t where "decide s = Inr (actor, events, x)" "answer x s' = Inr y"
    "apply_events s events = Inr t"
    "s' = t\<lparr>notification_deliveries := notification_deliveries s', last_sequence := last_sequence s'\<rparr>"
proof -
  from assms obtain actor events x envs where d: "decide s = Inr (actor, events, x)" "answer x s' = Inr y"
    and c: "commit_events ctx actor events (db, s) = (Inr envs, db', s')" by (rule perform_succeeds)
  from committed [OF c] obtain t where "apply_events s events = Inr t"
    "s' = t\<lparr>notification_deliveries := notification_deliveries s', last_sequence := last_sequence s'\<rparr>" by blast
  with d show ?thesis by (rule that)
qed

lemma try_fold_unit: "(\<And>x. x \<in> set xs \<Longrightarrow> f () x = Inr ()) \<Longrightarrow> try_fold f () xs = Inr ()"
  by (induction xs) simp_all

end
