(* ===== verification/App_Policy.thy ===== *)
theory App_Policy
  imports App_Command
begin

text \<open>
  Who may act on what (\<open>src/application/app/policy.rs\<close>): participants of a flow, actors of a task,
  recipients of a message, and the guards that commands share.
\<close>

section \<open>Participants and actors\<close>

definition principal_is_task_actor :: "org_state \<Rightarrow> task \<Rightarrow> principal \<Rightarrow> bool" where
  "principal_is_task_actor s t p \<longleftrightarrow>
     (case task_assignment t of
        None \<Rightarrow> False
      | Some a \<Rightarrow>
          target_id (assignment_owner a) = principal_id p
          \<or> (target_kind (assignment_owner a) = Team
              \<and> principal_team_id p = Some (target_id (assignment_owner a)))
          \<or> list_ex (\<lambda>c. target_id c = principal_id p) (assignment_copilots a)
          \<or> principal_owner_id p = Some (target_id (assignment_owner a))
          \<or> (case bt_get (principals s) (target_id (assignment_owner a)) of
               None \<Rightarrow> False | Some owner \<Rightarrow> principal_owner_id owner = Some (principal_id p)))"

definition principal_is_flow_participant :: "org_state \<Rightarrow> flow \<Rightarrow> principal \<Rightarrow> bool" where
  "principal_is_flow_participant s f p \<longleftrightarrow>
     demand_requester (flow_demand f) = principal_id p
     \<or> demand_requester (flow_demand f) = principal_name p
     \<or> list_ex (\<lambda>t. principal_is_task_actor s t p) (flow_tasks f)"

definition message_target_is_flow_participant :: "org_state \<Rightarrow> flow \<Rightarrow> assignment_target \<Rightarrow> bool" where
  "message_target_is_flow_participant s f target \<longleftrightarrow>
     (if target_kind target = Team then
        list_ex (\<lambda>t. case task_assignment t of
            None \<Rightarrow> False
          | Some a \<Rightarrow> target_id (assignment_owner a) = target_id target
                     \<or> list_ex (\<lambda>c. target_id c = target_id target) (assignment_copilots a))
          (flow_tasks f)
        \<or> (case get_principal s (demand_requester (flow_demand f)) of
             Inl _ \<Rightarrow> False | Inr r \<Rightarrow> principal_team_id r = Some (target_id target))
      else case bt_get (principals s) (target_id target) of
             None \<Rightarrow> False | Some p \<Rightarrow> principal_is_flow_participant s f p)"

definition represents :: "org_state \<Rightarrow> principal \<Rightarrow> assignment_target \<Rightarrow> bool" where
  "represents s p r \<longleftrightarrow>
     (case target_kind r of
        target_kind.Human \<Rightarrow> target_id r = principal_id p
      | target_kind.Agent \<Rightarrow>
          target_id r = principal_id p
          \<or> (principal_kind p = principal_kind.Human
              \<and> (case bt_get (principals s) (target_id r) of
                   None \<Rightarrow> False | Some agent \<Rightarrow> principal_owner_id agent = Some (principal_id p)))
      | Team \<Rightarrow> principal_team_id p = Some (target_id r))"

definition message_recipient_ids :: "org_state \<Rightarrow> flow_message \<Rightarrow> principal \<Rightarrow> string list" where
  "message_recipient_ids s m p = map target_id (filter (represents s p) (message_recipients m))"

definition principal_has_flow_access :: "org_state \<Rightarrow> flow \<Rightarrow> principal \<Rightarrow> bool" where
  "principal_has_flow_access s f p \<longleftrightarrow>
     principal_is_flow_participant s f p
     \<or> list_ex (\<lambda>m. message_flow_id m = flow_id f
          \<and> (message_sender_id m = principal_id p \<or> message_recipient_ids s m p \<noteq> []))
         (bt_values (messages s))"

section \<open>Guards\<close>

definition ensure_task_actor :: "org_state \<Rightarrow> task \<Rightarrow> string \<Rightarrow> unit result" where
  "ensure_task_actor s t actor =
     (if task_assignment t = None then Inl (NoEligibleAssignee (task_title t))
      else
        and_then (get_principal s actor) (\<lambda>p.
          if principal_is_task_actor s t p then Inr ()
          else Inl (PermissionDenied (principal_name p @ '' is not assigned to task '' @ task_id t))))"

definition incomplete_dependencies :: "flow \<Rightarrow> task \<Rightarrow> string list" where
  "incomplete_dependencies f t =
     map task_key
       (filter (\<lambda>d. task_status d \<noteq> task_status.Completed)
         (List.map_filter (flow_task f) (task_depends_on t)))"

definition ensure_dependencies_complete :: "flow \<Rightarrow> task \<Rightarrow> unit result" where
  "ensure_dependencies_complete f t =
     (if incomplete_dependencies f t = [] then Inr ()
      else Inl (InvalidTransition (''task '' @ task_key t @ '' is waiting for: '' @
             join_with '', '' (incomplete_dependencies f t))))"

definition ensure_status :: "task \<Rightarrow> task_status list \<Rightarrow> unit result" where
  "ensure_status t allowed =
     (if task_status t \<in> set allowed then Inr ()
      else Inl (InvalidTransition (''task '' @ task_id t @ '' is '' @ debug_task_status (task_status t) @
             '', expected one of ['' @ join_with '', '' (map debug_task_status allowed) @ '']'')))"

lemma ensure_task_actor_Inr [simp]:
  "ensure_task_actor s t actor = Inr u \<longleftrightarrow>
     task_assignment t \<noteq> None \<and> (\<exists>p. lookup_principal s actor = Some p \<and> principal_is_task_actor s t p)"
  by (auto simp: ensure_task_actor_def get_principal_Inr split: if_splits)

lemma ensure_status_Inr [simp]: "ensure_status t allowed = Inr u \<longleftrightarrow> task_status t \<in> set allowed"
  by (simp add: ensure_status_def)

lemma ensure_dependencies_complete_Inr [simp]:
  "ensure_dependencies_complete f t = Inr u \<longleftrightarrow>
     (\<forall>d \<in> set (task_depends_on t). \<forall>dep. flow_task f d = Some dep \<longrightarrow> task_status dep = task_status.Completed)"
  by (force simp: ensure_dependencies_complete_def incomplete_dependencies_def filter_empty_conv
      List.map_filter_def)

text \<open>\<open>task_snapshot\<close> of \<open>mod.rs\<close>: the flow and the task of a task reference.\<close>

definition task_snapshot :: "org_state \<Rightarrow> string \<Rightarrow> (flow \<times> task) result" where
  "task_snapshot s tid = find_task s tid"

text \<open>
  The lookup finds its task in a flow that is filed under its own identifier, and the same task again
  when asked with the identifier.
\<close>

lemma task_snapshot_Inr:
  assumes "task_snapshot s tid = Inr (f, t)" and "flows_filed s"
  shows "bt_get (flows s) (flow_id f) = Some f" and "t \<in> set (flow_tasks f)" and "task_matches tid t"
  using assms find_task_Inr [of s tid f t] flow_task_found [of f tid t]
  by (auto simp: task_snapshot_def flows_filed_def)

lemma flow_task_some: "t \<in> set (flow_tasks f) \<Longrightarrow> \<exists>u. flow_task f (task_id t) = Some u"
  by (cases "flow_task f (task_id t)") (auto simp: flow_task_def task_matches_def find_None_iff)

end
