(* ===== verification/App_Authority.thy ===== *)
theory App_Authority
  imports App_Policy "HOL-Library.Product_Lexorder"
begin

text \<open>
  Permissions and roles (\<open>src/application/app/authority.rs\<close>): what each role allows, granting and
  revoking, and the migration that gives the principals of an old log their first roles. A tenant
  that has an administrator keeps one.
\<close>

section \<open>Permissions\<close>

datatype permission =
    OrganizationRead | OrganizationManage | PrincipalManage | AuthorityRead | AuthorityManage
  | CredentialManage | DemandCreate | DashboardRead | NotificationManage | AuditRead

fun debug_permission :: "permission \<Rightarrow> string" where
  "debug_permission OrganizationRead = ''OrganizationRead''"
| "debug_permission OrganizationManage = ''OrganizationManage''"
| "debug_permission PrincipalManage = ''PrincipalManage''"
| "debug_permission AuthorityRead = ''AuthorityRead''"
| "debug_permission AuthorityManage = ''AuthorityManage''"
| "debug_permission CredentialManage = ''CredentialManage''"
| "debug_permission DemandCreate = ''DemandCreate''"
| "debug_permission DashboardRead = ''DashboardRead''"
| "debug_permission NotificationManage = ''NotificationManage''"
| "debug_permission AuditRead = ''AuditRead''"

fun role_allows :: "organization_role \<Rightarrow> permission \<Rightarrow> bool" where
  "role_allows TenantAdmin perm = True"
| "role_allows OrganizationAdmin perm = True"
| "role_allows Manager perm \<longleftrightarrow>
     perm = OrganizationRead \<or> perm = DemandCreate \<or> perm = DashboardRead \<or> perm = AuditRead
     \<or> perm = AuthorityRead"
| "role_allows Auditor perm \<longleftrightarrow>
     perm = OrganizationRead \<or> perm = DashboardRead \<or> perm = AuditRead \<or> perm = AuthorityRead"
| "role_allows Member perm \<longleftrightarrow> perm = OrganizationRead"
| "role_allows organization_role.Agent perm \<longleftrightarrow> perm = OrganizationRead"

definition is_system_actor :: "string \<Rightarrow> bool" where
  "is_system_actor actor \<longleftrightarrow> actor = ''admin'' \<or> starts_with actor ''tower://''"

definition ensure_permission :: "org_state \<Rightarrow> string \<Rightarrow> permission \<Rightarrow> unit result" where
  "ensure_permission s actor perm =
     (case get_principal s actor of
        Inl err \<Rightarrow>
          (case err of
             NotFound _ _ \<Rightarrow> if is_system_actor actor then Inr () else Inl err
           | _ \<Rightarrow> Inl err)
      | Inr p \<Rightarrow>
          if list_ex (\<lambda>role. role_allows role perm) (roles_for s (principal_id p)) then Inr ()
          else Inl (PermissionDenied
            (principal_name p @ '' lacks permission '' @ debug_permission perm)))"

definition authorize_organization_read :: "org_state \<Rightarrow> string \<Rightarrow> unit result" where
  "authorize_organization_read s actor = ensure_permission s actor OrganizationRead"

definition authorize_principal_admin :: "org_state \<Rightarrow> string \<Rightarrow> unit result" where
  "authorize_principal_admin s actor = ensure_permission s actor PrincipalManage"

definition authorize_credential_admin :: "org_state \<Rightarrow> string \<Rightarrow> unit result" where
  "authorize_credential_admin s actor = ensure_permission s actor CredentialManage"

definition authorize_notification_admin :: "org_state \<Rightarrow> string \<Rightarrow> unit result" where
  "authorize_notification_admin s actor = ensure_permission s actor NotificationManage"

definition authorize_audit :: "org_state \<Rightarrow> string \<Rightarrow> unit result" where
  "authorize_audit s actor = ensure_permission s actor AuditRead"

definition list_role_bindings :: "org_state \<Rightarrow> string \<Rightarrow> string \<Rightarrow> bool \<Rightarrow> role_binding list result" where
  "list_role_bindings s target actor include_revoked =
     and_then (get_principal s target) (\<lambda>t.
     and_then
       (if (case get_principal s actor of Inr p \<Rightarrow> principal_id p = principal_id t | Inl _ \<Rightarrow> False)
        then Inr () else ensure_permission s actor AuthorityRead) (\<lambda>_.
       Inr (sort_key role_binding_granted_at
         (filter (\<lambda>b. role_binding_principal_id b = principal_id t
                    \<and> (include_revoked \<or> role_binding_is_active b))
           (bt_values (role_bindings s))))))"

section \<open>Granting and revoking\<close>

fun validate_role_kind :: "principal_kind \<Rightarrow> organization_role \<Rightarrow> unit result" where
  "validate_role_kind principal_kind.Agent role =
     (if role = organization_role.Agent then Inr ()
      else Inl (relay_error.Validation ''an Agent principal can only hold the agent role''))"
| "validate_role_kind principal_kind.Human role =
     (if role = organization_role.Agent
      then Inl (relay_error.Validation ''a Human principal cannot hold the agent role'')
      else Inr ())"

definition actor_name_of :: "org_state \<Rightarrow> string \<Rightarrow> string" where
  "actor_name_of s actor =
     (case get_principal s actor of Inr p \<Rightarrow> principal_name p | Inl _ \<Rightarrow> actor)"

definition decide_grant_role ::
    "call_context \<Rightarrow> string \<Rightarrow> organization_role \<Rightarrow> string \<Rightarrow> org_state \<Rightarrow> role_binding decision result" where
  "decide_grant_role ctx target role actor s =
     and_then (ensure_permission s actor AuthorityManage) (\<lambda>_.
     and_then (get_principal s target) (\<lambda>t.
     and_then (validate_role_kind (principal_kind t) role) (\<lambda>_.
       if role = TenantAdmin \<and>
          (case get_principal s actor of
             Inr p \<Rightarrow> \<not> has_role s (principal_id p) TenantAdmin | Inl _ \<Rightarrow> False)
       then Inl (PermissionDenied ''only a tenant admin can grant tenant_admin'')
       else if has_role s (principal_id t) role
       then Inl (relay_error.Validation
         (principal_name t @ '' already has role '' @ show_organization_role role))
       else
         and_then (get_tenant s) (\<lambda>tenant.
         and_then (get_organization s) (\<lambda>org.
           let b = \<lparr>role_binding_id = new_id ''ROLE'' (ctx_uuid ctx 0),
                    role_binding_tenant_id = tenant_id tenant,
                    role_binding_organization_id = organization_id org,
                    role_binding_principal_id = principal_id t,
                    role_binding_role = role,
                    role_binding_granted_by = actor_name_of s actor,
                    role_binding_granted_at = ctx_clock ctx 0,
                    role_binding_revoked_by = None,
                    role_binding_revoked_at = None\<rparr>
           in Inr (actor_name_of s actor, [RegistryEvent (RoleGranted b)], b))))))"

definition grant_role :: "call_context \<Rightarrow> string \<Rightarrow> organization_role \<Rightarrow> string \<Rightarrow> role_binding command" where
  "grant_role ctx target role actor = perform ctx (decide_grant_role ctx target role actor) answer_with"

definition active_admins :: "org_state \<Rightarrow> role_binding list" where
  "active_admins s =
     filter (\<lambda>b. role_binding_is_active b \<and> role_binding_role b = TenantAdmin) (bt_values (role_bindings s))"

definition decide_revoke_role ::
    "call_context \<Rightarrow> string \<Rightarrow> string \<Rightarrow> org_state \<Rightarrow> string decision result" where
  "decide_revoke_role ctx bid actor s =
     and_then (ensure_permission s actor AuthorityManage) (\<lambda>_.
     and_then (found ''active role binding'' bid
        (case bt_get (role_bindings s) bid of
           Some b \<Rightarrow> (if role_binding_is_active b then Some b else None) | None \<Rightarrow> None)) (\<lambda>b.
       if role_binding_role b = TenantAdmin \<and> length (active_admins s) = 1
       then Inl (InvalidTransition ''cannot revoke the last tenant admin'')
       else Inr (actor_name_of s actor,
         [RegistryEvent (RoleRevoked (role_binding_id b) (actor_name_of s actor) (ctx_clock ctx 0))], bid)))"

text \<open>The answer indexes the map; the binding is there, as bindings are never removed.\<close>

definition revoke_role :: "call_context \<Rightarrow> string \<Rightarrow> string \<Rightarrow> role_binding command" where
  "revoke_role ctx bid actor =
     perform ctx (decide_revoke_role ctx bid actor)
       (\<lambda>bid s. found ''role binding'' bid (bt_get (role_bindings s) bid))"

section \<open>Old logs\<close>

definition first_roles :: "call_context \<Rightarrow> org_state \<Rightarrow> tenant \<Rightarrow> organization \<Rightarrow> bool \<Rightarrow> principal list \<Rightarrow> domain_event list" where
  "first_roles ctx s tenant org assigned ps =
     (let pending = filter (\<lambda>p. \<not> list_ex (\<lambda>b. role_binding_is_active b
              \<and> role_binding_principal_id b = principal_id p) (bt_values (role_bindings s))) ps;
          role_at = (\<lambda>i p. case principal_kind p of
              principal_kind.Agent \<Rightarrow> organization_role.Agent
            | principal_kind.Human \<Rightarrow>
                if \<not> assigned \<and> list_all (\<lambda>q. principal_kind q = principal_kind.Agent) (take i pending)
                then TenantAdmin else Member)
      in map (\<lambda>(i, p). RegistryEvent (RoleGranted
           \<lparr>role_binding_id = new_id ''ROLE'' (ctx_uuid ctx (i + 1)),
            role_binding_tenant_id = tenant_id tenant,
            role_binding_organization_id = organization_id org,
            role_binding_principal_id = principal_id p,
            role_binding_role = role_at i p,
            role_binding_granted_by = ''tower://authority-migration'',
            role_binding_granted_at = ctx_clock ctx i,
            role_binding_revoked_by = None,
            role_binding_revoked_at = None\<rparr>)) (List.enumerate 0 pending))"

definition legacy_events :: "call_context \<Rightarrow> org_state \<Rightarrow> organization \<Rightarrow> domain_event list" where
  "legacy_events ctx s org =
     (let tenant = (case org_tenant s of
            Some t \<Rightarrow> t
          | None \<Rightarrow> \<lparr>tenant_id = new_id ''TEN'' (ctx_uuid ctx 0), tenant_name = organization_name org,
                     tenant_created_at = organization_created_at org\<rparr>)
      in (if org_tenant s = None then [RegistryEvent (TenantInitialized tenant)] else []) @
         first_roles ctx s tenant org (active_admins s \<noteq> [])
           (sort_key (\<lambda>p. (principal_created_at p, principal_id p)) (bt_values (principals s))))"

definition migrate_legacy_authority :: "call_context \<Rightarrow> unit command" where
  "migrate_legacy_authority ctx = (\<lambda>(db, s).
     (case org_organization s of
        None \<Rightarrow> (Inr (), db, s)
      | Some org \<Rightarrow>
          if legacy_events ctx s org = [] then (Inr (), db, s)
          else
            (case commit_as (ctx_library ctx) (ctx_environment ctx) (ctx_faults ctx)
                    (organization_id org) ''tower://authority-migration'' (legacy_events ctx s org) (db, s) of
               (Inl err, app) \<Rightarrow> (Inl err, app)
             | (Inr _, app) \<Rightarrow> (Inr (), app))))"

text \<open>\<open>open_with_store\<close> of \<open>mod.rs\<close>: replay, check the tenant, migrate, once more after a conflict.\<close>

definition open_app :: "call_context \<Rightarrow> call_context \<Rightarrow> flow_store \<Rightarrow> unit result \<times> app" where
  "open_app ctx again db =
     (case open_with_store (ctx_library ctx) db of
        Inl err \<Rightarrow> (Inl err, db, default_state)
      | Inr s \<Rightarrow>
          (case migrate_legacy_authority ctx (db, s) of
             (Inl (ConcurrentModification _ _), app) \<Rightarrow> migrate_legacy_authority again app
           | (_, app) \<Rightarrow> (Inr (), app)))"

section \<open>What permissions promise\<close>

lemma ensure_permission_Inr [simp]:
  "ensure_permission s actor perm = Inr u \<longleftrightarrow>
     (case lookup_principal s actor of
        Some p \<Rightarrow> \<exists>role. has_role s (principal_id p) role \<and> role_allows role perm
      | None \<Rightarrow> is_system_actor actor)"
  by (cases "lookup_principal s actor")
    (auto simp: ensure_permission_def get_principal_def found_def list_ex_iff set_roles_for)

lemma role_allows_read: "role_allows role OrganizationRead"
  by (cases role) simp_all

lemma role_allows_manage:
  "perm \<in> {OrganizationManage, PrincipalManage, AuthorityManage, CredentialManage, NotificationManage} \<Longrightarrow>
     role_allows role perm \<longleftrightarrow> role = TenantAdmin \<or> role = OrganizationAdmin"
  by (cases role) auto

text \<open>A decided grant is of the right kind, is accepted by the projection and gives exactly that role.\<close>

lemma decide_grant_role_Inr:
  assumes "decide_grant_role ctx target role actor s = Inr (author, es, b)"
  obtains t tenant org where "lookup_principal s target = Some t" "org_tenant s = Some tenant"
    "org_organization s = Some org" "validate_role_kind (principal_kind t) role = Inr ()"
    "\<not> has_role s (principal_id t) role" "es = [RegistryEvent (RoleGranted b)]"
    "role_binding_principal_id b = principal_id t" "role_binding_role b = role"
    "role_binding_is_active b" "role_binding_tenant_id b = tenant_id tenant"
    "role_binding_organization_id b = organization_id org"
    "role = TenantAdmin \<Longrightarrow> (case lookup_principal s actor of
        Some p \<Rightarrow> has_role s (principal_id p) TenantAdmin | None \<Rightarrow> is_system_actor actor)"
  using assms
  by (auto simp: decide_grant_role_def get_principal_def found_def Let_def role_binding_is_active_def
      split: if_splits option.splits)

lemma filed_principal:
  "registry_filed s \<Longrightarrow> lookup_principal s key = Some p \<Longrightarrow> lookup_principal s (principal_id p) = Some p"
  using lookup_principal_stored [of s key p]
  by (auto simp: registry_filed_def intro: lookup_principal_id)

lemma decided_grant_accepted:
  assumes "decide_grant_role ctx target role actor s = Inr (author, es, b)" and "registry_filed s"
  shows "accepts s es"
  using assms(1)
proof (rule decide_grant_role_Inr)
  fix t tenant org
  assume facts: "lookup_principal s target = Some t" "org_tenant s = Some tenant"
    "org_organization s = Some org" "\<not> has_role s (principal_id t) role" "es = [RegistryEvent (RoleGranted b)]"
    "role_binding_principal_id b = principal_id t" "role_binding_role b = role"
    "role_binding_tenant_id b = tenant_id tenant" "role_binding_organization_id b = organization_id org"
  from filed_principal [OF assms(2) facts(1)]
  have "get_principal s (principal_id t) = Inr t" by (simp add: get_principal_Inr)
  with facts show "accepts s es"
    by (auto simp: accepts_Cons apply_role_granted_def has_role_iff)
qed

definition has_admin :: "org_state \<Rightarrow> bool" where
  "has_admin s \<longleftrightarrow> (\<exists>pid. has_role s pid TenantAdmin)"

lemma active_admins_iff: "b \<in> set (active_admins s) \<longleftrightarrow>
    (\<exists>k. bt_get (role_bindings s) k = Some b) \<and> role_binding_is_active b \<and> role_binding_role b = TenantAdmin"
  by (auto simp: active_admins_def)

lemma distinct_active_admins: "registry_filed s \<Longrightarrow> distinct (active_admins s)"
proof -
  assume "registry_filed s"
  then have "keyed role_binding_id (role_bindings s)" by (simp add: registry_filed_def)
  then have "distinct (map role_binding_id (bt_values (role_bindings s)))"
    using distinct_fst_entries by (simp add: keyed_values_distinct)
  then show ?thesis unfolding active_admins_def by (intro distinct_filter) (simp add: distinct_map)
qed

text \<open>A decided revocation is accepted, and leaves a tenant administrator when there was one.\<close>

lemma decide_revoke_role_Inr:
  assumes "decide_revoke_role ctx bid actor s = Inr (author, es, x)" and "registry_filed s"
  obtains b where "bt_get (role_bindings s) bid = Some b" "role_binding_is_active b" "x = bid"
    "es = [RegistryEvent (RoleRevoked bid author (ctx_clock ctx 0))]"
    "role_binding_role b = TenantAdmin \<Longrightarrow> length (active_admins s) \<noteq> 1"
  using assms
  by (auto simp: decide_revoke_role_def registry_filed_def split: if_splits option.splits)

lemma decided_revoke_keeps_admin:
  assumes decided: "decide_revoke_role ctx bid actor s = Inr (author, es, x)"
    and filed: "registry_filed s" and "has_admin s"
  shows "\<exists>s'. apply_events s es = Inr s' \<and> has_admin s'"
  using decided filed
proof (rule decide_revoke_role_Inr)
  fix b
  assume b: "bt_get (role_bindings s) bid = Some b" "role_binding_is_active b"
    and es: "es = [RegistryEvent (RoleRevoked bid author (ctx_clock ctx 0))]"
    and guard: "role_binding_role b = TenantAdmin \<Longrightarrow> length (active_admins s) \<noteq> 1"
  let ?s' = "s\<lparr>role_bindings := bt_insert bid
         (b\<lparr>role_binding_revoked_by := Some author,
            role_binding_revoked_at := Some (ctx_clock ctx 0)\<rparr>) (role_bindings s)\<rparr>"
  have run: "apply_events s es = Inr ?s'"
    using b by (simp add: es apply_role_revoked_def)
  have "\<exists>c \<in> set (active_admins s). c \<noteq> b"
  proof (rule ccontr)
    assume none: "\<not> (\<exists>c \<in> set (active_admins s). c \<noteq> b)"
    from assms(3) obtain c where "c \<in> set (active_admins s)"
      by (auto simp: has_admin_def has_role_iff active_admins_iff)
    moreover have all: "x = b" if "x \<in> set (active_admins s)" for x using none that by blast
    ultimately have "b \<in> set (active_admins s)" by metis
    with all have single: "set (active_admins s) = {b}" by (intro equalityI subsetI) (simp_all add: all)
    with distinct_active_admins [OF filed] distinct_card have "length (active_admins s) = 1"
      by (metis card.empty card_insert_disjoint empty_iff finite.emptyI One_nat_def)
    moreover have "role_binding_role b = TenantAdmin"
      using single active_admins_iff [of b s] by simp
    ultimately show False using guard by simp
  qed
  then obtain c k where c: "bt_get (role_bindings s) k = Some c" "role_binding_is_active c"
      "role_binding_role c = TenantAdmin" "c \<noteq> b"
    by (auto simp: active_admins_iff)
  with b(1) have "k \<noteq> bid" by auto
  with c have "bt_get (role_bindings ?s') k = Some c" by simp
  with c have "has_admin ?s'" unfolding has_admin_def has_role_iff by blast
  with run show ?thesis by blast
qed

text \<open>Nobody but a tenant administrator, or the system itself, makes a tenant administrator.\<close>

lemma only_admins_make_admins:
  assumes "decide_grant_role ctx target TenantAdmin actor s = Inr (author, es, b)"
  shows "case lookup_principal s actor of
      Some p \<Rightarrow> has_role s (principal_id p) TenantAdmin | None \<Rightarrow> is_system_actor actor"
  using assms by (rule decide_grant_role_Inr) simp

section \<open>The commands\<close>

lemma has_role_committed:
  "s' = t\<lparr>notification_deliveries := m, last_sequence := n\<rparr> \<Longrightarrow> has_role s' p r \<longleftrightarrow> has_role t p r"
  by (simp add: has_role_iff)

lemma revoke_role_keeps_admin:
  assumes "revoke_role ctx bid actor (db, s) = (Inr b, db', s')" and "registry_filed s" and "has_admin s"
  shows "has_admin s'"
proof -
  from assms(1) obtain author es x t where d: "decide_revoke_role ctx bid actor s = Inr (author, es, x)"
    and t: "apply_events s es = Inr t"
    and s': "s' = t\<lparr>notification_deliveries := notification_deliveries s', last_sequence := last_sequence s'\<rparr>"
    unfolding revoke_role_def by (rule performed)
  from decided_revoke_keeps_admin [OF d assms(2,3)] t have "has_admin t" by auto
  then show ?thesis by (simp add: has_admin_def has_role_committed [OF s'])
qed

lemma grant_role_gives:
  assumes "grant_role ctx target role actor (db, s) = (Inr b, db', s')"
    and "bt_get (role_bindings s) (role_binding_id b) = None"
  shows "\<exists>t. lookup_principal s target = Some t \<and>
    (\<forall>pid r. has_role s' pid r \<longleftrightarrow> has_role s pid r \<or> (pid = principal_id t \<and> r = role))"
proof -
  from assms(1) obtain author es x u where d: "decide_grant_role ctx target role actor s = Inr (author, es, x)"
    and x: "x = b" and u: "apply_events s es = Inr u"
    and s': "s' = u\<lparr>notification_deliveries := notification_deliveries s', last_sequence := last_sequence s'\<rparr>"
    unfolding grant_role_def by (rule performed) auto
  from d x obtain t where t: "lookup_principal s target = Some t" "es = [RegistryEvent (RoleGranted b)]"
      "role_binding_principal_id b = principal_id t" "role_binding_role b = role" "role_binding_is_active b"
    by (auto elim!: decide_grant_role_Inr)
  from u t(2) have "apply_role_granted b s = Inr u" by simp
  from role_grant_effect [OF this assms(2)] t show ?thesis
    by (auto simp: has_role_committed [OF s'])
qed

end
