(* ===== verification/App_Organization.thy ===== *)
theory App_Organization
  imports App_Authority
begin

text \<open>
  Setting up an organization (\<open>init_organization\<close>, \<open>create_team\<close> and \<open>register_principal\<close> of
  \<open>src/application/app/mod.rs\<close>): what each refuses, what it commits, and what the registry then holds.
\<close>

section \<open>The organization\<close>

definition decide_init_organization ::
    "call_context \<Rightarrow> flow_store \<Rightarrow> string \<Rightarrow> string \<Rightarrow> org_state \<Rightarrow> (domain_event list \<times> organization) result" where
  "decide_init_organization ctx db name actor s =
     (if org_organization s \<noteq> None then Inl OrganizationAlreadyInitialized
      else if str_trim name = [] then Inl (relay_error.Validation ''organization name cannot be empty'')
      else if org_tenant s \<noteq> None then Inl TenantAlreadyInitialized
      else
        let now = ctx_clock ctx 0;
            tenant = \<lparr>tenant_id = (case store_tenant_id db of
                          Some tid \<Rightarrow> tid | None \<Rightarrow> new_id ''TEN'' (ctx_uuid ctx 0)),
                      tenant_name = str_trim name, tenant_created_at = now\<rparr>;
            org = \<lparr>organization_id = new_id ''ORG'' (ctx_uuid ctx 1),
                   organization_name = str_trim name, organization_created_at = now\<rparr>
        in Inr ([RegistryEvent (TenantInitialized tenant), RegistryEvent (OrganizationInitialized org)], org))"

definition init_organization :: "call_context \<Rightarrow> string \<Rightarrow> string \<Rightarrow> organization command" where
  "init_organization ctx name actor = (\<lambda>(db, s).
     (case decide_init_organization ctx db name actor s of
        Inl err \<Rightarrow> (Inl err, db, s)
      | Inr (events, org) \<Rightarrow>
          cmd_then (commit_as (ctx_library ctx) (ctx_environment ctx) (ctx_faults ctx)
              (organization_id org) actor events)
            (\<lambda>_ app. (Inr org, app)) (db, s)))"

section \<open>Teams\<close>

definition decide_create_team ::
    "call_context \<Rightarrow> string \<Rightarrow> string \<Rightarrow> string \<Rightarrow> org_state \<Rightarrow> team decision result" where
  "decide_create_team ctx name capabilities actor s =
     and_then (get_organization s) (\<lambda>_.
     and_then (ensure_permission s actor OrganizationManage) (\<lambda>_.
       if str_trim name = [] then Inl (relay_error.Validation ''team name cannot be empty'')
       else if list_ex (\<lambda>t. eq_ignore_ascii_case (team_name t) (str_trim name)) (bt_values (teams s))
       then Inl (relay_error.Validation (''team already exists: '' @ str_trim name))
       else
         let t = \<lparr>team_id = new_id ''TEAM'' (ctx_uuid ctx 0),
                  team_name = str_trim name,
                  team_capabilities = parse_capabilities (ctx_texts ctx) [capabilities],
                  team_directory_external_id = None,
                  team_active = True,
                  team_created_at = ctx_clock ctx 0\<rparr>
         in Inr (actor, [RegistryEvent (TeamCreated t)], t)))"

definition create_team :: "call_context \<Rightarrow> string \<Rightarrow> string \<Rightarrow> string \<Rightarrow> team command" where
  "create_team ctx name capabilities actor =
     perform ctx (decide_create_team ctx name capabilities actor) answer_with"

section \<open>Principals\<close>

record principal_request =
  request_name :: string
  request_kind :: principal_kind
  request_team :: "string option"
  request_owner :: "string option"
  request_capabilities :: string
  request_capacity_percent :: u8
  request_executor :: "executor_config option"

definition optional :: "('a \<Rightarrow> 'b result) \<Rightarrow> 'a option \<Rightarrow> 'b option result" where
  "optional f x = (case x of None \<Rightarrow> Inr None | Some v \<Rightarrow> and_then (f v) (\<lambda>y. Inr (Some y)))"

lemma optional_None [simp]: "optional f None = Inr None"
  by (simp add: optional_def)

lemma optional_Inr: "optional f x = Inr y \<longleftrightarrow> (case x of None \<Rightarrow> y = None | Some v \<Rightarrow> \<exists>w. f v = Inr w \<and> y = Some w)"
  by (auto simp: optional_def split: option.splits)

definition human_owner :: "org_state \<Rightarrow> string \<Rightarrow> string result" where
  "human_owner s v =
     and_then (get_principal s v) (\<lambda>p.
       if principal_kind p \<noteq> principal_kind.Human
       then Inl (relay_error.Validation ''an agent owner must be a human'')
       else Inr (principal_id p))"

definition default_role :: "org_state \<Rightarrow> principal_kind \<Rightarrow> organization_role" where
  "default_role s k =
     (case k of
        principal_kind.Human \<Rightarrow>
          if \<not> list_ex (\<lambda>p. principal_kind p = principal_kind.Human) (bt_values (principals s))
          then TenantAdmin else Member
      | principal_kind.Agent \<Rightarrow> organization_role.Agent)"

fun principal_prefix :: "principal_kind \<Rightarrow> string" where
  "principal_prefix principal_kind.Human = ''HUM''"
| "principal_prefix principal_kind.Agent = ''AGT''"

definition check_principal_request :: "org_state \<Rightarrow> principal_request \<Rightarrow> unit result" where
  "check_principal_request s r =
     (if str_trim (request_name r) = []
      then Inl (relay_error.Validation ''principal name cannot be empty'')
      else if \<not> (1 \<le> request_capacity_percent r \<and> request_capacity_percent r \<le> 100)
      then Inl (relay_error.Validation ''capacity must be between 1 and 100'')
      else if list_ex (\<lambda>p. eq_ignore_ascii_case (principal_name p) (str_trim (request_name r)))
                (bt_values (principals s))
      then Inl (relay_error.Validation (''principal already exists: '' @ str_trim (request_name r)))
      else if request_kind r = principal_kind.Human \<and> (request_owner r \<noteq> None \<or> request_executor r \<noteq> None)
      then Inl (relay_error.Validation ''a human cannot have an owner or terminal executor'')
      else Inr ())"

definition new_principal ::
    "call_context \<Rightarrow> principal_request \<Rightarrow> string option \<Rightarrow> string option \<Rightarrow> principal" where
  "new_principal ctx r tid oid =
     \<lparr>principal_id = new_id (principal_prefix (request_kind r)) (ctx_uuid ctx 0),
      principal_name = str_trim (request_name r),
      principal_directory_username = None,
      principal_kind = request_kind r,
      principal_team_id = tid,
      principal_owner_id = oid,
      principal_capabilities = parse_capabilities (ctx_texts ctx) [request_capabilities r],
      principal_capacity_percent = request_capacity_percent r,
      principal_executor = request_executor r,
      principal_active = True,
      principal_created_at = ctx_clock ctx 0\<rparr>"

definition decide_register_principal ::
    "call_context \<Rightarrow> principal_request \<Rightarrow> string \<Rightarrow> org_state \<Rightarrow> principal decision result" where
  "decide_register_principal ctx r actor s =
     and_then (get_organization s) (\<lambda>_.
     and_then (ensure_permission s actor PrincipalManage) (\<lambda>_.
     and_then (check_principal_request s r) (\<lambda>_.
     and_then (optional (\<lambda>v. and_then (get_team s v) (\<lambda>t. Inr (team_id t))) (request_team r)) (\<lambda>tid.
     and_then (optional (human_owner s) (request_owner r)) (\<lambda>oid.
     and_then
       (case request_executor r of
          None \<Rightarrow> Inr ()
        | Some config \<Rightarrow>
            if ctx_is_dir ctx (executor_config_workspace config) then Inr ()
            else Inl (InvalidWorkspace (executor_config_workspace config))) (\<lambda>_.
     and_then (get_tenant s) (\<lambda>tenant.
     and_then (get_organization s) (\<lambda>org.
       let p = new_principal ctx r tid oid;
           b = \<lparr>role_binding_id = new_id ''ROLE'' (ctx_uuid ctx 1),
                role_binding_tenant_id = tenant_id tenant,
                role_binding_organization_id = organization_id org,
                role_binding_principal_id = principal_id p,
                role_binding_role = default_role s (request_kind r),
                role_binding_granted_by = actor,
                role_binding_granted_at = principal_created_at p,
                role_binding_revoked_by = None,
                role_binding_revoked_at = None\<rparr>
       in Inr (actor, [RegistryEvent (PrincipalRegistered p), RegistryEvent (RoleGranted b)], p)))))))))"

definition register_principal :: "call_context \<Rightarrow> principal_request \<Rightarrow> string \<Rightarrow> principal command" where
  "register_principal ctx r actor = perform ctx (decide_register_principal ctx r actor) answer_with"

section \<open>What the registry then holds\<close>

text \<open>Names tell principals apart, and teams, whatever the case of their ASCII letters.\<close>

definition names_distinct :: "org_state \<Rightarrow> bool" where
  "names_distinct s \<longleftrightarrow>
     bt_pairwise (\<lambda>p q. \<not> eq_ignore_ascii_case (principal_name p) (principal_name q)) (principals s) \<and>
     bt_pairwise (\<lambda>t u. \<not> eq_ignore_ascii_case (team_name t) (team_name u)) (teams s)"

lemma names_distinct_committed:
  "s' = t\<lparr>notification_deliveries := m, last_sequence := n\<rparr> \<Longrightarrow> names_distinct s' \<longleftrightarrow> names_distinct t"
  by (simp add: names_distinct_def)

lemma no_such_name:
  "\<not> list_ex (\<lambda>x. eq_ignore_ascii_case (name x) n) (bt_values m) \<Longrightarrow> bt_get m k = Some x \<Longrightarrow>
     \<not> eq_ignore_ascii_case (name x) n \<and> \<not> eq_ignore_ascii_case n (name x)"
  by (auto simp: list_ex_iff in_bt_values eq_ignore_ascii_case_sym)

lemma decide_register_principal_Inr:
  assumes "decide_register_principal ctx r actor s = Inr (author, es, p)"
  obtains tid oid b where "p = new_principal ctx r tid oid" "check_principal_request s r = Inr ()"
    "es = [RegistryEvent (PrincipalRegistered p), RegistryEvent (RoleGranted b)]"
    "role_binding_principal_id b = principal_id p" "role_binding_role b = default_role s (request_kind r)"
    "role_binding_is_active b"
    "case request_owner r of None \<Rightarrow> oid = None
      | Some v \<Rightarrow> (\<exists>q. lookup_principal s v = Some q \<and> principal_kind q = principal_kind.Human \<and> oid = Some (principal_id q))"
  using assms
  by (auto simp: decide_register_principal_def Let_def role_binding_is_active_def optional_Inr human_owner_def
      get_principal_Inr split: if_splits option.splits)

lemma registered_names_distinct:
  assumes "names_distinct s" and "check_principal_request s r = Inr ()"
    and "apply_principal_registered (new_principal ctx r tid oid) s = Inr t"
  shows "names_distinct t"
proof -
  from assms(2) have fresh: "\<not> list_ex (\<lambda>p. eq_ignore_ascii_case (principal_name p) (str_trim (request_name r)))
      (bt_values (principals s))"
    by (auto simp: check_principal_request_def split: if_splits)
  let ?p = "new_principal ctx r tid oid"
  have "bt_pairwise (\<lambda>p q. \<not> eq_ignore_ascii_case (principal_name p) (principal_name q))
      (bt_insert (principal_id ?p) ?p (principals s))"
  proof (rule bt_pairwise_insert)
    fix k v assume "bt_get (principals s) k = Some v"
    from no_such_name [OF fresh this]
    show "\<not> eq_ignore_ascii_case (principal_name v) (principal_name ?p) \<and>
        \<not> eq_ignore_ascii_case (principal_name ?p) (principal_name v)"
      by (simp add: new_principal_def)
  qed (use assms(1) in \<open>simp add: names_distinct_def\<close>)
  with assms(1,3) show ?thesis by (auto simp: apply_principal_registered_def names_distinct_def)
qed

lemma register_principal_files:
  assumes "register_principal ctx r actor (db, s) = (Inr p, db', s')"
  shows "bt_get (principals s') (principal_id p) = Some p"
    and "has_role s' (principal_id p) (default_role s (request_kind r))"
    and "names_distinct s \<Longrightarrow> names_distinct s'"
proof -
  from assms obtain author es u where d: "decide_register_principal ctx r actor s = Inr (author, es, p)"
    and u: "apply_events s es = Inr u"
    and s': "s' = u\<lparr>notification_deliveries := notification_deliveries s', last_sequence := last_sequence s'\<rparr>"
    unfolding register_principal_def by (rule performed) auto
  from d obtain tid oid b where p: "p = new_principal ctx r tid oid" and ok: "check_principal_request s r = Inr ()"
    and es: "es = [RegistryEvent (PrincipalRegistered p), RegistryEvent (RoleGranted b)]"
    and b: "role_binding_principal_id b = principal_id p" "role_binding_role b = default_role s (request_kind r)"
      "role_binding_is_active b"
    by (rule decide_register_principal_Inr)
  from u es obtain t where t: "apply_principal_registered p s = Inr t" "apply_role_granted b t = Inr u" by auto
  from t(2) have u': "u = t\<lparr>role_bindings := bt_insert (role_binding_id b) b (role_bindings t)\<rparr>"
    by (auto simp: apply_role_granted_def split: if_splits)
  have "principals s' = principals u" by (subst s') simp
  with t(1) u' show "bt_get (principals s') (principal_id p) = Some p"
    by (auto simp: apply_principal_registered_def)
  have "has_role u (principal_id p) (default_role s (request_kind r))"
    using b by (auto simp: u' has_role_iff)
  then show "has_role s' (principal_id p) (default_role s (request_kind r))"
    by (simp add: has_role_committed [OF s'])
  show "names_distinct s'" if "names_distinct s"
  proof -
    have "names_distinct t" using registered_names_distinct [OF that ok] t(1) p by blast
    then show ?thesis unfolding names_distinct_committed [OF s'] by (simp add: u' names_distinct_def)
  qed
qed

lemma create_team_files:
  assumes "create_team ctx name capabilities actor (db, s) = (Inr t, db', s')"
  shows "bt_get (teams s') (team_id t) = Some t" and "names_distinct s \<Longrightarrow> names_distinct s'"
proof -
  from assms obtain author es u where d: "decide_create_team ctx name capabilities actor s = Inr (author, es, t)"
    and u: "apply_events s es = Inr u"
    and s': "s' = u\<lparr>notification_deliveries := notification_deliveries s', last_sequence := last_sequence s'\<rparr>"
    unfolding create_team_def by (rule performed) auto
  from d have fresh: "\<not> list_ex (\<lambda>x. eq_ignore_ascii_case (team_name x) (team_name t)) (bt_values (teams s))"
    and es: "es = [RegistryEvent (TeamCreated t)]"
    by (auto simp: decide_create_team_def Let_def split: if_splits)
  from u es have u': "u = s\<lparr>teams := bt_insert (team_id t) t (teams s)\<rparr>"
    by (simp add: apply_team_created_def)
  have "teams s' = teams u" by (subst s') simp
  then show "bt_get (teams s') (team_id t) = Some t" by (simp add: u')
  show "names_distinct s'" if "names_distinct s"
    unfolding names_distinct_committed [OF s']
    using that no_such_name [OF fresh] by (auto simp: names_distinct_def u' intro!: bt_pairwise_insert)
qed

end
