(* ===== verification/App_Actions.thy ===== *)
theory App_Actions
  imports App_Policy
begin

text \<open>
  What a person answers to (\<open>src/application/app/actions.rs\<close>): accepting and rejecting a task,
  acknowledging a message and an escalation. The preparations are shared with the interactions that
  arrive from outside.
\<close>

section \<open>Preparing\<close>

definition prepare_task_accept ::
    "org_state \<Rightarrow> string \<Rightarrow> string \<Rightarrow> instant \<Rightarrow> (string \<times> string \<times> domain_event) result" where
  "prepare_task_accept s tid actor accepted_at =
     and_then (task_snapshot s tid) (\<lambda>(f, t).
     and_then (ensure_status t [Assigned]) (\<lambda>_.
     and_then (ensure_task_actor s t actor) (\<lambda>_.
       Inr (flow_id f, task_id t,
            TaskEvent (TaskAccepted (flow_id f) (task_id t) actor accepted_at)))))"

definition prepare_task_reject ::
    "org_state \<Rightarrow> string \<Rightarrow> string \<Rightarrow> string \<Rightarrow> (string \<times> string \<times> domain_event) result" where
  "prepare_task_reject s tid actor given =
     (let reason = str_trim given in
      if reason = [] \<or> 500 < chars_count reason \<or> has_control reason
      then Inl (relay_error.Validation
        ''task rejection reason must contain 1 to 500 printable characters'')
      else
        and_then (task_snapshot s tid) (\<lambda>(f, t).
        and_then (ensure_status t [Assigned]) (\<lambda>_.
        and_then (ensure_task_actor s t actor) (\<lambda>_.
          Inr (flow_id f, task_id t,
               TaskEvent (TaskRejected (flow_id f) (task_id t) actor reason))))))"

definition prepare_message_ack ::
    "org_state \<Rightarrow> string \<Rightarrow> principal \<Rightarrow> instant \<Rightarrow> (string \<times> domain_event option) result" where
  "prepare_message_ack s mid p acknowledged_at =
     and_then (found ''flow message'' mid (bt_get (messages s) mid)) (\<lambda>m.
       if \<not> message_requires_ack m
       then Inl (InvalidTransition
         (''flow message '' @ message_id m @ '' does not require acknowledgement''))
       else if message_recipient_ids s m p = []
       then Inl (PermissionDenied
         (principal_name p @ '' is not a recipient of flow message '' @ message_id m))
       else
         let acks = map (\<lambda>rid. \<lparr>ack_recipient_id = rid,
                               ack_acknowledged_by_id = principal_id p,
                               ack_acknowledged_by_name = principal_name p,
                               ack_acknowledged_at = acknowledged_at\<rparr>)
                     (filter (\<lambda>rid. \<not> recipient_is_acknowledged m rid) (message_recipient_ids s m p))
         in Inr (message_flow_id m,
              if acks = [] then None
              else Some (MessageEvent
                (FlowMessageAcknowledged (message_flow_id m) (message_id m) acks))))"

definition prepare_escalation_ack ::
    "org_state \<Rightarrow> string \<Rightarrow> principal \<Rightarrow> instant \<Rightarrow> (string \<times> domain_event) result" where
  "prepare_escalation_ack s eid p acknowledged_at =
     (if principal_kind p \<noteq> principal_kind.Human
      then Inl (PermissionDenied ''tracking escalation acknowledgement requires a human'')
      else
        and_then (found ''tracking escalation'' eid (bt_get (escalations s) eid)) (\<lambda>e.
          if escalation_recipient_id e \<noteq> principal_id p
          then Inl (PermissionDenied
            (principal_name p @ '' is not the recipient of escalation '' @ escalation_id e))
          else if \<not> escalation_is_active e
          then Inl (InvalidTransition (''escalation '' @ escalation_id e @ '' is already resolved''))
          else if escalation_acknowledged_at e \<noteq> None
          then Inl (InvalidTransition (''escalation '' @ escalation_id e @ '' is already acknowledged''))
          else Inr (escalation_flow_id e,
            TrackingEvent (TrackingEscalationAcknowledged (escalation_flow_id e)
              (escalation_task_id e) (escalation_id e) (principal_name p) acknowledged_at))))"

section \<open>Commands\<close>

definition found_task :: "string \<Rightarrow> org_state \<Rightarrow> task result" where
  "found_task tid s = and_then (find_task s tid) (\<lambda>(f, t). Inr t)"

definition accept_task :: "call_context \<Rightarrow> string \<Rightarrow> string \<Rightarrow> task command" where
  "accept_task ctx tid actor =
     perform ctx
       (\<lambda>s. and_then (prepare_task_accept s tid actor (ctx_clock ctx 0)) (\<lambda>(fid, tid, e).
          Inr (actor, [e], tid)))
       found_task"

definition reject_task :: "call_context \<Rightarrow> string \<Rightarrow> string \<Rightarrow> string \<Rightarrow> task command" where
  "reject_task ctx tid actor reason =
     perform ctx
       (\<lambda>s. and_then (prepare_task_reject s tid actor reason) (\<lambda>(fid, tid, e). Inr (actor, [e], tid)))
       found_task"

text \<open>Acknowledging again changes nothing and commits nothing.\<close>

definition acknowledge_flow_message :: "call_context \<Rightarrow> string \<Rightarrow> string \<Rightarrow> flow_message command" where
  "acknowledge_flow_message ctx mid actor = (\<lambda>(db, s).
     (case and_then (get_principal s actor) (\<lambda>p.
             and_then (prepare_message_ack s mid p (ctx_clock ctx 0)) (\<lambda>(fid, e). Inr (p, e))) of
        Inl err \<Rightarrow> (Inl err, db, s)
      | Inr (p, None) \<Rightarrow> (found ''flow message'' mid (bt_get (messages s) mid), db, s)
      | Inr (p, Some e) \<Rightarrow>
          cmd_then (commit_events ctx (principal_name p) [e])
            (\<lambda>_. cmd_read (\<lambda>s'. found ''flow message'' mid (bt_get (messages s') mid))) (db, s)))"

definition acknowledge_escalation :: "call_context \<Rightarrow> string \<Rightarrow> string \<Rightarrow> tracking_escalation command" where
  "acknowledge_escalation ctx eid actor =
     perform ctx
       (\<lambda>s. and_then (get_principal s actor) (\<lambda>p.
          and_then (prepare_escalation_ack s eid p (ctx_clock ctx 0)) (\<lambda>(fid, e).
            Inr (principal_name p, [e], eid))))
       (\<lambda>eid s. found ''tracking escalation'' eid (bt_get (escalations s) eid))"

section \<open>Prepared events are accepted\<close>

lemma prepared_accept_accepted:
  assumes "prepare_task_accept s tid actor at = Inr (fid, tid', e)" and "flows_filed s"
  shows "accepts s [e]" and "\<exists>p f t. lookup_principal s actor = Some p \<and>
    bt_get (flows s) fid = Some f \<and> t \<in> set (flow_tasks f) \<and> task_id t = tid' \<and>
    task_matches tid t \<and> task_status t = Assigned \<and> principal_is_task_actor s t p"
proof -
  from assms(1) obtain f t p where snap: "task_snapshot s tid = Inr (f, t)"
    and t: "task_status t = Assigned" "lookup_principal s actor = Some p" "principal_is_task_actor s t p"
    and out: "fid = flow_id f" "tid' = task_id t" "e = TaskEvent (TaskAccepted (flow_id f) (task_id t) actor at)"
    by (auto simp: prepare_task_accept_def)
  note task = task_snapshot_Inr [OF snap assms(2)]
  from flow_task_some [OF task(2)] obtain u where "flow_task f (task_id t) = Some u" by blast
  then have "flow_task (f\<lparr>flow_status := flow_status.Active\<rparr>) (task_id t) = Some u"
    by (simp add: flow_task_def)
  with task(1) show "accepts s [e]"
    by (simp add: accepts_Cons out apply_task_accepted_def Let_def)
  show "\<exists>p f t. lookup_principal s actor = Some p \<and>
    bt_get (flows s) fid = Some f \<and> t \<in> set (flow_tasks f) \<and> task_id t = tid' \<and>
    task_matches tid t \<and> task_status t = Assigned \<and> principal_is_task_actor s t p"
    using task t out by blast
qed

lemma prepared_reject_accepted:
  assumes "prepare_task_reject s tid actor reason = Inr (fid, tid', e)" and "flows_filed s"
  shows "accepts s [e]"
proof -
  from assms(1) obtain f t where snap: "task_snapshot s tid = Inr (f, t)"
    and out: "e = TaskEvent (TaskRejected (flow_id f) (task_id t) actor (str_trim reason))"
    by (auto simp: prepare_task_reject_def Let_def split: if_splits)
  note task = task_snapshot_Inr [OF snap assms(2)]
  from flow_task_some [OF task(2)] task(1) show ?thesis
    by (auto simp: accepts_Cons out apply_task_rejected_def update_task_Inr)
qed

lemma recipient_ids_subset:
  "set (message_recipient_ids s m p) \<subseteq> target_id ` set (message_recipients m)"
  by (auto simp: message_recipient_ids_def)

lemma acknowledge_all:
  assumes "\<And>a. a \<in> set acks \<Longrightarrow> ack_recipient_id a \<in> target_id ` set (message_recipients m)"
  shows "\<exists>m'. try_fold (acknowledge mid) m acks = Inr m'"
  using assms
proof (induction acks arbitrary: m)
  case (Cons a acks)
  from Cons.prems [of a] have "list_ex (\<lambda>r. target_id r = ack_recipient_id a) (message_recipients m)"
    by (auto simp: list_ex_iff)
  then obtain m1 where m1: "acknowledge mid m a = Inr m1" "message_recipients m1 = message_recipients m"
    by (auto simp: acknowledge_def)
  with Cons.IH [of m1] Cons.prems show ?case by simp
qed simp

lemma prepared_message_ack_accepted:
  assumes "prepare_message_ack s mid p at = Inr (fid, Some e)" and "flows_filed s"
    and "registry_filed s" and "lookup_principal s actor = Some p"
  shows "accepts s [e]"
proof -
  from assms(1) obtain m where m: "bt_get (messages s) mid = Some m"
    and e: "e = MessageEvent (FlowMessageAcknowledged (message_flow_id m) (message_id m)
        (map (\<lambda>rid. \<lparr>ack_recipient_id = rid, ack_acknowledged_by_id = principal_id p,
            ack_acknowledged_by_name = principal_name p, ack_acknowledged_at = at\<rparr>)
          (filter (\<lambda>rid. \<not> recipient_is_acknowledged m rid) (message_recipient_ids s m p))))"
      (is "_ = MessageEvent (FlowMessageAcknowledged _ _ ?acks)")
    by (auto simp: prepare_message_ack_def Let_def split: if_splits)
  have mid: "message_id m = mid" using assms(2) m by (auto simp: flows_filed_def)
  have by_p: "get_principal s (principal_id p) = Inr p"
    using lookup_principal_stored [OF assms(4)] assms(3)
    by (auto simp: get_principal_Inr registry_filed_def intro: lookup_principal_id)
  have known: "try_fold (\<lambda>_ a. and_then (get_principal s (ack_acknowledged_by_id a)) (\<lambda>_. Inr ())) () ?acks = Inr ()"
    by (rule try_fold_unit) (auto simp: by_p)
  obtain m' where "try_fold (acknowledge mid) m ?acks = Inr m'"
    using acknowledge_all [of ?acks m mid] recipient_ids_subset [of s m p] by fastforce
  with known m mid show ?thesis
    by (simp add: accepts_Cons e apply_flow_message_acknowledged_def)
qed

lemma prepared_escalation_ack_accepted:
  assumes "prepare_escalation_ack s eid p at = Inr (fid, e)" and "keyed escalation_id (escalations s)"
  shows "accepts s [e]"
  using assms
  by (auto simp: prepare_escalation_ack_def accepts_Cons tracking_handler_defs split: if_splits)

end
