(* ===== verification/Commit_Progress.thy ===== *)
theory Commit_Progress
  imports App_Command
begin

text \<open>
  When a commit goes through: an instance that stands where its log stands, with a library that can
  write the events, identifiers that are new and no I/O fault, commits every batch the projection
  accepts. So a command fails only for a reason among its own checks or one of these.
\<close>

lemma apply_all_of_events:
  assumes "apply_events s (map env_event envs) = Inr u"
    and "\<And>i. i < length envs \<Longrightarrow> env_sequence (envs ! i) = last_sequence s + int i + 1"
    and "last_sequence s + int (length envs) \<le> i64_max"
  shows "apply_all s envs = Inr (u\<lparr>last_sequence := last_sequence s + int (length envs)\<rparr>)"
  using assms
proof (induction envs arbitrary: s u)
  case Nil
  then show ?case by (simp add: apply_all_def)
next
  case (Cons env envs)
  then obtain t where t: "apply_event (env_event env) s = Inr t"
    and rest: "apply_events t (map env_event envs) = Inr u" by auto
  have last: "last_sequence t = last_sequence s" using t by (rule last_sequence_apply_event)
  have first: "env_sequence env = last_sequence s + 1" using Cons.prems(2) [of 0] by simp
  let ?t = "t\<lparr>last_sequence := last_sequence s + 1\<rparr>"
  have "apply_events ?t (map env_event envs) = Inr (u\<lparr>last_sequence := last_sequence s + 1\<rparr>)"
    by (simp add: apply_events_sequence rest)
  from Cons.IH [OF this] Cons.prems(2) [of "Suc _"] Cons.prems(3)
  have "apply_all ?t envs = Inr (u\<lparr>last_sequence := last_sequence s + 1 + int (length envs)\<rparr>)"
    by (simp add: algebra_simps)
  moreover have "apply_envelope env s = Inr ?t"
    using t first Cons.prems(3) by (simp add: apply_envelope_Inr)
  ultimately show ?case by (simp add: apply_all_def algebra_simps)
qed

lemma sqlite_batch_stored:
  assumes "\<And>i. i < length envs \<Longrightarrow> env_sequence (envs ! i) = start + int (k + i) + 1"
    and "\<And>env. env \<in> set envs \<Longrightarrow> env_event_version env = current_event_version \<and> env_kind env = kind (env_event env)"
    and "start + int (k + length envs) \<le> i64_max" and "int (k + length envs) \<le> i64_max"
    and "\<And>v e. \<exists>text. lib_event_text lib v e = Inr text" and "\<And>i. fault_insert io i = None"
    and "\<And>n. n \<in> fst ` set (bt_entries t) \<Longrightarrow> n \<le> start + int k"
    and "distinct (map env_id envs)"
    and "\<And>env r. env \<in> set envs \<Longrightarrow> r \<in> set (bt_values t) \<Longrightarrow> row_id r \<noteq> env_id env"
  shows "\<exists>t'. try_fold (sqlite_append_one lib io start) t (List.enumerate k envs) = Inr t'"
  using assms
proof (induction envs arbitrary: k t)
  case (Cons env envs)
  have seq: "env_sequence env = start + int k + 1" using Cons.prems(1) [of 0] by simp
  obtain row where row: "encode_row lib env = Inr row" "row_id row = env_id env"
    using Cons.prems(5) [of "env_event_version env" "env_event env"] by (auto simp: encode_row_def)
  have "\<not> bt_contains t (env_sequence env)"
    using Cons.prems(7) seq by (fastforce simp: bt_contains_iff bt_entries_iff [symmetric])
  moreover have "\<not> list_ex (\<lambda>r. row_id r = row_id row) (bt_values t)"
    using Cons.prems(9) [of env] row(2) by (auto simp: list_ex_iff)
  ultimately have "sqlite_append_one lib io start t (k, env) = Inr (bt_insert (env_sequence env) row t)"
    using seq row Cons.prems(2) [of env] Cons.prems(3,4,6)
    by (simp add: sqlite_append_one_def sqlite_check_def sqlite_insert_def checked_offset_def guard_fault_def)
  moreover have "\<exists>t'. try_fold (sqlite_append_one lib io start) (bt_insert (env_sequence env) row t)
      (List.enumerate (Suc k) envs) = Inr t'"
  proof (rule Cons.IH)
    show "env_sequence (envs ! i) = start + int (Suc k + i) + 1" if "i < length envs" for i
      using Cons.prems(1) [of "Suc i"] that by simp
    show "n \<le> start + int (Suc k)" if "n \<in> fst ` set (bt_entries (bt_insert (env_sequence env) row t))" for n
    proof -
      from that obtain v where "(n, v) \<in> set (bt_entries (bt_insert (env_sequence env) row t))" by force
      then have "bt_get (bt_insert (env_sequence env) row t) n = Some v" by (simp only: bt_entries_iff)
      then have "n = env_sequence env \<or> bt_get t n = Some v" by (simp split: if_splits)
      moreover have "n \<in> fst ` set (bt_entries t)" if "bt_get t n = Some v"
        using that by (metis bt_entries_iff fst_conv image_eqI)
      ultimately show ?thesis using Cons.prems(7) [of n] seq by auto
    qed
    show "row_id r \<noteq> env_id v"
      if "v \<in> set envs" "r \<in> set (bt_values (bt_insert (env_sequence env) row t))" for v r
      using that Cons.prems(8) Cons.prems(9) [of v] row(2)
      by (auto split: if_splits) (metis image_eqI)
  qed (use Cons.prems in auto)
  ultimately show ?case by simp
qed simp

definition ready :: "call_context \<Rightarrow> event_table \<Rightarrow> org_state \<Rightarrow> nat \<Rightarrow> bool" where
  "ready ctx t s n \<longleftrightarrow>
     (\<forall>e. is_ok (lib_event_document (ctx_library ctx) e)) \<and>
     (\<forall>v e. is_ok (lib_event_text (ctx_library ctx) v e)) \<and>
     ctx_faults ctx = no_faults \<and>
     last_sequence s = max_sequence t \<and> 0 \<le> last_sequence s \<and> last_sequence s + int n \<le> i64_max \<and>
     distinct (map (\<lambda>i. new_id ''EVT'' (event_uuid (ctx_environment ctx) i)) [0..<n]) \<and>
     (\<forall>i < n. \<forall>r \<in> set (bt_values t). row_id r \<noteq> new_id ''EVT'' (event_uuid (ctx_environment ctx) i))"

lemma no_endpoints_queue:
  assumes "bt_values (notification_endpoints s) = []"
    and "\<And>e. is_ok (lib_event_document lib e)"
  shows "queue_events lib w s org actor es = Inr []"
proof -
  have "queue_from lib w s org actor n es = Inr []" for n
  proof (induction es arbitrary: n)
    case (Cons e es)
    obtain payload where "lib_event_document lib e = Inr payload"
      using assms(2) [of e] by (auto simp: is_ok_iff)
    with Cons assms(1) show ?case by simp
  qed simp
  then show ?thesis by (simp add: queue_events_def)
qed

lemma prepared:
  assumes "start + int (length es) \<le> i64_max" and "0 \<le> start"
  shows "prepare_batch w start org actor es = Inr (map (\<lambda>(i, e).
    \<lparr>env_event_version = current_event_version, env_sequence = start + int i + 1,
     env_id = new_id ''EVT'' (event_uuid w i), env_organization_id = org, env_flow_id = event_flow_id e,
     env_actor = actor, env_kind = kind e, env_event = e, env_occurred_at = event_clock w i\<rparr>)
    (List.enumerate 0 es))"
  unfolding prepare_batch_def
  by (rule try_map_total)
    (use assms in \<open>auto simp: prepare_envelope_def checked_offset_def in_set_enumerate_eq\<close>)

theorem ready_commits:
  assumes "ready ctx t s (length es)" and "org_organization s = Some org"
    and "bt_values (notification_endpoints s) = []" and "apply_events s es = Inr u"
  shows "\<exists>envs db'. commit_events ctx actor es (SqliteStore t, s)
    = (Inr envs, db', u\<lparr>last_sequence := last_sequence s + int (length es)\<rparr>)"
proof -
  let ?w = "ctx_environment ctx"
  obtain envs where envs: "prepare_batch ?w (last_sequence s) (organization_id org) actor es = Inr envs"
    and shape: "envs = map (\<lambda>(i, e).
      \<lparr>env_event_version = current_event_version, env_sequence = last_sequence s + int i + 1,
       env_id = new_id ''EVT'' (event_uuid ?w i), env_organization_id = organization_id org,
       env_flow_id = event_flow_id e, env_actor = actor, env_kind = kind e, env_event = e,
       env_occurred_at = event_clock ?w i\<rparr>) (List.enumerate 0 es)"
    using prepared [of "last_sequence s" es ?w "organization_id org" actor] assms(1) by (simp add: ready_def)
  have len: "length envs = length es" by (simp add: shape)
  have at: "env_sequence (envs ! i) = last_sequence s + int i + 1 \<and>
      env_id (envs ! i) = new_id ''EVT'' (event_uuid ?w i)" if "i < length envs" for i
    using that by (simp add: shape nth_enumerate_eq)
  have ids: "map env_id envs = map (\<lambda>i. new_id ''EVT'' (event_uuid ?w i)) [0..<length es]"
    by (rule nth_equalityI) (simp_all add: len at)
  note facts = prepare_batch_Inr [OF envs]
  have "apply_events s (map env_event envs) = Inr u" using assms(4) facts(1) by simp
  from apply_all_of_events [OF this] at len assms(1)
  have applied: "apply_all s envs = Inr (u\<lparr>last_sequence := last_sequence s + int (length es)\<rparr>)"
    by (simp add: ready_def)
  have "\<exists>t'. try_fold (sqlite_append_one (ctx_library ctx) (ctx_faults ctx) (last_sequence s)) t
      (List.enumerate 0 envs) = Inr t'"
  proof (rule sqlite_batch_stored)
    show "n \<le> last_sequence s + int 0" if "n \<in> fst ` set (bt_entries t)" for n
      using max_sequence_above [OF that] assms(1) by (simp add: ready_def)
    show "\<exists>text. lib_event_text (ctx_library ctx) v e = Inr text" for v e
      using assms(1) by (auto simp: ready_def is_ok_iff)
    show "row_id r \<noteq> env_id env" if "env \<in> set envs" "r \<in> set (bt_values t)" for env r
    proof -
      from that(1) len obtain i where "i < length es" "env = envs ! i" by (metis in_set_conv_nth)
      with at [of i] len that(2) assms(1) show ?thesis by (auto simp: ready_def)
    qed
    show "env_event_version env = current_event_version \<and> env_kind env = kind (env_event env)"
      if "env \<in> set envs" for env using facts(3) [OF that] by simp
    show "distinct (map env_id envs)" using assms(1) by (simp add: ids ready_def)
    show "fault_insert (ctx_faults ctx) i = None" for i
      using assms(1) by (simp add: ready_def no_faults_def)
    show "last_sequence s + int (0 + length envs) \<le> i64_max" "int (0 + length envs) \<le> i64_max"
      using assms(1) by (simp_all add: len ready_def)
  qed (use at in simp)
  then have "\<exists>t'. sqlite_append (ctx_library ctx) (ctx_faults ctx) (last_sequence s) envs t = Inr t'"
    using assms(1) by (cases "envs = []") (auto simp: sqlite_append_def ready_def no_faults_def guard_fault_def)
  then obtain t' where "sqlite_append (ctx_library ctx) (ctx_faults ctx) (last_sequence s) envs t = Inr t'" ..
  moreover have "queue_events (ctx_library ctx) ?w s (organization_id org) actor es = Inr []"
    using assms(1,3) by (intro no_endpoints_queue) (simp_all add: ready_def)
  ultimately show ?thesis
    using assms(2) envs applied
    by (simp add: commit_events_def commit_def get_organization_def commit_as_def store_append_def)
qed

text \<open>A command whose decision is accepted then returns what it answers from the new state.\<close>

lemma ready_performs:
  assumes "decide s = Inr (actor, es, x)" and "ready ctx t s (length es)"
    and "org_organization s = Some org" and "bt_values (notification_endpoints s) = []"
    and "apply_events s es = Inr u"
  shows "\<exists>db'. perform ctx decide answer (SqliteStore t, s)
    = (answer x (u\<lparr>last_sequence := last_sequence s + int (length es)\<rparr>), db',
       u\<lparr>last_sequence := last_sequence s + int (length es)\<rparr>)"
proof -
  from ready_commits [OF assms(2-5)] obtain envs db' where
    "commit_events ctx actor es (SqliteStore t, s)
      = (Inr envs, db', u\<lparr>last_sequence := last_sequence s + int (length es)\<rparr>)" by blast
  with assms(1) show ?thesis by (simp add: perform_def cmd_then_def cmd_read_def)
qed

end
