(* ===== verification/App_Task.thy ===== *)
theory App_Task
  imports App_Actions Commit_Progress
begin

text \<open>
  Working on a task (the task commands of \<open>src/application/app/mod.rs\<close>): the inbox, starting,
  heartbeats, blocking, evidence, external artifacts, submission and completion. Accepting and rejecting
  are in \<open>App_Actions\<close>.
\<close>

section \<open>The inbox\<close>

definition in_inbox :: "principal \<Rightarrow> task \<Rightarrow> bool" where
  "in_inbox p t \<longleftrightarrow>
     task_status t \<in> {Assigned, Accepted, InProgress, task_status.Blocked, Submitted} \<and>
     (case task_assignment t of
        None \<Rightarrow> False
      | Some a \<Rightarrow>
          target_id (assignment_owner a) = principal_id p
          \<or> (target_kind (assignment_owner a) = Team
              \<and> principal_team_id p = Some (target_id (assignment_owner a)))
          \<or> list_ex (\<lambda>c. target_id c = principal_id p) (assignment_copilots a))"

definition inbox :: "org_state \<Rightarrow> string \<Rightarrow> (flow \<times> task) list result" where
  "inbox s target =
     and_then (get_principal s target) (\<lambda>p.
       Inr (concat (map (\<lambda>f. map (Pair f) (filter (in_inbox p) (flow_tasks f))) (bt_values (flows s)))))"

section \<open>One event on one task\<close>

text \<open>Most task commands look the task up, check it, and commit one event that names it by its identifier.\<close>

definition on_task ::
    "call_context \<Rightarrow> string \<Rightarrow> string \<Rightarrow> (org_state \<Rightarrow> flow \<Rightarrow> task \<Rightarrow> unit result)
      \<Rightarrow> (flow \<Rightarrow> task \<Rightarrow> task_event) \<Rightarrow> task command" where
  "on_task ctx tid actor check event =
     perform ctx
       (\<lambda>s. and_then (task_snapshot s tid) (\<lambda>(f, t).
          and_then (check s f t) (\<lambda>_. Inr (actor, [TaskEvent (event f t)], task_id t))))
       found_task"

definition start_task :: "call_context \<Rightarrow> string \<Rightarrow> string \<Rightarrow> task command" where
  "start_task ctx tid actor =
     on_task ctx tid actor
       (\<lambda>s f t. and_then (ensure_status t [Accepted, task_status.Blocked]) (\<lambda>_.
                and_then (ensure_dependencies_complete f t) (\<lambda>_. ensure_task_actor s t actor)))
       (\<lambda>f t. TaskStarted (flow_id f) (task_id t) actor (ctx_clock ctx 0))"

definition heartbeat_task :: "call_context \<Rightarrow> string \<Rightarrow> string \<Rightarrow> string option \<Rightarrow> task command" where
  "heartbeat_task ctx tid actor note_text =
     on_task ctx tid actor
       (\<lambda>s f t. and_then (ensure_status t [InProgress, task_status.Blocked]) (\<lambda>_. ensure_task_actor s t actor))
       (\<lambda>f t. TaskHeartbeat (flow_id f) (task_id t) actor note_text (ctx_clock ctx 0))"

definition block_task :: "call_context \<Rightarrow> string \<Rightarrow> string \<Rightarrow> string \<Rightarrow> task command" where
  "block_task ctx tid actor reason =
     on_task ctx tid actor
       (\<lambda>s f t. and_then (ensure_status t [InProgress]) (\<lambda>_. ensure_task_actor s t actor))
       (\<lambda>f t. TaskBlocked (flow_id f) (task_id t) actor reason (ctx_clock ctx 0))"

definition submit_task :: "call_context \<Rightarrow> string \<Rightarrow> string \<Rightarrow> task command" where
  "submit_task ctx tid actor =
     on_task ctx tid actor
       (\<lambda>s f t. and_then (ensure_status t [InProgress]) (\<lambda>_.
                and_then (ensure_task_actor s t actor) (\<lambda>_.
                  if task_evidence t = [] \<and> \<not> list_ex artifact_verified (task_external_artifacts t)
                  then Inl (relay_error.Validation
                    ''attach evidence or sync a verified external artifact before submission'')
                  else Inr ())))
       (\<lambda>f t. TaskSubmitted (flow_id f) (task_id t) actor (ctx_clock ctx 0))"

definition add_evidence ::
    "call_context \<Rightarrow> string \<Rightarrow> string \<Rightarrow> string \<Rightarrow> string \<Rightarrow> string \<Rightarrow> evidence command" where
  "add_evidence ctx tid actor ekind uri summary =
     perform ctx
       (\<lambda>s. and_then (task_snapshot s tid) (\<lambda>(f, t).
          if task_status_is_terminal (task_status t)
          then Inl (InvalidTransition ''cannot add evidence to a terminal task'')
          else
            and_then (ensure_task_actor s t actor) (\<lambda>_.
              let e = \<lparr>evidence_id = new_id ''EVD'' (ctx_uuid ctx 0), evidence_kind = ekind,
                       evidence_uri = uri, evidence_summary = summary, evidence_created_by = actor,
                       evidence_created_at = ctx_clock ctx 0\<rparr>
              in Inr (actor, [TaskEvent (EvidenceAdded (flow_id f) (task_id t) e)], e))))
       answer_with"

definition authorize_task_actor :: "org_state \<Rightarrow> string \<Rightarrow> string \<Rightarrow> unit result" where
  "authorize_task_actor s tid actor =
     and_then (find_task s tid) (\<lambda>(f, t). ensure_task_actor s t actor)"

section \<open>Completion\<close>

definition decide_complete_task ::
    "call_context \<Rightarrow> string \<Rightarrow> string \<Rightarrow> org_state \<Rightarrow> string decision result" where
  "decide_complete_task ctx tid actor s =
     and_then (get_principal s actor) (\<lambda>p.
       if principal_kind p \<noteq> principal_kind.Human
       then Inl (PermissionDenied ''task completion requires a registered human'')
       else
         and_then (task_snapshot s tid) (\<lambda>(f, t).
           let requester = demand_requester (flow_demand f) in
           if requester \<noteq> principal_name p \<and> requester \<noteq> principal_id p
           then Inl (PermissionDenied
             (''only demand requester '' @ requester @ '' can complete task '' @ task_id t))
           else
             and_then (ensure_status t [Submitted]) (\<lambda>_.
               let at = ctx_clock ctx 0 in
               Inr (actor,
                 TaskEvent (TaskCompleted (flow_id f) (task_id t) actor at) #
                 (if list_all (\<lambda>c. task_status c = task_status.Completed)
                       (filter (\<lambda>c. task_id c \<noteq> task_id t) (flow_tasks f))
                  then [FlowEvent (FlowCompleted (flow_id f) actor at)] else []),
                 task_id t))))"

definition complete_task :: "call_context \<Rightarrow> string \<Rightarrow> string \<Rightarrow> task command" where
  "complete_task ctx tid actor = perform ctx (decide_complete_task ctx tid actor) found_task"

section \<open>External artifacts\<close>

definition validate_external_artifact :: "external_artifact \<Rightarrow> unit result" where
  "validate_external_artifact a =
     (if list_ex (\<lambda>v. str_trim v = [])
           [artifact_id a, artifact_provider a, artifact_kind a, artifact_project a,
            artifact_external_id a, artifact_title a, artifact_url a, artifact_status a]
      then Inl (relay_error.Validation ''external artifact fields cannot be empty'') else Inr ())"

text \<open>An artifact is news for a task unless the task has the same snapshot of it, or a later one.\<close>

definition artifact_is_news :: "task \<Rightarrow> external_artifact \<Rightarrow> bool" where
  "artifact_is_news t a \<longleftrightarrow>
     (case List.find (\<lambda>x. artifact_id x = artifact_id a) (task_external_artifacts t) of
        None \<Rightarrow> True
      | Some x \<Rightarrow> \<not> (same_snapshot x a \<or> artifact_synced_at a < artifact_synced_at x))"

definition changed_artifacts :: "task \<Rightarrow> external_artifact list \<Rightarrow> external_artifact list result" where
  "changed_artifacts t artifacts =
     and_then (try_map (\<lambda>a. and_then (validate_external_artifact a) (\<lambda>_. Inr a))
                 (bt_values (fold (\<lambda>a. bt_insert (artifact_id a) a) artifacts bt_empty)))
       (\<lambda>incoming. Inr (filter (artifact_is_news t) incoming))"

definition decide_sync_artifacts ::
    "string \<Rightarrow> string \<Rightarrow> external_artifact list \<Rightarrow> org_state \<Rightarrow> external_artifact list decision result" where
  "decide_sync_artifacts tid actor artifacts s =
     and_then (task_snapshot s tid) (\<lambda>(f, t).
     and_then (ensure_task_actor s t actor) (\<lambda>_.
     and_then (changed_artifacts t artifacts) (\<lambda>changed.
       Inr (actor,
         map (\<lambda>a. TaskEvent (ExternalArtifactSynced (flow_id f) (task_id t) a)) changed, changed))))"

text \<open>Nothing new commits nothing.\<close>

definition sync_external_artifacts ::
    "call_context \<Rightarrow> string \<Rightarrow> string \<Rightarrow> external_artifact list \<Rightarrow> external_artifact list command" where
  "sync_external_artifacts ctx tid actor artifacts = (\<lambda>(db, s).
     (case decide_sync_artifacts tid actor artifacts s of
        Inr (_, [], changed) \<Rightarrow> (Inr changed, db, s)
      | _ \<Rightarrow> perform ctx (decide_sync_artifacts tid actor artifacts) answer_with (db, s)))"

section \<open>Artifacts that arrive by webhook\<close>

record delivery_sync =
  sync_duplicate :: bool
  sync_stale :: bool
  sync_matched_tasks :: nat
  sync_changed_tasks :: nat

record bound_delivery =
  bound_provider :: string
  bound_delivery_id :: string
  bound_kind :: string
  bound_project :: string
  bound_external_id :: string
  bound_occurred_at :: instant

definition is_binding :: "bound_delivery \<Rightarrow> external_artifact \<Rightarrow> bool" where
  "is_binding b x \<longleftrightarrow>
     artifact_provider x = bound_provider b \<and> artifact_kind x = bound_kind b \<and>
     artifact_project x = bound_project b \<and> artifact_external_id x = bound_external_id b"

definition binding_matches :: "org_state \<Rightarrow> bound_delivery \<Rightarrow> (string \<times> string \<times> instant) list" where
  "binding_matches s b =
     concat (map (\<lambda>f. List.map_filter (\<lambda>t.
         map_option (\<lambda>x. (flow_id f, task_id t, artifact_synced_at x))
           (List.find (is_binding b) (task_external_artifacts t))) (flow_tasks f))
       (bt_values (flows s)))"

text \<open>An artifact without a revision keeps the one the task knows.\<close>

definition inherit_revision :: "task \<Rightarrow> external_artifact \<Rightarrow> external_artifact" where
  "inherit_revision t a =
     (case List.find (\<lambda>x. artifact_id x = artifact_id a) (task_external_artifacts t) of
        Some x \<Rightarrow> (if artifact_revision a = None then a\<lparr>artifact_revision := artifact_revision x\<rparr> else a)
      | None \<Rightarrow> a)"

definition bound_step ::
    "org_state \<Rightarrow> bound_delivery \<Rightarrow> external_artifact \<Rightarrow> bool \<times> domain_event list
      \<Rightarrow> string \<times> string \<times> instant \<Rightarrow> (bool \<times> domain_event list) result" where
  "bound_step s b a = (\<lambda>(stale, events) (fid, tid, synced_at).
     if bound_occurred_at b < synced_at then Inr (True, events)
     else
       and_then (get_flow s fid) (\<lambda>f.
       and_then (found ''task'' tid (flow_task f tid)) (\<lambda>t.
         let x = inherit_revision t a in
         if artifact_is_news t x
         then Inr (stale, events @ [TaskEvent (ExternalArtifactSynced fid tid x)])
         else Inr (stale, events))))"

definition binding_key_of :: "bound_delivery \<Rightarrow> string" where
  "binding_key_of b =
     bound_provider b @ '':'' @ bound_kind b @ '':'' @ bound_project b @ '':'' @ bound_external_id b"

definition decide_bound_sync ::
    "call_context \<Rightarrow> bound_delivery \<Rightarrow> external_artifact \<Rightarrow> string \<Rightarrow> org_state
      \<Rightarrow> delivery_sync decision result" where
  "decide_bound_sync ctx b a actor s =
     (let matches = binding_matches s b;
          stale = (case bt_get (external_binding_clocks s) (binding_key_of b) of
                     None \<Rightarrow> False | Some current \<Rightarrow> bound_occurred_at b < current) in
      and_then (if stale then Inr (True, []) else try_fold (bound_step s b a) (False, []) matches)
        (\<lambda>(stale, events).
          Inr (actor,
            events @ [ExternalEvent (ExternalDeliveryProcessed (bound_provider b) (bound_delivery_id b)
                        (binding_key_of b) (bound_occurred_at b) (ctx_clock ctx 0))],
            \<lparr>sync_duplicate = False, sync_stale = stale, sync_matched_tasks = length matches,
             sync_changed_tasks = length events\<rparr>)))"

definition sync_bound_external_artifact ::
    "call_context \<Rightarrow> bound_delivery \<Rightarrow> external_artifact \<Rightarrow> string \<Rightarrow> delivery_sync command" where
  "sync_bound_external_artifact ctx b a actor = (\<lambda>(db, s).
     (case validate_external_artifact a of
        Inl err \<Rightarrow> (Inl err, db, s)
      | Inr _ \<Rightarrow>
          if bt_contains (external_deliveries s) (bound_provider b @ '':'' @ bound_delivery_id b)
          then (Inr \<lparr>sync_duplicate = True, sync_stale = False, sync_matched_tasks = 0,
                     sync_changed_tasks = 0\<rparr>, db, s)
          else perform ctx (decide_bound_sync ctx b a actor) answer_with (db, s)))"

section \<open>The life of a task\<close>

text \<open>
  The transitions the commands make, and what a command does to the flows: the task found under the name
  that was given has its new status, no other task and no other flow changes. Events name a task by its
  identifier, so this supposes that the identifiers of a flow's tasks find these tasks.
\<close>

inductive task_move :: "task_status \<Rightarrow> task_status \<Rightarrow> bool" where
  accept: "task_move Assigned Accepted"
| reject: "task_move Assigned task_status.Rejected"
| start: "task_move Accepted InProgress"
| resume: "task_move task_status.Blocked InProgress"
| block: "task_move InProgress task_status.Blocked"
| submit: "task_move InProgress Submitted"
| complete: "task_move Submitted task_status.Completed"

inductive_cases task_move_from: "task_move st st'"

inductive_simps task_move_iff: "task_move st st'"

text \<open>No move leaves a completed or rejected task, and completion comes only after submission.\<close>

lemma terminal_stays: "task_status_is_terminal st \<Longrightarrow> \<not> task_move st st'"
  by (auto simp: task_move_iff task_status_is_terminal_def)

definition names_own :: "flow \<Rightarrow> bool" where
  "names_own f \<longleftrightarrow> distinct (map task_id (flow_tasks f)) \<and>
     (\<forall>t \<in> set (flow_tasks f). \<forall>u \<in> set (flow_tasks f). task_key u = task_id t \<longrightarrow> u = t)"

lemma find_only: "x \<in> set xs \<Longrightarrow> P x \<Longrightarrow> (\<And>y. y \<in> set xs \<Longrightarrow> P y \<Longrightarrow> y = x) \<Longrightarrow> List.find P xs = Some x"
proof (induction xs)
  case (Cons a xs)
  show ?case
  proof (cases "P a")
    case True
    then have "a = x" by (intro Cons.prems(3)) simp_all
    with True show ?thesis by simp
  next
    case False
    with Cons.prems(1,2) have "x \<in> set xs" by auto
    have "List.find P xs = Some x"
      by (rule Cons.IH [OF \<open>x \<in> set xs\<close> Cons.prems(2)], rule Cons.prems(3), simp_all)
    with False show ?thesis by simp
  qed
qed simp

lemma update_first_only:
  assumes "distinct (map h xs)" and "\<And>u. u \<in> set xs \<Longrightarrow> P u \<longleftrightarrow> h u = k"
  shows "update_first P g xs = map (\<lambda>u. if h u = k then g u else u) xs"
  using assms
proof (induction xs)
  case (Cons x xs)
  show ?case
  proof (cases "h x = k")
    case True
    with Cons.prems(1) have "map (\<lambda>u. if h u = k then g u else u) xs = xs"
      by (intro map_idI) (metis distinct.simps(2) image_eqI list.set_map list.simps(9))
    with True Cons.prems(2) [of x] show ?thesis by simp
  qed (use Cons in simp)
qed simp

lemma names_own_matches:
  assumes "names_own f" and "t \<in> set (flow_tasks f)" and "u \<in> set (flow_tasks f)"
  shows "task_matches (task_id t) u \<longleftrightarrow> task_id u = task_id t"
  using assms by (auto simp: names_own_def task_matches_def)

lemma names_own_finds:
  assumes "names_own f" and "t \<in> set (flow_tasks f)"
  shows "flow_task f (task_id t) = Some t"
  unfolding flow_task_def
proof (rule find_only)
  fix y assume y: "y \<in> set (flow_tasks f)" "task_matches (task_id t) y"
  with names_own_matches [OF assms y(1)] have "task_id y = task_id t" by simp
  with y(1) assms show "y = t" by (auto simp: names_own_def distinct_map dest: inj_onD)
qed (use assms in \<open>auto simp: task_matches_def\<close>)

lemma names_own_update:
  assumes "names_own f" and "t \<in> set (flow_tasks f)"
  shows "update_first (task_matches (task_id t)) g (flow_tasks f) =
    map (\<lambda>u. if task_id u = task_id t then g u else u) (flow_tasks f)"
  using assms names_own_matches [OF assms]
  by (intro update_first_only) (auto simp: names_own_def)

definition steps_task :: "org_state \<Rightarrow> org_state \<Rightarrow> flow \<Rightarrow> task \<Rightarrow> task_status \<Rightarrow> bool" where
  "steps_task s s' f t st \<longleftrightarrow>
     (\<exists>f' u. bt_get (flows s') (flow_id f) = Some f' \<and> flow_task f' (task_id t) = Some u \<and>
        task_status u = st \<and> length (flow_tasks f') = length (flow_tasks f) \<and>
        (\<forall>i < length (flow_tasks f). flow_tasks f ! i \<noteq> t \<longrightarrow> flow_tasks f' ! i = flow_tasks f ! i)) \<and>
     (\<forall>k. k \<noteq> flow_id f \<longrightarrow> bt_get (flows s') k = bt_get (flows s) k)"

lemma update_first_nth:
  "List.find P xs = Some x \<Longrightarrow> i < length xs \<Longrightarrow> xs ! i \<noteq> x \<Longrightarrow> update_first P g xs ! i = xs ! i"
proof (induction xs arbitrary: i)
  case (Cons a xs)
  then show ?case by (cases i) (auto split: if_splits)
qed simp

lemma updated_flow_steps:
  assumes "flow_task f (task_id t) = Some t" and "\<And>v. task_id (g v) = task_id v" and "\<And>v. task_key (g v) = task_key v"
    and "flow_tasks f' = update_first (task_matches (task_id t)) g (flow_tasks f)"
    and "flows s' = bt_insert (flow_id f) f' (flows s)" and "task_status (g t) = st"
  shows "steps_task s s' f t st"
proof -
  have "flow_task f' (task_id t) = map_option g (flow_task f (task_id t))"
    unfolding flow_task_def assms(4) by (rule find_update_first) (simp add: task_matches_def assms)
  moreover have "\<forall>i < length (flow_tasks f). flow_tasks f ! i \<noteq> t \<longrightarrow> flow_tasks f' ! i = flow_tasks f ! i"
    using update_first_nth [OF assms(1) [unfolded flow_task_def]] by (simp add: assms(4))
  ultimately show ?thesis using assms(1,4-6) by (simp add: steps_task_def)
qed

lemma update_task_steps:
  assumes "update_task (flow_id f) (task_id t) g s = Inr v" and "flows s' = flows v"
    and "bt_get (flows s) (flow_id f) = Some f" and "flow_task f (task_id t) = Some t"
    and "\<And>v. task_id (g v) = task_id v" and "\<And>v. task_key (g v) = task_key v"
    and "task_status (g t) = st"
  shows "steps_task s s' f t st"
  using assms(1-3)
  by (intro updated_flow_steps [OF assms(4-6), where f' = "flow_update_task (task_id t) g f"])
    (auto simp: update_task_Inr assms(7) put_flow_def)

text \<open>What a command on one task does, given what its event does to the task.\<close>

lemma on_task_performed:
  assumes "on_task ctx tid actor check event (db, s) = (Inr t', db', s')"
    and "task_snapshot s tid = Inr (f, t)"
  obtains v where "check s f t = Inr ()" "apply_task_event (event f t) s = Inr v" "flows s' = flows v"
proof -
  from assms(1) obtain author es x v where
      d: "and_then (task_snapshot s tid) (\<lambda>(f, t).
          and_then (check s f t) (\<lambda>_. Inr (actor, [TaskEvent (event f t)], task_id t))) = Inr (author, es, x)"
    and v: "apply_events s es = Inr v"
    and s': "s' = v\<lparr>notification_deliveries := notification_deliveries s', last_sequence := last_sequence s'\<rparr>"
    unfolding on_task_def by (rule performed)
  have "flows s' = flows v" by (subst s') simp
  with d v assms(2) show ?thesis by (intro that) auto
qed

lemmas task_found = task_snapshot_Inr(1,2)

lemma on_task_steps:
  assumes "on_task ctx tid actor check event (db, s) = (Inr t', db', s')"
    and "task_snapshot s tid = Inr (f, t)" and "flows_filed s" and "names_own f"
    and "\<And>v. apply_task_event (event f t) s = update_task (flow_id f) (task_id t) g s"
    and "\<And>v. task_id (g v) = task_id v" and "\<And>v. task_key (g v) = task_key v"
  shows "check s f t = Inr ()" and "steps_task s s' f t (task_status (g t))"
proof -
  from on_task_performed [OF assms(1,2)] obtain v where v: "check s f t = Inr ()"
    "apply_task_event (event f t) s = Inr v" "flows s' = flows v" .
  show "check s f t = Inr ()" by (rule v(1))
  note t = task_found [OF assms(2,3)]
  show "steps_task s s' f t (task_status (g t))"
    using v(2,3) t assms(4) by (intro update_task_steps [OF _ v(3)])
      (auto simp: assms(5-7) names_own_finds)
qed

section \<open>Every command makes a move of the life of a task\<close>

lemma start_task_steps:
  assumes "start_task ctx tid actor (db, s) = (Inr t', db', s')"
    and "task_snapshot s tid = Inr (f, t)" and "flows_filed s" and "names_own f"
  shows "steps_task s s' f t InProgress" and "task_status t \<in> {Accepted, task_status.Blocked}"
    and "\<And>dep d. dep \<in> set (task_depends_on t) \<Longrightarrow> flow_task f dep = Some d \<Longrightarrow> task_status d = task_status.Completed"
    and "\<exists>p. lookup_principal s actor = Some p \<and> principal_is_task_actor s t p"
  using on_task_steps [OF assms(1) [unfolded start_task_def] assms(2-4),
      where g = "\<lambda>t. t\<lparr>task_status := InProgress, task_blocker := None, task_last_heartbeat := Some (ctx_clock ctx 0)\<rparr>"]
  by (simp_all add: apply_task_started_def)

lemma heartbeat_task_steps:
  assumes "heartbeat_task ctx tid actor note_text (db, s) = (Inr t', db', s')"
    and "task_snapshot s tid = Inr (f, t)" and "flows_filed s" and "names_own f"
  shows "steps_task s s' f t (task_status t)" and "task_status t \<in> {InProgress, task_status.Blocked}"
  using on_task_steps [OF assms(1) [unfolded heartbeat_task_def] assms(2-4),
      where g = "\<lambda>t. t\<lparr>task_last_heartbeat := Some (ctx_clock ctx 0)\<rparr>"]
  by (simp_all add: apply_task_heartbeat_def)

lemma block_task_steps:
  assumes "block_task ctx tid actor reason (db, s) = (Inr t', db', s')"
    and "task_snapshot s tid = Inr (f, t)" and "flows_filed s" and "names_own f"
  shows "steps_task s s' f t task_status.Blocked" and "task_status t = InProgress"
  using on_task_steps [OF assms(1) [unfolded block_task_def] assms(2-4),
      where g = "\<lambda>t. t\<lparr>task_status := task_status.Blocked, task_blocker := Some reason,
        task_last_heartbeat := Some (ctx_clock ctx 0)\<rparr>"]
  by (simp_all add: apply_task_blocked_def)

lemma submit_task_steps:
  assumes "submit_task ctx tid actor (db, s) = (Inr t', db', s')"
    and "task_snapshot s tid = Inr (f, t)" and "flows_filed s" and "names_own f"
  shows "steps_task s s' f t Submitted" and "task_status t = InProgress"
    and "task_evidence t \<noteq> [] \<or> (\<exists>a \<in> set (task_external_artifacts t). artifact_verified a)"
  using on_task_steps [OF assms(1) [unfolded submit_task_def] assms(2-4),
      where g = "\<lambda>t. t\<lparr>task_status := Submitted, task_last_heartbeat := Some (ctx_clock ctx 0)\<rparr>"]
  by (auto simp: apply_task_submitted_def list_ex_iff split: if_splits)

lemma accept_task_steps:
  assumes "accept_task ctx tid actor (db, s) = (Inr t', db', s')"
    and "task_snapshot s tid = Inr (f, t)" and "flows_filed s" and "names_own f"
  shows "steps_task s s' f t Accepted" and "task_status t = Assigned"
    and "\<exists>p. lookup_principal s actor = Some p \<and> principal_is_task_actor s t p"
proof -
  from assms(1) obtain author es x v where
      d: "and_then (prepare_task_accept s tid actor (ctx_clock ctx 0)) (\<lambda>(fid, tid, e). Inr (actor, [e], tid))
        = Inr (author, es, x)"
    and v: "apply_events s es = Inr v"
    and s': "s' = v\<lparr>notification_deliveries := notification_deliveries s', last_sequence := last_sequence s'\<rparr>"
    unfolding accept_task_def by (rule performed)
  have flows: "flows s' = flows v" by (subst s') simp
  note t = task_found [OF assms(2,3)]
  from d assms(2) have es: "es = [TaskEvent (TaskAccepted (flow_id f) (task_id t) actor (ctx_clock ctx 0))]"
    and "task_status t = Assigned" "\<exists>p. lookup_principal s actor = Some p \<and> principal_is_task_actor s t p"
    by (auto simp: prepare_task_accept_def)
  then show "task_status t = Assigned"
    and "\<exists>p. lookup_principal s actor = Some p \<and> principal_is_task_actor s t p" by simp_all
  have own: "flow_task f (task_id t) = Some t" using names_own_finds [OF assms(4) t(2)] .
  let ?g = "\<lambda>t. t\<lparr>task_status := Accepted, task_last_heartbeat := Some (ctx_clock ctx 0)\<rparr>"
  let ?f' = "flow_update_task (task_id t) ?g (f\<lparr>flow_status := flow_status.Active\<rparr>)"
  from v es t(1) have "v = put_flow ?f' (flow_id f) s"
    by (auto simp: apply_task_accepted_def Let_def)
  then show "steps_task s s' f t Accepted"
    by (intro updated_flow_steps [OF own, where f' = ?f' and g = ?g]) (simp_all add: flows put_flow_def)
qed

lemma reject_task_steps:
  assumes "reject_task ctx tid actor reason (db, s) = (Inr t', db', s')"
    and "task_snapshot s tid = Inr (f, t)" and "flows_filed s" and "names_own f"
  shows "steps_task s s' f t task_status.Rejected" and "task_status t = Assigned"
proof -
  from assms(1) obtain author es x v where
      d: "and_then (prepare_task_reject s tid actor reason) (\<lambda>(fid, tid, e). Inr (actor, [e], tid))
        = Inr (author, es, x)"
    and v: "apply_events s es = Inr v"
    and s': "s' = v\<lparr>notification_deliveries := notification_deliveries s', last_sequence := last_sequence s'\<rparr>"
    unfolding reject_task_def by (rule performed)
  have flows: "flows s' = flows v" by (subst s') simp
  note t = task_found [OF assms(2,3)]
  from d assms(2) have es: "es = [TaskEvent (TaskRejected (flow_id f) (task_id t) actor (str_trim reason))]"
    and st: "task_status t = Assigned"
    by (auto simp: prepare_task_reject_def Let_def split: if_splits)
  show "task_status t = Assigned" by (rule st)
  from v es have "update_task (flow_id f) (task_id t) (\<lambda>t. t\<lparr>task_status := task_status.Rejected\<rparr>) s = Inr v"
    by (simp add: apply_task_rejected_def)
  from update_task_steps [OF this flows t(1)] names_own_finds [OF assms(4) t(2)]
  show "steps_task s s' f t task_status.Rejected" by simp
qed

text \<open>
  Only the requester completes a task; the flow is completed with it exactly when every task with another
  identifier was completed before.
\<close>

lemma decide_complete_task_Inr:
  assumes "decide_complete_task ctx tid actor s = Inr (author, es, x)" and "task_snapshot s tid = Inr (f, t)"
  shows "task_status t = Submitted" and "author = actor \<and> x = task_id t"
    and "es = TaskEvent (TaskCompleted (flow_id f) (task_id t) actor (ctx_clock ctx 0)) #
      (if list_all (\<lambda>c. task_status c = task_status.Completed) (filter (\<lambda>c. task_id c \<noteq> task_id t) (flow_tasks f))
       then [FlowEvent (FlowCompleted (flow_id f) actor (ctx_clock ctx 0))] else [])"
    and "\<exists>p. lookup_principal s actor = Some p \<and> principal_kind p = principal_kind.Human \<and>
      demand_requester (flow_demand f) \<in> {principal_name p, principal_id p}"
  using assms
  by (auto simp: decide_complete_task_def get_principal_Inr Let_def split: if_splits)

lemma complete_task_steps:
  assumes "complete_task ctx tid actor (db, s) = (Inr t', db', s')"
    and "task_snapshot s tid = Inr (f, t)" and "flows_filed s" and "names_own f"
  shows "steps_task s s' f t task_status.Completed" and "task_status t = Submitted"
    and "\<exists>p. lookup_principal s actor = Some p \<and> principal_kind p = principal_kind.Human \<and>
      demand_requester (flow_demand f) \<in> {principal_name p, principal_id p}"
    and "(\<forall>c \<in> set (flow_tasks f). task_id c \<noteq> task_id t \<longrightarrow> task_status c = task_status.Completed) \<Longrightarrow>
      \<exists>f'. bt_get (flows s') (flow_id f) = Some f' \<and> flow_status f' = flow_status.Completed"
    and "\<not> (\<forall>c \<in> set (flow_tasks f). task_id c \<noteq> task_id t \<longrightarrow> task_status c = task_status.Completed) \<Longrightarrow>
      \<exists>f'. bt_get (flows s') (flow_id f) = Some f' \<and> flow_status f' = flow_status f"
proof -
  from assms(1) obtain author es x v where d: "decide_complete_task ctx tid actor s = Inr (author, es, x)"
    and v: "apply_events s es = Inr v"
    and s': "s' = v\<lparr>notification_deliveries := notification_deliveries s', last_sequence := last_sequence s'\<rparr>"
    unfolding complete_task_def by (rule performed)
  have flows: "flows s' = flows v" by (subst s') simp
  note t = task_found [OF assms(2,3)]
  note decided = decide_complete_task_Inr [OF d assms(2)]
  show "task_status t = Submitted" by (rule decided(1))
  show "\<exists>p. lookup_principal s actor = Some p \<and> principal_kind p = principal_kind.Human \<and>
      demand_requester (flow_demand f) \<in> {principal_name p, principal_id p}" by (rule decided(4))
  have own: "flow_task f (task_id t) = Some t" using names_own_finds [OF assms(4) t(2)] .
  let ?at = "ctx_clock ctx 0"
  let ?g = "\<lambda>t. t\<lparr>task_status := task_status.Completed, task_blocker := None, task_last_heartbeat := Some ?at\<rparr>"
  let ?f1 = "flow_update_task (task_id t) ?g f"
  let ?all = "list_all (\<lambda>c. task_status c = task_status.Completed) (filter (\<lambda>c. task_id c \<noteq> task_id t) (flow_tasks f))"
  let ?f' = "if ?all then ?f1\<lparr>flow_status := flow_status.Completed, flow_completed_at := Some ?at\<rparr> else ?f1"
  have "apply_task_completed (flow_id f) (task_id t) ?at s = Inr (put_flow ?f1 (flow_id f) s)"
    using t(1) own by (simp add: apply_task_completed_def update_task_Inr)
  with v decided(3) have "flows v = bt_insert (flow_id f) ?f' (flows s)"
    by (auto simp: apply_flow_completed_def put_flow_def insert_twice get_flow_def split: if_splits)
  with flows have after: "flows s' = bt_insert (flow_id f) ?f' (flows s)" by simp
  then show "steps_task s s' f t task_status.Completed"
    by (intro updated_flow_steps [OF own, where f' = ?f' and g = ?g]) simp_all
  have all: "?all \<longleftrightarrow> (\<forall>c \<in> set (flow_tasks f). task_id c \<noteq> task_id t \<longrightarrow> task_status c = task_status.Completed)"
    by (auto simp: list_all_iff)
  show "\<exists>f'. bt_get (flows s') (flow_id f) = Some f' \<and> flow_status f' = flow_status.Completed"
    if "\<forall>c \<in> set (flow_tasks f). task_id c \<noteq> task_id t \<longrightarrow> task_status c = task_status.Completed"
    using that after unfolding all [symmetric] by simp
  show "\<exists>f'. bt_get (flows s') (flow_id f) = Some f' \<and> flow_status f' = flow_status f"
    if "\<not> (\<forall>c \<in> set (flow_tasks f). task_id c \<noteq> task_id t \<longrightarrow> task_status c = task_status.Completed)"
    using that after unfolding all [symmetric] by simp
qed

text \<open>The commands that move a task, as one.\<close>

datatype task_command =
    AcceptTask | RejectTask string | StartTask | HeartbeatTask "string option" | BlockTask string
  | SubmitTask | CompleteTask

fun run_task_command :: "call_context \<Rightarrow> task_command \<Rightarrow> string \<Rightarrow> string \<Rightarrow> task command" where
  "run_task_command ctx AcceptTask tid actor = accept_task ctx tid actor"
| "run_task_command ctx (RejectTask reason) tid actor = reject_task ctx tid actor reason"
| "run_task_command ctx StartTask tid actor = start_task ctx tid actor"
| "run_task_command ctx (HeartbeatTask note_text) tid actor = heartbeat_task ctx tid actor note_text"
| "run_task_command ctx (BlockTask reason) tid actor = block_task ctx tid actor reason"
| "run_task_command ctx SubmitTask tid actor = submit_task ctx tid actor"
| "run_task_command ctx CompleteTask tid actor = complete_task ctx tid actor"

lemma task_command_moves:
  assumes "run_task_command ctx c tid actor (db, s) = (Inr t', db', s')"
    and "task_snapshot s tid = Inr (f, t)" and "flows_filed s" and "names_own f"
  shows "\<exists>st. steps_task s s' f t st \<and> (st = task_status t \<or> task_move (task_status t) st)"
proof (cases c)
  case AcceptTask
  with accept_task_steps [OF _ assms(2-4)] assms(1) show ?thesis by (fastforce intro: task_move.intros)
next
  case (RejectTask reason)
  with reject_task_steps [OF _ assms(2-4)] assms(1) show ?thesis by (fastforce intro: task_move.intros)
next
  case StartTask
  with start_task_steps [OF _ assms(2-4)] assms(1) show ?thesis by (fastforce intro: task_move.intros)
next
  case (HeartbeatTask note_text)
  with heartbeat_task_steps [OF _ assms(2-4)] assms(1) show ?thesis by fastforce
next
  case (BlockTask reason)
  with block_task_steps [OF _ assms(2-4)] assms(1) show ?thesis by (fastforce intro: task_move.intros)
next
  case SubmitTask
  with submit_task_steps [OF _ assms(2-4)] assms(1) show ?thesis by (fastforce intro: task_move.intros)
next
  case CompleteTask
  with complete_task_steps [OF _ assms(2-4)] assms(1) show ?thesis by (fastforce intro: task_move.intros)
qed

end
