(* ===== verification/Matcher.thy ===== *)
theory Matcher
  imports Working_Time Org_State "HOL-Library.Product_Lexorder"
begin

text \<open>
  The matcher (\<open>src/application/matcher.rs\<close>): who gets a task. Active principals that have every
  required capability are scored by capacity, executor, load and availability; the best one, by
  score and then by name, becomes the owner. Without one, the best active team does.
\<close>

section \<open>Capabilities\<close>

definition normalized_set :: "text_functions \<Rightarrow> string list \<Rightarrow> string list" where
  "normalized_set tx values = sort_dedup (filter (\<lambda>v. v \<noteq> []) (map (normalize_capability tx) values))"

definition f64_of_nat :: "nat \<Rightarrow> f64" where
  "f64_of_nat n = f64_of_int (int n)"

definition coverage :: "string list \<Rightarrow> string list \<Rightarrow> f64" where
  "coverage required provided =
     (if required = [] then f64_lit 1 1
      else f64_div (f64_of_nat (length (filter (\<lambda>r. r \<in> set provided) required)))
             (f64_of_nat (length required)))"

section \<open>Load\<close>

definition count_assignment :: "task \<Rightarrow> (string, nat) btree \<Rightarrow> (string, nat) btree" where
  "count_assignment t load =
     (if task_status_is_terminal (task_status t) then load
      else case task_assignment t of
             None \<Rightarrow> load
           | Some a \<Rightarrow>
               let owner = target_id (assignment_owner a) in
               bt_insert owner ((case bt_get load owner of Some n \<Rightarrow> n | None \<Rightarrow> 0) + 1) load)"

definition active_load :: "org_state \<Rightarrow> (string, nat) btree" where
  "active_load s = fold (\<lambda>f load. fold count_assignment (flow_tasks f) load) (bt_values (flows s)) bt_empty"

definition load_of :: "(string, nat) btree \<Rightarrow> string \<Rightarrow> nat" where
  "load_of load pid = (case bt_get load pid of Some n \<Rightarrow> n | None \<Rightarrow> 0)"

section \<open>Scoring\<close>

type_synonym candidate = "f64 \<times> principal \<times> string list"

definition target_for_principal :: "principal \<Rightarrow> assignment_target" where
  "target_for_principal p =
     \<lparr>target_kind = (case principal_kind p of
                      principal_kind.Human \<Rightarrow> target_kind.Human
                    | principal_kind.Agent \<Rightarrow> target_kind.Agent),
      target_id = principal_id p,
      target_name = principal_name p\<rparr>"

text \<open>The clock is read once for each principal that is scored.\<close>

definition next_free :: "org_state \<Rightarrow> instant \<Rightarrow> principal \<Rightarrow> instant option" where
  "next_free s now p =
     (case bt_get (calendars s) (principal_id p) of
        None \<Rightarrow> None
      | Some c \<Rightarrow> (case next_available c now of Inr t \<Rightarrow> Some t | Inl _ \<Rightarrow> None))"

definition availability_delay_hours :: "org_state \<Rightarrow> instant \<Rightarrow> principal \<Rightarrow> f64" where
  "availability_delay_hours s now p =
     (case next_free s now p of
        Some t \<Rightarrow> f64_div (f64_of_int (if now \<le> t then (t - now) div minute_ns else 0)) (f64_lit 60 1)
      | None \<Rightarrow> f64_lit 0 1)"

definition score_of :: "(string, nat) btree \<Rightarrow> org_state \<Rightarrow> instant \<Rightarrow> principal \<Rightarrow> f64 \<Rightarrow> f64 \<Rightarrow> f64" where
  "score_of load s now p cov capacity =
     (let load_penalty = f64_min (f64_mul (f64_of_nat (load_of load (principal_id p))) (f64_lit 75 10))
            (f64_lit 30 1);
          executor_bonus = (if principal_executor p \<noteq> None then f64_lit 3 1 else f64_lit 0 1);
          availability_penalty =
            f64_min (f64_mul (f64_div (availability_delay_hours s now p) (f64_lit 24 1)) (f64_lit 5 1))
              (f64_lit 25 1) in
      f64_sub (f64_sub
        (f64_add (f64_add (f64_mul cov (f64_lit 70 1)) (f64_mul capacity (f64_lit 30 1)))
          executor_bonus)
        load_penalty) availability_penalty)"

definition score_principal ::
    "text_functions \<Rightarrow> (string, nat) btree \<Rightarrow> org_state \<Rightarrow> instant \<Rightarrow> string list \<Rightarrow> principal
      \<Rightarrow> candidate option" where
  "score_principal tx load s now required p =
     (let cov = coverage required (normalized_set tx (principal_capabilities p));
          capacity = f64_div (f64_of_int (uint (principal_capacity_percent p))) (f64_lit 100 1);
          delay = availability_delay_hours s now p in
      if required \<noteq> [] \<and> f64_lt cov (f64_lit 1 1) then None
      else if f64_le capacity (f64_lit 0 1) then None
      else Some (score_of load s now p cov capacity, p,
        [''capability coverage: '' @ show_f64 0 (f64_mul cov (f64_lit 100 1)) @ ''%'',
         ''declared capacity: '' @ show_int (uint (principal_capacity_percent p)) @ ''%'',
         ''current active assignments: '' @ show_nat (load_of load (principal_id p))] @
        (case bt_get (calendars s) (principal_id p) of
           Some c \<Rightarrow> [''work calendar: '' @ calendar_summary c] | None \<Rightarrow> []) @
        (if f64_le (f64_lit 1 10) delay then
           [''next availability: '' @ to_rfc3339 tx (the (next_free s now p)) @ '' ('' @
            show_f64 1 delay @ ''h delay)'']
         else [])))"

definition copilots_for :: "text_functions \<Rightarrow> org_state \<Rightarrow> principal \<Rightarrow> string list \<Rightarrow> assignment_target list" where
  "copilots_for tx s owner required =
     take 2 (map target_for_principal
       (filter (\<lambda>p.
          principal_active p \<and> principal_id p \<noteq> principal_id owner \<and>
          (case principal_kind owner of
             principal_kind.Human \<Rightarrow>
               principal_kind p = principal_kind.Agent \<and> principal_owner_id p = Some (principal_id owner) \<and>
               (required = [] \<or>
                f64_lt (f64_lit 0 1) (coverage required (normalized_set tx (principal_capabilities p))))
           | principal_kind.Agent \<Rightarrow> principal_owner_id owner = Some (principal_id p)))
        (bt_values (principals s))))"

section \<open>Matching\<close>

text \<open>\<open>sort_by\<close> is stable: highest score first, then by name.\<close>

definition candidate_rank :: "f64 \<Rightarrow> string \<Rightarrow> int \<times> string" where
  "candidate_rank score name = (- f64_total_key score, name)"

definition candidates ::
    "text_functions \<Rightarrow> (string \<Rightarrow> instant) \<Rightarrow> (string, nat) btree \<Rightarrow> org_state \<Rightarrow> task_draft
      \<Rightarrow> candidate list" where
  "candidates tx clock load s d =
     sort_key (\<lambda>(score, p, _). candidate_rank score (principal_name p))
       (List.map_filter
         (\<lambda>p. score_principal tx load s (clock (principal_id p))
                (normalized_set tx (task_draft_required_capabilities d)) p)
         (filter (\<lambda>p. principal_active p \<and>
             (\<not> task_draft_requires_human d \<or> principal_kind p = principal_kind.Human))
           (bt_values (principals s))))"

definition has_human :: "org_state \<Rightarrow> team \<Rightarrow> bool" where
  "has_human s t \<longleftrightarrow>
     list_ex (\<lambda>p. principal_active p \<and> principal_kind p = principal_kind.Human \<and>
                principal_team_id p = Some (team_id t)) (bt_values (principals s))"

definition team_candidates :: "text_functions \<Rightarrow> org_state \<Rightarrow> task_draft \<Rightarrow> (f64 \<times> team) list" where
  "team_candidates tx s d =
     (let required = normalized_set tx (task_draft_required_capabilities d) in
      sort_key (\<lambda>(cov, t). candidate_rank cov (team_name t))
        (List.map_filter
          (\<lambda>t. let cov = coverage required (normalized_set tx (team_capabilities t)) in
               if required = [] \<or> f64_le (f64_lit 1 1) cov then Some (cov, t) else None)
          (filter (\<lambda>t. team_active t \<and> (\<not> task_draft_requires_human d \<or> has_human s t))
            (bt_values (teams s)))))"

definition match_task ::
    "text_functions \<Rightarrow> (string \<Rightarrow> instant) \<Rightarrow> (string, nat) btree \<Rightarrow> org_state \<Rightarrow> task_draft
      \<Rightarrow> (assignment \<times> (string, nat) btree) result" where
  "match_task tx clock load s d =
     (let required = normalized_set tx (task_draft_required_capabilities d) in
      case candidates tx clock load s d of
        (score, p, rationale) # _ \<Rightarrow>
          Inr (\<lparr>assignment_owner = target_for_principal p,
                assignment_copilots = copilots_for tx s p required,
                assignment_score = score,
                assignment_rationale = rationale\<rparr>,
               bt_insert (principal_id p) (load_of load (principal_id p) + 1) load)
      | [] \<Rightarrow>
          (case team_candidates tx s d of
             (cov, t) # _ \<Rightarrow>
               Inr (\<lparr>assignment_owner =
                      \<lparr>target_kind = Team, target_id = team_id t, target_name = team_name t\<rparr>,
                     assignment_copilots = [],
                     assignment_score = f64_mul cov (f64_lit 70 1),
                     assignment_rationale =
                       [''no individual had a complete capability match'',
                        ''team capability coverage: '' @ show_f64 0 (f64_mul cov (f64_lit 100 1)) @ ''%'']\<rparr>,
                    load)
           | [] \<Rightarrow> Inl (NoEligibleAssignee (task_draft_title d))))"

section \<open>Who is chosen\<close>

definition eligible :: "text_functions \<Rightarrow> task_draft \<Rightarrow> principal \<Rightarrow> bool" where
  "eligible tx d p \<longleftrightarrow>
     principal_active p \<and>
     (task_draft_requires_human d \<longrightarrow> principal_kind p = principal_kind.Human) \<and>
     set (normalized_set tx (task_draft_required_capabilities d))
       \<subseteq> set (normalized_set tx (principal_capabilities p)) \<and>
     0 < uint (principal_capacity_percent p)"

definition eligible_team :: "text_functions \<Rightarrow> org_state \<Rightarrow> task_draft \<Rightarrow> team \<Rightarrow> bool" where
  "eligible_team tx s d t \<longleftrightarrow>
     team_active t \<and> (task_draft_requires_human d \<longrightarrow> has_human s t) \<and>
     set (normalized_set tx (task_draft_required_capabilities d))
       \<subseteq> set (normalized_set tx (team_capabilities t))"

lemma length_filter_full: "length (filter P xs) = length xs \<longleftrightarrow> (\<forall>x \<in> set xs. P x)"
proof (induction xs)
  case (Cons x xs)
  have "length (filter P xs) \<le> length xs" by simp
  then have "length (filter P xs) \<noteq> Suc (length xs)" by linarith
  with Cons show ?case by simp
qed simp

lemma coverage_one:
  assumes "required \<noteq> []" and "length required < 2 ^ 53"
  shows "f64_lt (coverage required provided) (f64_lit 1 1) \<longleftrightarrow> \<not> set required \<subseteq> set provided"
    and "f64_le (f64_lit 1 1) (coverage required provided) \<longleftrightarrow> set required \<subseteq> set provided"
proof -
  let ?n = "length (filter (\<lambda>r. r \<in> set provided) required)"
  have bounds: "int ?n \<le> int (length required)" "int (length required) < 2 ^ 53"
      "0 < int (length required)"
    using assms by simp_all
  have full: "int ?n = int (length required) \<longleftrightarrow> set required \<subseteq> set provided"
    by (auto simp: length_filter_full)
  show "f64_lt (coverage required provided) (f64_lit 1 1) \<longleftrightarrow> \<not> set required \<subseteq> set provided"
    "f64_le (f64_lit 1 1) (coverage required provided) \<longleftrightarrow> set required \<subseteq> set provided"
    using f64_ratio [of "int ?n" "int (length required)"] bounds full assms(1)
    by (simp_all add: coverage_def f64_of_nat_def) (metis le_neq_implies_less length_filter_le less_irrefl)
qed

lemma no_capacity:
  assumes "0 \<le> c" and "c < 256"
  shows "f64_le (f64_div (f64_of_int c) (f64_lit 100 1)) (f64_lit 0 1) \<longleftrightarrow> c = 0"
proof -
  have hundred: "f64_lit 100 1 = f64_of_int 100" by (simp add: f64_of_int_def)
  from f64_decode_of_int [of c] f64_decode_of_int [of 100] assms obtain k l where
      k: "0 < k" "f64_decode (f64_of_int c) = Finite False (c * k) k"
    and l: "0 < l" "f64_decode (f64_of_int 100) = Finite False (100 * l) l"
    by auto
  define x where "x = c * k * l"
  define y where "y = k * (100 * l)"
  have div: "f64_div (f64_of_int c) (f64_lit 100 1) = f64_pack False x y"
    using k l by (simp add: f64_div_def x_def y_def hundred)
  have y: "0 < y" and x: "0 \<le> x" using assms(1) k(1) l(1) by (simp_all add: x_def y_def)
  have key: "f64_order_key (f64_pack False x y) = f64_nearest x y" "\<not> f64_is_nan (f64_pack False x y)"
      "f64_order_key (f64_lit 0 1) = 0"
    using x y by (simp_all add: f64_order_key_def f64_pack_fields f64_nearest_def)
  have "f64_nearest x y \<le> 0 \<longleftrightarrow> c = 0"
  proof (cases "c = 0")
    case True
    then show ?thesis by (simp add: x_def f64_nearest_def)
  next
    case False
    have "100 \<le> c * 2 ^ 1000"
      using False assms(1) mult_mono [of 1 c 100 "2 ^ 1000"] by simp
    then have "100 * (k * l) \<le> c * 2 ^ 1000 * (k * l)"
      using k(1) l(1) by (intro mult_right_mono) simp_all
    then have "y \<le> x * 2 ^ 1000" by (simp add: x_def y_def ac_simps)
    moreover have "0 < x" using False assms(1) k(1) l(1) by (simp add: x_def)
    ultimately have "0 < f64_nearest x y" using y by (simp add: f64_nearest_pos)
    with False show ?thesis by simp
  qed
  then show ?thesis
    unfolding div f64_le_def f64_lt_def f64_eq_def key using key by simp linarith
qed

lemma score_principal_iff:
  assumes "length required < 2 ^ 53"
  shows "score_principal tx load s now required p \<noteq> None \<longleftrightarrow>
    set required \<subseteq> set (normalized_set tx (principal_capabilities p)) \<and>
    0 < uint (principal_capacity_percent p)"
proof -
  have "uint (principal_capacity_percent p) < 256"
    using uint_lt2p [of "principal_capacity_percent p"] by simp
  then have "f64_le (f64_div (f64_of_int (uint (principal_capacity_percent p))) (f64_lit 100 1)) (f64_lit 0 1)
      \<longleftrightarrow> uint (principal_capacity_percent p) = 0"
    by (intro no_capacity) simp_all
  moreover have "0 < uint (principal_capacity_percent p) \<longleftrightarrow> uint (principal_capacity_percent p) \<noteq> 0"
    using uint_ge_0 [of "principal_capacity_percent p"] by linarith
  ultimately show ?thesis
    using coverage_one(1) [OF _ assms]
    by (cases "required = []") (simp_all add: score_principal_def Let_def)
qed

lemma score_principal_fields:
  "score_principal tx load s now required p = Some (score, q, rationale) \<Longrightarrow>
     q = p \<and> score = score_of load s now p
       (coverage required (normalized_set tx (principal_capabilities p)))
       (f64_div (f64_of_int (uint (principal_capacity_percent p))) (f64_lit 100 1))"
  by (auto simp: score_principal_def Let_def split: if_splits)

definition task_score ::
    "text_functions \<Rightarrow> (string \<Rightarrow> instant) \<Rightarrow> (string, nat) btree \<Rightarrow> org_state \<Rightarrow> task_draft \<Rightarrow> principal
      \<Rightarrow> f64" where
  "task_score tx clock load s d p =
     score_of load s (clock (principal_id p)) p
       (coverage (normalized_set tx (task_draft_required_capabilities d))
         (normalized_set tx (principal_capabilities p)))
       (f64_div (f64_of_int (uint (principal_capacity_percent p))) (f64_lit 100 1))"

lemma candidate_eligible:
  assumes "length (normalized_set tx (task_draft_required_capabilities d)) < 2 ^ 53"
  shows "(\<exists>rationale. (score, p, rationale) \<in> set (candidates tx clock load s d)) \<longleftrightarrow>
    (\<exists>k. bt_get (principals s) k = Some p) \<and> eligible tx d p \<and> score = task_score tx clock load s d p"
proof -
  let ?score = "\<lambda>p. score_principal tx load s (clock (principal_id p))
      (normalized_set tx (task_draft_required_capabilities d)) p"
  have "set (candidates tx clock load s d) = {c. \<exists>k x. bt_get (principals s) k = Some x \<and>
      principal_active x \<and> (task_draft_requires_human d \<longrightarrow> principal_kind x = principal_kind.Human) \<and>
      ?score x = Some c}"
    by (force simp: candidates_def List.map_filter_def)
  moreover have "?score x = Some (score, p, rationale) \<Longrightarrow> x = p" for x rationale
    by (auto dest: score_principal_fields)
  ultimately have "(\<exists>rationale. (score, p, rationale) \<in> set (candidates tx clock load s d)) \<longleftrightarrow>
      (\<exists>k. bt_get (principals s) k = Some p) \<and> principal_active p \<and>
      (task_draft_requires_human d \<longrightarrow> principal_kind p = principal_kind.Human) \<and>
      (\<exists>rationale. ?score p = Some (score, p, rationale))"
    by blast
  also have "\<dots> \<longleftrightarrow> (\<exists>k. bt_get (principals s) k = Some p) \<and> eligible tx d p \<and>
      score = task_score tx clock load s d p"
    using score_principal_iff [OF assms, of tx load s "clock (principal_id p)" p]
      score_principal_fields [of tx load s "clock (principal_id p)"
        "normalized_set tx (task_draft_required_capabilities d)" p]
    by (fastforce simp: eligible_def task_score_def)
  finally show ?thesis .
qed

lemma sort_key_head:
  assumes "sort_key f xs = y # ys"
  shows "y \<in> set xs \<and> (\<forall>x \<in> set xs. f y \<le> f x)"
proof -
  have "set (y # ys) = set xs" using assms by (metis set_sort)
  moreover have "sorted (map f (y # ys))" using assms by (metis sorted_sort_key)
  ultimately show ?thesis by auto
qed

lemma eligible_rank_le:
  assumes "length (normalized_set tx (task_draft_required_capabilities d)) < 2 ^ 53"
    and "candidates tx clock load s d = (score, p, rationale) # rest"
    and "bt_get (principals s) k = Some q" and "eligible tx d q"
  shows "candidate_rank score (principal_name p)
    \<le> candidate_rank (task_score tx clock load s d q) (principal_name q)"
proof -
  from candidate_eligible [OF assms(1)] assms(3,4) obtain rationale'
    where "(task_score tx clock load s d q, q, rationale') \<in> set (candidates tx clock load s d)"
    by blast
  moreover have "sorted (map (\<lambda>(score, p, _). candidate_rank score (principal_name p))
      (candidates tx clock load s d))"
    by (simp add: candidates_def)
  ultimately show ?thesis using assms(2) by auto
qed

lemma match_task_individual:
  assumes "length (normalized_set tx (task_draft_required_capabilities d)) < 2 ^ 53"
    and "match_task tx clock load s d = Inr (a, load')"
    and "\<exists>k q. bt_get (principals s) k = Some q \<and> eligible tx d q"
  shows "\<exists>k p. bt_get (principals s) k = Some p \<and> eligible tx d p \<and>
    assignment_owner a = target_for_principal p \<and>
    assignment_score a = task_score tx clock load s d p \<and>
    load_of load' (principal_id p) = load_of load (principal_id p) + 1 \<and>
    (\<forall>k' q. bt_get (principals s) k' = Some q \<longrightarrow> eligible tx d q \<longrightarrow>
       candidate_rank (assignment_score a) (principal_name p)
         \<le> candidate_rank (task_score tx clock load s d q) (principal_name q))"
proof -
  from assms(3) candidate_eligible [OF assms(1)] have "candidates tx clock load s d \<noteq> []"
    by (metis empty_iff empty_set)
  then obtain score p rationale rest where c: "candidates tx clock load s d = (score, p, rationale) # rest"
    by (cases "candidates tx clock load s d") auto
  with candidate_eligible [OF assms(1), of score p clock load s]
  have p: "\<exists>k. bt_get (principals s) k = Some p" "eligible tx d p" "score = task_score tx clock load s d p"
    by auto
  from c assms(2) have "assignment_owner a = target_for_principal p" "assignment_score a = score"
      "load' = bt_insert (principal_id p) (load_of load (principal_id p) + 1) load"
    by (auto simp: match_task_def)
  with p eligible_rank_le [OF assms(1) c] show ?thesis
    by (auto simp: load_of_def)
qed

lemma team_candidate_eligible:
  assumes "length (normalized_set tx (task_draft_required_capabilities d)) < 2 ^ 53"
  shows "(\<exists>cov. (cov, t) \<in> set (team_candidates tx s d)) \<longleftrightarrow>
    (\<exists>k. bt_get (teams s) k = Some t) \<and> eligible_team tx s d t"
  using coverage_one(2) [OF _ assms]
  by (cases "normalized_set tx (task_draft_required_capabilities d) = []")
    (auto simp: team_candidates_def List.map_filter_def Let_def eligible_team_def)

lemma match_task_fails:
  assumes "length (normalized_set tx (task_draft_required_capabilities d)) < 2 ^ 53"
  shows "match_task tx clock load s d = Inl (NoEligibleAssignee (task_draft_title d)) \<longleftrightarrow>
    (\<forall>k p. bt_get (principals s) k = Some p \<longrightarrow> \<not> eligible tx d p) \<and>
    (\<forall>k t. bt_get (teams s) k = Some t \<longrightarrow> \<not> eligible_team tx s d t)"
proof -
  have "candidates tx clock load s d = [] \<longleftrightarrow>
      (\<forall>k p. bt_get (principals s) k = Some p \<longrightarrow> \<not> eligible tx d p)"
    using candidate_eligible [OF assms, of _ _ clock load s]
    by (cases "candidates tx clock load s d") (auto, metis)
  moreover have "team_candidates tx s d = [] \<longleftrightarrow>
      (\<forall>k t. bt_get (teams s) k = Some t \<longrightarrow> \<not> eligible_team tx s d t)"
    using team_candidate_eligible [OF assms, of _ s]
    by (cases "team_candidates tx s d") (auto, metis)
  ultimately show ?thesis
    by (auto simp: match_task_def split: list.splits prod.splits)
qed

lemma match_task_error: "match_task tx clock load s d = Inl e \<Longrightarrow> e = NoEligibleAssignee (task_draft_title d)"
  by (auto simp: match_task_def Let_def split: list.splits prod.splits)

text \<open>Whenever somebody is eligible, somebody is found.\<close>

lemma match_task_succeeds:
  assumes "length (normalized_set tx (task_draft_required_capabilities d)) < 2 ^ 53"
    and "bt_get (principals s) k = Some p" and "eligible tx d p"
  shows "\<exists>a load'. match_task tx clock load s d = Inr (a, load')"
proof (cases "match_task tx clock load s d")
  case (Inl e)
  with match_task_error have "match_task tx clock load s d = Inl (NoEligibleAssignee (task_draft_title d))"
    by metis
  with match_task_fails [OF assms(1)] assms(2,3) show ?thesis by blast
next
  case (Inr r)
  then show ?thesis by (cases r) simp
qed

text \<open>Whoever is chosen to own a task is fit for it.\<close>

definition owner_fits :: "text_functions \<Rightarrow> org_state \<Rightarrow> task_draft \<Rightarrow> assignment_target \<Rightarrow> bool" where
  "owner_fits tx s d target \<longleftrightarrow>
     (\<exists>k p. bt_get (principals s) k = Some p \<and> eligible tx d p \<and> target = target_for_principal p) \<or>
     (\<exists>k t. bt_get (teams s) k = Some t \<and> eligible_team tx s d t \<and>
        target = \<lparr>target_kind = Team, target_id = team_id t, target_name = team_name t\<rparr>)"

lemma match_task_owner:
  assumes "match_task tx clock load s d = Inr (a, load')"
    and "length (normalized_set tx (task_draft_required_capabilities d)) < 2 ^ 53"
  shows "owner_fits tx s d (assignment_owner a)"
proof (cases "candidates tx clock load s d")
  case (Cons c rest)
  obtain score p rationale where c: "c = (score, p, rationale)" by (cases c)
  with Cons have "\<exists>rationale. (score, p, rationale) \<in> set (candidates tx clock load s d)" by auto
  with candidate_eligible [OF assms(2)] have "(\<exists>k. bt_get (principals s) k = Some p) \<and> eligible tx d p" by blast
  moreover have "assignment_owner a = target_for_principal p"
    using assms(1) Cons c by (auto simp: match_task_def)
  ultimately show ?thesis by (auto simp: owner_fits_def)
next
  case Nil
  then obtain cov t rest where t: "team_candidates tx s d = (cov, t) # rest"
    using assms(1) by (auto simp: match_task_def split: list.splits)
  then have "\<exists>cov. (cov, t) \<in> set (team_candidates tx s d)" by auto
  with team_candidate_eligible [OF assms(2)] have "(\<exists>k. bt_get (teams s) k = Some t) \<and> eligible_team tx s d t"
    by blast
  moreover have "assignment_owner a = \<lparr>target_kind = Team, target_id = team_id t, target_name = team_name t\<rparr>"
    using assms(1) Nil t by (auto simp: match_task_def)
  ultimately show ?thesis by (auto simp: owner_fits_def)
qed

end
