(* ===== verification/App_Flow.thy ===== *)
theory App_Flow
  imports App_Task Matcher
begin

text \<open>
  Decisions on a flow (the flow commands of \<open>src/application/app/mod.rs\<close>): the requester approves it,
  an assignee negotiates an estimate, the requester gives a task to somebody else. The last two
  reschedule the flow.
\<close>

section \<open>Approval\<close>

fun debug_flow_status :: "flow_status \<Rightarrow> string" where
  "debug_flow_status flow_status.Draft = ''Draft''"
| "debug_flow_status flow_status.Approved = ''Approved''"
| "debug_flow_status flow_status.Active = ''Active''"
| "debug_flow_status flow_status.Completed = ''Completed''"
| "debug_flow_status flow_status.Cancelled = ''Cancelled''"

definition is_requester :: "flow \<Rightarrow> principal \<Rightarrow> bool" where
  "is_requester f p \<longleftrightarrow>
     demand_requester (flow_demand f) = principal_name p \<or> demand_requester (flow_demand f) = principal_id p"

definition work_request :: "flow \<Rightarrow> task \<Rightarrow> domain_event result" where
  "work_request f t =
     and_then (ok_or (task_assignment t) (NoEligibleAssignee (task_title t))) (\<lambda>a.
       Inr (TaskEvent (WorkRequestSent (flow_id f) (task_id t) (target_id (assignment_owner a)))))"

definition decide_approve_flow ::
    "call_context \<Rightarrow> string \<Rightarrow> string \<Rightarrow> org_state \<Rightarrow> string decision result" where
  "decide_approve_flow ctx fid approved_by s =
     and_then (get_principal s approved_by) (\<lambda>p.
       if principal_kind p \<noteq> principal_kind.Human
       then Inl (PermissionDenied ''flow approval requires a registered human'')
       else
         and_then (get_flow s fid) (\<lambda>f.
           if \<not> is_requester f p
           then Inl (PermissionDenied (''only demand requester '' @ demand_requester (flow_demand f) @
             '' can approve flow '' @ flow_id f))
           else if flow_status f \<noteq> Draft
           then Inl (InvalidTransition (''flow '' @ flow_id f @ '' is '' @
             debug_flow_status (flow_status f) @ '', expected draft''))
           else
             and_then (try_map (work_request f) (flow_tasks f)) (\<lambda>requests.
               Inr (approved_by,
                 FlowEvent (FlowApproved (flow_id f) approved_by (ctx_clock ctx 0)) # requests, fid))))"

definition approve_flow :: "call_context \<Rightarrow> string \<Rightarrow> string \<Rightarrow> flow command" where
  "approve_flow ctx fid approved_by =
     perform ctx (decide_approve_flow ctx fid approved_by) (\<lambda>fid s. get_flow s fid)"

section \<open>Rescheduling\<close>

definition revision_of :: "reschedule_outcome \<Rightarrow> string \<Rightarrow> string \<Rightarrow> instant \<Rightarrow> flow_schedule_revision" where
  "revision_of r reason author now =
     \<lparr>revision_task_estimates = reschedule_task_estimates r,
      revision_p50_finish = reschedule_p50_finish r,
      revision_p80_finish = reschedule_p80_finish r,
      revision_critical_path = reschedule_critical_path r,
      revision_reason = reason,
      revision_revised_by = author,
      revision_revised_at = now\<rparr>"

text \<open>Indexing the estimates panics where there is none; a reschedule estimates every task.\<close>

definition estimate_at :: "reschedule_outcome \<Rightarrow> string \<Rightarrow> estimate" where
  "estimate_at r tid = the (bt_get (reschedule_task_estimates r) tid)"

definition with_effort :: "f64 \<Rightarrow> task \<Rightarrow> task" where
  "with_effort hours t = t\<lparr>task_estimate := (task_estimate t)\<lparr>estimate_effort_hours := hours\<rparr>\<rparr>"

definition decide_negotiate_task ::
    "call_context \<Rightarrow> string \<Rightarrow> string \<Rightarrow> f64 \<Rightarrow> org_state \<Rightarrow> string decision result" where
  "decide_negotiate_task ctx tid actor hours s =
     (if \<not> f64_is_finite hours \<or> f64_le hours (f64_lit 0 1) \<or> f64_lt (f64_lit 100000 1) hours
      then Inl (relay_error.Validation ''estimate must be greater than zero and at most 100000 hours'')
      else
        and_then (task_snapshot s tid) (\<lambda>(f, t).
        and_then (ensure_status t [Assigned, Accepted, InProgress, task_status.Blocked]) (\<lambda>_.
        and_then (ensure_task_actor s t actor) (\<lambda>_.
        and_then (found ''task'' (task_id t) (flow_task f (task_id t))) (\<lambda>_.
          let now = ctx_clock ctx 0 in
          and_then (reschedule (ctx_texts ctx) (flow_update_task (task_id t) (with_effort hours) f) s now) (\<lambda>r.
            Inr (actor,
              [TaskEvent (TaskEstimateNegotiated (flow_id f) (task_id t) actor (estimate_at r (task_id t))),
               FlowEvent (FlowRescheduled (flow_id f)
                 (revision_of r (actor @ '' negotiated '' @ task_id t @ '' to '' @ show_f64 1 hours @ ''h'')
                    actor now))],
              task_id t)))))))"

definition negotiate_task :: "call_context \<Rightarrow> string \<Rightarrow> string \<Rightarrow> f64 \<Rightarrow> task command" where
  "negotiate_task ctx tid actor hours = perform ctx (decide_negotiate_task ctx tid actor hours) found_task"

section \<open>Reassignment\<close>

definition capabilities_cover :: "text_functions \<Rightarrow> string list \<Rightarrow> string list \<Rightarrow> bool" where
  "capabilities_cover tx required offered \<longleftrightarrow>
     list_all (\<lambda>c. normalize_capability tx c \<in> normalize_capability tx ` set offered) required"

fun target_kind_rank :: "target_kind \<Rightarrow> nat" where
  "target_kind_rank target_kind.Human = 0"
| "target_kind_rank target_kind.Agent = 1"
| "target_kind_rank Team = 2"

definition may_take :: "text_functions \<Rightarrow> task \<Rightarrow> principal \<Rightarrow> bool" where
  "may_take tx t p \<longleftrightarrow>
     principal_active p \<and> (task_requires_human t \<longrightarrow> principal_kind p = principal_kind.Human) \<and>
     capabilities_cover tx (task_required_capabilities t) (principal_capabilities p)"

definition team_may_take :: "text_functions \<Rightarrow> org_state \<Rightarrow> task \<Rightarrow> team \<Rightarrow> bool" where
  "team_may_take tx s t m \<longleftrightarrow>
     team_active m \<and> capabilities_cover tx (task_required_capabilities t) (team_capabilities m) \<and>
     (task_requires_human t \<longrightarrow>
        list_ex (\<lambda>p. principal_active p \<and> principal_kind p = principal_kind.Human
                   \<and> principal_team_id p = Some (team_id m)) (bt_values (principals s)))"

definition team_target :: "team \<Rightarrow> assignment_target" where
  "team_target m = \<lparr>target_kind = Team, target_id = team_id m, target_name = team_name m\<rparr>"

definition candidate_targets :: "text_functions \<Rightarrow> org_state \<Rightarrow> task \<Rightarrow> assignment_target list" where
  "candidate_targets tx s t =
     sort_key (\<lambda>c. (target_kind_rank (target_kind c), target_name c))
       (filter (\<lambda>c. map_option (target_id \<circ> assignment_owner) (task_assignment t) \<noteq> Some (target_id c))
         (map target_for_principal (filter (may_take tx t) (bt_values (principals s))) @
          map team_target (filter (team_may_take tx s t) (bt_values (teams s)))))"

definition reassignment_candidates ::
    "text_functions \<Rightarrow> org_state \<Rightarrow> string \<Rightarrow> string \<Rightarrow> assignment_target list result" where
  "reassignment_candidates tx s tid actor =
     and_then (get_principal s actor) (\<lambda>p.
       if principal_kind p \<noteq> principal_kind.Human
       then Inl (PermissionDenied ''task reassignment requires a human requester'')
       else
         and_then (find_task s tid) (\<lambda>(f, t).
           if flow_status f \<notin> {flow_status.Approved, flow_status.Active}
           then Inl (InvalidTransition (''flow '' @ flow_id f @ '' is '' @
             debug_flow_status (flow_status f) @ ''; only an approved or active flow can be reassigned''))
           else if \<not> is_requester f p
           then Inl (PermissionDenied (''only demand requester '' @ demand_requester (flow_demand f) @
             '' can reassign task '' @ task_id t))
           else
             and_then (ensure_status t
                 [Assigned, Accepted, InProgress, task_status.Blocked, task_status.Rejected]) (\<lambda>_.
               Inr (candidate_targets tx s t))))"

definition resolve_active_target :: "org_state \<Rightarrow> string \<Rightarrow> assignment_target result" where
  "resolve_active_target s v =
     (case get_principal s v of
        Inr p \<Rightarrow>
          if \<not> principal_active p
          then Inl (relay_error.Validation (''principal '' @ principal_name p @ '' is inactive''))
          else Inr (target_for_principal p)
      | Inl _ \<Rightarrow>
          and_then (get_team s v) (\<lambda>m.
            if \<not> team_active m
            then Inl (relay_error.Validation (''team '' @ team_name m @ '' is inactive''))
            else Inr (team_target m)))"

definition default_copilots_for :: "org_state \<Rightarrow> assignment_target \<Rightarrow> assignment_target list" where
  "default_copilots_for s owner =
     take 2 (sort_key target_name
       (case target_kind owner of
          target_kind.Human \<Rightarrow>
            map target_for_principal
              (filter (\<lambda>p. principal_active p \<and> principal_kind p = principal_kind.Agent
                         \<and> principal_owner_id p = Some (target_id owner)) (bt_values (principals s)))
        | target_kind.Agent \<Rightarrow>
            (case Option.bind (bt_get (principals s) (target_id owner))
                    (\<lambda>agent. Option.bind (principal_owner_id agent) (bt_get (principals s))) of
               Some p \<Rightarrow> if principal_active p then [target_for_principal p] else []
             | None \<Rightarrow> [])
        | Team \<Rightarrow> []))"

definition chosen_copilots ::
    "org_state \<Rightarrow> assignment_target \<Rightarrow> string list \<Rightarrow> assignment_target list result" where
  "chosen_copilots s owner names =
     try_fold (\<lambda>chosen v.
         and_then (resolve_active_target s v) (\<lambda>target.
           if target_id target = target_id owner
           then Inl (relay_error.Validation ''task owner cannot also be a copilot'')
           else Inr (if target_id target \<in> target_id ` set chosen then chosen else chosen @ [target])))
       [] names"

definition has_open_lease :: "org_state \<Rightarrow> string \<Rightarrow> instant \<Rightarrow> bool" where
  "has_open_lease s tid now \<longleftrightarrow>
     list_ex (\<lambda>l. lease_task_id l = tid \<and> (lease_status l = flight_lease_status.Active \<or> is_claimable_at l now))
       (bt_values (flight_leases s))"

definition reassigned :: "assignment \<Rightarrow> task \<Rightarrow> task" where
  "reassigned a t =
     t\<lparr>task_assignment := Some a, task_status := Assigned, task_blocker := None, task_last_heartbeat := None\<rparr>"

definition manual_assignment ::
    "org_state \<Rightarrow> assignment_target \<Rightarrow> assignment_target list \<Rightarrow> string \<Rightarrow> string \<Rightarrow> assignment" where
  "manual_assignment s owner chosen actor reason =
     \<lparr>assignment_owner = owner,
      assignment_copilots = (if chosen = [] then default_copilots_for s owner else chosen),
      assignment_score = f64_lit 100 1,
      assignment_rationale = [''manual reassignment by '' @ actor, ''reason: '' @ reason]\<rparr>"

definition reassignment_events ::
    "flow \<Rightarrow> task \<Rightarrow> assignment \<Rightarrow> string \<Rightarrow> string \<Rightarrow> instant \<Rightarrow> reschedule_outcome \<Rightarrow> domain_event list" where
  "reassignment_events f t a actor reason now r =
     (let owner = assignment_owner a in
      [TaskEvent (TaskReassigned (flow_id f) (task_id t) (task_assignment t) a actor reason now),
       TaskEvent (WorkRequestSent (flow_id f) (task_id t) (target_id owner)),
       FlowEvent (FlowRescheduled (flow_id f)
         (revision_of r (task_id t @ '' reassigned to '' @ target_name owner @ '': '' @ reason) actor now))])"

definition decide_reassign_task ::
    "call_context \<Rightarrow> string \<Rightarrow> string \<Rightarrow> string \<Rightarrow> string list \<Rightarrow> string \<Rightarrow> org_state \<Rightarrow> string decision result" where
  "decide_reassign_task ctx tid actor new_owner copilots given s =
     (let reason = str_trim given in
      if reason = [] \<or> 1000 < chars_count reason
      then Inl (relay_error.Validation ''reassignment reason must contain 1 to 1000 characters'')
      else
        and_then (reassignment_candidates (ctx_texts ctx) s tid actor) (\<lambda>cs.
        and_then
          (ok_or (List.find (\<lambda>c. target_id c = new_owner \<or> eq_ignore_ascii_case (target_name c) new_owner) cs)
             (relay_error.Validation
               (new_owner @ '' is not an eligible reassignment target for task '' @ tid))) (\<lambda>owner.
        and_then (task_snapshot s tid) (\<lambda>(f, t).
          let now = ctx_clock ctx 0 in
          if has_open_lease s (task_id t) now
          then Inl (InvalidTransition (''task '' @ task_id t @
            '' has an open flight lease; revoke or finish it before reassignment''))
          else
            and_then (chosen_copilots s owner copilots) (\<lambda>chosen.
              let a = manual_assignment s owner chosen actor reason in
              and_then (found ''task'' (task_id t) (flow_task f (task_id t))) (\<lambda>_.
              and_then (reschedule (ctx_texts ctx) (flow_update_task (task_id t) (reassigned a) f) s now) (\<lambda>r.
                Inr (actor, reassignment_events f t a actor reason now r, flow_id f))))))))"

definition reassign_task ::
    "call_context \<Rightarrow> string \<Rightarrow> string \<Rightarrow> string \<Rightarrow> string list \<Rightarrow> string \<Rightarrow> flow command" where
  "reassign_task ctx tid actor new_owner copilots reason =
     perform ctx (decide_reassign_task ctx tid actor new_owner copilots reason) (\<lambda>fid s. get_flow s fid)"

section \<open>What approval does\<close>

lemma decide_approve_flow_Inr:
  assumes "decide_approve_flow ctx fid approver s = Inr (author, es, x)" and "bt_get (flows s) fid = Some f"
  obtains p requests where "lookup_principal s approver = Some p" "principal_kind p = principal_kind.Human"
    "is_requester f p" "flow_status f = Draft"
    "try_map (work_request f) (flow_tasks f) = Inr requests" "x = fid"
    "es = FlowEvent (FlowApproved (flow_id f) approver (ctx_clock ctx 0)) # requests"
  using assms
  by (auto simp: decide_approve_flow_def get_principal_Inr get_flow_def split: if_splits)

text \<open>Sending the work requests of some tasks assigns these and no others.\<close>

definition assigned :: "task \<Rightarrow> task" where
  "assigned t = t\<lparr>task_status := Assigned\<rparr>"

lemma assigned_simps [simp]:
  "task_id (assigned t) = task_id t" "task_key (assigned t) = task_key t"
  "task_status (assigned t) = Assigned" "task_assignment (assigned t) = task_assignment t"
  "assigned (assigned t) = assigned t"
  by (simp_all add: assigned_def)

lemma names_own_map:
  assumes "names_own f" and "flow_tasks f' = map h (flow_tasks f)"
    and "\<And>t. task_id (h t) = task_id t" and "\<And>t. task_key (h t) = task_key t"
  shows "names_own f'"
proof -
  have ids: "map task_id (flow_tasks f') = map task_id (flow_tasks f)"
    unfolding assms(2) by (simp add: assms(3))
  have "u = t" if "t \<in> set (flow_tasks f')" "u \<in> set (flow_tasks f')" "task_key u = task_id t" for t u
  proof -
    from that(1,2) obtain t0 u0 where "t = h t0" "u = h u0" "t0 \<in> set (flow_tasks f)" "u0 \<in> set (flow_tasks f)"
      by (auto simp: assms(2))
    moreover from this that(3) assms(1) have "u0 = t0" by (auto simp: names_own_def assms(3,4))
    ultimately show ?thesis by simp
  qed
  with assms(1) ids show ?thesis by (simp add: names_own_def)
qed

lemma work_requests_assign:
  assumes "try_map (work_request f0) ts = Inr requests" and "flow_id f0 = flow_id f"
    and "bt_get (flows s) (flow_id f) = Some f" and "names_own f"
    and "task_id ` set ts \<subseteq> task_id ` set (flow_tasks f)" and "apply_events s requests = Inr v"
  shows "\<exists>f'. flows v = bt_insert (flow_id f) f' (flows s) \<and> flow_status f' = flow_status f \<and>
    flow_id f' = flow_id f \<and>
    flow_tasks f' = map (\<lambda>u. if task_id u \<in> task_id ` set ts then assigned u else u) (flow_tasks f)"
  using assms
proof (induction ts arbitrary: s f requests)
  case Nil
  then have "flows v = bt_insert (flow_id f) f (flows s)" by (simp add: bt_insert_same)
  then show ?case by (intro exI [of _ f]) simp
next
  case (Cons t ts)
  from Cons.prems(1) obtain e rest where e: "work_request f0 t = Inr e"
    and rest: "try_map (work_request f0) ts = Inr rest" and requests: "requests = e # rest" by auto
  from e Cons.prems(2) obtain target where e': "e = TaskEvent (WorkRequestSent (flow_id f) (task_id t) target)"
    by (auto simp: work_request_def)
  from Cons.prems(5) obtain u where u: "u \<in> set (flow_tasks f)" "task_id t = task_id u" by auto
  let ?f1 = "flow_update_task (task_id t) (\<lambda>t. t\<lparr>task_status := Assigned\<rparr>) f"
  let ?s1 = "put_flow ?f1 (flow_id f) s"
  have "apply_event e s = Inr ?s1"
    using Cons.prems(3) names_own_finds [OF Cons.prems(4) u(1)]
    by (simp add: e' u(2) apply_work_request_sent_def update_task_Inr)
  with Cons.prems(6) have v: "apply_events ?s1 rest = Inr v" by (simp add: requests)
  have tasks: "flow_tasks ?f1 = map (\<lambda>u. if task_id u = task_id t then assigned u else u) (flow_tasks f)"
    using names_own_update [OF Cons.prems(4) u(1)] by (simp add: u(2) assigned_def)
  have ids: "task_id ` set (flow_tasks ?f1) = task_id ` set (flow_tasks f)"
  proof -
    have "map task_id (flow_tasks ?f1) = map task_id (flow_tasks f)" unfolding tasks by simp
    then show ?thesis by (metis list.set_map)
  qed
  have own: "names_own ?f1" by (rule names_own_map [OF Cons.prems(4) tasks]) simp_all
  have "bt_get (flows ?s1) (flow_id ?f1) = Some ?f1" by (simp add: put_flow_def)
  moreover have "flow_id f0 = flow_id ?f1" using Cons.prems(2) by simp
  ultimately obtain f' where f': "flows v = bt_insert (flow_id ?f1) f' (flows ?s1)"
      "flow_status f' = flow_status ?f1" "flow_id f' = flow_id ?f1"
      "flow_tasks f' = map (\<lambda>u. if task_id u \<in> task_id ` set ts then assigned u else u) (flow_tasks ?f1)"
    using Cons.IH [OF rest, of ?f1 ?s1] own v Cons.prems(5) unfolding ids by auto
  moreover have "flow_tasks f' = map (\<lambda>u. if task_id u \<in> task_id ` set (t # ts) then assigned u else u) (flow_tasks f)"
    unfolding f'(4) tasks by simp
  ultimately show ?case by (intro exI [of _ f']) (simp add: put_flow_def insert_twice)
qed

lemma approve_flow_effect:
  assumes "approve_flow ctx fid approver (db, s) = (Inr f', db', s')"
    and "flows_filed s" and "bt_get (flows s) fid = Some f" and "names_own f"
  shows "flow_status f = Draft" and "flow_status f' = flow_status.Approved"
    and "flow_tasks f' = map assigned (flow_tasks f)" and "bt_get (flows s') fid = Some f'"
    and "\<And>t. t \<in> set (flow_tasks f) \<Longrightarrow> task_assignment t \<noteq> None"
    and "\<exists>p. lookup_principal s approver = Some p \<and> principal_kind p = principal_kind.Human \<and> is_requester f p"
proof -
  from assms(1) obtain author es x v where d: "decide_approve_flow ctx fid approver s = Inr (author, es, x)"
    and answer: "get_flow s' x = Inr f'" and v: "apply_events s es = Inr v"
    and s': "s' = v\<lparr>notification_deliveries := notification_deliveries s', last_sequence := last_sequence s'\<rparr>"
    unfolding approve_flow_def by (rule performed)
  have flows: "flows s' = flows v" by (subst s') simp
  from d assms(3) obtain p requests where p: "lookup_principal s approver = Some p"
      "principal_kind p = principal_kind.Human" "is_requester f p" and draft: "flow_status f = Draft"
    and requests: "try_map (work_request f) (flow_tasks f) = Inr requests" and x: "x = fid"
    and es: "es = FlowEvent (FlowApproved (flow_id f) approver (ctx_clock ctx 0)) # requests"
    by (rule decide_approve_flow_Inr)
  show "flow_status f = Draft" by (rule draft)
  show "\<exists>p. lookup_principal s approver = Some p \<and> principal_kind p = principal_kind.Human \<and> is_requester f p"
    using p by blast
  have fid: "flow_id f = fid" using assms(2,3) by (auto simp: flows_filed_def)
  let ?f1 = "f\<lparr>flow_status := flow_status.Approved, flow_approved_at := Some (ctx_clock ctx 0)\<rparr>"
  let ?s1 = "put_flow ?f1 fid s"
  from v es assms(3) fid have run: "apply_events ?s1 requests = Inr v"
    by (simp add: apply_flow_approved_def get_flow_def)
  have own: "names_own ?f1" using assms(4) by (simp add: names_own_def)
  from work_requests_assign [OF requests _ _ own _ run] fid obtain f2 where
      f2: "flows v = bt_insert fid f2 (flows ?s1)" "flow_status f2 = flow_status.Approved"
        "flow_tasks f2 = map (\<lambda>u. if task_id u \<in> task_id ` set (flow_tasks f) then assigned u else u) (flow_tasks f)"
    by (auto simp: put_flow_def)
  with flows answer x have "f' = f2" by (simp add: get_flow_def)
  with f2 flows show "flow_status f' = flow_status.Approved" "bt_get (flows s') fid = Some f'"
    "flow_tasks f' = map assigned (flow_tasks f)" by simp_all
  from requests have "list_all2 (\<lambda>t e. work_request f t = Inr e) (flow_tasks f) requests"
    by (simp add: try_map_Inr)
  then show "task_assignment t \<noteq> None" if "t \<in> set (flow_tasks f)" for t
    using that by (auto simp: in_set_conv_nth list_all2_conv_all_nth work_request_def)
qed

section \<open>What rescheduling does\<close>

text \<open>
  In a well timed flow every task still to do starts when the tasks it needs are expected to be done.
  A revision leaves identifiers, keys, dependencies, statuses and assignments alone.
\<close>

definition well_timed :: "flow \<Rightarrow> bool" where
  "well_timed f \<longleftrightarrow> (\<forall>t \<in> set (flow_tasks f). \<not> task_status_is_terminal (task_status t) \<longrightarrow>
     (\<forall>dep \<in> set (task_depends_on t). \<exists>u \<in> set (flow_tasks f). task_id u = dep \<and>
        estimate_p80_finish (task_estimate u) \<le> estimate_earliest_start (task_estimate t)))"

definition same_but_estimate :: "task \<Rightarrow> task \<Rightarrow> bool" where
  "same_but_estimate t u \<longleftrightarrow> u = t\<lparr>task_estimate := task_estimate u\<rparr>"

lemma same_but_estimate_fields:
  assumes "same_but_estimate t u"
  shows "task_id u = task_id t" "task_key u = task_key t" "task_status u = task_status t"
    "task_depends_on u = task_depends_on t" "task_assignment u = task_assignment t"
  by (subst assms [unfolded same_but_estimate_def], simp)+

lemma list_all2_left: "list_all2 P xs ys \<Longrightarrow> x \<in> set xs \<Longrightarrow> \<exists>y \<in> set ys. P x y"
  by (induction rule: list_all2_induct) auto

lemma list_all2_right: "list_all2 P xs ys \<Longrightarrow> y \<in> set ys \<Longrightarrow> \<exists>x \<in> set xs. P x y"
  by (induction rule: list_all2_induct) auto

text \<open>What a reschedule computed, the projection takes: it has one estimate for every task.\<close>

lemma reschedule_accepted:
  assumes "reschedule tx f0 s0 now = Inr r" and "distinct (map task_id (flow_tasks f0))"
    and "map task_id (flow_tasks f1) = map task_id (flow_tasks f0)" and "bt_get (flows s) fid = Some f1"
  shows "\<exists>v. apply_schedule_revision fid (revision_of r reason author at) s = Inr v"
proof -
  let ?est = "reschedule_task_estimates r"
  from assms(1) obtain ep where
      ep: "ordered_estimates task_id task_key task_depends_on (task_reestimate tx s0 now) (flow_tasks f0) = Inr ep"
    and est: "?est = fst ep"
    by (auto simp: reschedule_def Let_def split: if_splits)
  have keys: "{k. bt_get ?est k \<noteq> None} = task_id ` set (flow_tasks f0)"
    using ordered_estimates_spec(4) [OF assms(2) ep] by (auto simp: est)
  then have len: "bt_len ?est = length (flow_tasks f1)"
    using arg_cong [OF assms(3), of length] distinct_card [OF assms(2)] by (simp add: bt_len_card)
  have "\<exists>ts. assign_estimates ?est us = Inr ts \<and> length ts = length us"
    if "task_id ` set us \<subseteq> {k. bt_get ?est k \<noteq> None}" for us
    using that by (induction us) (auto simp: ok_or_def)
  from this [of "flow_tasks f1"] obtain ts where "assign_estimates ?est (flow_tasks f1) = Inr ts"
    "length ts = length (flow_tasks f1)"
    using arg_cong [OF assms(3), of set] keys by auto
  with len assms(4) show ?thesis
    by (simp add: apply_schedule_revision_def revision_of_def get_flow_def)
qed

lemma revised_well_timed:
  assumes "reschedule tx f0 s0 now = Inr r" and "distinct (map task_id (flow_tasks f0))"
    and "list_all2 same_but_estimate (flow_tasks f0) (flow_tasks f1)"
    and "bt_get (flows s) fid = Some f1" and "apply_schedule_revision fid (revision_of r reason author at) s = Inr v"
  shows "\<exists>f2. flows v = bt_insert fid f2 (flows s) \<and> flow_id f2 = flow_id f1 \<and> well_timed f2 \<and>
    list_all2 same_but_estimate (flow_tasks f0) (flow_tasks f2) \<and>
    (\<forall>u \<in> set (flow_tasks f2). bt_get (reschedule_task_estimates r) (task_id u) = Some (task_estimate u))"
proof -
  let ?est = "reschedule_task_estimates r"
  from assms(4,5) obtain ts where ts: "assign_estimates ?est (flow_tasks f1) = Inr ts"
    and len: "bt_len ?est = length ts"
    and v: "v = put_flow (f1\<lparr>flow_tasks := ts, flow_p50_finish := reschedule_p50_finish r,
        flow_p80_finish := reschedule_p80_finish r, flow_critical_path := reschedule_critical_path r\<rparr>) fid s"
    by (auto simp: apply_schedule_revision_def revision_of_def get_flow_def split: if_splits)
  from ts have each: "list_all2 (\<lambda>t t'. \<exists>e. bt_get ?est (task_id t) = Some e \<and> t' = t\<lparr>task_estimate := e\<rparr>)
      (flow_tasks f1) ts" by (simp add: assign_estimates_Inr)
  have trans: "same_but_estimate t t''" if "same_but_estimate t t'" "t'' = t'\<lparr>task_estimate := e\<rparr>" for t t' t'' e
    using arg_cong [OF that(1) [unfolded same_but_estimate_def], of "\<lambda>x. x\<lparr>task_estimate := e\<rparr>"] that(2)
    by (simp add: same_but_estimate_def)
  have skeleton: "list_all2 same_but_estimate (flow_tasks f0) ts"
    by (rule list_all2_trans [OF _ assms(3) each]) (use trans in blast)
  have ids: "map task_id ts = map task_id (flow_tasks f0)"
    using skeleton by (induction rule: list_all2_induct) (simp_all add: same_but_estimate_fields)
  have found: "bt_get ?est (task_id u) = Some (task_estimate u)" if "u \<in> set ts" for u
    using assign_estimates_estimate [OF ts that] .
  have "map task_id ts = map task_id (flow_tasks f1)" using assign_estimates_names(1) [OF ts] .
  with ids assms(2) have "distinct (map task_id (flow_tasks f1))" by simp
  from revision_covers [OF ts len this] \<open>map task_id ts = map task_id (flow_tasks f1)\<close>
  have keys: "fst ` set (bt_entries ?est) = set (map task_id ts)" by simp
  have timed: "\<exists>u \<in> set ts. task_id u = dep \<and>
      estimate_p80_finish (task_estimate u) \<le> estimate_earliest_start (task_estimate t)"
    if t: "t \<in> set ts" "\<not> task_status_is_terminal (task_status t)" and dep: "dep \<in> set (task_depends_on t)"
    for t dep
  proof -
    from list_all2_right [OF skeleton t(1)] obtain t0 where
      t0: "t0 \<in> set (flow_tasks f0)" "same_but_estimate t0 t" by blast
    note same = same_but_estimate_fields [OF t0(2)]
    from reschedule_precedence [OF assms(1,2) t0(1)] t(2) dep same obtain w where
        w: "bt_get ?est dep = Some w" "estimate_p80_finish w \<le> estimate_earliest_start (task_estimate t)"
      using found [OF t(1)] by (auto simp: same)
    then have "dep \<in> set (map task_id ts)" unfolding keys [symmetric]
      by (metis bt_entries_iff fst_conv image_eqI)
    then obtain u where "u \<in> set ts" "task_id u = dep" by auto
    with found [OF this(1)] w show ?thesis by auto
  qed
  then show ?thesis
    using skeleton found unfolding v by (intro exI [of _ "f1\<lparr>flow_tasks := ts,
        flow_p50_finish := reschedule_p50_finish r, flow_p80_finish := reschedule_p80_finish r,
        flow_critical_path := reschedule_critical_path r\<rparr>"]) (auto simp: put_flow_def well_timed_def)
qed

text \<open>
  Negotiating replaces one estimate and reschedules; reassigning hands one task over and reschedules. In
  both cases the flow is well timed afterwards.
\<close>

lemma decide_negotiate_Inr:
  assumes "decide_negotiate_task ctx tid actor hours s = Inr (author, es, x)"
    and "task_snapshot s tid = Inr (f, t)"
  obtains r where "task_status t \<in> {Assigned, Accepted, InProgress, task_status.Blocked}"
    "f64_is_finite hours" "\<exists>p. lookup_principal s actor = Some p \<and> principal_is_task_actor s t p"
    "reschedule (ctx_texts ctx) (flow_update_task (task_id t) (with_effort hours) f) s (ctx_clock ctx 0) = Inr r"
    "es = [TaskEvent (TaskEstimateNegotiated (flow_id f) (task_id t) actor (estimate_at r (task_id t))),
      FlowEvent (FlowRescheduled (flow_id f)
        (revision_of r (actor @ '' negotiated '' @ task_id t @ '' to '' @ show_f64 1 hours @ ''h'')
           actor (ctx_clock ctx 0)))]"
  using assms by (auto simp: decide_negotiate_task_def Let_def split: if_splits)

lemma updated_skeleton:
  assumes "names_own f" and "t \<in> set (flow_tasks f)"
    and "\<And>v. same_but_estimate (g v) (h v)"
  shows "list_all2 same_but_estimate (flow_tasks (flow_update_task (task_id t) g f))
    (flow_tasks (flow_update_task (task_id t) h f))"
proof -
  have refl: "same_but_estimate v v" for v by (simp add: same_but_estimate_def)
  show ?thesis
    using assms by (auto simp: names_own_update list.rel_map refl intro!: list.rel_refl_strong)
qed

lemma updated_names_own:
  assumes "names_own f" and "t \<in> set (flow_tasks f)"
    and "\<And>v. task_id (g v) = task_id v" and "\<And>v. task_key (g v) = task_key v"
  shows "names_own (flow_update_task (task_id t) g f)"
  by (rule names_own_map [OF assms(1), where h = "\<lambda>u. if task_id u = task_id t then g u else u"])
    (simp_all add: names_own_update [OF assms(1,2)] assms(3,4))

lemma negotiate_task_effect:
  assumes "negotiate_task ctx tid actor hours (db, s) = (Inr t', db', s')"
    and "task_snapshot s tid = Inr (f, t)" and "flows_filed s" and "names_own f"
  shows "\<exists>f' u. bt_get (flows s') (flow_id f) = Some f' \<and> well_timed f' \<and> u \<in> set (flow_tasks f') \<and>
    task_id u = task_id t \<and> task_status u = task_status t \<and> task_assignment u = task_assignment t"
    and "\<exists>p. lookup_principal s actor = Some p \<and> principal_is_task_actor s t p"
proof -
  from assms(1) obtain author es x v where d: "decide_negotiate_task ctx tid actor hours s = Inr (author, es, x)"
    and v: "apply_events s es = Inr v"
    and s': "s' = v\<lparr>notification_deliveries := notification_deliveries s', last_sequence := last_sequence s'\<rparr>"
    unfolding negotiate_task_def by (rule performed)
  have flows: "flows s' = flows v" by (subst s') simp
  note t = task_found [OF assms(2,3)]
  let ?f0 = "flow_update_task (task_id t) (with_effort hours) f"
  from d assms(2) obtain r where actor: "\<exists>p. lookup_principal s actor = Some p \<and> principal_is_task_actor s t p"
    and r: "reschedule (ctx_texts ctx) ?f0 s (ctx_clock ctx 0) = Inr r"
    and es: "es = [TaskEvent (TaskEstimateNegotiated (flow_id f) (task_id t) actor (estimate_at r (task_id t))),
      FlowEvent (FlowRescheduled (flow_id f)
        (revision_of r (actor @ '' negotiated '' @ task_id t @ '' to '' @ show_f64 1 hours @ ''h'')
           actor (ctx_clock ctx 0)))]"
    by (rule decide_negotiate_Inr)
  show "\<exists>p. lookup_principal s actor = Some p \<and> principal_is_task_actor s t p" by (rule actor)
  let ?h = "\<lambda>u. u\<lparr>task_estimate := estimate_at r (task_id t)\<rparr>"
  let ?f1 = "refresh_finish (flow_update_task (task_id t) ?h f)"
  let ?s1 = "put_flow ?f1 (flow_id f) s"
  have own: "flow_task f (task_id t) = Some t" using names_own_finds [OF assms(4) t(2)] .
  have "apply_task_estimate_negotiated (flow_id f) (task_id t) (estimate_at r (task_id t)) s = Inr ?s1"
    using t(1) own by (simp add: apply_task_estimate_negotiated_def update_task_Inr refresh_flow_finish_def
      get_flow_def put_flow_def insert_twice)
  with v es have run: "apply_schedule_revision (flow_id f)
      (revision_of r (actor @ '' negotiated '' @ task_id t @ '' to '' @ show_f64 1 hours @ ''h'')
         actor (ctx_clock ctx 0)) ?s1 = Inr v" by simp
  have own0: "names_own ?f0" by (rule updated_names_own [OF assms(4) t(2)]) (simp_all add: with_effort_def)
  have skeleton: "list_all2 same_but_estimate (flow_tasks ?f0) (flow_tasks ?f1)"
    using updated_skeleton [OF assms(4) t(2), of "with_effort hours" ?h]
    by (simp add: same_but_estimate_def with_effort_def)
  from revised_well_timed [OF r _ skeleton _ run] own0 obtain f2 where f2: "flows v = bt_insert (flow_id f) f2 (flows ?s1)"
      "well_timed f2" "list_all2 same_but_estimate (flow_tasks ?f0) (flow_tasks f2)"
    by (auto simp: names_own_def put_flow_def)
  have "with_effort hours t \<in> set (flow_tasks ?f0)"
    using t(2) by (auto simp: names_own_update [OF assms(4) t(2)])
  from list_all2_left [OF f2(3) this] obtain u where
    u: "u \<in> set (flow_tasks f2)" "same_but_estimate (with_effort hours t) u" by blast
  from same_but_estimate_fields [OF u(2)] u(1) f2(1,2) flows
  show "\<exists>f' u. bt_get (flows s') (flow_id f) = Some f' \<and> well_timed f' \<and> u \<in> set (flow_tasks f') \<and>
    task_id u = task_id t \<and> task_status u = task_status t \<and> task_assignment u = task_assignment t"
    by (intro exI [of _ f2] exI [of _ u]) (simp add: with_effort_def)
qed

lemma candidate_targets_fit:
  assumes "c \<in> set (candidate_targets tx s t)"
  shows "(\<exists>k p. bt_get (principals s) k = Some p \<and> may_take tx t p \<and> c = target_for_principal p) \<or>
    (\<exists>k m. bt_get (teams s) k = Some m \<and> team_may_take tx s t m \<and> c = team_target m)"
    and "map_option (target_id \<circ> assignment_owner) (task_assignment t) \<noteq> Some (target_id c)"
  using assms by (auto simp: candidate_targets_def)

lemma decide_reassign_Inr:
  assumes "decide_reassign_task ctx tid actor new_owner copilots given s = Inr (author, es, x)"
    and "task_snapshot s tid = Inr (f, t)"
  obtains p a r where "lookup_principal s actor = Some p" "is_requester f p"
    "assignment_owner a \<in> set (candidate_targets (ctx_texts ctx) s t)"
    "\<not> has_open_lease s (task_id t) (ctx_clock ctx 0)"
    "reschedule (ctx_texts ctx) (flow_update_task (task_id t) (reassigned a) f) s (ctx_clock ctx 0) = Inr r"
    "es = reassignment_events f t a actor (str_trim given) (ctx_clock ctx 0) r" "x = flow_id f"
proof -
  from assms obtain p where p: "lookup_principal s actor = Some p" "is_requester f p"
    and cs: "reassignment_candidates (ctx_texts ctx) s tid actor = Inr (candidate_targets (ctx_texts ctx) s t)"
    by (auto simp: decide_reassign_task_def reassignment_candidates_def task_snapshot_def get_principal_Inr Let_def
        split: if_splits)
  with assms obtain owner chosen r where owner:
      "List.find (\<lambda>c. target_id c = new_owner \<or> eq_ignore_ascii_case (target_name c) new_owner)
         (candidate_targets (ctx_texts ctx) s t) = Some owner"
    and rest: "\<not> has_open_lease s (task_id t) (ctx_clock ctx 0)"
      "reschedule (ctx_texts ctx) (flow_update_task (task_id t)
         (reassigned (manual_assignment s owner chosen actor (str_trim given))) f) s (ctx_clock ctx 0) = Inr r"
      "es = reassignment_events f t (manual_assignment s owner chosen actor (str_trim given)) actor
         (str_trim given) (ctx_clock ctx 0) r" "x = flow_id f"
    by (auto simp: decide_reassign_task_def Let_def split: if_splits)
  from owner have "assignment_owner (manual_assignment s owner chosen actor (str_trim given))
      \<in> set (candidate_targets (ctx_texts ctx) s t)"
    by (auto simp: find_Some_iff manual_assignment_def)
  with p rest show ?thesis by (intro that)
qed

lemma reassign_task_effect:
  assumes "reassign_task ctx tid actor new_owner copilots given (db, s) = (Inr f', db', s')"
    and "task_snapshot s tid = Inr (f, t)" and "flows_filed s" and "names_own f"
  shows "bt_get (flows s') (flow_id f) = Some f'" and "well_timed f'"
    and "\<exists>u a. u \<in> set (flow_tasks f') \<and> task_id u = task_id t \<and> task_status u = Assigned \<and>
      task_assignment u = Some a \<and> assignment_owner a \<in> set (candidate_targets (ctx_texts ctx) s t)"
    and "\<not> has_open_lease s (task_id t) (ctx_clock ctx 0)"
    and "\<exists>p. lookup_principal s actor = Some p \<and> is_requester f p"
proof -
  from assms(1) obtain author es x v where
      d: "decide_reassign_task ctx tid actor new_owner copilots given s = Inr (author, es, x)"
    and answer: "get_flow s' x = Inr f'" and v: "apply_events s es = Inr v"
    and s': "s' = v\<lparr>notification_deliveries := notification_deliveries s', last_sequence := last_sequence s'\<rparr>"
    unfolding reassign_task_def by (rule performed)
  have flows: "flows s' = flows v" by (subst s') simp
  note t = task_found [OF assms(2,3)]
  from d assms(2) obtain p a r where p: "lookup_principal s actor = Some p" "is_requester f p"
    and a: "assignment_owner a \<in> set (candidate_targets (ctx_texts ctx) s t)"
    and lease: "\<not> has_open_lease s (task_id t) (ctx_clock ctx 0)"
    and r: "reschedule (ctx_texts ctx) (flow_update_task (task_id t) (reassigned a) f) s (ctx_clock ctx 0) = Inr r"
    and es: "es = reassignment_events f t a actor (str_trim given) (ctx_clock ctx 0) r" and x: "x = flow_id f"
    by (rule decide_reassign_Inr)
  show "\<not> has_open_lease s (task_id t) (ctx_clock ctx 0)" by (rule lease)
  show "\<exists>p. lookup_principal s actor = Some p \<and> is_requester f p" using p by blast
  let ?f0 = "flow_update_task (task_id t) (reassigned a) f"
  have own: "flow_task f (task_id t) = Some t" using names_own_finds [OF assms(4) t(2)] .
  have own0: "names_own ?f0" by (rule updated_names_own [OF assms(4) t(2)]) (simp_all add: reassigned_def)
  have t0: "reassigned a t \<in> set (flow_tasks ?f0)"
    using t(2) by (auto simp: names_own_update [OF assms(4) t(2)])
  have own_t0: "flow_task ?f0 (task_id t) = Some (reassigned a t)"
    using flow_task_update [of "reassigned a" "task_id t" f] own by (simp add: reassigned_def)
  let ?f1 = "flow_update_task (task_id t) (\<lambda>t. t\<lparr>task_status := Assigned\<rparr>) ?f0"
  let ?s1 = "put_flow ?f1 (flow_id f) s"
  have "\<exists>reason. es = [TaskEvent (TaskReassigned (flow_id f) (task_id t) (task_assignment t) a actor
        (str_trim given) (ctx_clock ctx 0)),
      TaskEvent (WorkRequestSent (flow_id f) (task_id t) (target_id (assignment_owner a))),
      FlowEvent (FlowRescheduled (flow_id f) (revision_of r reason actor (ctx_clock ctx 0)))]"
    unfolding es reassignment_events_def Let_def by (rule exI) (rule refl)
  then obtain reason where es': "es = [TaskEvent (TaskReassigned (flow_id f) (task_id t) (task_assignment t) a actor
        (str_trim given) (ctx_clock ctx 0)),
      TaskEvent (WorkRequestSent (flow_id f) (task_id t) (target_id (assignment_owner a))),
      FlowEvent (FlowRescheduled (flow_id f) (revision_of r reason actor (ctx_clock ctx 0)))]" ..
  from v t(1) have run: "apply_schedule_revision (flow_id f) (revision_of r reason actor (ctx_clock ctx 0)) ?s1 = Inr v"
    using own_t0
    by (auto simp: es' apply_task_reassigned_def apply_work_request_sent_def update_task_Inr put_flow_def insert_twice
        reassigned_def [abs_def] split: if_splits)
  have "flow_tasks ?f1 = flow_tasks ?f0"
    using names_own_update [OF own0 t0, of "\<lambda>t. t\<lparr>task_status := Assigned\<rparr>"]
    by (simp add: names_own_update [OF assms(4) t(2)] reassigned_def)
  then have skeleton: "list_all2 same_but_estimate (flow_tasks ?f0) (flow_tasks ?f1)"
    by (simp add: same_but_estimate_def list.rel_refl)
  from revised_well_timed [OF r _ skeleton _ run] own0 obtain f2 where f2: "flows v = bt_insert (flow_id f) f2 (flows ?s1)"
      "well_timed f2" "list_all2 same_but_estimate (flow_tasks ?f0) (flow_tasks f2)"
    by (auto simp: names_own_def put_flow_def)
  with answer flows x have f': "f' = f2" by (simp add: get_flow_def)
  with f2 flows show "bt_get (flows s') (flow_id f) = Some f'" "well_timed f'" by simp_all
  from list_all2_left [OF f2(3) t0] obtain u where u: "u \<in> set (flow_tasks f2)" "same_but_estimate (reassigned a t) u"
    by blast
  from same_but_estimate_fields [OF u(2)] u(1) a
  show "\<exists>u a. u \<in> set (flow_tasks f') \<and> task_id u = task_id t \<and> task_status u = Assigned \<and>
      task_assignment u = Some a \<and> assignment_owner a \<in> set (candidate_targets (ctx_texts ctx) s t)"
    unfolding f' by (intro exI [of _ u] exI [of _ a]) (simp add: reassigned_def)
qed

end
