(* ===== verification/App_Planning.thy ===== *)
theory App_Planning
  imports App_Authority Matcher
begin

text \<open>
  From a demand to a flow (the planning part of \<open>src/application/app/mod.rs\<close>): a demand planned on the
  spot, a request a worker claims and answers, and \<open>land_plan\<close>, which both share: match every task,
  schedule the whole, commit the flow.
\<close>

section \<open>Landing a plan\<close>

definition match_step ::
    "call_context \<Rightarrow> org_state \<Rightarrow> (string, nat) btree \<times> (string, assignment) btree \<Rightarrow> nat \<times> task_draft
      \<Rightarrow> ((string, nat) btree \<times> (string, assignment) btree) result" where
  "match_step ctx s = (\<lambda>(load, assignments) (i, d).
     and_then (match_task (ctx_texts ctx) (ctx_match_clock ctx i) load s d) (\<lambda>(a, load').
       Inr (load', bt_insert (task_draft_key d) a assignments)))"

definition match_all ::
    "call_context \<Rightarrow> org_state \<Rightarrow> task_draft list \<Rightarrow> (string, assignment) btree result" where
  "match_all ctx s drafts =
     and_then (try_fold (match_step ctx s) (active_load s, bt_empty) (List.enumerate 0 drafts))
       (\<lambda>(load, assignments). Inr assignments)"

text \<open>The identifiers of tasks start at the \<open>u\<close>-th of the command, the clock readings at the \<open>c\<close>-th.\<close>

definition planned_flow ::
    "call_context \<Rightarrow> nat \<Rightarrow> nat \<Rightarrow> plan_draft \<Rightarrow> demand \<Rightarrow> string \<Rightarrow> string option \<Rightarrow> string \<Rightarrow> org_state
      \<Rightarrow> flow result" where
  "planned_flow ctx u c plan d fid repo planner s =
     and_then (match_all ctx s (plan_draft_tasks plan)) (\<lambda>assignments.
     and_then (schedule (\<lambda>i. new_id ''TSK'' (ctx_uuid ctx (u + i))) (ctx_clock ctx c)
                 (plan_draft_tasks plan) assignments s) (\<lambda>r.
       Inr \<lparr>flow_id = fid,
            flow_repository_id = repo,
            flow_demand = d,
            flow_prd = plan_draft_prd plan,
            flow_tasks = schedule_tasks r,
            flow_status = Draft,
            flow_planner = planner,
            flow_p50_finish = schedule_p50_finish r,
            flow_p80_finish = schedule_p80_finish r,
            flow_critical_path = schedule_critical_path r,
            flow_created_at = ctx_clock ctx (Suc c),
            flow_approved_at = None,
            flow_completed_at = None\<rparr>))"

definition land_plan ::
    "call_context \<Rightarrow> nat \<Rightarrow> nat \<Rightarrow> plan_draft \<Rightarrow> demand \<Rightarrow> string \<Rightarrow> string option \<Rightarrow> string \<Rightarrow> string
      \<Rightarrow> flow command" where
  "land_plan ctx u c plan d fid repo planner requester =
     perform ctx
       (\<lambda>s. and_then (planned_flow ctx u c plan d fid repo planner s) (\<lambda>f.
          Inr (requester, [FlowEvent (DemandCreated d), FlowEvent (PlanGenerated f)], f)))
       answer_with"

section \<open>A demand planned on the spot\<close>

definition repository_of :: "org_state \<Rightarrow> string \<Rightarrow> string result" where
  "repository_of s selector = and_then (get_repository s selector) (\<lambda>r. Inr (repository_id r))"

definition optional_repository :: "org_state \<Rightarrow> string option \<Rightarrow> string option result" where
  "optional_repository s selector =
     (case selector of None \<Rightarrow> Inr None | Some v \<Rightarrow> and_then (repository_of s v) (\<lambda>rid. Inr (Some rid)))"

definition human_requester :: "org_state \<Rightarrow> string \<Rightarrow> principal result" where
  "human_requester s requester =
     and_then (get_principal s requester) (\<lambda>p.
       if principal_kind p \<noteq> principal_kind.Human
       then Inl (PermissionDenied ''a demand requester must be a registered human'')
       else and_then (ensure_permission s (principal_id p) DemandCreate) (\<lambda>_. Inr p))"

definition decide_demand ::
    "call_context \<Rightarrow> string \<Rightarrow> string \<Rightarrow> planner_kind \<Rightarrow> string \<Rightarrow> string option \<Rightarrow> org_state
      \<Rightarrow> (plan_draft \<times> demand \<times> string option) result" where
  "decide_demand ctx summary requester planner workspace repository s =
     and_then (get_organization s) (\<lambda>_.
       if str_trim summary = [] then Inl (relay_error.Validation ''demand cannot be empty'')
       else if bt_values (principals s) = []
       then Inl (relay_error.Validation
         ''register at least one human or agent before creating a demand'')
       else
         and_then (human_requester s requester) (\<lambda>p.
           if \<not> ctx_is_dir ctx workspace then Inl (InvalidWorkspace workspace)
           else
             and_then (optional_repository s repository) (\<lambda>repo.
             and_then (generate_plan (ctx_texts ctx) (ctx_tools ctx) planner summary s) (\<lambda>plan.
               Inr (plan,
                    \<lparr>demand_id = new_id ''DEM'' (ctx_uuid ctx 1),
                     demand_flow_id = new_id ''FLOW'' (ctx_uuid ctx 0),
                     demand_requester = principal_name p,
                     demand_summary = str_trim summary,
                     demand_created_at = ctx_clock ctx 0\<rparr>,
                    repo)))))"

definition create_demand ::
    "call_context \<Rightarrow> string \<Rightarrow> string \<Rightarrow> planner_kind \<Rightarrow> string \<Rightarrow> string option \<Rightarrow> flow command" where
  "create_demand ctx summary requester planner workspace repository =
     cmd_then (cmd_read (decide_demand ctx summary requester planner workspace repository))
       (\<lambda>(plan, d, repo).
         land_plan ctx 2 1 plan d (demand_flow_id d) repo (show_planner_kind planner) (demand_requester d))"

section \<open>A demand planned by a worker\<close>

fun debug_planning_status :: "planning_status \<Rightarrow> string" where
  "debug_planning_status Queued = ''Queued''"
| "debug_planning_status Claimed = ''Claimed''"
| "debug_planning_status Planned = ''Planned''"
| "debug_planning_status planning_status.Failed = ''Failed''"

definition find_planning_request :: "org_state \<Rightarrow> string \<Rightarrow> planning_request result" where
  "find_planning_request s rid = found ''planning request'' rid (bt_get (planning_requests s) rid)"

definition list_planning_requests :: "org_state \<Rightarrow> planning_request list" where
  "list_planning_requests s = sort_key planning_created_at (bt_values (planning_requests s))"

definition decide_request_planning ::
    "call_context \<Rightarrow> string \<Rightarrow> string \<Rightarrow> planner_kind \<Rightarrow> string option \<Rightarrow> org_state
      \<Rightarrow> planning_request decision result" where
  "decide_request_planning ctx summary requester planner repository s =
     and_then (get_organization s) (\<lambda>_.
       if str_trim summary = [] then Inl (relay_error.Validation ''demand cannot be empty'')
       else
         and_then (human_requester s requester) (\<lambda>p.
         and_then (optional_repository s repository) (\<lambda>repo.
           let now = ctx_clock ctx 0;
               fid = new_id ''FLOW'' (ctx_uuid ctx 0);
               d = \<lparr>demand_id = new_id ''DEM'' (ctx_uuid ctx 1), demand_flow_id = fid,
                    demand_requester = principal_name p, demand_summary = str_trim summary,
                    demand_created_at = now\<rparr>;
               r = \<lparr>planning_id = new_id ''PLAN'' (ctx_uuid ctx 2),
                    planning_flow_id = fid,
                    planning_demand = d,
                    planning_requester = principal_name p,
                    planning_repository_id = repo,
                    planning_planner = show_planner_kind planner,
                    planning_prompt = planner_prompt (str_trim summary) s,
                    planning_status = Queued,
                    planning_claimed_by = None,
                    planning_claimed_at = None,
                    planning_lease_expires_at = None,
                    planning_attempt = 0,
                    planning_error = None,
                    planning_created_at = now,
                    planning_settled_at = None\<rparr>
           in Inr (principal_name p, [FlowEvent (DemandCreated d), RegistryEvent (PlanningRequested r)], r))))"

definition request_planning ::
    "call_context \<Rightarrow> string \<Rightarrow> string \<Rightarrow> planner_kind \<Rightarrow> string option \<Rightarrow> planning_request command" where
  "request_planning ctx summary requester planner repository =
     perform ctx (decide_request_planning ctx summary requester planner repository) answer_with"

text \<open>The two messages for others than agents: ``only an Agent identity may claim'' and ``... return''.\<close>

definition only_agents_claim :: string where
  "only_agents_claim =
     bytes [0xE5, 0x8F, 0xAA, 0xE6, 0x9C, 0x89] @ '' Agent '' @
     bytes [0xE8, 0xBA, 0xAB, 0xE4, 0xBB, 0xBD, 0xE5, 0x8F, 0xAF, 0xE4, 0xBB, 0xA5, 0xE9, 0xA2, 0x86,
            0xE5, 0x8F, 0x96, 0xE8, 0xA7, 0x84, 0xE5, 0x88, 0x92, 0xE8, 0xAF, 0xB7, 0xE6, 0xB1, 0x82]"

definition only_agents_answer :: string where
  "only_agents_answer =
     bytes [0xE5, 0x8F, 0xAA, 0xE6, 0x9C, 0x89] @ '' Agent '' @
     bytes [0xE8, 0xBA, 0xAB, 0xE4, 0xBB, 0xBD, 0xE5, 0x8F, 0xAF, 0xE4, 0xBB, 0xA5, 0xE5, 0x9B, 0x9E,
            0xE4, 0xBC, 0xA0, 0xE8, 0xA7, 0x84, 0xE5, 0x88, 0x92, 0xE7, 0xBB, 0x93, 0xE6, 0x9E, 0x9C]"

definition claimable :: "instant \<Rightarrow> planning_request \<Rightarrow> bool" where
  "claimable now r \<longleftrightarrow>
     (case planning_status r of
        Queued \<Rightarrow> True
      | Claimed \<Rightarrow> (case planning_lease_expires_at r of None \<Rightarrow> False | Some expires \<Rightarrow> expires \<le> now)
      | _ \<Rightarrow> False)"

definition planning_lease :: "u64 \<Rightarrow> int" where
  "planning_lease lease_seconds = int (unat (max 30 (min 3600 lease_seconds))) * 1000000000"

definition decide_claim_planning ::
    "call_context \<Rightarrow> string \<Rightarrow> string \<Rightarrow> u64 \<Rightarrow> org_state \<Rightarrow> string decision result" where
  "decide_claim_planning ctx rid worker lease_seconds s =
     and_then (get_principal s worker) (\<lambda>p.
       if principal_kind p \<noteq> principal_kind.Agent then Inl (PermissionDenied only_agents_claim)
       else
         and_then (find_planning_request s rid) (\<lambda>r.
           let now = ctx_clock ctx 0 in
           if \<not> claimable now r
           then Inl (InvalidTransition
             (''planning request '' @ planning_id r @ '' is '' @ debug_planning_status (planning_status r)))
           else Inr (principal_name p,
             [RegistryEvent (PlanningClaimed (planning_id r) (principal_id p) now
                (now + planning_lease lease_seconds))],
             planning_id r)))"

definition claim_planning_request ::
    "call_context \<Rightarrow> string \<Rightarrow> string \<Rightarrow> u64 \<Rightarrow> planning_request command" where
  "claim_planning_request ctx rid worker lease_seconds =
     perform ctx (decide_claim_planning ctx rid worker lease_seconds) (\<lambda>rid s. find_planning_request s rid)"

definition decide_planning_result ::
    "call_context \<Rightarrow> string \<Rightarrow> plan_draft \<Rightarrow> string \<Rightarrow> org_state
      \<Rightarrow> (plan_draft \<times> planning_request \<times> string) result" where
  "decide_planning_result ctx rid plan worker s =
     and_then (get_principal s worker) (\<lambda>p.
       if principal_kind p \<noteq> principal_kind.Agent then Inl (PermissionDenied only_agents_answer)
       else
         and_then (find_planning_request s rid) (\<lambda>r.
           if planning_status r \<noteq> Claimed
           then Inl (InvalidTransition
             (''planning request '' @ planning_id r @ '' is '' @ debug_planning_status (planning_status r) @
              '', expected claimed''))
           else
             and_then (validate_plan (ctx_texts ctx) plan) (\<lambda>valid. Inr (valid, r, principal_name p))))"

text \<open>The flow is committed first and the request settled in a second commit.\<close>

definition submit_planning_result ::
    "call_context \<Rightarrow> call_context \<Rightarrow> string \<Rightarrow> plan_draft \<Rightarrow> string \<Rightarrow> flow command" where
  "submit_planning_result ctx again rid plan worker =
     cmd_then (cmd_read (decide_planning_result ctx rid plan worker)) (\<lambda>(valid, r, name).
     cmd_then (land_plan ctx 0 0 valid (planning_demand r) (planning_flow_id r) (planning_repository_id r)
                 (planning_planner r) (planning_requester r)) (\<lambda>f.
     cmd_then (commit_events again name
                 [RegistryEvent (PlanningSettled (planning_id r) Planned None (ctx_clock again 0))])
       (\<lambda>_ app. (Inr f, app))))"

definition decide_fail_planning ::
    "call_context \<Rightarrow> string \<Rightarrow> string \<Rightarrow> string \<Rightarrow> org_state \<Rightarrow> string decision result" where
  "decide_fail_planning ctx rid reason actor s =
     and_then (get_principal s actor) (\<lambda>p.
     and_then (find_planning_request s rid) (\<lambda>r.
       if planning_status r = Planned
       then Inl (InvalidTransition
         (''planning request '' @ planning_id r @ '' already produced a flow''))
       else Inr (principal_name p,
         [RegistryEvent (PlanningSettled (planning_id r) planning_status.Failed (Some (str_trim reason)) (ctx_clock ctx 0))],
         planning_id r)))"

definition fail_planning_request ::
    "call_context \<Rightarrow> string \<Rightarrow> string \<Rightarrow> string \<Rightarrow> planning_request command" where
  "fail_planning_request ctx rid reason actor =
     perform ctx (decide_fail_planning ctx rid reason actor) (\<lambda>rid s. find_planning_request s rid)"

section \<open>What a landed plan is\<close>

text \<open>Every task of a matched plan has an assignment the matcher made for it.\<close>

lemma match_steps:
  assumes "try_fold (match_step ctx s) (load, m) (List.enumerate k drafts) = Inr (load', m')"
    and "distinct (map task_draft_key drafts)"
  shows "\<forall>d \<in> set drafts. \<exists>a. bt_get m' (task_draft_key d) = Some a \<and>
      (\<exists>clock before after. match_task (ctx_texts ctx) clock before s d = Inr (a, after))"
    and "key \<notin> task_draft_key ` set drafts \<Longrightarrow> bt_get m' key = bt_get m key"
proof -
  have "(\<forall>d \<in> set drafts. \<exists>a. bt_get m' (task_draft_key d) = Some a \<and>
      (\<exists>clock before after. match_task (ctx_texts ctx) clock before s d = Inr (a, after))) \<and>
    (\<forall>key. key \<notin> task_draft_key ` set drafts \<longrightarrow> bt_get m' key = bt_get m key)"
    using assms
  proof (induction drafts arbitrary: load m k)
    case (Cons d drafts)
    then obtain a load1 where a: "match_task (ctx_texts ctx) (ctx_match_clock ctx k) load s d = Inr (a, load1)"
      and rest: "try_fold (match_step ctx s) (load1, bt_insert (task_draft_key d) a m)
          (List.enumerate (Suc k) drafts) = Inr (load', m')"
      by (auto simp: match_step_def)
    from Cons.IH [OF rest] Cons.prems(2) have
      later: "\<forall>d \<in> set drafts. \<exists>a. bt_get m' (task_draft_key d) = Some a \<and>
        (\<exists>clock before after. match_task (ctx_texts ctx) clock before s d = Inr (a, after))"
      and kept: "\<And>key. key \<notin> task_draft_key ` set drafts \<Longrightarrow>
        bt_get m' key = bt_get (bt_insert (task_draft_key d) a m) key"
      by auto
    have "bt_get m' (task_draft_key d) = Some a"
      using kept [of "task_draft_key d"] Cons.prems(2) by auto
    with a have "\<exists>a. bt_get m' (task_draft_key d) = Some a \<and>
        (\<exists>clock before after. match_task (ctx_texts ctx) clock before s d = Inr (a, after))" by blast
    with later kept show ?case by simp
  qed simp
  then show "\<forall>d \<in> set drafts. \<exists>a. bt_get m' (task_draft_key d) = Some a \<and>
      (\<exists>clock before after. match_task (ctx_texts ctx) clock before s d = Inr (a, after))"
    and "key \<notin> task_draft_key ` set drafts \<Longrightarrow> bt_get m' key = bt_get m key" by blast+
qed

text \<open>
  The tasks of a landed flow are those of the plan, in its order: each proposed, owned by somebody fit
  for it, and starting only when the tasks it needs are expected to be done.
\<close>

definition lands :: "text_functions \<Rightarrow> org_state \<Rightarrow> task_draft \<Rightarrow> task \<Rightarrow> bool" where
  "lands tx s d t \<longleftrightarrow>
     task_key t = task_draft_key d \<and> task_title t = task_draft_title d \<and>
     task_status t = task_status.Proposed \<and>
     (case task_assignment t of None \<Rightarrow> False | Some a \<Rightarrow> owner_fits tx s d (assignment_owner a))"

lemma planned_flow_lands:
  assumes "planned_flow ctx u c plan d fid repo planner s = Inr f"
    and "\<And>d. d \<in> set (plan_draft_tasks plan) \<Longrightarrow>
      length (normalized_set (ctx_texts ctx) (task_draft_required_capabilities d)) < 2 ^ 53"
  shows "flow_id f = fid" and "flow_status f = Draft" and "flow_demand f = d"
    and "list_all2 (lands (ctx_texts ctx) s) (plan_draft_tasks plan) (flow_tasks f)"
    and "\<And>t. t \<in> set (flow_tasks f) \<Longrightarrow>
      estimate_p80_finish (task_estimate t) \<le> flow_p80_finish f \<and>
      (\<forall>dep \<in> set (task_depends_on t). \<exists>v \<in> set (flow_tasks f).
         task_id v = dep \<and> estimate_p80_finish (task_estimate v) \<le> estimate_earliest_start (task_estimate t))"
proof -
  let ?drafts = "plan_draft_tasks plan"
  let ?fresh = "\<lambda>i. new_id ''TSK'' (ctx_uuid ctx (u + i))"
  from assms(1) obtain load m r where
      m: "try_fold (match_step ctx s) (active_load s, bt_empty) (List.enumerate 0 ?drafts) = Inr (load, m)"
    and r: "schedule ?fresh (ctx_clock ctx c) ?drafts m s = Inr r"
    and f: "flow_id f = fid" "flow_status f = Draft" "flow_demand f = d" "flow_tasks f = schedule_tasks r"
      "flow_p80_finish f = schedule_p80_finish r"
    by (auto simp: planned_flow_def match_all_def)
  note sched = schedule_ok [OF r]
  note matched = match_steps(1) [OF m sched(1)]
  show "flow_id f = fid" "flow_status f = Draft" "flow_demand f = d" using f by simp_all
  from sched(3) obtain es where tasks: "flow_tasks f = map (task_of_draft (task_ids ?fresh ?drafts) m es) ?drafts"
    using f by auto
  show "list_all2 (lands (ctx_texts ctx) s) ?drafts (flow_tasks f)"
    unfolding tasks list.rel_map
  proof (rule list.rel_refl_strong)
    fix x assume x: "x \<in> set ?drafts"
    with matched obtain a clock before after where a: "bt_get m (task_draft_key x) = Some a"
      "match_task (ctx_texts ctx) clock before s x = Inr (a, after)" by blast
    from match_task_owner [OF a(2) assms(2) [OF x]] a(1)
    show "lands (ctx_texts ctx) s x (task_of_draft (task_ids ?fresh ?drafts) m es x)"
      by (simp add: lands_def task_of_draft_def)
  qed
  show "estimate_p80_finish (task_estimate t) \<le> flow_p80_finish f \<and>
      (\<forall>dep \<in> set (task_depends_on t). \<exists>v \<in> set (flow_tasks f).
         task_id v = dep \<and> estimate_p80_finish (task_estimate v) \<le> estimate_earliest_start (task_estimate t))"
    if "t \<in> set (flow_tasks f)" for t
    using schedule_precedence [OF r, of t] that f by simp
qed

text \<open>Landing files the flow and answers with it.\<close>

lemma land_plan_files:
  assumes "land_plan ctx u c plan d fid repo planner requester (db, s) = (Inr f, db', s')"
  shows "planned_flow ctx u c plan d fid repo planner s = Inr f" and "bt_get (flows s') (flow_id f) = Some f"
    and "planning_requests s' = planning_requests s" and "principals s' = principals s"
proof -
  from assms obtain author es v where
      d: "and_then (planned_flow ctx u c plan d fid repo planner s) (\<lambda>f.
          Inr (requester, [FlowEvent (DemandCreated d), FlowEvent (PlanGenerated f)], f)) = Inr (author, es, f)"
    and v: "apply_events s es = Inr v"
    and s': "s' = v\<lparr>notification_deliveries := notification_deliveries s', last_sequence := last_sequence s'\<rparr>"
    unfolding land_plan_def by (rule performed) auto
  from d show f: "planned_flow ctx u c plan d fid repo planner s = Inr f" by auto
  from d v have v': "v = put_flow f (flow_id f) s" by (auto simp: apply_plan_generated_def)
  have "flows s' = flows v" "planning_requests s' = planning_requests v" "principals s' = principals v"
    by (subst s', simp)+
  then show "bt_get (flows s') (flow_id f) = Some f" "planning_requests s' = planning_requests s"
    "principals s' = principals s"
    by (simp_all add: v' put_flow_def)
qed

section \<open>The lease on a planning request\<close>

lemma planning_lease_bounds: "30000000000 \<le> planning_lease n \<and> planning_lease n \<le> 3600000000000"
proof -
  have "(30 :: u64) \<le> max 30 (min 3600 n)" "max 30 (min 3600 n) \<le> (3600 :: u64)" by simp_all
  then have "unat (30 :: u64) \<le> unat (max 30 (min 3600 n))" "unat (max 30 (min 3600 n)) \<le> unat (3600 :: u64)"
    by (simp_all only: word_le_nat_alt)
  then have "30 \<le> unat (max 30 (min 3600 n))" "unat (max 30 (min 3600 n)) \<le> 3600" by simp_all
  then show ?thesis unfolding planning_lease_def by linarith
qed

lemma claim_planning_effect:
  assumes "claim_planning_request ctx rid worker secs (db, s) = (Inr r', db', s')"
    and "registry_filed s"
  obtains p r where "lookup_principal s worker = Some p" "principal_kind p = principal_kind.Agent"
    "bt_get (planning_requests s) rid = Some r" "claimable (ctx_clock ctx 0) r"
    "r' = r\<lparr>planning_status := Claimed, planning_claimed_by := Some (principal_id p),
      planning_claimed_at := Some (ctx_clock ctx 0),
      planning_lease_expires_at := Some (ctx_clock ctx 0 + planning_lease secs),
      planning_attempt := planning_attempt r + 1\<rparr>"
    "planning_requests s' = bt_insert rid r' (planning_requests s)"
proof -
  from assms(1) obtain author es x v where d: "decide_claim_planning ctx rid worker secs s = Inr (author, es, x)"
    and answer: "find_planning_request s' x = Inr r'" and v: "apply_events s es = Inr v"
    and s': "s' = v\<lparr>notification_deliveries := notification_deliveries s', last_sequence := last_sequence s'\<rparr>"
    unfolding claim_planning_request_def by (rule performed)
  from d obtain p r where p: "lookup_principal s worker = Some p" "principal_kind p = principal_kind.Agent"
    and r: "bt_get (planning_requests s) rid = Some r" "claimable (ctx_clock ctx 0) r"
    and es: "es = [RegistryEvent (PlanningClaimed (planning_id r) (principal_id p) (ctx_clock ctx 0)
                (ctx_clock ctx 0 + planning_lease secs))]" "x = planning_id r"
    by (auto simp: decide_claim_planning_def find_planning_request_def get_principal_Inr Let_def split: if_splits)
  have rid: "planning_id r = rid" using assms(2) r(1) by (auto simp: registry_filed_def dest: keyedD)
  have "planning_requests s' = planning_requests v" by (subst s') simp
  with v es r(1) rid answer show ?thesis
    by (intro that [OF p r]) (auto simp: apply_planning_claimed_def find_planning_request_def)
qed

text \<open>While a lease runs, nobody else gets the request.\<close>

lemma leased_not_claimable:
  assumes "bt_get (planning_requests s) rid = Some r" and "planning_status r = Claimed"
    and "planning_lease_expires_at r = Some expires" and "ctx_clock ctx 0 < expires"
  shows "\<exists>err. claim_planning_request ctx rid worker secs (db, s) = (Inl err, db, s)"
proof -
  have "\<exists>err. decide_claim_planning ctx rid worker secs s = Inl err"
    using assms
    by (cases "get_principal s worker")
      (auto simp: decide_claim_planning_def find_planning_request_def claimable_def Let_def)
  then show ?thesis
    unfolding claim_planning_request_def by (blast dest: perform_refuses)
qed

text \<open>A planned request stays planned: it can be neither claimed, nor answered, nor failed again.\<close>

lemma planned_is_final:
  assumes "bt_get (planning_requests s) rid = Some r" and "planning_status r = Planned"
  shows "\<exists>err. claim_planning_request ctx rid worker secs (db, s) = (Inl err, db, s)"
    and "\<exists>err. submit_planning_result ctx again rid plan worker (db, s) = (Inl err, db, s)"
    and "\<exists>err. fail_planning_request ctx rid reason actor (db, s) = (Inl err, db, s)"
proof -
  have "\<exists>err. decide_claim_planning ctx rid worker secs s = Inl err"
    using assms
    by (cases "get_principal s worker")
      (auto simp: decide_claim_planning_def find_planning_request_def claimable_def Let_def)
  then show "\<exists>err. claim_planning_request ctx rid worker secs (db, s) = (Inl err, db, s)"
    unfolding claim_planning_request_def by (blast dest: perform_refuses)
  have "\<exists>err. decide_planning_result ctx rid plan worker s = Inl err"
    using assms
    by (cases "get_principal s worker") (auto simp: decide_planning_result_def find_planning_request_def)
  then show "\<exists>err. submit_planning_result ctx again rid plan worker (db, s) = (Inl err, db, s)"
    by (auto simp: submit_planning_result_def cmd_then_def cmd_read_def)
  have "\<exists>err. decide_fail_planning ctx rid reason actor s = Inl err"
    using assms
    by (cases "get_principal s actor") (auto simp: decide_fail_planning_def find_planning_request_def)
  then show "\<exists>err. fail_planning_request ctx rid reason actor (db, s) = (Inl err, db, s)"
    unfolding fail_planning_request_def by (blast dest: perform_refuses)
qed

end
