(* ===== verification/App_Change.thy ===== *)
theory App_Change
  imports App_Flow App_Planning
begin

text \<open>
  Changing an approved flow (the flow change commands of \<open>src/application/app/mod.rs\<close>): a planner proposes
  a revision that may only append tasks, its effect on the schedule is previewed, and the requester
  approves or rejects it.
\<close>

section \<open>Append-only revisions\<close>

text \<open>The derived \<open>PartialEq\<close> of drafts compares the effort as a float.\<close>

definition draft_eq :: "task_draft \<Rightarrow> task_draft \<Rightarrow> bool" where
  "draft_eq a b \<longleftrightarrow>
     task_draft_key a = task_draft_key b \<and> task_draft_title a = task_draft_title b \<and>
     task_draft_description a = task_draft_description b \<and>
     task_draft_required_capabilities a = task_draft_required_capabilities b \<and>
     task_draft_depends_on a = task_draft_depends_on b \<and>
     f64_eq (task_draft_effort_hours a) (task_draft_effort_hours b) \<and>
     task_draft_requires_human a = task_draft_requires_human b \<and>
     task_draft_acceptance_criteria a = task_draft_acceptance_criteria b"

definition check_existing_task :: "flow \<Rightarrow> task_draft list \<Rightarrow> task \<Rightarrow> unit result" where
  "check_existing_task f drafts t =
     (case List.find (\<lambda>d. task_draft_key d = task_key t) drafts of
        None \<Rightarrow> Inl (relay_error.Validation (''flow change cannot remove existing task '' @ task_key t))
      | Some proposed \<Rightarrow>
          if \<not> draft_eq proposed (draft_of_task f t)
          then Inl (relay_error.Validation (''flow change cannot modify existing task '' @ task_key t @
            ''; append a new task instead''))
          else Inr ())"

definition check_addition :: "task_draft list \<Rightarrow> task_draft \<Rightarrow> unit result" where
  "check_addition drafts d =
     (case List.find (\<lambda>dep. dep \<notin> task_draft_key ` set drafts) (task_draft_depends_on d) of
        None \<Rightarrow> Inr ()
      | Some dep \<Rightarrow> Inl (relay_error.Validation
          (''new task '' @ task_draft_key d @ '' depends on unknown task '' @ dep)))"

definition validate_append_only_revision :: "flow \<Rightarrow> task_draft list \<Rightarrow> task_draft list result" where
  "validate_append_only_revision f drafts =
     (if \<not> distinct (map task_draft_key drafts)
      then Inl (relay_error.Validation ''flow change task keys must be unique'')
      else
        and_then (try_map (check_existing_task f drafts) (flow_tasks f)) (\<lambda>_.
          let additions = filter (\<lambda>d. task_draft_key d \<notin> task_key ` set (flow_tasks f)) drafts in
          and_then (try_map (check_addition drafts) additions) (\<lambda>_. Inr additions)))"

section \<open>Proposing\<close>

text \<open>\<open>abs\<close>, \<open>{:+.1}\<close>, milliseconds as hours, and rounding to one decimal.\<close>

definition f64_abs :: "f64 \<Rightarrow> f64" where
  "f64_abs x = f64_bits False (f64_magnitude x)"

definition show_signed_f64 :: "nat \<Rightarrow> f64 \<Rightarrow> string" where
  "show_signed_f64 p x = (if f64_negative x \<or> f64_is_nan x then show_f64 p x else CHR ''+'' # show_f64 p x)"

definition millis_between :: "instant \<Rightarrow> instant \<Rightarrow> int" where
  "millis_between a b = (if b \<le> a then (a - b) div 1000000 else - ((b - a) div 1000000))"

definition hours_between :: "instant \<Rightarrow> instant \<Rightarrow> f64" where
  "hours_between a b = f64_div (f64_of_int (millis_between a b)) (f64_lit 3600000 1)"

definition one_decimal :: "f64 \<Rightarrow> f64" where
  "one_decimal x = f64_div (f64_round (f64_mul x (f64_lit 10 1))) (f64_lit 10 1)"

definition change_ids :: "call_context \<Rightarrow> flow \<Rightarrow> task_draft list \<Rightarrow> (string, string) btree" where
  "change_ids ctx f additions =
     fold (\<lambda>(i, d). bt_insert (task_draft_key d) (new_id ''TSK'' (ctx_uuid ctx (Suc i))))
       (List.enumerate 0 additions)
       (fold (\<lambda>t. bt_insert (task_key t) (task_id t)) (flow_tasks f) bt_empty)"

definition preview_task ::
    "instant \<Rightarrow> (string, string) btree \<Rightarrow> (string, assignment) btree \<Rightarrow> task_draft \<Rightarrow> task result" where
  "preview_task now ids assignments d =
     and_then (ok_or (bt_get assignments (task_draft_key d)) (NoEligibleAssignee (task_draft_title d))) (\<lambda>a.
     and_then (try_map (\<lambda>dep. ok_or (bt_get ids dep) (relay_error.Validation
         (''new task '' @ task_draft_key d @ '' depends on unknown task '' @ dep)))
         (task_draft_depends_on d)) (\<lambda>depends_on.
       Inr \<lparr>task_id = the (bt_get ids (task_draft_key d)),
            task_key = task_draft_key d,
            task_title = task_draft_title d,
            task_description = task_draft_description d,
            task_required_capabilities = task_draft_required_capabilities d,
            task_depends_on = depends_on,
            task_requires_human = task_draft_requires_human d,
            task_acceptance_criteria = task_draft_acceptance_criteria d,
            task_assignment = Some a,
            task_estimate =
              \<lparr>estimate_effort_hours = task_draft_effort_hours d,
               estimate_p50_hours = task_draft_effort_hours d,
               estimate_p80_hours = f64_mul (task_draft_effort_hours d) (f64_lit 14 10),
               estimate_confidence = ''preview'',
               estimate_rationale = [''flow change preview''],
               estimate_earliest_start = now,
               estimate_p50_finish = now,
               estimate_p80_finish = now\<rparr>,
            task_status = task_status.Proposed,
            task_blocker = None,
            task_last_heartbeat = None,
            task_evidence = [],
            task_external_artifacts = []\<rparr>))"

text \<open>
  The risks, in Chinese: work under way or blocked in the flow, new human gates, a later finish by the
  scope, a rebased finish by the progress so far.
\<close>

definition busy_risk :: string where
  "busy_risk =
     bytes [0xE5, 0xBD, 0x93, 0xE5, 0x89, 0x8D] @ '' Flow '' @ bytes [0xE5, 0xB7, 0xB2, 0xE6, 0x9C,
     0x89, 0xE6, 0x89, 0xA7, 0xE8, 0xA1, 0x8C, 0xE4, 0xB8, 0xAD, 0xE6, 0x88, 0x96, 0xE9, 0x98,
     0xBB, 0xE5, 0xA1, 0x9E, 0xE4, 0xBB, 0xBB, 0xE5, 0x8A, 0xA1, 0xEF, 0xBC, 0x8C, 0xE8, 0xBF,
     0xBD, 0xE5, 0x8A, 0xA0, 0xE8, 0x8C, 0x83, 0xE5, 0x9B, 0xB4, 0xE5, 0x8F, 0xAF, 0xE8, 0x83,
     0xBD, 0xE5, 0xA2, 0x9E, 0xE5, 0x8A, 0xA0, 0xE5, 0x8D, 0x8F, 0xE8, 0xB0, 0x83, 0xE6, 0x88,
     0x90, 0xE6, 0x9C, 0xAC]"

definition gate_risk :: string where
  "gate_risk =
     bytes [0xE6, 0x96, 0xB0, 0xE5, 0xA2, 0x9E, 0xE5, 0xB7, 0xA5, 0xE4, 0xBD, 0x9C, 0xE5, 0xBC,
     0x95, 0xE5, 0x85, 0xA5, 0xE4, 0xBA, 0x86] @ '' Human '' @ bytes [0xE5, 0xAE, 0xA1, 0xE6, 0x89,
     0xB9, 0xE6, 0x88, 0x96, 0xE8, 0xB4, 0xA3, 0xE4, 0xBB, 0xBB] @ '' Gate''"

definition scope_risk :: "f64 \<Rightarrow> string" where
  "scope_risk delta_hours =
     bytes [0xE6, 0x96, 0xB0, 0xE5, 0xA2, 0x9E, 0xE8, 0x8C, 0x83, 0xE5, 0x9B, 0xB4, 0xE4, 0xBD,
     0xBF, 0xE9, 0x87, 0x8D, 0xE7, 0xAE, 0x97, 0xE5, 0x9F, 0xBA, 0xE7, 0xBA, 0xBF] @ '' P80 '' @
     bytes [0xE5, 0xBB, 0xB6, 0xE5, 0x90, 0x8E] @ '' '' @
     show_f64 1 delta_hours @
     '' '' @ bytes [0xE5, 0xB0, 0x8F, 0xE6, 0x97, 0xB6]"

definition rebase_risk :: "f64 \<Rightarrow> string" where
  "rebase_risk delta_hours =
     bytes [0xE5, 0xBD, 0x93, 0xE5, 0x89, 0x8D, 0xE8, 0xBF, 0x9B, 0xE5, 0xBA, 0xA6, 0xE5, 0x85,
     0x88, 0xE4, 0xBD, 0xBF, 0xE6, 0xAD, 0xA3, 0xE5, 0xBC, 0x8F] @ '' P80 '' @ bytes [0xE9, 0x87,
     0x8D, 0xE5, 0x9F, 0xBA, 0xE7, 0xBA, 0xBF] @ '' '' @
     show_signed_f64 1 delta_hours @
     '' '' @ bytes [0xE5, 0xB0, 0x8F, 0xE6, 0x97, 0xB6, 0xEF, 0xBC, 0x8C, 0xE5, 0x86, 0x8D, 0xE5,
     0x8F, 0xA0, 0xE5, 0x8A, 0xA0, 0xE6, 0x96, 0xB0, 0xE5, 0xA2, 0x9E, 0xE8, 0x8C, 0x83, 0xE5,
     0x9B, 0xB4]"

definition change_risks :: "flow \<Rightarrow> task list \<Rightarrow> f64 \<Rightarrow> f64 \<Rightarrow> string list" where
  "change_risks f new_tasks delta_hours rebase_delta_hours =
     (if list_ex (\<lambda>t. task_status t \<in> {InProgress, task_status.Blocked}) (flow_tasks f) then [busy_risk] else []) @
     (if list_ex task_requires_human new_tasks then [gate_risk] else []) @
     (if f64_lt (f64_lit 0 1) delta_hours then [scope_risk delta_hours] else []) @
     (if f64_le (f64_lit 1 10) (f64_abs rebase_delta_hours) then [rebase_risk rebase_delta_hours] else [])"

definition change_impact_of ::
    "flow \<Rightarrow> task list \<Rightarrow> reschedule_outcome \<Rightarrow> reschedule_outcome \<Rightarrow> flow_change_impact" where
  "change_impact_of f new_tasks baseline scheduled =
     (let delta_hours = hours_between (reschedule_p80_finish scheduled) (reschedule_p80_finish baseline);
          net_delta_hours = hours_between (reschedule_p80_finish scheduled) (flow_p80_finish f);
          rebase_delta_hours = hours_between (reschedule_p80_finish baseline) (flow_p80_finish f) in
      \<lparr>impact_added_task_ids = map task_id new_tasks,
       impact_added_task_titles = map task_title new_tasks,
       impact_affected_task_ids = map task_id new_tasks,
       impact_official_p80_finish = flow_p80_finish f,
       impact_baseline_p80_finish = reschedule_p80_finish baseline,
       impact_proposed_p80_finish = reschedule_p80_finish scheduled,
       impact_baseline_p80_delta_hours = one_decimal rebase_delta_hours,
       impact_scope_p80_delta_hours = one_decimal delta_hours,
       impact_net_p80_delta_hours = one_decimal net_delta_hours,
       impact_risks = change_risks f new_tasks delta_hours rebase_delta_hours\<rparr>)"

definition statuses_of :: "flow \<Rightarrow> (string, task_status) btree" where
  "statuses_of f = fold (\<lambda>t. bt_insert (task_id t) (task_status t)) (flow_tasks f) bt_empty"

definition has_proposed_change :: "org_state \<Rightarrow> string \<Rightarrow> bool" where
  "has_proposed_change s fid \<longleftrightarrow>
     list_ex (\<lambda>r. change_flow_id r = fid \<and> change_status r = flow_change_status.Proposed)
       (bt_values (flow_changes s))"

definition check_change_request ::
    "call_context \<Rightarrow> string \<Rightarrow> string \<Rightarrow> string \<Rightarrow> string \<Rightarrow> org_state \<Rightarrow> (principal \<times> flow) result" where
  "check_change_request ctx fid actor summary workspace s =
     (if summary = [] \<or> 4000 < chars_count summary
      then Inl (relay_error.Validation ''flow change summary must contain 1 to 4000 characters'')
      else if \<not> ctx_is_dir ctx workspace then Inl (InvalidWorkspace workspace)
      else if has_proposed_change s fid
      then Inl (InvalidTransition
        (''flow '' @ fid @ '' already has a proposed change awaiting a decision''))
      else
        and_then (get_principal s actor) (\<lambda>p.
          if principal_kind p \<noteq> principal_kind.Human
          then Inl (PermissionDenied ''flow change requests require a human requester'')
          else
            and_then (get_flow s fid) (\<lambda>f.
              if \<not> is_requester f p
              then Inl (PermissionDenied (''only demand requester '' @ demand_requester (flow_demand f) @
                '' can revise flow '' @ flow_id f))
              else if flow_status f \<notin> {flow_status.Approved, flow_status.Active}
              then Inl (InvalidTransition (''flow '' @ flow_id f @ '' is '' @
                debug_flow_status (flow_status f) @ ''; only approved or active flows can be revised''))
              else Inr (p, f))))"

definition new_change_tasks ::
    "call_context \<Rightarrow> flow \<Rightarrow> task_draft list \<Rightarrow> org_state \<Rightarrow> task list result" where
  "new_change_tasks ctx f additions s =
     and_then (match_all ctx s additions) (\<lambda>assignments.
       try_map (preview_task (ctx_clock ctx 0) (change_ids ctx f additions) assignments) additions)"

definition with_estimates :: "reschedule_outcome \<Rightarrow> task list \<Rightarrow> task list" where
  "with_estimates r = map (\<lambda>t. t\<lparr>task_estimate := estimate_at r (task_id t)\<rparr>)"

definition change_request_of ::
    "call_context \<Rightarrow> planner_kind \<Rightarrow> string \<Rightarrow> principal \<Rightarrow> flow \<Rightarrow> prd_draft \<Rightarrow> task list
      \<Rightarrow> reschedule_outcome \<Rightarrow> reschedule_outcome \<Rightarrow> flow_change_request" where
  "change_request_of ctx planner summary p f prd new_tasks baseline scheduled =
     (let rid = new_id ''CHG'' (ctx_uuid ctx 0); now = ctx_clock ctx 0 in
      \<lparr>change_id = rid,
       change_flow_id = flow_id f,
       change_summary = summary,
       change_requested_by_id = principal_id p,
       change_requested_by_name = principal_name p,
       change_planner = show_planner_kind planner,
       change_proposed_prd = prd,
       change_new_tasks = new_tasks,
       change_preview_schedule =
         revision_of scheduled (''preview change '' @ rid @ '': '' @ summary) (principal_name p) now,
       change_base_task_statuses = statuses_of f,
       change_base_p80_finish = flow_p80_finish f,
       change_impact = change_impact_of f new_tasks baseline scheduled,
       change_status = flow_change_status.Proposed,
       change_created_at = now,
       change_resolved_at = None,
       change_resolved_by = None,
       change_rejection_reason = None\<rparr>)"

definition decide_propose_change ::
    "call_context \<Rightarrow> string \<Rightarrow> string \<Rightarrow> string \<Rightarrow> planner_kind \<Rightarrow> string \<Rightarrow> org_state
      \<Rightarrow> flow_change_request decision result" where
  "decide_propose_change ctx fid actor given planner workspace s =
     (let summary = str_trim given in
      and_then (check_change_request ctx fid actor summary workspace s) (\<lambda>(p, f).
      and_then (generate_revision_plan (ctx_texts ctx) (ctx_tools ctx) planner f summary s) (\<lambda>plan.
      and_then (validate_append_only_revision f (plan_draft_tasks plan)) (\<lambda>additions.
        if 20 < length additions
        then Inl (relay_error.Validation ''one flow change can append at most 20 tasks'')
        else
          let now = ctx_clock ctx 0 in
          and_then (new_change_tasks ctx f additions s) (\<lambda>new_tasks.
          and_then (reschedule (ctx_texts ctx) f s now) (\<lambda>baseline.
          and_then (reschedule (ctx_texts ctx) (f\<lparr>flow_tasks := flow_tasks f @ new_tasks\<rparr>) s now) (\<lambda>scheduled.
            let r = change_request_of ctx planner summary p f (plan_draft_prd plan)
                      (with_estimates scheduled new_tasks) baseline scheduled
            in Inr (principal_name p, [FlowEvent (FlowChangeProposed r)], r))))))))"

definition propose_flow_change ::
    "call_context \<Rightarrow> string \<Rightarrow> string \<Rightarrow> string \<Rightarrow> planner_kind \<Rightarrow> string \<Rightarrow> flow_change_request command" where
  "propose_flow_change ctx fid actor summary planner workspace =
     perform ctx (decide_propose_change ctx fid actor summary planner workspace) answer_with"

section \<open>Reading\<close>

text \<open>Sorting by \<open>Reverse\<close> of the creation keeps the order of those created together.\<close>

definition list_flow_changes :: "org_state \<Rightarrow> string \<Rightarrow> string \<Rightarrow> flow_change_request list result" where
  "list_flow_changes s fid actor =
     and_then (get_flow s fid) (\<lambda>f.
     and_then (get_principal s actor) (\<lambda>p.
       if \<not> principal_has_flow_access s f p
       then Inl (PermissionDenied (principal_name p @ '' cannot access flow '' @ flow_id f))
       else Inr (sort_key (\<lambda>r. - change_created_at r)
         (filter (\<lambda>r. change_flow_id r = flow_id f) (bt_values (flow_changes s))))))"

definition pending_flow_change :: "org_state \<Rightarrow> string \<Rightarrow> flow_change_request option" where
  "pending_flow_change s fid =
     List.find (\<lambda>r. change_flow_id r = fid \<and> change_status r = flow_change_status.Proposed)
       (bt_values (flow_changes s))"

section \<open>Deciding\<close>

fun debug_flow_change_status :: "flow_change_status \<Rightarrow> string" where
  "debug_flow_change_status flow_change_status.Proposed = ''Proposed''"
| "debug_flow_change_status flow_change_status.Applied = ''Applied''"
| "debug_flow_change_status flow_change_status.Rejected = ''Rejected''"

definition find_flow_change :: "org_state \<Rightarrow> string \<Rightarrow> flow_change_request result" where
  "find_flow_change s rid = found ''flow change request'' rid (bt_get (flow_changes s) rid)"

definition check_change_decision ::
    "string \<Rightarrow> string \<Rightarrow> string \<Rightarrow> org_state \<Rightarrow> (principal \<times> flow_change_request \<times> flow) result" where
  "check_change_decision verb rid actor s =
     and_then (get_principal s actor) (\<lambda>p.
     and_then (find_flow_change s rid) (\<lambda>r.
     and_then (get_flow s (change_flow_id r)) (\<lambda>f.
       if principal_kind p \<noteq> principal_kind.Human \<or> \<not> is_requester f p
       then Inl (PermissionDenied (''only demand requester '' @ demand_requester (flow_demand f) @
         '' can '' @ verb @ '' flow change '' @ change_id r))
       else if change_status r \<noteq> flow_change_status.Proposed
       then Inl (InvalidTransition (''flow change '' @ change_id r @ '' is '' @
         debug_flow_change_status (change_status r)))
       else Inr (p, r, f))))"

definition decide_approve_change ::
    "call_context \<Rightarrow> string \<Rightarrow> string \<Rightarrow> org_state \<Rightarrow> string decision result" where
  "decide_approve_change ctx rid actor s =
     and_then (check_change_decision ''approve'' rid actor s) (\<lambda>(p, r, f).
       if statuses_of f \<noteq> change_base_task_statuses r \<or> flow_p80_finish f \<noteq> change_base_p80_finish r
       then Inl (InvalidTransition ''flow changed after this preview; generate a fresh change request'')
       else
         let now = ctx_clock ctx 0;
             new_tasks = map assigned (change_new_tasks r) in
         and_then (reschedule (ctx_texts ctx)
             (f\<lparr>flow_prd := change_proposed_prd r, flow_tasks := flow_tasks f @ new_tasks\<rparr>) s now) (\<lambda>scheduled.
           Inr (principal_name p,
             FlowEvent (FlowChangeApplied (flow_id f) (change_id r) (change_proposed_prd r) new_tasks
               (revision_of scheduled (''approved flow change '' @ change_id r @ '': '' @ change_summary r)
                  (principal_name p) now)
               (principal_name p) now) #
             map (\<lambda>t. TaskEvent (WorkRequestSent (flow_id f) (task_id t)
                 (target_id (assignment_owner (the (task_assignment t)))))) new_tasks,
             rid)))"

definition approve_flow_change :: "call_context \<Rightarrow> string \<Rightarrow> string \<Rightarrow> flow_change_request command" where
  "approve_flow_change ctx rid actor =
     perform ctx (decide_approve_change ctx rid actor) (\<lambda>rid s. find_flow_change s rid)"

definition decide_reject_change ::
    "call_context \<Rightarrow> string \<Rightarrow> string \<Rightarrow> string \<Rightarrow> org_state \<Rightarrow> string decision result" where
  "decide_reject_change ctx rid actor given s =
     (let reason = str_trim given in
      if reason = [] \<or> 1000 < chars_count reason
      then Inl (relay_error.Validation ''flow change rejection reason must contain 1 to 1000 characters'')
      else
        and_then (check_change_decision ''reject'' rid actor s) (\<lambda>(p, r, f).
          Inr (principal_name p,
            [FlowEvent (FlowChangeRejected (flow_id f) (change_id r) (principal_name p) reason
               (ctx_clock ctx 0))], rid)))"

definition reject_flow_change ::
    "call_context \<Rightarrow> string \<Rightarrow> string \<Rightarrow> string \<Rightarrow> flow_change_request command" where
  "reject_flow_change ctx rid actor reason =
     perform ctx (decide_reject_change ctx rid actor reason) (\<lambda>rid s. find_flow_change s rid)"

section \<open>Revisions only append\<close>

lemma validate_append_only_Inr:
  assumes "validate_append_only_revision f drafts = Inr additions"
  shows "additions = filter (\<lambda>d. task_draft_key d \<notin> task_key ` set (flow_tasks f)) drafts"
    and "distinct (map task_draft_key additions)"
    and "\<And>t. t \<in> set (flow_tasks f) \<Longrightarrow> \<exists>d \<in> set drafts. draft_eq d (draft_of_task f t)"
    and "\<And>d dep. d \<in> set additions \<Longrightarrow> dep \<in> set (task_draft_depends_on d) \<Longrightarrow> dep \<in> task_draft_key ` set drafts"
proof -
  from assms have distinct: "distinct (map task_draft_key drafts)"
    and additions: "additions = filter (\<lambda>d. task_draft_key d \<notin> task_key ` set (flow_tasks f)) drafts"
    by (auto simp: validate_append_only_revision_def Let_def split: if_splits)
  from assms obtain us where "try_map (check_existing_task f drafts) (flow_tasks f) = Inr us"
    by (auto simp: validate_append_only_revision_def split: if_splits)
  then have existing: "list_all2 (\<lambda>t u. check_existing_task f drafts t = Inr u) (flow_tasks f) us"
    by (simp add: try_map_Inr)
  from assms additions obtain ws where "try_map (check_addition drafts) additions = Inr ws"
    by (auto simp: validate_append_only_revision_def Let_def split: if_splits)
  then have new: "list_all2 (\<lambda>d u. check_addition drafts d = Inr u) additions ws"
    by (simp add: try_map_Inr)
  show "additions = filter (\<lambda>d. task_draft_key d \<notin> task_key ` set (flow_tasks f)) drafts" by (rule additions)
  show "distinct (map task_draft_key additions)"
    unfolding additions by (rule distinct_map_filter [OF distinct])
  show "\<exists>d \<in> set drafts. draft_eq d (draft_of_task f t)" if t: "t \<in> set (flow_tasks f)" for t
  proof -
    from list_all2_left [OF existing t] obtain u where "check_existing_task f drafts t = Inr u" by blast
    then show ?thesis
      by (auto simp: check_existing_task_def find_Some_iff split: option.splits if_splits)
  qed
  show "dep \<in> task_draft_key ` set drafts"
    if d: "d \<in> set additions" "dep \<in> set (task_draft_depends_on d)" for d dep
  proof -
    from list_all2_left [OF new d(1)] obtain u where "check_addition drafts d = Inr u" by blast
    then show ?thesis using d(2)
      by (auto simp: check_addition_def find_None_iff split: option.splits)
  qed
qed

section \<open>One pending change at a time\<close>

definition one_pending :: "org_state \<Rightarrow> bool" where
  "one_pending s \<longleftrightarrow> bt_pairwise (\<lambda>q r. \<not> (change_flow_id q = change_flow_id r \<and>
     change_status q = flow_change_status.Proposed \<and> change_status r = flow_change_status.Proposed)) (flow_changes s)"

lemma one_pending_committed:
  "s' = t\<lparr>notification_deliveries := m, last_sequence := n\<rparr> \<Longrightarrow> one_pending s' \<longleftrightarrow> one_pending t"
  by (simp add: one_pending_def)

lemma check_change_request_Inr:
  assumes "check_change_request ctx fid actor summary workspace s = Inr (p, f)"
  shows "\<not> has_proposed_change s fid" and "lookup_principal s actor = Some p" and "bt_get (flows s) fid = Some f"
    and "is_requester f p" and "principal_kind p = principal_kind.Human"
    and "flow_status f \<in> {flow_status.Approved, flow_status.Active}"
  using assms
  by (auto simp: check_change_request_def get_principal_Inr get_flow_def split: if_splits)

lemma decide_propose_change_Inr:
  assumes "decide_propose_change ctx fid actor given planner workspace s = Inr (author, es, r)"
  obtains p f plan additions new_tasks baseline scheduled where
    "check_change_request ctx fid actor (str_trim given) workspace s = Inr (p, f)"
    "generate_revision_plan (ctx_texts ctx) (ctx_tools ctx) planner f (str_trim given) s = Inr plan"
    "validate_append_only_revision f (plan_draft_tasks plan) = Inr additions" "length additions \<le> 20"
    "new_change_tasks ctx f additions s = Inr new_tasks"
    "r = change_request_of ctx planner (str_trim given) p f (plan_draft_prd plan)
       (with_estimates scheduled new_tasks) baseline scheduled"
    "es = [FlowEvent (FlowChangeProposed r)]"
proof -
  note decided = assms [unfolded decide_propose_change_def Let_def]
  from decided obtain p f where c: "check_change_request ctx fid actor (str_trim given) workspace s = Inr (p, f)"
    by (auto split: if_splits)
  with decided obtain plan additions where
      plan: "validate_append_only_revision f (plan_draft_tasks plan) = Inr additions" "length additions \<le> 20"
      "generate_revision_plan (ctx_texts ctx) (ctx_tools ctx) planner f (str_trim given) s = Inr plan"
    by (auto simp: not_less split: if_splits)
  with decided c obtain new_tasks baseline scheduled where
      new: "new_change_tasks ctx f additions s = Inr new_tasks"
    and r: "r = change_request_of ctx planner (str_trim given) p f (plan_draft_prd plan)
       (with_estimates scheduled new_tasks) baseline scheduled"
    and es: "es = [FlowEvent (FlowChangeProposed r)]"
    by (auto simp: not_less [symmetric])
  show ?thesis by (rule that [OF c plan(3,1,2) new r es])
qed

lemma propose_change_effect:
  assumes "propose_flow_change ctx fid actor given planner workspace (db, s) = (Inr r, db', s')"
    and "flows_filed s"
  shows "bt_get (flow_changes s') (change_id r) = Some r" and "change_status r = flow_change_status.Proposed"
    and "length (change_new_tasks r) \<le> 20" and "one_pending s \<Longrightarrow> one_pending s'" and "flows s' = flows s"
    and "change_flow_id r = fid"
proof -
  from assms(1) obtain author es x v where
      d: "decide_propose_change ctx fid actor given planner workspace s = Inr (author, es, r)"
    and v: "apply_events s es = Inr v"
    and s': "s' = v\<lparr>notification_deliveries := notification_deliveries s', last_sequence := last_sequence s'\<rparr>"
    unfolding propose_flow_change_def by (rule performed) auto
  from d obtain p f plan additions new_tasks baseline scheduled where
      ok: "check_change_request ctx fid actor (str_trim given) workspace s = Inr (p, f)"
    and plan: "generate_revision_plan (ctx_texts ctx) (ctx_tools ctx) planner f (str_trim given) s = Inr plan"
    and "validate_append_only_revision f (plan_draft_tasks plan) = Inr additions"
    and few: "length additions \<le> 20" and new: "new_change_tasks ctx f additions s = Inr new_tasks"
    and r: "r = change_request_of ctx planner (str_trim given) p f (plan_draft_prd plan)
       (with_estimates scheduled new_tasks) baseline scheduled"
    and es: "es = [FlowEvent (FlowChangeProposed r)]"
    by (rule decide_propose_change_Inr)
  note request = check_change_request_Inr [OF ok]
  have fid: "flow_id f = fid" using request(3) assms(2) by (auto simp: flows_filed_def)
  from v es have v': "v = s\<lparr>flow_changes := bt_insert (change_id r) r (flow_changes s)\<rparr>"
    by (auto simp: apply_flow_change_proposed_def)
  have "flow_changes s' = flow_changes v" "flows s' = flows v" by (subst s', simp)+
  then show "bt_get (flow_changes s') (change_id r) = Some r" "flows s' = flows s" by (simp_all add: v')
  show proposed: "change_status r = flow_change_status.Proposed" and flow: "change_flow_id r = fid"
    by (simp_all add: r change_request_of_def Let_def fid)
  from new have "length new_tasks = length additions"
    by (auto simp: new_change_tasks_def try_map_Inr dest: list_all2_lengthD)
  with few show "length (change_new_tasks r) \<le> 20"
    by (simp add: r change_request_of_def Let_def with_estimates_def)
  show "one_pending s'" if "one_pending s"
  proof -
    have "one_pending v"
      using that request(1) flow unfolding v' one_pending_def
      by (auto simp: has_proposed_change_def list_ex_iff intro!: bt_pairwise_insert)
    then show ?thesis by (simp add: one_pending_committed [OF s'])
  qed
qed

section \<open>What approving a change does\<close>

lemma find_append: "List.find P (xs @ ys) = (case List.find P xs of None \<Rightarrow> List.find P ys | Some x \<Rightarrow> Some x)"
  by (induction xs) auto

lemma push_new_tasks_finds:
  assumes "try_fold push_new_task f ts = Inr f'" and "t \<in> set ts"
  shows "flow_task f' (task_id t) = Some t"
  using assms
proof (induction ts arbitrary: f)
  case (Cons x ts)
  then obtain f1 where f1: "push_new_task f x = Inr f1" and rest: "try_fold push_new_task f1 ts = Inr f'" by auto
  show ?case
  proof (cases "t \<in> set ts")
    case True
    with Cons.IH rest show ?thesis by blast
  next
    case False
    with Cons.prems(2) have t: "t = x" by simp
    from f1 have "flow_task f (task_id x) = None" "flow_tasks f1 = flow_tasks f @ [x]"
      by (auto simp: push_new_task_def split: if_splits)
    then have "flow_task f1 (task_id x) = Some x"
      by (simp add: flow_task_def find_append task_matches_def)
    with push_new_tasks_simps(2) [OF rest] show ?thesis
      by (simp add: t flow_task_def find_append)
  qed
qed simp

lemma same_but_estimate_find:
  "list_all2 same_but_estimate xs ys \<Longrightarrow> List.find (task_matches k) xs = Some x \<Longrightarrow>
     \<exists>y. List.find (task_matches k) ys = Some y \<and> same_but_estimate x y"
proof (induction rule: list_all2_induct)
  case (Cons a as b bs)
  then show ?case using same_but_estimate_fields [OF Cons.hyps(1)]
    by (auto simp: task_matches_def split: if_splits)
qed simp

lemma update_first_same: "List.find P xs = Some x \<Longrightarrow> g x = x \<Longrightarrow> update_first P g xs = xs"
  by (induction xs) (auto split: if_splits)

text \<open>A work request for a task that is assigned already changes nothing.\<close>

lemma assigned_requests_idle:
  assumes "bt_get (flows s) fid = Some f"
    and "\<And>t. t \<in> set ts \<Longrightarrow> \<exists>u. flow_task f (task_id t) = Some u \<and> task_status u = Assigned"
  shows "apply_events s (map (\<lambda>t. TaskEvent (WorkRequestSent fid (task_id t) (target t))) ts) = Inr s"
  using assms(2)
proof (induction ts)
  case (Cons t ts)
  then obtain u where u: "flow_task f (task_id t) = Some u" "task_status u = Assigned" by auto
  have "flow_update_task (task_id t) (\<lambda>t. t\<lparr>task_status := Assigned\<rparr>) f = f"
    using update_first_same [OF u(1) [unfolded flow_task_def], of "\<lambda>t. t\<lparr>task_status := Assigned\<rparr>"] u(2)
    by (simp add: flow_update_task_def)
  then have "apply_work_request_sent fid (task_id t) s = Inr s"
    using assms(1) u(1) by (simp add: apply_work_request_sent_def update_task_Inr put_flow_def bt_insert_same)
  with Cons show ?case by simp
qed simp

lemma approve_change_effect:
  assumes "approve_flow_change ctx rid actor (db, s) = (Inr r', db', s')"
    and "flows_filed s" and "bt_get (flow_changes s) rid = Some r"
    and "bt_get (flows s) (change_flow_id r) = Some f" and "distinct (map task_id (flow_tasks f))"
    and "distinct (map task_key (flow_tasks f))"
  shows "\<exists>f'. bt_get (flows s') (change_flow_id r) = Some f' \<and> well_timed f' \<and>
      list_all2 same_but_estimate (flow_tasks f @ map assigned (change_new_tasks r)) (flow_tasks f')"
    and "change_status r = flow_change_status.Proposed" and "change_status r' = flow_change_status.Applied"
    and "statuses_of f = change_base_task_statuses r" and "flow_p80_finish f = change_base_p80_finish r"
    and "\<exists>p. lookup_principal s actor = Some p \<and> principal_kind p = principal_kind.Human \<and> is_requester f p"
proof -
  from assms(1) obtain author es x v where d: "decide_approve_change ctx rid actor s = Inr (author, es, x)"
    and answer: "find_flow_change s' x = Inr r'" and v: "apply_events s es = Inr v"
    and s': "s' = v\<lparr>notification_deliveries := notification_deliveries s', last_sequence := last_sequence s'\<rparr>"
    unfolding approve_flow_change_def by (rule performed)
  have flows: "flows s' = flows v" "flow_changes s' = flow_changes v" by (subst s', simp)+
  let ?new = "map assigned (change_new_tasks r)"
  from d assms(3,4) obtain p scheduled where
      p: "lookup_principal s actor = Some p" "principal_kind p = principal_kind.Human" "is_requester f p"
    and current: "change_status r = flow_change_status.Proposed" "statuses_of f = change_base_task_statuses r"
      "flow_p80_finish f = change_base_p80_finish r"
    and r: "reschedule (ctx_texts ctx) (f\<lparr>flow_prd := change_proposed_prd r, flow_tasks := flow_tasks f @ ?new\<rparr>)
        s (ctx_clock ctx 0) = Inr scheduled"
    and es: "es = FlowEvent (FlowChangeApplied (flow_id f) (change_id r) (change_proposed_prd r) ?new
        (revision_of scheduled (''approved flow change '' @ change_id r @ '': '' @ change_summary r)
           (principal_name p) (ctx_clock ctx 0)) (principal_name p) (ctx_clock ctx 0)) #
      map (\<lambda>t. TaskEvent (WorkRequestSent (flow_id f) (task_id t)
        (target_id (assignment_owner (the (task_assignment t)))))) ?new"
    and x: "x = rid"
    by (auto simp: decide_approve_change_def check_change_decision_def find_flow_change_def get_principal_Inr
        get_flow_def Let_def split: if_splits)
  show "change_status r = flow_change_status.Proposed" "statuses_of f = change_base_task_statuses r"
    "flow_p80_finish f = change_base_p80_finish r" by (rule current)+
  show "\<exists>p. lookup_principal s actor = Some p \<and> principal_kind p = principal_kind.Human \<and> is_requester f p"
    using p by blast
  have fid: "flow_id f = change_flow_id r" and rid: "change_id r = rid"
    using assms(2-4) by (auto simp: flows_filed_def dest: keyedD)
  let ?f0 = "f\<lparr>flow_prd := change_proposed_prd r, flow_tasks := flow_tasks f @ ?new\<rparr>"
  from v es obtain w where w: "apply_flow_change_applied (flow_id f) (change_id r) (change_proposed_prd r) ?new
        (revision_of scheduled (''approved flow change '' @ change_id r @ '': '' @ change_summary r)
           (principal_name p) (ctx_clock ctx 0)) (principal_name p) (ctx_clock ctx 0) s = Inr w"
    and run: "apply_events w (map (\<lambda>t. TaskEvent (WorkRequestSent (flow_id f) (task_id t)
        (target_id (assignment_owner (the (task_assignment t)))))) ?new) = Inr v" by auto
  from w assms(3,4) fid rid obtain f1 u where f1: "try_fold push_new_task f ?new = Inr f1"
    and u: "apply_schedule_revision (flow_id f)
        (revision_of scheduled (''approved flow change '' @ change_id r @ '': '' @ change_summary r)
           (principal_name p) (ctx_clock ctx 0)) (put_flow (f1\<lparr>flow_prd := change_proposed_prd r\<rparr>) (flow_id f) s) = Inr u"
    and w': "w = u\<lparr>flow_changes := bt_insert rid (r\<lparr>change_status := flow_change_status.Applied,
        change_resolved_at := Some (ctx_clock ctx 0), change_resolved_by := Some (principal_name p)\<rparr>) (flow_changes u)\<rparr>"
    by (auto simp: apply_flow_change_applied_def get_flow_def split: if_splits)
  note pushed = push_new_tasks_simps [OF f1]
  let ?f1 = "f1\<lparr>flow_prd := change_proposed_prd r\<rparr>"
  have distinct: "distinct (map task_id (flow_tasks ?f0))"
    using push_new_tasks_distinct(1) [OF f1 assms(5,6)] pushed(2) by simp
  have skeleton: "list_all2 same_but_estimate (flow_tasks ?f0) (flow_tasks ?f1)"
    by (simp add: pushed same_but_estimate_def list.rel_refl)
  from revised_well_timed [OF r distinct skeleton _ u] obtain f2 where f2: "flows u = bt_insert (flow_id f) f2 (flows s)"
      "well_timed f2" "list_all2 same_but_estimate (flow_tasks ?f0) (flow_tasks f2)"
    by (auto simp: put_flow_def insert_twice)
  have found: "\<exists>y. flow_task f2 (task_id t) = Some y \<and> task_status y = Assigned" if t: "t \<in> set ?new" for t
  proof -
    from push_new_tasks_finds [OF f1 t] have "List.find (task_matches (task_id t)) (flow_tasks ?f0) = Some t"
      by (simp add: flow_task_def pushed)
    from same_but_estimate_find [OF f2(3) this] obtain y where
      y: "flow_task f2 (task_id t) = Some y" "same_but_estimate t y" by (auto simp: flow_task_def)
    with same_but_estimate_fields(3) [OF y(2)] t show ?thesis by auto
  qed
  have "bt_get (flows w) (flow_id f) = Some f2" using f2(1) by (simp add: w')
  from assigned_requests_idle [OF this, where ts = ?new] found run have "v = w" by simp
  with f2 flows fid show "\<exists>f'. bt_get (flows s') (change_flow_id r) = Some f' \<and> well_timed f' \<and>
      list_all2 same_but_estimate (flow_tasks f @ map assigned (change_new_tasks r)) (flow_tasks f')"
    by (simp add: w')
  from answer x flows \<open>v = w\<close> show "change_status r' = flow_change_status.Applied"
    by (auto simp: find_flow_change_def w')
qed

end
