(* ===== verification/Sample_Work.thy ===== *)
theory Sample_Work
  imports Sample_Tower App_Authority App_Organization App_Change
begin

text \<open>
  The sample organization at work: a flight with two leases of one resource, an Office release, a
  GitLab write, a delivered notification, an interaction from outside, a calendar and a plan. The
  witnesses of the properties are evaluated on it. Nothing here models code.
\<close>

section \<open>The tools around the planner\<close>

text \<open>No model answers here; plans are planned locally.\<close>

definition sample_tools :: planner_tools where
  "sample_tools =
     \<lparr>run_plan_executor = (\<lambda>_ _ _ _. Inl (ExecutorUnavailable ''claude'')), plan_to_json = (\<lambda>_. Inr ''{}'')\<rparr>"

section \<open>A log of side effects\<close>

definition sample_lease :: flight_lease where
  "sample_lease =
     \<lparr>lease_id = ''FLT-1'', lease_flow_id = ''FLOW-1'', lease_task_id = ''TASK-1'',
      lease_principal_id = ''PRN-1'', lease_principal_name = ''ada'', lease_authorized_by = ''ada'',
      lease_executor = executor_kind.Codex, lease_status = Authorized, lease_issued_at = 0, lease_expires_at = 100,
      lease_claimed_at = None, lease_finished_at = None, lease_run_id = None, lease_report = None,
      lease_manifest = None, lease_parent_lease_id = None, lease_root_lease_id = None,
      lease_attempt = 1\<rparr>"

definition sample_claim :: resource_claim where
  "sample_claim =
     \<lparr>claim_kind = Workspace, claim_key = ''repo'', claim_exclusive = True\<rparr>"

definition sample_resource :: "string \<Rightarrow> instant \<Rightarrow> instant \<Rightarrow> resource_lease" where
  "sample_resource rid issued expires =
     \<lparr>resource_id = rid, resource_flight_lease_id = ''FLT-1'', resource_flow_id = ''FLOW-1'',
      resource_task_id = ''TASK-1'', resource_principal_id = ''PRN-1'', resource_claim = sample_claim,
      resource_status = resource_lease_status.Active, resource_issued_at = issued,
      resource_expires_at = expires, resource_released_at = None, resource_release_reason = None\<rparr>"

definition sample_digest :: string where
  "sample_digest = replicate 64 (CHR ''0'')"

definition sample_release :: office_release_request where
  "sample_release =
     \<lparr>release_id = ''REL-1'', release_flow_id = ''FLOW-1'', release_task_id = ''TASK-1'',
      release_provider = Microsoft365,
      release_payload = SendEmail ''ACC'' [''bob''] [] [] ''Hello'' ''World'' office_body_type.Text,
      release_payload_sha256 = sample_digest, release_requested_by = ''ada'',
      release_requested_at = 0, release_status = office_release_status.Requested,
      release_reviewed_by = None, release_reviewed_at = None, release_review_reason = None,
      release_dispatch_id = None, release_dispatch_started_at = None, release_result = None,
      release_last_error = None\<rparr>"

definition sample_write :: gitlab_write_request where
  "sample_write =
     \<lparr>write_id = ''GLW-1'', write_flow_id = ''FLOW-1'', write_task_id = ''TASK-1'',
      write_payload = CreateIssue ''group/tower'' ''Build'' ''Build it'' [],
      write_payload_sha256 = sample_digest, write_requested_by = ''ada'', write_requested_at = 0,
      write_status = gitlab_write_status.Requested, write_reviewed_by = None,
      write_reviewed_at = None, write_review_reason = None, write_dispatch_id = None,
      write_dispatch_started_at = None, write_result = None, write_last_error = None\<rparr>"

definition sample_delivery :: notification_delivery where
  "sample_delivery =
     \<lparr>delivery_id = ''NDL-1'', delivery_organization_id = ''ORG-1'', delivery_endpoint_id = ''NEP-1'',
      delivery_source_event_kind = ''flow.approved'', delivery_flow_id = None, delivery_actor = ''ada'',
      delivery_payload = ''{}'', delivery_status = Pending, delivery_attempts = 0,
      delivery_queued_at = 0, delivery_last_attempt_at = None, delivery_delivered_at = None,
      delivery_response_status = None, delivery_last_error = None\<rparr>"

definition sample_receipt :: external_interaction_receipt where
  "sample_receipt =
     \<lparr>receipt_id = ''INT-1'', receipt_provider = ''feishu'', receipt_delivery_id = ''D-1'',
      receipt_external_user_id = ''u-1'', receipt_principal_id = ''PRN-1'', receipt_action = TaskAccept,
      receipt_target_id = ''TASK-1'', receipt_reason = None, receipt_flow_id = Some ''FLOW-1'',
      receipt_processed_at = 0\<rparr>"

definition sample_requests :: "domain_event list" where
  "sample_requests =
     [FlightEvent (RemoteFlightAuthorized sample_lease),
      FlightEvent (ResourceLeaseAcquired (sample_resource ''RES-1'' 0 10)),
      FlightEvent (ResourceLeaseAcquired (sample_resource ''RES-2'' 10 20)),
      OfficeEvent (OfficeReleaseRequested sample_release),
      GitLabEvent (GitLabWriteRequested sample_write),
      NotificationEvent (NotificationEndpointRegistered sample_endpoint),
      NotificationEvent (NotificationQueued sample_delivery),
      ExternalEvent (ExternalInteractionProcessed sample_receipt)]"

definition sample_outcomes :: "domain_event list" where
  "sample_outcomes =
     [OfficeEvent (OfficeReleaseApproved ''FLOW-1'' ''TASK-1'' ''REL-1'' ''ada'' 1),
      OfficeEvent (OfficeReleaseDispatchClaimed ''FLOW-1'' ''TASK-1'' ''REL-1'' ''DSP-1'' 2),
      OfficeEvent (OfficeReleaseFailed ''FLOW-1'' ''TASK-1'' ''REL-1'' ''DSP-1'' ''timeout'' True 3),
      GitLabEvent (GitLabWriteApproved ''FLOW-1'' ''TASK-1'' ''GLW-1'' ''ada'' 1),
      GitLabEvent (GitLabWriteDispatchClaimed ''FLOW-1'' ''TASK-1'' ''GLW-1'' ''DSP-2'' 2),
      NotificationEvent (NotificationDelivered ''NDL-1'' None 200 4)]"

definition sample_requested :: org_state where
  "sample_requested =
     (case replay (envelopes_of (sample_events @ sample_requests)) of
        Inr s \<Rightarrow> s | Inl _ \<Rightarrow> default_state)"

definition sample_settled :: org_state where
  "sample_settled =
     (case replay (envelopes_of (sample_events @ sample_requests @ sample_outcomes)) of
        Inr s \<Rightarrow> s | Inl _ \<Rightarrow> default_state)"

end
