(* ===== verification/Command_Properties.thy ===== *)
theory Command_Properties
  imports Sample_Work
begin

text \<open>
  What the commands of the application promise, from a demand to its completed tasks: the properties
  that rest on the planner, the matcher, the scheduler, the commit and the projection together.
\<close>

section \<open>A context to run commands in\<close>

definition work_context :: call_context where
  "work_context =
     \<lparr>ctx_library = sample_library [],
      ctx_environment = sample_world\<lparr>event_uuid := (\<lambda>n. show_nat (100 + n))\<rparr>,
      ctx_faults = no_faults, ctx_clock = (\<lambda>_. 7), ctx_uuid = show_nat, ctx_texts = ascii_texts, ctx_show_time = show_int,
      ctx_is_dir = (\<lambda>_. True), ctx_tools = sample_tools, ctx_match_clock = (\<lambda>_ _. 0)\<rparr>"

text \<open>A state of an instance whose log is still empty; what the witnesses put into it is not logged.\<close>

lemma no_entries [simp]: "bt_entries bt_empty = []"
  by transfer simp

lemma unlogged_ready:
  assumes "last_sequence s = 0" and "n \<le> 3"
  shows "ready work_context bt_empty s n"
proof -
  have "distinct (map (\<lambda>i. new_id ''EVT'' (show_nat (100 + i))) [0..<3])" by code_simp
  then have "distinct (map (\<lambda>i. new_id ''EVT'' (show_nat (100 + i))) [0..<n])"
    using assms(2) by (auto simp: distinct_map intro: inj_on_subset)
  then show ?thesis
    using assms
    by (simp add: ready_def work_context_def sample_library_def sample_world_def max_sequence_def i64_max_def
        bt_values_def)
qed

definition staffed :: org_state where
  "staffed = default_state\<lparr>
     org_organization := Some sample_organization,
     org_tenant := Some sample_tenant,
     principals := bt_insert ''PRN-1'' (sample_principal ''PRN-1'' ''ada'')
       (bt_insert ''PRN-2'' ((sample_principal ''PRN-2'' ''bot'')\<lparr>principal_kind := principal_kind.Agent\<rparr>)
       (bt_insert ''PRN-3'' ((sample_principal ''PRN-3'' ''bit'')\<lparr>principal_kind := principal_kind.Agent\<rparr>) bt_empty)),
     teams := bt_insert ''TEAM-1''
       \<lparr>team_id = ''TEAM-1'', team_name = ''core'', team_capabilities = [''rust''],
        team_directory_external_id = None, team_active = True, team_created_at = 0\<rparr> bt_empty\<rparr>"

lemma staffed_facts:
  "org_organization staffed = Some sample_organization" "bt_values (notification_endpoints staffed) = []"
  "last_sequence staffed = 0"
  by code_simp+

section \<open>From a demand to a flow\<close>

text \<open>
  C22: The local planner's plan of a demand that has a title passes the validation of plans, and what
  comes out can be scheduled: its keys are distinct, and its dependencies are tasks of the plan and have
  no cycle. So the dependencies survive the normalization of the keys.
\<close>

theorem local_plans_are_schedulable:
  assumes "lowers_ascii tx" and "str_trim demand \<noteq> []"
    and "str_trim (prd_title (plan_draft_prd (local_plan tx demand))) \<noteq> []"
  shows "\<exists>plan. generate_plan tx tools Local demand s = Inr plan \<and> schedulable (plan_draft_tasks plan)"
  using local_plan_validates [OF assms] by (simp add: generate_plan_def)

theorem local_plans_are_schedulable_witness:
  "\<exists>plan. generate_plan ascii_texts sample_tools Local ''Build a tower'' staffed = Inr plan \<and>
    schedulable (plan_draft_tasks plan)"
proof (rule local_plans_are_schedulable)
  show "lowers_ascii ascii_texts" by (simp add: lowers_ascii_def ascii_texts_def)
  show "str_trim ''Build a tower'' \<noteq> []" by code_simp
  show "str_trim (prd_title (plan_draft_prd (local_plan ascii_texts ''Build a tower''))) \<noteq> []" by code_simp
qed



text \<open>A plan of one task that only the team can do.\<close>

definition team_draft :: task_draft where
  "team_draft =
     \<lparr>task_draft_key = ''build'', task_draft_title = ''Build'', task_draft_description = ''Build it'',
      task_draft_required_capabilities = [''Rust''], task_draft_depends_on = [],
      task_draft_effort_hours = f64_lit 3 1, task_draft_requires_human = False,
      task_draft_acceptance_criteria = [''built'']\<rparr>"

definition team_plan :: plan_draft where
  "team_plan = \<lparr>plan_draft_prd = sample_prd, plan_draft_tasks = [team_draft]\<rparr>"

lemma team_plan_planned: "\<exists>f. planned_flow work_context 0 0 team_plan sample_demand ''FLOW-1'' None ''local'' staffed = Inr f"
proof -
  let ?match = "match_task ascii_texts (ctx_match_clock work_context 0) (active_load staffed) staffed team_draft"
  have few: "length (normalized_set ascii_texts (task_draft_required_capabilities team_draft)) < 2 ^ 53"
  proof -
    have "length (normalized_set ascii_texts (task_draft_required_capabilities team_draft)) = 1" by code_simp
    then show ?thesis by simp
  qed
  have "list_all (\<lambda>p. \<not> eligible ascii_texts team_draft p) (bt_values (principals staffed))" by code_simp
  then have nobody: "\<not> eligible ascii_texts team_draft p" if "bt_get (principals staffed) k = Some p" for k p
    using that by (auto simp: list_all_iff)
  have "list_ex (eligible_team ascii_texts staffed team_draft) (bt_values (teams staffed))" by code_simp
  then have "\<exists>k t. bt_get (teams staffed) k = Some t \<and> eligible_team ascii_texts staffed team_draft t"
    by (auto simp: list_ex_iff) blast
  with match_task_fails [OF few] have "?match \<noteq> Inl (NoEligibleAssignee (task_draft_title team_draft))" by blast
  then obtain a load where a: "?match = Inr (a, load)"
    using match_task_error by (metis sum.exhaust surj_pair)
  from match_task_owner [OF a few] nobody have team: "target_kind (assignment_owner a) = Team"
    by (auto simp: owner_fits_def)
  have matched: "match_all work_context staffed [team_draft] = Inr (bt_insert (task_draft_key team_draft) a bt_empty)"
    using a by (simp add: match_all_def match_step_def work_context_def)
  have "schedulable [team_draft]"
    by (rule schedulable_listed) (simp_all add: team_draft_def)
  then obtain g where "build_graph task_draft_key task_draft_key task_draft_depends_on [team_draft] = Inr g"
    and "acyclic (needs_edge task_draft_key task_draft_depends_on [team_draft])"
    by (auto simp: schedulable_def is_ok_iff)
  from schedule_succeeds [OF this(1) _ _ this(2), of "bt_insert (task_draft_key team_draft) a bt_empty"] team
  have "\<exists>r. schedule fresh now [team_draft] (bt_insert (task_draft_key team_draft) a bt_empty) staffed = Inr r"
    for fresh now by simp
  then obtain r where "schedule (\<lambda>i. new_id ''TSK'' (ctx_uuid work_context (0 + i))) (ctx_clock work_context 0)
      [team_draft] (bt_insert (task_draft_key team_draft) a bt_empty) staffed = Inr r" by blast
  with matched show ?thesis by (simp add: planned_flow_def team_plan_def)
qed


section \<open>Planning by workers\<close>


definition sample_planning :: planning_request where
  "sample_planning =
     \<lparr>planning_id = ''PLN-1'', planning_flow_id = ''FLOW-1'', planning_demand = sample_demand,
      planning_requester = ''ada'', planning_repository_id = None, planning_planner = ''codex'',
      planning_prompt = ''plan'', planning_status = Queued, planning_claimed_by = None,
      planning_claimed_at = None, planning_lease_expires_at = None, planning_attempt = 0,
      planning_error = None, planning_created_at = 0, planning_settled_at = None\<rparr>"


section \<open>Working on tasks\<close>


definition owned_task :: "task_status \<Rightarrow> task" where
  "owned_task st = (sample_task ''TASK-1'' ''build'')\<lparr>
     task_assignment := Some
       \<lparr>assignment_owner = \<lparr>target_kind = target_kind.Human, target_id = ''PRN-1'', target_name = ''ada''\<rparr>,
        assignment_copilots = [], assignment_score = 0, assignment_rationale = []\<rparr>,
     task_status := st\<rparr>"

definition working :: "task_status \<Rightarrow> org_state" where
  "working st = staffed\<lparr>flows := bt_insert ''FLOW-1''
     (sample_flow\<lparr>flow_tasks := [owned_task st, sample_task ''TASK-2'' ''test''], flow_status := flow_status.Active\<rparr>)
     bt_empty\<rparr>"


section \<open>Changing a flow\<close>

text \<open>
  C27: Approving a proposed change of a flow only appends: the flow has the tasks it had, in their
  order and unchanged but for their estimates, and behind them the tasks the requester was shown, now
  assigned. No task starts before those it depends on are expected to be done. Only the human who asked
  for the flow can approve, and only while the flow is as it was when the change was previewed.
\<close>

theorem approved_changes_only_append:
  assumes "approve_flow_change ctx rid actor (db, s) = (Inr r', db', s')"
    and "flows_filed s" and "bt_get (flow_changes s) rid = Some r"
    and "bt_get (flows s) (change_flow_id r) = Some f" and "distinct (map task_id (flow_tasks f))"
    and "distinct (map task_key (flow_tasks f))"
  shows "(\<exists>f'. bt_get (flows s') (change_flow_id r) = Some f' \<and> well_timed f' \<and>
      list_all2 same_but_estimate (flow_tasks f @ map assigned (change_new_tasks r)) (flow_tasks f')) \<and>
    change_status r = flow_change_status.Proposed \<and> change_status r' = flow_change_status.Applied \<and>
    statuses_of f = change_base_task_statuses r \<and> flow_p80_finish f = change_base_p80_finish r \<and>
    (\<exists>p. lookup_principal s actor = Some p \<and> principal_kind p = principal_kind.Human \<and> is_requester f p)"
  using approve_change_effect [OF assms] by blast

definition team_task :: "string \<Rightarrow> string \<Rightarrow> task" where
  "team_task tid key = (sample_task tid key)\<lparr>task_assignment := Some
     \<lparr>assignment_owner = \<lparr>target_kind = Team, target_id = ''TEAM-1'', target_name = ''core''\<rparr>,
      assignment_copilots = [], assignment_score = 0, assignment_rationale = []\<rparr>\<rparr>"

definition done_flow :: flow where
  "done_flow = sample_flow\<lparr>flow_tasks := [(team_task ''TASK-1'' ''build'')\<lparr>task_status := task_status.Completed\<rparr>],
     flow_status := flow_status.Active\<rparr>"

definition sample_change :: flow_change_request where
  "sample_change =
     \<lparr>change_id = ''CHG-1'', change_flow_id = ''FLOW-1'', change_summary = ''more'',
      change_requested_by_id = ''PRN-1'', change_requested_by_name = ''ada'', change_planner = ''local'',
      change_proposed_prd = sample_prd, change_new_tasks = [team_task ''TASK-2'' ''test''],
      change_preview_schedule =
        \<lparr>revision_task_estimates = bt_empty, revision_p50_finish = 0, revision_p80_finish = 0,
         revision_critical_path = [], revision_reason = ''more'', revision_revised_by = ''ada'',
         revision_revised_at = 0\<rparr>,
      change_base_task_statuses = statuses_of done_flow, change_base_p80_finish = flow_p80_finish done_flow,
      change_impact =
        \<lparr>impact_added_task_ids = [''TASK-2''], impact_added_task_titles = [''Build''],
         impact_affected_task_ids = [''TASK-2''], impact_official_p80_finish = 0,
         impact_baseline_p80_finish = 0, impact_proposed_p80_finish = 0,
         impact_baseline_p80_delta_hours = 0, impact_scope_p80_delta_hours = 0,
         impact_net_p80_delta_hours = 0, impact_risks = []\<rparr>,
      change_status = flow_change_status.Proposed, change_created_at = 0, change_resolved_at = None,
      change_resolved_by = None, change_rejection_reason = None\<rparr>"

definition changing :: org_state where
  "changing = staffed\<lparr>flows := bt_insert ''FLOW-1'' done_flow bt_empty,
     flow_changes := bt_insert ''CHG-1'' sample_change bt_empty\<rparr>"

lemma sample_change_rescheduled:
  "\<exists>r. reschedule ascii_texts (done_flow\<lparr>flow_prd := sample_prd,
      flow_tasks := flow_tasks done_flow @ map assigned (change_new_tasks sample_change)\<rparr>) s now = Inr r"
proof -
  let ?ts = "flow_tasks done_flow @ map assigned (change_new_tasks sample_change)"
  have names: "map task_id ?ts = [''TASK-1'', ''TASK-2'']" by code_simp
  have needs: "map task_depends_on ?ts = [[], []]" by code_simp
  have "list_all (\<lambda>t. task_status_is_terminal (task_status t) \<or>
      (case task_assignment t of None \<Rightarrow> False | Some a \<Rightarrow> target_kind (assignment_owner a) = Team)) ?ts" by code_simp
  then have owners: "task_status_is_terminal (task_status t) \<or>
      (\<exists>a. task_assignment t = Some a \<and> target_kind (assignment_owner a) = Team)" if "t \<in> set ?ts" for t
    using that by (fastforce simp: list_all_iff split: option.splits)
  have "task_depends_on (?ts ! i) = []" if "i < length ?ts" for i
    using nth_map [OF that, of task_depends_on] needs that
    by (auto simp: done_flow_def sample_change_def less_Suc_eq)
  then have listed: "\<And>i. i < length ?ts \<Longrightarrow> set (task_depends_on (?ts ! i)) \<subseteq> task_id ` set (take i ?ts)" by simp
  have "distinct (map task_id ?ts)" unfolding names by simp
  note graph = listed_after_needs [OF this listed]
  then obtain g where "build_graph task_id task_key task_depends_on ?ts = Inr g" by blast
  with reschedule_succeeds [of "done_flow\<lparr>flow_prd := sample_prd, flow_tasks := ?ts\<rparr>" g] graph owners
  show ?thesis by (simp add: done_flow_def)
qed

lemma change_approved: "\<exists>r' db' s'. approve_flow_change work_context ''CHG-1'' ''ada''
    (SqliteStore bt_empty, changing) = (Inr r', db', s')"
proof -
  let ?new = "map assigned (change_new_tasks sample_change)"
  let ?f1 = "done_flow\<lparr>flow_tasks := flow_tasks done_flow @ ?new\<rparr>"
  let ?f0 = "done_flow\<lparr>flow_prd := sample_prd, flow_tasks := flow_tasks done_flow @ ?new\<rparr>"
  obtain r where r: "reschedule ascii_texts ?f0 changing 7 = Inr r" using sample_change_rescheduled by blast
  let ?rvn = "revision_of r ''approved flow change CHG-1: more'' ''ada'' 7"
  let ?es = "[FlowEvent (FlowChangeApplied ''FLOW-1'' ''CHG-1'' sample_prd ?new ?rvn ''ada'' 7),
    TaskEvent (WorkRequestSent ''FLOW-1'' ''TASK-2'' ''TEAM-1'')]"
  have checked: "check_change_decision ''approve'' ''CHG-1'' ''ada'' changing =
      Inr (sample_principal ''PRN-1'' ''ada'', sample_change, done_flow)" by code_simp
  have fresh: "statuses_of done_flow = change_base_task_statuses sample_change"
    "flow_p80_finish done_flow = change_base_p80_finish sample_change" by (simp_all add: sample_change_def)
  have sent: "map (\<lambda>t. TaskEvent (WorkRequestSent (flow_id done_flow) (task_id t)
      (target_id (assignment_owner (the (task_assignment t)))))) ?new
    = [TaskEvent (WorkRequestSent ''FLOW-1'' ''TASK-2'' ''TEAM-1'')]" by code_simp
  have d: "decide_approve_change work_context ''CHG-1'' ''ada'' changing = Inr (''ada'', ?es, ''CHG-1'')"
    using r sent
    by (simp add: decide_approve_change_def checked fresh Let_def)
       (simp add: work_context_def sample_change_def done_flow_def sample_flow_def sample_principal_def)
  have ids: "map task_id (flow_tasks ?f0) = [''TASK-1'', ''TASK-2'']" by code_simp
  have distinct: "distinct (map task_id (flow_tasks ?f0))" unfolding ids by simp
  let ?s = "put_flow ?f0 ''FLOW-1'' changing"
  have "bt_get (flows ?s) ''FLOW-1'' = Some ?f0" by (simp add: put_flow_def)
  from reschedule_accepted [OF r distinct refl this] obtain u where
    u: "apply_schedule_revision ''FLOW-1'' ?rvn ?s = Inr u" by blast
  have "list_all2 same_but_estimate (flow_tasks ?f0) (flow_tasks ?f0)"
    by (simp add: same_but_estimate_def list.rel_refl)
  from revised_well_timed [OF r distinct this _ u] obtain f2 where f2: "bt_get (flows u) ''FLOW-1'' = Some f2"
    "list_all2 same_but_estimate (flow_tasks ?f0) (flow_tasks f2)" by (auto simp: put_flow_def)
  have "case List.find (task_matches ''TASK-2'') (flow_tasks ?f0) of None \<Rightarrow> False
    | Some t \<Rightarrow> task_status t = Assigned \<and> task_id t = ''TASK-2''" by code_simp
  then obtain t where t: "List.find (task_matches ''TASK-2'') (flow_tasks ?f0) = Some t" "task_status t = Assigned"
      "task_id t = ''TASK-2''" by (auto split: option.splits)
  from same_but_estimate_find [OF f2(2) t(1)] obtain y where y: "flow_task f2 ''TASK-2'' = Some y" "task_status y = Assigned" "task_id y = ''TASK-2''"
    using t(2,3) by (auto simp: flow_task_def same_but_estimate_fields)
  have same: "?f1\<lparr>flow_prd := sample_prd\<rparr> = ?f0" by simp
  have u': "apply_schedule_revision ''FLOW-1'' ?rvn (put_flow (?f1\<lparr>flow_prd := sample_prd\<rparr>) ''FLOW-1'' changing) = Inr u"
    by (simp only: same u)
  have pushed: "try_fold push_new_task done_flow ?new = Inr ?f1" by code_simp
  have at: "bt_get (flow_changes changing) ''CHG-1'' = Some sample_change"
    "change_flow_id sample_change = ''FLOW-1''" "change_status sample_change = flow_change_status.Proposed"
    "bt_get (flows changing) ''FLOW-1'' = Some done_flow"
    by (simp_all add: changing_def sample_change_def)
  let ?u = "u\<lparr>flow_changes := bt_insert ''CHG-1'' (sample_change\<lparr>change_status := flow_change_status.Applied,
    change_resolved_at := Some 7, change_resolved_by := Some ''ada''\<rparr>) (flow_changes u)\<rparr>"
  have "apply_flow_change_applied ''FLOW-1'' ''CHG-1'' sample_prd ?new ?rvn ''ada'' 7 changing = Inr ?u"
    by (simp add: apply_flow_change_applied_def at get_flow_def pushed u')
  moreover have "apply_events ?u (map (\<lambda>t. TaskEvent (WorkRequestSent ''FLOW-1'' (task_id t) ''TEAM-1'')) [y]) = Inr ?u"
    by (rule assigned_requests_idle [where f = f2]) (use f2 y in auto)
  ultimately have run: "apply_events changing ?es = Inr ?u" using y(3) by simp
  have "org_organization changing = Some sample_organization" "bt_values (notification_endpoints changing) = []"
    "last_sequence changing = 0" by (simp_all add: changing_def staffed_facts)
  note facts = this
  have "ready work_context bt_empty changing (length ?es)" using facts(3) by (rule unlogged_ready) simp
  from ready_performs [where decide = "decide_approve_change work_context ''CHG-1'' ''ada''" and
      answer = "\<lambda>rid s. find_flow_change s rid", OF d this facts(1,2) run]
  show ?thesis by (auto simp: approve_flow_change_def find_flow_change_def found_def ok_or_def)
qed

theorem approved_changes_only_append_witness:
  "\<exists>r' db' s' f'. approve_flow_change work_context ''CHG-1'' ''ada'' (SqliteStore bt_empty, changing) = (Inr r', db', s') \<and>
    bt_get (flows s') ''FLOW-1'' = Some f' \<and> length (flow_tasks f') = 2"
proof -
  obtain r' db' s' where r: "approve_flow_change work_context ''CHG-1'' ''ada''
    (SqliteStore bt_empty, changing) = (Inr r', db', s')" using change_approved by blast
  have filed: "flows_filed changing"
    by (simp add: flows_filed_def changing_def staffed_def default_state_def keyed_def done_flow_def sample_flow_def
        sample_change_def)
  have at: "bt_get (flow_changes changing) ''CHG-1'' = Some sample_change"
    "bt_get (flows changing) (change_flow_id sample_change) = Some done_flow"
    by (simp_all add: changing_def sample_change_def)
  have names: "distinct (map task_id (flow_tasks done_flow))" "distinct (map task_key (flow_tasks done_flow))"
    by (simp_all add: done_flow_def)
  have sizes: "length (flow_tasks done_flow @ map assigned (change_new_tasks sample_change)) = 2"
    "change_flow_id sample_change = ''FLOW-1''"
    by (simp_all add: done_flow_def sample_change_def)
  from approved_changes_only_append [OF r filed at names] obtain f' where
    "bt_get (flows s') (change_flow_id sample_change) = Some f'"
    "list_all2 same_but_estimate (flow_tasks done_flow @ map assigned (change_new_tasks sample_change)) (flow_tasks f')"
    by blast
  with r sizes show ?thesis by (metis list_all2_lengthD)
qed

end
