(* ===== verification/Flight_Rules.thy ===== *)
theory Flight_Rules
  imports Rust_Library Org_State
begin

text \<open>
  What a remote flight may declare and what it may report: the validation of manifests, resources, fuel
  and output contracts (\<open>src/application/app/flights.rs\<close>), of run identifiers, reports and sandboxes
  (\<open>src/application/app/mod.rs\<close>), and the contract a landing is measured by (\<open>src/adapters/capability.rs\<close>).
\<close>

section \<open>Texts and lists\<close>

definition validate_text :: "string \<Rightarrow> string \<Rightarrow> nat \<Rightarrow> unit result" where
  "validate_text given label max_chars =
     (let value = str_trim given in
      if value = [] \<or> max_chars < chars_count value \<or> has_control value
      then Inl (relay_error.Validation
        (label @ '' must contain 1 to '' @ show_nat max_chars @ '' printable characters''))
      else Inr ())"

definition validate_list :: "string list \<Rightarrow> string \<Rightarrow> nat \<Rightarrow> nat \<Rightarrow> unit result" where
  "validate_list values label max_items max_chars =
     (if values = [] \<or> max_items < length values
      then Inl (relay_error.Validation
        (label @ '' must contain 1 to '' @ show_nat max_items @ '' entries''))
      else and_then (try_map (\<lambda>v. validate_text v label max_chars) values) (\<lambda>_. Inr ()))"

text \<open>The letters and digits of ASCII.\<close>

definition ascii_digit :: "char \<Rightarrow> bool" where
  "ascii_digit c \<longleftrightarrow> 48 \<le> (of_char c :: int) \<and> (of_char c :: int) \<le> 57"

definition ascii_alphanumeric :: "char \<Rightarrow> bool" where
  "ascii_alphanumeric c \<longleftrightarrow> ascii_digit c
     \<or> (65 \<le> (of_char c :: int) \<and> (of_char c :: int) \<le> 90) \<or> (97 \<le> (of_char c :: int) \<and> (of_char c :: int) \<le> 122)"

section \<open>Manifests\<close>

definition validate_fuel :: "fuel_budget \<Rightarrow> u64 \<Rightarrow> unit result" where
  "validate_fuel b ttl_seconds =
     (if budget_max_duration_seconds b = 0 \<or> ttl_seconds < budget_max_duration_seconds b
      then Inl (relay_error.Validation ''fuel duration must be positive and no greater than the flight TTL'')
      else if budget_max_context_bytes b = 0 \<or> 67108864 < budget_max_context_bytes b
      then Inl (relay_error.Validation ''fuel context budget must be between 1 byte and 64 MiB'')
      else if budget_max_tokens b = Some 0 \<or> budget_max_tool_calls b = Some 0
      then Inl (relay_error.Validation ''optional token and tool-call budgets must be greater than zero'')
      else if (case budget_max_cost_usd b of
                 None \<Rightarrow> False
               | Some v \<Rightarrow> \<not> f64_is_finite v \<or> f64_le v (f64_lit 0 1) \<or> f64_lt (f64_lit 100000 1) v)
      then Inl (relay_error.Validation ''fuel cost budget must be positive and at most 100000 USD'')
      else Inr ())"

text \<open>The loop stops at the first claim whose key is no text or that has been seen before.\<close>

fun check_claims :: "(resource_kind \<times> string) list \<Rightarrow> resource_claim list \<Rightarrow> unit result" where
  "check_claims seen [] = Inr ()"
| "check_claims seen (c # cs) =
     and_then (validate_text (claim_key c) ''resource key'' 512) (\<lambda>_.
       if (claim_kind c, claim_key c) \<in> set seen
       then Inl (relay_error.Validation (''duplicate resource claim '' @
         debug_resource_kind (claim_kind c) @ '':'' @ claim_key c))
       else check_claims ((claim_kind c, claim_key c) # seen) cs)"

definition validate_resources :: "resource_claim list \<Rightarrow> unit result" where
  "validate_resources resources =
     (if resources = [] \<or> 32 < length resources
      then Inl (relay_error.Validation ''a flight must claim between 1 and 32 resources'')
      else check_claims [] resources)"

definition extension_ok :: "string \<Rightarrow> bool" where
  "extension_ok e \<longleftrightarrow>
     e \<noteq> [] \<and> length e \<le> 16 \<and> \<not> starts_with e ''.'' \<and> list_all ascii_alphanumeric e"

definition validate_output_contract :: "capability_pack \<Rightarrow> output_contract \<Rightarrow> unit result" where
  "validate_output_contract pack c =
     (if 100 < contract_min_deliverables c \<or> 64 < length (contract_allowed_extensions c)
      then Inl (relay_error.Validation ''output contract exceeds deliverable or extension limits'')
      else if \<not> (list_all extension_ok (contract_allowed_extensions c)
                 \<and> distinct (map to_ascii_lowercase (contract_allowed_extensions c)))
      then Inl (relay_error.Validation ''output contract contains an invalid or duplicate file extension'')
      else if pack = Office \<and> contract_allowed_extensions c = []
      then Inl (relay_error.Validation ''office flights require an explicit artifact extension allowlist'')
      else if pack = Office \<and> \<not> contract_requires_human_release c
      then Inl (PermissionDenied ''office artifacts require Human release in this version'')
      else Inr ())"

definition validate_recovery :: "recovery_policy \<Rightarrow> unit result" where
  "validate_recovery r =
     (if \<not> (1 \<le> policy_max_attempts r \<and> policy_max_attempts r \<le> 10) \<or> policy_allowed_actions r = []
      then Inl (relay_error.Validation ''recovery policy requires 1 to 10 attempts and at least one action'')
      else if \<not> distinct (policy_allowed_actions r)
      then Inl (relay_error.Validation ''recovery policy contains duplicate actions'')
      else Inr ())"

text \<open>What a manifest says where its draft says nothing.\<close>

definition given_or :: "'a list \<Rightarrow> 'a list \<Rightarrow> 'a list" where
  "given_or given fallback = (if given = [] then fallback else given)"

definition default_context_refs :: "org_state \<Rightarrow> flow \<Rightarrow> task \<Rightarrow> string list" where
  "default_context_refs s f t =
     [''flow://'' @ flow_id f @ ''/prd'', ''task://'' @ task_id t] @
     map (\<lambda>m. ''message://'' @ message_id m)
       (filter (\<lambda>m. message_flow_id m = flow_id f
                  \<and> (case message_task_id m of None \<Rightarrow> True | Some tid \<Rightarrow> tid = task_id t))
         (bt_values (messages s)))"

definition default_tool_permissions :: "tool_permission list" where
  "default_tool_permissions =
     [\<lparr>permission_tool = ''filesystem'', permission_access = Write\<rparr>,
      \<lparr>permission_tool = ''git'', permission_access = Execute\<rparr>]"

definition default_resources :: "task \<Rightarrow> resource_claim list" where
  "default_resources t = [\<lparr>claim_kind = Workspace, claim_key = task_id t, claim_exclusive = True\<rparr>]"

definition flow_repository_ref :: "org_state \<Rightarrow> flow \<Rightarrow> repository_ref option" where
  "flow_repository_ref s f =
     map_option (\<lambda>r. \<lparr>repository_ref_id = repository_id r, repository_ref_name = repository_name r,
                      repository_ref_gitlab_project_path = repository_gitlab_project_path r,
                      repository_ref_branch = repository_default_branch r\<rparr>)
       (Option.bind (flow_repository_id f) (bt_get (repositories s)))"

definition with_default :: "'a option \<Rightarrow> 'a \<Rightarrow> 'a" where
  "with_default x d = (case x of Some v \<Rightarrow> v | None \<Rightarrow> d)"

lemma with_default_simps [simp]: "with_default None d = d" "with_default (Some v) d = v"
  by (simp_all add: with_default_def)

definition build_flight_manifest ::
    "string \<Rightarrow> instant \<Rightarrow> org_state \<Rightarrow> flow \<Rightarrow> task \<Rightarrow> principal \<Rightarrow> u64 \<Rightarrow> flight_manifest_draft
      \<Rightarrow> flight_manifest result" where
  "build_flight_manifest mid declared_at s f t human ttl_seconds d =
     (let pack = with_default (draft_capability_pack d) General;
          objective = with_default (draft_objective d) (task_title t @ '': '' @ task_description t);
          landing = given_or (draft_landing_conditions d) (task_acceptance_criteria t);
          refs = sort_dedup (given_or (draft_context_refs d) (default_context_refs s f t));
          tools = given_or (draft_tool_permissions d) default_tool_permissions;
          fuel = with_default (draft_fuel d)
            (default_fuel_budget\<lparr>budget_max_duration_seconds := ttl_seconds\<rparr>);
          recovery = with_default (draft_recovery d) default_recovery_policy;
          resources = given_or (draft_resources d) (default_resources t);
          contract = with_default (draft_output_contract d) (output_contract_for_pack pack) in
      and_then (validate_text objective ''flight objective'' 4000) (\<lambda>_.
      and_then (validate_list landing ''landing conditions'' 32 1000) (\<lambda>_.
      and_then (validate_list refs ''context references'' 128 2000) (\<lambda>_.
        if 64 < length tools
        then Inl (relay_error.Validation ''a flight can declare at most 64 tool permissions'')
        else
          and_then (try_map (\<lambda>p. validate_text (permission_tool p) ''tool permission'' 100) tools) (\<lambda>_.
          and_then (validate_fuel fuel ttl_seconds) (\<lambda>_.
          and_then (validate_recovery recovery) (\<lambda>_.
          and_then (validate_resources resources) (\<lambda>_.
          and_then (validate_output_contract pack contract) (\<lambda>_.
            Inr \<lparr>manifest_id = mid,
                 manifest_repository =
                   (case draft_repository d of Some r \<Rightarrow> Some r | None \<Rightarrow> flow_repository_ref s f),
                 manifest_objective = objective,
                 manifest_landing_conditions = landing,
                 manifest_context_refs = refs,
                 manifest_tool_permissions = tools,
                 manifest_fuel = fuel,
                 manifest_recovery = recovery,
                 manifest_resources = resources,
                 manifest_capability_pack = pack,
                 manifest_output_contract = contract,
                 manifest_declared_by = principal_name human,
                 manifest_declared_at = declared_at\<rparr>)))))))))"

section \<open>Reports\<close>

definition validate_run_id :: "string \<Rightarrow> unit result" where
  "validate_run_id r =
     (if r = [] \<or> 100 < length r \<or> \<not> list_all (\<lambda>c. ascii_alphanumeric c \<or> c = CHR ''-'' \<or> c = CHR ''_'') r
      then Inl (relay_error.Validation ''invalid remote flight run ID'') else Inr ())"

definition is_sha256 :: "string \<Rightarrow> bool" where
  "is_sha256 v \<longleftrightarrow>
     length v = 64 \<and>
     list_all (\<lambda>c. ascii_digit c \<or> (97 \<le> (of_char c :: int) \<and> (of_char c :: int) \<le> 102)) v"

definition denied_environment :: "string list" where
  "denied_environment =
     [''RELAY_TOKEN'', ''DOCKER_HOST'', ''DOCKER_TLS_VERIFY'', ''DOCKER_CERT_PATH'', ''HOME'', ''PATH'']"

definition environment_name_ok :: "string \<Rightarrow> bool" where
  "environment_name_ok v \<longleftrightarrow>
     v \<noteq> [] \<and> length v \<le> 128 \<and> \<not> ascii_digit (hd v)
     \<and> list_all (\<lambda>c. ascii_alphanumeric c \<or> c = CHR ''_'') v \<and> v \<notin> set denied_environment"

definition validate_forwarded_environment :: "string list \<Rightarrow> unit result" where
  "validate_forwarded_environment names =
     (if 64 < length names
      then Inl (relay_error.Validation ''sandbox report contains too many forwarded environment variables'')
      else if \<not> (list_all environment_name_ok names \<and> distinct names)
      then Inl (relay_error.Validation
        ''sandbox report contains an invalid, denied, or duplicate environment name'')
      else Inr ())"

text \<open>\<open>str::parse::<u32>\<close>: an optional plus sign, then digits, within the range of the type.\<close>

definition parse_u32 :: "string \<Rightarrow> nat option" where
  "parse_u32 v =
     (let digits = (case v of c # cs \<Rightarrow> if c = CHR ''+'' then cs else v | [] \<Rightarrow> []) in
      if digits = [] \<or> \<not> list_all ascii_digit digits \<or> 2 ^ 32 \<le> digits_value digits
      then None else Some (digits_value digits))"

definition positive_u32 :: "string \<Rightarrow> bool" where
  "positive_u32 v \<longleftrightarrow> (case parse_u32 v of None \<Rightarrow> False | Some n \<Rightarrow> 0 < n)"

definition image_ok :: "string option \<Rightarrow> bool" where
  "image_ok named \<longleftrightarrow>
     (case named of
        None \<Rightarrow> False
      | Some i \<Rightarrow> i \<noteq> [] \<and> length i \<le> 512 \<and> \<not> starts_with i ''-''
                 \<and> \<not> list_ex (contains i) whitespace \<and> \<not> has_control i)"

definition image_id_ok :: "string option \<Rightarrow> bool" where
  "image_id_ok image_id \<longleftrightarrow>
     (case image_id of
        None \<Rightarrow> False
      | Some i \<Rightarrow> starts_with i ''sha256:'' \<and> is_sha256 (drop (length ''sha256:'') i))"

text \<open>\<open>split_once\<close> on a colon: what follows the first one may contain others.\<close>

definition sandbox_user_ok :: "string option \<Rightarrow> bool" where
  "sandbox_user_ok user \<longleftrightarrow>
     (case user of
        None \<Rightarrow> False
      | Some u \<Rightarrow>
          (let uid = takeWhile (\<lambda>c. c \<noteq> CHR '':'') u; rest = drop (length uid) u in
           rest \<noteq> [] \<and> positive_u32 uid \<and> positive_u32 (tl rest)))"

definition within :: "'a::linorder \<Rightarrow> 'a \<Rightarrow> 'a option \<Rightarrow> bool" where
  "within lo hi v \<longleftrightarrow> (case v of None \<Rightarrow> False | Some x \<Rightarrow> lo \<le> x \<and> x \<le> hi)"

definition host_process :: "execution_sandbox_report \<Rightarrow> bool" where
  "host_process r \<longleftrightarrow>
     sandbox_image r = None \<and> sandbox_image_id r = None \<and> sandbox_network r = ''host''
     \<and> \<not> sandbox_root_read_only r \<and> sandbox_user r = None \<and> sandbox_cpus_millis r = None
     \<and> sandbox_memory_bytes r = None \<and> sandbox_pids_limit r = None \<and> sandbox_forwarded_environment r = []"

definition closed_runtime :: "execution_sandbox_report \<Rightarrow> bool" where
  "closed_runtime r \<longleftrightarrow>
     image_ok (sandbox_image r) \<and> image_id_ok (sandbox_image_id r)
     \<and> sandbox_network r \<in> {''none'', ''bridge''} \<and> sandbox_root_read_only r
     \<and> sandbox_user_ok (sandbox_user r) \<and> within 100 64000 (sandbox_cpus_millis r)
     \<and> within 134217728 274877906944 (sandbox_memory_bytes r) \<and> within 16 32768 (sandbox_pids_limit r)"

definition validate_execution_sandbox_report :: "execution_sandbox_report \<Rightarrow> unit result" where
  "validate_execution_sandbox_report r =
     (if sandbox_backend r = ''process'' then
        (if \<not> host_process r
         then Inl (relay_error.Validation ''process sandbox report contains contradictory isolation claims'')
         else Inr ())
      else if sandbox_backend r = ''docker'' then
        (if \<not> closed_runtime r
         then Inl (relay_error.Validation
           ''Docker sandbox report does not describe a closed, bounded runtime'')
         else validate_forwarded_environment (sandbox_forwarded_environment r))
      else Inl (relay_error.Validation ''remote flight report uses an unknown sandbox backend''))"

definition exceeds :: "'a::linorder option \<Rightarrow> 'a \<Rightarrow> bool" where
  "exceeds v limit \<longleftrightarrow> (case v of None \<Rightarrow> False | Some x \<Rightarrow> limit < x)"

definition implausible_fuel :: "fuel_usage \<Rightarrow> bool" where
  "implausible_fuel u \<longleftrightarrow>
     604800 < usage_duration_seconds u \<or> 67108864 < usage_context_bytes u
     \<or> exceeds (usage_tokens u) 1000000000 \<or> exceeds (usage_tool_calls u) 1000000"

definition invalid_cost :: "f64 option \<Rightarrow> bool" where
  "invalid_cost cost \<longleftrightarrow>
     (case cost of None \<Rightarrow> False | Some v \<Rightarrow> \<not> f64_is_finite v \<or> f64_lt v (f64_lit 0 1))"

text \<open>A path that leaves the work tree: absolute, or with a component \<open>..\<close>.\<close>

definition unsafe_path :: "string \<Rightarrow> bool" where
  "unsafe_path p \<longleftrightarrow>
     p = [] \<or> 1024 < length p \<or> starts_with p ''/'' \<or> ''..'' \<in> set (split_on (CHR ''/'') p)"

definition validate_remote_flight_report :: "flight_lease \<Rightarrow> remote_flight_report \<Rightarrow> unit result" where
  "validate_remote_flight_report l r =
     and_then (validate_run_id (report_run_id r)) (\<lambda>_.
       if lease_run_id l \<noteq> Some (report_run_id r)
       then Inl (relay_error.Validation ''remote flight report run ID does not match its lease'')
       else if lease_executor l \<noteq> report_executor r
       then Inl (relay_error.Validation ''remote flight report executor does not match its lease'')
       else if str_trim (report_summary r) = [] \<or> 4000 < chars_count (report_summary r)
       then Inl (relay_error.Validation ''remote flight report summary must contain 1 to 4000 characters'')
       else if str_trim (report_base_revision r) = [] \<or> 128 < length (report_base_revision r)
       then Inl (relay_error.Validation ''remote flight report has an invalid base revision'')
       else if report_finished_at r < report_started_at r
       then Inl (relay_error.Validation ''remote flight report finishes before it starts'')
       else if invalid_cost (usage_cost_usd (report_fuel r))
       then Inl (relay_error.Validation ''remote flight report contains invalid fuel cost'')
       else if implausible_fuel (report_fuel r)
       then Inl (relay_error.Validation ''remote flight report contains implausible fuel usage'')
       else if \<not> is_sha256 (report_log_sha256 r)
               \<or> (case report_patch_sha256 r of None \<Rightarrow> False | Some h \<Rightarrow> \<not> is_sha256 h)
       then Inl (relay_error.Validation ''remote flight report contains an invalid SHA-256 digest'')
       else if (report_patch_sha256 r \<noteq> None) = (report_changed_files r = [])
       then Inl (relay_error.Validation
         ''remote flight patch digest and changed-file list do not agree'')
       else if 1000 < length (report_changed_files r) \<or> list_ex unsafe_path (report_changed_files r)
       then Inl (relay_error.Validation ''remote flight report contains an unsafe changed-file path'')
       else (case report_sandbox r of None \<Rightarrow> Inr () | Some b \<Rightarrow> validate_execution_sandbox_report b))"

text \<open>The derived equality of reports compares the cost as a float.\<close>

definition report_eq :: "remote_flight_report \<Rightarrow> remote_flight_report \<Rightarrow> bool" where
  "report_eq a b \<longleftrightarrow>
     fuel_usage_eq (report_fuel a) (report_fuel b) \<and> a\<lparr>report_fuel := report_fuel b\<rparr> = b"

section \<open>Landing\<close>

definition measured_seconds :: "remote_flight_report \<Rightarrow> int" where
  "measured_seconds r = max ((report_finished_at r - report_started_at r) div 1000000000) 0"

definition flight_seconds :: "remote_flight_report \<Rightarrow> int" where
  "flight_seconds r = max (uint (usage_duration_seconds (report_fuel r))) (measured_seconds r)"

text \<open>A limit that both sides name is exceeded when the use is above it.\<close>

definition over_limit :: "('a \<Rightarrow> 'a \<Rightarrow> bool) \<Rightarrow> ('a \<Rightarrow> 'a \<Rightarrow> string) \<Rightarrow> 'a option \<Rightarrow> 'a option \<Rightarrow> string list" where
  "over_limit lower note_of used limit =
     (case (used, limit) of (Some u, Some l) \<Rightarrow> if lower l u then [note_of u l] else [] | _ \<Rightarrow> [])"

definition fuel_exhaustions :: "flight_lease \<Rightarrow> remote_flight_report \<Rightarrow> string list" where
  "fuel_exhaustions l r =
     (case lease_manifest l of
        None \<Rightarrow> []
      | Some m \<Rightarrow>
          (let b = manifest_fuel m; u = report_fuel r in
           (if uint (budget_max_duration_seconds b) < flight_seconds r
            then [''duration '' @ show_int (flight_seconds r) @ ''s exceeded '' @
                  show_nat (unat (budget_max_duration_seconds b)) @ ''s''] else []) @
           (if budget_max_context_bytes b < usage_context_bytes u
            then [''context '' @ show_nat (unat (usage_context_bytes u)) @ '' bytes exceeded '' @
                  show_nat (unat (budget_max_context_bytes b)) @ '' bytes''] else []) @
           over_limit (<)
             (\<lambda>x y. ''tokens '' @ show_nat (unat x) @ '' exceeded '' @ show_nat (unat y))
             (usage_tokens u) (budget_max_tokens b) @
           over_limit (<)
             (\<lambda>x y. ''tool calls '' @ show_nat (unat x) @ '' exceeded '' @ show_nat (unat y))
             (usage_tool_calls u) (budget_max_tool_calls b) @
           over_limit f64_lt
             (\<lambda>x y. ''cost $'' @ show_f64 4 x @ '' exceeded $'' @ show_f64 4 y)
             (usage_cost_usd u) (budget_max_cost_usd b)))"

text \<open>What a worker is told, by the pack its flight runs under.\<close>

fun execution_directive :: "capability_pack \<Rightarrow> string" where
  "execution_directive Coding =
     ''Implement the scoped code change, run relevant checks, and leave source changes in the isolated worktree. Do not push, merge, change remotes, or access credentials.''"
| "execution_directive Office =
     ''Create or edit only the declared office deliverables in the isolated worktree. Do not send email, invite attendees, publish, upload to cloud storage, or use external credentials. Produce reviewable drafts for Human release.''"
| "execution_directive General =
     ''Produce the scoped deliverable inside the isolated worktree. Do not push, publish, send externally, change remotes, or access credentials.''"

definition derive_deliverables :: "string list \<Rightarrow> bool \<Rightarrow> flight_deliverable list" where
  "derive_deliverables changed release = map (\<lambda>p. deliverable_from_path p release) changed"

definition extension_allowed :: "output_contract \<Rightarrow> flight_deliverable \<Rightarrow> bool" where
  "extension_allowed c d \<longleftrightarrow>
     (case map_option to_ascii_lowercase (path_extension (deliverable_path d)) of
        None \<Rightarrow> False
      | Some e \<Rightarrow> list_ex (\<lambda>allowed. eq_ignore_ascii_case allowed e) (contract_allowed_extensions c))"

definition contract_violations :: "output_contract \<Rightarrow> flight_deliverable list \<Rightarrow> string list" where
  "contract_violations c ds =
     (if length ds < unat (contract_min_deliverables c)
      then [show_nat (length ds) @ '' deliverable(s) produced; at least '' @
            show_nat (unat (contract_min_deliverables c)) @ '' required''] else []) @
     (if contract_allowed_extensions c = [] then []
      else map (\<lambda>d. ''deliverable '' @ deliverable_path d @ '' is outside the extension allowlist'')
             (filter (\<lambda>d. \<not> extension_allowed c d) ds))"

definition normalize_deliverables :: "flight_lease \<Rightarrow> string list \<Rightarrow> flight_deliverable list" where
  "normalize_deliverables l changed =
     derive_deliverables changed
       (case lease_manifest l of
          None \<Rightarrow> True
        | Some m \<Rightarrow> contract_requires_human_release (manifest_output_contract m))"

definition is_staged :: "org_state \<Rightarrow> flight_lease \<Rightarrow> flight_deliverable \<Rightarrow> bool" where
  "is_staged s l d \<longleftrightarrow>
     list_ex (\<lambda>a. staged_flight_lease_id a = lease_id l \<and> staged_path a = deliverable_path d)
       (bt_values (staged_artifacts s))"

definition output_contract_violations ::
    "org_state \<Rightarrow> flight_lease \<Rightarrow> remote_flight_report \<Rightarrow> string list" where
  "output_contract_violations s l r =
     (case lease_manifest l of
        None \<Rightarrow> []
      | Some m \<Rightarrow>
          contract_violations (manifest_output_contract m) (report_deliverables r) @
          (if manifest_capability_pack m = Office
           then map (\<lambda>d. ''Office deliverable was not staged with immutable content: '' @ deliverable_path d)
                  (filter (\<lambda>d. \<not> is_staged s l d) (report_deliverables r))
           else []))"

section \<open>Recovery\<close>

fun recommendations_for :: "failure_class option \<Rightarrow> recovery_action list" where
  "recommendations_for (Some Timeout) = [Retry, SwitchExecutor]"
| "recommendations_for (Some Permission) = [HumanHandoff, Ground]"
| "recommendations_for (Some Resource) = [Retry, ReduceScope]"
| "recommendations_for (Some Budget) = [ReduceScope, HumanHandoff]"
| "recommendations_for (Some failure_class.Validation) = [ReduceScope, Ground]"
| "recommendations_for (Some Tool) = [SwitchExecutor, Retry]"
| "recommendations_for (Some Unknown) = [Retry, SwitchExecutor, HumanHandoff]"
| "recommendations_for None = [Retry, SwitchExecutor, HumanHandoff]"

end
