(* ===== verification/App_Flight.thy ===== *)
theory App_Flight
  imports App_Task Flight_Rules
begin

text \<open>
  The clearance of remote flights (\<open>src/application/app/flights.rs\<close> and the flight commands of
  \<open>src/application/app/mod.rs\<close>): a human authorizes an agent they own to run a task, the agent claims the
  lease once, and what it reports decides whether the flight landed. A flight holds its resources from
  its authorization to its end. A crashed flight can be recovered, a bounded number of times.
\<close>

section \<open>Resources\<close>

definition ensure_resource_claims_available ::
    "call_context \<Rightarrow> org_state \<Rightarrow> resource_claim list \<Rightarrow> instant \<Rightarrow> unit result" where
  "ensure_resource_claims_available ctx s wanted now =
     and_then (try_map (\<lambda>c.
         (case List.find (\<lambda>l. conflicts_with l c now) (bt_values (resource_leases s)) of
            None \<Rightarrow> Inr ()
          | Some l \<Rightarrow> Inl (InvalidTransition (''resource '' @ debug_resource_kind (claim_kind c) @ '':'' @
              claim_key c @ '' is leased by flight '' @ resource_flight_lease_id l @ '' until '' @
              ctx_show_time ctx (resource_expires_at l))))) wanted)
       (\<lambda>_. Inr ())"

text \<open>A resource outlives the clearance by the duration the flight may take; \<open>as i64\<close> reads the sign.\<close>

definition resource_term :: "flight_lease \<Rightarrow> instant" where
  "resource_term l =
     lease_expires_at l +
       (case lease_manifest l of
          None \<Rightarrow> 0
        | Some m \<Rightarrow> sint (budget_max_duration_seconds (manifest_fuel m)) * 1000000000)"

text \<open>The identifiers start at the \<open>u\<close>-th of the command.\<close>

definition acquired_lease :: "call_context \<Rightarrow> nat \<Rightarrow> flight_lease \<Rightarrow> nat \<times> resource_claim \<Rightarrow> resource_lease" where
  "acquired_lease ctx u l = (\<lambda>(i, c).
     \<lparr>resource_id = new_id ''RESOURCE'' (ctx_uuid ctx (u + i)),
      resource_flight_lease_id = lease_id l,
      resource_flow_id = lease_flow_id l,
      resource_task_id = lease_task_id l,
      resource_principal_id = lease_principal_id l,
      resource_claim = c,
      resource_status = resource_lease_status.Active,
      resource_issued_at = lease_issued_at l,
      resource_expires_at = resource_term l,
      resource_released_at = None,
      resource_release_reason = None\<rparr>)"

definition resource_acquisition_events ::
    "call_context \<Rightarrow> nat \<Rightarrow> flight_lease \<Rightarrow> resource_claim list \<Rightarrow> domain_event list" where
  "resource_acquisition_events ctx u l wanted =
     map (\<lambda>c. FlightEvent (ResourceLeaseAcquired (acquired_lease ctx u l c))) (List.enumerate 0 wanted)"

definition held_by :: "org_state \<Rightarrow> string \<Rightarrow> resource_lease list" where
  "held_by s lid =
     filter (\<lambda>l. resource_flight_lease_id l = lid \<and> resource_status l = resource_lease_status.Active)
       (bt_values (resource_leases s))"

definition resource_release_events :: "org_state \<Rightarrow> flight_lease \<Rightarrow> instant \<Rightarrow> string \<Rightarrow> domain_event list" where
  "resource_release_events s l at reason =
     map (\<lambda>x. FlightEvent (ResourceLeaseReleased (lease_flow_id l) (lease_task_id l) (resource_id x) at reason))
       (held_by s (lease_id l))"

section \<open>Expiry\<close>

definition overdue :: "instant \<Rightarrow> flight_lease \<Rightarrow> bool" where
  "overdue now l \<longleftrightarrow> lease_status l = Authorized \<and> lease_expires_at l \<le> now"

definition expiry_events :: "org_state \<Rightarrow> instant \<Rightarrow> flight_lease list \<Rightarrow> domain_event list" where
  "expiry_events s now expired =
     concat (map (\<lambda>l.
         FlightEvent (RemoteFlightExpired (lease_flow_id l) (lease_task_id l) (lease_id l) now) #
         resource_release_events s l now ''flight clearance expired'') expired)"

definition expire_remote_flights_at :: "call_context \<Rightarrow> string \<Rightarrow> instant \<Rightarrow> nat command" where
  "expire_remote_flights_at ctx actor now = (\<lambda>(db, s).
     (let expired = filter (overdue now) (bt_values (flight_leases s)) in
      if expired = [] then (Inr 0, db, s)
      else perform ctx (\<lambda>s. Inr (actor, expiry_events s now expired, length expired)) answer_with (db, s)))"

definition expire_remote_flights :: "call_context \<Rightarrow> string \<Rightarrow> nat command" where
  "expire_remote_flights ctx actor = expire_remote_flights_at ctx actor (ctx_clock ctx 0)"

definition lease_reaper :: string where
  "lease_reaper = ''tower://lease-reaper''"

section \<open>Authorization\<close>

definition find_flight_lease :: "org_state \<Rightarrow> string \<Rightarrow> flight_lease result" where
  "find_flight_lease s lid = found ''flight lease'' lid (bt_get (flight_leases s) lid)"

definition ttl_ok :: "u64 \<Rightarrow> bool" where
  "ttl_ok ttl_seconds \<longleftrightarrow> 60 \<le> ttl_seconds \<and> ttl_seconds \<le> 86400"

definition is_open :: "instant \<Rightarrow> flight_lease \<Rightarrow> bool" where
  "is_open now l \<longleftrightarrow> lease_status l = flight_lease_status.Active \<or> is_claimable_at l now"

text \<open>Who may fly what: the human, the worker, the flow and the task of an authorization.\<close>

definition check_authorization ::
    "org_state \<Rightarrow> string \<Rightarrow> string \<Rightarrow> string \<Rightarrow> u64 \<Rightarrow> (flow \<times> task \<times> principal \<times> principal) result" where
  "check_authorization s tid authorized_by worker ttl_seconds =
     (if \<not> ttl_ok ttl_seconds
      then Inl (relay_error.Validation ''flight lease TTL must be between 60 and 86400 seconds'')
      else
        and_then (task_snapshot s tid) (\<lambda>(f, t).
        and_then (ensure_status t [Accepted, InProgress, task_status.Blocked]) (\<lambda>_.
        and_then (ensure_dependencies_complete f t) (\<lambda>_.
        and_then (ensure_task_actor s t authorized_by) (\<lambda>_.
        and_then (get_principal s authorized_by) (\<lambda>human.
          if principal_kind human \<noteq> principal_kind.Human
          then Inl (PermissionDenied ''remote write authorization requires a human'')
          else
            and_then (get_principal s worker) (\<lambda>agent.
              if principal_kind agent \<noteq> principal_kind.Agent
              then Inl (relay_error.Validation ''a remote flight lease can only target an agent'')
              else if principal_owner_id agent \<noteq> Some (principal_id human)
              then Inl (PermissionDenied (principal_name human @ '' can only authorize a personal agent they own''))
              else
                and_then (ensure_task_actor s t (principal_name agent)) (\<lambda>_.
                  Inr (f, t, human, agent)))))))))"

definition authorized_lease ::
    "string \<Rightarrow> flow \<Rightarrow> task \<Rightarrow> principal \<Rightarrow> principal \<Rightarrow> executor_kind \<Rightarrow> u64 \<Rightarrow> instant \<Rightarrow> flight_manifest
      \<Rightarrow> flight_lease" where
  "authorized_lease lid f t human agent executor ttl_seconds now manifest =
     \<lparr>lease_id = lid,
      lease_flow_id = flow_id f,
      lease_task_id = task_id t,
      lease_principal_id = principal_id agent,
      lease_principal_name = principal_name agent,
      lease_authorized_by = principal_name human,
      lease_executor = executor,
      lease_status = Authorized,
      lease_issued_at = now,
      lease_expires_at = now + sint ttl_seconds * 1000000000,
      lease_claimed_at = None,
      lease_finished_at = None,
      lease_run_id = None,
      lease_report = None,
      lease_manifest = Some manifest,
      lease_parent_lease_id = None,
      lease_root_lease_id = Some lid,
      lease_attempt = 1\<rparr>"

definition decide_authorize_flight ::
    "call_context \<Rightarrow> string \<Rightarrow> string \<Rightarrow> string \<Rightarrow> executor_kind \<Rightarrow> u64 \<Rightarrow> flight_manifest_draft \<Rightarrow> org_state
      \<Rightarrow> flight_lease decision result" where
  "decide_authorize_flight ctx tid authorized_by worker executor ttl_seconds draft s =
     and_then (check_authorization s tid authorized_by worker ttl_seconds) (\<lambda>(f, t, human, agent).
       let now = ctx_clock ctx 0 in
       if list_ex (\<lambda>l. lease_task_id l = task_id t \<and> lease_principal_id l = principal_id agent \<and> is_open now l)
            (bt_values (flight_leases s))
       then Inl (InvalidTransition (''task '' @ task_id t @ '' already has an open flight lease for '' @
         principal_name agent))
       else
         and_then (build_flight_manifest (new_id ''MANIFEST'' (ctx_uuid ctx 0)) (ctx_clock ctx 1) s f t human
                     ttl_seconds draft) (\<lambda>manifest.
         and_then (ensure_resource_claims_available ctx s (manifest_resources manifest) now) (\<lambda>_.
           let l = authorized_lease (new_id ''LEASE'' (ctx_uuid ctx 1)) f t human agent executor ttl_seconds now manifest
           in Inr (principal_name human,
                FlightEvent (RemoteFlightAuthorized l) #
                resource_acquisition_events ctx 2 l (manifest_resources manifest), l))))"

text \<open>The expired clearances are reaped first, by a commit of its own.\<close>

definition authorize_remote_flight_with_manifest ::
    "call_context \<Rightarrow> call_context \<Rightarrow> string \<Rightarrow> string \<Rightarrow> string \<Rightarrow> executor_kind \<Rightarrow> u64 \<Rightarrow> flight_manifest_draft
      \<Rightarrow> flight_lease command" where
  "authorize_remote_flight_with_manifest reap ctx tid authorized_by worker executor ttl_seconds draft =
     cmd_then (expire_remote_flights reap lease_reaper) (\<lambda>_.
       perform ctx (decide_authorize_flight ctx tid authorized_by worker executor ttl_seconds draft) answer_with)"

definition authorize_remote_flight ::
    "call_context \<Rightarrow> call_context \<Rightarrow> string \<Rightarrow> string \<Rightarrow> string \<Rightarrow> executor_kind \<Rightarrow> u64 \<Rightarrow> flight_lease command" where
  "authorize_remote_flight reap ctx tid authorized_by worker executor ttl_seconds =
     authorize_remote_flight_with_manifest reap ctx tid authorized_by worker executor ttl_seconds
       default_flight_manifest_draft"

section \<open>Listing and revoking\<close>

definition may_see_lease :: "org_state \<Rightarrow> principal \<Rightarrow> flight_lease \<Rightarrow> bool" where
  "may_see_lease s p l \<longleftrightarrow>
     (case principal_kind p of
        principal_kind.Agent \<Rightarrow> lease_principal_id l = principal_id p
      | principal_kind.Human \<Rightarrow>
          lease_authorized_by l = principal_name p
          \<or> Option.bind (bt_get (principals s) (lease_principal_id l)) principal_owner_id = Some (principal_id p)
          \<or> (case bt_get (flows s) (lease_flow_id l) of
               None \<Rightarrow> False
             | Some f \<Rightarrow> demand_requester (flow_demand f) = principal_name p
                        \<or> demand_requester (flow_demand f) = principal_id p))"

definition remote_flight_leases :: "org_state \<Rightarrow> instant \<Rightarrow> string \<Rightarrow> bool \<Rightarrow> flight_lease list result" where
  "remote_flight_leases s now who include_terminal =
     and_then (get_principal s who) (\<lambda>p.
       Inr (sort_key (\<lambda>l. - lease_issued_at l)
         (filter (\<lambda>l. include_terminal \<or> is_open now l)
           (filter (may_see_lease s p) (bt_values (flight_leases s))))))"

definition decide_revoke_flight :: "call_context \<Rightarrow> string \<Rightarrow> string \<Rightarrow> org_state \<Rightarrow> string decision result" where
  "decide_revoke_flight ctx lid actor s =
     and_then (get_principal s actor) (\<lambda>p.
       if principal_kind p \<noteq> principal_kind.Human
       then Inl (PermissionDenied ''flight lease revocation requires a human'')
       else
         and_then (find_flight_lease s lid) (\<lambda>l.
           if lease_authorized_by l \<noteq> principal_name p
           then Inl (PermissionDenied (''only '' @ lease_authorized_by l @ '' can revoke flight lease '' @ lease_id l))
           else if lease_status l \<noteq> Authorized
           then Inl (InvalidTransition (''flight lease '' @ lease_id l @ '' is '' @
             debug_flight_lease_status (lease_status l) @ ''; only an unclaimed lease can be revoked''))
           else
             let at = ctx_clock ctx 0 in
             Inr (principal_name p,
               FlightEvent (RemoteFlightRevoked (lease_flow_id l) (lease_task_id l) (lease_id l) (principal_name p) at) #
               resource_release_events s l at ''flight revoked'', lid)))"

definition revoke_remote_flight :: "call_context \<Rightarrow> string \<Rightarrow> string \<Rightarrow> flight_lease command" where
  "revoke_remote_flight ctx lid actor =
     perform ctx (decide_revoke_flight ctx lid actor) (\<lambda>lid s. find_flight_lease s lid)"

section \<open>Claiming\<close>

definition decide_claim_flight ::
    "call_context \<Rightarrow> string \<Rightarrow> string \<Rightarrow> string \<Rightarrow> org_state \<Rightarrow> string decision result" where
  "decide_claim_flight ctx lid actor run_id s =
     and_then (validate_run_id run_id) (\<lambda>_.
     and_then (get_principal s actor) (\<lambda>p.
       if principal_kind p \<noteq> principal_kind.Agent
       then Inl (PermissionDenied ''only the authorized remote agent can claim a flight lease'')
       else
         and_then (find_flight_lease s lid) (\<lambda>l.
           if lease_principal_id l \<noteq> principal_id p
           then Inl (PermissionDenied (''flight lease '' @ lease_id l @ '' belongs to another agent''))
           else
             let now = ctx_clock ctx 0 in
             if \<not> is_claimable_at l now
             then Inl (InvalidTransition
               (if lease_expires_at l \<le> now then ''flight lease '' @ lease_id l @ '' has expired''
                else ''flight lease '' @ lease_id l @ '' is '' @ debug_flight_lease_status (lease_status l)))
             else
               and_then (task_snapshot s (lease_task_id l)) (\<lambda>(f, t).
               and_then (ensure_status t [Accepted, InProgress, task_status.Blocked]) (\<lambda>_.
               and_then (ensure_dependencies_complete f t) (\<lambda>_.
               and_then (ensure_task_actor s t (principal_name p)) (\<lambda>_.
                 Inr (principal_name p,
                   (if task_status t \<noteq> InProgress
                    then [TaskEvent (TaskStarted (flow_id f) (task_id t) (principal_name p) now)] else []) @
                   [FlightEvent (RemoteFlightClaimed (lease_flow_id l) (lease_task_id l) (lease_id l) run_id now)],
                   lid))))))))"

definition claim_remote_flight :: "call_context \<Rightarrow> string \<Rightarrow> string \<Rightarrow> string \<Rightarrow> flight_lease command" where
  "claim_remote_flight ctx lid actor run_id =
     perform ctx (decide_claim_flight ctx lid actor run_id) (\<lambda>lid s. find_flight_lease s lid)"

section \<open>Finishing\<close>

text \<open>What the tower makes of a report: the deliverables and the two lists of objections are its own.\<close>

definition assessed :: "org_state \<Rightarrow> flight_lease \<Rightarrow> remote_flight_report \<Rightarrow> remote_flight_report" where
  "assessed s l given =
     (let r = given\<lparr>report_deliverables := normalize_deliverables l (report_changed_files given)\<rparr>;
          r' = r\<lparr>report_contract_violations := output_contract_violations s l r\<rparr> in
      r'\<lparr>report_budget_exhaustions := fuel_exhaustions l r'\<rparr>)"

definition effectively_landed :: "bool \<Rightarrow> remote_flight_report \<Rightarrow> bool" where
  "effectively_landed landed r \<longleftrightarrow>
     landed \<and> report_budget_exhaustions r = [] \<and> report_contract_violations r = []"

definition classified :: "bool \<Rightarrow> remote_flight_report \<Rightarrow> remote_flight_report" where
  "classified landed r =
     (if \<not> effectively_landed landed r \<and> report_failure_class r = None
      then r\<lparr>report_failure_class := Some
             (if report_budget_exhaustions r \<noteq> [] then Budget
              else if report_contract_violations r \<noteq> [] then failure_class.Validation
              else Unknown)\<rparr>
      else r)"

fun deliverable_label :: "deliverable_kind \<Rightarrow> string" where
  "deliverable_label Code = ''code''"
| "deliverable_label Document = ''document''"
| "deliverable_label Spreadsheet = ''spreadsheet''"
| "deliverable_label Presentation = ''presentation''"
| "deliverable_label EmailDraft = ''email_draft''"
| "deliverable_label CalendarProposal = ''calendar_proposal''"
| "deliverable_label deliverable_kind.Other = ''artifact''"

definition flight_evidence ::
    "call_context \<Rightarrow> flight_lease \<Rightarrow> principal \<Rightarrow> bool \<Rightarrow> remote_flight_report \<Rightarrow> instant \<Rightarrow> evidence" where
  "flight_evidence ctx l p landed r at =
     \<lparr>evidence_id = new_id ''EVD'' (ctx_uuid ctx 0),
      evidence_kind =
        (if landed \<and> report_patch_sha256 r \<noteq> None then ''remote_patch''
         else if landed then ''remote_flight'' else ''worker_blackbox''),
      evidence_uri = ''flight://'' @ lease_id l,
      evidence_summary = report_summary r,
      evidence_created_by = principal_name p,
      evidence_created_at = at\<rparr>"

definition deliverable_evidence ::
    "call_context \<Rightarrow> flight_lease \<Rightarrow> principal \<Rightarrow> instant \<Rightarrow> nat \<times> flight_deliverable \<Rightarrow> evidence" where
  "deliverable_evidence ctx l p at = (\<lambda>(i, d).
     \<lparr>evidence_id = new_id ''EVD'' (ctx_uuid ctx i),
      evidence_kind = deliverable_label (deliverable_kind d),
      evidence_uri = ''flight://'' @ lease_id l @ ''/artifact/'' @ deliverable_path d,
      evidence_summary = ''Flight deliverable awaiting Human release: '' @ deliverable_path d,
      evidence_created_by = principal_name p,
      evidence_created_at = at\<rparr>)"

definition crash_reason :: "remote_flight_report \<Rightarrow> string" where
  "crash_reason r =
     ''remote execution flight crashed: '' @ report_summary r @
     (if report_budget_exhaustions r \<noteq> []
      then ''; fuel exhausted: '' @ join_with '', '' (report_budget_exhaustions r) else []) @
     (if report_contract_violations r \<noteq> []
      then ''; landing contract: '' @ join_with '', '' (report_contract_violations r) else [])"

definition outcome_event :: "flight_lease \<Rightarrow> principal \<Rightarrow> bool \<Rightarrow> remote_flight_report \<Rightarrow> instant \<Rightarrow> task_event" where
  "outcome_event l p landed r at =
     (if landed
      then TaskHeartbeat (lease_flow_id l) (lease_task_id l) (principal_name p)
        (Some (''remote flight '' @ lease_id l @ '' landed for Human review'')) at
      else TaskBlocked (lease_flow_id l) (lease_task_id l) (principal_name p) (crash_reason r) at)"

definition finish_events ::
    "call_context \<Rightarrow> org_state \<Rightarrow> flight_lease \<Rightarrow> principal \<Rightarrow> bool \<Rightarrow> remote_flight_report \<Rightarrow> domain_event list" where
  "finish_events ctx s l p landed r =
     (let at = ctx_clock ctx 0;
          add = (\<lambda>e. TaskEvent (EvidenceAdded (lease_flow_id l) (lease_task_id l) e)) in
      [FlightEvent (RemoteFlightFinished (lease_flow_id l) (lease_task_id l) (lease_id l) landed r at),
       add (flight_evidence ctx l p landed r at)] @
      (if landed then map (\<lambda>d. add (deliverable_evidence ctx l p at d)) (List.enumerate 1 (report_deliverables r))
       else []) @
      [TaskEvent (outcome_event l p landed r at)] @
      resource_release_events s l at (if landed then ''flight landed'' else ''flight crashed''))"

definition check_finish ::
    "org_state \<Rightarrow> string \<Rightarrow> string \<Rightarrow> remote_flight_report \<Rightarrow> (principal \<times> flight_lease) result" where
  "check_finish s lid actor given =
     and_then (get_principal s actor) (\<lambda>p.
     and_then (find_flight_lease s lid) (\<lambda>l.
       if lease_principal_id l \<noteq> principal_id p
       then Inl (PermissionDenied (''flight lease '' @ lease_id l @ '' belongs to another agent''))
       else and_then (validate_remote_flight_report l given) (\<lambda>_. Inr (p, l))))"

text \<open>Reporting the same outcome again is answered from the state.\<close>

definition already_reported :: "flight_lease \<Rightarrow> bool \<Rightarrow> remote_flight_report \<Rightarrow> bool" where
  "already_reported l landed r \<longleftrightarrow>
     lease_status l \<in> {Landed, Crashed} \<and>
     (case lease_report l of None \<Rightarrow> False | Some old \<Rightarrow> report_eq old r) \<and>
     landed = (lease_status l = Landed)"

definition decide_finish_flight ::
    "call_context \<Rightarrow> string \<Rightarrow> string \<Rightarrow> bool \<Rightarrow> remote_flight_report \<Rightarrow> org_state \<Rightarrow> string decision result" where
  "decide_finish_flight ctx lid actor landed given s =
     and_then (check_finish s lid actor given) (\<lambda>(p, l).
       let r = classified landed (assessed s l given) in
       if lease_status l \<noteq> flight_lease_status.Active
       then Inl (InvalidTransition (''flight lease '' @ lease_id l @ '' is '' @
         debug_flight_lease_status (lease_status l) @ '', expected active''))
       else Inr (principal_name p, finish_events ctx s l p (effectively_landed landed r) r, lid))"

definition finish_remote_flight ::
    "call_context \<Rightarrow> string \<Rightarrow> string \<Rightarrow> bool \<Rightarrow> remote_flight_report \<Rightarrow> flight_lease command" where
  "finish_remote_flight ctx lid actor landed given = (\<lambda>(db, s).
     (case check_finish s lid actor given of
        Inl err \<Rightarrow> (Inl err, db, s)
      | Inr (p, l) \<Rightarrow>
          let r = classified landed (assessed s l given) in
          if already_reported l (effectively_landed landed r) r then (Inr l, db, s)
          else perform ctx (decide_finish_flight ctx lid actor landed given)
                 (\<lambda>lid s. find_flight_lease s lid) (db, s)))"

section \<open>Recovery\<close>

definition flow_requested_by :: "org_state \<Rightarrow> string \<Rightarrow> principal \<Rightarrow> bool" where
  "flow_requested_by s fid p \<longleftrightarrow>
     (case bt_get (flows s) fid of
        None \<Rightarrow> False
      | Some f \<Rightarrow> demand_requester (flow_demand f) = principal_id p
                 \<or> demand_requester (flow_demand f) = principal_name p)"

definition recovery_options :: "org_state \<Rightarrow> string \<Rightarrow> string \<Rightarrow> recovery_action list result" where
  "recovery_options s lid actor =
     and_then (get_principal s actor) (\<lambda>p.
     and_then (find_flight_lease s lid) (\<lambda>l.
       if principal_id p \<noteq> lease_principal_id l \<and> principal_name p \<noteq> lease_authorized_by l
          \<and> \<not> flow_requested_by s (lease_flow_id l) p
       then Inl (PermissionDenied ''principal cannot inspect recovery options for this flight'')
       else
         let allowed = policy_allowed_actions
               (case lease_manifest l of Some m \<Rightarrow> manifest_recovery m | None \<Rightarrow> default_recovery_policy) in
         Inr (filter (\<lambda>a. a \<in> set allowed)
           (recommendations_for (Option.bind (lease_report l) report_failure_class)))))"

text \<open>A lease without a manifest is recovered as if it had this one.\<close>

definition fallback_manifest :: "call_context \<Rightarrow> flight_lease \<Rightarrow> principal \<Rightarrow> flight_manifest" where
  "fallback_manifest ctx l human =
     \<lparr>manifest_id = new_id ''MANIFEST'' (ctx_uuid ctx 0),
      manifest_repository = None,
      manifest_objective = ''recover task '' @ lease_task_id l,
      manifest_landing_conditions = [''return verifiable evidence''],
      manifest_context_refs = [''flight://'' @ lease_id l],
      manifest_tool_permissions = [],
      manifest_fuel = default_fuel_budget,
      manifest_recovery = default_recovery_policy,
      manifest_resources = [\<lparr>claim_kind = Workspace, claim_key = lease_task_id l, claim_exclusive = True\<rparr>],
      manifest_capability_pack = General,
      manifest_output_contract = default_output_contract,
      manifest_declared_by = principal_name human,
      manifest_declared_at = ctx_clock ctx 0\<rparr>"

definition parent_manifest :: "call_context \<Rightarrow> flight_lease \<Rightarrow> principal \<Rightarrow> flight_manifest" where
  "parent_manifest ctx l human =
     (case lease_manifest l of Some m \<Rightarrow> m | None \<Rightarrow> fallback_manifest ctx l human)"

definition ends_recovery :: "recovery_action \<Rightarrow> bool" where
  "ends_recovery a \<longleftrightarrow> a = Ground \<or> a = HumanHandoff"

record recovery_request =
  wanted_action :: recovery_action
  wanted_reason :: string
  wanted_executor :: "executor_kind option"
  wanted_objective :: "string option"
  wanted_ttl_seconds :: u64

definition check_recovery ::
    "call_context \<Rightarrow> org_state \<Rightarrow> string \<Rightarrow> string \<Rightarrow> recovery_request \<Rightarrow> (principal \<times> flight_lease) result" where
  "check_recovery ctx s lid actor q =
     and_then (validate_text (str_trim (wanted_reason q)) ''recovery reason'' 1000) (\<lambda>_.
       if \<not> ttl_ok (wanted_ttl_seconds q)
       then Inl (relay_error.Validation ''recovery lease TTL must be between 60 and 86400 seconds'')
       else
         and_then (get_principal s actor) (\<lambda>human.
           if principal_kind human \<noteq> principal_kind.Human
           then Inl (PermissionDenied ''flight recovery requires a Human decision'')
           else
             and_then (find_flight_lease s lid) (\<lambda>l.
               if lease_authorized_by l \<noteq> principal_name human \<and> \<not> flow_requested_by s (lease_flow_id l) human
               then Inl (PermissionDenied
                 ''only the authorizing Human or Demand Requester can recover a flight'')
               else if wanted_action q = Fork \<and> \<not> flight_status_is_terminal (lease_status l)
               then Inl (InvalidTransition ''a fork requires a terminal parent flight'')
               else if wanted_action q \<noteq> Fork \<and> lease_status l \<noteq> Crashed
               then Inl (InvalidTransition ''only a crashed flight can enter recovery'')
               else
                 let policy = manifest_recovery (parent_manifest ctx l human) in
                 if wanted_action q \<notin> set (policy_allowed_actions policy)
                 then Inl (PermissionDenied (''recovery action '' @ debug_recovery_action (wanted_action q) @
                   '' is not allowed by the manifest''))
                 else if policy_max_attempts policy \<le> lease_attempt l \<and> \<not> ends_recovery (wanted_action q)
                 then Inl (InvalidTransition (''flight recovery exhausted '' @
                   show_nat (unat (policy_max_attempts policy)) @ '' attempts''))
                 else Inr (human, l))))"

definition recovery_draft :: "flight_manifest \<Rightarrow> flight_lease \<Rightarrow> string option \<Rightarrow> flight_manifest_draft" where
  "recovery_draft m l objective =
     \<lparr>draft_repository = manifest_repository m,
      draft_capability_pack = Some (manifest_capability_pack m),
      draft_objective = (case objective of Some v \<Rightarrow> Some v | None \<Rightarrow> Some (manifest_objective m)),
      draft_landing_conditions = manifest_landing_conditions m,
      draft_context_refs = manifest_context_refs m @ [''flight://'' @ lease_id l],
      draft_tool_permissions = manifest_tool_permissions m,
      draft_fuel = Some (manifest_fuel m),
      draft_recovery = Some (manifest_recovery m),
      draft_resources = manifest_resources m,
      draft_output_contract = Some (manifest_output_contract m)\<rparr>"

definition recovery_executor :: "flight_lease \<Rightarrow> recovery_request \<Rightarrow> executor_kind result" where
  "recovery_executor l q =
     (if wanted_action q = SwitchExecutor then
        and_then (ok_or (wanted_executor q) (relay_error.Validation ''switch_executor requires an executor'')) (\<lambda>e.
          if e = lease_executor l
          then Inl (relay_error.Validation ''switch_executor must select a different executor'')
          else Inr e)
      else Inr (with_default (wanted_executor q) (lease_executor l)))"

definition child_lease ::
    "string \<Rightarrow> flight_lease \<Rightarrow> principal \<Rightarrow> principal \<Rightarrow> executor_kind \<Rightarrow> u64 \<Rightarrow> instant \<Rightarrow> flight_manifest
      \<Rightarrow> flight_lease" where
  "child_lease cid l human agent executor ttl_seconds now manifest =
     \<lparr>lease_id = cid,
      lease_flow_id = lease_flow_id l,
      lease_task_id = lease_task_id l,
      lease_principal_id = principal_id agent,
      lease_principal_name = principal_name agent,
      lease_authorized_by = principal_name human,
      lease_executor = executor,
      lease_status = Authorized,
      lease_issued_at = now,
      lease_expires_at = now + sint ttl_seconds * 1000000000,
      lease_claimed_at = None,
      lease_finished_at = None,
      lease_run_id = None,
      lease_report = None,
      lease_manifest = Some manifest,
      lease_parent_lease_id = Some (lease_id l),
      lease_root_lease_id = Some (with_default (lease_root_lease_id l) (lease_id l)),
      lease_attempt = lease_attempt l + 1\<rparr>"

text \<open>A fallback manifest has drawn the first identifier and the first reading of the clock.\<close>

definition recovery_decided ::
    "call_context \<Rightarrow> nat \<Rightarrow> flight_lease \<Rightarrow> principal \<Rightarrow> recovery_request \<Rightarrow> flight_recovery_decision" where
  "recovery_decided ctx k l human q =
     (let ending = ends_recovery (wanted_action q) in
      \<lparr>recovery_id = new_id ''RECOVERY'' (ctx_uuid ctx (if ending then k else k + 1)),
       recovery_parent_lease_id = lease_id l,
       recovery_child_lease_id = (if ending then None else Some (new_id ''LEASE'' (ctx_uuid ctx k))),
       recovery_action = wanted_action q,
       recovery_reason = str_trim (wanted_reason q),
       recovery_decided_by = principal_name human,
       recovery_decided_at = ctx_clock ctx k\<rparr>)"

definition child_flight ::
    "call_context \<Rightarrow> nat \<Rightarrow> org_state \<Rightarrow> flight_lease \<Rightarrow> principal \<Rightarrow> recovery_request \<Rightarrow> flight_lease result" where
  "child_flight ctx k s l human q =
     and_then (task_snapshot s (lease_task_id l)) (\<lambda>(f, t).
     and_then (get_principal s (lease_principal_id l)) (\<lambda>agent.
     and_then (build_flight_manifest (new_id ''MANIFEST'' (ctx_uuid ctx (k + 2))) (ctx_clock ctx (k + 1)) s f t human
                 (wanted_ttl_seconds q) (recovery_draft (parent_manifest ctx l human) l (wanted_objective q)))
       (\<lambda>manifest.
     and_then (ensure_resource_claims_available ctx s (manifest_resources manifest) (ctx_clock ctx (k + 2))) (\<lambda>_.
     and_then (recovery_executor l q) (\<lambda>executor.
       Inr (child_lease (new_id ''LEASE'' (ctx_uuid ctx k)) l human agent executor (wanted_ttl_seconds q)
              (ctx_clock ctx (k + 2)) manifest))))))"

definition decide_recover_flight ::
    "call_context \<Rightarrow> string \<Rightarrow> string \<Rightarrow> recovery_request \<Rightarrow> org_state \<Rightarrow> flight_lease option decision result" where
  "decide_recover_flight ctx lid actor q s =
     and_then (check_recovery ctx s lid actor q) (\<lambda>(human, l).
       let k = (if lease_manifest l = None then 1 else 0);
           decided = FlightEvent (FlightRecoveryDecided (lease_flow_id l) (lease_task_id l)
                       (recovery_decided ctx k l human q)) in
       if ends_recovery (wanted_action q) then Inr (principal_name human, [decided], None)
       else
         and_then (child_flight ctx k s l human q) (\<lambda>child.
           Inr (principal_name human,
             decided # FlightEvent (RemoteFlightAuthorized child) #
             resource_acquisition_events ctx (k + 3) child
               (manifest_resources (the (lease_manifest child))),
             Some child)))"

definition recover_remote_flight ::
    "call_context \<Rightarrow> call_context \<Rightarrow> string \<Rightarrow> string \<Rightarrow> recovery_request \<Rightarrow> flight_lease option command" where
  "recover_remote_flight reap ctx lid actor q =
     cmd_then (expire_remote_flights reap lease_reaper) (\<lambda>_.
       perform ctx (decide_recover_flight ctx lid actor q) answer_with)"

end
