(* ===== verification/Flight_Facts.thy ===== *)
theory Flight_Facts
  imports App_Flight
begin

text \<open>
  What the flight commands do to the state: edits of one task of a flow, the release of the resources a
  flight holds, and from these the effect of claiming, finishing, authorizing and recovering a flight.
\<close>

section \<open>Edits of one task\<close>

declare insert_twice [simp]

definition edited :: "flow \<Rightarrow> string \<Rightarrow> (task \<Rightarrow> task) \<Rightarrow> flow" where
  "edited f tid g = f\<lparr>flow_tasks := map (\<lambda>u. if task_id u = tid then g u else u) (flow_tasks f)\<rparr>"

definition keeps_names :: "(task \<Rightarrow> task) \<Rightarrow> bool" where
  "keeps_names g \<longleftrightarrow> (\<forall>u. task_id (g u) = task_id u \<and> task_key (g u) = task_key u)"

lemma edited_simps [simp]:
  "flow_id (edited f tid g) = flow_id f"
  "flow_status (edited f tid g) = flow_status f"
  "flow_tasks (edited f tid g) = map (\<lambda>u. if task_id u = tid then g u else u) (flow_tasks f)"
  by (simp_all add: edited_def)

lemma edited_edited:
  "keeps_names g \<Longrightarrow> edited (edited f tid g) tid h = edited f tid (h \<circ> g)"
  by (simp add: edited_def keeps_names_def comp_def cong: if_cong)

lemma names_own_edited:
  assumes "names_own f" and "keeps_names g"
  shows "names_own (edited f tid g)"
proof -
  define h where "h = (\<lambda>u. if task_id u = tid then g u else u)"
  have h: "task_id (h u) = task_id u" "task_key (h u) = task_key u" for u
    using assms(2) by (simp_all add: keeps_names_def h_def)
  have tasks: "flow_tasks (edited f tid g) = map h (flow_tasks f)" by (simp add: h_def)
  have "v = u" if "u \<in> set (flow_tasks f)" "v \<in> set (flow_tasks f)" "task_key v = task_id u" for u v
    using assms(1) that by (auto simp: names_own_def)
  with assms(1) show ?thesis unfolding names_own_def tasks by (auto simp: h comp_def)
qed

lemma edited_finds:
  assumes "names_own f" and "t \<in> set (flow_tasks f)" and "keeps_names g"
  shows "flow_task (edited f (task_id t) g) (task_id t) = Some (g t)"
proof -
  have "g t \<in> set (flow_tasks (edited f (task_id t) g))" using assms(2) by force
  from names_own_finds [OF names_own_edited [OF assms(1,3)] this] assms(3) show ?thesis
    by (simp add: keeps_names_def)
qed

lemma edit_task:
  assumes "bt_get (flows s) fid = Some f" and "names_own f" and "t \<in> set (flow_tasks f)"
    and "update_task fid (task_id t) g s = Inr s'"
  shows "flows s' = bt_insert fid (edited f (task_id t) g) (flows s)"
  using assms names_own_update [OF assms(2,3)]
  by (auto simp: update_task_Inr edited_def flow_update_task_def)

lemma edit_steps:
  assumes "flows s' = bt_insert (flow_id f) (edited f (task_id t) g) (flows s)"
    and "names_own f" and "t \<in> set (flow_tasks f)" and "keeps_names g"
  shows "steps_task s s' f t (task_status (g t))"
proof -
  have "flow_tasks f ! i = t" if "i < length (flow_tasks f)" "task_id (flow_tasks f ! i) = task_id t" for i
    using that assms(2,3) nth_mem [OF that(1)] by (auto simp: names_own_def distinct_map dest: inj_onD)
  with assms edited_finds [OF assms(2-4)] show ?thesis by (auto simp: steps_task_def)
qed

lemma flows_only_trans:
  assumes "w = s\<lparr>flows := flows w\<rparr>" and "s' = w\<lparr>flows := flows s'\<rparr>"
  shows "s' = s\<lparr>flows := flows s'\<rparr>"
proof -
  have "w\<lparr>flows := m\<rparr> = s\<lparr>flows := m\<rparr>" for m by (subst assms(1)) simp
  with assms(2) show ?thesis by simp
qed

section \<open>Releasing what a flight holds\<close>

definition let_go :: "instant \<Rightarrow> string \<Rightarrow> resource_lease \<Rightarrow> resource_lease" where
  "let_go at reason l = l\<lparr>resource_status := resource_lease_status.Released,
     resource_released_at := Some at, resource_release_reason := Some reason\<rparr>"

lemma let_go_twice [simp]: "let_go at reason (let_go at reason l) = let_go at reason l"
  by (simp add: let_go_def)

lemma releases:
  assumes "apply_events v (map (\<lambda>x. FlightEvent (ResourceLeaseReleased fid tid (resource_id x) at reason)) xs) = Inr u"
  shows "u = v\<lparr>resource_leases := resource_leases u\<rparr>"
    and "bt_get (resource_leases u) k = map_option (\<lambda>l. if k \<in> resource_id ` set xs then let_go at reason l else l)
      (bt_get (resource_leases v) k)"
proof -
  have "u = v\<lparr>resource_leases := resource_leases u\<rparr> \<and>
    (\<forall>k. bt_get (resource_leases u) k = map_option (\<lambda>l. if k \<in> resource_id ` set xs then let_go at reason l else l)
      (bt_get (resource_leases v) k))"
    using assms
  proof (induction xs arbitrary: v)
    case (Cons x xs)
    then obtain w where w: "apply_resource_lease_released fid tid (resource_id x) at reason v = Inr w"
      and rest: "apply_events w (map (\<lambda>x. FlightEvent (ResourceLeaseReleased fid tid (resource_id x) at reason)) xs) = Inr u"
      by auto
    from w obtain l where l: "bt_get (resource_leases v) (resource_id x) = Some l"
      and w': "w = v\<lparr>resource_leases := bt_insert (resource_id x) (let_go at reason l) (resource_leases v)\<rparr>"
      by (auto simp: apply_resource_lease_released_def let_go_def split: if_splits)
    from Cons.IH [OF rest] l show ?case by (auto simp: w')
  qed (simp add: option.map_ident)
  then show "u = v\<lparr>resource_leases := resource_leases u\<rparr>"
    and "bt_get (resource_leases u) k = map_option (\<lambda>l. if k \<in> resource_id ` set xs then let_go at reason l else l)
      (bt_get (resource_leases v) k)" by blast+
qed

lemma holds_nothing_after:
  assumes "apply_events v (resource_release_events s l at reason) = Inr u"
    and "resource_leases v = resource_leases s" and "keyed resource_id (resource_leases s)"
  shows "u = v\<lparr>resource_leases := resource_leases u\<rparr>" and "held_by u (lease_id l) = []"
proof -
  note r = releases [OF assms(1) [unfolded resource_release_events_def]]
  show "u = v\<lparr>resource_leases := resource_leases u\<rparr>" by (rule r(1))
  have "False" if "bt_get (resource_leases u) k = Some x" "resource_flight_lease_id x = lease_id l"
    "resource_status x = resource_lease_status.Active" for k x
  proof -
    from that(1) obtain y where y: "bt_get (resource_leases s) k = Some y"
      and x: "x = (if k \<in> resource_id ` set (held_by s (lease_id l)) then let_go at reason y else y)"
      by (auto simp: r(2) assms(2))
    from y assms(3) have "resource_id y = k" by blast
    have "k \<in> resource_id ` set (held_by s (lease_id l))"
    proof (rule ccontr)
      assume no: "k \<notin> resource_id ` set (held_by s (lease_id l))"
      with x have "x = y" by simp
      with that y have "y \<in> set (held_by s (lease_id l))" by (auto simp: held_by_def)
      with no \<open>resource_id y = k\<close> show False by blast
    qed
    with x that(3) show False by (simp add: let_go_def)
  qed
  then show "held_by u (lease_id l) = []" by (auto simp: held_by_def filter_empty_conv)
qed

section \<open>Claiming\<close>

lemma decide_claim_flight_Inr:
  assumes "decide_claim_flight ctx lid actor run_id s = Inr (author, es, x)"
  obtains p l f t where "lookup_principal s actor = Some p" "principal_kind p = principal_kind.Agent"
    "bt_get (flight_leases s) lid = Some l" "lease_principal_id l = principal_id p"
    "is_claimable_at l (ctx_clock ctx 0)" "task_snapshot s (lease_task_id l) = Inr (f, t)"
    "task_status t \<in> {Accepted, InProgress, task_status.Blocked}" "ensure_dependencies_complete f t = Inr ()"
    "es = (if task_status t \<noteq> InProgress
       then [TaskEvent (TaskStarted (flow_id f) (task_id t) (principal_name p) (ctx_clock ctx 0))] else []) @
       [FlightEvent (RemoteFlightClaimed (lease_flow_id l) (lease_task_id l) (lease_id l) run_id (ctx_clock ctx 0))]"
    "x = lid"
  using assms unfolding decide_claim_flight_def
  by (auto simp: get_principal_Inr find_flight_lease_def Let_def split: if_splits)

definition taken :: "string \<Rightarrow> instant \<Rightarrow> flight_lease \<Rightarrow> flight_lease" where
  "taken run_id at l = l\<lparr>lease_status := flight_lease_status.Active, lease_run_id := Some run_id,
     lease_claimed_at := Some at\<rparr>"

lemma claim_flight_effect:
  assumes "claim_remote_flight ctx lid actor run_id (db, s) = (Inr l', db', s')"
    and "bt_get (flight_leases s) lid = Some l" and "task_snapshot s (lease_task_id l) = Inr (f, t)"
    and "flows_filed s" and "names_own f" and "keyed lease_id (flight_leases s)"
  shows "l' = taken run_id (ctx_clock ctx 0) l" and "flight_leases s' = bt_insert lid l' (flight_leases s)"
    and "steps_task s s' f t InProgress" and "is_claimable_at l (ctx_clock ctx 0)"
    and "\<exists>p. lookup_principal s actor = Some p \<and> principal_kind p = principal_kind.Agent \<and> lease_principal_id l = principal_id p"
    and "ensure_dependencies_complete f t = Inr ()"
    and "task_status t \<in> {Accepted, InProgress, task_status.Blocked}"
proof -
  let ?now = "ctx_clock ctx 0"
  from assms(1) obtain author es x v where d: "decide_claim_flight ctx lid actor run_id s = Inr (author, es, x)"
    and answer: "find_flight_lease s' x = Inr l'" and v: "apply_events s es = Inr v"
    and s': "s' = v\<lparr>notification_deliveries := notification_deliveries s', last_sequence := last_sequence s'\<rparr>"
    unfolding claim_remote_flight_def by (rule performed)
  from d obtain p where p: "lookup_principal s actor = Some p" "principal_kind p = principal_kind.Agent"
      "lease_principal_id l = principal_id p"
    and claimable: "is_claimable_at l ?now"
    and t: "task_status t \<in> {Accepted, InProgress, task_status.Blocked}"
    and deps: "ensure_dependencies_complete f t = Inr ()"
    and es: "es = (if task_status t \<noteq> InProgress
       then [TaskEvent (TaskStarted (flow_id f) (task_id t) (principal_name p) ?now)] else []) @
       [FlightEvent (RemoteFlightClaimed (lease_flow_id l) (lease_task_id l) (lease_id l) run_id ?now)]"
    and x: "x = lid"
    by (rule decide_claim_flight_Inr) (use assms(2,3) in auto)
  have id: "lease_id l = lid" using assms(2,6) by blast
  note found = task_snapshot_Inr [OF assms(3,4)]
  have same: "edited f (task_id t) (\<lambda>u. u) = f" by (simp add: edited_def)
  obtain g where g: "keeps_names g" "task_status (g t) = InProgress"
    and v': "flows v = bt_insert (flow_id f) (edited f (task_id t) g) (flows s)"
      "flight_leases v = bt_insert lid (taken run_id ?now l) (flight_leases s)"
  proof (cases "task_status t = InProgress")
    case True
    with v es have "flows v = flows s" "flight_leases v = bt_insert lid (taken run_id ?now l) (flight_leases s)"
      using assms(2) by (auto simp: apply_remote_flight_claimed_def taken_def id)
    with True found(1) same show ?thesis
      by (intro that [of "\<lambda>u. u"]) (simp_all add: keeps_names_def bt_insert_same)
  next
    case False
    let ?g = "\<lambda>t. t\<lparr>task_status := InProgress, task_blocker := None, task_last_heartbeat := Some ?now\<rparr>"
    from False v es obtain w where w: "update_task (flow_id f) (task_id t) ?g s = Inr w"
      and rest: "apply_remote_flight_claimed (lease_flow_id l) (lease_task_id l) lid run_id ?now w = Inr v"
      by (auto simp: apply_task_started_def id)
    have "flight_leases w = flight_leases s" by (subst update_task_frame [OF w]) simp
    with rest assms(2) edit_task [OF found(1) assms(5) found(2) w] show ?thesis
      by (intro that [of ?g]) (auto simp: apply_remote_flight_claimed_def taken_def keeps_names_def)
  qed
  have flows: "flows s' = flows v" "flight_leases s' = flight_leases v" by (subst s', simp)+
  show "l' = taken run_id ?now l" "flight_leases s' = bt_insert lid l' (flight_leases s)"
    using answer x by (auto simp: find_flight_lease_def flows v')
  show "steps_task s s' f t InProgress"
    using edit_steps [of s' f t g s] found(2) assms(5) g v' by (simp add: flows)
  show "\<exists>p. lookup_principal s actor = Some p \<and> principal_kind p = principal_kind.Agent \<and>
      lease_principal_id l = principal_id p" using p by blast
  show "is_claimable_at l ?now" "ensure_dependencies_complete f t = Inr ()"
    "task_status t \<in> {Accepted, InProgress, task_status.Blocked}" by (fact claimable deps t)+
qed

text \<open>A flight that has been claimed is never claimed again, by whomever and for whatever run.\<close>

lemma active_not_claimed:
  assumes "bt_get (flight_leases s) lid = Some l" and "lease_status l \<noteq> Authorized"
  shows "\<exists>err. claim_remote_flight ctx lid actor run_id (db, s) = (Inl err, db, s)"
proof -
  have "decide_claim_flight ctx lid actor run_id s \<noteq> Inr d" for d
    using assms by (cases d) (auto elim!: decide_claim_flight_Inr simp: is_claimable_at_def)
  then obtain err where "decide_claim_flight ctx lid actor run_id s = Inl err"
    by (cases "decide_claim_flight ctx lid actor run_id s") auto
  then show ?thesis by (auto simp: claim_remote_flight_def perform_refuses)
qed

section \<open>Finishing\<close>

lemma evidence_edits:
  assumes "apply_events s (map (\<lambda>e. TaskEvent (EvidenceAdded fid (task_id t) e)) es) = Inr s'"
    and "bt_get (flows s) fid = Some f" and "names_own f" and "t \<in> set (flow_tasks f)"
  shows "flows s' = bt_insert fid (edited f (task_id t) (\<lambda>u. u\<lparr>task_evidence := task_evidence u @ es\<rparr>)) (flows s) \<and>
    s' = s\<lparr>flows := flows s'\<rparr>"
  using assms
proof (induction es arbitrary: s f t)
  case Nil
  then show ?case by (simp add: edited_def bt_insert_same)
next
  case (Cons e es)
  let ?g = "\<lambda>u. u\<lparr>task_evidence := task_evidence u @ [e]\<rparr>"
  let ?f = "edited f (task_id t) ?g"
  have g: "keeps_names ?g" by (simp add: keeps_names_def)
  from Cons.prems(1) obtain w where w: "update_task fid (task_id t) ?g s = Inr w"
    and rest: "apply_events w (map (\<lambda>e. TaskEvent (EvidenceAdded fid (task_id (?g t)) e)) es) = Inr s'"
    by (auto simp: apply_evidence_added_def)
  note flows = edit_task [OF Cons.prems(2-4) w]
  have w': "bt_get (flows w) fid = Some ?f" by (simp add: flows)
  have "?g t \<in> set (flow_tasks ?f)" using Cons.prems(4) by force
  note IH = Cons.IH [OF rest w' names_own_edited [OF Cons.prems(3) g] this]
  have "(\<lambda>u :: task. u\<lparr>task_evidence := task_evidence u @ es\<rparr>) \<circ> ?g = (\<lambda>u. u\<lparr>task_evidence := task_evidence u @ e # es\<rparr>)"
    by (simp add: comp_def)
  with IH [THEN conjunct1] flows
  have edit: "flows s' = bt_insert fid (edited f (task_id t) (\<lambda>u. u\<lparr>task_evidence := task_evidence u @ e # es\<rparr>)) (flows s)"
    by (simp add: edited_edited [OF g])
  note frame = IH [THEN conjunct2]
  from edit flows_only_trans [OF update_task_frame [OF w] frame] show ?case by (rule conjI)
qed

definition reported :: "instant \<Rightarrow> bool \<Rightarrow> remote_flight_report \<Rightarrow> flight_lease \<Rightarrow> flight_lease" where
  "reported at ok r l = l\<lparr>lease_status := (if ok then Landed else Crashed), lease_finished_at := Some at,
     lease_report := Some r\<rparr>"

definition flight_record :: "call_context \<Rightarrow> flight_lease \<Rightarrow> principal \<Rightarrow> bool \<Rightarrow> remote_flight_report \<Rightarrow> evidence list" where
  "flight_record ctx l p ok r =
     flight_evidence ctx l p ok r (ctx_clock ctx 0) #
     (if ok then map (deliverable_evidence ctx l p (ctx_clock ctx 0)) (List.enumerate 1 (report_deliverables r)) else [])"

definition after_flight ::
    "call_context \<Rightarrow> flight_lease \<Rightarrow> principal \<Rightarrow> bool \<Rightarrow> remote_flight_report \<Rightarrow> task \<Rightarrow> task" where
  "after_flight ctx l p ok r t =
     (let t' = t\<lparr>task_evidence := task_evidence t @ flight_record ctx l p ok r\<rparr> in
      if ok then t'\<lparr>task_last_heartbeat := Some (ctx_clock ctx 0)\<rparr>
      else t'\<lparr>task_status := task_status.Blocked, task_blocker := Some (crash_reason r),
              task_last_heartbeat := Some (ctx_clock ctx 0)\<rparr>)"

lemma after_flight_simps [simp]:
  "keeps_names (after_flight ctx l p ok r)"
  "task_status (after_flight ctx l p ok r t) = (if ok then task_status t else task_status.Blocked)"
  "task_evidence (after_flight ctx l p ok r t) = task_evidence t @ flight_record ctx l p ok r"
  by (simp_all add: keeps_names_def after_flight_def Let_def)

lemma finish_events_eq:
  "finish_events ctx s l p ok r =
     FlightEvent (RemoteFlightFinished (lease_flow_id l) (lease_task_id l) (lease_id l) ok r (ctx_clock ctx 0)) #
     map (\<lambda>e. TaskEvent (EvidenceAdded (lease_flow_id l) (lease_task_id l) e)) (flight_record ctx l p ok r) @
     TaskEvent (outcome_event l p ok r (ctx_clock ctx 0)) #
     resource_release_events s l (ctx_clock ctx 0) (if ok then ''flight landed'' else ''flight crashed'')"
  by (simp add: finish_events_def flight_record_def Let_def)

lemma finish_events_effect:
  assumes "apply_events s (finish_events ctx s l p ok r) = Inr v"
    and "bt_get (flight_leases s) (lease_id l) = Some l" and "keyed resource_id (resource_leases s)"
    and "bt_get (flows s) (lease_flow_id l) = Some f" and "names_own f"
    and "t \<in> set (flow_tasks f)" and "task_id t = lease_task_id l"
  shows "flight_leases v = bt_insert (lease_id l) (reported (ctx_clock ctx 0) ok r l) (flight_leases s)"
    and "flows v = bt_insert (lease_flow_id l) (edited f (task_id t) (after_flight ctx l p ok r)) (flows s)"
    and "held_by v (lease_id l) = []" and "staged_artifacts v = staged_artifacts s" and "principals v = principals s"
proof -
  let ?at = "ctx_clock ctx 0" and ?fid = "lease_flow_id l"
  let ?reason = "if ok then ''flight landed'' else ''flight crashed''"
  define a where "a = s\<lparr>flight_leases := bt_insert (lease_id l) (reported ?at ok r l) (flight_leases s)\<rparr>"
  from assms(1) obtain b c where
      b: "apply_events a (map (\<lambda>e. TaskEvent (EvidenceAdded ?fid (task_id t) e)) (flight_record ctx l p ok r)) = Inr b"
    and c: "apply_task_event (outcome_event l p ok r ?at) b = Inr c"
    and v: "apply_events c (resource_release_events s l ?at ?reason) = Inr v"
    using assms(2) unfolding finish_events_eq
    by (auto simp: apply_remote_flight_finished_def apply_events_append a_def reported_def assms(7))
  define g where "g = (\<lambda>u :: task. u\<lparr>task_evidence := task_evidence u @ flight_record ctx l p ok r\<rparr>)"
  have g: "keeps_names g" by (simp add: keeps_names_def g_def)
  have fa: "bt_get (flows a) ?fid = Some f" by (simp add: a_def assms(4))
  note evidence = evidence_edits [OF b fa assms(5,6)]
  have fb: "flows b = bt_insert ?fid (edited f (task_id t) g) (flows s)"
    using evidence [THEN conjunct1] by (simp add: g_def a_def)
  note b' = evidence [THEN conjunct2]
  define h where "h = (if ok then (\<lambda>u :: task. u\<lparr>task_last_heartbeat := Some ?at\<rparr>)
    else (\<lambda>u. u\<lparr>task_status := task_status.Blocked, task_blocker := Some (crash_reason r), task_last_heartbeat := Some ?at\<rparr>))"
  have "update_task ?fid (task_id (g t)) h b = Inr c"
    using c by (auto simp: outcome_event_def apply_task_heartbeat_def apply_task_blocked_def h_def g_def assms(7) split: if_splits)
  note c' = this
  have "g t \<in> set (flow_tasks (edited f (task_id t) g))" using assms(6) by force
  from edit_task [OF _ names_own_edited [OF assms(5) g] this c'] fb
  have "flows c = bt_insert ?fid (edited (edited f (task_id t) g) (task_id t) h) (flows s)"
    by (simp add: g_def)
  moreover have "h \<circ> g = after_flight ctx l p ok r"
    by (auto simp: h_def g_def after_flight_def Let_def)
  ultimately have fc: "flows c = bt_insert ?fid (edited f (task_id t) (after_flight ctx l p ok r)) (flows s)"
    by (simp add: edited_edited [OF g])
  have ca: "c = a\<lparr>flows := flows c\<rparr>" by (rule flows_only_trans [OF b' update_task_frame [OF c']])
  have "resource_leases c = resource_leases s" by (subst ca) (simp add: a_def)
  note held = holds_nothing_after [OF v this assms(3)]
  show "held_by v (lease_id l) = []" by (rule held(2))
  show "flows v = bt_insert ?fid (edited f (task_id t) (after_flight ctx l p ok r)) (flows s)"
    by (subst held(1)) (simp add: fc)
  show "flight_leases v = bt_insert (lease_id l) (reported ?at ok r l) (flight_leases s)"
    "staged_artifacts v = staged_artifacts s" "principals v = principals s"
    by (subst held(1), simp, subst ca, simp add: a_def)+
qed

text \<open>What a flight has to keep to: its budget and the contract its landing is measured by.\<close>

definition within_limit :: "('a \<Rightarrow> 'a \<Rightarrow> bool) \<Rightarrow> 'a option \<Rightarrow> 'a option \<Rightarrow> bool" where
  "within_limit lower used limit \<longleftrightarrow> (\<forall>u b. used = Some u \<longrightarrow> limit = Some b \<longrightarrow> \<not> lower b u)"

definition within_budget :: "fuel_budget \<Rightarrow> remote_flight_report \<Rightarrow> bool" where
  "within_budget b r \<longleftrightarrow>
     flight_seconds r \<le> uint (budget_max_duration_seconds b)
     \<and> usage_context_bytes (report_fuel r) \<le> budget_max_context_bytes b
     \<and> within_limit (<) (usage_tokens (report_fuel r)) (budget_max_tokens b)
     \<and> within_limit (<) (usage_tool_calls (report_fuel r)) (budget_max_tool_calls b)
     \<and> within_limit f64_lt (usage_cost_usd (report_fuel r)) (budget_max_cost_usd b)"

definition meets_contract :: "org_state \<Rightarrow> flight_lease \<Rightarrow> flight_manifest \<Rightarrow> flight_deliverable list \<Rightarrow> bool" where
  "meets_contract s l m ds \<longleftrightarrow>
     unat (contract_min_deliverables (manifest_output_contract m)) \<le> length ds
     \<and> (contract_allowed_extensions (manifest_output_contract m) \<noteq> [] \<longrightarrow>
          (\<forall>d \<in> set ds. extension_allowed (manifest_output_contract m) d))
     \<and> (manifest_capability_pack m = Office \<longrightarrow> (\<forall>d \<in> set ds. is_staged s l d))"

lemma over_limit_none: "over_limit lower note_of used limit = [] \<longleftrightarrow> within_limit lower used limit"
  by (auto simp: over_limit_def within_limit_def split: option.splits)

lemma no_exhaustions:
  "lease_manifest l = Some m \<Longrightarrow> fuel_exhaustions l r = [] \<longleftrightarrow> within_budget (manifest_fuel m) r"
  by (auto simp: fuel_exhaustions_def within_budget_def over_limit_none Let_def not_less split: if_splits)

lemma no_violations:
  "lease_manifest l = Some m \<Longrightarrow>
     output_contract_violations s l r = [] \<longleftrightarrow> meets_contract s l m (report_deliverables r)"
  by (auto simp: output_contract_violations_def contract_violations_def meets_contract_def filter_empty_conv not_less)

lemma assessed_simps [simp]:
  "report_deliverables (assessed s l given) = normalize_deliverables l (report_changed_files given)"
  "report_budget_exhaustions (assessed s l given) = fuel_exhaustions l given"
  "report_contract_violations (assessed s l given) =
     output_contract_violations s l (given\<lparr>report_deliverables := normalize_deliverables l (report_changed_files given)\<rparr>)"
  "report_fuel (assessed s l given) = report_fuel given"
  by (simp_all add: assessed_def Let_def fuel_exhaustions_def flight_seconds_def measured_seconds_def
      split: option.split)

lemma classified_simps [simp]:
  "effectively_landed landed (classified ok r) = effectively_landed landed r"
  "report_fuel (classified ok r) = report_fuel r"
  by (simp_all add: classified_def effectively_landed_def Let_def)

text \<open>A flight lands when its agent says so and it kept to its manifest.\<close>

lemma landing_earned:
  "lease_manifest l = Some m \<Longrightarrow> effectively_landed landed (classified landed (assessed s l given)) \<longleftrightarrow>
     landed \<and> within_budget (manifest_fuel m) given \<and>
     meets_contract s l m (normalize_deliverables l (report_changed_files given))"
  by (simp only: classified_simps) (simp add: effectively_landed_def no_exhaustions no_violations)

lemma check_finish_Inr:
  "check_finish s lid actor given = Inr (p, l) \<longleftrightarrow>
     lookup_principal s actor = Some p \<and> bt_get (flight_leases s) lid = Some l \<and>
     lease_principal_id l = principal_id p \<and> validate_remote_flight_report l given = Inr ()"
  by (auto simp: check_finish_def get_principal_Inr find_flight_lease_def)

lemma finish_flight_effect:
  assumes "finish_remote_flight ctx lid actor landed given (db, s) = (Inr l', db', s')"
    and "bt_get (flight_leases s) lid = Some l" and "lease_status l = flight_lease_status.Active"
    and "keyed lease_id (flight_leases s)" and "keyed resource_id (resource_leases s)"
    and "bt_get (flows s) (lease_flow_id l) = Some f" and "names_own f"
    and "t \<in> set (flow_tasks f)" and "task_id t = lease_task_id l"
    and "r = classified landed (assessed s l given)" and "ok = effectively_landed landed r"
  obtains p where "lookup_principal s actor = Some p" "lease_principal_id l = principal_id p"
    "validate_remote_flight_report l given = Inr ()"
    "l' = reported (ctx_clock ctx 0) ok r l" "flight_leases s' = bt_insert lid l' (flight_leases s)"
    "flows s' = bt_insert (lease_flow_id l) (edited f (task_id t) (after_flight ctx l p ok r)) (flows s)"
    "held_by s' lid = []" "staged_artifacts s' = staged_artifacts s" "principals s' = principals s"
proof -
  have id: "lease_id l = lid" using assms(2,4) by blast
  from assms(1) obtain p l0 where "check_finish s lid actor given = Inr (p, l0)"
    by (auto simp: finish_remote_flight_def split: sum.splits)
  with assms(2) have check: "check_finish s lid actor given = Inr (p, l)" by (simp add: check_finish_Inr)
  have "\<not> already_reported l ok r" by (simp add: already_reported_def assms(3))
  with assms(1) have "perform ctx (decide_finish_flight ctx lid actor landed given)
      (\<lambda>lid s. find_flight_lease s lid) (db, s) = (Inr l', db', s')"
    by (simp add: finish_remote_flight_def check assms(10,11) Let_def)
  then obtain author es x v where d: "decide_finish_flight ctx lid actor landed given s = Inr (author, es, x)"
    and answer: "find_flight_lease s' x = Inr l'" and v: "apply_events s es = Inr v"
    and s': "s' = v\<lparr>notification_deliveries := notification_deliveries s', last_sequence := last_sequence s'\<rparr>"
    by (rule performed)
  from d have es: "es = finish_events ctx s l p ok r" and x: "x = lid"
    by (auto simp: decide_finish_flight_def check assms(3,10,11) Let_def)
  note effect = finish_events_effect [OF v [unfolded es], unfolded id, OF assms(2,5-9)]
  have same: "flight_leases s' = flight_leases v" "flows s' = flows v" "held_by s' lid = held_by v lid"
    "staged_artifacts s' = staged_artifacts v" "principals s' = principals v"
    by (subst s', simp add: held_by_def)+
  show ?thesis
    using check answer x same effect by (intro that) (auto simp: check_finish_Inr find_flight_lease_def)
qed

text \<open>A finite cost equals itself, so an accepted report does.\<close>

lemma accepted_report_eq:
  assumes "validate_remote_flight_report l given = Inr ()" and "report_fuel r = report_fuel given"
  shows "report_eq r r"
proof -
  have "\<not> invalid_cost (usage_cost_usd (report_fuel given))"
    using assms(1) by (auto simp: validate_remote_flight_report_def split: if_splits)
  then show ?thesis
    by (auto simp: report_eq_def fuel_usage_eq_def invalid_cost_def assms(2) f64_eq_refl_iff
        f64_is_nan_def f64_is_finite_def split: option.splits)
qed

lemma reported_reads [simp]:
  "lease_manifest (reported at ok r l) = lease_manifest l"
  "is_staged s (reported at ok r l) = is_staged s l"
  "normalize_deliverables (reported at ok r l) = normalize_deliverables l"
  "fuel_exhaustions (reported at ok r l) = fuel_exhaustions l"
  by (auto simp: reported_def is_staged_def normalize_deliverables_def fuel_exhaustions_def fun_eq_iff)

lemma reported_violations [simp]:
  "output_contract_violations s (reported at ok r l) r' = output_contract_violations s l r'"
  by (simp add: output_contract_violations_def split: option.split)

lemma reported_assessed [simp]: "assessed s (reported at ok r l) = assessed s l"
  by (simp add: assessed_def Let_def fun_eq_iff)

lemma finish_again:
  assumes "bt_get (flight_leases s) lid = Some (reported at (effectively_landed landed r) r l)"
    and "lookup_principal s actor = Some p" and "lease_principal_id l = principal_id p"
    and "validate_remote_flight_report l given = Inr ()" and "r = classified landed (assessed s l given)"
  shows "finish_remote_flight ctx lid actor landed given (db, s) =
    (Inr (reported at (effectively_landed landed r) r l), db, s)"
proof -
  let ?l = "reported at (effectively_landed landed r) r l"
  have "validate_remote_flight_report ?l given = validate_remote_flight_report l given"
    by (simp add: validate_remote_flight_report_def reported_def)
  then have check: "check_finish s lid actor given = Inr (p, ?l)"
    using assms by (simp add: check_finish_Inr reported_def)
  have "classified landed (assessed s ?l given) = r" by (simp add: assms(5))
  moreover have "already_reported ?l (effectively_landed landed r) r"
    using accepted_report_eq [OF assms(4), of r] assms(5) by (simp add: already_reported_def reported_def)
  moreover have "effectively_landed landed (assessed s l given) = effectively_landed landed r"
    by (simp add: assms(5))
  ultimately show ?thesis by (simp add: finish_remote_flight_def check)
qed

section \<open>What flights leave alone\<close>

definition only_flights :: "org_state \<Rightarrow> org_state \<Rightarrow> bool" where
  "only_flights s u \<longleftrightarrow> u = s\<lparr>flight_leases := flight_leases u, resource_leases := resource_leases u,
     staged_artifacts := staged_artifacts u, flight_recoveries := flight_recoveries u,
     notification_deliveries := notification_deliveries u, last_sequence := last_sequence u\<rparr>"

lemma only_flightsI:
  "u = s\<lparr>flight_leases := a, resource_leases := b, staged_artifacts := c, flight_recoveries := d,
     notification_deliveries := e, last_sequence := n\<rparr> \<Longrightarrow> only_flights s u"
  by (simp add: only_flights_def)

lemma only_flights_refl [simp]: "only_flights s s"
  by (simp add: only_flights_def)

lemma only_flights_trans: "only_flights s t \<Longrightarrow> only_flights t u \<Longrightarrow> only_flights s u"
proof -
  assume "only_flights s t" and u: "only_flights t u"
  then have t: "t = s\<lparr>flight_leases := flight_leases t, resource_leases := resource_leases t,
     staged_artifacts := staged_artifacts t, flight_recoveries := flight_recoveries t,
     notification_deliveries := notification_deliveries t, last_sequence := last_sequence t\<rparr>"
    by (simp add: only_flights_def)
  have "t\<lparr>flight_leases := a, resource_leases := b, staged_artifacts := c, flight_recoveries := d,
      notification_deliveries := e, last_sequence := g\<rparr> =
    s\<lparr>flight_leases := a, resource_leases := b, staged_artifacts := c, flight_recoveries := d,
      notification_deliveries := e, last_sequence := g\<rparr>" for a b c d e g
    by (subst t) simp
  with u show "only_flights s u" by (simp add: only_flights_def)
qed

lemma flight_events_only:
  assumes "apply_events s es = Inr u" and "list_all (\<lambda>e. \<exists>x. e = FlightEvent x) es"
  shows "only_flights s u"
  using assms
proof (induction es arbitrary: s)
  case (Cons e es)
  then obtain x w where w: "apply_flight x s = Inr w" and rest: "apply_events w es = Inr u" by auto
  have "only_flights s w"
    by (rule only_flightsI [where e = "notification_deliveries s" and n = "last_sequence s"],
        subst apply_flight_frame [OF w]) simp
  with Cons.IH [OF rest] Cons.prems(2) show ?case by (auto intro: only_flights_trans)
qed simp

lemma only_flights_committed:
  assumes "only_flights s v"
    and "s' = v\<lparr>notification_deliveries := notification_deliveries s', last_sequence := last_sequence s'\<rparr>"
  shows "only_flights s s'"
proof -
  have "only_flights v s'"
    by (rule only_flightsI [where a = "flight_leases v" and b = "resource_leases v" and c = "staged_artifacts v"
          and d = "flight_recoveries v"], subst assms(2)) simp
  with assms(1) show ?thesis by (rule only_flights_trans)
qed

lemma only_flights_reads:
  assumes "only_flights s u"
  shows "principals u = principals s" and "flows u = flows s" and "teams u = teams s"
    and "lookup_principal u = lookup_principal s" and "task_snapshot u = task_snapshot s"
    and "flow_requested_by u = flow_requested_by s"
proof -
  show "principals u = principals s" "flows u = flows s" "teams u = teams s"
    by (subst assms [unfolded only_flights_def], simp)+
  then show "lookup_principal u = lookup_principal s" "task_snapshot u = task_snapshot s"
    "flow_requested_by u = flow_requested_by s"
    by (simp_all add: fun_eq_iff lookup_principal_def task_snapshot_def find_task_def flow_requested_by_def
        split: option.split)
qed

section \<open>Expiry\<close>

definition lapsed :: "instant \<Rightarrow> flight_lease \<Rightarrow> flight_lease" where
  "lapsed now l = l\<lparr>lease_status := Expired, lease_finished_at := Some now\<rparr>"

text \<open>Events that leave the leases of flights alone, and the only one an expiry has besides.\<close>

lemma release_leaves_leases:
  assumes "apply_events s (resource_release_events t l at reason) = Inr u"
  shows "flight_leases u = flight_leases s"
  by (subst releases(1) [OF assms [unfolded resource_release_events_def]]) simp

lemma expiry_events_Cons:
  "expiry_events s now (l # ls) =
     FlightEvent (RemoteFlightExpired (lease_flow_id l) (lease_task_id l) (lease_id l) now) #
     resource_release_events s l now ''flight clearance expired'' @ expiry_events s now ls"
  by (simp add: expiry_events_def)

lemma expiry_effect:
  assumes "apply_events v (expiry_events s now ls) = Inr u"
  shows "bt_get (flight_leases u) k = map_option (\<lambda>l. if k \<in> lease_id ` set ls then lapsed now l else l)
    (bt_get (flight_leases v) k)"
  using assms
proof (induction ls arbitrary: v)
  case Nil
  then show ?case by (simp add: expiry_events_def option.map_ident)
next
  case (Cons l ls)
  then obtain w x where w: "apply_remote_flight_expired (lease_flow_id l) (lease_task_id l) (lease_id l) now v = Inr w"
    and x: "apply_events w (resource_release_events s l now ''flight clearance expired'') = Inr x"
    and rest: "apply_events x (expiry_events s now ls) = Inr u"
    by (auto simp: expiry_events_Cons apply_events_append)
  have "lapsed now (lapsed now y) = lapsed now y" for y by (simp add: lapsed_def)
  with Cons.IH [OF rest] w release_leaves_leases [OF x] show ?case
    by (auto simp: apply_remote_flight_expired_def lapsed_def [symmetric])
qed

lemma expiry_only_flights: "apply_events s (expiry_events t now ls) = Inr u \<Longrightarrow> only_flights s u"
  by (erule flight_events_only)
    (auto simp: expiry_events_def resource_release_events_def list_all_iff)

lemma expire_flights_effect:
  assumes "expire_remote_flights_at ctx actor now (db, s) = (Inr n, db', s')" and "keyed lease_id (flight_leases s)"
  shows "bt_get (flight_leases s') k = map_option (\<lambda>l. if overdue now l then lapsed now l else l) (bt_get (flight_leases s) k)"
    and "only_flights s s'"
proof -
  let ?ls = "filter (overdue now) (bt_values (flight_leases s))"
  have names: "k \<in> lease_id ` set ?ls \<longleftrightarrow> overdue now l" if "bt_get (flight_leases s) k = Some l" for l
    using that assms(2) by (force simp: image_iff)
  have "bt_get (flight_leases s') k = map_option (\<lambda>l. if overdue now l then lapsed now l else l)
      (bt_get (flight_leases s) k) \<and> only_flights s s'"
  proof (cases "?ls = []")
    case True
    then have "map_option (\<lambda>l. if overdue now l then lapsed now l else l) (bt_get (flight_leases s) k) = bt_get (flight_leases s) k"
      by (cases "bt_get (flight_leases s) k") (auto simp: filter_empty_conv)
    with True assms(1) show ?thesis by (simp add: expire_remote_flights_at_def)
  next
    case False
    with assms(1) have "perform ctx (\<lambda>s. Inr (actor, expiry_events s now ?ls, length ?ls)) answer_with (db, s) = (Inr n, db', s')"
      by (simp add: expire_remote_flights_at_def Let_def)
    then obtain author es x v where "Inr (actor, expiry_events s now ?ls, length ?ls) = Inr (author, es, x)"
      and v: "apply_events s es = Inr v"
      and s': "s' = v\<lparr>notification_deliveries := notification_deliveries s', last_sequence := last_sequence s'\<rparr>"
      by (rule performed) auto
    then have v: "apply_events s (expiry_events s now ?ls) = Inr v" by auto
    have "flight_leases s' = flight_leases v" by (subst s') simp
    with expiry_effect [OF v, of k] names show ?thesis
      using only_flights_committed [OF expiry_only_flights [OF v] s'] by (cases "bt_get (flight_leases s) k") auto
  qed
  then show "bt_get (flight_leases s') k = map_option (\<lambda>l. if overdue now l then lapsed now l else l) (bt_get (flight_leases s) k)"
    and "only_flights s s'" by blast+
qed

section \<open>Acquiring resources\<close>

lemma acquisitions:
  assumes "apply_events v (map (\<lambda>x. FlightEvent (ResourceLeaseAcquired x)) xs) = Inr u" and "distinct (map resource_id xs)"
  shows "flight_leases u = flight_leases v \<and> (\<forall>x \<in> set xs. bt_get (resource_leases u) (resource_id x) = Some x) \<and>
    (\<forall>k. k \<notin> resource_id ` set xs \<longrightarrow> bt_get (resource_leases u) k = bt_get (resource_leases v) k)"
  using assms
proof (induction xs arbitrary: v)
  case (Cons x xs)
  then obtain w where w: "apply_resource_lease_acquired x v = Inr w"
    and rest: "apply_events w (map (\<lambda>x. FlightEvent (ResourceLeaseAcquired x)) xs) = Inr u" by auto
  from w have "w = v\<lparr>resource_leases := bt_insert (resource_id x) x (resource_leases v)\<rparr>"
    by (auto simp: apply_resource_lease_acquired_def split: if_splits)
  with Cons.IH [OF rest] Cons.prems(2) show ?case by auto
qed simp

lemma acquired_simps [simp]:
  "resource_claim (acquired_lease ctx n l (i, c)) = c"
  "resource_flight_lease_id (acquired_lease ctx n l (i, c)) = lease_id l"
  "resource_status (acquired_lease ctx n l (i, c)) = resource_lease_status.Active"
  "resource_id (acquired_lease ctx n l (i, c)) = new_id ''RESOURCE'' (ctx_uuid ctx (n + i))"
  "resource_issued_at (acquired_lease ctx n l (i, c)) = lease_issued_at l"
  "resource_expires_at (acquired_lease ctx n l (i, c)) = resource_term l"
  by (simp_all add: acquired_lease_def)

text \<open>A flight holds a resource for each claim of its manifest.\<close>

definition holds_claims :: "org_state \<Rightarrow> flight_lease \<Rightarrow> resource_claim list \<Rightarrow> bool" where
  "holds_claims s l cs \<longleftrightarrow> (\<forall>c \<in> set cs. \<exists>x. bt_get (resource_leases s) (resource_id x) = Some x \<and>
     resource_claim x = c \<and> resource_flight_lease_id x = lease_id l \<and>
     resource_status x = resource_lease_status.Active \<and>
     resource_issued_at x = lease_issued_at l \<and> resource_expires_at x = resource_term l)"

lemma acquisition_holds:
  assumes "apply_events v (resource_acquisition_events ctx n l cs) = Inr u"
    and "distinct (map (\<lambda>i. new_id ''RESOURCE'' (ctx_uuid ctx i)) [n..<n + length cs])"
  shows "holds_claims u l cs" and "flight_leases u = flight_leases v"
proof -
  let ?xs = "map (acquired_lease ctx n l) (List.enumerate 0 cs)"
  have "map resource_id ?xs = map (\<lambda>i. new_id ''RESOURCE'' (ctx_uuid ctx (n + i))) (map fst (List.enumerate 0 cs))"
    unfolding map_map by (rule map_cong) auto
  then have ids: "map resource_id ?xs = map (\<lambda>i. new_id ''RESOURCE'' (ctx_uuid ctx (n + i))) [0..<length cs]" by simp
  have "map (\<lambda>i. new_id ''RESOURCE'' (ctx_uuid ctx (n + i))) [0..<length cs] =
    map (\<lambda>i. new_id ''RESOURCE'' (ctx_uuid ctx i)) [n..<n + length cs]"
    by (rule nth_equalityI) simp_all
  with assms(2) have "distinct (map resource_id ?xs)" by (simp only: ids)
  moreover have "apply_events v (map (\<lambda>x. FlightEvent (ResourceLeaseAcquired x)) ?xs) = Inr u"
    using assms(1) by (simp add: resource_acquisition_events_def comp_def)
  ultimately have effect: "flight_leases u = flight_leases v"
    "\<And>x. x \<in> set ?xs \<Longrightarrow> bt_get (resource_leases u) (resource_id x) = Some x" using acquisitions by blast+
  show "flight_leases u = flight_leases v" by (rule effect(1))
  show "holds_claims u l cs" unfolding holds_claims_def
  proof
    fix c assume "c \<in> set cs"
    then obtain i where i: "i < length cs" "cs ! i = c" by (auto simp: in_set_conv_nth)
    then have "(i, c) \<in> set (List.enumerate 0 cs)" by (auto simp: in_set_enumerate_eq)
    then have "acquired_lease ctx n l (i, c) \<in> set ?xs" by simp
    from effect(2) [OF this] show "\<exists>x. bt_get (resource_leases u) (resource_id x) = Some x \<and>
        resource_claim x = c \<and> resource_flight_lease_id x = lease_id l \<and>
        resource_status x = resource_lease_status.Active \<and>
        resource_issued_at x = lease_issued_at l \<and> resource_expires_at x = resource_term l"
      by (intro exI [of _ "acquired_lease ctx n l (i, c)"]) simp
  qed
qed

section \<open>Authorizing\<close>

lemma check_authorization_Inr:
  assumes "check_authorization s tid authorized_by worker ttl = Inr (f, t, human, agent)"
  shows "60 \<le> ttl" and "ttl \<le> 86400" and "task_snapshot s tid = Inr (f, t)"
    and "task_status t \<in> {Accepted, InProgress, task_status.Blocked}" and "ensure_dependencies_complete f t = Inr ()"
    and "lookup_principal s authorized_by = Some human" and "principal_is_task_actor s t human"
    and "principal_kind human = principal_kind.Human"
    and "lookup_principal s worker = Some agent" and "principal_kind agent = principal_kind.Agent"
    and "principal_owner_id agent = Some (principal_id human)"
    and "ensure_task_actor s t (principal_name agent) = Inr ()"
  using assms by (auto simp: check_authorization_def ttl_ok_def get_principal_Inr split: if_splits)

lemma only_flights_authorization:
  assumes "only_flights s u"
  shows "check_authorization u = check_authorization s"
proof -
  note same = only_flights_reads [OF assms]
  have "principal_is_task_actor u = principal_is_task_actor s"
    by (simp add: fun_eq_iff principal_is_task_actor_def same split: option.split)
  then have actor: "ensure_task_actor u = ensure_task_actor s"
    by (auto simp: fun_eq_iff ensure_task_actor_def get_principal_def same)
  have principal: "get_principal u = get_principal s" by (simp add: fun_eq_iff get_principal_def same)
  have "check_authorization u tid authorized_by worker ttl = check_authorization s tid authorized_by worker ttl"
    for tid authorized_by worker ttl
    unfolding check_authorization_def same actor principal by (rule refl)
  then show ?thesis by (simp add: fun_eq_iff)
qed

lemma cmd_then_Inr:
  assumes "cmd_then c g (db, s) = (Inr y, db', s')"
  obtains x db1 s1 where "c (db, s) = (Inr x, db1, s1)" "g x (db1, s1) = (Inr y, db', s')"
  using assms by (cases "c (db, s)") (auto simp: cmd_then_def split: sum.splits)

text \<open>A manifest keeps within its clearance, and everything it claims has a name of its own.\<close>

lemma build_flight_manifest_Inr:
  assumes "build_flight_manifest mid at s f t human ttl d = Inr m"
  shows "manifest_declared_by m = principal_name human"
    and "budget_max_duration_seconds (manifest_fuel m) \<le> ttl" and "0 < budget_max_duration_seconds (manifest_fuel m)"
    and "1 \<le> policy_max_attempts (manifest_recovery m)" and "policy_max_attempts (manifest_recovery m) \<le> 10"
    and "manifest_resources m \<noteq> []" and "length (manifest_resources m) \<le> 32"
    and "manifest_capability_pack m = Office \<Longrightarrow> contract_requires_human_release (manifest_output_contract m)"
    and "manifest_recovery m = with_default (draft_recovery d) default_recovery_policy"
    and "manifest_capability_pack m = with_default (draft_capability_pack d) General"
    and "manifest_resources m = given_or (draft_resources d) (default_resources t)"
    and "draft_output_contract d = Some c \<Longrightarrow> manifest_output_contract m = c"
    and "draft_fuel d = Some b \<Longrightarrow> manifest_fuel m = b"
  using assms
  by (auto simp: build_flight_manifest_def Let_def validate_fuel_def validate_recovery_def validate_resources_def
      validate_output_contract_def word_gt_0 not_less split: if_splits)

text \<open>A flight claims at most 32 resources, so 32 identifiers that differ are enough.\<close>

definition fresh_resources :: "call_context \<Rightarrow> nat \<Rightarrow> bool" where
  "fresh_resources ctx n \<longleftrightarrow> distinct (map (\<lambda>i. new_id ''RESOURCE'' (ctx_uuid ctx i)) [n..<n + 32])"

lemma fresh_resources_enough:
  assumes "fresh_resources ctx n" and "k \<le> 32"
  shows "distinct (map (\<lambda>i. new_id ''RESOURCE'' (ctx_uuid ctx i)) [n..<n + k])"
  using assms by (auto simp: fresh_resources_def distinct_map intro: inj_on_subset)

lemma clearance_committed:
  assumes "apply_events s (FlightEvent (RemoteFlightAuthorized l) # resource_acquisition_events ctx n l cs) = Inr v"
    and "fresh_resources ctx n" and "length cs \<le> 32"
  shows "bt_get (flight_leases v) (lease_id l) = Some l" and "holds_claims v l cs"
proof -
  from assms(1) obtain w where w: "apply_remote_flight_authorized l s = Inr w"
    and rest: "apply_events w (resource_acquisition_events ctx n l cs) = Inr v" by auto
  note effect = acquisition_holds [OF rest fresh_resources_enough [OF assms(2,3)]]
  from w show "bt_get (flight_leases v) (lease_id l) = Some l"
    by (auto simp: effect(2) apply_remote_flight_authorized_def)
  show "holds_claims v l cs" by (rule effect(1))
qed

lemma clearance_only_flights:
  "apply_events s (FlightEvent (RemoteFlightAuthorized l) # resource_acquisition_events ctx n l cs) = Inr v
    \<Longrightarrow> only_flights s v"
  by (erule flight_events_only) (simp add: resource_acquisition_events_def list_all_iff)

lemma authorize_flight_effect:
  assumes "authorize_remote_flight_with_manifest reap ctx tid authorized_by worker executor ttl draft (db, s)
      = (Inr l, db', s')" and "fresh_resources ctx 2" and "keyed lease_id (flight_leases s)"
  obtains f t human agent m s1 where "check_authorization s tid authorized_by worker ttl = Inr (f, t, human, agent)"
    "l = authorized_lease (new_id ''LEASE'' (ctx_uuid ctx 1)) f t human agent executor ttl (ctx_clock ctx 0) m"
    "build_flight_manifest (new_id ''MANIFEST'' (ctx_uuid ctx 0)) (ctx_clock ctx 1) s1 f t human ttl draft = Inr m"
    "bt_get (flight_leases s') (lease_id l) = Some l" "holds_claims s' l (manifest_resources m)"
    "only_flights s s'"
proof -
  from assms(1) obtain n db1 s1 where reaped: "expire_remote_flights reap lease_reaper (db, s) = (Inr n, db1, s1)"
    and run: "perform ctx (decide_authorize_flight ctx tid authorized_by worker executor ttl draft) answer_with (db1, s1)
      = (Inr l, db', s')"
    unfolding authorize_remote_flight_with_manifest_def by (rule cmd_then_Inr)
  note only1 = expire_flights_effect(2) [OF reaped [unfolded expire_remote_flights_def] assms(3)]
  from run obtain author es x v where
      d: "decide_authorize_flight ctx tid authorized_by worker executor ttl draft s1 = Inr (author, es, x)"
    and answer: "answer_with x s' = Inr l" and v: "apply_events s1 es = Inr v"
    and s': "s' = v\<lparr>notification_deliveries := notification_deliveries s', last_sequence := last_sequence s'\<rparr>"
    by (rule performed)
  from d obtain f t human agent m where
      check: "check_authorization s tid authorized_by worker ttl = Inr (f, t, human, agent)"
    and m: "build_flight_manifest (new_id ''MANIFEST'' (ctx_uuid ctx 0)) (ctx_clock ctx 1) s1 f t human ttl draft = Inr m"
    and x: "x = authorized_lease (new_id ''LEASE'' (ctx_uuid ctx 1)) f t human agent executor ttl (ctx_clock ctx 0) m"
    and es: "es = FlightEvent (RemoteFlightAuthorized x) # resource_acquisition_events ctx 2 x (manifest_resources m)"
    by (auto simp: decide_authorize_flight_def Let_def only_flights_authorization [OF only1] split: if_splits)
  note effect = clearance_committed [OF v [unfolded es] assms(2) build_flight_manifest_Inr(7) [OF m]]
  note only2 = only_flights_committed [OF clearance_only_flights [OF v [unfolded es]] s']
  have "flight_leases s' = flight_leases v" "resource_leases s' = resource_leases v" by (subst s', simp)+
  with effect answer x show ?thesis
    by (intro that [OF check _ m _ _ only_flights_trans [OF only1 only2]]) (simp_all add: holds_claims_def)
qed

section \<open>Recovering\<close>

lemma check_recovery_Inr:
  assumes "check_recovery ctx s lid actor q = Inr (human, l)"
  shows "lookup_principal s actor = Some human" and "principal_kind human = principal_kind.Human"
    and "bt_get (flight_leases s) lid = Some l"
    and "lease_authorized_by l = principal_name human \<or> flow_requested_by s (lease_flow_id l) human"
    and "flight_status_is_terminal (lease_status l)"
    and "wanted_action q \<noteq> Fork \<Longrightarrow> lease_status l = Crashed"
    and "wanted_action q \<in> set (policy_allowed_actions (manifest_recovery (parent_manifest ctx l human)))"
    and "\<not> ends_recovery (wanted_action q) \<Longrightarrow>
      lease_attempt l < policy_max_attempts (manifest_recovery (parent_manifest ctx l human))"
    and "60 \<le> wanted_ttl_seconds q" and "wanted_ttl_seconds q \<le> 86400"
  using assms
  by (auto simp: check_recovery_def get_principal_Inr find_flight_lease_def Let_def ttl_ok_def not_le
      flight_status_is_terminal_def split: if_splits)

text \<open>What an expiry does not change of a lease.\<close>

lemma lapsed_simps [simp]:
  "lease_id (lapsed now l) = lease_id l" "lease_flow_id (lapsed now l) = lease_flow_id l"
  "lease_task_id (lapsed now l) = lease_task_id l" "lease_principal_id (lapsed now l) = lease_principal_id l"
  "lease_authorized_by (lapsed now l) = lease_authorized_by l" "lease_attempt (lapsed now l) = lease_attempt l"
  "lease_executor (lapsed now l) = lease_executor l" "lease_manifest (lapsed now l) = lease_manifest l"
  "lease_root_lease_id (lapsed now l) = lease_root_lease_id l"
  "lease_status (lapsed now l) = Expired"
  "parent_manifest ctx (lapsed now l) human = parent_manifest ctx l human"
  by (simp_all add: lapsed_def parent_manifest_def fallback_manifest_def split: option.split)

lemma child_flight_Inr:
  assumes "child_flight ctx k s l human q = Inr c"
  obtains f t agent m executor where "task_snapshot s (lease_task_id l) = Inr (f, t)"
    "lookup_principal s (lease_principal_id l) = Some agent"
    "build_flight_manifest (new_id ''MANIFEST'' (ctx_uuid ctx (k + 2))) (ctx_clock ctx (k + 1)) s f t human
       (wanted_ttl_seconds q) (recovery_draft (parent_manifest ctx l human) l (wanted_objective q)) = Inr m"
    "recovery_executor l q = Inr executor"
    "c = child_lease (new_id ''LEASE'' (ctx_uuid ctx k)) l human agent executor (wanted_ttl_seconds q)
       (ctx_clock ctx (k + 2)) m"
  using assms unfolding child_flight_def by (auto simp: get_principal_Inr)

lemma child_lease_simps [simp]:
  "lease_id (child_lease cid l human agent executor ttl now m) = cid"
  "lease_manifest (child_lease cid l human agent executor ttl now m) = Some m"
  "lease_attempt (child_lease cid l human agent executor ttl now m) = lease_attempt l + 1"
  "lease_parent_lease_id (child_lease cid l human agent executor ttl now m) = Some (lease_id l)"
  "lease_root_lease_id (child_lease cid l human agent executor ttl now m)
    = Some (with_default (lease_root_lease_id l) (lease_id l))"
  "lease_task_id (child_lease cid l human agent executor ttl now m) = lease_task_id l"
  "lease_flow_id (child_lease cid l human agent executor ttl now m) = lease_flow_id l"
  "lease_executor (child_lease cid l human agent executor ttl now m) = executor"
  "lease_status (child_lease cid l human agent executor ttl now m) = Authorized"
  "lease_principal_id (child_lease cid l human agent executor ttl now m) = principal_id agent"
  by (simp_all add: child_lease_def)

text \<open>
  A recovery that creates a flight: the parent as it stood before the expired clearances were reaped,
  the human who decided, and the new flight with what it claims.
\<close>

definition recovers :: "call_context \<Rightarrow> org_state \<Rightarrow> flight_lease \<Rightarrow> principal \<Rightarrow> recovery_request \<Rightarrow> flight_lease \<Rightarrow> flight_manifest \<Rightarrow> bool" where
  "recovers ctx s l human q c m \<longleftrightarrow>
     lease_manifest c = Some m \<and> lease_parent_lease_id c = Some (lease_id l) \<and>
     lease_root_lease_id c = Some (with_default (lease_root_lease_id l) (lease_id l)) \<and>
     lease_task_id c = lease_task_id l \<and> lease_status c = Authorized \<and>
     (let policy = manifest_recovery (parent_manifest ctx l human) in
       wanted_action q \<in> set (policy_allowed_actions policy) \<and>
       unat (lease_attempt c) = unat (lease_attempt l) + 1 \<and>
       lease_attempt c \<le> policy_max_attempts policy \<and> policy_max_attempts policy \<le> 10) \<and>
     manifest_recovery m = manifest_recovery (parent_manifest ctx l human) \<and>
     manifest_fuel m = manifest_fuel (parent_manifest ctx l human) \<and>
     manifest_output_contract m = manifest_output_contract (parent_manifest ctx l human) \<and>
     manifest_capability_pack m = manifest_capability_pack (parent_manifest ctx l human) \<and>
     (wanted_action q = SwitchExecutor \<longrightarrow> lease_executor c \<noteq> lease_executor l) \<and>
     principal_kind human = principal_kind.Human \<and>
     (lease_authorized_by l = principal_name human \<or> flow_requested_by s (lease_flow_id l) human)"

lemma attempt_below:
  fixes a b :: u32
  assumes "a < b"
  shows "unat (a + 1) = unat a + 1" and "a + 1 \<le> b"
proof -
  have "unat a + 1 < 2 ^ 32" using assms unsigned_less [of b, where ?'a = nat] by (simp add: word_less_nat_alt)
  then show suc: "unat (a + 1) = unat a + 1" by (simp add: unat_word_ariths)
  show "a + 1 \<le> b" using assms by (simp add: word_le_nat_alt word_less_nat_alt suc)
qed

lemma recover_flight_effect:
  assumes "recover_remote_flight reap ctx lid actor q (db, s) = (Inr (Some c), db', s')"
    and "bt_get (flight_leases s) lid = Some l" and "keyed lease_id (flight_leases s)"
    and "fresh_resources ctx 3" and "fresh_resources ctx 4"
  obtains human m where "lookup_principal s actor = Some human" "recovers ctx s l human q c m"
    "\<not> ends_recovery (wanted_action q)"
    "flight_status_is_terminal (lease_status l) \<or> overdue (ctx_clock reap 0) l"
    "bt_get (flight_leases s') (lease_id c) = Some c" "holds_claims s' c (manifest_resources m)"
    "only_flights s s'"
proof -
  from assms(1) obtain n db1 s1 where reaped: "expire_remote_flights reap lease_reaper (db, s) = (Inr n, db1, s1)"
    and run: "perform ctx (decide_recover_flight ctx lid actor q) answer_with (db1, s1) = (Inr (Some c), db', s')"
    unfolding recover_remote_flight_def by (rule cmd_then_Inr)
  note expired = expire_flights_effect [OF reaped [unfolded expire_remote_flights_def] assms(3)]
  note same = only_flights_reads [OF expired(2)]
  let ?now = "ctx_clock reap 0"
  let ?l = "if overdue ?now l then lapsed ?now l else l"
  have l: "bt_get (flight_leases s1) lid = Some ?l" by (simp add: expired(1) assms(2))
  from run obtain author es x v where d: "decide_recover_flight ctx lid actor q s1 = Inr (author, es, x)"
    and answer: "answer_with x s' = Inr (Some c)" and v: "apply_events s1 es = Inr v"
    and s': "s' = v\<lparr>notification_deliveries := notification_deliveries s', last_sequence := last_sequence s'\<rparr>"
    by (rule performed)
  let ?k = "if lease_manifest l = None then 1 else 0 :: nat"
  from d answer l obtain human where check: "check_recovery ctx s1 lid actor q = Inr (human, ?l)"
    and ends: "\<not> ends_recovery (wanted_action q)" and child: "child_flight ctx ?k s1 ?l human q = Inr c"
    and es: "es = FlightEvent (FlightRecoveryDecided (lease_flow_id ?l) (lease_task_id ?l)
        (recovery_decided ctx ?k ?l human q)) # FlightEvent (RemoteFlightAuthorized c) #
        resource_acquisition_events ctx (?k + 3) c (manifest_resources (the (lease_manifest c)))"
    by (auto simp: decide_recover_flight_def Let_def dest: check_recovery_Inr(3) split: if_splits)
  note facts = check_recovery_Inr [OF check]
  from child obtain f t agent m executor where
      m: "build_flight_manifest (new_id ''MANIFEST'' (ctx_uuid ctx (?k + 2))) (ctx_clock ctx (?k + 1)) s1 f t human
        (wanted_ttl_seconds q) (recovery_draft (parent_manifest ctx ?l human) ?l (wanted_objective q)) = Inr m"
    and executor: "recovery_executor ?l q = Inr executor"
    and c: "c = child_lease (new_id ''LEASE'' (ctx_uuid ctx ?k)) ?l human agent executor (wanted_ttl_seconds q)
        (ctx_clock ctx (?k + 2)) m" by (rule child_flight_Inr)
  note built = build_flight_manifest_Inr [OF m]
  from v es c obtain w where w: "apply_flight_recovery_decided (recovery_decided ctx ?k ?l human q) s1 = Inr w"
    and rest: "apply_events w (FlightEvent (RemoteFlightAuthorized c) #
        resource_acquisition_events ctx (?k + 3) c (manifest_resources m)) = Inr v" by auto
  have "fresh_resources ctx (?k + 3)" using assms(4,5) by (simp add: eval_nat_numeral)
  note effect = clearance_committed [OF rest this built(7)]
  have "only_flights s1 v"
    by (rule flight_events_only [OF v]) (simp add: es resource_acquisition_events_def list_all_iff)
  from only_flights_trans [OF expired(2) only_flights_committed [OF this s']] have only: "only_flights s s'" .
  have shared: "parent_manifest ctx ?l human = parent_manifest ctx l human" "lease_attempt ?l = lease_attempt l"
    "lease_executor ?l = lease_executor l" "lease_id ?l = lease_id l" "lease_task_id ?l = lease_task_id l"
    "lease_root_lease_id ?l = lease_root_lease_id l" "lease_authorized_by ?l = lease_authorized_by l"
    "lease_flow_id ?l = lease_flow_id l" by simp_all
  have attempt: "lease_attempt l < policy_max_attempts (manifest_recovery (parent_manifest ctx l human))"
    using facts(8) [OF ends] by (simp only: shared)
  have "manifest_recovery m = manifest_recovery (parent_manifest ctx l human)"
    using built(9) by (simp add: recovery_draft_def)
  moreover have "manifest_fuel m = manifest_fuel (parent_manifest ctx l human)"
    "manifest_output_contract m = manifest_output_contract (parent_manifest ctx l human)"
    using built(12,13) by (simp_all add: recovery_draft_def)
  moreover have "manifest_capability_pack m = manifest_capability_pack (parent_manifest ctx l human)"
    using built(10) by (simp add: recovery_draft_def)
  moreover have "wanted_action q = SwitchExecutor \<Longrightarrow> executor \<noteq> lease_executor l"
    using executor by (auto simp: recovery_executor_def split: if_splits)
  moreover have "wanted_action q \<in> set (policy_allowed_actions (manifest_recovery (parent_manifest ctx l human)))"
    using facts(7) by (simp only: shared)
  moreover have "lease_authorized_by l = principal_name human \<or> flow_requested_by s (lease_flow_id l) human"
    using facts(4) by (simp only: shared same)
  moreover have "policy_max_attempts (manifest_recovery (parent_manifest ctx l human)) \<le> 10"
    using built(5,9) by (simp add: recovery_draft_def shared)
  ultimately have "recovers ctx s l human q c m"
    using facts(2) attempt_below [OF attempt] by (simp add: recovers_def c Let_def shared)
  moreover have "flight_status_is_terminal (lease_status l) \<or> overdue ?now l"
    using facts(5) by (simp split: if_splits)
  moreover have "flight_leases s' = flight_leases v" "resource_leases s' = resource_leases v" by (subst s', simp)+
  then have "bt_get (flight_leases s') (lease_id c) = Some c" "holds_claims s' c (manifest_resources m)"
    using effect by (simp_all add: holds_claims_def)
  moreover have "lookup_principal s actor = Some human" using facts(1) by (simp only: same)
  ultimately show ?thesis using ends only by (intro that)
qed

end
