(* ===== verification/Flight_Properties.thy ===== *)
theory Flight_Properties
  imports Command_Properties Flight_Facts
begin

text \<open>
  What the clearance of flights promises: who can be authorized, that a clearance is used once, what a
  landing takes, and how far a crashed flight can be recovered.
\<close>

section \<open>A flight that is cleared for take-off\<close>

definition flight_fuel :: fuel_budget where
  "flight_fuel =
     \<lparr>budget_max_duration_seconds = 60, budget_max_context_bytes = 1000, budget_max_tokens = Some 10,
      budget_max_tool_calls = None, budget_max_cost_usd = None\<rparr>"

definition flight_draft :: flight_manifest_draft where
  "flight_draft = default_flight_manifest_draft\<lparr>draft_landing_conditions := [''tests pass''],
     draft_fuel := Some flight_fuel\<rparr>"

definition sample_manifest :: flight_manifest where
  "sample_manifest =
     \<lparr>manifest_id = ''MANIFEST-1'', manifest_repository = None, manifest_objective = ''Build it'',
      manifest_landing_conditions = [''tests pass''], manifest_context_refs = [''task://TASK-1''],
      manifest_tool_permissions = default_tool_permissions, manifest_fuel = flight_fuel,
      manifest_recovery = default_recovery_policy,
      manifest_resources = [\<lparr>claim_kind = Workspace, claim_key = ''TASK-1'', claim_exclusive = True\<rparr>],
      manifest_capability_pack = General, manifest_output_contract = default_output_contract,
      manifest_declared_by = ''ada'', manifest_declared_at = 0\<rparr>"

definition bot_lease :: "flight_lease_status \<Rightarrow> flight_lease" where
  "bot_lease st =
     \<lparr>lease_id = ''LEASE-1'', lease_flow_id = ''FLOW-1'', lease_task_id = ''TASK-1'',
      lease_principal_id = ''PRN-2'', lease_principal_name = ''bot'', lease_authorized_by = ''ada'',
      lease_executor = executor_kind.Codex, lease_status = st, lease_issued_at = 0, lease_expires_at = 100,
      lease_claimed_at = None, lease_finished_at = None, lease_run_id = Some ''RUN-1'', lease_report = None,
      lease_manifest = Some sample_manifest, lease_parent_lease_id = None, lease_root_lease_id = None,
      lease_attempt = 1\<rparr>"

definition hangar :: "task_status \<Rightarrow> org_state" where
  "hangar st = (working st)\<lparr>principals := bt_insert ''PRN-1'' (sample_principal ''PRN-1'' ''ada'')
     (bt_insert ''PRN-2'' ((sample_principal ''PRN-2'' ''bot'')\<lparr>principal_kind := principal_kind.Agent,
        principal_owner_id := Some ''PRN-1''\<rparr>) bt_empty)\<rparr>"

definition flying :: "flight_lease_status \<Rightarrow> task_status \<Rightarrow> org_state" where
  "flying lst st = (hangar st)\<lparr>
     flight_leases := bt_insert ''LEASE-1'' (bot_lease lst) bt_empty,
     resource_leases := bt_insert ''RESOURCE-1''
       ((sample_resource ''RESOURCE-1'' 0 200)\<lparr>resource_flight_lease_id := ''LEASE-1''\<rparr>) bt_empty\<rparr>"

definition flown_flow :: "task_status \<Rightarrow> flow" where
  "flown_flow st = sample_flow\<lparr>flow_tasks := [owned_task st, sample_task ''TASK-2'' ''test''],
    flow_status := flow_status.Active\<rparr>"

lemma flying_facts:
  "flows_filed (flying lst st)" "keyed lease_id (flight_leases (flying lst st))"
  "keyed resource_id (resource_leases (flying lst st))" "names_own (flown_flow st)"
  "bt_get (flight_leases (flying lst st)) ''LEASE-1'' = Some (bot_lease lst)"
  "bt_get (flows (flying lst st)) ''FLOW-1'' = Some (flown_flow st)"
  "owned_task st \<in> set (flow_tasks (flown_flow st))" "task_id (owned_task st) = ''TASK-1''"
  by (simp_all add: flows_filed_def flying_def hangar_def working_def staffed_def default_state_def keyed_def
      bot_lease_def sample_resource_def sample_flow_def flown_flow_def names_own_def owned_task_def sample_task_def)

section \<open>Authorizing\<close>

text \<open>
  C28: A flight is cleared by a human who works on the task, for an agent that human owns and that works
  on the task too, for a minute to a day, and only while the task is accepted, under way or blocked and all
  it depends on is complete. The flight then holds everything its manifest claims, and nothing but flights
  and resources has changed.
\<close>

theorem clearances_are_personal:
  assumes "authorize_remote_flight_with_manifest reap ctx tid authorized_by worker executor ttl draft (db, s)
      = (Inr l, db', s')" and "fresh_resources ctx 2" and "keyed lease_id (flight_leases s)"
  shows "\<exists>f t human agent m. task_snapshot s tid = Inr (f, t) \<and>
    task_status t \<in> {Accepted, InProgress, task_status.Blocked} \<and>
    (\<forall>d \<in> set (task_depends_on t). \<forall>dep. flow_task f d = Some dep \<longrightarrow> task_status dep = task_status.Completed) \<and>
    lookup_principal s authorized_by = Some human \<and> principal_kind human = principal_kind.Human \<and>
    principal_is_task_actor s t human \<and>
    lookup_principal s worker = Some agent \<and> principal_kind agent = principal_kind.Agent \<and>
    principal_owner_id agent = Some (principal_id human) \<and> ensure_task_actor s t (principal_name agent) = Inr () \<and>
    bt_get (flight_leases s') (lease_id l) = Some l \<and> lease_status l = Authorized \<and> lease_attempt l = 1 \<and>
    lease_principal_id l = principal_id agent \<and> lease_task_id l = task_id t \<and>
    lease_expires_at l = lease_issued_at l + sint ttl * 1000000000 \<and> 60 \<le> ttl \<and> ttl \<le> 86400 \<and>
    lease_manifest l = Some m \<and> manifest_resources m \<noteq> [] \<and> holds_claims s' l (manifest_resources m) \<and>
    only_flights s s'"
proof -
  from assms obtain f t human agent m s1 where
      check: "check_authorization s tid authorized_by worker ttl = Inr (f, t, human, agent)"
    and l: "l = authorized_lease (new_id ''LEASE'' (ctx_uuid ctx 1)) f t human agent executor ttl (ctx_clock ctx 0) m"
    and m: "build_flight_manifest (new_id ''MANIFEST'' (ctx_uuid ctx 0)) (ctx_clock ctx 1) s1 f t human ttl draft = Inr m"
    and after: "bt_get (flight_leases s') (lease_id l) = Some l" "holds_claims s' l (manifest_resources m)"
      "only_flights s s'" by (rule authorize_flight_effect)
  have fields: "lease_status l = Authorized" "lease_attempt l = 1" "lease_principal_id l = principal_id agent"
    "lease_task_id l = task_id t" "lease_expires_at l = lease_issued_at l + sint ttl * 1000000000"
    "lease_manifest l = Some m" by (simp_all add: l authorized_lease_def)
  show ?thesis
    using check_authorization_Inr [OF check] build_flight_manifest_Inr(6) [OF m] after fields
    by (intro exI [of _ f] exI [of _ t] exI [of _ human] exI [of _ agent] exI [of _ m]) simp
qed

theorem clearances_are_personal_witness:
  "\<exists>l db' s'. authorize_remote_flight_with_manifest work_context work_context ''TASK-1'' ''ada'' ''bot''
      executor_kind.Codex 60 flight_draft (SqliteStore bt_empty, hangar InProgress) = (Inr l, db', s') \<and>
    bt_get (flight_leases s') (lease_id l) = Some l \<and> lease_principal_id l = ''PRN-2''"
proof -
  let ?r = "authorize_remote_flight_with_manifest work_context work_context ''TASK-1'' ''ada'' ''bot''
      executor_kind.Codex 60 flight_draft (SqliteStore bt_empty, hangar InProgress)"
  have "is_ok (fst ?r)" by code_simp
  then obtain l db' s' where r: "?r = (Inr l, db', s')" by (cases ?r) (auto simp: is_ok_iff)
  have fresh: "fresh_resources work_context 2" by code_simp
  have keyed: "keyed lease_id (flight_leases (hangar InProgress))"
    by (simp add: hangar_def working_def staffed_def default_state_def)
  have "map_option principal_id (lookup_principal (hangar InProgress) ''bot'') = Some ''PRN-2''" by code_simp
  with clearances_are_personal [OF r fresh keyed] r show ?thesis by auto
qed

section \<open>Claiming\<close>



section \<open>Finishing\<close>

text \<open>
  C30: A flight lands when its agent says so, its fuel stayed within the budget of its manifest, and what
  it delivered meets the contract of its manifest; otherwise it has crashed and its task is blocked. Either
  way it holds no resource any more. Only its own agent can report it, and to report the same again, even
  with another clock, is answered with the same lease and changes nothing.
\<close>

theorem landings_are_earned:
  assumes "finish_remote_flight ctx lid actor landed given (db, s) = (Inr l', db', s')"
    and "bt_get (flight_leases s) lid = Some l" and "lease_status l = flight_lease_status.Active"
    and "keyed lease_id (flight_leases s)" and "keyed resource_id (resource_leases s)" and "flows_filed s"
    and "bt_get (flows s) (lease_flow_id l) = Some f" and "names_own f"
    and "t \<in> set (flow_tasks f)" and "task_id t = lease_task_id l" and "lease_manifest l = Some m"
    and "ok = (landed \<and> within_budget (manifest_fuel m) given \<and>
      meets_contract s l m (normalize_deliverables l (report_changed_files given)))"
  shows "lease_status l' = (if ok then Landed else Crashed) \<and> bt_get (flight_leases s') lid = Some l' \<and>
    held_by s' lid = [] \<and> steps_task s s' f t (if ok then task_status t else task_status.Blocked) \<and>
    (\<exists>p. lookup_principal s actor = Some p \<and> lease_principal_id l = principal_id p) \<and>
    finish_remote_flight again lid actor landed given (db', s') = (Inr l', db', s')"
proof -
  define r where "r = classified landed (assessed s l given)"
  have ok: "ok = effectively_landed landed r"
    unfolding r_def assms(12) by (rule landing_earned [OF assms(11), symmetric])
  obtain p where p: "lookup_principal s actor = Some p" "lease_principal_id l = principal_id p"
    and valid: "validate_remote_flight_report l given = Inr ()"
    and l': "l' = reported (ctx_clock ctx 0) ok r l" and leases: "flight_leases s' = bt_insert lid l' (flight_leases s)"
    and flows: "flows s' = bt_insert (lease_flow_id l) (edited f (task_id t) (after_flight ctx l p ok r)) (flows s)"
    and held: "held_by s' lid = []" and staged: "staged_artifacts s' = staged_artifacts s"
    and people: "principals s' = principals s"
    by (rule finish_flight_effect [OF assms(1-5,7-10) r_def ok])
  have "flow_id f = lease_flow_id l" using assms(6,7) by (auto simp: flows_filed_def)
  with edit_steps [of s' f t "after_flight ctx l p ok r" s] flows assms(8,9)
  have "steps_task s s' f t (if ok then task_status t else task_status.Blocked)" by simp
  moreover have "finish_remote_flight again lid actor landed given (db', s') = (Inr l', db', s')"
    unfolding l' ok
  proof (rule finish_again [OF _ _ p(2) valid])
    show "bt_get (flight_leases s') lid = Some (reported (ctx_clock ctx 0) (effectively_landed landed r) r l)"
      by (simp add: leases l' ok)
    show "lookup_principal s' actor = Some p" using p(1) unfolding lookup_principal_def people .
    have "is_staged s' l = is_staged s l" by (simp add: fun_eq_iff is_staged_def staged)
    then have "output_contract_violations s' l = output_contract_violations s l"
      by (auto simp: fun_eq_iff output_contract_violations_def split: option.split)
    then show "r = classified landed (assessed s' l given)" by (simp add: r_def assessed_def)
  qed
  ultimately show ?thesis using l' leases held p by (auto simp: reported_def)
qed

definition sample_report :: "string list \<Rightarrow> remote_flight_report" where
  "sample_report changed =
     \<lparr>report_run_id = ''RUN-1'', report_executor = executor_kind.Codex, report_summary = ''built'',
      report_base_revision = ''HEAD'', report_changed_files = changed,
      report_patch_sha256 = (if changed = [] then None else Some sample_digest),
      report_log_sha256 = sample_digest, report_started_at = 0, report_finished_at = 1000000000,
      report_fuel = \<lparr>usage_duration_seconds = 1, usage_context_bytes = 10, usage_tokens = Some 5,
        usage_tool_calls = None, usage_cost_usd = None\<rparr>,
      report_failure_class = None, report_budget_exhaustions = [], report_deliverables = [],
      report_contract_violations = [], report_sandbox = None\<rparr>"

abbreviation flying_now :: "task_status \<Rightarrow> org_state" where
  "flying_now st \<equiv> flying flight_lease_status.Active st"

theorem landings_are_earned_witness:
  "\<exists>l' db' s'. finish_remote_flight work_context ''LEASE-1'' ''bot'' True (sample_report [''a.rs''])
      (SqliteStore bt_empty, flying_now InProgress) = (Inr l', db', s') \<and>
    lease_status l' = Landed \<and> held_by s' ''LEASE-1'' = []"
proof -
  let ?given = "sample_report [''a.rs'']" and ?l = "bot_lease flight_lease_status.Active"
  let ?r = "finish_remote_flight work_context ''LEASE-1'' ''bot'' True ?given
      (SqliteStore bt_empty, flying_now InProgress)"
  have "is_ok (fst ?r)" by code_simp
  then obtain l' db' s' where r: "?r = (Inr l', db', s')" by (cases ?r) (auto simp: is_ok_iff)
  have l: "lease_status ?l = flight_lease_status.Active" "lease_flow_id ?l = ''FLOW-1''"
    "lease_task_id ?l = ''TASK-1''" "lease_manifest ?l = Some sample_manifest" by (simp_all add: bot_lease_def)
  have "within_budget flight_fuel ?given"
    by (simp add: within_budget_def within_limit_def flight_fuel_def sample_report_def flight_seconds_def
        measured_seconds_def)
  then have ok: "True = (True \<and> within_budget (manifest_fuel sample_manifest) ?given \<and>
      meets_contract (flying_now InProgress) ?l sample_manifest (normalize_deliverables ?l (report_changed_files ?given)))"
    by (simp add: meets_contract_def sample_manifest_def default_output_contract_def)
  from landings_are_earned [OF r flying_facts(5) l(1) flying_facts(2,3,1), unfolded l,
      OF flying_facts(6,4,7,8) refl ok] r
  show ?thesis by auto
qed


section \<open>Recovering\<close>


definition retry_request :: recovery_request where
  "retry_request = \<lparr>wanted_action = Retry, wanted_reason = ''try again'', wanted_executor = None,
     wanted_objective = None, wanted_ttl_seconds = 60\<rparr>"

definition crashed_flight :: org_state where
  "crashed_flight = (flying Crashed task_status.Blocked)\<lparr>resource_leases := bt_empty\<rparr>"


end
