(* ===== verification/App_Tracking.thy ===== *)
theory App_Tracking
  imports App_Command App_Policy "HOL-Library.Product_Lexorder"
begin

text \<open>
  The tracker (\<open>src/application/tracker.rs\<close>) and the scan that acts on what it finds
  (\<open>src/application/app/tracking.rs\<close>). A scan compares the findings with the attentions that are active,
  resolves those that are no longer founded, raises the missing ones, and escalates the critical and the
  old ones to the human who asked for the flow.
\<close>

section \<open>Findings\<close>

text \<open>The derived order of an enum compares the positions of the variants.\<close>

fun attention_rank :: "attention_kind \<Rightarrow> nat" where
  "attention_rank AcceptanceWaiting = 0"
| "attention_rank StaleHeartbeat = 1"
| "attention_rank attention_kind.Blocked = 2"
| "attention_rank ReviewWaiting = 3"
| "attention_rank Overdue = 4"

lemma attention_rank_inject [simp]: "attention_rank a = attention_rank b \<longleftrightarrow> a = b"
  by (cases a; cases b) simp_all

instantiation attention_kind :: linorder
begin

definition less_eq_attention_kind :: "attention_kind \<Rightarrow> attention_kind \<Rightarrow> bool" where
  "less_eq_attention_kind a b \<longleftrightarrow> attention_rank a \<le> attention_rank b"

definition less_attention_kind :: "attention_kind \<Rightarrow> attention_kind \<Rightarrow> bool" where
  "less_attention_kind a b \<longleftrightarrow> attention_rank a < attention_rank b"

instance
  by standard (auto simp: less_eq_attention_kind_def less_attention_kind_def)

end

fun severity_rank :: "attention_severity \<Rightarrow> int" where
  "severity_rank Warning = 0"
| "severity_rank Critical = 1"

record tracking_finding =
  finding_flow_id :: string
  finding_task_id :: string
  finding_kind :: attention_kind
  finding_severity :: attention_severity
  finding_summary :: string

definition finding_of :: "flow \<Rightarrow> task \<Rightarrow> attention_kind \<Rightarrow> attention_severity \<Rightarrow> string \<Rightarrow> tracking_finding" where
  "finding_of f t k sev summary =
     \<lparr>finding_flow_id = flow_id f, finding_task_id = task_id t, finding_kind = k,
      finding_severity = sev, finding_summary = summary\<rparr>"

definition heartbeat_stale :: "task \<Rightarrow> instant \<Rightarrow> int \<Rightarrow> bool" where
  "heartbeat_stale t now stale_after \<longleftrightarrow>
     (case task_last_heartbeat t of None \<Rightarrow> False | Some at \<Rightarrow> stale_after \<le> now - at)"

definition dependencies_complete :: "flow \<Rightarrow> task \<Rightarrow> bool" where
  "dependencies_complete f t \<longleftrightarrow>
     list_all (\<lambda>tid. case flow_task f tid of None \<Rightarrow> False | Some d \<Rightarrow> task_status d = task_status.Completed)
       (task_depends_on t)"

definition overdue_finding :: "(instant \<Rightarrow> string) \<Rightarrow> instant \<Rightarrow> flow \<Rightarrow> task \<Rightarrow> tracking_finding list" where
  "overdue_finding show_minute now f t =
     (if estimate_p80_finish (task_estimate t) < now
      then [finding_of f t Overdue Critical
        (task_title t @ '' '' @ bytes [0xE5, 0xB7, 0xB2, 0xE8, 0xB6, 0x85, 0xE8, 0xBF, 0x87] @ '' P80 '' @ bytes [0xE5, 0xAE, 0x8C, 0xE6, 0x88, 0x90, 0xE6, 0x97, 0xB6, 0xE9, 0x97, 0xB4] @ '' '' @ show_minute (estimate_p80_finish (task_estimate t)))]
      else [])"

fun status_finding :: "task_status \<Rightarrow> instant \<Rightarrow> int \<Rightarrow> flow \<Rightarrow> task \<Rightarrow> tracking_finding list" where
  "status_finding Assigned now stale_after f t =
     (if (case flow_approved_at f of None \<Rightarrow> False | Some at \<Rightarrow> stale_after \<le> now - at)
      then [finding_of f t AcceptanceWaiting Warning (task_title t @ '' '' @ bytes [0xE6, 0xB4, 0xBE, 0xE5, 0x8F, 0x91, 0xE5, 0x90, 0x8E, 0xE4, 0xBB, 0x8D, 0xE6, 0x9C, 0xAA, 0xE6, 0x8E, 0xA5, 0xE5, 0x8D, 0x95])] else [])"
| "status_finding Accepted now stale_after f t =
     (if dependencies_complete f t \<and> heartbeat_stale t now stale_after
      then [finding_of f t StaleHeartbeat Warning (task_title t @ '' '' @ bytes [0xE5, 0xB7, 0xB2, 0xE5, 0x8F, 0xAF, 0xE5, 0xBC, 0x80, 0xE5, 0xB7, 0xA5, 0xE4, 0xBD, 0x86, 0xE9, 0x95, 0xBF, 0xE6, 0x97, 0xB6, 0xE9, 0x97, 0xB4, 0xE6, 0xB2, 0xA1, 0xE6, 0x9C, 0x89, 0xE6, 0x96, 0xB0, 0xE8, 0x88, 0xAA, 0xE7, 0x82, 0xB9])] else [])"
| "status_finding InProgress now stale_after f t =
     (if heartbeat_stale t now stale_after
      then [finding_of f t StaleHeartbeat Warning (task_title t @ '' '' @ bytes [0xE6, 0x89, 0xA7, 0xE8, 0xA1, 0x8C, 0xE4, 0xB8, 0xAD, 0xE4, 0xBD, 0x86, 0xE9, 0x95, 0xBF, 0xE6, 0x97, 0xB6, 0xE9, 0x97, 0xB4, 0xE6, 0xB2, 0xA1, 0xE6, 0x9C, 0x89, 0xE6, 0x96, 0xB0, 0xE8, 0x88, 0xAA, 0xE7, 0x82, 0xB9])] else [])"
| "status_finding task_status.Blocked now stale_after f t =
     [finding_of f t attention_kind.Blocked Critical
        (task_title t @ '' '' @ bytes [0xE8, 0xAF, 0xB7, 0xE6, 0xB1, 0x82, 0xE5, 0x8D, 0x8F, 0xE5, 0x8A, 0xA9, 0xEF, 0xBC, 0x9A] @
         (case task_blocker t of None \<Rightarrow> bytes [0xE6, 0x9C, 0xAA, 0xE6, 0x8F, 0x90, 0xE4, 0xBE, 0x9B, 0xE5, 0x8E, 0x9F, 0xE5, 0x9B, 0xA0] | Some b \<Rightarrow> b))]"
| "status_finding Submitted now stale_after f t =
     (if heartbeat_stale t now stale_after
      then [finding_of f t ReviewWaiting Warning (task_title t @ '' '' @ bytes [0xE6, 0x8F, 0x90, 0xE4, 0xBA, 0xA4, 0xE5, 0x90, 0x8E, 0xE4, 0xBB, 0x8D, 0xE5, 0x9C, 0xA8, 0xE7, 0xAD, 0x89, 0xE5, 0xBE, 0x85] @ '' Human '' @ bytes [0xE9, 0xAA, 0x8C, 0xE6, 0x94, 0xB6])] else [])"
| "status_finding _ now stale_after f t = []"

definition task_findings :: "(instant \<Rightarrow> string) \<Rightarrow> instant \<Rightarrow> int \<Rightarrow> flow \<Rightarrow> task \<Rightarrow> tracking_finding list" where
  "task_findings show_minute now stale_after f t =
     (if task_status_is_terminal (task_status t) then []
      else overdue_finding show_minute now f t @ status_finding (task_status t) now stale_after f t)"

definition is_tracked :: "flow \<Rightarrow> bool" where
  "is_tracked f \<longleftrightarrow> flow_status f = flow_status.Approved \<or> flow_status f = flow_status.Active"

definition evaluate :: "(instant \<Rightarrow> string) \<Rightarrow> org_state \<Rightarrow> instant \<Rightarrow> int \<Rightarrow> tracking_finding list" where
  "evaluate show_minute s now stale_after =
     concat (map (\<lambda>f. concat (map (task_findings show_minute now stale_after f) (flow_tasks f)))
       (filter is_tracked (bt_values (flows s))))"

section \<open>The scan\<close>

text \<open>
  \<open>Duration::try_hours\<close>: the date library holds a duration in milliseconds of 64 bits. Durations are
  nanoseconds here.
\<close>

definition try_hours :: "u64 \<Rightarrow> int option" where
  "try_hours h = (if uint h * 3600 \<le> 9223372036854775 then Some (uint h * 3600 * 1000000000) else None)"

type_synonym attention_key = "string \<times> string \<times> attention_kind"

definition finding_key :: "tracking_finding \<Rightarrow> attention_key" where
  "finding_key x = (finding_flow_id x, finding_task_id x, finding_kind x)"

definition attention_key_of :: "tracking_attention \<Rightarrow> attention_key" where
  "attention_key_of a = (attention_flow_id a, attention_task_id a, attention_kind a)"

text \<open>Collecting pairs into a map: of two entries with a key the later one stays.\<close>

definition collected :: "('k::linorder \<times> 'v) list \<Rightarrow> ('k, 'v) btree" where
  "collected xs = foldl (\<lambda>m (k, v). bt_insert k v m) bt_empty xs"

definition desired_findings :: "tracking_finding list \<Rightarrow> (attention_key, tracking_finding) btree" where
  "desired_findings xs = collected (map (\<lambda>x. (finding_key x, x)) xs)"

definition current_attentions :: "org_state \<Rightarrow> (attention_key, string) btree" where
  "current_attentions s = collected (map (\<lambda>a. (attention_key_of a, attention_id a)) (active_attentions s))"

definition current_escalations :: "org_state \<Rightarrow> (string, string) btree" where
  "current_escalations s = collected (map (\<lambda>e. (escalation_attention_id e, escalation_id e)) (active_escalations s))"

definition unfounded :: "(attention_key, tracking_finding) btree \<Rightarrow> (attention_key, string) btree
    \<Rightarrow> (attention_key \<times> string) list" where
  "unfounded desired current = filter (\<lambda>(k, _). \<not> bt_contains desired k) (bt_entries current)"

definition attention_resolution :: "instant \<Rightarrow> attention_key \<times> string \<Rightarrow> domain_event" where
  "attention_resolution now = (\<lambda>((fid, tid, k), aid).
     TrackingEvent (TrackingAttentionResolved fid tid aid k now ''condition cleared by tracker scan''))"

definition new_attention :: "call_context \<Rightarrow> nat \<Rightarrow> instant \<Rightarrow> tracking_finding \<Rightarrow> tracking_attention" where
  "new_attention ctx i now x =
     \<lparr>attention_id = new_id ''ATTN'' (ctx_uuid ctx i), attention_flow_id = finding_flow_id x,
      attention_task_id = finding_task_id x, attention_kind = finding_kind x,
      attention_severity = finding_severity x, attention_summary = finding_summary x,
      attention_raised_at = now, attention_resolved_at = None\<rparr>"

text \<open>The attentions there will be, and those of them that are new.\<close>

fun project_attentions ::
    "call_context \<Rightarrow> instant \<Rightarrow> org_state \<Rightarrow> (attention_key, string) btree \<Rightarrow> nat
      \<Rightarrow> (attention_key \<times> tracking_finding) list \<Rightarrow> (tracking_attention list \<times> tracking_attention list) result" where
  "project_attentions ctx now s current i [] = Inr ([], [])"
| "project_attentions ctx now s current i ((k, x) # xs) =
     (case bt_get current k of
        Some aid \<Rightarrow>
          and_then (found ''tracking attention'' aid (bt_get (attentions s) aid)) (\<lambda>a.
          and_then (project_attentions ctx now s current i xs) (\<lambda>(ps, rs). Inr (a # ps, rs)))
      | None \<Rightarrow>
          (let a = new_attention ctx i now x in
           and_then (project_attentions ctx now s current (i + 1) xs) (\<lambda>(ps, rs). Inr (a # ps, a # rs))))"

text \<open>The escalations whose attention is resolved.\<close>

definition orphaned :: "tracking_attention list \<Rightarrow> (string, string) btree \<Rightarrow> (string \<times> string) list" where
  "orphaned projected escalated =
     filter (\<lambda>(aid, _). aid \<notin> attention_id ` set projected) (bt_entries escalated)"

definition escalation_resolution :: "instant \<Rightarrow> org_state \<Rightarrow> string \<times> string \<Rightarrow> domain_event result" where
  "escalation_resolution now s = (\<lambda>(_, eid).
     and_then (found ''tracking escalation'' eid (bt_get (escalations s) eid)) (\<lambda>e.
       Inr (TrackingEvent (TrackingEscalationResolved (escalation_flow_id e) (escalation_task_id e) eid now
         ''source attention resolved''))))"

definition escalation_recipient :: "org_state \<Rightarrow> tracking_attention \<Rightarrow> principal option" where
  "escalation_recipient s a =
     Option.bind (bt_get (flows s) (attention_flow_id a)) (\<lambda>f.
     Option.bind (lookup_principal s (demand_requester (flow_demand f))) (\<lambda>p.
       if principal_kind p = principal_kind.Human then Some p else None))"

definition should_escalate :: "instant \<Rightarrow> int \<Rightarrow> tracking_attention \<Rightarrow> bool" where
  "should_escalate now escalate_after a \<longleftrightarrow>
     attention_severity a = Critical \<or> escalate_after \<le> now - attention_raised_at a"

definition new_escalation :: "call_context \<Rightarrow> nat \<Rightarrow> instant \<Rightarrow> tracking_attention \<Rightarrow> principal \<Rightarrow> tracking_escalation" where
  "new_escalation ctx i now a p =
     \<lparr>escalation_id = new_id ''ESC'' (ctx_uuid ctx i), escalation_attention_id = attention_id a,
      escalation_flow_id = attention_flow_id a, escalation_task_id = attention_task_id a,
      escalation_recipient_id = principal_id p, escalation_recipient_name = principal_name p,
      escalation_reason = attention_summary a, escalation_raised_at = now,
      escalation_acknowledged_at = None, escalation_acknowledged_by = None, escalation_resolved_at = None\<rparr>"

fun new_escalations ::
    "call_context \<Rightarrow> instant \<Rightarrow> int \<Rightarrow> org_state \<Rightarrow> (string, string) btree \<Rightarrow> nat \<Rightarrow> tracking_attention list
      \<Rightarrow> tracking_escalation list" where
  "new_escalations ctx now escalate_after s escalated i [] = []"
| "new_escalations ctx now escalate_after s escalated i (a # as) =
     (if \<not> should_escalate now escalate_after a \<or> bt_contains escalated (attention_id a)
      then new_escalations ctx now escalate_after s escalated i as
      else
        (case escalation_recipient s a of
           None \<Rightarrow> new_escalations ctx now escalate_after s escalated i as
         | Some p \<Rightarrow> new_escalation ctx i now a p # new_escalations ctx now escalate_after s escalated (i + 1) as))"

text \<open>What a scan is going to do.\<close>

record scan_plan =
  plan_resolved :: "(attention_key \<times> string) list"
  plan_raised :: "tracking_attention list"
  plan_orphaned :: "(string \<times> string) list"
  plan_closing :: "domain_event list"
  plan_escalated :: "tracking_escalation list"

definition scan_events :: "instant \<Rightarrow> scan_plan \<Rightarrow> domain_event list" where
  "scan_events now p =
     map (attention_resolution now) (plan_resolved p) @
     map (\<lambda>a. TrackingEvent (TrackingAttentionRaised a)) (plan_raised p) @
     plan_closing p @
     map (\<lambda>e. TrackingEvent (TrackingEscalationRaised e)) (plan_escalated p)"

definition plan_scan ::
    "call_context \<Rightarrow> (instant \<Rightarrow> string) \<Rightarrow> instant \<Rightarrow> u64 \<Rightarrow> u64 \<Rightarrow> org_state \<Rightarrow> scan_plan result" where
  "plan_scan ctx show_minute now stale_after_hours escalate_after_hours s =
     and_then (get_organization s) (\<lambda>_.
       if stale_after_hours = 0
       then Inl (relay_error.Validation ''stale-after hours must be greater than zero'')
       else
         and_then (ok_or (try_hours stale_after_hours)
           (relay_error.Validation ''stale-after hours is too large'')) (\<lambda>stale_after.
         and_then (ok_or (try_hours escalate_after_hours)
           (relay_error.Validation ''escalate-after hours is too large'')) (\<lambda>escalate_after.
           let desired = desired_findings (evaluate show_minute s now stale_after);
               current = current_attentions s;
               escalated = current_escalations s in
           and_then (project_attentions ctx now s current 0 (bt_entries desired)) (\<lambda>(projected, raised).
           and_then (try_map (escalation_resolution now s) (orphaned projected escalated)) (\<lambda>closing.
             Inr \<lparr>plan_resolved = unfounded desired current,
                  plan_raised = raised,
                  plan_orphaned = orphaned projected escalated,
                  plan_closing = closing,
                  plan_escalated =
                    new_escalations ctx now escalate_after s escalated (length raised) projected\<rparr>)))))"

definition scanned_tasks :: "org_state \<Rightarrow> nat" where
  "scanned_tasks s =
     length (filter (\<lambda>t. \<not> task_status_is_terminal (task_status t))
       (concat (map flow_tasks (filter is_tracked (bt_values (flows s))))))"

definition scan_answer :: "instant \<Rightarrow> scan_plan \<Rightarrow> org_state \<Rightarrow> tracking_scan" where
  "scan_answer now p s =
     \<lparr>scan_scanned_at = now,
      scan_scanned_tasks = scanned_tasks s,
      scan_raised = List.map_filter (\<lambda>a. bt_get (attentions s) (attention_id a)) (plan_raised p),
      scan_resolved = List.map_filter (\<lambda>(_, aid). bt_get (attentions s) aid) (plan_resolved p),
      scan_active = sort_key (\<lambda>a. (- severity_rank (attention_severity a), attention_raised_at a, attention_id a))
        (active_attentions s),
      scan_escalated = List.map_filter (\<lambda>e. bt_get (escalations s) (escalation_id e)) (plan_escalated p),
      scan_resolved_escalations = List.map_filter (\<lambda>(_, eid). bt_get (escalations s) eid) (plan_orphaned p)\<rparr>"

text \<open>A scan that finds nothing to change commits nothing.\<close>

definition scan_tracking_with_policy_at ::
    "call_context \<Rightarrow> (instant \<Rightarrow> string) \<Rightarrow> instant \<Rightarrow> u64 \<Rightarrow> u64 \<Rightarrow> string \<Rightarrow> tracking_scan command" where
  "scan_tracking_with_policy_at ctx show_minute now stale_after_hours escalate_after_hours actor = (\<lambda>(db, s).
     (case plan_scan ctx show_minute now stale_after_hours escalate_after_hours s of
        Inl err \<Rightarrow> (Inl err, db, s)
      | Inr p \<Rightarrow>
          if scan_events now p = [] then (Inr (scan_answer now p s), db, s)
          else perform ctx (\<lambda>_. Inr (actor, scan_events now p, p)) (\<lambda>p s. Inr (scan_answer now p s)) (db, s)))"

definition scan_tracking_with_policy ::
    "call_context \<Rightarrow> (instant \<Rightarrow> string) \<Rightarrow> u64 \<Rightarrow> u64 \<Rightarrow> string \<Rightarrow> tracking_scan command" where
  "scan_tracking_with_policy ctx show_minute stale_after_hours escalate_after_hours actor =
     scan_tracking_with_policy_at ctx show_minute (ctx_clock ctx 0) stale_after_hours escalate_after_hours actor"

definition scan_tracking :: "call_context \<Rightarrow> (instant \<Rightarrow> string) \<Rightarrow> u64 \<Rightarrow> string \<Rightarrow> tracking_scan command" where
  "scan_tracking ctx show_minute stale_after_hours actor =
     scan_tracking_with_policy ctx show_minute stale_after_hours 4 actor"

section \<open>The inbox of escalations\<close>

definition escalation_inbox :: "org_state \<Rightarrow> string \<Rightarrow> bool \<Rightarrow> tracking_escalation list result" where
  "escalation_inbox s target include_resolved =
     and_then (get_principal s target) (\<lambda>p.
       Inr (sort_key (\<lambda>e. (\<not> escalation_needs_acknowledgement e, - escalation_raised_at e, escalation_id e))
         (filter (\<lambda>e. include_resolved \<or> escalation_is_active e)
           (filter (\<lambda>e. escalation_recipient_id e = principal_id p) (bt_values (escalations s))))))"

end
