(* ===== verification/Tracking_Facts.thy ===== *)
theory Tracking_Facts
  imports App_Tracking
begin

text \<open>
  A scan reconciles: afterwards the active attentions are exactly the findings, the active escalations
  belong to active attentions, and a second scan at the same time has nothing to do.
\<close>

section \<open>Collected maps\<close>

lemma collected_get: "bt_get (collected xs) k = map_of (rev xs) k"
  by (induction xs rule: rev_induct) (auto simp: collected_def split: prod.splits)

lemma collected_some: "bt_get (collected xs) k = Some v \<Longrightarrow> (k, v) \<in> set xs"
  unfolding collected_get by (drule map_of_SomeD) simp

lemma collected_contains: "bt_contains (collected xs) k \<longleftrightarrow> k \<in> fst ` set xs"
  using map_of_eq_None_iff [of "rev xs" k] by (auto simp: bt_contains_iff collected_get)

lemma collected_unique:
  assumes "(k, v) \<in> set xs" and "\<And>w. (k, w) \<in> set xs \<Longrightarrow> w = v"
  shows "bt_get (collected xs) k = Some v"
proof -
  have "k \<in> fst ` set xs" using assms(1) by force
  then obtain w where "bt_get (collected xs) k = Some w"
    using collected_contains [of xs k] by (auto simp: bt_contains_iff)
  with assms(2) collected_some [OF this] show ?thesis by simp
qed

lemma entries_keys: "fst ` set (bt_entries m) = {k. bt_contains m k}"
  by (auto simp: bt_contains_iff bt_entries_iff image_iff split: prod.splits) (metis bt_entries_iff fst_conv)

lemma keyed_own: "bt_get m k = Some v \<Longrightarrow> keyed f m \<Longrightarrow> bt_get m (f v) = Some v"
  using keyedD by fastforce

section \<open>What a scan relies on\<close>

definition attentions_unique :: "org_state \<Rightarrow> bool" where
  "attentions_unique s \<longleftrightarrow> keyed attention_id (attentions s) \<and>
     (\<forall>j k a b. bt_get (attentions s) j = Some a \<longrightarrow> bt_get (attentions s) k = Some b \<longrightarrow>
        attention_is_active a \<longrightarrow> attention_is_active b \<longrightarrow> attention_key_of a = attention_key_of b \<longrightarrow> j = k)"

definition escalations_unique :: "org_state \<Rightarrow> bool" where
  "escalations_unique s \<longleftrightarrow> keyed escalation_id (escalations s) \<and>
     (\<forall>j k a b. bt_get (escalations s) j = Some a \<longrightarrow> bt_get (escalations s) k = Some b \<longrightarrow>
        escalation_is_active a \<longrightarrow> escalation_is_active b \<longrightarrow>
        escalation_attention_id a = escalation_attention_id b \<longrightarrow> j = k)"

lemma in_active_attentions:
  "a \<in> set (active_attentions s) \<longleftrightarrow> attention_is_active a \<and> (\<exists>k. bt_get (attentions s) k = Some a)"
  by (auto simp: active_attentions_def)

lemma in_active_escalations:
  "e \<in> set (active_escalations s) \<longleftrightarrow> escalation_is_active e \<and> (\<exists>k. bt_get (escalations s) k = Some e)"
  by (auto simp: active_escalations_def)

lemma current_attention:
  assumes "attentions_unique s"
  shows "bt_get (current_attentions s) k = Some aid \<longleftrightarrow>
    (\<exists>a. bt_get (attentions s) aid = Some a \<and> attention_is_active a \<and> attention_key_of a = k)" (is "?l \<longleftrightarrow> ?r")
proof
  assume ?l
  from collected_some [OF this [unfolded current_attentions_def]] obtain a j where
      "bt_get (attentions s) j = Some a" "attention_is_active a" "attention_key_of a = k" "attention_id a = aid"
    by (auto simp: in_active_attentions)
  with assms keyed_own [of "attentions s" j a attention_id] show ?r by (auto simp: attentions_unique_def)
next
  assume ?r
  then obtain a where a: "bt_get (attentions s) aid = Some a" "attention_is_active a" "attention_key_of a = k" by blast
  then have id: "attention_id a = aid" using assms by (auto simp: attentions_unique_def)
  show ?l unfolding current_attentions_def
  proof (rule collected_unique)
    show "(k, aid) \<in> set (map (\<lambda>a. (attention_key_of a, attention_id a)) (active_attentions s))"
      using a id by (force simp: in_active_attentions)
    fix w assume "(k, w) \<in> set (map (\<lambda>a. (attention_key_of a, attention_id a)) (active_attentions s))"
    then obtain b j where "bt_get (attentions s) j = Some b" "attention_is_active b" "attention_key_of b = k" "w = attention_id b"
      by (auto simp: in_active_attentions)
    with a assms show "w = aid" unfolding attentions_unique_def by (metis keyedD)
  qed
qed

lemma current_escalation:
  assumes "escalations_unique s"
  shows "bt_get (current_escalations s) aid = Some eid \<longleftrightarrow>
    (\<exists>e. bt_get (escalations s) eid = Some e \<and> escalation_is_active e \<and> escalation_attention_id e = aid)" (is "?l \<longleftrightarrow> ?r")
proof
  assume ?l
  from collected_some [OF this [unfolded current_escalations_def]] obtain e j where
      "bt_get (escalations s) j = Some e" "escalation_is_active e" "escalation_attention_id e = aid" "escalation_id e = eid"
    by (auto simp: in_active_escalations)
  with assms keyed_own [of "escalations s" j e escalation_id] show ?r by (auto simp: escalations_unique_def)
next
  assume ?r
  then obtain a where a: "bt_get (escalations s) eid = Some a" "escalation_is_active a" "escalation_attention_id a = aid" by blast
  then have id: "escalation_id a = eid" using assms by (auto simp: escalations_unique_def)
  show ?l unfolding current_escalations_def
  proof (rule collected_unique)
    show "(aid, eid) \<in> set (map (\<lambda>e. (escalation_attention_id e, escalation_id e)) (active_escalations s))"
      using a id by (force simp: in_active_escalations)
    fix w assume "(aid, w) \<in> set (map (\<lambda>e. (escalation_attention_id e, escalation_id e)) (active_escalations s))"
    then obtain b j where "bt_get (escalations s) j = Some b" "escalation_is_active b" "escalation_attention_id b = aid" "w = escalation_id b"
      by (auto simp: in_active_escalations)
    with a assms show "w = eid" unfolding escalations_unique_def by (metis keyedD)
  qed
qed

lemma desired_contains: "bt_contains (desired_findings xs) k \<longleftrightarrow> k \<in> finding_key ` set xs"
  by (force simp: desired_findings_def collected_contains)

lemma desired_entry: "(k, x) \<in> set (bt_entries (desired_findings xs)) \<Longrightarrow> x \<in> set xs \<and> finding_key x = k"
  by (auto simp: bt_entries_iff desired_findings_def dest!: collected_some)

lemma desired_keys: "fst ` set (bt_entries (desired_findings xs)) = finding_key ` set xs"
  by (auto simp: entries_keys desired_contains)

section \<open>Projecting\<close>

lemma new_attention_simps [simp]:
  "attention_key_of (new_attention ctx i now x) = finding_key x"
  "attention_id (new_attention ctx i now x) = new_id ''ATTN'' (ctx_uuid ctx i)"
  "attention_is_active (new_attention ctx i now x)"
  by (simp_all add: new_attention_def attention_key_of_def finding_key_def attention_is_active_def)

text \<open>A desired key that is current keeps its attention; for each of the others there is a new one.\<close>

lemma project_spec:
  assumes "project_attentions ctx now s current i xs = Inr (ps, rs)"
    and "\<And>k x. (k, x) \<in> set xs \<Longrightarrow> finding_key x = k"
  shows "map attention_id rs = map (\<lambda>j. new_id ''ATTN'' (ctx_uuid ctx j)) [i..<i + length rs] \<and>
    map attention_key_of rs = filter (\<lambda>k. bt_get current k = None) (map fst xs) \<and>
    list_all attention_is_active rs \<and>
    set ps = set rs \<union> {a. \<exists>k \<in> fst ` set xs. \<exists>aid. bt_get current k = Some aid \<and> bt_get (attentions s) aid = Some a}"
  using assms
proof (induction xs arbitrary: i ps rs)
  case Nil
  then show ?case by simp
next
  case (Cons y xs)
  obtain k x where y: "y = (k, x)" by (cases y)
  have fk: "finding_key x = k" using Cons.prems(2) [of k x] by (simp add: y)
  have rest: "\<And>k x. (k, x) \<in> set xs \<Longrightarrow> finding_key x = k" using Cons.prems(2) by simp
  show ?case
  proof (cases "bt_get current k")
    case None
    with Cons.prems(1) obtain ps' rs' where r: "project_attentions ctx now s current (i + 1) xs = Inr (ps', rs')"
      and out: "ps = new_attention ctx i now x # ps'" "rs = new_attention ctx i now x # rs'"
      by (auto simp: y Let_def)
    have "[i..<i + length rs] = i # [i + 1..<i + 1 + length rs']" 
      using upt_conv_Cons [of i "i + length rs"] by (simp add: out del: upt_Suc)
    with Cons.IH [OF r rest] None out fk show ?thesis by (auto simp: y)
  next
    case (Some aid)
    with Cons.prems(1) obtain a ps' where a: "bt_get (attentions s) aid = Some a"
      and r: "project_attentions ctx now s current i xs = Inr (ps', rs)" and out: "ps = a # ps'"
      by (auto simp: y)
    from Cons.IH [OF r rest] Some a out show ?thesis by (auto simp: y)
  qed
qed

lemma project_keys:
  assumes "project_attentions ctx now s current i xs = Inr (ps, rs)"
    and "\<And>k x. (k, x) \<in> set xs \<Longrightarrow> finding_key x = k"
    and "\<And>k aid a. bt_get current k = Some aid \<Longrightarrow> bt_get (attentions s) aid = Some a \<Longrightarrow> attention_key_of a = k"
  shows "map attention_key_of ps = map fst xs"
  using assms(1,2)
proof (induction xs arbitrary: i ps rs)
  case (Cons y xs)
  obtain k x where y: "y = (k, x)" by (cases y)
  have rest: "\<And>k x. (k, x) \<in> set xs \<Longrightarrow> finding_key x = k" using Cons.prems(2) by simp
  from Cons.prems(1) obtain a ps' j rs' where ps: "ps = a # ps'"
    and r: "project_attentions ctx now s current j xs = Inr (ps', rs')"
    and a: "a = new_attention ctx i now x \<or> (\<exists>aid. bt_get current k = Some aid \<and> bt_get (attentions s) aid = Some a)"
    by (auto simp: y Let_def split: option.splits)
  from a have "attention_key_of a = k"
  proof
    assume "a = new_attention ctx i now x"
    with Cons.prems(2) [of k x] show ?thesis by (simp add: y)
  qed (use assms(3) in blast)
  with Cons.IH [OF r rest] show ?case by (simp add: y ps)
qed simp

text \<open>Nothing is left to raise where every desired key is current.\<close>

lemma project_settled:
  assumes "\<And>k x. (k, x) \<in> set xs \<Longrightarrow> \<exists>aid a. bt_get current k = Some aid \<and> bt_get (attentions s) aid = Some a"
  shows "\<exists>ps. project_attentions ctx now s current i xs = Inr (ps, []) \<and>
    set ps = {a. \<exists>k \<in> fst ` set xs. \<exists>aid. bt_get current k = Some aid \<and> bt_get (attentions s) aid = Some a}"
  using assms
proof (induction xs)
  case Nil
  then show ?case by simp
next
  case (Cons y xs)
  obtain k x where y: "y = (k, x)" by (cases y)
  from Cons.prems [of k x] obtain aid a
    where current: "bt_get current k = Some aid" "bt_get (attentions s) aid = Some a"
    by (auto simp: y)
  have rest: "\<And>k x. (k, x) \<in> set xs \<Longrightarrow> \<exists>aid a. bt_get current k = Some aid \<and> bt_get (attentions s) aid = Some a"
    using Cons.prems by (meson list.set_intros(2))
  have "\<exists>ps. project_attentions ctx now s current i xs = Inr (ps, []) \<and>
    set ps = {a. \<exists>k \<in> fst ` set xs. \<exists>aid. bt_get current k = Some aid \<and> bt_get (attentions s) aid = Some a}"
    by (rule Cons.IH) (rule rest)
  then obtain ps where "project_attentions ctx now s current i xs = Inr (ps, [])"
    "set ps = {a. \<exists>k \<in> fst ` set xs. \<exists>aid. bt_get current k = Some aid \<and> bt_get (attentions s) aid = Some a}"
    by blast
  with current show ?case by (auto simp: y)
qed

section \<open>What the events of a scan do\<close>

definition settle :: "instant \<Rightarrow> tracking_attention \<Rightarrow> tracking_attention" where
  "settle at a = a\<lparr>attention_resolved_at := Some at\<rparr>"

definition close_escalation :: "instant \<Rightarrow> tracking_escalation \<Rightarrow> tracking_escalation" where
  "close_escalation at e = e\<lparr>escalation_resolved_at := Some at\<rparr>"

lemma settle_simps [simp]:
  "settle at (settle at a) = settle at a" "attention_id (settle at a) = attention_id a"
  "\<not> attention_is_active (settle at a)"
  "close_escalation at (close_escalation at e) = close_escalation at e"
  "escalation_id (close_escalation at e) = escalation_id e" "\<not> escalation_is_active (close_escalation at e)"
  by (simp_all add: settle_def close_escalation_def attention_is_active_def escalation_is_active_def)

lemma settled_changes [simp]:
  "attention_is_active a \<Longrightarrow> a \<noteq> settle at a" "escalation_is_active e \<Longrightarrow> e \<noteq> close_escalation at e"
  by (metis settle_simps)+

lemma resolutions:
  assumes "apply_events s (map (attention_resolution now) rs) = Inr v"
  shows "v = s\<lparr>attentions := attentions v\<rparr> \<and>
    (\<forall>k. bt_get (attentions v) k =
       map_option (\<lambda>a. if k \<in> snd ` set rs then settle now a else a) (bt_get (attentions s) k))"
  using assms
proof (induction rs arbitrary: s)
  case (Cons r rs)
  obtain fid tid k aid where r: "r = ((fid, tid, k), aid)" by (cases r) auto
  from Cons.prems obtain w where w: "apply_tracking_attention_resolved fid tid aid k now s = Inr w"
    and rest: "apply_events w (map (attention_resolution now) rs) = Inr v"
    by (auto simp: r attention_resolution_def)
  from w obtain a where a: "bt_get (attentions s) aid = Some a"
    and w': "w = s\<lparr>attentions := bt_insert aid (settle now a) (attentions s)\<rparr>"
    by (auto simp: apply_tracking_attention_resolved_def settle_def split: if_splits)
  from Cons.IH [OF rest] a show ?case by (auto simp: w' r)
qed (simp add: option.map_ident)

lemma raises:
  assumes "apply_events s (map (\<lambda>a. TrackingEvent (TrackingAttentionRaised a)) xs) = Inr v"
    and "distinct (map attention_id xs)"
  shows "v = s\<lparr>attentions := attentions v\<rparr> \<and>
    (\<forall>k a. bt_get (attentions v) k = Some a \<longleftrightarrow>
       a \<in> set xs \<and> attention_id a = k \<or> k \<notin> attention_id ` set xs \<and> bt_get (attentions s) k = Some a)"
  using assms
proof (induction xs arbitrary: s)
  case (Cons x xs)
  from Cons.prems obtain w where w: "apply_tracking_attention_raised x s = Inr w"
    and rest: "apply_events w (map (\<lambda>a. TrackingEvent (TrackingAttentionRaised a)) xs) = Inr v" by auto
  from w have w': "w = s\<lparr>attentions := bt_insert (attention_id x) x (attentions s)\<rparr>"
    by (auto simp: apply_tracking_attention_raised_def)
  from Cons.IH [OF rest] Cons.prems(2) show ?case by (auto simp: w')
qed simp

lemma closings:
  assumes "try_map (escalation_resolution now u) os = Inr closing" and "apply_events s closing = Inr v"
  shows "v = s\<lparr>escalations := escalations v\<rparr> \<and>
    (\<forall>k. bt_get (escalations v) k =
       map_option (\<lambda>e. if k \<in> snd ` set os then close_escalation now e else e) (bt_get (escalations s) k))"
  using assms
proof (induction os arbitrary: s closing)
  case (Cons x os)
  obtain aid eid where x: "x = (aid, eid)" by (cases x)
  from Cons.prems(1) obtain e es where e: "bt_get (escalations u) eid = Some e"
    and es: "try_map (escalation_resolution now u) os = Inr es"
    and cl: "closing = TrackingEvent (TrackingEscalationResolved (escalation_flow_id e) (escalation_task_id e) eid now
         ''source attention resolved'') # es"
    by (auto simp: x escalation_resolution_def)
  from Cons.prems(2) cl obtain w where
      w: "apply_tracking_escalation_resolved (escalation_flow_id e) (escalation_task_id e) eid now s = Inr w"
    and rest: "apply_events w es = Inr v" by auto
  from w obtain d where d: "bt_get (escalations s) eid = Some d"
    and w': "w = s\<lparr>escalations := bt_insert eid (close_escalation now d) (escalations s)\<rparr>"
    by (auto simp: apply_tracking_escalation_resolved_def get_escalation_def close_escalation_def split: if_splits)
  from Cons.IH [OF es rest] d show ?case by (auto simp: w' x)
qed (simp add: option.map_ident)

lemma escalation_raises:
  assumes "apply_events s (map (\<lambda>e. TrackingEvent (TrackingEscalationRaised e)) xs) = Inr v"
    and "distinct (map escalation_id xs)"
  shows "v = s\<lparr>escalations := escalations v\<rparr> \<and>
    (\<forall>k e. bt_get (escalations v) k = Some e \<longleftrightarrow>
       e \<in> set xs \<and> escalation_id e = k \<or> k \<notin> escalation_id ` set xs \<and> bt_get (escalations s) k = Some e)"
  using assms
proof (induction xs arbitrary: s)
  case (Cons x xs)
  from Cons.prems obtain w where w: "apply_tracking_escalation_raised x s = Inr w"
    and rest: "apply_events w (map (\<lambda>e. TrackingEvent (TrackingEscalationRaised e)) xs) = Inr v" by auto
  from w have w': "w = s\<lparr>escalations := bt_insert (escalation_id x) x (escalations s)\<rparr>"
    by (auto simp: apply_tracking_escalation_raised_def split: if_splits)
  from Cons.IH [OF rest] Cons.prems(2) show ?case by (auto simp: w')
qed simp

section \<open>The attentions after a scan\<close>

text \<open>The identifiers a scan may draw are new.\<close>

definition draws_fresh :: "call_context \<Rightarrow> string \<Rightarrow> nat \<Rightarrow> (string, 'v) btree \<Rightarrow> bool" where
  "draws_fresh ctx pre n m \<longleftrightarrow>
     distinct (map (\<lambda>j. new_id pre (ctx_uuid ctx j)) [0..<n]) \<and>
     (\<forall>j < n. \<not> bt_contains m (new_id pre (ctx_uuid ctx j)))"

lemma draws_fresh_block:
  assumes "draws_fresh ctx pre n m" and "j \<le> n"
    and "map f rs = map (\<lambda>j. new_id pre (ctx_uuid ctx j)) [i..<j]"
  shows "distinct (map f rs)" and "r \<in> set rs \<Longrightarrow> bt_get m (f r) = None"
proof -
  have "inj_on (\<lambda>j. new_id pre (ctx_uuid ctx j)) {0..<n}"
    using assms(1) by (simp add: draws_fresh_def distinct_map)
  then have "inj_on (\<lambda>j. new_id pre (ctx_uuid ctx j)) {i..<j}"
    by (rule inj_on_subset) (use assms(2) in auto)
  then show "distinct (map f rs)" by (simp add: assms(3) distinct_map)
  assume "r \<in> set rs"
  then have "f r \<in> set (map f rs)" by simp
  then obtain l where "f r = new_id pre (ctx_uuid ctx l)" "l < j" by (auto simp: assms(3))
  with assms(1,2) show "bt_get m (f r) = None" by (auto simp: draws_fresh_def bt_contains_iff)
qed

lemma length_desired: "length (bt_entries (desired_findings xs)) \<le> length xs"
proof -
  have "length (bt_entries (desired_findings xs)) = card (fst ` set (bt_entries (desired_findings xs)))"
    using distinct_card [OF distinct_fst_entries, of "desired_findings xs"] by simp
  also have "\<dots> \<le> card (set xs)" by (simp add: desired_keys card_image_le)
  also have "\<dots> \<le> length xs" by (rule card_length)
  finally show ?thesis .
qed

text \<open>
  The attentions that are active once the unfounded ones are resolved and the missing ones raised are
  the projected ones, one for each desired key.
\<close>

lemma attentions_reconciled:
  fixes xs :: "tracking_finding list"
  defines "desired \<equiv> desired_findings xs"
  assumes unique: "attentions_unique s"
    and project: "project_attentions ctx now s (current_attentions s) 0 (bt_entries desired) = Inr (ps, rs)"
    and resolve: "apply_events s (map (attention_resolution now) (unfounded desired (current_attentions s))) = Inr v"
    and raise: "apply_events v (map (\<lambda>a. TrackingEvent (TrackingAttentionRaised a)) rs) = Inr u"
    and fresh: "draws_fresh ctx ''ATTN'' n (attentions s)" and n: "length xs \<le> n"
  shows "u = s\<lparr>attentions := attentions u\<rparr>" and "attentions_unique u"
    and "set ps = set (active_attentions u)" and "map attention_key_of ps = map fst (bt_entries desired)"
    and "length rs \<le> length xs"
proof -
  let ?cur = "current_attentions s"
  have keyed: "keyed attention_id (attentions s)" using unique by (simp add: attentions_unique_def)
  have entry: "finding_key x = k" if "(k, x) \<in> set (bt_entries desired)" for k x
    using that by (auto simp: desired_def dest: desired_entry)
  note spec = project_spec [OF project entry]
  from spec have ids: "map attention_id rs = map (\<lambda>j. new_id ''ATTN'' (ctx_uuid ctx j)) [0..<length rs]"
    and keys: "map attention_key_of rs = filter (\<lambda>k. bt_get ?cur k = None) (map fst (bt_entries desired))"
    and active: "list_all attention_is_active rs"
    and ps: "set ps = set rs \<union> {a. \<exists>k. bt_contains desired k \<and>
      (\<exists>aid. bt_get ?cur k = Some aid \<and> bt_get (attentions s) aid = Some a)}"
    by (auto simp: entries_keys)
  have "length rs \<le> length (bt_entries desired)"
    using arg_cong [OF keys, of length] length_filter_le [of "\<lambda>k. bt_get ?cur k = None" "map fst (bt_entries desired)"] by simp
  with length_desired [of xs] show few: "length rs \<le> length xs" by (simp add: desired_def)
  note block = draws_fresh_block [OF fresh order_trans [OF few n] ids]
  note v = resolutions [OF resolve] and u = raises [OF raise block(1)]
  have dead: "aid \<in> snd ` set (unfounded desired ?cur) \<longleftrightarrow>
      (\<exists>a. bt_get (attentions s) aid = Some a \<and> attention_is_active a \<and> \<not> bt_contains desired (attention_key_of a))" for aid
  proof -
    have "aid \<in> snd ` set (unfounded desired ?cur) \<longleftrightarrow> (\<exists>k. bt_get ?cur k = Some aid \<and> \<not> bt_contains desired k)"
      by (force simp: unfounded_def bt_entries_iff image_iff)
    then show ?thesis by (auto simp: current_attention [OF unique] simp del: split_paired_Ex split_paired_All)
  qed
  have v_active: "bt_get (attentions v) k = Some a \<and> attention_is_active a \<longleftrightarrow>
      bt_get (attentions s) k = Some a \<and> attention_is_active a \<and> bt_contains desired (attention_key_of a)" for k a
    using v dead [of k] by (auto split: if_splits)
  have u_active: "bt_get (attentions u) k = Some a \<and> attention_is_active a \<longleftrightarrow>
      a \<in> set rs \<and> attention_id a = k \<or>
      bt_get (attentions s) k = Some a \<and> attention_is_active a \<and> bt_contains desired (attention_key_of a)" for k a
  proof -
    have "a \<in> set rs \<Longrightarrow> attention_is_active a" using active by (simp add: list_all_iff)
    moreover have "k \<notin> attention_id ` set rs" if "bt_get (attentions s) k = Some a"
      using that block(2) by fastforce
    ultimately show ?thesis using u v_active [of k a] by blast
  qed
  show frame: "u = s\<lparr>attentions := attentions u\<rparr>"
  proof -
    have "v\<lparr>attentions := m\<rparr> = s\<lparr>attentions := m\<rparr>" for m by (subst conjunct1 [OF v]) simp
    with u show ?thesis by simp
  qed
  show "set ps = set (active_attentions u)"
  proof (rule set_eqI)
    fix x
    have "x \<in> set ps \<longleftrightarrow> x \<in> set rs \<or> (\<exists>aid. bt_get (attentions s) aid = Some x \<and> attention_is_active x \<and>
        bt_contains desired (attention_key_of x))"
      by (auto simp: ps current_attention [OF unique] simp del: split_paired_Ex split_paired_All)
    also have "\<dots> \<longleftrightarrow> (\<exists>k. bt_get (attentions u) k = Some x \<and> attention_is_active x)"
      using u_active [of _ x] by blast
    finally show "x \<in> set ps \<longleftrightarrow> x \<in> set (active_attentions u)" by (auto simp: in_active_attentions)
  qed
  have rs_keys: "attention_key_of ` set rs = {k. bt_contains desired k \<and> bt_get ?cur k = None}"
    using arg_cong [OF keys, of set] unfolding set_map set_filter entries_keys by simp
  have rs_new: "bt_get (attentions s) k = Some b \<Longrightarrow> attention_is_active b \<Longrightarrow> attention_key_of a \<noteq> attention_key_of b"
    if "a \<in> set rs" for a b k
    using that rs_keys current_attention [OF unique, of "attention_key_of b" k] by force
  have "distinct (map attention_key_of rs)" unfolding keys by (intro distinct_filter distinct_fst_entries)
  then have rs_one: "a = b" if "a \<in> set rs" "b \<in> set rs" "attention_key_of a = attention_key_of b" for a b
    using that by (auto simp: distinct_map dest: inj_onD)
  show "attentions_unique u"
    unfolding attentions_unique_def
  proof (intro conjI allI impI)
    have "attention_id a = k" if "bt_get (attentions v) k = Some a" for k a
      using that v keyed by (auto split: if_splits)
    then show "keyed attention_id (attentions u)" using u by (auto simp: keyed_def)
  next
    fix j k a b
    assume "bt_get (attentions u) j = Some a" "bt_get (attentions u) k = Some b"
      "attention_is_active a" "attention_is_active b" and eq: "attention_key_of a = attention_key_of b"
    with u_active [of j a] u_active [of k b]
    have a: "a \<in> set rs \<and> attention_id a = j \<or> bt_get (attentions s) j = Some a \<and> attention_is_active a"
      and b: "b \<in> set rs \<and> attention_id b = k \<or> bt_get (attentions s) k = Some b \<and> attention_is_active b" by blast+
    from a b show "j = k"
      using rs_one rs_new [of a k b] rs_new [of b j a] eq unique unfolding attentions_unique_def by metis
  qed
  show "map attention_key_of ps = map fst (bt_entries desired)"
    by (rule project_keys [OF project entry]) (auto simp: current_attention [OF unique])
qed

section \<open>The escalations after a scan\<close>

lemma new_escalation_simps [simp]:
  "escalation_id (new_escalation ctx i now a p) = new_id ''ESC'' (ctx_uuid ctx i)"
  "escalation_attention_id (new_escalation ctx i now a p) = attention_id a"
  "escalation_is_active (new_escalation ctx i now a p)"
  by (simp_all add: new_escalation_def escalation_is_active_def)

definition awaits_escalation ::
    "instant \<Rightarrow> int \<Rightarrow> org_state \<Rightarrow> (string, string) btree \<Rightarrow> tracking_attention \<Rightarrow> bool" where
  "awaits_escalation now escalate_after s escalated a \<longleftrightarrow>
     should_escalate now escalate_after a \<and> \<not> bt_contains escalated (attention_id a) \<and> escalation_recipient s a \<noteq> None"

lemma new_escalations_spec:
  fixes now s escalated i as ctx escalate_after
  defines "es \<equiv> new_escalations ctx now escalate_after s escalated i as"
  shows "map escalation_id es = map (\<lambda>j. new_id ''ESC'' (ctx_uuid ctx j)) [i..<i + length es] \<and>
    map escalation_attention_id es = map attention_id (filter (awaits_escalation now escalate_after s escalated) as) \<and>
    list_all escalation_is_active es"
  unfolding es_def
proof (induction as arbitrary: i)
  case (Cons a as)
  show ?case
  proof (cases "awaits_escalation now escalate_after s escalated a")
    case False
    then have "new_escalations ctx now escalate_after s escalated i (a # as) =
        new_escalations ctx now escalate_after s escalated i as"
      by (auto simp: awaits_escalation_def)
    with Cons.IH [of i] False show ?thesis by simp
  next
    case True
    then obtain p where "escalation_recipient s a = Some p" "should_escalate now escalate_after a"
      "\<not> bt_contains escalated (attention_id a)" by (auto simp: awaits_escalation_def)
    then have out: "new_escalations ctx now escalate_after s escalated i (a # as) =
        new_escalation ctx i now a p # new_escalations ctx now escalate_after s escalated (i + 1) as"
      by simp
    let ?es = "new_escalations ctx now escalate_after s escalated (i + 1) as"
    have "[i..<i + length (new_escalation ctx i now a p # ?es)] = i # [i + 1..<i + 1 + length ?es]"
      using upt_conv_Cons [of i "i + Suc (length ?es)"] by (simp del: upt_Suc)
    with Cons.IH [of "i + 1"] True show ?thesis unfolding out by simp
  qed
qed simp

lemma escalations_reconciled:
  assumes unique: "escalations_unique s"
    and close: "try_map (escalation_resolution now s) (orphaned ps (current_escalations s)) = Inr closing"
    and closed: "apply_events u closing = Inr v" and u: "escalations u = escalations s"
    and raise: "apply_events v (map (\<lambda>e. TrackingEvent (TrackingEscalationRaised e)) es) = Inr w"
    and es: "es = new_escalations ctx now escalate_after s (current_escalations s) i ps"
    and fresh: "draws_fresh ctx ''ESC'' n (escalations s)" and n: "i + length ps \<le> n"
    and ps: "distinct (map attention_id ps)"
  shows "w = u\<lparr>escalations := escalations w\<rparr>" and "escalations_unique w"
    and "e \<in> set (active_escalations w) \<Longrightarrow> escalation_attention_id e \<in> attention_id ` set ps"
    and "a \<in> set ps \<Longrightarrow> should_escalate now escalate_after a \<Longrightarrow> escalation_recipient s a \<noteq> None \<Longrightarrow>
      attention_id a \<in> escalation_attention_id ` set (active_escalations w)"
proof -
  let ?cur = "current_escalations s" and ?need = "awaits_escalation now escalate_after s (current_escalations s)"
  have keyed: "keyed escalation_id (escalations s)" using unique by (simp add: escalations_unique_def)
  from new_escalations_spec [of ctx now escalate_after s ?cur i ps]
  have ids: "map escalation_id es = map (\<lambda>j. new_id ''ESC'' (ctx_uuid ctx j)) [i..<i + length es]"
    and about: "map escalation_attention_id es = map attention_id (filter ?need ps)"
    and active: "list_all escalation_is_active es" by (simp_all add: es)
  have "length es \<le> length ps"
    using arg_cong [OF about, of length] length_filter_le [of ?need ps] by simp
  with n have "i + length es \<le> n" by simp
  note block = draws_fresh_block [OF fresh this ids]
  note v = closings [OF close closed, unfolded u] and w = escalation_raises [OF raise block(1)]
  have orphan: "eid \<in> snd ` set (orphaned ps ?cur) \<longleftrightarrow>
      (\<exists>e. bt_get (escalations s) eid = Some e \<and> escalation_is_active e \<and>
         escalation_attention_id e \<notin> attention_id ` set ps)" for eid
  proof -
    have "eid \<in> snd ` set (orphaned ps ?cur) \<longleftrightarrow>
        (\<exists>aid. bt_get ?cur aid = Some eid \<and> aid \<notin> attention_id ` set ps)"
      by (force simp: orphaned_def bt_entries_iff image_iff)
    then show ?thesis by (auto simp: current_escalation [OF unique])
  qed
  have v_active: "bt_get (escalations v) k = Some e \<and> escalation_is_active e \<longleftrightarrow>
      bt_get (escalations s) k = Some e \<and> escalation_is_active e \<and> escalation_attention_id e \<in> attention_id ` set ps" for k e
    using v orphan [of k] by (auto split: if_splits)
  have w_active: "bt_get (escalations w) k = Some e \<and> escalation_is_active e \<longleftrightarrow>
      e \<in> set es \<and> escalation_id e = k \<or>
      bt_get (escalations s) k = Some e \<and> escalation_is_active e \<and> escalation_attention_id e \<in> attention_id ` set ps" for k e
  proof -
    have "e \<in> set es \<Longrightarrow> escalation_is_active e" using active by (simp add: list_all_iff)
    moreover have "k \<notin> escalation_id ` set es" if "bt_get (escalations s) k = Some e"
      using that block(2) by fastforce
    ultimately show ?thesis using w v_active [of k e] by blast
  qed
  show "w = u\<lparr>escalations := escalations w\<rparr>"
  proof -
    have "v\<lparr>escalations := m\<rparr> = u\<lparr>escalations := m\<rparr>" for m by (subst conjunct1 [OF v]) simp
    with w show ?thesis by simp
  qed
  have es_about: "escalation_attention_id ` set es = attention_id ` {a \<in> set ps. ?need a}"
    using arg_cong [OF about, of set] unfolding set_map set_filter .
  show "escalation_attention_id e \<in> attention_id ` set ps" if "e \<in> set (active_escalations w)"
    using that w_active [of _ e] es_about by (auto simp: in_active_escalations)
  show "attention_id a \<in> escalation_attention_id ` set (active_escalations w)"
    if "a \<in> set ps" "should_escalate now escalate_after a" "escalation_recipient s a \<noteq> None"
  proof (cases "?need a")
    case True
    with that(1) es_about have "attention_id a \<in> escalation_attention_id ` set es" by blast
    then obtain e where "e \<in> set es" "escalation_attention_id e = attention_id a" by force
    with w_active [of "escalation_id e" e] show ?thesis by (force simp: in_active_escalations)
  next
    case False
    with that obtain k where "bt_get ?cur (attention_id a) = Some k"
      by (auto simp: awaits_escalation_def bt_contains_iff)
    then obtain e where "bt_get (escalations s) k = Some e" "escalation_is_active e" "escalation_attention_id e = attention_id a"
      by (auto simp: current_escalation [OF unique])
    with w_active [of k e] that(1) show ?thesis by (force simp: in_active_escalations)
  qed
  have "distinct (map attention_id (filter ?need ps))" using ps by (simp add: distinct_map_filter)
  then have es_one: "d = e" if "d \<in> set es" "e \<in> set es" "escalation_attention_id d = escalation_attention_id e" for d e
    using that unfolding about [symmetric] by (auto simp: distinct_map dest: inj_onD)
  have es_new: "escalation_attention_id d \<noteq> escalation_attention_id e"
    if "d \<in> set es" "bt_get (escalations s) k = Some e" "escalation_is_active e" for d e k
  proof -
    from that(1) es_about have "\<not> bt_contains ?cur (escalation_attention_id d)" by (force simp: awaits_escalation_def)
    with that(2,3) show ?thesis unfolding bt_contains_iff current_escalation [OF unique] by metis
  qed
  show "escalations_unique w"
    unfolding escalations_unique_def
  proof (intro conjI allI impI)
    have "escalation_id e = k" if "bt_get (escalations v) k = Some e" for k e
      using that v keyed by (auto split: if_splits)
    then show "keyed escalation_id (escalations w)" using w by (auto simp: keyed_def)
  next
    fix j k d e
    assume "bt_get (escalations w) j = Some d" "bt_get (escalations w) k = Some e"
      "escalation_is_active d" "escalation_is_active e" and eq: "escalation_attention_id d = escalation_attention_id e"
    with w_active [of j d] w_active [of k e]
    have d: "d \<in> set es \<and> escalation_id d = j \<or> bt_get (escalations s) j = Some d \<and> escalation_is_active d"
      and e: "e \<in> set es \<and> escalation_id e = k \<or> bt_get (escalations s) k = Some e \<and> escalation_is_active e" by blast+
    from d e show "j = k"
      using es_one es_new [of d k e] es_new [of e j d] eq unique unfolding escalations_unique_def by metis
  qed
qed

section \<open>A scan\<close>

lemma plan_scan_Inr:
  assumes "plan_scan ctx show_minute now h h' s = Inr p"
  obtains stale_after escalate_after ps where "h \<noteq> 0"
    "try_hours h = Some stale_after" "try_hours h' = Some escalate_after"
    "project_attentions ctx now s (current_attentions s) 0
       (bt_entries (desired_findings (evaluate show_minute s now stale_after))) = Inr (ps, plan_raised p)"
    "try_map (escalation_resolution now s) (orphaned ps (current_escalations s)) = Inr (plan_closing p)"
    "plan_resolved p = unfounded (desired_findings (evaluate show_minute s now stale_after)) (current_attentions s)"
    "plan_escalated p = new_escalations ctx now escalate_after s (current_escalations s) (length (plan_raised p)) ps"
  using assms that unfolding plan_scan_def by (auto simp: Let_def ok_or_def split: if_splits option.splits)

text \<open>The events of a successful scan are applied, whether or not there are any.\<close>

lemma scan_applies:
  assumes "scan_tracking_with_policy_at ctx show_minute now h h' actor (db, s) = (Inr r, db', s')"
  obtains p v where "plan_scan ctx show_minute now h h' s = Inr p"
    "apply_events s (scan_events now p) = Inr v"
    "s' = v\<lparr>notification_deliveries := notification_deliveries s', last_sequence := last_sequence s'\<rparr>"
proof -
  from assms obtain p where p: "plan_scan ctx show_minute now h h' s = Inr p"
    by (auto simp: scan_tracking_with_policy_at_def split: sum.splits)
  show ?thesis
  proof (cases "scan_events now p = []")
    case True
    with assms p have "s' = s" by (simp add: scan_tracking_with_policy_at_def)
    with True p show ?thesis by (intro that [of p s]) simp_all
  next
    case False
    with assms p have "perform ctx (\<lambda>_. Inr (actor, scan_events now p, p)) (\<lambda>p s. Inr (scan_answer now p s)) (db, s)
        = (Inr r, db', s')" by (simp add: scan_tracking_with_policy_at_def)
    then show ?thesis by (rule performed) (use p that in auto)
  qed
qed

text \<open>What a scan at a time with a policy aims at.\<close>

definition reconciled :: "(instant \<Rightarrow> string) \<Rightarrow> instant \<Rightarrow> int \<Rightarrow> int \<Rightarrow> org_state \<Rightarrow> bool" where
  "reconciled show_minute now stale_after escalate_after s \<longleftrightarrow>
     attention_key_of ` set (active_attentions s) = finding_key ` set (evaluate show_minute s now stale_after) \<and>
     (\<forall>e \<in> set (active_escalations s). escalation_attention_id e \<in> attention_id ` set (active_attentions s)) \<and>
     (\<forall>a \<in> set (active_attentions s). should_escalate now escalate_after a \<longrightarrow> escalation_recipient s a \<noteq> None \<longrightarrow>
        attention_id a \<in> escalation_attention_id ` set (active_escalations s))"

lemma scan_reconciled:
  assumes run: "scan_tracking_with_policy_at ctx show_minute now h h' actor (db, s) = (Inr r, db', s')"
    and hours: "try_hours h = Some stale_after" "try_hours h' = Some escalate_after"
    and unique: "attentions_unique s" "escalations_unique s"
    and fresh: "draws_fresh ctx ''ATTN'' (2 * length (evaluate show_minute s now stale_after)) (attentions s)"
      "draws_fresh ctx ''ESC'' (2 * length (evaluate show_minute s now stale_after)) (escalations s)"
  shows "reconciled show_minute now stale_after escalate_after s' \<and> attentions_unique s' \<and> escalations_unique s' \<and>
    org_organization s' = org_organization s"
proof -
  let ?xs = "evaluate show_minute s now stale_after"
  let ?desired = "desired_findings ?xs"
  from run obtain p v where p: "plan_scan ctx show_minute now h h' s = Inr p"
    and events: "apply_events s (scan_events now p) = Inr v"
    and s': "s' = v\<lparr>notification_deliveries := notification_deliveries s', last_sequence := last_sequence s'\<rparr>"
    by (rule scan_applies)
  from p hours obtain ps where
      project: "project_attentions ctx now s (current_attentions s) 0 (bt_entries ?desired) = Inr (ps, plan_raised p)"
    and close: "try_map (escalation_resolution now s) (orphaned ps (current_escalations s)) = Inr (plan_closing p)"
    and resolved: "plan_resolved p = unfounded ?desired (current_attentions s)"
    and escalated: "plan_escalated p =
      new_escalations ctx now escalate_after s (current_escalations s) (length (plan_raised p)) ps"
    by (elim plan_scan_Inr) simp
  from events obtain a b c where
      a: "apply_events s (map (attention_resolution now) (unfounded ?desired (current_attentions s))) = Inr a"
    and b: "apply_events a (map (\<lambda>a. TrackingEvent (TrackingAttentionRaised a)) (plan_raised p)) = Inr b"
    and c: "apply_events b (plan_closing p) = Inr c"
    and d: "apply_events c (map (\<lambda>e. TrackingEvent (TrackingEscalationRaised e)) (plan_escalated p)) = Inr v"
    by (auto simp: scan_events_def apply_events_append resolved)
  have "length ?xs \<le> 2 * length ?xs" by simp
  note att = attentions_reconciled [OF unique(1) project a b fresh(1) this]
  have "escalations b = escalations s" by (subst att(1)) simp
  have "distinct (map attention_key_of ps)" by (simp add: att(4) distinct_fst_entries)
  moreover have "x = y" if "x \<in> set ps" "y \<in> set ps" "attention_id x = attention_id y" for x y
  proof -
    have keyed: "keyed attention_id (attentions b)" using att(2) by (simp add: attentions_unique_def)
    have "bt_get (attentions b) (attention_id z) = Some z" if "z \<in> set ps" for z
    proof -
      from that obtain k where "bt_get (attentions b) k = Some z" unfolding att(3) in_active_attentions by blast
      from keyed_own [OF this keyed] show ?thesis .
    qed
    from this [OF that(1)] this [OF that(2)] show ?thesis unfolding that(3) by (metis option.inject)
  qed
  ultimately have ids: "distinct (map attention_id ps)" by (auto simp: distinct_map inj_on_def)
  have "length ps \<le> length ?xs" using arg_cong [OF att(4), of length] length_desired [of ?xs] by simp
  with att(5) have "length (plan_raised p) + length ps \<le> 2 * length ?xs" by simp
  note esc = escalations_reconciled [OF unique(2) close c \<open>escalations b = escalations s\<close> d escalated fresh(2) this ids]
  have frame: "attentions s' = attentions b" "escalations s' = escalations v" "flows s' = flows s"
    "principals s' = principals s" "org_organization s' = org_organization s"
    by (subst s', subst esc(1), (subst att(1))?, simp)+
  have same: "evaluate show_minute s' = evaluate show_minute s" by (simp add: evaluate_def fun_eq_iff frame)
  have recipient: "escalation_recipient s' x = escalation_recipient s x" for x
    unfolding escalation_recipient_def lookup_principal_def frame by (rule refl)
  have active: "set (active_attentions s') = set ps" "active_escalations s' = active_escalations v"
    by (simp_all add: att(3) active_attentions_def active_escalations_def frame)
  have "attention_key_of ` set ps = finding_key ` set ?xs"
    using arg_cong [OF att(4), of set] desired_keys [of ?xs] by simp
  then have "reconciled show_minute now stale_after escalate_after s'"
    using esc(3,4) by (simp add: reconciled_def active same recipient)
  moreover have "attentions_unique s'" "escalations_unique s'"
    using att(2) esc(2) by (simp_all add: attentions_unique_def escalations_unique_def frame)
  ultimately show ?thesis using frame(5) by blast
qed

text \<open>Where the findings and the attentions agree a scan has nothing to do.\<close>

lemma current_keys:
  assumes "attentions_unique s"
  shows "(\<exists>aid. bt_get (current_attentions s) k = Some aid) \<longleftrightarrow> k \<in> attention_key_of ` set (active_attentions s)"
  unfolding current_attention [OF assms] image_iff Bex_def in_active_attentions by blast

lemma reconciled_desired:
  assumes "reconciled show_minute now stale_after escalate_after s" and "attentions_unique s"
  shows "bt_contains (desired_findings (evaluate show_minute s now stale_after)) k \<longleftrightarrow>
    (\<exists>aid. bt_get (current_attentions s) k = Some aid)"
  using assms by (simp only: current_keys desired_contains reconciled_def)

lemma reconciled_unfounded:
  assumes "reconciled show_minute now stale_after escalate_after s" and "attentions_unique s"
  shows "unfounded (desired_findings (evaluate show_minute s now stale_after)) (current_attentions s) = []"
  unfolding unfounded_def filter_empty_conv reconciled_desired [OF assms]
  by (auto simp: bt_entries_iff simp del: split_paired_All split_paired_Ex)

lemma reconciled_project:
  assumes "reconciled show_minute now stale_after escalate_after s" and "attentions_unique s"
  shows "\<exists>ps. project_attentions ctx now s (current_attentions s) i
      (bt_entries (desired_findings (evaluate show_minute s now stale_after))) = Inr (ps, []) \<and>
    set ps = set (active_attentions s)"
proof -
  let ?desired = "desired_findings (evaluate show_minute s now stale_after)"
  note desired = reconciled_desired [OF assms]
  have "\<exists>aid a. bt_get (current_attentions s) k = Some aid \<and> bt_get (attentions s) aid = Some a"
    if "(k, x) \<in> set (bt_entries ?desired)" for k x
  proof -
    from that have "bt_contains ?desired k" by (auto simp: bt_entries_iff bt_contains_iff)
    then obtain aid where "bt_get (current_attentions s) k = Some aid" unfolding desired by blast
    then show ?thesis using current_attention [OF assms(2)] by blast
  qed
  then have "\<exists>ps. project_attentions ctx now s (current_attentions s) i (bt_entries ?desired) = Inr (ps, []) \<and>
    set ps = {a. \<exists>k \<in> fst ` set (bt_entries ?desired).
      \<exists>aid. bt_get (current_attentions s) k = Some aid \<and> bt_get (attentions s) aid = Some a}"
    by (rule project_settled)
  moreover have "{a. \<exists>k \<in> fst ` set (bt_entries ?desired).
      \<exists>aid. bt_get (current_attentions s) k = Some aid \<and> bt_get (attentions s) aid = Some a} =
    {a. \<exists>k. \<exists>aid. bt_get (current_attentions s) k = Some aid \<and> bt_get (attentions s) aid = Some a}"
    unfolding entries_keys desired by blast
  moreover have "\<dots> = set (active_attentions s)"
  proof (rule set_eqI)
    fix x
    have "x \<in> {a. \<exists>k. \<exists>aid. bt_get (current_attentions s) k = Some aid \<and> bt_get (attentions s) aid = Some a} \<longleftrightarrow>
        (\<exists>aid. bt_get (attentions s) aid = Some x \<and> attention_is_active x)"
      unfolding mem_Collect_eq current_attention [OF assms(2)] by (metis option.inject)
    then show "x \<in> {a. \<exists>k. \<exists>aid. bt_get (current_attentions s) k = Some aid \<and> bt_get (attentions s) aid = Some a} \<longleftrightarrow>
        x \<in> set (active_attentions s)" unfolding in_active_attentions by blast
  qed
  ultimately show ?thesis by simp
qed

lemma none_awaits: "list_all (\<lambda>a. \<not> awaits_escalation now escalate_after s escalated a) as \<Longrightarrow>
    new_escalations ctx now escalate_after s escalated i as = []"
  by (induction as) (auto simp: awaits_escalation_def split: option.splits)

lemma reconciled_scan:
  assumes r: "reconciled show_minute now stale_after escalate_after s"
    and unique: "attentions_unique s" "escalations_unique s"
    and hours: "h \<noteq> 0" "try_hours h = Some stale_after" "try_hours h' = Some escalate_after"
    and org: "org_organization s \<noteq> None"
  shows "\<exists>r. scan_tracking_with_policy_at ctx show_minute now h h' actor (db, s) = (Inr r, db, s)"
proof -
  let ?desired = "desired_findings (evaluate show_minute s now stale_after)"
  from reconciled_project [OF r unique(1)] obtain ps where
      ps: "project_attentions ctx now s (current_attentions s) 0 (bt_entries ?desired) = Inr (ps, [])"
    and set: "set ps = set (active_attentions s)" by blast
  have "aid \<in> attention_id ` set ps" if "bt_get (current_escalations s) aid = Some eid" for aid eid
    using that r by (force simp: current_escalation [OF unique(2)] set reconciled_def in_active_escalations)
  then have none: "orphaned ps (current_escalations s) = []"
    by (auto simp: orphaned_def filter_empty_conv bt_entries_iff)
  have "\<not> awaits_escalation now escalate_after s (current_escalations s) a" if "a \<in> set ps" for a
  proof
    assume a: "awaits_escalation now escalate_after s (current_escalations s) a"
    with that r obtain e where "e \<in> set (active_escalations s)" "escalation_attention_id e = attention_id a"
      by (force simp: awaits_escalation_def reconciled_def set)
    with a show False
      by (auto simp: awaits_escalation_def bt_contains_iff current_escalation [OF unique(2)] in_active_escalations)
  qed
  then have quiet: "new_escalations ctx now escalate_after s (current_escalations s) 0 ps = []"
    by (intro none_awaits) (simp add: list_all_iff)
  from org obtain x where "get_organization s = Inr x" by (auto simp: get_organization_def ok_or_def)
  then have "plan_scan ctx show_minute now h h' s =
      Inr \<lparr>plan_resolved = [], plan_raised = [], plan_orphaned = [], plan_closing = [], plan_escalated = []\<rparr>"
    using hours none quiet ps reconciled_unfounded [OF r unique(1)]
    by (simp add: plan_scan_def Let_def)
  then show ?thesis by (simp add: scan_tracking_with_policy_at_def scan_events_def)
qed

end
