(* ===== verification/App_External.thy ===== *)
theory App_External
  imports App_Actions App_Authority Flight_Rules
begin

text \<open>
  What comes from outside (\<open>src/application/app/interactions.rs\<close>): external identities bound to people,
  and the interactions those people take from another system, processed once per delivery. Beside it
  the registry of repositories (\<open>src/application/app/repositories.rs\<close>).
\<close>

section \<open>Identities\<close>

definition normalize_external_provider :: "string \<Rightarrow> string result" where
  "normalize_external_provider given =
     (let v = to_ascii_lowercase (str_trim given) in
      if v = [] \<or> 40 < chars_count v
         \<or> \<not> list_all (\<lambda>c. ascii_alphanumeric c \<or> c = CHR ''_'' \<or> c = CHR ''-'') v
      then Inl (relay_error.Validation ''external provider must contain only letters, digits, _ or -'')
      else Inr v)"

definition validate_external_value :: "string \<Rightarrow> string \<Rightarrow> nat \<Rightarrow> string result" where
  "validate_external_value given label max_chars =
     (let v = str_trim given in
      if v = [] \<or> max_chars < chars_count v \<or> has_control v
      then Inl (relay_error.Validation
        (label @ '' must contain 1 to '' @ show_nat max_chars @ '' printable characters''))
      else Inr v)"

definition is_principal :: "org_state \<Rightarrow> string \<Rightarrow> string \<Rightarrow> bool" where
  "is_principal s actor pid \<longleftrightarrow>
     (case get_principal s actor of Inl _ \<Rightarrow> False | Inr p \<Rightarrow> principal_id p = pid)"

text \<open>Somebody acts for themselves, or manages principals.\<close>

definition ensure_self_or_manager :: "org_state \<Rightarrow> string \<Rightarrow> string \<Rightarrow> unit result" where
  "ensure_self_or_manager s actor pid =
     (if is_principal s actor pid then Inr () else ensure_permission s actor PrincipalManage)"

definition decide_bind_identity ::
    "call_context \<Rightarrow> string \<Rightarrow> string \<Rightarrow> string \<Rightarrow> string \<Rightarrow> org_state \<Rightarrow> external_identity_binding decision result" where
  "decide_bind_identity ctx provider user key actor s =
     and_then (normalize_external_provider provider) (\<lambda>provider.
     and_then (validate_external_value user ''external user ID'' 200) (\<lambda>user.
     and_then (get_principal s key) (\<lambda>p.
     and_then (ensure_self_or_manager s actor (principal_id p)) (\<lambda>_.
       if principal_kind p \<noteq> principal_kind.Human \<or> \<not> principal_active p
       then Inl (PermissionDenied ''external identities can only bind to an active Human principal'')
       else if list_ex (\<lambda>b. identity_is_active b \<and> identity_provider b = provider
                 \<and> (identity_external_user_id b = user \<or> identity_principal_id b = principal_id p))
               (bt_values (external_identities s))
       then Inl (relay_error.Validation (''active '' @ provider @ '' identity is already bound''))
       else
         let b = \<lparr>identity_id = new_id ''XID'' (ctx_uuid ctx 0), identity_provider = provider,
           identity_external_user_id = user, identity_principal_id = principal_id p,
           identity_bound_by = actor, identity_bound_at = ctx_clock ctx 0, identity_unbound_by = None,
           identity_unbound_at = None\<rparr> in
         Inr (actor, [RegistryEvent (ExternalIdentityBound b)], b)))))"

definition bind_external_identity ::
    "call_context \<Rightarrow> string \<Rightarrow> string \<Rightarrow> string \<Rightarrow> string \<Rightarrow> external_identity_binding command" where
  "bind_external_identity ctx provider user key actor =
     perform ctx (decide_bind_identity ctx provider user key actor) answer_with"

definition unbind_external_identity ::
    "call_context \<Rightarrow> string \<Rightarrow> string \<Rightarrow> external_identity_binding command" where
  "unbind_external_identity ctx bid actor =
     perform ctx
       (\<lambda>s. and_then (found ''active external identity binding'' bid
              (case bt_get (external_identities s) bid of
                 None \<Rightarrow> None | Some b \<Rightarrow> if identity_is_active b then Some b else None)) (\<lambda>b.
            and_then (ensure_self_or_manager s actor (identity_principal_id b)) (\<lambda>_.
              Inr (actor,
                [RegistryEvent (ExternalIdentityUnbound (identity_id b) actor (ctx_clock ctx 0))], bid))))
       (\<lambda>bid s. found ''active external identity binding'' bid (bt_get (external_identities s) bid))"

section \<open>Interactions\<close>

text \<open>An interaction as it is asked for, once its texts are trimmed and checked.\<close>

record interaction =
  wanted_provider :: string
  wanted_delivery_id :: string
  wanted_user_id :: string
  wanted_interaction :: external_interaction_action
  wanted_target_id :: string
  wanted_interaction_reason :: "string option"

definition check_interaction ::
    "string \<Rightarrow> string \<Rightarrow> string \<Rightarrow> external_interaction_action \<Rightarrow> string \<Rightarrow> string option \<Rightarrow> interaction result" where
  "check_interaction provider did user action target reason =
     and_then (normalize_external_provider provider) (\<lambda>provider.
     and_then (validate_external_value did ''delivery ID'' 200) (\<lambda>did.
     and_then (validate_external_value user ''external user ID'' 200) (\<lambda>user.
     and_then (validate_external_value target ''interaction target'' 200) (\<lambda>target.
     and_then
       (case map_option str_trim reason of
          None \<Rightarrow> Inr None
        | Some v \<Rightarrow>
            if v = [] then Inr None
            else and_then (validate_external_value v ''interaction reason'' 500) (\<lambda>v. Inr (Some v))) (\<lambda>reason.
       Inr \<lparr>wanted_provider = provider, wanted_delivery_id = did, wanted_user_id = user,
            wanted_interaction = action, wanted_target_id = target, wanted_interaction_reason = reason\<rparr>)))))"

text \<open>The receipt of a delivery that was processed already; another request under its name is refused.\<close>

definition earlier_receipt :: "org_state \<Rightarrow> interaction \<Rightarrow> external_interaction_receipt option result" where
  "earlier_receipt s w =
     (let key = interaction_key (wanted_provider w) (wanted_delivery_id w) in
      case bt_get (external_interactions s) key of
        None \<Rightarrow> Inr None
      | Some r \<Rightarrow>
          if receipt_external_user_id r \<noteq> wanted_user_id w \<or> receipt_action r \<noteq> wanted_interaction w
             \<or> receipt_target_id r \<noteq> wanted_target_id w \<or> receipt_reason r \<noteq> wanted_interaction_reason w
          then Inl (relay_error.Validation (''external interaction delivery ID collision: '' @ key))
          else Inr (Some r))"

fun interaction_event ::
    "external_interaction_action \<Rightarrow> org_state \<Rightarrow> interaction \<Rightarrow> principal \<Rightarrow> instant
      \<Rightarrow> (string \<times> domain_event list) result" where
  "interaction_event TaskAccept s w p now =
     and_then (prepare_task_accept s (wanted_target_id w) (principal_name p) now) (\<lambda>(fid, _, e). Inr (fid, [e]))"
| "interaction_event TaskReject s w p now =
     and_then (ok_or (wanted_interaction_reason w) (relay_error.Validation ''task.reject requires a reason'')) (\<lambda>reason.
     and_then (prepare_task_reject s (wanted_target_id w) (principal_name p) reason) (\<lambda>(fid, _, e). Inr (fid, [e])))"
| "interaction_event MessageAck s w p now =
     and_then (prepare_message_ack s (wanted_target_id w) p now) (\<lambda>(fid, e).
       Inr (fid, case e of None \<Rightarrow> [] | Some e \<Rightarrow> [e]))"
| "interaction_event EscalationAck s w p now =
     and_then (prepare_escalation_ack s (wanted_target_id w) p now) (\<lambda>(fid, e). Inr (fid, [e]))"

definition decide_interaction ::
    "call_context \<Rightarrow> interaction \<Rightarrow> org_state \<Rightarrow> external_interaction_receipt decision result" where
  "decide_interaction ctx w s =
     and_then (get_external_identity s (wanted_provider w) (wanted_user_id w)) (\<lambda>b.
     and_then (get_principal s (identity_principal_id b)) (\<lambda>p.
       if principal_kind p \<noteq> principal_kind.Human \<or> \<not> principal_active p
       then Inl (PermissionDenied ''external interaction requires an active Human binding'')
       else
         let now = ctx_clock ctx 0 in
         and_then (interaction_event (wanted_interaction w) s w p now) (\<lambda>(fid, es).
           let r = \<lparr>receipt_id = new_id ''XACT'' (ctx_uuid ctx 0), receipt_provider = wanted_provider w,
             receipt_delivery_id = wanted_delivery_id w, receipt_external_user_id = wanted_user_id w,
             receipt_principal_id = principal_id p, receipt_action = wanted_interaction w,
             receipt_target_id = wanted_target_id w, receipt_reason = wanted_interaction_reason w,
             receipt_flow_id = Some fid, receipt_processed_at = now\<rparr> in
           Inr (principal_name p, es @ [ExternalEvent (ExternalInteractionProcessed r)], r))))"

definition process_external_interaction ::
    "call_context \<Rightarrow> string \<Rightarrow> string \<Rightarrow> string \<Rightarrow> external_interaction_action \<Rightarrow> string \<Rightarrow> string option
      \<Rightarrow> external_interaction_result command" where
  "process_external_interaction ctx provider did user action target reason = (\<lambda>(db, s).
     (case and_then (check_interaction provider did user action target reason) (\<lambda>w.
             and_then (earlier_receipt s w) (\<lambda>r. Inr (w, r))) of
        Inl err \<Rightarrow> (Inl err, db, s)
      | Inr (w, Some r) \<Rightarrow> (Inr \<lparr>interaction_duplicate = True, interaction_receipt = r\<rparr>, db, s)
      | Inr (w, None) \<Rightarrow>
          perform ctx (decide_interaction ctx w)
            (\<lambda>r s. Inr \<lparr>interaction_duplicate = False, interaction_receipt = r\<rparr>) (db, s)))"

section \<open>Repositories\<close>

definition validate_repository_name :: "string \<Rightarrow> string result" where
  "validate_repository_name given =
     (let v = str_trim given in
      if v = [] \<or> 80 < chars_count v \<or> has_control v
      then Inl (relay_error.Validation (bytes [0xE4, 0xBB, 0x93, 0xE5, 0xBA, 0x93, 0xE5, 0x90, 0x8D, 0xE9, 0x9C, 0x80, 0xE8, 0xA6, 0x81] @ '' 1 '' @ bytes [0xE5, 0x88, 0xB0] @ '' 80 '' @ bytes [0xE4, 0xB8, 0xAA, 0xE5, 0x8F, 0xAF, 0xE6, 0x89, 0x93, 0xE5, 0x8D, 0xB0, 0xE5, 0xAD, 0x97, 0xE7, 0xAC, 0xA6]))
      else Inr v)"

definition validate_project_path :: "string \<Rightarrow> string result" where
  "validate_project_path given =
     (let v = str_trim given in
      if v \<noteq> [] \<and> length v \<le> 200 \<and> contains v ''/'' \<and> \<not> starts_with v ''/'' \<and> last v \<noteq> CHR ''/''
         \<and> \<not> contains v ''..''
         \<and> list_all (\<lambda>c. ascii_alphanumeric c \<or> c = CHR ''/'' \<or> c = CHR ''-'' \<or> c = CHR ''_'' \<or> c = CHR ''.'') v
      then Inr v
      else Inl (relay_error.Validation
        (''GitLab '' @ bytes [0xE9, 0xA1, 0xB9, 0xE7, 0x9B, 0xAE, 0xE8, 0xB7, 0xAF, 0xE5, 0xBE, 0x84, 0xE5, 0xBA, 0x94, 0xE5, 0xBD, 0xA2, 0xE5, 0xA6, 0x82] @ '' group/project'' @ bytes [0xEF, 0xBC, 0x8C, 0xE5, 0x8F, 0xAA, 0xE5, 0x85, 0x81, 0xE8, 0xAE, 0xB8, 0xE5, 0xAD, 0x97, 0xE6, 0xAF, 0x8D, 0xE3, 0x80, 0x81, 0xE6, 0x95, 0xB0, 0xE5, 0xAD, 0x97, 0xE3, 0x80, 0x81] @ ''- _ . '' @ bytes [0xE5, 0x92, 0x8C] @ '' /'')))"

definition validate_branch :: "string \<Rightarrow> string result" where
  "validate_branch given =
     (let v = str_trim given in
      if v \<noteq> [] \<and> length v \<le> 120 \<and> \<not> starts_with v ''-'' \<and> \<not> contains v ''..'' \<and> \<not> contains v '' ''
         \<and> \<not> has_control v
      then Inr v
      else Inl (relay_error.Validation (bytes [0xE5, 0x88, 0x86, 0xE6, 0x94, 0xAF, 0xE5, 0x90, 0x8D, 0xE4, 0xB8, 0x8D, 0xE5, 0x90, 0x88, 0xE6, 0xB3, 0x95])))"

definition decide_register_repository ::
    "call_context \<Rightarrow> string \<Rightarrow> string \<Rightarrow> string \<Rightarrow> string \<Rightarrow> org_state \<Rightarrow> repository decision result" where
  "decide_register_repository ctx name path branch actor s =
     and_then (ensure_permission s actor PrincipalManage) (\<lambda>_.
     and_then (validate_repository_name name) (\<lambda>name.
     and_then (validate_project_path path) (\<lambda>path.
     and_then (validate_branch branch) (\<lambda>branch.
       if list_ex (\<lambda>r. repository_active r \<and> eq_ignore_ascii_case (repository_name r) name) (bt_values (repositories s))
       then Inl (relay_error.Validation (bytes [0xE4, 0xBB, 0x93, 0xE5, 0xBA, 0x93, 0xE5, 0x90, 0x8D, 0xE5, 0xB7, 0xB2, 0xE8, 0xA2, 0xAB, 0xE5, 0x8D, 0xA0, 0xE7, 0x94, 0xA8, 0xEF, 0xBC, 0x9A] @ name))
       else if list_ex (\<lambda>r. repository_active r \<and> repository_gitlab_project_path r = path) (bt_values (repositories s))
       then Inl (relay_error.Validation (''GitLab '' @ bytes [0xE9, 0xA1, 0xB9, 0xE7, 0x9B, 0xAE, 0xE5, 0xB7, 0xB2, 0xE7, 0xBB, 0x8F, 0xE7, 0x99, 0xBB, 0xE8, 0xAE, 0xB0, 0xE8, 0xBF, 0x87, 0xE4, 0xBA, 0x86, 0xEF, 0xBC, 0x9A] @ path))
       else
         let r = \<lparr>repository_id = new_id ''REPO'' (ctx_uuid ctx 0), repository_name = name,
           repository_gitlab_project_path = path, repository_default_branch = branch, repository_active = True,
           repository_registered_by = actor, repository_created_at = ctx_clock ctx 0\<rparr> in
         Inr (actor, [RegistryEvent (RepositoryRegistered r)], r)))))"

definition register_repository ::
    "call_context \<Rightarrow> string \<Rightarrow> string \<Rightarrow> string \<Rightarrow> string \<Rightarrow> repository command" where
  "register_repository ctx name path branch actor =
     perform ctx (decide_register_repository ctx name path branch actor) answer_with"

definition archive_repository :: "call_context \<Rightarrow> string \<Rightarrow> string \<Rightarrow> repository command" where
  "archive_repository ctx selector actor =
     perform ctx
       (\<lambda>s. and_then (ensure_permission s actor PrincipalManage) (\<lambda>_.
          and_then (get_repository s selector) (\<lambda>r.
            Inr (actor, [RegistryEvent (RepositoryArchived (repository_id r) actor (ctx_clock ctx 0))], r))))
       (\<lambda>r s. Inr (case bt_get (repositories s) (repository_id r) of Some x \<Rightarrow> x | None \<Rightarrow> r))"

definition list_repositories :: "org_state \<Rightarrow> repository list" where
  "list_repositories s = sort_key repository_name (bt_values (repositories s))"

end
