(* ===== verification/App_Calendar.thy ===== *)
theory App_Calendar
  imports App_External App_Flow
begin

text \<open>
  Work calendars (\<open>src/application/app/calendars.rs\<close>): configuring the working hours of a principal,
  adding and cancelling time off. Whatever changes, the running flows in which the principal still has
  work are scheduled again in the same commit.
\<close>

section \<open>Rescheduling\<close>

definition owns_work :: "string \<Rightarrow> flow \<Rightarrow> bool" where
  "owns_work pid f \<longleftrightarrow>
     list_ex (\<lambda>t. \<not> task_status_is_terminal (task_status t)
       \<and> (case task_assignment t of None \<Rightarrow> False | Some a \<Rightarrow> target_id (assignment_owner a) = pid))
       (flow_tasks f)"

definition is_running :: "flow \<Rightarrow> bool" where
  "is_running f \<longleftrightarrow> flow_status f = flow_status.Approved \<or> flow_status f = flow_status.Active"

definition reschedule_for_principal ::
    "text_functions \<Rightarrow> org_state \<Rightarrow> string \<Rightarrow> string \<Rightarrow> instant \<Rightarrow> string \<Rightarrow> domain_event list result" where
  "reschedule_for_principal tx s pid actor now reason =
     try_map (\<lambda>f. and_then (reschedule tx f s now) (\<lambda>r.
         Inr (FlowEvent (FlowRescheduled (flow_id f) (revision_of r (reason @ '' for '' @ pid) actor now)))))
       (filter (owns_work pid) (filter is_running (bt_values (flows s))))"

section \<open>Commands\<close>

definition decide_configure_calendar ::
    "call_context \<Rightarrow> string \<Rightarrow> int \<Rightarrow> workday list \<Rightarrow> nat \<Rightarrow> nat \<Rightarrow> string \<Rightarrow> org_state \<Rightarrow> string decision result" where
  "decide_configure_calendar ctx target utc_offset days day_start day_end actor s =
     and_then (get_principal s target) (\<lambda>p.
     and_then (ensure_self_or_manager s actor (principal_id p)) (\<lambda>_.
     and_then (get_work_calendar s (principal_id p)) (\<lambda>old.
       let now = ctx_clock ctx 0;
           c = \<lparr>calendar_principal_id = principal_id p, calendar_utc_offset_minutes = utc_offset,
             calendar_working_days = sort_dedup days, calendar_day_start_minute = day_start,
             calendar_day_end_minute = day_end, calendar_time_off = calendar_time_off old,
             calendar_updated_by = actor, calendar_updated_at = now\<rparr> in
       and_then (validate_calendar c) (\<lambda>_.
       and_then (reschedule_for_principal (ctx_texts ctx)
           (s\<lparr>calendars := bt_insert (principal_id p) c (calendars s)\<rparr>) (principal_id p) actor now
           ''work calendar updated'') (\<lambda>es.
         Inr (actor, CalendarEvent (WorkCalendarConfigured c) # es, principal_id p))))))"

definition configure_work_calendar ::
    "call_context \<Rightarrow> string \<Rightarrow> int \<Rightarrow> workday list \<Rightarrow> nat \<Rightarrow> nat \<Rightarrow> string \<Rightarrow> work_calendar command" where
  "configure_work_calendar ctx target utc_offset days day_start day_end actor =
     perform ctx (decide_configure_calendar ctx target utc_offset days day_start day_end actor)
       (\<lambda>pid s. get_work_calendar s pid)"

definition with_time_off :: "(availability_block list \<Rightarrow> availability_block list) \<Rightarrow> work_calendar \<Rightarrow> work_calendar" where
  "with_time_off g c = c\<lparr>calendar_time_off := g (calendar_time_off c)\<rparr>"

definition decide_add_time_off ::
    "call_context \<Rightarrow> string \<Rightarrow> instant \<Rightarrow> instant \<Rightarrow> string \<Rightarrow> string \<Rightarrow> org_state \<Rightarrow> availability_block decision result" where
  "decide_add_time_off ctx target starts_at ends_at given actor s =
     and_then (get_principal s target) (\<lambda>p.
     and_then (ensure_self_or_manager s actor (principal_id p)) (\<lambda>_.
       let reason = str_trim given in
       if reason = [] \<or> 500 < chars_count reason
       then Inl (relay_error.Validation ''time off reason must contain 1 to 500 characters'')
       else if ends_at \<le> starts_at
       then Inl (relay_error.Validation ''time off must end after it starts'')
       else if 366 * 86400 * 1000000000 < ends_at - starts_at
       then Inl (relay_error.Validation ''one time off block cannot exceed 366 days'')
       else
         let now = ctx_clock ctx 0;
             b = \<lparr>block_id = new_id ''OFF'' (ctx_uuid ctx 0), block_principal_id = principal_id p,
               block_starts_at = starts_at, block_ends_at = ends_at, block_reason = reason,
               block_created_by = actor, block_created_at = now, block_cancelled_by = None,
               block_cancelled_at = None\<rparr> in
         and_then (found ''work calendar'' (principal_id p) (bt_get (calendars s) (principal_id p))) (\<lambda>c.
         and_then (reschedule_for_principal (ctx_texts ctx)
             (s\<lparr>calendars := bt_insert (principal_id p) (with_time_off (\<lambda>bs. bs @ [b]) c) (calendars s)\<rparr>)
             (principal_id p) actor now ''time off added'') (\<lambda>es.
           Inr (actor, CalendarEvent (TimeOffAdded b) # es, b)))))"

definition add_time_off ::
    "call_context \<Rightarrow> string \<Rightarrow> instant \<Rightarrow> instant \<Rightarrow> string \<Rightarrow> string \<Rightarrow> availability_block command" where
  "add_time_off ctx target starts_at ends_at reason actor =
     perform ctx (decide_add_time_off ctx target starts_at ends_at reason actor) answer_with"

definition cancelled_block :: "string \<Rightarrow> instant \<Rightarrow> availability_block \<Rightarrow> availability_block" where
  "cancelled_block actor now b = b\<lparr>block_cancelled_by := Some actor, block_cancelled_at := Some now\<rparr>"

definition find_block :: "string \<Rightarrow> work_calendar \<Rightarrow> availability_block result" where
  "find_block bid c = found ''time off block'' bid (List.find (\<lambda>b. block_id b = bid) (calendar_time_off c))"

definition decide_cancel_time_off ::
    "call_context \<Rightarrow> string \<Rightarrow> string \<Rightarrow> string \<Rightarrow> org_state \<Rightarrow> string decision result" where
  "decide_cancel_time_off ctx target bid actor s =
     and_then (get_principal s target) (\<lambda>p.
     and_then (ensure_self_or_manager s actor (principal_id p)) (\<lambda>_.
     and_then (get_work_calendar s (principal_id p)) (\<lambda>c.
     and_then (find_block bid c) (\<lambda>b.
       if \<not> block_is_active b
       then Inl (InvalidTransition (''time off block '' @ bid @ '' is already cancelled''))
       else
         let now = ctx_clock ctx 0 in
         and_then (found ''time off block'' bid (bt_get (calendars s) (principal_id p))) (\<lambda>own.
         and_then (find_block bid own) (\<lambda>_.
         and_then (reschedule_for_principal (ctx_texts ctx)
             (s\<lparr>calendars := bt_insert (principal_id p)
                (with_time_off (update_first (\<lambda>b. block_id b = bid) (cancelled_block actor now)) own) (calendars s)\<rparr>)
             (principal_id p) actor now ''time off cancelled'') (\<lambda>es.
           Inr (actor, CalendarEvent (TimeOffCancelled (principal_id p) bid actor now) # es, principal_id p))))))))"

definition cancel_time_off :: "call_context \<Rightarrow> string \<Rightarrow> string \<Rightarrow> string \<Rightarrow> availability_block command" where
  "cancel_time_off ctx target bid actor =
     perform ctx (decide_cancel_time_off ctx target bid actor)
       (\<lambda>pid s. and_then (get_work_calendar s pid) (find_block bid))"

end
