(* ===== verification/Interaction_Facts.thy ===== *)
theory Interaction_Facts
  imports App_Calendar
begin

text \<open>
  What processing an interaction from outside leaves behind, and what a change of a calendar does to the
  flows of its principal.
\<close>

section \<open>Interactions\<close>

definition records :: "external_interaction_receipt \<Rightarrow> interaction \<Rightarrow> bool" where
  "records r w \<longleftrightarrow>
     receipt_external_user_id r = wanted_user_id w \<and> receipt_action r = wanted_interaction w \<and>
     receipt_target_id r = wanted_target_id w \<and> receipt_reason r = wanted_interaction_reason w"

definition delivery_key :: "interaction \<Rightarrow> string" where
  "delivery_key w = interaction_key (wanted_provider w) (wanted_delivery_id w)"

lemma earlier_receipt_some:
  "earlier_receipt s w = Inr (Some r) \<Longrightarrow> bt_get (external_interactions s) (delivery_key w) = Some r \<and> records r w"
  by (auto simp: records_def earlier_receipt_def delivery_key_def Let_def split: option.splits if_splits)

lemma earlier_receipt_none:
  "earlier_receipt s w = Inr None \<longleftrightarrow> bt_get (external_interactions s) (delivery_key w) = None"
  by (auto simp: earlier_receipt_def delivery_key_def Let_def split: option.splits)

text \<open>Two requests under one delivery are the same request.\<close>

lemma earlier_receipt_decides:
  assumes "bt_get (external_interactions s) (delivery_key w) = Some r" and "records r w"
    and "wanted_provider w' = wanted_provider w" and "wanted_delivery_id w' = wanted_delivery_id w"
  shows "earlier_receipt s w' = (if w' = w then Inr (Some r)
    else Inl (relay_error.Validation (''external interaction delivery ID collision: '' @ delivery_key w)))"
proof -
  have "w' = w \<longleftrightarrow> wanted_user_id w = wanted_user_id w' \<and> wanted_interaction w = wanted_interaction w' \<and>
      wanted_target_id w = wanted_target_id w' \<and> wanted_interaction_reason w = wanted_interaction_reason w'"
    using assms(3,4) by (cases w; cases w') auto
  then show ?thesis
    using assms by (auto simp: earlier_receipt_def delivery_key_def records_def Let_def)
qed

lemma decide_interaction_Inr:
  assumes "decide_interaction ctx w s = Inr (author, es, r)"
  obtains b k p fid acts where "bt_get (external_identities s) k = Some b" "identity_is_active b"
    "identity_provider b = wanted_provider w" "identity_external_user_id b = wanted_user_id w"
    "lookup_principal s (identity_principal_id b) = Some p" "principal_kind p = principal_kind.Human" "principal_active p"
    "interaction_event (wanted_interaction w) s w p (ctx_clock ctx 0) = Inr (fid, acts)" "author = principal_name p"
    "es = acts @ [ExternalEvent (ExternalInteractionProcessed r)]" "records r w"
    "receipt_provider r = wanted_provider w" "receipt_delivery_id r = wanted_delivery_id w"
    "receipt_principal_id r = principal_id p" "receipt_flow_id r = Some fid"
  using assms unfolding decide_interaction_def get_external_identity_def
  by (auto simp: get_principal_Inr records_def Let_def split: if_splits dest!: bt_find_Some intro: that)

lemma interaction_cases:
  assumes "process_external_interaction ctx provider did user action target reason (db, s) = (Inr x, db', s')"
  obtains w where "check_interaction provider did user action target reason = Inr w"
    "bt_get (external_interactions s') (delivery_key w) = Some (interaction_receipt x)"
    "interaction_duplicate x \<longleftrightarrow> bt_contains (external_interactions s) (delivery_key w)"
    "interaction_duplicate x \<Longrightarrow> (db', s') = (db, s)"
    "\<not> interaction_duplicate x \<Longrightarrow> \<exists>author es v. decide_interaction ctx w s = Inr (author, es, interaction_receipt x) \<and>
       apply_events s es = Inr v \<and> s' = v\<lparr>notification_deliveries := notification_deliveries s', last_sequence := last_sequence s'\<rparr>"
    "records (interaction_receipt x) w"
proof -
  from assms obtain w e where w: "check_interaction provider did user action target reason = Inr w"
    and e: "earlier_receipt s w = Inr e"
    by (auto simp: process_external_interaction_def split: sum.splits option.splits)
  show ?thesis
  proof (cases e)
    case (Some r)
    with assms w e have "x = \<lparr>interaction_duplicate = True, interaction_receipt = r\<rparr>" "db' = db" "s' = s"
      by (auto simp: process_external_interaction_def)
    with earlier_receipt_some [OF e [unfolded Some]] w show ?thesis
      by (intro that [of w]) (auto simp: bt_contains_iff)
  next
    case None
    with assms w e have "perform ctx (decide_interaction ctx w)
        (\<lambda>r s. Inr \<lparr>interaction_duplicate = False, interaction_receipt = r\<rparr>) (db, s) = (Inr x, db', s')"
      by (simp add: process_external_interaction_def)
    then obtain author es r v where d: "decide_interaction ctx w s = Inr (author, es, r)"
      and x: "x = \<lparr>interaction_duplicate = False, interaction_receipt = r\<rparr>" and v: "apply_events s es = Inr v"
      and s': "s' = v\<lparr>notification_deliveries := notification_deliveries s', last_sequence := last_sequence s'\<rparr>"
      by (rule performed) auto
    from d obtain acts where es: "es = acts @ [ExternalEvent (ExternalInteractionProcessed r)]" and r: "records r w"
      and key: "receipt_provider r = wanted_provider w" "receipt_delivery_id r = wanted_delivery_id w"
      by (rule decide_interaction_Inr)
    from v es key have "bt_get (external_interactions v) (delivery_key w) = Some r"
      by (auto simp: apply_events_append apply_external_interaction_processed_def Let_def delivery_key_def
        split: if_splits)
    then have "bt_get (external_interactions s') (delivery_key w) = Some r" by (subst s') simp
    moreover have "\<not> bt_contains (external_interactions s) (delivery_key w)"
      using e None by (simp add: earlier_receipt_none bt_contains_iff)
    ultimately show ?thesis using w d v s' r by (intro that [of w]) (auto simp: x)
  qed
qed

text \<open>After a successful interaction its delivery is settled: the same request is a duplicate, another one refused.\<close>

lemma interaction_settled:
  assumes "process_external_interaction ctx provider did user action target reason (db, s) = (Inr x, db', s')"
    and "check_interaction provider did user action target reason = Inr w"
    and "check_interaction provider' did' user' action' target' reason' = Inr w'"
    and "wanted_provider w' = wanted_provider w" and "wanted_delivery_id w' = wanted_delivery_id w"
  shows "\<exists>err. process_external_interaction ctx' provider' did' user' action' target' reason' (db', s') =
    (if w' = w then Inr (x\<lparr>interaction_duplicate := True\<rparr>) else Inl err, db', s')"
proof -
  from assms(1,2) have "bt_get (external_interactions s') (delivery_key w) = Some (interaction_receipt x)"
    "records (interaction_receipt x) w" by (auto elim: interaction_cases)
  note decides = earlier_receipt_decides [OF this assms(4,5)]
  show ?thesis
    using assms(3) decides by (cases x) (auto simp: process_external_interaction_def)
qed

section \<open>Calendars\<close>

lemma reschedule_cong:
  assumes "principals s = principals t" and "calendars s = calendars t"
  shows "reschedule tx f s now = reschedule tx f t now"
proof -
  have capacity: "assignment_capacity a s = assignment_capacity a t" for a
    unfolding assignment_capacity_def assms by (rule refl)
  have calendar: "assignment_calendar a s = assignment_calendar a t" for a
    unfolding assignment_calendar_def assms by (rule refl)
  have "task_reestimate tx s now = task_reestimate tx t now"
    unfolding fun_eq_iff task_reestimate_def assignment_start_def assignment_finish_def
      assignment_calendar_rationale_def capacity calendar by simp
  then show ?thesis unfolding reschedule_def by simp
qed

text \<open>A flow and what rescheduling it makes of it.\<close>

definition rescheduled :: "text_functions \<Rightarrow> org_state \<Rightarrow> instant \<Rightarrow> flow \<Rightarrow> flow \<Rightarrow> bool" where
  "rescheduled tx s now f f' \<longleftrightarrow>
     flow_id f' = flow_id f \<and> well_timed f' \<and> list_all2 same_but_estimate (flow_tasks f) (flow_tasks f') \<and>
     (\<exists>r. reschedule tx f s now = Inr r \<and>
        (\<forall>u \<in> set (flow_tasks f'). bt_get (reschedule_task_estimates r) (task_id u) = Some (task_estimate u)))"

lemma rescheduled_cong:
  "principals s = principals t \<Longrightarrow> calendars s = calendars t \<Longrightarrow> rescheduled tx s now f f' = rescheduled tx t now f f'"
  by (simp add: rescheduled_def reschedule_cong [of s t])

lemma revisions:
  assumes "try_map (\<lambda>f. and_then (reschedule tx f s0 now) (\<lambda>r.
      Inr (FlowEvent (FlowRescheduled (flow_id f) (revision_of r reason author now))))) fs = Inr es"
    and "apply_events u es = Inr v" and "distinct (map flow_id fs)"
    and "\<And>f. f \<in> set fs \<Longrightarrow> bt_get (flows u) (flow_id f) = Some f \<and> distinct (map task_id (flow_tasks f))"
  shows "v = u\<lparr>flows := flows v\<rparr> \<and>
    (\<forall>k. k \<notin> flow_id ` set fs \<longrightarrow> bt_get (flows v) k = bt_get (flows u) k) \<and>
    (\<forall>f \<in> set fs. \<exists>f'. bt_get (flows v) (flow_id f) = Some f' \<and> rescheduled tx s0 now f f')"
  using assms
proof (induction fs arbitrary: u es)
  case Nil
  then show ?case by simp
next
  case (Cons f fs)
  from Cons.prems(1) obtain r es' where r: "reschedule tx f s0 now = Inr r"
    and es': "try_map (\<lambda>f. and_then (reschedule tx f s0 now) (\<lambda>r.
      Inr (FlowEvent (FlowRescheduled (flow_id f) (revision_of r reason author now))))) fs = Inr es'"
    and es: "es = FlowEvent (FlowRescheduled (flow_id f) (revision_of r reason author now)) # es'" by auto
  from Cons.prems(2) obtain w where w: "apply_schedule_revision (flow_id f) (revision_of r reason author now) u = Inr w"
    and rest: "apply_events w es' = Inr v" by (auto simp: es)
  have f: "bt_get (flows u) (flow_id f) = Some f" "distinct (map task_id (flow_tasks f))"
    using Cons.prems(4) by simp_all
  have "list_all2 same_but_estimate (flow_tasks f) (flow_tasks f)"
    by (rule list_all2_refl) (simp add: same_but_estimate_def)
  from revised_well_timed [OF r f(2) this f(1) w] obtain f' where
      flows: "flows w = bt_insert (flow_id f) f' (flows u)" and f': "rescheduled tx s0 now f f'"
    using r by (auto simp: rescheduled_def)
  have frame: "w = u\<lparr>flows := flows w\<rparr>"
    using w by (auto simp: apply_schedule_revision_def put_flow_def split: if_splits)
  have later: "bt_get (flows w) (flow_id g) = Some g \<and> distinct (map task_id (flow_tasks g))" if "g \<in> set fs" for g
  proof -
    from Cons.prems(3) have "flow_id f \<notin> flow_id ` set fs" by simp
    with that have "flow_id g \<noteq> flow_id f" by (metis image_eqI)
    with Cons.prems(4) [of g] that show ?thesis by (simp add: flows)
  qed
  have "distinct (map flow_id fs)" using Cons.prems(3) by simp
  note IH = Cons.IH [OF es' rest this later]
  have "v = u\<lparr>flows := flows v\<rparr>"
  proof -
    have "w\<lparr>flows := m\<rparr> = u\<lparr>flows := m\<rparr>" for m by (subst frame) simp
    with IH show ?thesis by simp
  qed
  moreover have "flow_id f \<notin> flow_id ` set fs" using Cons.prems(3) by simp
  ultimately show ?case using IH f' by (auto simp: flows)
qed

datatype calendar_change =
    ConfigureHours int "workday list" nat nat | AddTimeOff instant instant string | CancelTimeOff string

definition quietly :: "'a command \<Rightarrow> unit command" where
  "quietly c = cmd_then c (\<lambda>_ app. (Inr (), app))"

lemma quietly_Inr: "quietly c (db, s) = (Inr (), db', s') \<longleftrightarrow> (\<exists>x. c (db, s) = (Inr x, db', s'))"
  by (auto simp: quietly_def cmd_then_def split: prod.splits sum.splits)

fun run_calendar_change :: "call_context \<Rightarrow> calendar_change \<Rightarrow> string \<Rightarrow> string \<Rightarrow> unit command" where
  "run_calendar_change ctx (ConfigureHours utc_offset days day_start day_end) target actor =
     quietly (configure_work_calendar ctx target utc_offset days day_start day_end actor)"
| "run_calendar_change ctx (AddTimeOff starts_at ends_at reason) target actor =
     quietly (add_time_off ctx target starts_at ends_at reason actor)"
| "run_calendar_change ctx (CancelTimeOff bid) target actor = quietly (cancel_time_off ctx target bid actor)"

text \<open>What each of the three decides: one event for the calendar, the revisions for what it will be.\<close>

definition changes_calendar ::
    "call_context \<Rightarrow> string \<Rightarrow> string \<Rightarrow> org_state \<Rightarrow> principal \<Rightarrow> work_calendar \<Rightarrow> domain_event list \<Rightarrow> bool" where
  "changes_calendar ctx target actor s p c es \<longleftrightarrow>
     lookup_principal s target = Some p \<and> ensure_self_or_manager s actor (principal_id p) = Inr () \<and>
     (\<exists>e rs reason. es = e # rs \<and>
        (\<forall>v. apply_event e s = Inr v \<longrightarrow> v = s\<lparr>calendars := bt_insert (principal_id p) c (calendars s)\<rparr>) \<and>
        reschedule_for_principal (ctx_texts ctx) (s\<lparr>calendars := bt_insert (principal_id p) c (calendars s)\<rparr>)
          (principal_id p) actor (ctx_clock ctx 0) reason = Inr rs)"

lemma configure_changes:
  assumes "decide_configure_calendar ctx target utc_offset days day_start day_end actor s = Inr (author, es, x)"
  shows "\<exists>p c. changes_calendar ctx target actor s p c es"
  using assms unfolding decide_configure_calendar_def changes_calendar_def
  by (fastforce simp: get_principal_Inr apply_work_calendar_configured_def Let_def)

lemma time_off_changes:
  assumes "decide_add_time_off ctx target starts_at ends_at given actor s = Inr (author, es, x)"
  shows "\<exists>p c. changes_calendar ctx target actor s p c es"
  using assms unfolding decide_add_time_off_def changes_calendar_def
  by (fastforce simp: get_principal_Inr apply_time_off_added_def with_time_off_def Let_def split: if_splits)

lemma cancellation_changes:
  assumes "decide_cancel_time_off ctx target bid actor s = Inr (author, es, x)"
  shows "\<exists>p c. changes_calendar ctx target actor s p c es"
  using assms unfolding decide_cancel_time_off_def changes_calendar_def cancelled_block_def
  by (fastforce simp: get_principal_Inr apply_time_off_cancelled_def with_time_off_def Let_def split: if_splits)

lemma calendar_change_performed:
  assumes "run_calendar_change ctx change target actor (db, s) = (Inr (), db', s')"
  obtains p c es v where "changes_calendar ctx target actor s p c es" "apply_events s es = Inr v"
    "s' = v\<lparr>notification_deliveries := notification_deliveries s', last_sequence := last_sequence s'\<rparr>"
proof (cases change)
  case (ConfigureHours utc_offset days day_start day_end)
  with assms obtain x where "configure_work_calendar ctx target utc_offset days day_start day_end actor (db, s) = (Inr x, db', s')"
    by (auto simp: quietly_Inr)
  then show ?thesis unfolding configure_work_calendar_def by (rule performed) (use configure_changes that in blast)
next
  case (AddTimeOff starts_at ends_at reason)
  with assms obtain x where "add_time_off ctx target starts_at ends_at reason actor (db, s) = (Inr x, db', s')"
    by (auto simp: quietly_Inr)
  then show ?thesis unfolding add_time_off_def by (rule performed) (use time_off_changes that in blast)
next
  case (CancelTimeOff bid)
  with assms obtain x where "cancel_time_off ctx target bid actor (db, s) = (Inr x, db', s')"
    by (auto simp: quietly_Inr)
  then show ?thesis unfolding cancel_time_off_def by (rule performed) (use cancellation_changes that in blast)
qed

lemma calendar_change_effect:
  assumes "run_calendar_change ctx change target actor (db, s) = (Inr (), db', s')" and "flows_filed s"
    and "\<And>f. f \<in> set (bt_values (flows s)) \<Longrightarrow> distinct (map task_id (flow_tasks f))"
  obtains p c where "lookup_principal s target = Some p" "ensure_self_or_manager s actor (principal_id p) = Inr ()"
    "calendars s' = bt_insert (principal_id p) c (calendars s)"
    "\<And>k f. bt_get (flows s) k = Some f \<Longrightarrow> \<exists>f'. bt_get (flows s') k = Some f' \<and>
      (if is_running f \<and> owns_work (principal_id p) f then rescheduled (ctx_texts ctx) s' (ctx_clock ctx 0) f f' else f' = f)"
proof -
  from assms(1) obtain p c es v where ch: "changes_calendar ctx target actor s p c es" and v: "apply_events s es = Inr v"
    and s': "s' = v\<lparr>notification_deliveries := notification_deliveries s', last_sequence := last_sequence s'\<rparr>"
    by (rule calendar_change_performed)
  define t where "t = s\<lparr>calendars := bt_insert (principal_id p) c (calendars s)\<rparr>"
  define fs where "fs = filter (owns_work (principal_id p)) (filter is_running (bt_values (flows s)))"
  from ch obtain e rs reason where es: "es = e # rs" and t: "\<And>u. apply_event e s = Inr u \<Longrightarrow> u = t"
    and r: "reschedule_for_principal (ctx_texts ctx) t (principal_id p) actor (ctx_clock ctx 0) reason = Inr rs"
    unfolding changes_calendar_def t_def by blast
  from v es obtain u where "apply_event e s = Inr u" "apply_events u rs = Inr v" by auto
  with t have rest: "apply_events t rs = Inr v" by blast
  have fs': "fs = filter (owns_work (principal_id p)) (filter is_running (bt_values (flows t)))"
    by (simp add: fs_def t_def)
  have filed: "flow_id f = k" if "bt_get (flows s) k = Some f" for k f
    using that assms(2) by (auto simp: flows_filed_def)
  have "distinct (map flow_id (bt_values (flows s)))"
  proof -
    have "map flow_id (bt_values (flows s)) = map fst (bt_entries (flows s))"
      using filed by (auto simp: bt_values_def bt_entries_iff)
    then show ?thesis by (simp add: distinct_fst_entries)
  qed
  then have distinct: "distinct (map flow_id fs)" by (simp add: fs_def distinct_map_filter)
  have in_fs: "f \<in> set fs \<longleftrightarrow> is_running f \<and> owns_work (principal_id p) f \<and> bt_get (flows s) (flow_id f) = Some f" for f
    using filed by (auto simp: fs_def)
  have own: "bt_get (flows t) (flow_id f) = Some f \<and> distinct (map task_id (flow_tasks f))" if "f \<in> set fs" for f
    using that assms(3) in_fs by (auto simp: t_def fs_def)
  note effect = revisions [OF r [unfolded reschedule_for_principal_def, folded fs'] rest distinct own]
  have frame: "calendars s' = calendars t" "principals s' = principals t" "flows s' = flows v"
  proof -
    note eq = effect [THEN conjunct1]
    have "calendars v = calendars t" using arg_cong [OF eq, of calendars] by simp
    moreover have "principals v = principals t" using arg_cong [OF eq, of principals] by simp
    moreover have "calendars s' = calendars v" "principals s' = principals v" by (subst s', simp)+
    ultimately show "calendars s' = calendars t" "principals s' = principals t" by simp_all
    show "flows s' = flows v" by (subst s') simp
  qed
  have same: "rescheduled (ctx_texts ctx) t now f f' = rescheduled (ctx_texts ctx) s' now f f'" for now f f'
    by (rule rescheduled_cong) (simp_all add: frame)
  have "\<exists>f'. bt_get (flows s') k = Some f' \<and>
      (if is_running f \<and> owns_work (principal_id p) f then rescheduled (ctx_texts ctx) s' (ctx_clock ctx 0) f f' else f' = f)"
    if f: "bt_get (flows s) k = Some f" for k f
  proof (cases "f \<in> set fs")
    case True
    with effect obtain f' where "bt_get (flows v) (flow_id f) = Some f'" "rescheduled (ctx_texts ctx) t (ctx_clock ctx 0) f f'"
      by blast
    with True in_fs filed [OF f] show ?thesis by (auto simp: frame same)
  next
    case False
    have "k \<notin> flow_id ` set fs"
    proof
      assume "k \<in> flow_id ` set fs"
      then obtain g where "g \<in> set fs" "flow_id g = k" by blast
      with f in_fs [of g] have "g = f" by (metis option.inject)
      with \<open>g \<in> set fs\<close> False show False by blast
    qed
    with effect f have "bt_get (flows s') k = Some f" by (simp add: frame t_def)
    with False f filed [OF f] show ?thesis by (auto simp: in_fs)
  qed
  moreover have "lookup_principal s target = Some p" "ensure_self_or_manager s actor (principal_id p) = Inr ()"
    using ch by (simp_all add: changes_calendar_def)
  ultimately show ?thesis by (intro that [of p c]) (simp_all add: frame t_def)
qed

end
