(* ===== verification/App_Notification.thy ===== *)
theory App_Notification
  imports App_Authority Flight_Rules
begin

text \<open>
  Notification endpoints and the dispatch of their outbox (\<open>src/application/app/notifications.rs\<close>, the
  validation in \<open>src/adapters/notification.rs\<close>). What the URL library makes of a URL and what an endpoint
  answers are parameters.
\<close>

section \<open>Endpoints\<close>

definition validate_env_name :: "string \<Rightarrow> string \<Rightarrow> unit result" where
  "validate_env_name v label =
     (if str_trim v = [] \<or> \<not> list_all (\<lambda>c. ascii_alphanumeric c \<or> c = CHR ''_'') v
      then Inl (relay_error.Validation
        (label @ '' environment name must contain only letters, digits and _''))
      else Inr ())"

text \<open>The scheme of a URL, or nothing when it is not one.\<close>

type_synonym url_scheme = "string \<Rightarrow> string option"

definition validate_location :: "url_scheme \<Rightarrow> notification_endpoint \<Rightarrow> unit result" where
  "validate_location scheme e =
     (case endpoint_url_env e of
        Some v \<Rightarrow> validate_env_name v ''notification URL''
      | None \<Rightarrow>
          (case scheme (endpoint_url e) of
             None \<Rightarrow> Inl (relay_error.Validation ''notification URL is invalid'')
           | Some p \<Rightarrow>
               if p \<notin> {''http'', ''https''}
               then Inl (relay_error.Validation ''notification URL must use http or https'') else Inr ()))"

definition validate_secret :: "notification_endpoint \<Rightarrow> unit result" where
  "validate_secret e =
     (case endpoint_connector e of
        Generic \<Rightarrow> validate_env_name (endpoint_secret_env e) ''notification secret''
      | Feishu \<Rightarrow>
          if endpoint_secret_env e = [] then Inr ()
          else validate_env_name (endpoint_secret_env e) ''Feishu signing secret''
      | _ \<Rightarrow>
          if endpoint_secret_env e = [] then Inr ()
          else Inl (relay_error.Validation (connector_as_str (endpoint_connector e) @
            '' connector stores its credential in the webhook URL environment variable'')))"

definition validate_endpoint :: "url_scheme \<Rightarrow> notification_endpoint \<Rightarrow> unit result" where
  "validate_endpoint scheme e =
     (if str_trim (endpoint_name e) = [] \<or> 100 < chars_count (endpoint_name e)
      then Inl (relay_error.Validation ''notification endpoint name must contain 1 to 100 characters'')
      else
        and_then (validate_location scheme e) (\<lambda>_.
          if endpoint_connector e \<noteq> Generic \<and> (endpoint_url_env e = None \<or> endpoint_url e \<noteq> [])
          then Inl (relay_error.Validation
            ''provider connector URLs must be referenced through an environment variable'')
          else if endpoint_event_kinds e = []
          then Inl (relay_error.Validation
            ''notification endpoint must subscribe to at least one event kind'')
          else if list_ex (\<lambda>k. str_trim k = [] \<or> starts_with k ''notification.'') (endpoint_event_kinds e)
          then Inl (relay_error.Validation
            ''notification event filters cannot be empty or subscribe to notification.*'')
          else validate_secret e))"

definition normalized_kinds :: "string list \<Rightarrow> string list" where
  "normalized_kinds kinds =
     sort_dedup (filter (\<lambda>k. k \<noteq> []) (map (\<lambda>k. to_ascii_lowercase (str_trim k)) kinds))"

definition endpoint_name_taken :: "org_state \<Rightarrow> string \<Rightarrow> bool" where
  "endpoint_name_taken s name \<longleftrightarrow>
     list_ex (\<lambda>e. eq_ignore_ascii_case (endpoint_name e) (str_trim name) \<and> endpoint_active e)
       (bt_values (notification_endpoints s))"

definition new_endpoint ::
    "call_context \<Rightarrow> string \<Rightarrow> notification_connector \<Rightarrow> string option \<Rightarrow> string \<Rightarrow> string list \<Rightarrow> string \<Rightarrow> string
      \<Rightarrow> notification_endpoint" where
  "new_endpoint ctx name connector url_env url kinds secret_env actor =
     \<lparr>endpoint_id = new_id ''NEND'' (ctx_uuid ctx 0), endpoint_name = str_trim name,
      endpoint_connector = connector, endpoint_url_env = url_env, endpoint_url = url,
      endpoint_event_kinds = normalized_kinds kinds, endpoint_secret_env = secret_env, endpoint_active = True,
      endpoint_created_by = actor, endpoint_created_at = ctx_clock ctx 0, endpoint_disabled_by = None,
      endpoint_disabled_at = None\<rparr>"

definition decide_register_endpoint ::
    "url_scheme \<Rightarrow> string \<Rightarrow> notification_endpoint \<Rightarrow> org_state \<Rightarrow> notification_endpoint decision result" where
  "decide_register_endpoint scheme actor e s =
     (if endpoint_name_taken s (endpoint_name e)
      then Inl (relay_error.Validation (''active notification endpoint already exists: '' @ endpoint_name e))
      else
        and_then (validate_endpoint scheme e) (\<lambda>_.
          Inr (actor, [NotificationEvent (NotificationEndpointRegistered e)], e)))"

definition register_notification_endpoint ::
    "call_context \<Rightarrow> url_scheme \<Rightarrow> string \<Rightarrow> string \<Rightarrow> string list \<Rightarrow> string \<Rightarrow> string
      \<Rightarrow> notification_endpoint command" where
  "register_notification_endpoint ctx scheme name url kinds secret_env actor =
     perform ctx
       (\<lambda>s. and_then (ensure_permission s actor NotificationManage) (\<lambda>_.
          decide_register_endpoint scheme actor
            (new_endpoint ctx name Generic None (str_trim url) kinds (str_trim secret_env) actor) s))
       answer_with"

definition register_notification_connector ::
    "call_context \<Rightarrow> url_scheme \<Rightarrow> string \<Rightarrow> notification_connector \<Rightarrow> string \<Rightarrow> string list \<Rightarrow> string option
      \<Rightarrow> string \<Rightarrow> notification_endpoint command" where
  "register_notification_connector ctx scheme name connector url_env kinds secret_env actor =
     perform ctx
       (\<lambda>s. and_then (ensure_permission s actor NotificationManage) (\<lambda>_.
          if connector = Generic
          then Inl (relay_error.Validation
            ''use register_notification_endpoint for a generic signed webhook'')
          else
            decide_register_endpoint scheme actor
              (new_endpoint ctx name connector (Some (str_trim url_env)) [] kinds
                 (str_trim (with_default secret_env [])) actor) s))
       answer_with"

definition find_endpoint :: "string \<Rightarrow> org_state \<Rightarrow> notification_endpoint result" where
  "find_endpoint eid s = found ''notification endpoint'' eid (bt_get (notification_endpoints s) eid)"

definition disable_notification_endpoint ::
    "call_context \<Rightarrow> string \<Rightarrow> string \<Rightarrow> notification_endpoint command" where
  "disable_notification_endpoint ctx eid actor =
     perform ctx
       (\<lambda>s. and_then (ensure_permission s actor NotificationManage) (\<lambda>_.
          and_then (find_endpoint eid s) (\<lambda>e.
            if \<not> endpoint_active e
            then Inl (InvalidTransition (''notification endpoint '' @ eid @ '' is already disabled''))
            else Inr (actor, [NotificationEvent (NotificationEndpointDisabled eid actor (ctx_clock ctx 0))], eid))))
       find_endpoint"

section \<open>Dispatching\<close>

text \<open>A failed delivery is tried again after 15 seconds, doubled with every attempt up to the eighth.\<close>

definition retry_delay :: "u32 \<Rightarrow> int" where
  "retry_delay attempts = 15 * 2 ^ unat (min attempts 8) * 1000000000"

definition is_due :: "instant \<Rightarrow> bool \<Rightarrow> notification_delivery \<Rightarrow> bool" where
  "is_due now force_failed d \<longleftrightarrow>
     (delivery_status d = notification_status.Pending \<or> delivery_status d = notification_status.Failed)
     \<and> (force_failed \<or> delivery_status d = notification_status.Pending
        \<or> (case delivery_last_attempt_at d of
             None \<Rightarrow> True | Some at \<Rightarrow> at + retry_delay (delivery_attempts d) \<le> now))"

definition notification_attempts ::
    "org_state \<Rightarrow> instant \<Rightarrow> nat \<Rightarrow> bool \<Rightarrow> (notification_endpoint \<times> notification_delivery) list" where
  "notification_attempts s now limit force_failed =
     take limit (sort_key (\<lambda>(_, d). (delivery_queued_at d, delivery_id d))
       (List.map_filter (\<lambda>d.
            case bt_get (notification_endpoints s) (delivery_endpoint_id d) of
              None \<Rightarrow> None | Some e \<Rightarrow> if endpoint_active e then Some (e, d) else None)
          (filter (is_due now force_failed) (bt_values (notification_deliveries s)))))"

record notification_attempt =
  attempt_delivered :: bool
  attempt_response_status :: "u16 option"
  attempt_error :: "string option"
  attempt_attempted_at :: instant

definition find_delivery :: "string \<Rightarrow> org_state \<Rightarrow> notification_delivery result" where
  "find_delivery did s = found ''notification delivery'' did (bt_get (notification_deliveries s) did)"

definition attempt_event :: "notification_delivery \<Rightarrow> string \<Rightarrow> notification_attempt \<Rightarrow> notification_event" where
  "attempt_event d did a =
     (if attempt_delivered a
      then NotificationDelivered did (delivery_flow_id d) (with_default (attempt_response_status a) 200)
        (attempt_attempted_at a)
      else NotificationFailed did (delivery_flow_id d) (attempt_response_status a)
        (with_default (attempt_error a) ''notification delivery failed'') (attempt_attempted_at a))"

definition record_notification_attempt ::
    "call_context \<Rightarrow> string \<Rightarrow> notification_attempt \<Rightarrow> string \<Rightarrow> notification_delivery command" where
  "record_notification_attempt ctx did a actor =
     perform ctx
       (\<lambda>s. and_then (find_delivery did s) (\<lambda>d.
          if delivery_is_settled d
          then Inl (InvalidTransition (''notification delivery '' @ did @ '' is already delivered''))
          else Inr (actor, [NotificationEvent (attempt_event d did a)], did)))
       find_delivery"

record dispatch_summary =
  summary_attempted :: nat
  summary_delivered :: nat
  summary_failed :: nat

definition count_attempt :: "notification_attempt \<Rightarrow> dispatch_summary \<Rightarrow> dispatch_summary" where
  "count_attempt a m =
     (if attempt_delivered a
      then m\<lparr>summary_attempted := summary_attempted m + 1, summary_delivered := summary_delivered m + 1\<rparr>
      else m\<lparr>summary_attempted := summary_attempted m + 1, summary_failed := summary_failed m + 1\<rparr>)"

text \<open>Each outcome is committed before the next delivery is tried; the \<open>i\<close>-th commit has the \<open>i\<close>-th context.\<close>

type_synonym deliver = "nat \<Rightarrow> notification_endpoint \<Rightarrow> notification_delivery \<Rightarrow> notification_attempt"

fun dispatch_each ::
    "(nat \<Rightarrow> call_context) \<Rightarrow> deliver \<Rightarrow> string \<Rightarrow> nat \<Rightarrow> dispatch_summary
      \<Rightarrow> (notification_endpoint \<times> notification_delivery) list \<Rightarrow> dispatch_summary command" where
  "dispatch_each ctx deliver actor i m [] = (\<lambda>app. (Inr m, app))"
| "dispatch_each ctx deliver actor i m ((e, d) # rest) =
     (let a = deliver i e d in
      cmd_then (record_notification_attempt (ctx i) (delivery_id d) a actor) (\<lambda>_.
        dispatch_each ctx deliver actor (i + 1) (count_attempt a m) rest))"

definition dispatch_notifications ::
    "(nat \<Rightarrow> call_context) \<Rightarrow> deliver \<Rightarrow> instant \<Rightarrow> nat \<Rightarrow> bool \<Rightarrow> string \<Rightarrow> dispatch_summary command" where
  "dispatch_notifications ctx deliver now limit force_failed actor = (\<lambda>(db, s).
     (case and_then (ensure_permission s actor NotificationManage) (\<lambda>_.
             if limit = 0 \<or> 1000 < limit
             then Inl (relay_error.Validation ''notification dispatch limit must be between 1 and 1000'')
             else Inr ()) of
        Inl err \<Rightarrow> (Inl err, db, s)
      | Inr _ \<Rightarrow>
          dispatch_each ctx deliver actor 0 \<lparr>summary_attempted = 0, summary_delivered = 0, summary_failed = 0\<rparr>
            (notification_attempts s now limit force_failed) (db, s)))"

text \<open>The payload of a test is a text of the JSON library.\<close>

definition decide_test_endpoint ::
    "call_context \<Rightarrow> (notification_endpoint \<Rightarrow> json_text) \<Rightarrow> string \<Rightarrow> string \<Rightarrow> org_state
      \<Rightarrow> (notification_endpoint \<times> notification_delivery) decision result" where
  "decide_test_endpoint ctx payload eid actor s =
     and_then (ensure_permission s actor NotificationManage) (\<lambda>_.
     and_then (found ''active notification endpoint'' eid
         (case bt_get (notification_endpoints s) eid of
            None \<Rightarrow> None | Some e \<Rightarrow> if endpoint_active e then Some e else None)) (\<lambda>e.
     and_then (get_organization s) (\<lambda>org.
       let d = \<lparr>delivery_id = new_id ''NTF'' (ctx_uuid ctx 0),
         delivery_organization_id = organization_id org, delivery_endpoint_id = endpoint_id e,
         delivery_source_event_kind = ''connector.test'', delivery_flow_id = None, delivery_actor = actor,
         delivery_payload = payload e, delivery_status = notification_status.Pending, delivery_attempts = 0,
         delivery_queued_at = ctx_clock ctx 0, delivery_last_attempt_at = None, delivery_delivered_at = None,
         delivery_response_status = None, delivery_last_error = None\<rparr> in
       Inr (actor, [NotificationEvent (NotificationQueued d)], (e, d)))))"

definition test_notification_endpoint ::
    "call_context \<Rightarrow> call_context \<Rightarrow> (notification_endpoint \<Rightarrow> json_text) \<Rightarrow> deliver \<Rightarrow> string \<Rightarrow> string
      \<Rightarrow> notification_delivery command" where
  "test_notification_endpoint ctx ctx' payload deliver eid actor =
     cmd_then (perform ctx (decide_test_endpoint ctx payload eid actor) answer_with) (\<lambda>(e, d).
       record_notification_attempt ctx' (delivery_id d) (deliver 0 e d) actor)"

end
