(* ===== verification/Notification_Facts.thy ===== *)
theory Notification_Facts
  imports App_Notification
begin

text \<open>
  What dispatching the outbox does: events about notifications queue no notifications, so recording an
  attempt changes one delivery and nothing else, and a dispatch is the list of its attempts.
\<close>

section \<open>Recording an attempt\<close>

lemma notifications_queue_nothing:
  "list_all (\<lambda>e. starts_with (kind e) ''notification.'') es \<Longrightarrow> queue_from lib w s org actor n es = Inr []"
  by (induction es arbitrary: n) simp_all

lemma performed_unnotified:
  assumes "perform ctx decide answer (db, s) = (Inr y, db', s')"
    and "\<And>author es x. decide s = Inr (author, es, x) \<Longrightarrow> list_all (\<lambda>e. starts_with (kind e) ''notification.'') es"
  obtains author es x v where "decide s = Inr (author, es, x)" "answer x s' = Inr y" "apply_events s es = Inr v"
    "s' = v\<lparr>last_sequence := last_sequence s'\<rparr>"
proof -
  from assms(1) obtain author es x envs where d: "decide s = Inr (author, es, x)" "answer x s' = Inr y"
    and c: "commit_events ctx author es (db, s) = (Inr envs, db', s')" by (rule perform_succeeds)
  from commit_events_ok [OF c] obtain org :: organization and queued where
      "queue_events (ctx_library ctx) (ctx_environment ctx) s (organization_id org) author es = Inr queued"
    and "prepare_batch (ctx_environment ctx) (last_sequence s) (organization_id org) author (es @ queued) = Inr envs"
    and run: "apply_all s envs = Inr s'" by blast
  then have batch: "prepare_batch (ctx_environment ctx) (last_sequence s) (organization_id org) author es = Inr envs"
    by (simp add: queue_events_def notifications_queue_nothing [OF assms(2) [OF d(1)]])
  from apply_all_events [OF run] prepare_batch_Inr(1) [OF batch]
  have v: "apply_events s es = Inr (s'\<lparr>last_sequence := last_sequence s\<rparr>)" by simp
  from d v show ?thesis by (rule that) simp
qed

definition outcome :: "notification_attempt \<Rightarrow> notification_delivery \<Rightarrow> notification_delivery" where
  "outcome a d =
     (if attempt_delivered a
      then d\<lparr>delivery_status := Delivered, delivery_attempts := delivery_attempts d + 1,
        delivery_last_attempt_at := Some (attempt_attempted_at a), delivery_delivered_at := Some (attempt_attempted_at a),
        delivery_response_status := Some (with_default (attempt_response_status a) 200), delivery_last_error := None\<rparr>
      else d\<lparr>delivery_status := notification_status.Failed, delivery_attempts := delivery_attempts d + 1,
        delivery_last_attempt_at := Some (attempt_attempted_at a),
        delivery_response_status := attempt_response_status a,
        delivery_last_error := Some (with_default (attempt_error a) ''notification delivery failed'')\<rparr>)"

lemma outcome_simps [simp]:
  "delivery_id (outcome a d) = delivery_id d"
  "delivery_status (outcome a d) = (if attempt_delivered a then Delivered else notification_status.Failed)"
  "delivery_attempts (outcome a d) = delivery_attempts d + 1"
  "delivery_last_attempt_at (outcome a d) = Some (attempt_attempted_at a)"
  by (simp_all add: outcome_def)

lemma recorded:
  assumes "record_notification_attempt ctx did a actor (db, s) = (Inr d', db', s')"
  obtains d where "bt_get (notification_deliveries s) did = Some d" "\<not> delivery_is_settled d" "d' = outcome a d"
    "s' = s\<lparr>notification_deliveries := bt_insert did (outcome a d) (notification_deliveries s),
      last_sequence := last_sequence s'\<rparr>"
proof -
  let ?decide = "\<lambda>s. and_then (find_delivery did s) (\<lambda>d.
    if delivery_is_settled d
    then Inl (InvalidTransition (''notification delivery '' @ did @ '' is already delivered''))
    else Inr (actor, [NotificationEvent (attempt_event d did a)], did))"
  have kinds: "list_all (\<lambda>e. starts_with (kind e) ''notification.'') es" if "?decide s = Inr (author, es, x)" for author es x
  proof -
    from that obtain d where "es = [NotificationEvent (attempt_event d did a)]" by (auto split: if_splits)
    moreover have "starts_with ''notification.delivered'' ''notification.''"
      "starts_with ''notification.failed'' ''notification.''" by code_simp+
    ultimately show ?thesis by (simp add: attempt_event_def)
  qed
  obtain author es x v where
      d: "?decide s = Inr (author, es, x)" and answer: "find_delivery x s' = Inr d'" and v: "apply_events s es = Inr v"
    and s': "s' = v\<lparr>last_sequence := last_sequence s'\<rparr>"
    by (rule performed_unnotified [OF assms [unfolded record_notification_attempt_def] kinds])
  from d obtain d where found: "bt_get (notification_deliveries s) did = Some d" "\<not> delivery_is_settled d"
    and es: "es = [NotificationEvent (attempt_event d did a)]" and x: "x = did"
    by (auto simp: find_delivery_def split: if_splits)
  from v es found have v': "v = s\<lparr>notification_deliveries := bt_insert did (outcome a d) (notification_deliveries s)\<rparr>"
    by (auto simp: attempt_event_def outcome_def apply_notification_delivered_def apply_notification_failed_def
        get_notification_delivery_def split: if_splits)
  have "notification_deliveries s' = bt_insert did (outcome a d) (notification_deliveries s)" by (subst s') (simp add: v')
  with answer x have "d' = outcome a d" by (simp add: find_delivery_def)
  with found s' show ?thesis by (intro that [of d]) (simp_all add: v')
qed

section \<open>A dispatch\<close>

definition tally :: "nat \<Rightarrow> deliver \<Rightarrow> (notification_endpoint \<times> notification_delivery) list \<Rightarrow> nat" where
  "tally i deliver ps = length (filter (\<lambda>(j, e, d). attempt_delivered (deliver j e d)) (List.enumerate i ps))"

lemma dispatched:
  assumes "dispatch_each ctx deliver actor i m ps (db, s) = (Inr m', db', s')"
    and "distinct (map (delivery_id \<circ> snd) ps)"
    and "\<And>p. p \<in> set ps \<Longrightarrow> bt_get (notification_deliveries s) (delivery_id (snd p)) = Some (snd p)"
  shows "s' = s\<lparr>notification_deliveries := notification_deliveries s', last_sequence := last_sequence s'\<rparr> \<and>
    (\<forall>j < length ps. bt_get (notification_deliveries s') (delivery_id (snd (ps ! j))) =
       Some (outcome (deliver (i + j) (fst (ps ! j)) (snd (ps ! j))) (snd (ps ! j)))) \<and>
    (\<forall>k. k \<notin> delivery_id ` snd ` set ps \<longrightarrow>
       bt_get (notification_deliveries s') k = bt_get (notification_deliveries s) k) \<and>
    summary_attempted m' = summary_attempted m + length ps \<and>
    summary_delivered m' = summary_delivered m + tally i deliver ps \<and>
    summary_delivered m' + summary_failed m' = summary_delivered m + summary_failed m + length ps"
  using assms
proof (induction ps arbitrary: i m db s)
  case Nil
  then show ?case by (simp add: tally_def)
next
  case (Cons p ps)
  obtain e d where p: "p = (e, d)" by (cases p)
  let ?a = "deliver i e d"
  from Cons.prems(1) obtain d' db1 s1 where
      run: "record_notification_attempt (ctx i) (delivery_id d) ?a actor (db, s) = (Inr d', db1, s1)"
    and rest: "dispatch_each ctx deliver actor (i + 1) (count_attempt ?a m) ps (db1, s1) = (Inr m', db', s')"
    by (auto simp: p cmd_then_def Let_def split: prod.splits sum.splits)
  have own: "bt_get (notification_deliveries s) (delivery_id d) = Some d" using Cons.prems(3) [of p] by (simp add: p)
  from run obtain d0 where "bt_get (notification_deliveries s) (delivery_id d) = Some d0"
    and s1: "s1 = s\<lparr>notification_deliveries := bt_insert (delivery_id d) (outcome ?a d0) (notification_deliveries s),
      last_sequence := last_sequence s1\<rparr>" by (rule recorded)
  with own have "d0 = d" by simp
  have deliveries: "notification_deliveries s1 = bt_insert (delivery_id d) (outcome ?a d) (notification_deliveries s)"
    by (subst s1) (simp add: \<open>d0 = d\<close>)
  have new: "delivery_id d \<notin> delivery_id ` snd ` set ps" using Cons.prems(2) by (auto simp: p)
  have later: "bt_get (notification_deliveries s1) (delivery_id (snd q)) = Some (snd q)" if "q \<in> set ps" for q
  proof -
    from that have "delivery_id (snd q) \<in> delivery_id ` snd ` set ps" by blast
    with new have "delivery_id (snd q) \<noteq> delivery_id d" by metis
    with Cons.prems(3) [of q] that show ?thesis by (simp add: deliveries)
  qed
  have "distinct (map (delivery_id \<circ> snd) ps)" using Cons.prems(2) by (simp add: comp_def)
  note IH = Cons.IH [OF rest this later]
  have "s' = s\<lparr>notification_deliveries := notification_deliveries s', last_sequence := last_sequence s'\<rparr>"
  proof -
    have "s1\<lparr>notification_deliveries := x, last_sequence := y\<rparr> = s\<lparr>notification_deliveries := x, last_sequence := y\<rparr>" for x y
      using arg_cong [OF s1, of "\<lambda>t. t\<lparr>notification_deliveries := x, last_sequence := y\<rparr>"] by simp
    with IH [THEN conjunct1] show ?thesis by simp
  qed
  moreover have "bt_get (notification_deliveries s') (delivery_id (snd ((p # ps) ! j))) =
      Some (outcome (deliver (i + j) (fst ((p # ps) ! j)) (snd ((p # ps) ! j))) (snd ((p # ps) ! j)))"
    if "j < length (p # ps)" for j
    using that IH new by (cases j) (simp_all add: p deliveries)
  moreover have "bt_get (notification_deliveries s') k = bt_get (notification_deliveries s) k"
    if "k \<notin> delivery_id ` snd ` set (p # ps)" for k
    using that IH by (simp add: p deliveries)
  moreover have "tally i deliver (p # ps) = (if attempt_delivered ?a then 1 else 0) + tally (i + 1) deliver ps"
    by (simp add: tally_def p)
  ultimately show ?case using IH by (auto simp: count_attempt_def)
qed

lemma in_map_filter: "y \<in> set (List.map_filter f xs) \<longleftrightarrow> (\<exists>x \<in> set xs. f x = Some y)"
  by (induction xs) (auto simp: List.map_filter_def)

lemma attempts_from:
  assumes "(e, d) \<in> set (notification_attempts s now limit force_failed)"
  shows "\<exists>k. bt_get (notification_deliveries s) k = Some d" "is_due now force_failed d"
    "bt_get (notification_endpoints s) (delivery_endpoint_id d) = Some e" "endpoint_active e"
  using in_set_takeD [OF assms [unfolded notification_attempts_def]]
  by (auto simp: in_map_filter split: option.splits if_splits)

lemma attempts_due:
  assumes "(e, d) \<in> set (notification_attempts s now limit force_failed)" and "keyed delivery_id (notification_deliveries s)"
  shows "bt_get (notification_deliveries s) (delivery_id d) = Some d" "is_due now force_failed d"
    "bt_get (notification_endpoints s) (delivery_endpoint_id d) = Some e" "endpoint_active e"
  using attempts_from [OF assms(1)] keyedD [OF assms(2)] by auto

lemma attempts_distinct:
  assumes "keyed delivery_id (notification_deliveries s)"
  shows "distinct (map (delivery_id \<circ> snd) (notification_attempts s now limit force_failed))"
proof -
  have each: "distinct (map (delivery_id \<circ> snd) (List.map_filter (\<lambda>d.
      case g d of None \<Rightarrow> None | Some e \<Rightarrow> if endpoint_active e then Some (e, d) else None) ds))"
    if "distinct (map delivery_id ds)" for g :: "notification_delivery \<Rightarrow> notification_endpoint option" and ds
    using that by (induction ds) (auto simp: List.map_filter_def split: option.splits if_splits)
  have "distinct (map delivery_id (bt_values (notification_deliveries s)))"
    using keyed_values_distinct [OF assms] distinct_fst_entries by simp
  from each [OF distinct_map_filter [OF this]] show ?thesis
    unfolding notification_attempts_def distinct_map
    by (intro conjI distinct_take inj_on_subset [OF _ set_take_subset]) simp_all
qed

lemma notification_attempts_length: "length (notification_attempts s now limit force_failed) \<le> limit"
  by (simp add: notification_attempts_def)

lemma attempts_complete:
  assumes "length (notification_attempts s now limit force_failed) < limit"
    and "bt_get (notification_deliveries s) k = Some d" and "is_due now force_failed d"
    and "bt_get (notification_endpoints s) (delivery_endpoint_id d) = Some e" and "endpoint_active e"
  shows "(e, d) \<in> set (notification_attempts s now limit force_failed)"
proof -
  have all: "take n xs = xs" if "length (take n xs) < n" for n and xs :: "'a list"
    using that by (cases "length xs \<le> n") simp_all
  have "(e, d) \<in> set (List.map_filter (\<lambda>d. case bt_get (notification_endpoints s) (delivery_endpoint_id d) of
      None \<Rightarrow> None | Some e \<Rightarrow> if endpoint_active e then Some (e, d) else None)
      (filter (is_due now force_failed) (bt_values (notification_deliveries s))))"
    using assms(2-5) unfolding in_map_filter by (intro bexI [of _ d]) auto
  then show ?thesis
    using assms(1) unfolding notification_attempts_def by (subst all) simp_all
qed

end
