(* ===== verification/App_Message.thy ===== *)
theory App_Message
  imports App_Command App_Policy
begin

text \<open>
  Messages in a flow (\<open>src/application/app/messages.rs\<close>): who may write to whom, what lies in the inbox
  of a principal, and which messages of a flow a principal may read.
\<close>

section \<open>Posting\<close>

definition principal_target :: "principal \<Rightarrow> assignment_target" where
  "principal_target p =
     \<lparr>target_kind = (case principal_kind p of
        principal_kind.Human \<Rightarrow> target_kind.Human | principal_kind.Agent \<Rightarrow> target_kind.Agent),
      target_id = principal_id p, target_name = principal_name p\<rparr>"

definition resolve_recipient :: "org_state \<Rightarrow> string \<Rightarrow> assignment_target result" where
  "resolve_recipient s key =
     (case get_principal s key of
        Inr p \<Rightarrow>
          if \<not> principal_active p
          then Inl (relay_error.Validation (''recipient '' @ principal_name p @ '' is inactive''))
          else Inr (principal_target p)
      | Inl _ \<Rightarrow>
          and_then (get_team s key) (\<lambda>t.
            if \<not> team_active t
            then Inl (relay_error.Validation (''recipient team '' @ team_name t @ '' is inactive''))
            else Inr \<lparr>target_kind = Team, target_id = team_id t, target_name = team_name t\<rparr>))"

text \<open>Only the requester of the demand brings in somebody who has no part in the flow yet.\<close>

definition admitted_recipient ::
    "org_state \<Rightarrow> flow \<Rightarrow> principal \<Rightarrow> principal \<Rightarrow> string \<Rightarrow> assignment_target result" where
  "admitted_recipient s f sender requester key =
     and_then (resolve_recipient s key) (\<lambda>target.
       if principal_id sender \<noteq> principal_id requester \<and> \<not> message_target_is_flow_participant s f target
       then Inl (PermissionDenied (''only demand requester '' @ principal_name requester @ '' can bring '' @
         target_name target @ '' into flow '' @ flow_id f))
       else Inr target)"

text \<open>Of several recipients with one identifier the first stays.\<close>

fun first_of_each :: "string list \<Rightarrow> assignment_target list \<Rightarrow> assignment_target list" where
  "first_of_each seen [] = []"
| "first_of_each seen (t # ts) =
     (if target_id t \<in> set seen then first_of_each seen ts else t # first_of_each (target_id t # seen) ts)"

definition task_of_message :: "flow \<Rightarrow> string option \<Rightarrow> string option result" where
  "task_of_message f tid =
     (case tid of
        None \<Rightarrow> Inr None
      | Some key \<Rightarrow> and_then (found ''task'' key (flow_task f key)) (\<lambda>t. Inr (Some (task_id t))))"

definition decide_post_message ::
    "call_context \<Rightarrow> string \<Rightarrow> string option \<Rightarrow> string \<Rightarrow> flow_message_kind \<Rightarrow> string list \<Rightarrow> string \<Rightarrow> bool
      \<Rightarrow> org_state \<Rightarrow> flow_message decision result" where
  "decide_post_message ctx fid tid sender mk recipients given requires_ack s =
     and_then (get_principal s sender) (\<lambda>p.
       if \<not> principal_active p
       then Inl (PermissionDenied (''principal '' @ principal_name p @ '' is inactive''))
       else
         and_then (get_flow s fid) (\<lambda>f.
           if \<not> principal_has_flow_access s f p
           then Inl (PermissionDenied (principal_name p @ '' cannot access flow '' @ flow_id f))
           else
             and_then (task_of_message f tid) (\<lambda>tid.
               let body = str_trim given in
               if body = [] \<or> 4000 < chars_count body
               then Inl (relay_error.Validation ''flow message body must contain 1 to 4000 characters'')
               else if recipients = [] \<or> 32 < length recipients
               then Inl (relay_error.Validation ''flow message must target between 1 and 32 recipients'')
               else
                 and_then (get_principal s (demand_requester (flow_demand f))) (\<lambda>requester.
                 and_then (try_map (admitted_recipient s f p requester) recipients) (\<lambda>targets.
                   let m = \<lparr>message_id = new_id ''MSG'' (ctx_uuid ctx 0), message_flow_id = flow_id f,
                     message_task_id = tid, message_kind = mk, message_sender_id = principal_id p,
                     message_sender_name = principal_name p, message_recipients = first_of_each [] targets,
                     message_body = body, message_requires_ack = requires_ack,
                     message_acknowledgements = [], message_created_at = ctx_clock ctx 0\<rparr> in
                   Inr (principal_name p, [MessageEvent (FlowMessagePosted m)], m))))))"

definition post_flow_message ::
    "call_context \<Rightarrow> string \<Rightarrow> string option \<Rightarrow> string \<Rightarrow> flow_message_kind \<Rightarrow> string list \<Rightarrow> string \<Rightarrow> bool
      \<Rightarrow> flow_message command" where
  "post_flow_message ctx fid tid sender mk recipients body requires_ack =
     perform ctx (decide_post_message ctx fid tid sender mk recipients body requires_ack) answer_with"

section \<open>Reading\<close>

definition inbox_item :: "org_state \<Rightarrow> principal \<Rightarrow> bool \<Rightarrow> flow_message \<Rightarrow> message_inbox_item option" where
  "inbox_item s p include_acknowledged m =
     (let represented = message_recipient_ids s m p;
          pending = filter (\<lambda>rid. \<not> recipient_is_acknowledged m rid) represented in
      if represented = [] then None
      else if message_requires_ack m \<and> pending = [] \<and> \<not> include_acknowledged then None
      else Some \<lparr>inbox_message = m, inbox_pending_recipient_ids = pending\<rparr>)"

definition message_inbox :: "org_state \<Rightarrow> string \<Rightarrow> bool \<Rightarrow> message_inbox_item list result" where
  "message_inbox s target include_acknowledged =
     and_then (get_principal s target) (\<lambda>p.
       Inr (sort_key (\<lambda>i. - message_created_at (inbox_message i))
         (List.map_filter (inbox_item s p include_acknowledged) (bt_values (messages s)))))"

definition may_read :: "org_state \<Rightarrow> flow \<Rightarrow> principal \<Rightarrow> principal \<Rightarrow> flow_message \<Rightarrow> bool" where
  "may_read s f p requester m \<longleftrightarrow>
     principal_id p = principal_id requester \<or> message_sender_id m = principal_id p
     \<or> message_recipient_ids s m p \<noteq> []
     \<or> (case Option.bind (message_task_id m) (flow_task f) of
          None \<Rightarrow> False | Some t \<Rightarrow> principal_is_task_actor s t p)"

definition flow_messages :: "org_state \<Rightarrow> string \<Rightarrow> string \<Rightarrow> flow_message list result" where
  "flow_messages s fid actor =
     and_then (get_flow s fid) (\<lambda>f.
     and_then (get_principal s actor) (\<lambda>p.
       if \<not> principal_has_flow_access s f p
       then Inl (PermissionDenied (principal_name p @ '' cannot access flow '' @ flow_id f))
       else
         and_then (get_principal s (demand_requester (flow_demand f))) (\<lambda>requester.
           Inr (sort_key message_created_at
             (filter (may_read s f p requester)
               (filter (\<lambda>m. message_flow_id m = flow_id f) (bt_values (messages s))))))))"

end
