(* ===== verification/Collaboration_Properties.thy ===== *)
theory Collaboration_Properties
  imports Command_Properties Tracking_Facts Interaction_Facts Notification_Facts App_Message
begin

text \<open>
  What keeps people and the flows together: the scan that raises what is overdue, interactions that come
  back from other systems, calendars that move the schedule, and the outbox that tells the outside.
\<close>

section \<open>Tracking\<close>

text \<open>
  C33: A scan reconciles. Afterwards there is exactly one active attention for every finding of the
  tracker, the active escalations are about active attentions, each of those that is critical or old
  enough and whose flow a human asked for is escalated, and scanning again at the same time, by whomever,
  changes nothing.
\<close>

theorem scans_reconcile:
  assumes "scan_tracking_with_policy_at ctx show_minute now h h' actor (db, s) = (Inr r, db', s')"
    and "try_hours h = Some stale_after" and "try_hours h' = Some escalate_after"
    and "attentions_unique s" and "escalations_unique s"
    and "draws_fresh ctx ''ATTN'' (2 * length (evaluate show_minute s now stale_after)) (attentions s)"
    and "draws_fresh ctx ''ESC'' (2 * length (evaluate show_minute s now stale_after)) (escalations s)"
  shows "attention_key_of ` set (active_attentions s') = finding_key ` set (evaluate show_minute s' now stale_after) \<and>
    (\<forall>e \<in> set (active_escalations s'). escalation_attention_id e \<in> attention_id ` set (active_attentions s')) \<and>
    (\<forall>a \<in> set (active_attentions s'). should_escalate now escalate_after a \<longrightarrow> escalation_recipient s' a \<noteq> None \<longrightarrow>
       attention_id a \<in> escalation_attention_id ` set (active_escalations s')) \<and>
    attentions_unique s' \<and> escalations_unique s' \<and>
    (\<forall>ctx' actor'. \<exists>r'. scan_tracking_with_policy_at ctx' show_minute now h h' actor' (db', s') = (Inr r', db', s'))"
proof -
  from scan_reconciled [OF assms] have r: "reconciled show_minute now stale_after escalate_after s'"
    and unique: "attentions_unique s'" "escalations_unique s'"
    and org: "org_organization s' = org_organization s" by blast+
  from assms(1) obtain p where "plan_scan ctx show_minute now h h' s = Inr p" by (rule scan_applies)
  then have "h \<noteq> 0" "org_organization s \<noteq> None"
    by (auto simp: plan_scan_def split: if_splits)
  with reconciled_scan [OF r unique _ assms(2,3)] org
  have again: "\<forall>ctx' actor'. \<exists>r'. scan_tracking_with_policy_at ctx' show_minute now h h' actor' (db', s') = (Inr r', db', s')"
    by simp
  from r again unique show ?thesis by (simp add: reconciled_def)
qed

theorem scans_reconcile_witness:
  "\<exists>r db' s'. scan_tracking_with_policy_at work_context show_int 7 24 4 ''ada''
      (SqliteStore bt_empty, working task_status.Blocked) = (Inr r, db', s') \<and>
    length (scan_raised r) = 1 \<and> length (scan_escalated r) = 1 \<and>
    (\<exists>r'. scan_tracking_with_policy_at work_context show_int 7 24 4 ''bot'' (db', s') = (Inr r', db', s'))"
proof -
  let ?s = "working task_status.Blocked"
  let ?r = "scan_tracking_with_policy_at work_context show_int 7 24 4 ''ada'' (SqliteStore bt_empty, ?s)"
  have ok: "case fst ?r of Inl _ \<Rightarrow> False | Inr r \<Rightarrow> length (scan_raised r) = 1 \<and> length (scan_escalated r) = 1"
    by code_simp
  then obtain r db' s' where r: "?r = (Inr r, db', s')" by (cases ?r) (auto split: sum.splits)
  have hours: "try_hours 24 = Some (86400 * 10 ^ 9)" "try_hours 4 = Some (14400 * 10 ^ 9)" by code_simp+
  have empty: "attentions ?s = bt_empty" "escalations ?s = bt_empty"
    by (simp_all add: working_def staffed_def default_state_def)
  have few: "length (evaluate show_int ?s 7 (86400 * 10 ^ 9)) = 1" by code_simp
  have "draws_fresh work_context ''ATTN'' 2 (attentions ?s)" "draws_fresh work_context ''ESC'' 2 (escalations ?s)"
    by (simp_all add: draws_fresh_def empty bt_contains_iff) code_simp+
  with scans_reconcile [OF r hours] few ok r show ?thesis
    by (auto simp: attentions_unique_def escalations_unique_def empty)
qed

section \<open>Interactions from outside\<close>

text \<open>
  C34: An interaction from another system acts as the active human its external user is bound to, and
  once per delivery: what it does is recorded with its receipt, from then on the same request is answered
  with that receipt and any other request under the delivery's name is refused, and neither changes
  anything.
\<close>

theorem interactions_act_once:
  assumes "process_external_interaction ctx provider did user action target reason (db, s) = (Inr x, db', s')"
  shows "\<exists>w. check_interaction provider did user action target reason = Inr w \<and>
    bt_get (external_interactions s') (delivery_key w) = Some (interaction_receipt x) \<and>
    records (interaction_receipt x) w \<and>
    (interaction_duplicate x \<longrightarrow> db' = db \<and> s' = s) \<and>
    (\<not> interaction_duplicate x \<longrightarrow> (\<exists>b k p fid acts v.
       bt_get (external_identities s) k = Some b \<and> identity_is_active b \<and>
       identity_provider b = wanted_provider w \<and> identity_external_user_id b = wanted_user_id w \<and>
       lookup_principal s (identity_principal_id b) = Some p \<and> principal_kind p = principal_kind.Human \<and>
       principal_active p \<and> receipt_principal_id (interaction_receipt x) = principal_id p \<and>
       interaction_event action s w p (ctx_clock ctx 0) = Inr (fid, acts) \<and>
       apply_events s (acts @ [ExternalEvent (ExternalInteractionProcessed (interaction_receipt x))]) = Inr v \<and>
       s' = v\<lparr>notification_deliveries := notification_deliveries s', last_sequence := last_sequence s'\<rparr>)) \<and>
    (\<forall>ctx' provider' did' user' action' target' reason' w'.
       check_interaction provider' did' user' action' target' reason' = Inr w' \<longrightarrow>
       wanted_provider w' = wanted_provider w \<longrightarrow> wanted_delivery_id w' = wanted_delivery_id w \<longrightarrow>
       (\<exists>err. process_external_interaction ctx' provider' did' user' action' target' reason' (db', s') =
          (if w' = w then Inr (x\<lparr>interaction_duplicate := True\<rparr>) else Inl err, db', s')))"
proof -
  from assms obtain w :: interaction where w: "check_interaction provider did user action target reason = Inr w"
    and kept: "bt_get (external_interactions s') (delivery_key w) = Some (interaction_receipt x)"
    and "interaction_duplicate x \<longleftrightarrow> bt_contains (external_interactions s) (delivery_key w)"
    and same: "interaction_duplicate x \<Longrightarrow> (db', s') = (db, s)"
    and acts: "\<not> interaction_duplicate x \<Longrightarrow> \<exists>author es v.
      decide_interaction ctx w s = Inr (author, es, interaction_receipt x) \<and> apply_events s es = Inr v \<and>
      s' = v\<lparr>notification_deliveries := notification_deliveries s', last_sequence := last_sequence s'\<rparr>"
    and records: "records (interaction_receipt x) w"
    by (elim interaction_cases) (rule that; blast)
  from w have wanted: "wanted_interaction w = action" by (auto simp: check_interaction_def)
  have "\<exists>b k p fid acts v.
       bt_get (external_identities s) k = Some b \<and> identity_is_active b \<and>
       identity_provider b = wanted_provider w \<and> identity_external_user_id b = wanted_user_id w \<and>
       lookup_principal s (identity_principal_id b) = Some p \<and> principal_kind p = principal_kind.Human \<and>
       principal_active p \<and> receipt_principal_id (interaction_receipt x) = principal_id p \<and>
       interaction_event action s w p (ctx_clock ctx 0) = Inr (fid, acts) \<and>
       apply_events s (acts @ [ExternalEvent (ExternalInteractionProcessed (interaction_receipt x))]) = Inr v \<and>
       s' = v\<lparr>notification_deliveries := notification_deliveries s', last_sequence := last_sequence s'\<rparr>"
    if "\<not> interaction_duplicate x"
    using acts [OF that] by (elim exE conjE decide_interaction_Inr) (use wanted in blast)
  with w kept records same interaction_settled [OF assms w] show ?thesis by (intro exI [of _ w]) blast
qed

definition phoned :: org_state where
  "phoned = (working Assigned)\<lparr>external_identities := bt_insert ''XID-1''
     \<lparr>identity_id = ''XID-1'', identity_provider = ''feishu'', identity_external_user_id = ''u-1'',
      identity_principal_id = ''PRN-1'', identity_bound_by = ''ada'', identity_bound_at = 0,
      identity_unbound_by = None, identity_unbound_at = None\<rparr> bt_empty\<rparr>"

theorem interactions_act_once_witness:
  "\<exists>x db' s'. process_external_interaction work_context ''Feishu'' ''D-1'' ''u-1'' TaskAccept ''TASK-1'' None
      (SqliteStore bt_empty, phoned) = (Inr x, db', s') \<and>
    process_external_interaction work_context ''feishu'' '' D-1'' ''u-1'' TaskAccept ''TASK-1'' None (db', s')
      = (Inr (x\<lparr>interaction_duplicate := True\<rparr>), db', s')"
proof -
  let ?r = "process_external_interaction work_context ''Feishu'' ''D-1'' ''u-1'' TaskAccept ''TASK-1'' None
      (SqliteStore bt_empty, phoned)"
  let ?w = "\<lparr>wanted_provider = ''feishu'', wanted_delivery_id = ''D-1'', wanted_user_id = ''u-1'',
    wanted_interaction = TaskAccept, wanted_target_id = ''TASK-1'', wanted_interaction_reason = None\<rparr>"
  have "is_ok (fst ?r)" by code_simp
  then obtain x db' s' where r: "?r = (Inr x, db', s')" by (cases ?r) (auto simp: is_ok_iff)
  have "check_interaction ''Feishu'' ''D-1'' ''u-1'' TaskAccept ''TASK-1'' None = Inr ?w"
    "check_interaction ''feishu'' '' D-1'' ''u-1'' TaskAccept ''TASK-1'' None = Inr ?w" by code_simp+
  with interactions_act_once [OF r] r show ?thesis by fastforce
qed

section \<open>Calendars\<close>

text \<open>
  C35: Whoever changes a calendar acts for themselves or may manage principals. It is the calendar of that
  principal that changes, and in the same commit every running flow in which the principal has unfinished
  work is scheduled again, by the new calendar: its tasks keep everything but their estimates, and no task
  starts before those it depends on are expected to be done. All other flows stay as they are.
\<close>

theorem calendar_changes_reschedule:
  assumes "run_calendar_change ctx change target actor (db, s) = (Inr (), db', s')" and "flows_filed s"
    and "\<And>f. f \<in> set (bt_values (flows s)) \<Longrightarrow> distinct (map task_id (flow_tasks f))"
  shows "\<exists>p c. lookup_principal s target = Some p \<and>
    (is_principal s actor (principal_id p) \<or> ensure_permission s actor PrincipalManage = Inr ()) \<and>
    calendars s' = bt_insert (principal_id p) c (calendars s) \<and>
    (\<forall>k f. bt_get (flows s) k = Some f \<longrightarrow> (\<exists>f'. bt_get (flows s') k = Some f' \<and>
       (if is_running f \<and> owns_work (principal_id p) f
        then rescheduled (ctx_texts ctx) s' (ctx_clock ctx 0) f f' else f' = f)))"
proof (rule calendar_change_effect [OF assms])
  fix f
  assume "f \<in> set (bt_values (flows s))"
  then show "f \<in> set (bt_values (flows s))" .
next
  fix p c
  assume p: "lookup_principal s target = Some p" and may: "ensure_self_or_manager s actor (principal_id p) = Inr ()"
    and c: "calendars s' = bt_insert (principal_id p) c (calendars s)"
    and flows: "\<And>k f. bt_get (flows s) k = Some f \<Longrightarrow> \<exists>f'. bt_get (flows s') k = Some f' \<and>
      (if is_running f \<and> owns_work (principal_id p) f then rescheduled (ctx_texts ctx) s' (ctx_clock ctx 0) f f' else f' = f)"
  have "is_principal s actor (principal_id p) \<or> ensure_permission s actor PrincipalManage = Inr ()"
    using may by (simp add: ensure_self_or_manager_def split: if_splits)
  with p c flows show ?thesis by (intro exI [of _ p] exI [of _ c]) simp
qed

definition office_hours :: "instant \<Rightarrow> work_calendar" where
  "office_hours t =
     \<lparr>calendar_principal_id = ''PRN-1'', calendar_utc_offset_minutes = 0,
      calendar_working_days = [Monday, Tuesday, Wednesday, Thursday, Friday], calendar_day_start_minute = 540,
      calendar_day_end_minute = 1020, calendar_time_off = [], calendar_updated_by = ''ada'',
      calendar_updated_at = t\<rparr>"

definition solo_flow :: flow where
  "solo_flow = sample_flow\<lparr>flow_tasks := [owned_task InProgress], flow_status := flow_status.Active\<rparr>"

definition timed :: "instant \<Rightarrow> org_state" where
  "timed t = staffed\<lparr>flows := bt_insert ''FLOW-1'' solo_flow bt_empty,
     calendars := bt_insert ''PRN-1'' (office_hours t) bt_empty\<rparr>"

lemma solo_rescheduled: "\<exists>r. reschedule ascii_texts solo_flow (timed 7) 7 = Inr r"
proof -
  define t where "t = owned_task InProgress"
  define a where "a = the (task_assignment t)"
  let ?nine = "9 * 3600 * 10 ^ 9"
  have tasks: "flow_tasks solo_flow = [t]" by (simp add: solo_flow_def t_def)
  have "is_ok (build_graph task_id task_key task_depends_on (flow_tasks solo_flow))" by code_simp
  then obtain g where g: "build_graph task_id task_key task_depends_on (flow_tasks solo_flow) = Inr g"
    by (auto simp: is_ok_iff)
  have task: "task_depends_on t = []" "task_assignment t = Some a" "\<not> task_status_is_terminal (task_status t)"
    by (simp_all add: t_def a_def owned_task_def sample_task_def task_status_is_terminal_def)
  then have "needs_edge task_id task_depends_on (flow_tasks solo_flow) = {}"
    by (auto simp: needs_edge_def tasks less_Suc_eq)
  then have acyclic: "acyclic (needs_edge task_id task_depends_on (flow_tasks solo_flow))" by (simp add: acyclic_def)
  have capacity: "f64_max (assignment_capacity a (timed 7)) (f64_lit 1 10) = f64_lit 1 1"
    unfolding a_def t_def by code_simp
  have factor: "coordination_factor [] (task_requires_human t) = f64_lit 1 1" unfolding t_def by code_simp
  have hours: "p50_of (estimate_effort_hours (task_estimate t)) (f64_lit 1 1) (f64_lit 1 1) = 0" "p80_of 0 = 0"
    unfolding t_def by code_simp+
  have start: "assignment_start a (timed 7) 7 = Inr ?nine" unfolding a_def t_def by code_simp
  have finish: "assignment_finish a (timed 7) ?nine 0 = Inr ?nine" unfolding a_def t_def by code_simp
  have "dependency_start estimates [] 7 = 7" for estimates
    by (simp add: dependency_start_def List.map_filter_def)
  then have "\<exists>e. task_reestimate ascii_texts (timed 7) 7 estimates t = Inr e" for estimates
    using task start finish by (simp add: task_reestimate_def Let_def capacity factor hours)
  with ordered_estimates_succeeds [OF g acyclic, of "task_reestimate ascii_texts (timed 7) 7"] obtain ep where
    "ordered_estimates task_id task_key task_depends_on (task_reestimate ascii_texts (timed 7) 7) (flow_tasks solo_flow) = Inr ep"
    by (auto simp: tasks)
  then show ?thesis by (cases ep) (simp add: reschedule_def Let_def tasks)
qed

theorem calendar_changes_reschedule_witness:
  "\<exists>db' s' f'. run_calendar_change work_context (ConfigureHours 0 [Monday, Tuesday, Wednesday, Thursday, Friday] 540 1020)
      ''ada'' ''ada'' (SqliteStore bt_empty, timed 0) = (Inr (), db', s') \<and>
    bt_get (flows s') ''FLOW-1'' = Some f' \<and> rescheduled ascii_texts s' 7 solo_flow f'"
proof -
  obtain r where r: "reschedule ascii_texts solo_flow (timed 7) 7 = Inr r" using solo_rescheduled by blast
  let ?rvn = "revision_of r ''work calendar updated for PRN-1'' ''ada'' 7"
  let ?es = "[CalendarEvent (WorkCalendarConfigured (office_hours 7)), FlowEvent (FlowRescheduled ''FLOW-1'' ?rvn)]"
  have state: "(timed 0)\<lparr>calendars := bt_insert ''PRN-1'' (office_hours 7) (calendars (timed 0))\<rparr> = timed 7"
    by (simp add: timed_def insert_twice)
  have ada: "get_principal (timed 0) ''ada'' = Inr (sample_principal ''PRN-1'' ''ada'')"
    "ensure_self_or_manager (timed 0) ''ada'' ''PRN-1'' = Inr ()"
    "get_work_calendar (timed 0) ''PRN-1'' = Inr (office_hours 0)"
    "sort_dedup [Monday, Tuesday, Wednesday, Thursday, Friday] = [Monday, Tuesday, Wednesday, Thursday, Friday]"
    "validate_calendar (office_hours 7) = Inr ()" by code_simp+
  have "filter (owns_work ''PRN-1'') (filter is_running (bt_values (flows (timed 7)))) = [solo_flow]" by code_simp
  with r have revisions: "reschedule_for_principal ascii_texts (timed 7) ''PRN-1'' ''ada'' 7 ''work calendar updated'' =
      Inr [FlowEvent (FlowRescheduled ''FLOW-1'' ?rvn)]"
    by (simp add: reschedule_for_principal_def solo_flow_def sample_flow_def)
  have d: "decide_configure_calendar work_context ''ada'' 0 [Monday, Tuesday, Wednesday, Thursday, Friday] 540 1020 ''ada'' (timed 0)
      = Inr (''ada'', ?es, ''PRN-1'')"
    using revisions ada [unfolded office_hours_def] state [unfolded office_hours_def]
    by (simp add: decide_configure_calendar_def work_context_def sample_principal_def Let_def office_hours_def)
  have configured: "apply_event (CalendarEvent (WorkCalendarConfigured (office_hours 7))) (timed 0) = Inr (timed 7)"
  proof -
    have "get_principal (timed 0) ''PRN-1'' = Inr (sample_principal ''PRN-1'' ''ada'')" by code_simp
    moreover have "calendar_principal_id (office_hours 7) = ''PRN-1''" by (simp add: office_hours_def)
    ultimately show ?thesis using ada(5) by (simp add: apply_work_calendar_configured_def state)
  qed
  have f: "bt_get (flows (timed 7)) ''FLOW-1'' = Some solo_flow" by (simp add: timed_def)
  have one: "distinct (map task_id (flow_tasks solo_flow))" by (simp add: solo_flow_def)
  from reschedule_accepted [OF r one refl f] obtain u where u: "apply_schedule_revision ''FLOW-1'' ?rvn (timed 7) = Inr u"
    by blast
  have org: "org_organization (timed 0) = Some sample_organization" "bt_values (notification_endpoints (timed 0)) = []"
    "last_sequence (timed 0) = 0" using staffed_facts by (simp_all add: timed_def)
  have run: "apply_events (timed 0) ?es = Inr u" using configured u by simp
  let ?decide = "decide_configure_calendar work_context ''ada'' 0 [Monday, Tuesday, Wednesday, Thursday, Friday] 540 1020 ''ada''"
  let ?answer = "\<lambda>pid s. get_work_calendar s pid"
  define s' where "s' = u\<lparr>last_sequence := 2\<rparr>"
  have ready: "ready work_context bt_empty (timed 0) (length ?es)" by (rule unlogged_ready) (simp_all add: org(3))
  obtain db' where "configure_work_calendar work_context ''ada'' 0 [Monday, Tuesday, Wednesday, Thursday, Friday] 540 1020 ''ada''
      (SqliteStore bt_empty, timed 0) = (get_work_calendar s' ''PRN-1'', db', s')"
    using ready_performs [of ?decide "timed 0" _ _ _ _ _ _ _ ?answer, OF d ready org(1,2) run]
    by (auto simp: configure_work_calendar_def org(3) s'_def)
  moreover have "get_work_calendar s' ''PRN-1'' = Inr (office_hours 7)"
  proof -
    have frame: "u = (timed 7)\<lparr>flows := flows u\<rparr>"
      using u by (auto simp: apply_schedule_revision_def put_flow_def split: if_splits)
    have same: "principals s' = principals (timed 7)" "calendars s' = calendars (timed 7)"
      using arg_cong [OF frame, of principals] arg_cong [OF frame, of calendars] by (simp_all add: s'_def)
    have "get_work_calendar (timed 7) ''PRN-1'' = Inr (office_hours 7)" by code_simp
    then show ?thesis unfolding get_work_calendar_def get_principal_def lookup_principal_def same .
  qed
  ultimately have run: "run_calendar_change work_context (ConfigureHours 0 [Monday, Tuesday, Wednesday, Thursday, Friday] 540 1020)
      ''ada'' ''ada'' (SqliteStore bt_empty, timed 0) = (Inr (), db', s')"
    by (simp add: quietly_Inr)
  have "flows_filed (timed 0)" by (simp add: flows_filed_def timed_def staffed_def default_state_def solo_flow_def sample_flow_def)
  moreover have "distinct (map task_id (flow_tasks f))" if "f \<in> set (bt_values (flows (timed 0)))" for f
    using that one by (auto simp: timed_def split: if_splits)
  moreover have "is_running solo_flow \<and> owns_work ''PRN-1'' solo_flow" by code_simp
  moreover have "lookup_principal (timed 0) ''ada'' = Some (sample_principal ''PRN-1'' ''ada'')"
    using ada(1) by (simp add: get_principal_Inr)
  moreover have "bt_get (flows (timed 0)) ''FLOW-1'' = Some solo_flow" by (simp add: timed_def)
  moreover note calendar_changes_reschedule [OF run]
  ultimately show ?thesis using run by (fastforce simp: work_context_def sample_principal_def)
qed

section \<open>Notifications\<close>

text \<open>
  C36: A dispatch tries deliveries that are due, at endpoints that are active, each of them once and no
  more than the limit; when it stays below the limit it leaves none out. What came of each attempt is what
  is recorded of its delivery, and it is not due again before its delay is over, which for a delivered one
  is never. Nothing else changes.
\<close>

theorem dispatches_try_the_due:
  assumes "dispatch_notifications ctx deliver now limit force_failed actor (db, s) = (Inr m, db', s')"
    and "keyed delivery_id (notification_deliveries s)"
  shows "\<exists>ps. length ps \<le> limit \<and> summary_attempted m = length ps \<and>
    summary_delivered m + summary_failed m = length ps \<and>
    (\<forall>j < length ps. \<forall>e d a. ps ! j = (e, d) \<longrightarrow> a = deliver j e d \<longrightarrow>
       bt_get (notification_deliveries s) (delivery_id d) = Some d \<and> is_due now force_failed d \<and>
       bt_get (notification_endpoints s) (delivery_endpoint_id d) = Some e \<and> endpoint_active e \<and>
       bt_get (notification_deliveries s') (delivery_id d) = Some (outcome a d) \<and>
       (\<forall>t < attempt_attempted_at a + retry_delay (delivery_attempts d + 1). \<not> is_due t False (outcome a d))) \<and>
    (length ps < limit \<longrightarrow> (\<forall>k d e. bt_get (notification_deliveries s) k = Some d \<longrightarrow> is_due now force_failed d \<longrightarrow>
       bt_get (notification_endpoints s) (delivery_endpoint_id d) = Some e \<longrightarrow> endpoint_active e \<longrightarrow> (e, d) \<in> set ps)) \<and>
    (\<forall>k. k \<notin> delivery_id ` snd ` set ps \<longrightarrow>
       bt_get (notification_deliveries s') k = bt_get (notification_deliveries s) k) \<and>
    s' = s\<lparr>notification_deliveries := notification_deliveries s', last_sequence := last_sequence s'\<rparr>"
proof -
  let ?ps = "notification_attempts s now limit force_failed"
  have run: "dispatch_each ctx deliver actor 0 \<lparr>summary_attempted = 0, summary_delivered = 0, summary_failed = 0\<rparr> ?ps (db, s)
      = (Inr m, db', s')"
    using assms(1) by (auto simp: dispatch_notifications_def split: sum.splits)
  have due: "bt_get (notification_deliveries s) (delivery_id (snd p)) = Some (snd p)" if "p \<in> set ?ps" for p
    using attempts_due(1) [of "fst p" "snd p"] that assms(2) by simp
  note ran = dispatched [OF run attempts_distinct [OF assms(2)] due]
  have each: "bt_get (notification_deliveries s) (delivery_id d) = Some d \<and> is_due now force_failed d \<and>
      bt_get (notification_endpoints s) (delivery_endpoint_id d) = Some e \<and> endpoint_active e \<and>
      bt_get (notification_deliveries s') (delivery_id d) = Some (outcome (deliver j e d) d)"
    if "j < length ?ps" "?ps ! j = (e, d)" for j e d
    using attempts_due [of e d] ran that assms(2) nth_mem [OF that(1)] by fastforce
  have rest: "\<not> is_due t False (outcome a d)"
    if "t < attempt_attempted_at a + retry_delay (delivery_attempts d + 1)" for t a d
    using that by (auto simp: is_due_def)
  from each rest ran attempts_complete [of s now limit force_failed] show ?thesis
    by (intro exI [of _ ?ps]) (simp add: notification_attempts_length)
qed

definition ringing :: org_state where
  "ringing = staffed\<lparr>notification_endpoints := bt_insert ''NEP-1'' sample_endpoint bt_empty,
     notification_deliveries := bt_insert ''NDL-1'' sample_delivery bt_empty\<rparr>"

theorem dispatches_try_the_due_witness:
  "\<exists>m db' s'. dispatch_notifications (\<lambda>_. work_context)
      (\<lambda>_ _ _. \<lparr>attempt_delivered = False, attempt_response_status = Some 503, attempt_error = None, attempt_attempted_at = 7\<rparr>)
      7 10 False ''admin'' (SqliteStore bt_empty, ringing) = (Inr m, db', s') \<and>
    summary_attempted m = 1 \<and> summary_failed m = 1 \<and>
    (\<exists>d. bt_get (notification_deliveries s') ''NDL-1'' = Some d \<and> \<not> is_due 30000000000 False d)"
proof -
  let ?deliver = "\<lambda>_ _ _. \<lparr>attempt_delivered = False, attempt_response_status = Some 503, attempt_error = None,
    attempt_attempted_at = 7\<rparr>"
  let ?r = "dispatch_notifications (\<lambda>_. work_context) ?deliver 7 10 False ''admin'' (SqliteStore bt_empty, ringing)"
  have ok: "case fst ?r of Inl _ \<Rightarrow> False | Inr m \<Rightarrow> summary_attempted m = 1 \<and> summary_failed m = 1" by code_simp
  then obtain m db' s' where r: "?r = (Inr m, db', s')" by (cases ?r) (auto split: sum.splits)
  have keyed: "keyed delivery_id (notification_deliveries ringing)" by (simp add: ringing_def sample_delivery_def)
  from ok r have one: "summary_attempted m = 1" "summary_failed m = 1" by simp_all
  from dispatches_try_the_due [OF r keyed] obtain ps where n: "summary_attempted m = length ps"
    and each: "\<forall>j < length ps. \<forall>e d a. ps ! j = (e, d) \<longrightarrow> a = ?deliver j e d \<longrightarrow>
       bt_get (notification_deliveries ringing) (delivery_id d) = Some d \<and> is_due 7 False d \<and>
       bt_get (notification_endpoints ringing) (delivery_endpoint_id d) = Some e \<and> endpoint_active e \<and>
       bt_get (notification_deliveries s') (delivery_id d) = Some (outcome a d) \<and>
       (\<forall>t < attempt_attempted_at a + retry_delay (delivery_attempts d + 1). \<not> is_due t False (outcome a d))"
    by (elim exE conjE) (rule that)
  have "0 < length ps" using one n by simp
  moreover obtain e d where "ps ! 0 = (e, d)" by (cases "ps ! 0")
  ultimately have each: "bt_get (notification_deliveries ringing) (delivery_id d) = Some d"
    "bt_get (notification_deliveries s') (delivery_id d) = Some (outcome (?deliver 0 e d) d)"
    "\<And>t. t < 7 + retry_delay (delivery_attempts d + 1) \<Longrightarrow> \<not> is_due t False (outcome (?deliver 0 e d) d)"
    using each [rule_format, of 0 e d "?deliver 0 e d"] by simp_all
  from each(1) have d: "d = sample_delivery" by (auto simp: ringing_def split: if_splits)
  have "(30000000000::int) < 7 + retry_delay (delivery_attempts sample_delivery + 1)" by code_simp
  from each(3) [unfolded d, OF this] each(2) [unfolded d]
  have "\<exists>d. bt_get (notification_deliveries s') ''NDL-1'' = Some d \<and> \<not> is_due 30000000000 False d"
    by (auto simp: sample_delivery_def)
  with r one show ?thesis by blast
qed

end
