(* ===== verification/App_Office.thy ===== *)
theory App_Office
  imports App_Flow Flight_Rules
begin

text \<open>
  Office releases (\<open>src/application/app/office.rs\<close>): an agent's mail, meeting or upload is asked for, the
  human who asked for the flow releases it, and a dispatcher claims it, carries it out and reports what
  came of it. The hash and the JSON of a payload are functions of libraries.
\<close>

section \<open>Digests\<close>

record digests =
  sha256 :: "string \<Rightarrow> 8 word list"
  office_json :: "office_provider \<times> office_release_payload \<Rightarrow> string result"
  gitlab_json :: "gitlab_write_payload \<Rightarrow> string result"

definition byte_hex :: "8 word \<Rightarrow> string" where
  "byte_hex b = [''0123456789abcdef'' ! unat (b div 16), ''0123456789abcdef'' ! unat (b mod 16)]"

definition office_payload_sha256 :: "digests \<Rightarrow> office_provider \<Rightarrow> office_release_payload \<Rightarrow> string result" where
  "office_payload_sha256 d provider payload =
     and_then (office_json d (provider, payload)) (\<lambda>text. Inr (concat (map byte_hex (sha256 d text))))"

section \<open>What a payload must look like\<close>

definition required_text :: "string \<Rightarrow> string \<Rightarrow> nat \<Rightarrow> string result" where
  "required_text given label max_chars =
     and_then (validate_text given label max_chars) (\<lambda>_. Inr (str_trim given))"

text \<open>Control characters other than tabs and ends of lines.\<close>

definition has_unsafe_control :: "string \<Rightarrow> bool" where
  "has_unsafe_control v \<longleftrightarrow> has_control (filter (\<lambda>c. c \<notin> {CHR 0x09, CHR 0x0A, CHR 0x0D}) v)"

definition validate_office_body :: "string \<Rightarrow> string \<Rightarrow> nat \<Rightarrow> unit result" where
  "validate_office_body v label max_chars =
     (if str_trim v = [] \<or> max_chars < chars_count v \<or> has_unsafe_control v
      then Inl (relay_error.Validation
        (label @ '' must contain 1 to '' @ show_nat max_chars @ '' safe text characters''))
      else Inr ())"

text \<open>An address has one at sign, something on both sides of it and no white space.\<close>

definition is_address :: "string \<Rightarrow> bool" where
  "is_address v \<longleftrightarrow>
     (case split_on (CHR ''@'') v of [a, b] \<Rightarrow> a \<noteq> [] \<and> b \<noteq> [] \<and> \<not> list_ex (contains v) whitespace | _ \<Rightarrow> False)"

definition validate_addresses :: "string list \<Rightarrow> string \<Rightarrow> bool \<Rightarrow> unit result" where
  "validate_addresses values label required =
     (if required \<and> values = []
      then Inl (relay_error.Validation (label @ '' requires at least one address''))
      else
        and_then (try_map (\<lambda>given.
            and_then (required_text given label 320) (\<lambda>v.
              if is_address v then Inr () else Inl (relay_error.Validation (''invalid '' @ label @ '': '' @ v)))) values)
          (\<lambda>_. Inr ()))"

definition validate_optional :: "string option \<Rightarrow> string \<Rightarrow> nat \<Rightarrow> unit result" where
  "validate_optional v label max_chars = (case v of None \<Rightarrow> Inr () | Some v \<Rightarrow> validate_text v label max_chars)"

text \<open>An uploaded artifact was staged for the task by a flight that has landed.\<close>

definition validate_upload :: "org_state \<Rightarrow> string \<Rightarrow> string \<Rightarrow> unit result" where
  "validate_upload s tid aid =
     and_then (found ''staged artifact'' aid (bt_get (staged_artifacts s) aid)) (\<lambda>a.
       if staged_task_id a \<noteq> tid
       then Inl (relay_error.Validation ''Office release artifact belongs to another task'')
       else
         and_then (found ''flight lease'' (staged_flight_lease_id a)
             (bt_get (flight_leases s) (staged_flight_lease_id a))) (\<lambda>l.
           if lease_status l \<noteq> Landed
           then Inl (InvalidTransition ''Office artifact can only be released after its flight landed'')
           else Inr ()))"

fun validate_office_payload ::
    "org_state \<Rightarrow> string \<Rightarrow> office_provider \<Rightarrow> office_release_payload \<Rightarrow> unit result" where
  "validate_office_payload s tid provider (DriveUpload aid account parent file file_id) =
     and_then (validate_text account ''Office account'' 200) (\<lambda>_.
     and_then (validate_text parent ''drive parent'' 500) (\<lambda>_.
     and_then (required_text file ''drive file name'' 200) (\<lambda>name.
       if contains name ''/'' \<or> contains name [CHR 0x5C] \<or> name = ''.'' \<or> name = ''..''
       then Inl (relay_error.Validation ''drive file name must not contain path separators'')
       else
         and_then (validate_optional file_id ''drive file ID'' 500) (\<lambda>_.
           if provider = Microsoft365 \<and> file_id \<noteq> None
           then Inl (relay_error.Validation
             ''Microsoft 365 drive uploads target the approved parent and file name'')
           else validate_upload s tid aid))))"
| "validate_office_payload s tid provider (SendEmail account to cc bcc subject body body_type) =
     and_then (validate_text account ''Office account'' 200) (\<lambda>_.
     and_then (validate_addresses to ''email recipient'' True) (\<lambda>_.
     and_then (validate_addresses cc ''email CC'' False) (\<lambda>_.
     and_then (validate_addresses bcc ''email BCC'' False) (\<lambda>_.
     and_then (validate_text subject ''email subject'' 500) (\<lambda>_.
     and_then (validate_office_body body ''email body'' 100000) (\<lambda>_.
       if 100 < length to + length cc + length bcc
       then Inl (relay_error.Validation ''email release cannot contain more than 100 recipients'')
       else Inr ()))))))"
| "validate_office_payload s tid provider
      (CreateCalendarEvent account calendar subject body body_type starts ends time_zone attendees location updates) =
     and_then (validate_text account ''Office account'' 200) (\<lambda>_.
     and_then (validate_text calendar ''calendar ID'' 500) (\<lambda>_.
     and_then (validate_text subject ''calendar subject'' 500) (\<lambda>_.
     and_then (validate_office_body body ''calendar body'' 100000) (\<lambda>_.
     and_then (validate_text time_zone ''calendar time zone'' 100) (\<lambda>_.
       if ends \<le> starts \<or> 31 * 86400 * 1000000000 < ends - starts
       then Inl (relay_error.Validation
         ''calendar event must end after it starts and last at most 31 days'')
       else
         and_then (validate_addresses attendees ''calendar attendee'' False) (\<lambda>_.
           if 100 < length attendees
           then Inl (relay_error.Validation ''calendar release cannot contain more than 100 attendees'')
           else validate_optional location ''calendar location'' 500))))))"

section \<open>Asking\<close>

definition reviewable_status :: "task \<Rightarrow> unit result" where
  "reviewable_status t =
     (if task_status t \<in> {InProgress, Submitted} then Inr ()
      else Inl (InvalidTransition (''task '' @ task_id t @ '' is '' @ debug_task_status (task_status t) @
        '', expected in_progress or submitted'')))"

definition check_office_request ::
    "digests \<Rightarrow> org_state \<Rightarrow> string \<Rightarrow> office_provider \<Rightarrow> office_release_payload \<Rightarrow> string
      \<Rightarrow> (principal \<times> flow \<times> task \<times> string) result" where
  "check_office_request d s tid provider payload actor =
     and_then (get_principal s actor) (\<lambda>p.
     and_then (task_snapshot s tid) (\<lambda>(f, t).
     and_then (reviewable_status t) (\<lambda>_.
     and_then (ensure_task_actor s t (principal_id p)) (\<lambda>_.
     and_then (validate_office_payload s (task_id t) provider payload) (\<lambda>_.
     and_then (office_payload_sha256 d provider payload) (\<lambda>digest. Inr (p, f, t, digest)))))))"

definition earlier_release :: "org_state \<Rightarrow> task \<Rightarrow> principal \<Rightarrow> string \<Rightarrow> office_release_request option" where
  "earlier_release s t p digest =
     List.find (\<lambda>r. release_task_id r = task_id t \<and> release_requested_by r = principal_id p
         \<and> release_payload_sha256 r = digest \<and> release_status r \<noteq> office_release_status.Rejected)
       (bt_values (office_releases s))"

definition new_release ::
    "call_context \<Rightarrow> office_provider \<Rightarrow> office_release_payload \<Rightarrow> principal \<Rightarrow> flow \<Rightarrow> task \<Rightarrow> string
      \<Rightarrow> office_release_request" where
  "new_release ctx provider payload p f t digest =
     \<lparr>release_id = new_id ''REL'' (ctx_uuid ctx 0), release_flow_id = flow_id f, release_task_id = task_id t,
      release_provider = provider, release_payload = payload, release_payload_sha256 = digest,
      release_requested_by = principal_id p, release_requested_at = ctx_clock ctx 0,
      release_status = office_release_status.Requested, release_reviewed_by = None, release_reviewed_at = None,
      release_review_reason = None, release_dispatch_id = None, release_dispatch_started_at = None,
      release_result = None, release_last_error = None\<rparr>"

text \<open>Asking again for what was not rejected answers with the request there is, and commits nothing.\<close>

definition request_office_release ::
    "call_context \<Rightarrow> digests \<Rightarrow> string \<Rightarrow> office_provider \<Rightarrow> office_release_payload \<Rightarrow> string
      \<Rightarrow> office_release_request command" where
  "request_office_release ctx d tid provider payload actor = (\<lambda>(db, s).
     (case check_office_request d s tid provider payload actor of
        Inl err \<Rightarrow> (Inl err, db, s)
      | Inr (p, f, t, digest) \<Rightarrow>
          (case earlier_release s t p digest of
             Some r \<Rightarrow> (Inr r, db, s)
           | None \<Rightarrow>
               (let r = new_release ctx provider payload p f t digest in
                perform ctx (\<lambda>_. Inr (principal_name p, [OfficeEvent (OfficeReleaseRequested r)], r))
                  answer_with (db, s)))))"

definition flow_access :: "org_state \<Rightarrow> principal \<Rightarrow> string option \<Rightarrow> unit result" where
  "flow_access s p fid =
     (case fid of
        None \<Rightarrow> Inr ()
      | Some fid \<Rightarrow>
          and_then (get_flow s fid) (\<lambda>f.
            if \<not> principal_has_flow_access s f p
            then Inl (PermissionDenied (principal_name p @ '' cannot access flow '' @ flow_id f))
            else Inr ()))"

definition in_open_flow :: "org_state \<Rightarrow> principal \<Rightarrow> string option \<Rightarrow> string \<Rightarrow> bool" where
  "in_open_flow s p wanted fid \<longleftrightarrow>
     (case wanted of None \<Rightarrow> True | Some w \<Rightarrow> fid = w)
     \<and> (case bt_get (flows s) fid of None \<Rightarrow> False | Some f \<Rightarrow> principal_has_flow_access s f p)"

definition list_office_releases :: "org_state \<Rightarrow> string \<Rightarrow> string option \<Rightarrow> office_release_request list result" where
  "list_office_releases s actor fid =
     and_then (get_principal s actor) (\<lambda>p.
     and_then (flow_access s p fid) (\<lambda>_.
       Inr (sort_key release_requested_at
         (filter (\<lambda>r. in_open_flow s p fid (release_flow_id r)) (bt_values (office_releases s))))))"

section \<open>Reviewing\<close>

definition find_release :: "string \<Rightarrow> org_state \<Rightarrow> office_release_request result" where
  "find_release rid s = found ''Office release'' rid (bt_get (office_releases s) rid)"

text \<open>Only the active human who asked for the flow reviews what its tasks send out.\<close>

definition is_reviewer :: "flow \<Rightarrow> principal \<Rightarrow> bool" where
  "is_reviewer f p \<longleftrightarrow> principal_kind p = principal_kind.Human \<and> principal_active p \<and>
     (demand_requester (flow_demand f) = principal_id p \<or> demand_requester (flow_demand f) = principal_name p)"

definition release_review_context ::
    "string \<Rightarrow> string \<Rightarrow> org_state \<Rightarrow> (office_release_request \<times> principal) result" where
  "release_review_context rid actor s =
     and_then (find_release rid s) (\<lambda>r.
     and_then (get_principal s actor) (\<lambda>p.
     and_then (get_flow s (release_flow_id r)) (\<lambda>f.
       if \<not> is_reviewer f p
       then Inl (PermissionDenied ''only the Human Demand Requester can release Office side effects'')
       else Inr (r, p))))"

definition review_release ::
    "call_context \<Rightarrow> (office_release_request \<Rightarrow> principal \<Rightarrow> office_event) \<Rightarrow> string \<Rightarrow> string
      \<Rightarrow> office_release_request command" where
  "review_release ctx event rid actor =
     perform ctx
       (\<lambda>s. and_then (release_review_context rid actor s) (\<lambda>(r, p).
          Inr (principal_name p, [OfficeEvent (event r p)], rid)))
       find_release"

definition approve_office_release :: "call_context \<Rightarrow> string \<Rightarrow> string \<Rightarrow> office_release_request command" where
  "approve_office_release ctx rid actor =
     review_release ctx (\<lambda>r p. OfficeReleaseApproved (release_flow_id r) (release_task_id r) (release_id r)
       (principal_id p) (ctx_clock ctx 0)) rid actor"

definition reject_office_release ::
    "call_context \<Rightarrow> string \<Rightarrow> string \<Rightarrow> string \<Rightarrow> office_release_request command" where
  "reject_office_release ctx rid given actor = (\<lambda>(db, s).
     (case required_text given ''release rejection reason'' 500 of
        Inl err \<Rightarrow> (Inl err, db, s)
      | Inr reason \<Rightarrow>
          review_release ctx (\<lambda>r p. OfficeReleaseRejected (release_flow_id r) (release_task_id r) (release_id r)
            (principal_id p) reason (ctx_clock ctx 0)) rid actor (db, s)))"

definition retry_office_release :: "call_context \<Rightarrow> string \<Rightarrow> string \<Rightarrow> office_release_request command" where
  "retry_office_release ctx rid actor =
     review_release ctx (\<lambda>r p. OfficeReleaseRetryApproved (release_flow_id r) (release_task_id r) (release_id r)
       (principal_id p) (ctx_clock ctx 0)) rid actor"

section \<open>Dispatching\<close>

definition refresh_command :: "call_context \<Rightarrow> unit command" where
  "refresh_command ctx = (\<lambda>(db, s).
     (case refresh_shared_state (ctx_library ctx) db s of (r, s') \<Rightarrow> (r, db, s')))"

definition is_stale_dispatch :: "instant \<Rightarrow> int \<Rightarrow> instant option \<Rightarrow> bool" where
  "is_stale_dispatch now stale_after started \<longleftrightarrow>
     (case started of None \<Rightarrow> False | Some at \<Rightarrow> at + stale_after \<le> now)"

definition stale_releases :: "org_state \<Rightarrow> instant \<Rightarrow> int \<Rightarrow> office_release_request list" where
  "stale_releases s now stale_after =
     filter (\<lambda>r. is_stale_dispatch now stale_after (release_dispatch_started_at r))
       (filter (\<lambda>r. release_status r = office_release_status.Dispatching) (bt_values (office_releases s)))"

text \<open>A release that is being dispatched has the identifier of its dispatch; the code panics otherwise.\<close>

definition release_expiry :: "instant \<Rightarrow> office_release_request \<Rightarrow> domain_event" where
  "release_expiry now r =
     OfficeEvent (OfficeReleaseDispatchExpired (release_flow_id r) (release_task_id r) (release_id r)
       (the (release_dispatch_id r)) (retry_safe (release_payload r) (release_provider r)) now)"

definition recover_stale_office_dispatches :: "call_context \<Rightarrow> instant \<Rightarrow> int \<Rightarrow> nat command" where
  "recover_stale_office_dispatches ctx now stale_after = (\<lambda>(db, s).
     (let stale = stale_releases s now stale_after in
      if stale = [] then (Inr 0, db, s)
      else perform ctx
        (\<lambda>_. Inr (''tower://office-recovery'', map (release_expiry now) stale, length stale)) answer_with (db, s)))"

definition reviewed_time :: "instant option \<Rightarrow> instant \<Rightarrow> instant" where
  "reviewed_time reviewed asked = (case reviewed of Some at \<Rightarrow> at | None \<Rightarrow> asked)"

definition next_release :: "org_state \<Rightarrow> office_release_request option" where
  "next_release s =
     min_by_key (\<lambda>r. reviewed_time (release_reviewed_at r) (release_requested_at r))
       (filter (\<lambda>r. release_status r = office_release_status.Approved) (bt_values (office_releases s)))"

definition take_next_release :: "call_context \<Rightarrow> office_release_request option command" where
  "take_next_release ctx = (\<lambda>(db, s).
     (case next_release s of
        None \<Rightarrow> (Inr None, db, s)
      | Some r \<Rightarrow>
          perform ctx
            (\<lambda>_. Inr (''tower://office'',
              [OfficeEvent (OfficeReleaseDispatchClaimed (release_flow_id r) (release_task_id r) (release_id r)
                (new_id ''DSP'' (ctx_uuid ctx 0)) (ctx_clock ctx 1))], release_id r))
            (\<lambda>rid s. and_then (find_release rid s) (\<lambda>r. Inr (Some r))) (db, s)))"

text \<open>Five minutes after it began a dispatch is taken for dead. The recovery commits on its own.\<close>

definition claim_office_release :: "call_context \<Rightarrow> call_context \<Rightarrow> office_release_request option command" where
  "claim_office_release recovery ctx =
     cmd_then (refresh_command ctx) (\<lambda>_.
     cmd_then (recover_stale_office_dispatches recovery (ctx_clock ctx 0) (300 * 1000000000)) (\<lambda>_.
       take_next_release ctx))"

text \<open>A failure comes with its error and whether it is unclear what has happened.\<close>

definition release_outcome ::
    "instant \<Rightarrow> office_release_request \<Rightarrow> string \<Rightarrow> (string \<times> bool) + office_release_result \<Rightarrow> domain_event result" where
  "release_outcome now r did outcome =
     (case outcome of
        Inr res \<Rightarrow>
          Inr (OfficeEvent (OfficeReleaseSucceeded (release_flow_id r) (release_task_id r) (release_id r) did res))
      | Inl (err, indeterminate) \<Rightarrow>
          and_then (required_text err ''Office dispatch error'' 2000) (\<lambda>err.
            Inr (OfficeEvent (OfficeReleaseFailed (release_flow_id r) (release_task_id r) (release_id r) did err
              indeterminate now))))"

definition finish_office_release ::
    "call_context \<Rightarrow> string \<Rightarrow> string \<Rightarrow> (string \<times> bool) + office_release_result \<Rightarrow> office_release_request command" where
  "finish_office_release ctx rid did outcome =
     perform ctx
       (\<lambda>s. and_then (find_release rid s) (\<lambda>r.
          and_then (release_outcome (ctx_clock ctx 0) r did outcome) (\<lambda>e. Inr (''tower://office'', [e], rid))))
       find_release"

end
