(* ===== verification/App_GitLab.thy ===== *)
theory App_GitLab
  imports App_Office
begin

text \<open>
  GitLab writes (\<open>src/application/app/gitlab_writes.rs\<close>): issues, merge requests and comments go out the
  way Office releases do, reviewed by the human who asked for the flow, and what was written becomes an
  external artifact of the task. What the URL library reads in a URL is a parameter.
\<close>

section \<open>What a payload must look like\<close>

definition validate_gitlab_body :: "string \<Rightarrow> string \<Rightarrow> nat \<Rightarrow> bool \<Rightarrow> unit result" where
  "validate_gitlab_body v label max_chars allow_empty =
     (if \<not> allow_empty \<and> str_trim v = [] \<or> max_chars < chars_count v \<or> has_unsafe_control v
      then Inl (relay_error.Validation
        (label @ '' must contain at most '' @ show_nat max_chars @ '' safe text characters''))
      else Inr ())"

definition parse_u64 :: "string \<Rightarrow> nat option" where
  "parse_u64 v =
     (let digits = (case v of c # cs \<Rightarrow> if c = CHR ''+'' then cs else v | [] \<Rightarrow> []) in
      if digits = [] \<or> \<not> list_all ascii_digit digits \<or> 2 ^ 64 \<le> digits_value digits
      then None else Some (digits_value digits))"

definition is_project_path :: "string \<Rightarrow> bool" where
  "is_project_path v \<longleftrightarrow> contains v ''/'' \<and>
     list_all (\<lambda>part. part \<noteq> [] \<and> part \<noteq> ''.'' \<and> part \<noteq> ''..'' \<and>
         list_all (\<lambda>c. ascii_alphanumeric c \<or> c = CHR ''-'' \<or> c = CHR ''_'' \<or> c = CHR ''.'') part)
       (split_on (CHR ''/'') v)"

definition validate_gitlab_project :: "string \<Rightarrow> unit result" where
  "validate_gitlab_project given =
     (let v = str_trim given;
          numeric = (case parse_u64 v of None \<Rightarrow> False | Some n \<Rightarrow> 0 < n) in
      if 500 < length v \<or> v \<noteq> str_trim v \<or> \<not> numeric \<and> \<not> is_project_path v
      then Inl (relay_error.Validation ''GitLab project must be a numeric ID or namespace/project path'')
      else Inr ())"

definition validate_iid :: "u64 \<Rightarrow> string \<Rightarrow> unit result" where
  "validate_iid v label =
     (if v = 0
      then Inl (relay_error.Validation (''GitLab '' @ label @ '' IID must be greater than zero''))
      else Inr ())"

definition ends_with :: "string \<Rightarrow> string \<Rightarrow> bool" where
  "ends_with v p \<longleftrightarrow> starts_with (rev v) (rev p)"

definition validate_gitlab_branch :: "string \<Rightarrow> string \<Rightarrow> unit result" where
  "validate_gitlab_branch v label =
     (if v = [] \<or> 255 < length v \<or> starts_with v ''-'' \<or> ends_with v ''/'' \<or> ends_with v ''.''
         \<or> ends_with v ''.lock'' \<or> contains v ''..'' \<or> contains v [CHR ''@'', CHR 0x7B]
         \<or> has_control v \<or> list_ex (contains v) whitespace
      then Inl (relay_error.Validation (''invalid GitLab '' @ label)) else Inr ())"

definition validate_labels :: "string list \<Rightarrow> unit result" where
  "validate_labels labels =
     (if 50 < length labels
      then Inl (relay_error.Validation ''GitLab write cannot contain more than 50 labels'')
      else
        and_then (try_map (\<lambda>label.
            and_then (validate_text label ''GitLab label'' 255) (\<lambda>_.
              if contains label '',''
              then Inl (relay_error.Validation ''GitLab labels must not contain commas'') else Inr ())) labels)
          (\<lambda>_. Inr ()))"

fun validate_gitlab_action :: "gitlab_write_payload \<Rightarrow> unit result" where
  "validate_gitlab_action (CreateIssue project title description labels) =
     and_then (validate_text title ''GitLab issue title'' 255) (\<lambda>_.
     and_then (validate_gitlab_body description ''GitLab issue description'' 1000000 True) (\<lambda>_.
       validate_labels labels))"
| "validate_gitlab_action (CommentIssue project iid body) =
     and_then (validate_iid iid ''issue'') (\<lambda>_.
       validate_gitlab_body body ''GitLab issue comment'' 1000000 False)"
| "validate_gitlab_action (CreateMergeRequest project source_branch target_branch title description labels remove draft) =
     and_then (validate_gitlab_branch source_branch ''source branch'') (\<lambda>_.
     and_then (validate_gitlab_branch target_branch ''target branch'') (\<lambda>_.
       if source_branch = target_branch
       then Inl (relay_error.Validation ''GitLab source and target branches must differ'')
       else
         and_then (validate_text title ''GitLab merge request title'' 255) (\<lambda>_.
         and_then (validate_gitlab_body description ''GitLab merge request description'' 1000000 True) (\<lambda>_.
           validate_labels labels))))"
| "validate_gitlab_action (CommentMergeRequest project iid body) =
     and_then (validate_iid iid ''merge request'') (\<lambda>_.
       validate_gitlab_body body ''GitLab merge request comment'' 1000000 False)"

definition validate_gitlab_payload :: "gitlab_write_payload \<Rightarrow> unit result" where
  "validate_gitlab_payload payload =
     and_then (validate_gitlab_project (gitlab_payload_project payload)) (\<lambda>_. validate_gitlab_action payload)"

text \<open>The scheme of a URL and its host, or nothing when it is not one.\<close>

type_synonym url_reader = "string \<Rightarrow> (string \<times> string option) option"

fun expected_kind :: "gitlab_write_payload \<Rightarrow> string" where
  "expected_kind (CreateIssue _ _ _ _) = ''issue''"
| "expected_kind (CommentIssue _ _ _) = ''issue_note''"
| "expected_kind (CreateMergeRequest _ _ _ _ _ _ _ _) = ''merge_request''"
| "expected_kind (CommentMergeRequest _ _ _) = ''merge_request_note''"

definition validate_gitlab_result ::
    "url_reader \<Rightarrow> gitlab_write_request \<Rightarrow> gitlab_write_result \<Rightarrow> unit result" where
  "validate_gitlab_result read_url r res =
     (if write_result_kind res \<noteq> expected_kind (write_payload r)
      then Inl (relay_error.Validation (''GitLab write result kind '' @ write_result_kind res @
        '' does not match '' @ expected_kind (write_payload r)))
      else
        and_then (validate_text (write_result_external_id res) ''GitLab result external ID'' 500) (\<lambda>_.
        and_then (validate_text (write_result_title res) ''GitLab result title'' 1000) (\<lambda>_.
        and_then (validate_text (write_result_status res) ''GitLab result status'' 100) (\<lambda>_.
          if \<not> (200 \<le> write_result_response_status res \<and> write_result_response_status res < 300)
          then Inl (relay_error.Validation ''GitLab successful result must contain a 2xx response status'')
          else
            (case read_url (write_result_url res) of
               None \<Rightarrow> Inl (relay_error.Validation ''GitLab result URL is invalid'')
             | Some (scheme, host) \<Rightarrow>
                 if scheme \<notin> {''http'', ''https''} \<or> host = None
                 then Inl (relay_error.Validation ''GitLab result URL must be an absolute HTTP(S) URL'')
                 else Inr ())))))"

section \<open>Asking\<close>

definition gitlab_payload_sha256 :: "digests \<Rightarrow> gitlab_write_payload \<Rightarrow> string result" where
  "gitlab_payload_sha256 d payload =
     and_then (gitlab_json d payload) (\<lambda>text. Inr (concat (map byte_hex (sha256 d text))))"

definition check_gitlab_request ::
    "digests \<Rightarrow> org_state \<Rightarrow> string \<Rightarrow> gitlab_write_payload \<Rightarrow> string
      \<Rightarrow> (principal \<times> flow \<times> task \<times> string) result" where
  "check_gitlab_request d s tid payload actor =
     and_then (get_principal s actor) (\<lambda>p.
     and_then (task_snapshot s tid) (\<lambda>(f, t).
     and_then (reviewable_status t) (\<lambda>_.
     and_then (ensure_task_actor s t (principal_id p)) (\<lambda>_.
     and_then (validate_gitlab_payload payload) (\<lambda>_.
     and_then (gitlab_payload_sha256 d payload) (\<lambda>digest. Inr (p, f, t, digest)))))))"

definition earlier_write :: "org_state \<Rightarrow> task \<Rightarrow> principal \<Rightarrow> string \<Rightarrow> gitlab_write_request option" where
  "earlier_write s t p digest =
     List.find (\<lambda>r. write_task_id r = task_id t \<and> write_requested_by r = principal_id p
         \<and> write_payload_sha256 r = digest \<and> write_status r \<noteq> gitlab_write_status.Rejected)
       (bt_values (gitlab_writes s))"

definition new_write ::
    "call_context \<Rightarrow> gitlab_write_payload \<Rightarrow> principal \<Rightarrow> flow \<Rightarrow> task \<Rightarrow> string \<Rightarrow> gitlab_write_request" where
  "new_write ctx payload p f t digest =
     \<lparr>write_id = new_id ''GLW'' (ctx_uuid ctx 0), write_flow_id = flow_id f, write_task_id = task_id t,
      write_payload = payload, write_payload_sha256 = digest, write_requested_by = principal_id p,
      write_requested_at = ctx_clock ctx 0, write_status = gitlab_write_status.Requested,
      write_reviewed_by = None, write_reviewed_at = None, write_review_reason = None,
      write_dispatch_id = None, write_dispatch_started_at = None, write_result = None,
      write_last_error = None\<rparr>"

definition request_gitlab_write ::
    "call_context \<Rightarrow> digests \<Rightarrow> string \<Rightarrow> gitlab_write_payload \<Rightarrow> string \<Rightarrow> gitlab_write_request command" where
  "request_gitlab_write ctx d tid payload actor = (\<lambda>(db, s).
     (case check_gitlab_request d s tid payload actor of
        Inl err \<Rightarrow> (Inl err, db, s)
      | Inr (p, f, t, digest) \<Rightarrow>
          (case earlier_write s t p digest of
             Some r \<Rightarrow> (Inr r, db, s)
           | None \<Rightarrow>
               (let r = new_write ctx payload p f t digest in
                perform ctx (\<lambda>_. Inr (principal_name p, [GitLabEvent (GitLabWriteRequested r)], r))
                  answer_with (db, s)))))"

definition list_gitlab_writes :: "org_state \<Rightarrow> string \<Rightarrow> string option \<Rightarrow> gitlab_write_request list result" where
  "list_gitlab_writes s actor fid =
     and_then (get_principal s actor) (\<lambda>p.
     and_then (flow_access s p fid) (\<lambda>_.
       Inr (sort_key write_requested_at
         (filter (\<lambda>r. in_open_flow s p fid (write_flow_id r)) (bt_values (gitlab_writes s))))))"

section \<open>Reviewing\<close>

definition find_write :: "string \<Rightarrow> org_state \<Rightarrow> gitlab_write_request result" where
  "find_write wid s = found ''GitLab write'' wid (bt_get (gitlab_writes s) wid)"

definition gitlab_review_context :: "string \<Rightarrow> string \<Rightarrow> org_state \<Rightarrow> (gitlab_write_request \<times> principal) result" where
  "gitlab_review_context wid actor s =
     and_then (find_write wid s) (\<lambda>r.
     and_then (get_principal s actor) (\<lambda>p.
     and_then (get_flow s (write_flow_id r)) (\<lambda>f.
       if \<not> is_reviewer f p
       then Inl (PermissionDenied ''only the Human Demand Requester can release GitLab writes'')
       else Inr (r, p))))"

definition write_awaits :: "gitlab_write_status list \<Rightarrow> string \<Rightarrow> gitlab_write_request \<Rightarrow> unit result" where
  "write_awaits allowed label r =
     (if write_status r \<in> set allowed then Inr ()
      else Inl (InvalidTransition (''GitLab write '' @ write_id r @ '' is '' @
        debug_gitlab_write_status (write_status r) @ '', expected '' @ label)))"

definition review_write ::
    "call_context \<Rightarrow> gitlab_write_status list \<Rightarrow> string \<Rightarrow> (gitlab_write_request \<Rightarrow> principal \<Rightarrow> gitlab_event)
      \<Rightarrow> string \<Rightarrow> string \<Rightarrow> gitlab_write_request command" where
  "review_write ctx allowed label event wid actor =
     perform ctx
       (\<lambda>s. and_then (gitlab_review_context wid actor s) (\<lambda>(r, p).
          and_then (write_awaits allowed label r) (\<lambda>_.
            Inr (principal_name p, [GitLabEvent (event r p)], wid))))
       find_write"

definition approve_gitlab_write :: "call_context \<Rightarrow> string \<Rightarrow> string \<Rightarrow> gitlab_write_request command" where
  "approve_gitlab_write ctx wid actor =
     review_write ctx [gitlab_write_status.Requested] ''requested''
       (\<lambda>r p. GitLabWriteApproved (write_flow_id r) (write_task_id r) (write_id r) (principal_id p) (ctx_clock ctx 0))
       wid actor"

definition reject_gitlab_write ::
    "call_context \<Rightarrow> string \<Rightarrow> string \<Rightarrow> string \<Rightarrow> gitlab_write_request command" where
  "reject_gitlab_write ctx wid given actor = (\<lambda>(db, s).
     (case required_text given ''GitLab rejection reason'' 500 of
        Inl err \<Rightarrow> (Inl err, db, s)
      | Inr reason \<Rightarrow>
          review_write ctx [gitlab_write_status.Requested] ''requested''
            (\<lambda>r p. GitLabWriteRejected (write_flow_id r) (write_task_id r) (write_id r) (principal_id p) reason
               (ctx_clock ctx 0)) wid actor (db, s)))"

definition retry_gitlab_write :: "call_context \<Rightarrow> string \<Rightarrow> string \<Rightarrow> gitlab_write_request command" where
  "retry_gitlab_write ctx wid actor =
     review_write ctx [gitlab_write_status.Failed, gitlab_write_status.Indeterminate] ''failed or indeterminate''
       (\<lambda>r p. GitLabWriteRetryApproved (write_flow_id r) (write_task_id r) (write_id r) (principal_id p) (ctx_clock ctx 0))
       wid actor"

section \<open>Dispatching\<close>

definition stale_writes :: "org_state \<Rightarrow> instant \<Rightarrow> int \<Rightarrow> gitlab_write_request list" where
  "stale_writes s now stale_after =
     filter (\<lambda>r. is_stale_dispatch now stale_after (write_dispatch_started_at r))
       (filter (\<lambda>r. write_status r = gitlab_write_status.Dispatching) (bt_values (gitlab_writes s)))"

definition write_expiry :: "instant \<Rightarrow> gitlab_write_request \<Rightarrow> domain_event" where
  "write_expiry now r =
     GitLabEvent (GitLabWriteDispatchExpired (write_flow_id r) (write_task_id r) (write_id r)
       (the (write_dispatch_id r)) now)"

definition recover_stale_gitlab_writes :: "call_context \<Rightarrow> instant \<Rightarrow> int \<Rightarrow> nat command" where
  "recover_stale_gitlab_writes ctx now stale_after = (\<lambda>(db, s).
     (let stale = stale_writes s now stale_after in
      if stale = [] then (Inr 0, db, s)
      else perform ctx
        (\<lambda>_. Inr (''tower://gitlab-recovery'', map (write_expiry now) stale, length stale)) answer_with (db, s)))"

definition next_write :: "org_state \<Rightarrow> gitlab_write_request option" where
  "next_write s =
     min_by_key (\<lambda>r. reviewed_time (write_reviewed_at r) (write_requested_at r))
       (filter (\<lambda>r. write_status r = gitlab_write_status.Approved) (bt_values (gitlab_writes s)))"

definition take_next_write :: "call_context \<Rightarrow> gitlab_write_request option command" where
  "take_next_write ctx = (\<lambda>(db, s).
     (case next_write s of
        None \<Rightarrow> (Inr None, db, s)
      | Some r \<Rightarrow>
          perform ctx
            (\<lambda>_. Inr (''tower://gitlab'',
              [GitLabEvent (GitLabWriteDispatchClaimed (write_flow_id r) (write_task_id r) (write_id r)
                (new_id ''DSP'' (ctx_uuid ctx 0)) (ctx_clock ctx 1))], write_id r))
            (\<lambda>wid s. and_then (find_write wid s) (\<lambda>r. Inr (Some r))) (db, s)))"

definition claim_gitlab_write :: "call_context \<Rightarrow> call_context \<Rightarrow> gitlab_write_request option command" where
  "claim_gitlab_write recovery ctx =
     cmd_then (refresh_command ctx) (\<lambda>_.
     cmd_then (recover_stale_gitlab_writes recovery (ctx_clock ctx 0) (300 * 1000000000)) (\<lambda>_.
       take_next_write ctx))"

definition gitlab_artifact_id :: "digests \<Rightarrow> string \<Rightarrow> string \<Rightarrow> string \<Rightarrow> string" where
  "gitlab_artifact_id d k project ext =
     ''EXT-'' @ concat (map byte_hex (take 8 (sha256 d (''gitlab:'' @ k @ '':'' @ project @ '':'' @ ext))))"

definition result_artifact :: "digests \<Rightarrow> gitlab_write_request \<Rightarrow> gitlab_write_result \<Rightarrow> external_artifact" where
  "result_artifact d r res =
     \<lparr>artifact_id = gitlab_artifact_id d (write_result_kind res) (gitlab_payload_project (write_payload r))
        (write_result_external_id res),
      artifact_provider = ''gitlab'', artifact_kind = write_result_kind res,
      artifact_project = gitlab_payload_project (write_payload r),
      artifact_external_id = write_result_external_id res, artifact_parent_id = None,
      artifact_title = write_result_title res, artifact_url = write_result_url res,
      artifact_status = write_result_status res, artifact_revision = None, artifact_verified = False,
      artifact_synced_at = write_result_written_at res\<rparr>"

definition write_outcome ::
    "digests \<Rightarrow> url_reader \<Rightarrow> instant \<Rightarrow> gitlab_write_request \<Rightarrow> string \<Rightarrow> (string \<times> bool) + gitlab_write_result
      \<Rightarrow> domain_event list result" where
  "write_outcome d read_url now r did outcome =
     (case outcome of
        Inr res \<Rightarrow>
          and_then (validate_gitlab_result read_url r res) (\<lambda>_.
            Inr [GitLabEvent (GitLabWriteSucceeded (write_flow_id r) (write_task_id r) (write_id r) did res),
                 TaskEvent (ExternalArtifactSynced (write_flow_id r) (write_task_id r) (result_artifact d r res))])
      | Inl (err, indeterminate) \<Rightarrow>
          and_then (required_text err ''GitLab dispatch error'' 2000) (\<lambda>err.
            Inr [GitLabEvent (GitLabWriteFailed (write_flow_id r) (write_task_id r) (write_id r) did err
              indeterminate now)]))"

definition finish_gitlab_write ::
    "call_context \<Rightarrow> digests \<Rightarrow> url_reader \<Rightarrow> string \<Rightarrow> string \<Rightarrow> (string \<times> bool) + gitlab_write_result
      \<Rightarrow> gitlab_write_request command" where
  "finish_gitlab_write ctx d read_url wid did outcome =
     perform ctx
       (\<lambda>s. and_then (find_write wid s) (\<lambda>r.
          and_then (write_outcome d read_url (ctx_clock ctx 0) r did outcome) (\<lambda>es. Inr (''tower://gitlab'', es, wid))))
       find_write"

end
