(* ===== verification/Review_Facts.thy ===== *)
theory Review_Facts
  imports App_GitLab
begin

text \<open>
  What the commands around reviewed side effects do: who reviews, what a review makes of a request, and
  that a dispatch belongs to whoever claimed it.
\<close>

section \<open>Refusals of the projection\<close>

lemma projection_refuses:
  assumes "decide s = Inr (author, es, x)" and "apply_events s es = Inl err"
  shows "\<exists>err. perform ctx decide answer (db, s) = (Inl err, db, s)"
proof -
  have "\<exists>err. commit_events ctx author es (db, s) = (Inl err, db, s)"
  proof (cases "get_organization s")
    case (Inr org)
    have "\<not> (\<exists>envs u. and_then (queue_events (ctx_library ctx) (ctx_environment ctx) s (organization_id org) author es) (\<lambda>queued.
        and_then (prepare_batch (ctx_environment ctx) (last_sequence s) (organization_id org) author (es @ queued)) (\<lambda>envs.
        and_then (apply_all s envs) (\<lambda>projected. Inr (envs, projected)))) = Inr (envs, u))"
    proof
      assume "\<exists>envs u. and_then (queue_events (ctx_library ctx) (ctx_environment ctx) s (organization_id org) author es) (\<lambda>queued.
        and_then (prepare_batch (ctx_environment ctx) (last_sequence s) (organization_id org) author (es @ queued)) (\<lambda>envs.
        and_then (apply_all s envs) (\<lambda>projected. Inr (envs, projected)))) = Inr (envs, u)"
      then obtain queued envs u where
          batch: "prepare_batch (ctx_environment ctx) (last_sequence s) (organization_id org) author (es @ queued) = Inr envs"
        and run: "apply_all s envs = Inr u" by auto
      from apply_all_events [OF run] prepare_batch_Inr(1) [OF batch] assms(2) show False
        by (simp add: apply_events_append)
    qed
    then show ?thesis using Inr
      by (auto simp: commit_events_def commit_def commit_as_def split: sum.splits prod.splits)
  qed (simp add: commit_events_def commit_def)
  with assms(1) show ?thesis by (auto simp: perform_def cmd_then_def cmd_read_def)
qed

section \<open>Reviews\<close>

datatype verdict = ApproveIt | RejectIt string | RetryIt

fun review_office :: "call_context \<Rightarrow> verdict \<Rightarrow> string \<Rightarrow> string \<Rightarrow> office_release_request command" where
  "review_office ctx ApproveIt rid actor = approve_office_release ctx rid actor"
| "review_office ctx (RejectIt reason) rid actor = reject_office_release ctx rid reason actor"
| "review_office ctx RetryIt rid actor = retry_office_release ctx rid actor"

fun reviewed_release :: "verdict \<Rightarrow> string \<Rightarrow> instant \<Rightarrow> office_release_request \<Rightarrow> office_release_request" where
  "reviewed_release ApproveIt author at r = r\<lparr>release_status := office_release_status.Approved,
     release_reviewed_by := Some author, release_reviewed_at := Some at, release_review_reason := None\<rparr>"
| "reviewed_release (RejectIt reason) author at r = r\<lparr>release_status := office_release_status.Rejected,
     release_reviewed_by := Some author, release_reviewed_at := Some at,
     release_review_reason := Some (str_trim reason)\<rparr>"
| "reviewed_release RetryIt author at r = r\<lparr>release_status := office_release_status.Approved,
     release_reviewed_by := Some author, release_reviewed_at := Some at, release_dispatch_id := None,
     release_dispatch_started_at := None, release_last_error := None\<rparr>"

lemma review_release_effect:
  assumes "review_release ctx event rid actor (db, s) = (Inr r', db', s')"
  obtains r p f v where "bt_get (office_releases s) rid = Some r" "lookup_principal s actor = Some p"
    "bt_get (flows s) (release_flow_id r) = Some f" "is_reviewer f p" "apply_office (event r p) s = Inr v"
    "office_releases s' = office_releases v" "bt_get (office_releases v) rid = Some r'"
proof -
  from assms obtain author es x v where
      d: "and_then (release_review_context rid actor s) (\<lambda>(r, p).
        Inr (principal_name p, [OfficeEvent (event r p)], rid)) = Inr (author, es, x)"
    and answer: "find_release x s' = Inr r'" and v: "apply_events s es = Inr v"
    and s': "s' = v\<lparr>notification_deliveries := notification_deliveries s', last_sequence := last_sequence s'\<rparr>"
    unfolding review_release_def by (rule performed)
  have same: "office_releases s' = office_releases v" by (subst s') simp
  from d v answer same show ?thesis
    by (auto simp: release_review_context_def find_release_def get_principal_Inr split: if_splits intro: that)
qed

lemma office_review_effect:
  assumes "review_office ctx verdict rid actor (db, s) = (Inr r', db', s')" and "keyed release_id (office_releases s)"
  obtains r p f where "bt_get (office_releases s) rid = Some r" "lookup_principal s actor = Some p"
    "bt_get (flows s) (release_flow_id r) = Some f" "is_reviewer f p"
    "r' = reviewed_release verdict (principal_id p) (ctx_clock ctx 0) r"
    "release_status r = (if verdict = RetryIt then office_release_status.Failed else office_release_status.Requested)"
    "office_releases s' = bt_insert rid r' (office_releases s)"
proof (cases verdict)
  case ApproveIt
  with assms(1) have "review_release ctx (\<lambda>r p. OfficeReleaseApproved (release_flow_id r) (release_task_id r)
      (release_id r) (principal_id p) (ctx_clock ctx 0)) rid actor (db, s) = (Inr r', db', s')"
    by (simp add: approve_office_release_def)
  then show ?thesis
    by (rule review_release_effect)
       (use assms(2) ApproveIt that in \<open>auto simp: apply_office_release_approved_def get_office_release_def put_office_def
          split: if_splits\<close>)
next
  case (RejectIt reason)
  with assms(1) have "review_release ctx (\<lambda>r p. OfficeReleaseRejected (release_flow_id r) (release_task_id r)
      (release_id r) (principal_id p) (str_trim reason) (ctx_clock ctx 0)) rid actor (db, s) = (Inr r', db', s')"
    by (auto simp: reject_office_release_def required_text_def split: sum.splits)
  then show ?thesis
    by (rule review_release_effect)
       (use assms(2) RejectIt that in \<open>auto simp: apply_office_release_rejected_def get_office_release_def put_office_def
          split: if_splits\<close>)
next
  case RetryIt
  with assms(1) have "review_release ctx (\<lambda>r p. OfficeReleaseRetryApproved (release_flow_id r) (release_task_id r)
      (release_id r) (principal_id p) (ctx_clock ctx 0)) rid actor (db, s) = (Inr r', db', s')"
    by (simp add: retry_office_release_def)
  then show ?thesis
    by (rule review_release_effect)
       (use assms(2) RetryIt that in \<open>auto simp: apply_office_release_retry_approved_def get_office_release_def put_office_def
          split: if_splits\<close>)
qed

section \<open>GitLab dispatches\<close>

text \<open>Writes that wait for their dispatch.\<close>

definition approved_write :: "org_state \<Rightarrow> string \<Rightarrow> gitlab_write_request \<Rightarrow> bool" where
  "approved_write s k r \<longleftrightarrow> bt_get (gitlab_writes s) k = Some r \<and> write_status r = gitlab_write_status.Approved"

lemma expiries_keep_approved:
  assumes "apply_events s (map (write_expiry now) rs) = Inr v" and "keyed write_id (gitlab_writes s)"
  shows "(\<forall>k r. approved_write v k r \<longleftrightarrow> approved_write s k r) \<and> keyed write_id (gitlab_writes v)"
  using assms
proof (induction rs arbitrary: s)
  case (Cons x rs)
  from Cons.prems(1) obtain w where w: "apply_gitlab_write_dispatch_expired (write_flow_id x) (write_task_id x) (write_id x)
      (the (write_dispatch_id x)) s = Inr w" and rest: "apply_events w (map (write_expiry now) rs) = Inr v"
    by (auto simp: write_expiry_def [of now x])
  from w Cons.prems(2) have "keyed write_id (gitlab_writes w)" "approved_write w k r \<longleftrightarrow> approved_write s k r" for k r
    by (auto simp: apply_gitlab_write_dispatch_expired_def get_gitlab_write_def approved_write_def split: if_splits)
  with Cons.IH [OF rest] show ?case by blast
qed simp

lemma recovery_keeps_approved:
  assumes "recover_stale_gitlab_writes ctx now stale_after (db, s) = (Inr n, db', s')" and "keyed write_id (gitlab_writes s)"
  shows "(\<forall>k r. approved_write s' k r \<longleftrightarrow> approved_write s k r) \<and> keyed write_id (gitlab_writes s')"
proof (cases "stale_writes s now stale_after = []")
  case True
  with assms show ?thesis by (simp add: recover_stale_gitlab_writes_def)
next
  case False
  with assms(1) have "perform ctx (\<lambda>_. Inr (''tower://gitlab-recovery'', map (write_expiry now) (stale_writes s now stale_after),
      length (stale_writes s now stale_after))) answer_with (db, s) = (Inr n, db', s')"
    by (simp add: recover_stale_gitlab_writes_def Let_def)
  then obtain v where v: "apply_events s (map (write_expiry now) (stale_writes s now stale_after)) = Inr v"
    and s': "s' = v\<lparr>notification_deliveries := notification_deliveries s', last_sequence := last_sequence s'\<rparr>"
    by (rule performed) auto
  have "gitlab_writes s' = gitlab_writes v" by (subst s') simp
  with expiries_keep_approved [OF v assms(2)] show ?thesis by (simp add: approved_write_def)
qed

definition dispatched_write :: "string \<Rightarrow> instant \<Rightarrow> gitlab_write_request \<Rightarrow> gitlab_write_request" where
  "dispatched_write did at r = r\<lparr>write_status := gitlab_write_status.Dispatching, write_dispatch_id := Some did,
     write_dispatch_started_at := Some at, write_last_error := None\<rparr>"

lemma dispatched_write_simps [simp]:
  "write_id (dispatched_write did at r) = write_id r"
  "write_status (dispatched_write did at r) = gitlab_write_status.Dispatching"
  "write_dispatch_id (dispatched_write did at r) = Some did"
  by (simp_all add: dispatched_write_def)

lemma next_write_some:
  assumes "next_write s = Some r"
  shows "\<exists>k. approved_write s k r"
    and "approved_write s k q \<Longrightarrow> reviewed_time (write_reviewed_at r) (write_requested_at r)
      \<le> reviewed_time (write_reviewed_at q) (write_requested_at q)"
  using min_by_key_Some [OF assms [unfolded next_write_def]] by (auto simp: approved_write_def)

lemma next_write_none: "next_write s = None \<longleftrightarrow> (\<forall>k r. \<not> approved_write s k r)"
  by (auto simp: next_write_def approved_write_def filter_empty_conv)

lemma take_next_write_effect:
  assumes "take_next_write ctx (db, s) = (Inr (Some r), db', s')" and "keyed write_id (gitlab_writes s)"
  obtains r0 where "next_write s = Some r0" "approved_write s (write_id r0) r0"
    "r = dispatched_write (new_id ''DSP'' (ctx_uuid ctx 0)) (ctx_clock ctx 1) r0"
    "gitlab_writes s' = bt_insert (write_id r0) r (gitlab_writes s)"
proof -
  from assms(1) obtain r0 where r0: "next_write s = Some r0"
    and run: "perform ctx (\<lambda>_. Inr (''tower://gitlab'',
        [GitLabEvent (GitLabWriteDispatchClaimed (write_flow_id r0) (write_task_id r0) (write_id r0)
          (new_id ''DSP'' (ctx_uuid ctx 0)) (ctx_clock ctx 1))], write_id r0))
      (\<lambda>wid s. and_then (find_write wid s) (\<lambda>r. Inr (Some r))) (db, s) = (Inr (Some r), db', s')"
    by (auto simp: take_next_write_def split: option.splits)
  from next_write_some(1) [OF r0] assms(2) have approved: "approved_write s (write_id r0) r0"
    by (auto simp: approved_write_def)
  from run obtain v where v: "apply_gitlab_write_dispatch_claimed (write_flow_id r0) (write_task_id r0) (write_id r0)
          (new_id ''DSP'' (ctx_uuid ctx 0)) (ctx_clock ctx 1) s = Inr v" and found: "find_write (write_id r0) s' = Inr r"
    and s': "s' = v\<lparr>notification_deliveries := notification_deliveries s', last_sequence := last_sequence s'\<rparr>"
    by (rule performed) auto
  have same: "gitlab_writes s' = gitlab_writes v" by (subst s') simp
  from v approved have "gitlab_writes v = bt_insert (write_id r0)
      (dispatched_write (new_id ''DSP'' (ctx_uuid ctx 0)) (ctx_clock ctx 1) r0) (gitlab_writes s)"
    by (auto simp: apply_gitlab_write_dispatch_claimed_def get_gitlab_write_def approved_write_def dispatched_write_def
        split: if_splits)
  with found same r0 approved show ?thesis by (intro that [of r0]) (simp_all add: find_write_def)
qed

lemma claim_stages:
  assumes "claim_gitlab_write recovery ctx (SqliteStore t, s) = (Inr x, db', s')" and "keyed write_id (gitlab_writes s)"
  obtains db1 s1 where "take_next_write ctx (db1, s1) = (Inr x, db', s')"
    "\<forall>k r. approved_write s1 k r \<longleftrightarrow> approved_write s k r" "keyed write_id (gitlab_writes s1)"
proof -
  have "refresh_command ctx (SqliteStore t, s) = (Inr (), SqliteStore t, s)"
    by (simp add: refresh_command_def refresh_shared_state_def store_is_shared_def)
  with assms(1) obtain n db1 s1 where
      "recover_stale_gitlab_writes recovery (ctx_clock ctx 0) (300 * 1000000000) (SqliteStore t, s) = (Inr n, db1, s1)"
    and "take_next_write ctx (db1, s1) = (Inr x, db', s')"
    by (auto simp: claim_gitlab_write_def cmd_then_def split: prod.splits sum.splits)
  with recovery_keeps_approved [OF _ assms(2)] show ?thesis by (intro that) blast+
qed

text \<open>A dispatch that somebody else holds cannot be finished.\<close>

lemma foreign_dispatch_refused:
  assumes "bt_get (gitlab_writes s) wid = Some r" and "write_id r = wid"
    and "\<not> (write_status r = gitlab_write_status.Dispatching \<and> write_dispatch_id r = Some did)"
  shows "\<exists>err. finish_gitlab_write ctx d read_url wid did outcome (db, s) = (Inl err, db, s)"
proof (cases "write_outcome d read_url (ctx_clock ctx 0) r did outcome")
  case (Inl err)
  with assms(1) show ?thesis by (simp add: finish_gitlab_write_def find_write_def perform_refuses)
next
  case (Inr es)
  have get: "get_gitlab_write s (write_id r) (write_flow_id r) (write_task_id r) = Inr r"
    using assms(1,2) by (simp add: get_gitlab_write_def)
  obtain why where foreign: "ensure_gitlab_dispatch r did = Inl why"
    using assms(3) by (auto simp: ensure_gitlab_dispatch_def)
  have "\<exists>err. apply_events s es = Inl err"
    using Inr assms(2) foreign
    by (cases outcome)
       (auto simp: write_outcome_def apply_gitlab_write_succeeded_def apply_gitlab_write_failed_def get)
  then obtain err where "apply_events s es = Inl err" by blast
  with assms(1) Inr show ?thesis unfolding finish_gitlab_write_def
    by (intro projection_refuses [where es = es and err = err]) (auto simp: find_write_def)
qed

section \<open>Projects\<close>

text \<open>
  The text is trimmed before it is compared with its trimmed self, so a project with white space around
  its name is accepted, and kept as it was given.
\<close>

lemma padded_project_passes: "validate_gitlab_project '' group/tower '' = Inr ()"
  by code_simp

end
