(* ===== verification/Review_Properties.thy ===== *)
theory Review_Properties
  imports Command_Properties Review_Facts
begin

text \<open>
  What the commands around reviewed side effects promise: only the human who asked for a flow lets its
  mails, meetings and uploads out, and a write to GitLab is in one pair of hands at a time.
\<close>

section \<open>Releasing\<close>

text \<open>
  C37: An Office release is approved, rejected or approved for a retry by the active human who asked for
  its flow and by nobody else, a first review only while it is requested and a retry only after it has
  failed. The review is recorded with its author and time, what was asked for stays as it was asked for,
  and no other release changes.
\<close>

theorem office_reviews_take_the_requester:
  assumes "review_office ctx verdict rid actor (db, s) = (Inr r', db', s')"
    and "keyed release_id (office_releases s)"
  shows "\<exists>r p f. bt_get (office_releases s) rid = Some r \<and> lookup_principal s actor = Some p \<and>
    bt_get (flows s) (release_flow_id r) = Some f \<and> principal_kind p = principal_kind.Human \<and> principal_active p \<and>
    demand_requester (flow_demand f) \<in> {principal_id p, principal_name p} \<and>
    release_status r = (if verdict = RetryIt then office_release_status.Failed else office_release_status.Requested) \<and>
    r' = reviewed_release verdict (principal_id p) (ctx_clock ctx 0) r \<and>
    release_payload r' = release_payload r \<and>
    office_releases s' = bt_insert rid r' (office_releases s)"
proof -
  from assms obtain r p f where "bt_get (office_releases s) rid = Some r" "lookup_principal s actor = Some p"
    "bt_get (flows s) (release_flow_id r) = Some f" "is_reviewer f p"
    "r' = reviewed_release verdict (principal_id p) (ctx_clock ctx 0) r"
    "release_status r = (if verdict = RetryIt then office_release_status.Failed else office_release_status.Requested)"
    "office_releases s' = bt_insert rid r' (office_releases s)" by (rule office_review_effect)
  moreover have "release_payload (reviewed_release verdict author at r) = release_payload r" for author at
    by (cases verdict) simp_all
  ultimately show ?thesis
    by (intro exI [of _ r] exI [of _ p] exI [of _ f]) (auto simp: is_reviewer_def)
qed

definition asking :: org_state where
  "asking = (working InProgress)\<lparr>office_releases := bt_insert ''REL-1'' sample_release bt_empty\<rparr>"

theorem office_reviews_take_the_requester_witness:
  "\<exists>r' db' s'. review_office work_context ApproveIt ''REL-1'' ''ada'' (SqliteStore bt_empty, asking) = (Inr r', db', s') \<and>
    release_status r' = office_release_status.Approved \<and> release_payload r' = release_payload sample_release"
proof -
  let ?r = "review_office work_context ApproveIt ''REL-1'' ''ada'' (SqliteStore bt_empty, asking)"
  have "is_ok (fst ?r)" by code_simp
  then obtain r' db' s' where r: "?r = (Inr r', db', s')" by (cases ?r) (auto simp: is_ok_iff)
  have keyed: "keyed release_id (office_releases asking)" by (simp add: asking_def sample_release_def)
  have "bt_get (office_releases asking) ''REL-1'' = Some sample_release" by (simp add: asking_def)
  with office_reviews_take_the_requester [OF r keyed] r show ?thesis by auto
qed

section \<open>Dispatching\<close>


definition approved_glw :: gitlab_write_request where
  "approved_glw = sample_write\<lparr>write_status := gitlab_write_status.Approved, write_reviewed_by := Some ''PRN-1'',
     write_reviewed_at := Some 1\<rparr>"

definition pushing :: org_state where
  "pushing = (working InProgress)\<lparr>gitlab_writes := bt_insert ''GLW-1'' approved_glw bt_empty\<rparr>"


end
