(* ===== verification/App_Directory.thy ===== *)
theory App_Directory
  imports App_External App_Organization
begin

text \<open>
  People and teams that a directory provisions, and the principals behind logins
  (\<open>src/application/app/directory.rs\<close>). A first login through Feishu opens an account by itself.
\<close>

section \<open>Checks\<close>

definition validate_directory_name :: "string \<Rightarrow> string \<Rightarrow> string result" where
  "validate_directory_name given label =
     (let v = str_trim given in
      if v = [] \<or> 120 < chars_count v \<or> has_control v
      then Inl (relay_error.Validation (label @ '' name must contain 1 to 120 printable characters''))
      else Inr v)"

definition validate_external_id :: "string \<Rightarrow> string result" where
  "validate_external_id given =
     (let v = str_trim given in
      if v = [] \<or> 200 < chars_count v \<or> has_control v
      then Inl (relay_error.Validation ''directory external ID must contain 1 to 200 printable characters'')
      else Inr v)"

definition principal_name_taken :: "org_state \<Rightarrow> string \<Rightarrow> bool" where
  "principal_name_taken s name \<longleftrightarrow> list_ex (\<lambda>p. eq_ignore_ascii_case (principal_name p) name) (bt_values (principals s))"

definition has_username :: "string \<Rightarrow> principal \<Rightarrow> bool" where
  "has_username user p \<longleftrightarrow>
     (case principal_directory_username p of None \<Rightarrow> False | Some current \<Rightarrow> eq_ignore_ascii_case current user)"

definition team_of_directory :: "org_state \<Rightarrow> string option \<Rightarrow> string option result" where
  "team_of_directory s = optional (\<lambda>v. and_then (get_team s v) (\<lambda>t. Inr (team_id t)))"

section \<open>Accounts\<close>

text \<open>An account is a person with no more than the role of a member, bound to the identity of the login.\<close>

definition directory_principal ::
    "call_context \<Rightarrow> string \<Rightarrow> string option \<Rightarrow> string option \<Rightarrow> bool \<Rightarrow> principal" where
  "directory_principal ctx name user tid active =
     \<lparr>principal_id = new_id ''HUM'' (ctx_uuid ctx 0), principal_name = name,
      principal_directory_username = user, principal_kind = principal_kind.Human, principal_team_id = tid,
      principal_owner_id = None, principal_capabilities = [], principal_capacity_percent = 100,
      principal_executor = None, principal_active = active, principal_created_at = ctx_clock ctx 0\<rparr>"

definition member_role :: "call_context \<Rightarrow> string \<Rightarrow> principal \<Rightarrow> org_state \<Rightarrow> role_binding result" where
  "member_role ctx actor p s =
     and_then (get_tenant s) (\<lambda>tenant.
     and_then (get_organization s) (\<lambda>org.
       Inr \<lparr>role_binding_id = new_id ''ROLE'' (ctx_uuid ctx 1), role_binding_tenant_id = tenant_id tenant,
            role_binding_organization_id = organization_id org, role_binding_principal_id = principal_id p,
            role_binding_role = Member, role_binding_granted_by = actor,
            role_binding_granted_at = ctx_clock ctx 0, role_binding_revoked_by = None,
            role_binding_revoked_at = None\<rparr>))"

definition login_binding :: "call_context \<Rightarrow> string \<Rightarrow> string \<Rightarrow> string \<Rightarrow> principal \<Rightarrow> external_identity_binding" where
  "login_binding ctx provider user actor p =
     \<lparr>identity_id = new_id ''XID'' (ctx_uuid ctx 2), identity_provider = provider,
      identity_external_user_id = user, identity_principal_id = principal_id p,
      identity_bound_by = actor, identity_bound_at = ctx_clock ctx 0, identity_unbound_by = None,
      identity_unbound_at = None\<rparr>"

definition account_events :: "principal \<Rightarrow> role_binding \<Rightarrow> external_identity_binding \<Rightarrow> domain_event list" where
  "account_events p r b =
     [RegistryEvent (PrincipalRegistered p), RegistryEvent (RoleGranted r), RegistryEvent (ExternalIdentityBound b)]"

definition decide_provision_human ::
    "call_context \<Rightarrow> string \<Rightarrow> string \<Rightarrow> string \<Rightarrow> string option \<Rightarrow> bool \<Rightarrow> string \<Rightarrow> org_state
      \<Rightarrow> (principal \<times> external_identity_binding) decision result" where
  "decide_provision_human ctx name user external team active actor s =
     and_then (ensure_permission s actor PrincipalManage) (\<lambda>_.
     and_then (validate_directory_name name ''Human'') (\<lambda>name.
     and_then (validate_directory_name user ''user'') (\<lambda>user.
     and_then (validate_external_id external) (\<lambda>external.
       if principal_name_taken s name
       then Inl (relay_error.Validation (''principal already exists: '' @ name))
       else if list_ex (has_username user) (bt_values (principals s))
       then Inl (relay_error.Validation (''directory userName already exists: '' @ user))
       else if list_ex (\<lambda>b. identity_is_active b \<and> identity_provider b = ''oidc'' \<and> identity_external_user_id b = external)
                 (bt_values (external_identities s))
       then Inl (relay_error.Validation ''OIDC subject is already provisioned'')
       else
         and_then (team_of_directory s team) (\<lambda>tid.
           let p = directory_principal ctx name (Some user) tid active;
               b = login_binding ctx ''oidc'' external actor p in
           and_then (member_role ctx actor p s) (\<lambda>r.
             Inr (actor, account_events p r b, (p, b))))))))"

definition provision_directory_human ::
    "call_context \<Rightarrow> string \<Rightarrow> string \<Rightarrow> string \<Rightarrow> string option \<Rightarrow> bool \<Rightarrow> string
      \<Rightarrow> (principal \<times> external_identity_binding) command" where
  "provision_directory_human ctx name user external team active actor =
     perform ctx (decide_provision_human ctx name user external team active actor) answer_with"

section \<open>Updates\<close>

definition decide_update_human ::
    "call_context \<Rightarrow> string \<Rightarrow> string \<Rightarrow> string \<Rightarrow> string option \<Rightarrow> bool \<Rightarrow> string \<Rightarrow> org_state \<Rightarrow> string decision result" where
  "decide_update_human ctx key name user team active actor s =
     and_then (ensure_permission s actor PrincipalManage) (\<lambda>_.
     and_then (get_principal s key) (\<lambda>p.
       if principal_kind p \<noteq> principal_kind.Human
       then Inl (relay_error.Validation ''directory provisioning can only update Human principals'')
       else
         and_then (validate_directory_name name ''Human'') (\<lambda>name.
         and_then (validate_directory_name user ''user'') (\<lambda>user.
           if list_ex (\<lambda>c. principal_id c \<noteq> principal_id p \<and> has_username user c) (bt_values (principals s))
           then Inl (relay_error.Validation (''directory userName already exists: '' @ user))
           else
             and_then (team_of_directory s team) (\<lambda>tid.
               Inr (actor, [RegistryEvent (PrincipalDirectoryUpdated (principal_id p) name user tid active actor
                 (ctx_clock ctx 0))], principal_id p))))))"

definition update_directory_human ::
    "call_context \<Rightarrow> string \<Rightarrow> string \<Rightarrow> string \<Rightarrow> string option \<Rightarrow> bool \<Rightarrow> string \<Rightarrow> principal command" where
  "update_directory_human ctx key name user team active actor =
     perform ctx (decide_update_human ctx key name user team active actor) (\<lambda>pid s. get_principal s pid)"

definition decide_update_team ::
    "call_context \<Rightarrow> string \<Rightarrow> string \<Rightarrow> string option \<Rightarrow> bool \<Rightarrow> string \<Rightarrow> org_state \<Rightarrow> string decision result" where
  "decide_update_team ctx key name external active actor s =
     and_then (ensure_permission s actor PrincipalManage) (\<lambda>_.
     and_then (get_team s key) (\<lambda>t.
     and_then (validate_directory_name name ''team'') (\<lambda>name.
     and_then (optional validate_external_id external) (\<lambda>external.
       if external \<noteq> None \<and> list_ex (\<lambda>c. team_id c \<noteq> team_id t \<and> team_directory_external_id c = external) (bt_values (teams s))
       then Inl (relay_error.Validation ''directory Group externalId already exists'')
       else Inr (actor, [RegistryEvent (TeamDirectoryUpdated (team_id t) name external active actor
         (ctx_clock ctx 0))], team_id t)))))"

definition update_directory_team ::
    "call_context \<Rightarrow> string \<Rightarrow> string \<Rightarrow> string option \<Rightarrow> bool \<Rightarrow> string \<Rightarrow> team command" where
  "update_directory_team ctx key name external active actor =
     perform ctx (decide_update_team ctx key name external active actor) (\<lambda>tid s. get_team s tid)"

section \<open>Logins\<close>

definition login_principal :: "org_state \<Rightarrow> external_identity_binding \<Rightarrow> string \<Rightarrow> principal result" where
  "login_principal s b provider =
     and_then (get_principal s (identity_principal_id b)) (\<lambda>p.
       if principal_kind p \<noteq> principal_kind.Human \<or> \<not> principal_active p
       then Inl (PermissionDenied (provider @ '' identity is not an active Human''))
       else Inr p)"

definition oidc_principal :: "org_state \<Rightarrow> string \<Rightarrow> principal result" where
  "oidc_principal s subject =
     and_then (get_external_identity s ''oidc'' subject) (\<lambda>b. login_principal s b ''OIDC'')"

text \<open>Somebody whose name is taken gets the end of their Feishu identifier, backwards, behind it.\<close>

definition available_principal_name :: "org_state \<Rightarrow> string \<Rightarrow> string \<Rightarrow> string result" where
  "available_principal_name s display open_id =
     and_then (validate_directory_name display ''Human'') (\<lambda>base.
       if \<not> principal_name_taken s base then Inr base
       else
         let candidate = base @ '' ('' @ take 6 (rev (filter ascii_alphanumeric open_id)) @ '')'' in
         if \<not> principal_name_taken s candidate then Inr candidate else Inr open_id)"

definition feishu_actor :: string where
  "feishu_actor = ''tower://feishu''"

definition decide_open_account :: "call_context \<Rightarrow> string \<Rightarrow> string \<Rightarrow> org_state \<Rightarrow> principal decision result" where
  "decide_open_account ctx open_id display s =
     and_then (available_principal_name s display open_id) (\<lambda>name.
       let p = directory_principal ctx name None None True;
           b = login_binding ctx ''feishu'' open_id feishu_actor p in
       and_then (member_role ctx feishu_actor p s) (\<lambda>r.
         Inr (feishu_actor, account_events p r b, p)))"

definition feishu_principal :: "call_context \<Rightarrow> string \<Rightarrow> string \<Rightarrow> principal command" where
  "feishu_principal ctx given display = (\<lambda>(db, s).
     (case validate_external_id given of
        Inl err \<Rightarrow> (Inl err, db, s)
      | Inr open_id \<Rightarrow>
          (case get_external_identity s ''feishu'' open_id of
             Inr b \<Rightarrow> (login_principal s b ''Feishu'', db, s)
           | Inl _ \<Rightarrow> perform ctx (decide_open_account ctx open_id display) answer_with (db, s))))"

end
