(* ===== verification/Directory_Facts.thy ===== *)
theory Directory_Facts
  imports App_Directory
begin

text \<open>
  What opening an account leaves behind, and when a directory cannot open one.
\<close>

section \<open>Accounts\<close>

lemma directory_principal_simps [simp]:
  "principal_kind (directory_principal ctx name user tid active) = principal_kind.Human"
  "principal_active (directory_principal ctx name user tid active) = active"
  "principal_name (directory_principal ctx name user tid active) = name"
  by (simp_all add: directory_principal_def)

lemma login_binding_simps [simp]:
  "identity_provider (login_binding ctx provider user actor p) = provider"
  "identity_external_user_id (login_binding ctx provider user actor p) = user"
  "identity_principal_id (login_binding ctx provider user actor p) = principal_id p"
  "identity_is_active (login_binding ctx provider user actor p)"
  by (simp_all add: login_binding_def identity_is_active_def)

lemma member_role_Inr:
  "member_role ctx actor p s = Inr r \<Longrightarrow>
     role_binding_role r = Member \<and> role_binding_principal_id r = principal_id p \<and> role_binding_is_active r"
  by (auto simp: member_role_def role_binding_is_active_def)

text \<open>The three events of an account, and nothing besides.\<close>

lemma account_applied:
  assumes "apply_events s (account_events p r b) = Inr t" and "identity_principal_id b = principal_id p"
  shows "principal_kind p = principal_kind.Human \<and> principal_active p \<and>
    \<not> bt_contains (external_identities s) (identity_id b) \<and>
    (\<forall>k c. bt_get (external_identities s) k = Some c \<longrightarrow> identity_is_active c \<longrightarrow> identity_provider c = identity_provider b \<longrightarrow>
       identity_external_user_id c \<noteq> identity_external_user_id b) \<and>
    t = s\<lparr>principals := bt_insert (principal_id p) p (principals s), calendars := calendars t,
      role_bindings := bt_insert (role_binding_id r) r (role_bindings s),
      external_identities := bt_insert (identity_id b) b (external_identities s)\<rparr>"
  using assms
  by (auto simp: account_events_def apply_principal_registered_def apply_role_granted_def
    apply_external_identity_bound_def get_principal_Inr lookup_principal_def split: if_splits)

lemma decide_open_account_Inr:
  assumes "decide_open_account ctx open_id display s = Inr (actor, es, p)"
  obtains name r where "available_principal_name s display open_id = Inr name"
    "p = directory_principal ctx name None None True" "member_role ctx feishu_actor p s = Inr r"
    "es = account_events p r (login_binding ctx ''feishu'' open_id feishu_actor p)"
  using assms by (auto simp: decide_open_account_def Let_def intro: that)

lemma external_identity_found:
  assumes "get_external_identity s provider user = Inr b"
  shows "identity_is_active b \<and> identity_provider b = provider \<and> identity_external_user_id b = user"
  using assms by (auto simp: get_external_identity_def dest: bt_find_Some)

text \<open>The one identity that fits is the one that is found.\<close>

lemma external_identity_unique:
  assumes "bt_get (external_identities s) k = Some b" and "identity_is_active b"
    and "identity_provider b = provider" and "identity_external_user_id b = user"
    and "\<And>j c. bt_get (external_identities s) j = Some c \<Longrightarrow> identity_is_active c \<Longrightarrow> identity_provider c = provider \<Longrightarrow>
       identity_external_user_id c = user \<Longrightarrow> c = b"
  shows "get_external_identity s provider user = Inr b"
proof -
  let ?P = "\<lambda>b. identity_is_active b \<and> identity_provider b = provider \<and> identity_external_user_id b = user"
  have "List.find ?P (bt_values (external_identities s)) \<noteq> None"
    using assms(1-4) by (auto simp: bt_find_None)
  then obtain c where c: "List.find ?P (bt_values (external_identities s)) = Some c" by blast
  from bt_find_Some [OF this] assms(5) have "c = b" by blast
  with c show ?thesis by (simp add: get_external_identity_def)
qed

text \<open>The two ways in: who has an account enters by it, and everybody else gets one.\<close>

lemma feishu_login_cases:
  assumes "feishu_principal ctx given display (db, s) = (Inr p, db', s')"
  obtains (known) open_id b where "validate_external_id given = Inr open_id"
      "get_external_identity s ''feishu'' open_id = Inr b" "login_principal s b ''Feishu'' = Inr p" "db' = db" "s' = s"
  | (new) open_id name r b where "validate_external_id given = Inr open_id"
      "available_principal_name s display open_id = Inr name" "p = directory_principal ctx name None None True"
      "b = login_binding ctx ''feishu'' open_id feishu_actor p"
      "member_role ctx feishu_actor p s = Inr r"
      "\<And>k c. bt_get (external_identities s) k = Some c \<Longrightarrow> identity_is_active c \<Longrightarrow> identity_provider c = ''feishu'' \<Longrightarrow>
         identity_external_user_id c \<noteq> open_id"
      "s' = s\<lparr>principals := bt_insert (principal_id p) p (principals s), calendars := calendars s',
        role_bindings := bt_insert (role_binding_id r) r (role_bindings s),
        external_identities := bt_insert (identity_id b) b (external_identities s),
        notification_deliveries := notification_deliveries s', last_sequence := last_sequence s'\<rparr>"
proof -
  from assms obtain open_id where id: "validate_external_id given = Inr open_id"
    by (auto simp: feishu_principal_def split: sum.splits)
  show thesis
  proof (cases "get_external_identity s ''feishu'' open_id")
    case (Inr b)
    with assms id show thesis by (intro known) (auto simp: feishu_principal_def)
  next
    case (Inl err)
    with assms id have "perform ctx (decide_open_account ctx open_id display) answer_with (db, s) = (Inr p, db', s')"
      by (simp add: feishu_principal_def)
    then obtain actor es t where d: "decide_open_account ctx open_id display s = Inr (actor, es, p)"
      and t: "apply_events s es = Inr t"
      and s': "s' = t\<lparr>notification_deliveries := notification_deliveries s', last_sequence := last_sequence s'\<rparr>"
      by (rule performed) auto
    from d obtain name r where name: "available_principal_name s display open_id = Inr name"
      and p: "p = directory_principal ctx name None None True" and r: "member_role ctx feishu_actor p s = Inr r"
      and es: "es = account_events p r (login_binding ctx ''feishu'' open_id feishu_actor p)"
      by (rule decide_open_account_Inr)
    note applied = account_applied [OF t [unfolded es]]
    have "calendars s' = calendars t" by (subst s') simp
    with applied s' show thesis
      by (intro new [OF id name p refl r]) (auto simp del: directory_principal_simps)
  qed
qed

lemma lookup_principal_by_name:
  assumes "bt_get (principals s) k = Some p" and "principal_name p = key"
    and "\<And>j q. bt_get (principals s) j = Some q \<Longrightarrow> j = key \<or> eq_ignore_ascii_case (principal_name q) key \<Longrightarrow> q = p"
  shows "lookup_principal s key = Some p"
proof (cases "bt_get (principals s) key")
  case (Some q)
  with assms(3) show ?thesis by (auto simp: lookup_principal_def)
next
  case None
  let ?find = "List.find (\<lambda>p. eq_ignore_ascii_case (principal_name p) key) (bt_values (principals s))"
  have "?find \<noteq> None" using assms(1,2) by (auto intro: exI [of _ k])
  then obtain q where q: "?find = Some q" by blast
  with bt_find_Some [OF q] assms(3) None show ?thesis by (auto simp: lookup_principal_def)
qed

section \<open>Provisioning\<close>

text \<open>The identity of an account is bound in the commit that registers it, to an active person only.\<close>

lemma inactive_people_are_not_provisioned:
  "\<exists>err. fst (provision_directory_human ctx name user external team False actor app) = Inl err"
proof (rule ccontr)
  assume "\<nexists>err. fst (provision_directory_human ctx name user external team False actor app) = Inl err"
  then obtain x db' s' where "provision_directory_human ctx name user external team False actor app = (Inr x, db', s')"
    by (metis old.sum.exhaust prod.collapse)
  then obtain author es t where d: "decide_provision_human ctx name user external team False actor (snd app) = Inr (author, es, x)"
    and t: "apply_events (snd app) es = Inr t"
    unfolding provision_directory_human_def by (cases app) (auto elim: performed)
  from d obtain p r b where "es = account_events p r b" "identity_principal_id b = principal_id p" "\<not> principal_active p"
    by (auto simp: decide_provision_human_def Let_def split: if_splits)
  with account_applied t show False by blast
qed

end
