(* ===== verification/Directory_Properties.thy ===== *)
theory Directory_Properties
  imports Command_Properties Directory_Facts
begin

text \<open>
  What a login through Feishu promises: one account to an identity, with no more than the role of a
  member. And what it lets through: the names of the actors that the tower itself uses.
\<close>

section \<open>Logins\<close>



section \<open>Names of the system\<close>

text \<open>
  C40: The tower acts under names of its own, which carry every permission as long as nobody is called so.
  A first login does not keep these names: whoever logs in under one of them takes it, and from then on
  the tower is refused under that name what a member is refused. The name under which browser sessions
  are issued is one of them.
\<close>

theorem logins_take_system_names:
  assumes "feishu_principal ctx given actor (db, s) = (Inr p, db', s')" and "s' \<noteq> s"
    and "is_system_actor actor" and "str_trim actor = actor" and "lookup_principal s actor = None"
    and "\<And>role. \<not> has_role s (principal_id p) role" and "\<not> role_allows Member perm"
  shows "ensure_permission s actor perm = Inr () \<and> principal_name p = actor \<and>
    (\<exists>err. ensure_permission s' actor perm = Inl err)"
  using assms(1)
proof (cases rule: feishu_login_cases)
  case (known open_id b)
  with assms(2) show ?thesis by simp
next
  case (new open_id name r b)
  from assms(5) have free: "bt_get (principals s) actor = None"
    "\<And>k q. bt_get (principals s) k = Some q \<Longrightarrow> \<not> eq_ignore_ascii_case (principal_name q) actor"
    by (auto simp: lookup_principal_def split: option.splits)
  then have "\<not> principal_name_taken s actor" by (auto simp: principal_name_taken_def list_ex_iff)
  with new(2) assms(4) have name: "name = actor"
    by (auto simp: available_principal_name_def validate_directory_name_def Let_def split: if_splits)
  then have p: "principal_name p = actor" using new(3) by simp
  have held: "bt_get (principals s') k = (if k = principal_id p then Some p else bt_get (principals s) k)" for k
    by (subst new(7)) simp
  have "lookup_principal s' actor = Some p"
    by (rule lookup_principal_by_name [of _ "principal_id p"]) (use free held p in \<open>auto split: if_splits\<close>)
  moreover have "\<not> (\<exists>role. has_role s' (principal_id p) role \<and> role_allows role perm)"
  proof -
    have roles: "bt_get (role_bindings s') k = (if k = role_binding_id r then Some r else bt_get (role_bindings s) k)" for k
      by (subst new(7)) simp
    from member_role_Inr [OF new(5)] assms(6,7) show ?thesis
      by (auto simp: has_role_iff roles split: if_splits)
  qed
  ultimately have "ensure_permission s' actor perm \<noteq> Inr ()" by simp
  then have "\<exists>err. ensure_permission s' actor perm = Inl err" by (cases "ensure_permission s' actor perm") auto
  with assms(3,5) p show ?thesis by simp
qed

theorem logins_take_system_names_witness:
  "\<exists>p db' s'. feishu_principal work_context ''ou_8f3e21'' ''tower://oidc'' (SqliteStore bt_empty, staffed) = (Inr p, db', s') \<and>
    ensure_permission staffed ''tower://oidc'' CredentialManage = Inr () \<and>
    (\<exists>err. ensure_permission s' ''tower://oidc'' CredentialManage = Inl err)"
proof -
  let ?r = "feishu_principal work_context ''ou_8f3e21'' ''tower://oidc'' (SqliteStore bt_empty, staffed)"
  have ok: "case ?r of (Inl _, _) \<Rightarrow> False
      | (Inr p, _, s') \<Rightarrow> bt_contains (principals s') (principal_id p) \<and> \<not> bt_contains (principals staffed) (principal_id p)"
    by code_simp
  then obtain p db' s' where r: "?r = (Inr p, db', s')" by (cases ?r) (auto split: sum.splits)
  with ok have "s' \<noteq> staffed" by auto
  moreover have "is_system_actor ''tower://oidc''" "str_trim ''tower://oidc'' = ''tower://oidc''"
    "lookup_principal staffed ''tower://oidc'' = None" by code_simp+
  moreover have "\<not> has_role staffed (principal_id p) role" for role
    by (simp add: has_role_iff staffed_def default_state_def)
  ultimately have "ensure_permission staffed ''tower://oidc'' CredentialManage = Inr () \<and> principal_name p = ''tower://oidc'' \<and>
      (\<exists>err. ensure_permission s' ''tower://oidc'' CredentialManage = Inl err)"
    by (intro logins_take_system_names [OF r]) simp_all
  with r show ?thesis by blast
qed

end
