(* ===== verification/Spec2Isabelle.thy ===== *)
theory Spec2Isabelle
  imports Sample_Work Command_Properties Flight_Properties Collaboration_Properties Review_Properties
    Directory_Properties
begin

text \<open>
  Relay (crate \<open>relay\<close>, under \<open>src/src\<close>) is a control tower for work that people and agents share.
  It is event sourced: every change is a batch of events, appended to a log and projected to a state;
  every decision is taken on that state. This development models the core of it and proves what keeps
  it correct.

  How the program works, and which theory models which part:

  \<^item> Data (\<open>core/domain.rs\<close>, \<open>core/error.rs\<close>, \<open>core/ids.rs\<close>): \<open>Domain_Org\<close>, \<open>Domain_Flow\<close>,
    \<open>Domain_Flight\<close>, \<open>Relay_Error\<close>. A struct is a record whose fields carry the name of the struct as a
    prefix, an enum is a datatype with the source's constructors. Strings are lists of bytes of their
    UTF-8 encoding, instants are nanoseconds since 1970, floats are 64-bit words, machine integers are
    words of their width where the code does arithmetic on them.
  \<^item> Events (\<open>core/event.rs\<close>): \<open>Event\<close>, all 85 of them in 13 groups.
  \<^item> The state and its projection (\<open>core/state.rs\<close>): \<open>Org_State\<close> has the 28 fields and the lookups;
    \<open>State_Registry\<close>, \<open>State_Notification\<close>, \<open>State_Flow\<close>, \<open>State_Tracking\<close>, \<open>State_Flight\<close>,
    \<open>State_Office\<close> and \<open>State_GitLab\<close> have one definition per arm of \<open>OrganizationState::apply\<close>;
    \<open>State_Apply\<close> composes them and replays logs; \<open>State_Sequence\<close> separates the numbering of events
    from their effect. \<open>Reviewed_Dispatch\<close> is the contract that Office releases and GitLab writes share.
  \<^item> The stores (\<open>adapters/store.rs\<close>, \<open>adapters/postgres_store.rs\<close>): \<open>Event_Log\<close> has what both share
    (preparing a batch, rows and their decoding) and the contract of a log; \<open>Store_Sqlite\<close> and
    \<open>Store_Postgres\<close> provide it. Every I/O step can fail (\<open>io_faults\<close>); the JSON, time and database
    libraries are the record \<open>library\<close>, what they read back is the hypothesis \<open>reads_back\<close>.
  \<^item> Committing (\<open>application/app/commit.rs\<close>, \<open>adapters/notification.rs\<close>): \<open>App_Commit\<close>, with the
    deployments of many instances on one store as a step relation.
  \<^item> Working time and planning (\<open>core/calendar.rs\<close>, \<open>application/scheduler.rs\<close>,
    \<open>application/matcher.rs\<close>): \<open>Working_Time\<close>, \<open>Dependency_Graph\<close>, \<open>Scheduler\<close>, \<open>Matcher\<close>, on the strings
    and IEEE 754 floats of \<open>Rust_Library\<close>, computed exactly on integers.
  \<^item> Commands (\<open>application/app/*.rs\<close>): \<open>App_Command\<close> is their shape: read the state, decide on events,
    commit them, answer. The decision is a pure function of the state, \<open>decide_*\<close>; what follows for a
    successful command follows from it by \<open>performed\<close>.
    \<open>App_Policy\<close> (\<open>policy.rs\<close>) has the participants, actors and guards, \<open>App_Authority\<close>
    (\<open>authority.rs\<close>) the permissions and roles, \<open>App_Actions\<close> (\<open>actions.rs\<close>) what a person answers to.
    \<open>App_Organization\<close>, \<open>App_Planning\<close>, \<open>App_Task\<close>, \<open>App_Flow\<close> and \<open>App_Change\<close> are the commands of \<open>mod.rs\<close>:
    the organization and its principals, demands and planning requests, the work on a task, approval,
    negotiation and reassignment, and the append-only changes of a flow. \<open>Commit_Progress\<close> shows when a
    commit goes through.
  \<^item> Planning a demand (\<open>application/planner.rs\<close>): \<open>Planner\<close>, the local planner, its revisions, the prompts
    and the validation; what a language model answers is a parameter (\<open>planner_tools\<close>).
  \<^item> Flights (\<open>application/app/flights.rs\<close>, the flight commands of \<open>mod.rs\<close>, \<open>adapters/capability.rs\<close>):
    \<open>Flight_Rules\<close> has what a manifest may declare and a report may say, budgets and the landing contract,
    \<open>App_Flight\<close> the commands: authorizing, claiming, revoking, finishing, expiring, recovering. A command that
    reaps expired clearances first commits twice, so it takes two contexts. \<open>Flight_Facts\<close> derives what each
    command does to the state; the texts of instants are a parameter (\<open>ctx_show_time\<close>).
  \<^item> Working together: \<open>App_Tracking\<close> (\<open>application/tracker.rs\<close>, \<open>app/tracking.rs\<close>) has what the tracker
    finds and the scan that reconciles attentions and escalations with it; \<open>App_Message\<close>
    (\<open>app/messages.rs\<close>) the messages of a flow; \<open>App_External\<close> (\<open>app/interactions.rs\<close>,
    \<open>app/repositories.rs\<close>) external identities, the interactions of bound people and the repositories;
    \<open>App_Calendar\<close> (\<open>app/calendars.rs\<close>) working hours and time off with the rescheduling they cause;
    \<open>App_Notification\<close> (\<open>app/notifications.rs\<close>, the validation of \<open>adapters/notification.rs\<close>) endpoints
    and the dispatch of the outbox, where what an endpoint answers is a parameter. \<open>Tracking_Facts\<close>,
    \<open>Interaction_Facts\<close> and \<open>Notification_Facts\<close> derive what each does to the state.
  \<^item> Logins (\<open>app/directory.rs\<close>): \<open>App_Directory\<close>, what a directory provisions and how a login finds or opens
    its account; \<open>Directory_Facts\<close> has what that leaves behind.
  \<^item> Reviewed side effects: \<open>App_Office\<close> (\<open>app/office.rs\<close>) and \<open>App_GitLab\<close> (\<open>app/gitlab_writes.rs\<close>) are
    the commands whose events \<open>State_Office\<close> and \<open>State_GitLab\<close> project: asking, reviewing, claiming,
    recovering, finishing. The JSON and the hash of a payload and the URL library are parameters
    (\<open>digests\<close>, \<open>url_reader\<close>). \<open>Review_Facts\<close> has the lemmas.
  \<^item> \<open>Sample_Tower\<close> and \<open>Sample_Work\<close> hold the data of the witnesses; the properties are here and in
    \<open>Command_Properties\<close>, \<open>Flight_Properties\<close>, \<open>Collaboration_Properties\<close>, \<open>Review_Properties\<close> and
    \<open>Directory_Properties\<close>.

  What the lemmas show. Each handler of the projection keeps the invariants of its component
  (\<open>state_ok\<close> collects them) and leaves everything else alone (the \<open>*_frame\<close> lemmas), so every
  invariant holds of every log that can be replayed. The contract of a log gives the consistency of
  deployments: whatever instances do, the state of each is what a prefix of the stored log produces.
  The decisions of commands are accepted by the projection (\<open>*_accepted\<close>) and taken only by those who
  may take them. Loops terminate: the topological sort by the degrees it uses up, the search for
  availability within its 3660 days and the addition of hours within four times as many rounds, which
  the properties below show to be enough for what they promise.

  Bounds. \<open>max_search_days\<close> is the constant of the source; the fuel of \<open>search_available\<close> and \<open>add_ms\<close>
  is the number of rounds of its \<open>for\<close> loops, and running out of it is the error the source returns.
  Sequence numbers are checked against the range of \<open>i64\<close> as the source checks them; instants are
  unbounded, where the date library of the source panics outside of its range of some 262000 years.

  Not modelled: HTTP, terminal and command-line interfaces (\<open>interfaces/\<close>, \<open>bin/\<close>), which call the
  commands; the clients of GitLab, Office, Feishu and notification endpoints, executors, sandboxes and
  work trees (\<open>adapters/\<close>), which are input and output; the side tables of the stores (credentials,
  artifact bodies), their backup and schema; encryption; API and provider credentials, artifact staging, the setup and the dashboard (\<open>application/app/\<close>).
\<close>

section \<open>The event-sourced core\<close>


definition sample_deployment :: deployment where
  "sample_deployment =
     (case commit_as (sample_library sample_events) sample_world no_faults ''ORG-1'' ''ada''
             (take 2 sample_events) (SqliteStore bt_empty, default_state) of
        (_, db, s) \<Rightarrow> \<lparr>shared_store = db, instances = (\<lambda>_. None)(0 \<mapsto> s)\<rparr>)"

lemma sample_deployment_reachable:
  "reachable (sample_library sample_events) (SqliteStore bt_empty) sample_deployment"
proof -
  let ?lib = "sample_library sample_events"
  let ?d = "\<lparr>shared_store = SqliteStore bt_empty, instances = (\<lambda>_. None)\<rparr>"
  have "open_with_store ?lib (SqliteStore bt_empty) = Inr default_state" by code_simp
  then have opened: "deployment_step ?lib ?d (?d\<lparr>instances := (\<lambda>_. None)(0 \<mapsto> default_state)\<rparr>)"
    using deployment_step.opened [of ?lib ?d default_state 0] by simp
  obtain r db s where commit: "commit_as ?lib sample_world no_faults ''ORG-1'' ''ada''
      (take 2 sample_events) (SqliteStore bt_empty, default_state) = (r, db, s)"
    by (metis prod_cases3)
  have "case fst (commit_as ?lib sample_world no_faults ''ORG-1'' ''ada'' (take 2 sample_events)
      (SqliteStore bt_empty, default_state)) of Inl _ \<Rightarrow> False | Inr envs \<Rightarrow> list_all (reads_back ?lib) envs"
    by code_simp
  then have "reads_back ?lib env" if "r = Inr envs" "env \<in> set envs" for envs env
    using that by (simp add: commit list_all_iff)
  then have "deployment_step ?lib (?d\<lparr>instances := (\<lambda>_. None)(0 \<mapsto> default_state)\<rparr>) sample_deployment"
    using deployment_step.committed [of "?d\<lparr>instances := (\<lambda>_. None)(0 \<mapsto> default_state)\<rparr>" 0
        default_state ?lib sample_world no_faults "''ORG-1''" "''ada''" "take 2 sample_events" r db s]
      commit by (simp add: sample_deployment_def)
  with reachable.step [OF reachable.step [OF reachable.start opened]] show ?thesis by simp
qed








text \<open>
  C5: Whatever log is replayed, the state it produces is well-formed: every map files its entries
  under their own identifiers, active roles and identities are unique, every calendar is valid and
  every principal has one, every notification names a registered endpoint, no two resource leases
  collide, no path is staged twice, and every release and write went through its review.
\<close>

theorem replayed_state_ok:
  assumes "replay envs = Inr s"
  shows "state_ok s"
  using assms by (rule state_ok_replay)

theorem replayed_state_ok_witness:
  "\<exists>s. replay (envelopes_of sample_events) = Inr s \<and> state_ok s"
proof -
  have "is_ok (replay (envelopes_of sample_events))" by code_simp
  then obtain s where "replay (envelopes_of sample_events) = Inr s" by (auto simp: is_ok_iff)
  with replayed_state_ok show ?thesis by blast
qed

text \<open>
  A stored log is numbered without gaps from the position it starts at, every number fits the
  signed 64 bits of the database column, and every envelope names the kind of its event.
\<close>

theorem batch_numbered_in_range:
  assumes "prepare_batch w start org actor es = Inr envs" and "i < length es"
  shows "env_event (envs ! i) = es ! i \<and> env_sequence (envs ! i) = start + int i + 1 \<and>
    env_sequence (envs ! i) \<le> i64_max \<and> env_kind (envs ! i) = kind (es ! i)"
proof -
  note batch = prepare_batch_Inr [OF assms(1)]
  have len: "length envs = length es" using batch(1) by (metis length_map)
  have "env_event (envs ! i) = es ! i" using batch(1) assms(2) len by (metis nth_map)
  moreover have "env_sequence (envs ! i) = start + int i + 1"
    using arg_cong [OF batch(2), of "\<lambda>ns. ns ! i"] assms(2) len by simp
  moreover have "env_sequence (envs ! i) \<le> i64_max"
  proof -
    have "list_all2 (\<lambda>x y. prepare_envelope w start org actor x = Inr y) (List.enumerate 0 es) envs"
      using assms(1) by (simp add: prepare_batch_def try_map_Inr)
    then have "prepare_envelope w start org actor (i, es ! i) = Inr (envs ! i)"
      using assms(2) by (auto simp: list_all2_conv_all_nth nth_enumerate_eq)
    then have "start + int i + 1 \<le> i64_max" by (auto simp: prepare_envelope_def checked_offset_Inr)
    with \<open>env_sequence (envs ! i) = start + int i + 1\<close> show ?thesis by simp
  qed
  ultimately show ?thesis using batch(3) [of "envs ! i"] assms(2) len by simp
qed

theorem batch_numbered_in_range_witness:
  "\<exists>envs. prepare_batch sample_world 7 ''ORG-1'' ''ada'' sample_events = Inr envs \<and>
    env_event (envs ! 3) = sample_events ! 3 \<and> env_sequence (envs ! 3) = 11"
proof -
  have "is_ok (prepare_batch sample_world 7 ''ORG-1'' ''ada'' sample_events)" by code_simp
  then obtain envs where envs: "prepare_batch sample_world 7 ''ORG-1'' ''ada'' sample_events = Inr envs"
    by (auto simp: is_ok_iff)
  have "3 < length sample_events" by (simp add: sample_events_def)
  with batch_numbered_in_range [OF envs, of 3] envs show ?thesis by simp
qed







text \<open>
  A schedule revision that is accepted estimates every task of the flow and nothing else.
\<close>

theorem revision_estimates_every_task:
  assumes "apply_flow_event (FlowRescheduled fid rvn) s = Inr s'" and "bt_get (flows s) fid = Some f"
    and "distinct (map task_id (flow_tasks f))"
  shows "fst ` set (bt_entries (revision_task_estimates rvn)) = set (map task_id (flow_tasks f)) \<and>
    (\<exists>f'. bt_get (flows s') fid = Some f' \<and> map task_id (flow_tasks f') = map task_id (flow_tasks f) \<and>
       (\<forall>t \<in> set (flow_tasks f').
          bt_get (revision_task_estimates rvn) (task_id t) = Some (task_estimate t)))"
proof -
  from assms(1,2) obtain ts where ts: "assign_estimates (revision_task_estimates rvn) (flow_tasks f) = Inr ts"
    and len: "bt_len (revision_task_estimates rvn) = length ts"
    and get: "\<exists>f'. bt_get (flows s') fid = Some f' \<and> flow_tasks f' = ts"
    by (auto simp: apply_schedule_revision_def put_flow_def split: if_splits)
  from get assign_estimates_names(1) [OF ts] assign_estimates_estimate [OF ts]
  show ?thesis using revision_covers [OF ts len assms(3)] by auto
qed

definition sample_revision :: flow_schedule_revision where
  "sample_revision =
     \<lparr>revision_task_estimates = bt_insert ''TASK-1'' (sample_estimate 20) bt_empty,
      revision_p50_finish = 20, revision_p80_finish = 20, revision_critical_path = [''build''],
      revision_reason = ''late'', revision_revised_by = ''ada'', revision_revised_at = 1\<rparr>"

theorem revision_estimates_every_task_witness:
  "\<exists>s' f. apply_flow_event (FlowRescheduled ''FLOW-1'' sample_revision) sample_state = Inr s' \<and>
    bt_get (flows s') ''FLOW-1'' = Some f \<and> map task_id (flow_tasks f) = [''TASK-1''] \<and>
    (\<forall>t \<in> set (flow_tasks f). task_estimate t = sample_estimate 20)"
proof -
  have "is_ok (apply_flow_event (FlowRescheduled ''FLOW-1'' sample_revision) sample_state)" by code_simp
  then obtain s' where s': "apply_flow_event (FlowRescheduled ''FLOW-1'' sample_revision) sample_state = Inr s'"
    by (auto simp: is_ok_iff)
  have f: "bt_get (flows sample_state) ''FLOW-1'' = Some sample_flow" by code_simp
  have ids: "map task_id (flow_tasks sample_flow) = [''TASK-1'']"
    by (simp add: sample_flow_def sample_task_def)
  then have "distinct (map task_id (flow_tasks sample_flow))" by (simp only:) simp
  note revision = revision_estimates_every_task [OF s' f this, unfolded ids, THEN conjunct2]
  then obtain f' where f': "bt_get (flows s') ''FLOW-1'' = Some f'"
    "map task_id (flow_tasks f') = [''TASK-1'']"
    "\<forall>t \<in> set (flow_tasks f'). bt_get (revision_task_estimates sample_revision) (task_id t) = Some (task_estimate t)"
    by (elim exE conjE) (rule that)
  have "task_estimate t = sample_estimate 20" if "t \<in> set (flow_tasks f')" for t
  proof -
    from f'(2) that have "task_id t = ''TASK-1''" by (metis imageI list.set_map set_ConsD empty_iff list.set(1))
    with f'(3) that have "bt_get (revision_task_estimates sample_revision) ''TASK-1'' = Some (task_estimate t)"
      by metis
    then show ?thesis by (simp add: sample_revision_def)
  qed
  with s' f'(1,2) show ?thesis by (intro exI conjI ballI)
qed

section \<open>What the projection promises\<close>

text \<open>
  C9: A resource is never held twice: in the state of any log, two different leases whose claims
  collide (same kind and key, one of them exclusive) are not both in force at the same instant.
\<close>

theorem resources_held_exclusively:
  assumes "replay envs = Inr s"
    and "bt_get (resource_leases s) j = Some a" and "bt_get (resource_leases s) k = Some b"
    and "j \<noteq> k" and "claims_collide (resource_claim a) (resource_claim b)" and "holds_at a now"
  shows "\<not> holds_at b now"
proof -
  have "resources_exclusive s" using state_ok_replay [OF assms(1)] by (simp add: state_ok_def)
  with exclusive_at_every_instant [of s j a k b now] assms(2-6) show ?thesis by blast
qed

lemma sample_requested_replay: "replay (envelopes_of (sample_events @ sample_requests)) = Inr sample_requested"
proof -
  have "is_ok (replay (envelopes_of (sample_events @ sample_requests)))" by code_simp
  then show ?thesis by (auto simp: is_ok_iff sample_requested_def)
qed

theorem resources_held_exclusively_witness:
  "\<exists>a b. bt_get (resource_leases sample_requested) ''RES-1'' = Some a \<and>
    bt_get (resource_leases sample_requested) ''RES-2'' = Some b \<and> holds_at a 5 \<and> \<not> holds_at b 5"
proof -
  let ?a = "sample_resource ''RES-1'' 0 10" and ?b = "sample_resource ''RES-2'' 10 20"
  have get: "bt_get (resource_leases sample_requested) ''RES-1'' = Some ?a"
    "bt_get (resource_leases sample_requested) ''RES-2'' = Some ?b" by code_simp+
  have "claims_collide (resource_claim ?a) (resource_claim ?b)" "holds_at ?a 5" by code_simp+
  with resources_held_exclusively [OF sample_requested_replay get] get show ?thesis by blast
qed

text \<open>
  C10: Along any log that creates an Office release, every dispatch is paid for by a clearance of its
  own: an approval, an approved retry, or the expiry of a dispatch that is safe to repeat. What is
  cleared and not yet dispatched is the difference.
\<close>

theorem office_dispatches_are_cleared:
  assumes "apply_all s envs = Inr s'" and "bt_get (office_releases s) k = None"
  shows "length (filter (acts_on office_log_label claims k) envs) +
      (case bt_get (office_releases s') k of
         None \<Rightarrow> 0 | Some r \<Rightarrow> of_bool (release_status r = office_release_status.Approved)) =
    length (filter (acts_on office_log_label clears k) envs)"
  using office_log.run_balance_fresh [of s envs s' k] assms
  by (simp add: apply_all_def office_request_def pending_def office_view_def cong: option.case_cong)

lemma sample_settled_replay:
  "replay (envelopes_of (sample_events @ sample_requests @ sample_outcomes)) = Inr sample_settled"
proof -
  have "is_ok (replay (envelopes_of (sample_events @ sample_requests @ sample_outcomes)))" by code_simp
  then show ?thesis by (auto simp: is_ok_iff sample_settled_def)
qed

lemmas sample_log_run =
  sample_requested_replay [unfolded replay_def] sample_settled_replay [unfolded replay_def]

theorem office_dispatches_are_cleared_witness:
  "length (filter (acts_on office_log_label claims ''REL-1'')
     (envelopes_of (sample_events @ sample_requests @ sample_outcomes))) = 1"
proof -
  let ?log = "envelopes_of (sample_events @ sample_requests @ sample_outcomes)"
  have "bt_get (office_releases default_state) ''REL-1'' = None" by code_simp
  from office_dispatches_are_cleared [OF sample_log_run(2) this]
  have "length (filter (acts_on office_log_label claims ''REL-1'') ?log) +
      (case bt_get (office_releases sample_settled) ''REL-1'' of
         None \<Rightarrow> 0 | Some r \<Rightarrow> of_bool (release_status r = office_release_status.Approved)) =
    length (filter (acts_on office_log_label clears ''REL-1'') ?log)" .
  moreover have "(case bt_get (office_releases sample_settled) ''REL-1'' of
         None \<Rightarrow> 0 | Some r \<Rightarrow> of_bool (release_status r = office_release_status.Approved)) = (0 :: nat)"
    by code_simp
  moreover have "length (filter (acts_on office_log_label clears ''REL-1'') ?log) = 1" by code_simp
  ultimately show ?thesis by linarith
qed

text \<open>
  C11: A release that was rejected, released, or left with an unclear outcome is never touched again,
  whatever follows in the log.
\<close>

theorem office_outcome_final:
  assumes "apply_all s envs = Inr s'" and "bt_get (office_releases s) k = Some r"
    and "release_status r \<in> {office_release_status.Rejected, office_release_status.Released,
      office_release_status.Indeterminate}"
  shows "bt_get (office_releases s') k = Some r"
  using office_log.run_final [of s envs s' k r] assms
  by (auto simp: apply_all_def office_request_def office_view_def)

theorem office_outcome_final_witness:
  "\<exists>r. bt_get (office_releases sample_settled) ''REL-1'' = Some r \<and>
    (\<forall>envs s'. apply_all sample_settled envs = Inr s' \<longrightarrow>
       bt_get (office_releases s') ''REL-1'' = Some r)"
proof -
  have "case bt_get (office_releases sample_settled) ''REL-1'' of
      None \<Rightarrow> False | Some r \<Rightarrow> release_status r = office_release_status.Indeterminate" by code_simp
  then obtain r where "bt_get (office_releases sample_settled) ''REL-1'' = Some r"
    "release_status r = office_release_status.Indeterminate" by (auto split: option.splits)
  with office_outcome_final [where s = sample_settled and k = "''REL-1''"] show ?thesis by blast
qed

text \<open>
  C12: The same of GitLab writes, whose expired dispatches clear nothing: the dispatches of a write
  along a log are never more than the approvals, first ones and retries, that people gave it.
\<close>

theorem gitlab_dispatches_are_approved:
  assumes "apply_all s envs = Inr s'" and "bt_get (gitlab_writes s) k = None"
  shows "length (filter (acts_on gitlab_log_label claims k) envs) \<le>
    length (filter (\<lambda>env. \<exists>fid tid author at. env_event env \<in>
        {GitLabEvent (GitLabWriteApproved fid tid k author at),
         GitLabEvent (GitLabWriteRetryApproved fid tid k author at)}) envs)"
proof -
  have "acts_on gitlab_log_label clears k env \<longleftrightarrow> (\<exists>fid tid author at. env_event env \<in>
        {GitLabEvent (GitLabWriteApproved fid tid k author at),
         GitLabEvent (GitLabWriteRetryApproved fid tid k author at)})" for env
  proof (cases "env_event env")
    case (GitLabEvent e)
    then show ?thesis by (cases e) (auto simp: acts_on_def gitlab_log_label_def clears_def)
  qed (simp_all add: acts_on_def gitlab_log_label_def)
  then have "acts_on gitlab_log_label clears k = (\<lambda>env. \<exists>fid tid author at. env_event env \<in>
        {GitLabEvent (GitLabWriteApproved fid tid k author at),
         GitLabEvent (GitLabWriteRetryApproved fid tid k author at)})" by (rule ext)
  moreover have "length (filter (acts_on gitlab_log_label claims k) envs) \<le>
      length (filter (acts_on gitlab_log_label clears k) envs)"
    using gitlab_log.run_balance_fresh [of s envs s' k] assms
    by (simp add: apply_all_def gitlab_request_def)
  ultimately show ?thesis by simp
qed

theorem gitlab_dispatches_are_approved_witness:
  "\<exists>envs s'. apply_all default_state envs = Inr s' \<and>
    length (filter (acts_on gitlab_log_label claims ''GLW-1'') envs) = 1 \<and>
    1 \<le> length (filter (\<lambda>env. \<exists>fid tid author at. env_event env \<in>
        {GitLabEvent (GitLabWriteApproved fid tid ''GLW-1'' author at),
         GitLabEvent (GitLabWriteRetryApproved fid tid ''GLW-1'' author at)}) envs)"
proof -
  let ?log = "envelopes_of (sample_events @ sample_requests @ sample_outcomes)"
  have none: "bt_get (gitlab_writes default_state) ''GLW-1'' = None" by code_simp
  have one: "length (filter (acts_on gitlab_log_label claims ''GLW-1'') ?log) = 1" by code_simp
  with gitlab_dispatches_are_approved [OF sample_log_run(2) none] sample_log_run(2)
  show ?thesis by (intro exI conjI) auto
qed

text \<open>
  What was reviewed is what is dispatched: along any log the payload of a GitLab write, its
  digest, its task and its requester stay as they were requested.
\<close>

theorem gitlab_subject_frozen:
  assumes "apply_all s envs = Inr s'" and "bt_get (gitlab_writes s) k = Some r"
  shows "\<exists>r'. bt_get (gitlab_writes s') k = Some r' \<and> write_payload r' = write_payload r \<and>
    write_payload_sha256 r' = write_payload_sha256 r \<and> write_flow_id r' = write_flow_id r \<and>
    write_task_id r' = write_task_id r \<and> write_requested_by r' = write_requested_by r"
  using gitlab_log.run_subject [of s envs s' k r] assms
  by (auto simp: apply_all_def gitlab_request_def gitlab_subject_def)

definition sample_outcome_log :: "event_envelope list" where
  "sample_outcome_log =
     drop (length (sample_events @ sample_requests))
       (envelopes_of (sample_events @ sample_requests @ sample_outcomes))"

lemma sample_outcomes_run: "apply_all sample_requested sample_outcome_log = Inr sample_settled"
proof -
  have "envelopes_of (sample_events @ sample_requests @ sample_outcomes) =
      envelopes_of (sample_events @ sample_requests) @ sample_outcome_log"
    by (simp add: sample_outcome_log_def envelopes_of_def enumerate_append_eq)
  with sample_log_run show ?thesis by (auto simp: apply_all_def try_fold_append)
qed

theorem gitlab_subject_frozen_witness:
  "\<exists>r'. bt_get (gitlab_writes sample_settled) ''GLW-1'' = Some r' \<and>
    write_payload r' = write_payload sample_write \<and> write_status r' = gitlab_write_status.Dispatching"
proof -
  have "bt_get (gitlab_writes sample_requested) ''GLW-1'' = Some sample_write" by code_simp
  from gitlab_subject_frozen [OF sample_outcomes_run this] obtain r' where
    r': "bt_get (gitlab_writes sample_settled) ''GLW-1'' = Some r'"
      "write_payload r' = write_payload sample_write" by blast
  moreover have "map_option write_status (bt_get (gitlab_writes sample_settled) ''GLW-1'') =
      Some gitlab_write_status.Dispatching" by code_simp
  ultimately show ?thesis by simp
qed

text \<open>A delivered notification stays delivered, with the response it got, along any log.\<close>

theorem delivered_stays_delivered:
  assumes "apply_all s envs = Inr s'" and "bt_get (notification_deliveries s) did = Some d"
    and "delivery_status d = Delivered"
  shows "bt_get (notification_deliveries s') did = Some d"
  using assms by (rule delivered_final_log)

theorem delivered_stays_delivered_witness:
  "\<exists>d. bt_get (notification_deliveries sample_settled) ''NDL-1'' = Some d \<and>
    (\<forall>envs s'. apply_all sample_settled envs = Inr s' \<longrightarrow>
       bt_get (notification_deliveries s') ''NDL-1'' = Some d)"
proof -
  have "case bt_get (notification_deliveries sample_settled) ''NDL-1'' of
      None \<Rightarrow> False | Some d \<Rightarrow> delivery_status d = Delivered" by code_simp
  then obtain d where d: "bt_get (notification_deliveries sample_settled) ''NDL-1'' = Some d"
    "delivery_status d = Delivered" by (auto split: option.splits)
  with delivered_stays_delivered [OF _ d] show ?thesis by blast
qed

text \<open>
  However often an external system repeats a delivery, a log that can be replayed processes the
  interaction at most once.
\<close>

theorem interaction_processed_once:
  assumes "apply_all s envs = Inr s'"
  shows "length (filter (processes k) envs) \<le> 1"
  using assms by (rule processed_at_most_once)

theorem interaction_processed_once_witness:
  "\<exists>envs s'. apply_all default_state envs = Inr s' \<and> length (filter (processes ''feishu:D-1'') envs) = 1"
proof -
  let ?log = "envelopes_of (sample_events @ sample_requests @ sample_outcomes)"
  have "0 < length (filter (processes ''feishu:D-1'') ?log)" by code_simp
  with interaction_processed_once [OF sample_log_run(2), of "''feishu:D-1''"]
  have "length (filter (processes ''feishu:D-1'') ?log) = 1" by linarith
  with sample_log_run(2) show ?thesis by blast
qed

section \<open>Working time\<close>

text \<open>
  C13: The next available instant is the first one, at or after the start, on a working day, within
  the hours of the day and outside every active block of time off.
\<close>

theorem next_available_is_first:
  assumes "next_available c start = Inr t"
  shows "start \<le> t \<and> available c t \<and> (\<forall>u. start \<le> u \<and> u < t \<longrightarrow> \<not> available c u)"
  using next_available_spec [OF assms] by blast

definition sample_hour :: int where
  "sample_hour = 3600 * 10 ^ 9"

text \<open>Weekdays from nine to five; Friday, the second of January 1970, is off from ten to noon.\<close>

definition sample_block :: availability_block where
  "sample_block =
     \<lparr>block_id = ''OFF-1'', block_principal_id = ''PRN-1'', block_starts_at = 34 * sample_hour,
      block_ends_at = 36 * sample_hour, block_reason = ''dentist'', block_created_by = ''ada'',
      block_created_at = 0, block_cancelled_by = None, block_cancelled_at = None\<rparr>"

definition sample_calendar :: work_calendar where
  "sample_calendar =
     \<lparr>calendar_principal_id = ''PRN-1'', calendar_utc_offset_minutes = 0,
      calendar_working_days = [Monday, Tuesday, Wednesday, Thursday, Friday],
      calendar_day_start_minute = 540, calendar_day_end_minute = 1020,
      calendar_time_off = [sample_block], calendar_updated_by = ''ada'', calendar_updated_at = 0\<rparr>"

theorem next_available_is_first_witness:
  "next_available sample_calendar (35 * sample_hour) = Inr (36 * sample_hour) \<and>
    \<not> available sample_calendar (36 * sample_hour - 1)"
proof -
  have first: "next_available sample_calendar (35 * sample_hour) = Inr (36 * sample_hour)" by code_simp
  have "35 * sample_hour \<le> 36 * sample_hour - 1 \<and> 36 * sample_hour - 1 < 36 * sample_hour"
    by (simp add: sample_hour_def)
  with first next_available_is_first [OF first] show ?thesis by blast
qed

text \<open>
  C14: Availability is found whenever there is some: if an available instant lies within the days
  that the search visits, less one for every block of time off still ahead, the search succeeds, and
  not later than that instant.
\<close>

theorem availability_is_found:
  assumes "validate_calendar c = Inr ()" and "available c t" and "local_date c t \<le> max_date"
    and "start \<le> t"
    and "nat (local_date c t - local_date c start) + open_blocks c start < max_search_days"
  shows "\<exists>t'. next_available c start = Inr t' \<and> t' \<le> t"
  using assms by (rule next_available_complete)

theorem availability_is_found_witness:
  "\<exists>t'. next_available sample_calendar 0 = Inr t' \<and> t' \<le> 105 * sample_hour"
proof (rule availability_is_found)
  show "validate_calendar sample_calendar = Inr ()" by code_simp
  show "available sample_calendar (105 * sample_hour)" by code_simp
  show "local_date sample_calendar (105 * sample_hour) \<le> max_date" by code_simp
  show "0 \<le> 105 * sample_hour" by (simp add: sample_hour_def)
  have "local_date sample_calendar (105 * sample_hour) - local_date sample_calendar 0 = 4" by code_simp
  moreover have "open_blocks sample_calendar 0 = 1" by code_simp
  ultimately show "nat (local_date sample_calendar (105 * sample_hour) - local_date sample_calendar 0) +
      open_blocks sample_calendar 0 < max_search_days"
    by (simp add: max_search_days_def)
qed

text \<open>
  C15: Adding working hours is counting them: between the start and the result lies exactly the asked
  number of milliseconds of available time, and the result ends an available stretch of it. The
  bounds of the time off and the start fall on whole milliseconds, and no block ends before it starts.
\<close>

theorem working_hours_are_counted:
  assumes "add_working_hours c start hours = Inr t" and "on_ms start"
    and "calendar_on_ms c" and "blocks_ordered c" and "0 < hours_to_ms hours"
  shows "worked c start t = hours_to_ms hours * ms_ns \<and> available c (t - 1)"
  using assms by (rule add_working_hours_spec)

theorem working_hours_are_counted_witness:
  "add_working_hours sample_calendar (33 * sample_hour) (f64_lit 3 1) = Inr (38 * sample_hour) \<and>
    worked sample_calendar (33 * sample_hour) (38 * sample_hour) = 3 * sample_hour"
proof -
  have run: "add_working_hours sample_calendar (33 * sample_hour) (f64_lit 3 1) = Inr (38 * sample_hour)"
    by code_simp
  have facts: "on_ms (33 * sample_hour)" "calendar_on_ms sample_calendar"
    "blocks_ordered sample_calendar" "0 < hours_to_ms (f64_lit 3 1)" by code_simp+
  have "hours_to_ms (f64_lit 3 1) * ms_ns = 3 * sample_hour" by code_simp
  with working_hours_are_counted [OF run facts] run show ?thesis by simp
qed

text \<open>
  The working days a calendar prints are the working days that are read back.\<close>

theorem workdays_round_trip:
  assumes "days \<noteq> []" and "sorted_wrt (<) days"
  shows "parse_workdays (join_with '','' (map short_name days)) = Inr days"
  using assms by (rule parse_workdays_short_names)

theorem workdays_round_trip_witness:
  "parse_workdays ''Mon,Wed,Sun'' = Inr [Monday, Wednesday, Sunday]"
  using workdays_round_trip [of "[Monday, Wednesday, Sunday]"]
  by (simp add: less_workday_def)

section \<open>Scheduling\<close>

text \<open>
  C16: The queue of ready tasks empties, whatever the dependencies: the order it produces has no
  repetition, lists every dependency before what depends on it, and is complete exactly when the
  dependencies have no cycle.
\<close>

theorem dependency_order_terminates:
  assumes "build_graph name label needs xs = Inr g"
  shows "\<exists>order. dependency_order g = Some order \<and> distinct order \<and>
    (\<forall>k < length order. \<forall>d. (d, order ! k) \<in> needs_edge name needs xs \<longrightarrow> d \<in> set (take k order)) \<and>
    (length order = length xs \<longleftrightarrow> acyclic (needs_edge name needs xs))"
  using build_graph_spec [OF assms] dependency_order_spec [of g] by metis

definition sample_draft :: "string \<Rightarrow> string list \<Rightarrow> task_draft" where
  "sample_draft key needs =
     \<lparr>task_draft_key = key, task_draft_title = key, task_draft_description = ''Do it'',
      task_draft_required_capabilities = [], task_draft_depends_on = needs,
      task_draft_effort_hours = f64_lit 3 1, task_draft_requires_human = False,
      task_draft_acceptance_criteria = []\<rparr>"

definition sample_drafts :: "task_draft list" where
  "sample_drafts = [sample_draft ''land'' [''build'', ''plan''], sample_draft ''build'' [''plan''],
     sample_draft ''plan'' []]"

definition sample_graph :: graph where
  "sample_graph =
     (case build_graph task_draft_key task_draft_key task_draft_depends_on sample_drafts of
        Inr g \<Rightarrow> g | Inl _ \<Rightarrow> undefined)"

lemma sample_graph_built:
  "build_graph task_draft_key task_draft_key task_draft_depends_on sample_drafts = Inr sample_graph"
proof -
  have "is_ok (build_graph task_draft_key task_draft_key task_draft_depends_on sample_drafts)" by code_simp
  then show ?thesis by (auto simp: is_ok_iff sample_graph_def)
qed

theorem dependency_order_terminates_witness:
  "dependency_order sample_graph = Some [2, 1, 0] \<and>
    acyclic (needs_edge task_draft_key task_draft_depends_on sample_drafts)"
proof -
  have order: "dependency_order sample_graph = Some [2, 1, 0]" by code_simp
  with dependency_order_terminates [OF sample_graph_built] show ?thesis by (auto simp: sample_drafts_def)
qed

text \<open>
  C17: In a schedule no task starts before everything it depends on is finished with the confidence
  of the 80th percentile, and no task finishes after the end of the plan.
\<close>

theorem schedule_respects_dependencies:
  assumes "schedule fresh now drafts assignments s = Inr r" and "t \<in> set (schedule_tasks r)"
  shows "estimate_earliest_start (task_estimate t) \<le> estimate_p50_finish (task_estimate t) \<and>
    estimate_earliest_start (task_estimate t) \<le> estimate_p80_finish (task_estimate t) \<and>
    estimate_p80_finish (task_estimate t) \<le> schedule_p80_finish r \<and>
    (\<forall>dep \<in> set (task_depends_on t). \<exists>u \<in> set (schedule_tasks r).
       task_id u = dep \<and> estimate_p80_finish (task_estimate u) \<le> estimate_earliest_start (task_estimate t))"
  using assms by (rule schedule_precedence)

definition sample_assignment :: assignment where
  "sample_assignment =
     \<lparr>assignment_owner = \<lparr>target_kind = Team, target_id = ''TEAM-1'', target_name = ''core''\<rparr>,
      assignment_copilots = [], assignment_score = 0, assignment_rationale = []\<rparr>"

definition sample_assignments :: "(string, assignment) btree" where
  "sample_assignments = fold (\<lambda>d. bt_insert (task_draft_key d) sample_assignment) sample_drafts bt_empty"


lemma sample_drafts_schedulable:
  "distinct (map task_draft_key sample_drafts)" "sample_drafts \<noteq> []"
  "acyclic (needs_edge task_draft_key task_draft_depends_on sample_drafts)"
  "d \<in> set sample_drafts \<Longrightarrow> \<exists>a. bt_get sample_assignments (task_draft_key d) = Some a \<and>
      target_kind (assignment_owner a) = Team"
proof -
  have "dependency_order sample_graph = Some [2, 1, 0]" by code_simp
  with build_graph_spec [OF sample_graph_built] dependency_order_spec [of sample_graph]
  show "acyclic (needs_edge task_draft_key task_draft_depends_on sample_drafts)"
    by (auto simp: sample_drafts_def)
  have "list_all (\<lambda>d. case bt_get sample_assignments (task_draft_key d) of
      None \<Rightarrow> False | Some a \<Rightarrow> target_kind (assignment_owner a) = Team) sample_drafts" by code_simp
  then show "d \<in> set sample_drafts \<Longrightarrow> \<exists>a. bt_get sample_assignments (task_draft_key d) = Some a \<and>
      target_kind (assignment_owner a) = Team"
    by (auto simp: list_all_iff split: option.splits)
qed (simp_all add: sample_drafts_def sample_draft_def)


theorem schedule_respects_dependencies_witness:
  "\<exists>r t. schedule show_nat 0 sample_drafts sample_assignments default_state = Inr r \<and>
    t \<in> set (schedule_tasks r) \<and> estimate_p80_finish (task_estimate t) \<le> schedule_p80_finish r"
proof -
  obtain r where r: "schedule show_nat 0 sample_drafts sample_assignments default_state = Inr r"
    using schedule_succeeds [OF sample_graph_built sample_drafts_schedulable] by blast
  then have "schedule_tasks r \<noteq> []"
    using schedule_critical_chain [OF r] by auto
  then obtain t where "t \<in> set (schedule_tasks r)" by (cases "schedule_tasks r") auto
  with schedule_respects_dependencies [OF r] r show ?thesis by blast
qed

text \<open>
  The critical path of a schedule is a chain of dependencies, named by the keys of tasks of the
  plan, that ends at a task finishing last.
\<close>

theorem critical_path_is_a_chain:
  assumes "schedule fresh now drafts assignments s = Inr r"
  shows "\<exists>ds t. schedule_critical_path r = map task_draft_key ds \<and> ds \<noteq> [] \<and>
    set ds \<subseteq> set drafts \<and>
    dependency_chain task_draft_key task_draft_key task_draft_depends_on ds \<and>
    t \<in> set (schedule_tasks r) \<and> task_key t = task_draft_key (last ds) \<and>
    estimate_p80_finish (task_estimate t) = schedule_p80_finish r"
  using assms by (rule schedule_critical_chain)

theorem critical_path_is_a_chain_witness:
  "\<exists>r. schedule show_nat 0 sample_drafts sample_assignments default_state = Inr r \<and>
    schedule_critical_path r \<noteq> []"
proof -
  obtain r where r: "schedule show_nat 0 sample_drafts sample_assignments default_state = Inr r"
    using schedule_succeeds [OF sample_graph_built sample_drafts_schedulable] by blast
  with critical_path_is_a_chain [OF r] show ?thesis by auto
qed

text \<open>A plan whose dependencies have a cycle is refused with that reason.\<close>

theorem cyclic_plans_are_refused:
  assumes "build_graph task_draft_key task_draft_key task_draft_depends_on drafts = Inr g"
    and "distinct (map task_draft_key drafts)" and "drafts \<noteq> []"
    and "\<not> acyclic (needs_edge task_draft_key task_draft_depends_on drafts)"
  shows "schedule fresh now drafts assignments s = Inl cycle_error"
  using assms by (rule schedule_rejects_cycles)

definition cyclic_drafts :: "task_draft list" where
  "cyclic_drafts = [sample_draft ''hen'' [''egg''], sample_draft ''egg'' [''hen'']]"

theorem cyclic_plans_are_refused_witness:
  "schedule show_nat 0 cyclic_drafts bt_empty default_state = Inl cycle_error"
proof -
  have "is_ok (build_graph task_draft_key task_draft_key task_draft_depends_on cyclic_drafts)" by code_simp
  then obtain g where g: "build_graph task_draft_key task_draft_key task_draft_depends_on cyclic_drafts = Inr g"
    by (auto simp: is_ok_iff)
  have "bt_get (index_of task_draft_key cyclic_drafts) ''egg'' = Some 1"
    "bt_get (index_of task_draft_key cyclic_drafts) ''hen'' = Some 0" by code_simp+
  then have "(1, 0) \<in> needs_edge task_draft_key task_draft_depends_on cyclic_drafts"
    "(0, 1) \<in> needs_edge task_draft_key task_draft_depends_on cyclic_drafts"
    by (simp_all add: needs_edge_def cyclic_drafts_def sample_draft_def)
  then have "(0, 0) \<in> (needs_edge task_draft_key task_draft_depends_on cyclic_drafts)\<^sup>+"
    by (metis r_into_trancl trancl_trans)
  then have "\<not> acyclic (needs_edge task_draft_key task_draft_depends_on cyclic_drafts)"
    by (auto simp: acyclic_def)
  with cyclic_plans_are_refused [OF g] show ?thesis
    by (simp add: cyclic_drafts_def sample_draft_def)
qed

text \<open>
  Rescheduling a running flow keeps the order: no unfinished task starts before now, nor before
  what it depends on is finished.
\<close>

theorem reschedule_respects_dependencies:
  assumes "reschedule tx f s now = Inr r" and "distinct (map task_id (flow_tasks f))"
    and "t \<in> set (flow_tasks f)" and "\<not> task_status_is_terminal (task_status t)"
  shows "\<exists>e. bt_get (reschedule_task_estimates r) (task_id t) = Some e \<and>
    now \<le> estimate_earliest_start e \<and>
    estimate_earliest_start e \<le> estimate_p50_finish e \<and>
    estimate_earliest_start e \<le> estimate_p80_finish e \<and>
    (\<forall>dep \<in> set (task_depends_on t). \<exists>v. bt_get (reschedule_task_estimates r) dep = Some v \<and>
       estimate_p80_finish v \<le> estimate_earliest_start e)"
  using assms by (rule reschedule_precedence)

definition assigned_flow :: flow where
  "assigned_flow = sample_flow\<lparr>flow_tasks :=
     [(sample_task ''TASK-1'' ''build'')\<lparr>task_assignment := Some sample_assignment\<rparr>]\<rparr>"

theorem reschedule_respects_dependencies_witness:
  "\<exists>r e. reschedule ascii_texts assigned_flow default_state 50 = Inr r \<and>
    bt_get (reschedule_task_estimates r) ''TASK-1'' = Some e \<and> 50 \<le> estimate_earliest_start e"
proof -
  let ?t = "(sample_task ''TASK-1'' ''build'')\<lparr>task_assignment := Some sample_assignment\<rparr>"
  have tasks: "flow_tasks assigned_flow = [?t]" by (simp add: assigned_flow_def)
  have "is_ok (build_graph task_id task_key task_depends_on (flow_tasks assigned_flow))" by code_simp
  then obtain g where g: "build_graph task_id task_key task_depends_on (flow_tasks assigned_flow) = Inr g"
    by (auto simp: is_ok_iff)
  have "needs_edge task_id task_depends_on (flow_tasks assigned_flow) = {}"
    by (auto simp: needs_edge_def tasks sample_task_def less_Suc_eq)
  with reschedule_succeeds [OF g, of ascii_texts default_state 50] obtain r where
    r: "reschedule ascii_texts assigned_flow default_state 50 = Inr r"
    by (auto simp: tasks sample_assignment_def acyclic_def)
  have "\<not> task_status_is_terminal task_status.Proposed" by (simp add: task_status_is_terminal_def)
  then have "\<exists>e. bt_get (reschedule_task_estimates r) (task_id ?t) = Some e \<and> 50 \<le> estimate_earliest_start e"
    using reschedule_respects_dependencies [OF r, of ?t]
    by (fastforce simp: tasks sample_task_def)
  with r show ?thesis by (auto simp: sample_task_def)
qed

section \<open>Matching\<close>

text \<open>
  C19: When any individual is eligible, the task goes to the best of them: nobody eligible has a
  higher score, or the same score and a smaller name, and the load of the chosen one grows by one.
\<close>

theorem best_principal_is_chosen:
  assumes "length (normalized_set tx (task_draft_required_capabilities d)) < 2 ^ 53"
    and "bt_get (principals s) k = Some q" and "eligible tx d q"
  shows "\<exists>a load' j p. match_task tx clock load s d = Inr (a, load') \<and>
    bt_get (principals s) j = Some p \<and> eligible tx d p \<and>
    assignment_owner a = target_for_principal p \<and>
    load_of load' (principal_id p) = load_of load (principal_id p) + 1 \<and>
    candidate_rank (assignment_score a) (principal_name p)
      \<le> candidate_rank (task_score tx clock load s d q) (principal_name q)"
proof -
  from match_task_succeeds [OF assms] obtain a load' where m: "match_task tx clock load s d = Inr (a, load')"
    by blast
  with match_task_individual [OF assms(1) m] assms(2,3) show ?thesis by blast
qed

definition sample_task_draft :: task_draft where
  "sample_task_draft =
     \<lparr>task_draft_key = ''build'', task_draft_title = ''Build'', task_draft_description = ''Build it'',
      task_draft_required_capabilities = [''Rust''], task_draft_depends_on = [],
      task_draft_effort_hours = f64_lit 3 1, task_draft_requires_human = True,
      task_draft_acceptance_criteria = []\<rparr>"

definition sample_coder :: principal where
  "sample_coder = (sample_principal ''PRN-1'' ''ada'')\<lparr>principal_capabilities := [''rust'']\<rparr>"

definition sample_staff :: org_state where
  "sample_staff = default_state\<lparr>principals :=
     bt_insert ''PRN-1'' sample_coder (bt_insert ''PRN-2'' (sample_principal ''PRN-2'' ''bob'') bt_empty)\<rparr>"

lemma sample_requirements:
  "length (normalized_set ascii_texts (task_draft_required_capabilities sample_task_draft)) < 2 ^ 53"
proof -
  have "length (normalized_set ascii_texts (task_draft_required_capabilities sample_task_draft)) = 1" by code_simp
  then show ?thesis by simp
qed

theorem best_principal_is_chosen_witness:
  "\<exists>a load' p. match_task ascii_texts (\<lambda>_. 0) bt_empty sample_staff sample_task_draft = Inr (a, load') \<and>
    assignment_owner a = target_for_principal p \<and> load_of load' (principal_id p) = 1"
proof -
  have get: "bt_get (principals sample_staff) ''PRN-1'' = Some sample_coder"
    by (simp add: sample_staff_def)
  have ok: "eligible ascii_texts sample_task_draft sample_coder" by code_simp
  have none: "load_of bt_empty pid = 0" for pid by (simp add: load_of_def)
  from best_principal_is_chosen [OF sample_requirements get ok, of "\<lambda>_. 0" bt_empty]
  show ?thesis by (auto simp: none)
qed

text \<open>
  Matching fails exactly when nobody can do the task: no individual is eligible and no active
  team has all the capabilities (with a human member, when the task needs one).
\<close>

theorem match_fails_without_candidates:
  assumes "length (normalized_set tx (task_draft_required_capabilities d)) < 2 ^ 53"
  shows "match_task tx clock load s d = Inl (NoEligibleAssignee (task_draft_title d)) \<longleftrightarrow>
    (\<forall>k p. bt_get (principals s) k = Some p \<longrightarrow> \<not> eligible tx d p) \<and>
    (\<forall>k t. bt_get (teams s) k = Some t \<longrightarrow> \<not> eligible_team tx s d t)"
  using assms by (rule match_task_fails)

theorem match_fails_without_candidates_witness:
  "match_task ascii_texts (\<lambda>_. 0) bt_empty default_state sample_task_draft =
    Inl (NoEligibleAssignee ''Build'')"
  using match_fails_without_candidates [OF sample_requirements, of "\<lambda>_. 0" bt_empty default_state]
  by (simp add: default_state_def sample_task_draft_def)

section \<open>Authority\<close>



text \<open>
  Granting a role gives the named principal that role and changes no other role of anybody, as
  long as the new binding does not reuse the identifier of an old one.
\<close>

theorem grant_role_effect_on_state:
  assumes "grant_role ctx target role actor (db, s) = (Inr b, db', s')"
    and "bt_get (role_bindings s) (role_binding_id b) = None"
  shows "\<exists>t. lookup_principal s target = Some t \<and>
    (\<forall>pid r. has_role s' pid r \<longleftrightarrow> has_role s pid r \<or> (pid = principal_id t \<and> r = role))"
  using assms by (rule grant_role_gives)

definition sample_context :: "domain_event list \<Rightarrow> call_context" where
  "sample_context table =
     \<lparr>ctx_library = sample_library table,
      ctx_environment = sample_world\<lparr>event_uuid := (\<lambda>n. show_nat (100 + n))\<rparr>,
      ctx_faults = no_faults, ctx_clock = (\<lambda>_. 7), ctx_uuid = show_nat, ctx_texts = ascii_texts, ctx_show_time = show_int,
      ctx_is_dir = (\<lambda>_. True), ctx_tools = sample_tools, ctx_match_clock = (\<lambda>_ _. 0)\<rparr>"

text \<open>A store that holds the log of some events.\<close>

definition store_of :: "domain_event list \<Rightarrow> flow_store" where
  "store_of es =
     (case commit_as (sample_library es) sample_world no_faults ''ORG-1'' ''ada'' es
             (SqliteStore bt_empty, default_state) of (_, db, _) \<Rightarrow> db)"

theorem grant_role_effect_on_state_witness:
  "\<exists>b db' s'. grant_role (sample_context []) ''ada'' Manager ''admin'' (store_of sample_events, sample_state) = (Inr b, db', s') \<and>
    has_role s' ''PRN-1'' Manager \<and> has_role s' ''PRN-1'' TenantAdmin"
proof -
  let ?r = "grant_role (sample_context []) ''ada'' Manager ''admin'' (store_of sample_events, sample_state)"
  have "case fst ?r of Inl _ \<Rightarrow> False | Inr b \<Rightarrow> bt_get (role_bindings sample_state) (role_binding_id b) = None"
    by code_simp
  then obtain b db' s' where r: "?r = (Inr b, db', s')"
    and fresh: "bt_get (role_bindings sample_state) (role_binding_id b) = None"
    by (cases ?r) (auto split: sum.splits)
  have ada: "map_option principal_id (lookup_principal sample_state ''ada'') = Some ''PRN-1''" by code_simp
  have role: "has_role sample_state ''PRN-1'' TenantAdmin" by code_simp
  from grant_role_effect_on_state [OF r fresh] ada role r show ?thesis by auto
qed

text \<open>C21: An organization that has a tenant administrator still has one after any revocation.\<close>

theorem last_administrator_stays:
  assumes "revoke_role ctx bid actor (db, s) = (Inr b, db', s')" and "state_ok s"
    and "has_role s pid TenantAdmin"
  shows "\<exists>pid'. has_role s' pid' TenantAdmin"
proof -
  have "registry_filed s" using assms(2) by (simp add: state_ok_def)
  moreover have "has_admin s" using assms(3) by (auto simp: has_admin_def)
  ultimately show ?thesis using revoke_role_keeps_admin [OF assms(1)] by (simp add: has_admin_def)
qed

definition second_role :: domain_event where
  "second_role = RegistryEvent (RoleGranted (sample_role ''ROL-2'' ''PRN-1'' Manager))"

definition two_role_state :: org_state where
  "two_role_state =
     (case replay (envelopes_of (sample_events @ [second_role])) of Inr s \<Rightarrow> s | Inl _ \<Rightarrow> default_state)"

theorem last_administrator_stays_witness:
  "\<exists>b db' s'. revoke_role (sample_context []) ''ROL-2'' ''ada'' (store_of (sample_events @ [second_role]), two_role_state)
      = (Inr b, db', s') \<and> (\<exists>pid. has_role s' pid TenantAdmin)"
proof -
  let ?r = "revoke_role (sample_context []) ''ROL-2'' ''ada'' (store_of (sample_events @ [second_role]), two_role_state)"
  have "is_ok (fst ?r)" by code_simp
  then obtain b db' s' where r: "?r = (Inr b, db', s')"
    by (cases ?r) (auto simp: is_ok_iff)
  have "is_ok (replay (envelopes_of (sample_events @ [second_role])))" by code_simp
  then have "replay (envelopes_of (sample_events @ [second_role])) = Inr two_role_state"
    by (auto simp: is_ok_iff two_role_state_def)
  then have ok: "state_ok two_role_state" by (rule state_ok_replay)
  have "has_role two_role_state ''PRN-1'' TenantAdmin" by code_simp
  from last_administrator_stays [OF r ok this] r show ?thesis by blast
qed

end
